(* ===== verification/Prelude.thy ===== *)
theory Prelude
  imports
    Main
    "HOL-Library.Word"
    "HOL-Library.AList"
    "HOL-Library.List_Lexorder"
    "HOL-Library.Char_ord"
    "HOL-Library.Sublist"
    "HOL-Library.Monad_Syntax"
begin

text \<open>
  The shared layer of the development: the machine types of the C++ sources, the result
  codes of the C ABI, little-endian byte images (\<open>append_le\<close> and the \<open>memcpy\<close> reads of the
  sources), byte strings, the sort-and-unique idiom, and the lemmas on association lists
  that stand for \<open>std::unordered_map\<close> and \<open>std::map\<close>.
\<close>

unbundle bit_operations_syntax

section \<open>Machine types\<close>

type_synonym u8 = "8 word"
type_synonym u16 = "16 word"
type_synonym u32 = "32 word"
type_synonym u64 = "64 word"

text \<open>An \<open>int32_t\<close> is kept as an integer; casts to \<open>uint32_t\<close> are written out.\<close>

type_synonym i32 = int
type_synonym bytes = "u8 list"

text \<open>
  Containers: a \<open>std::unordered_map\<close> or \<open>std::map\<close> is an association list (its order is the
  iteration order), a \<open>std::unordered_set\<close> is a list without duplicates.
\<close>

type_synonym ('k, 'v) amap = "('k \<times> 'v) list"
type_synonym 'a uset = "'a list"

named_theorems wire_simps \<open>decoder steps on encoder output\<close>
named_theorems queue_simps \<open>queue operations\<close>
named_theorems frame_simps \<open>fields an operation leaves alone\<close>

section \<open>Result codes of the C ABI\<close>

datatype seds_result =
    SEDS_OK | SEDS_ERR | SEDS_GENERIC_ERROR | SEDS_INVALID_TYPE | SEDS_SIZE_MISMATCH
  | SEDS_SIZE_MISMATCH_ERROR | SEDS_EMPTY_ENDPOINTS | SEDS_TIMESTAMP_INVALID
  | SEDS_MISSING_PAYLOAD | SEDS_HANDLER_ERROR | SEDS_BAD_ARG | SEDS_PERMISSION_DENIED
  | SEDS_SERIALIZE | SEDS_DESERIALIZE | SEDS_IO | SEDS_INVALID_UTF8 | SEDS_TYPE_MISMATCH
  | SEDS_INVALID_LINK_ID | SEDS_PACKET_TOO_LARGE

fun result_code :: "seds_result \<Rightarrow> int" where
  "result_code SEDS_OK = 0"
| "result_code SEDS_ERR = -1"
| "result_code SEDS_GENERIC_ERROR = -2"
| "result_code SEDS_INVALID_TYPE = -3"
| "result_code SEDS_SIZE_MISMATCH = -4"
| "result_code SEDS_SIZE_MISMATCH_ERROR = -5"
| "result_code SEDS_EMPTY_ENDPOINTS = -6"
| "result_code SEDS_TIMESTAMP_INVALID = -7"
| "result_code SEDS_MISSING_PAYLOAD = -8"
| "result_code SEDS_HANDLER_ERROR = -9"
| "result_code SEDS_BAD_ARG = -10"
| "result_code SEDS_PERMISSION_DENIED = -11"
| "result_code SEDS_SERIALIZE = -12"
| "result_code SEDS_DESERIALIZE = -13"
| "result_code SEDS_IO = -14"
| "result_code SEDS_INVALID_UTF8 = -15"
| "result_code SEDS_TYPE_MISMATCH = -16"
| "result_code SEDS_INVALID_LINK_ID = -17"
| "result_code SEDS_PACKET_TOO_LARGE = -18"

lemma result_code_inj [simp]: "result_code a = result_code b \<longleftrightarrow> a = b"
  by (cases a; cases b; simp)

section \<open>Little-endian byte images\<close>

text \<open>
  \<open>append_le<T>\<close> appends the object representation of an integer and the readers copy it
  back with \<open>memcpy\<close>: on the little-endian targets of the library that is the list of its
  bytes, least significant first.
\<close>

definition le_bytes :: "nat \<Rightarrow> 'a::len word \<Rightarrow> bytes" where
  "le_bytes n w = map (\<lambda>i. ucast (drop_bit (8 * i) w)) [0..<n]"

definition append_le :: "nat \<Rightarrow> 'a::len word \<Rightarrow> bytes \<Rightarrow> bytes" where
  "append_le n w out = out @ le_bytes n w"

fun from_le :: "bytes \<Rightarrow> 'a::len word" where
  "from_le [] = 0"
| "from_le (b # bs) = ucast b OR push_bit 8 (from_le bs)"

lemma length_le_bytes [simp]: "length (le_bytes n w) = n"
  by (simp add: le_bytes_def)

lemma bit_from_le:
  "bit (from_le bs :: 'a::len word) i \<longleftrightarrow>
     i < LENGTH('a) \<and> i < 8 * length bs \<and> bit (bs ! (i div 8)) (i mod 8)"
proof (induction bs arbitrary: i)
  case Nil
  then show ?case by simp
next
  case (Cons b bs)
  show ?case
  proof (cases "i < 8")
    case True
    then show ?thesis
      by (auto simp: bit_or_iff bit_push_bit_iff bit_ucast_iff dest: bit_imp_le_length)
  next
    case False
    then obtain j where j: "i = j + 8" by (metis add.commute le_Suc_ex not_less)
    have nb: "\<not> bit (ucast b :: 'a word) i"
      using False by (auto simp: bit_ucast_iff dest: bit_imp_le_length)
    have "(j + 8) div 8 = Suc (j div 8)" by simp
    then show ?thesis
      using Cons.IH [of j] nb by (auto simp: j bit_or_iff bit_push_bit_iff)
  qed
qed

lemma from_le_le_bytes [simp]:
  assumes "LENGTH('a) \<le> 8 * n"
  shows "from_le (le_bytes n w) = (w :: 'a::len word)"
proof (rule bit_word_eqI)
  fix i assume i: "i < LENGTH('a)"
  have "i div 8 < n" using i assms by auto
  then show "bit (from_le (le_bytes n w) :: 'a word) i = bit w i"
    using i assms by (auto simp: bit_from_le le_bytes_def bit_ucast_iff bit_drop_bit_eq)
qed

lemma le_bytes_from_le:
  assumes "LENGTH('a) = 8 * length bs"
  shows "le_bytes (length bs) (from_le bs :: 'a::len word) = bs"
proof (rule nth_equalityI)
  show "length (le_bytes (length bs) (from_le bs :: 'a word)) = length bs" by simp
next
  fix i assume "i < length (le_bytes (length bs) (from_le bs :: 'a word))"
  then have i: "i < length bs" by simp
  show "le_bytes (length bs) (from_le bs :: 'a word) ! i = bs ! i"
  proof (rule bit_word_eqI)
    fix n assume n: "n < LENGTH(8)"
    have "8 * i + n < 8 * length bs" using i n by simp
    moreover have "(8 * i + n) div 8 = i" "(8 * i + n) mod 8 = n" using n by auto
    ultimately show "bit (le_bytes (length bs) (from_le bs :: 'a word) ! i) n = bit (bs ! i) n"
      using i n assms
      by (simp add: le_bytes_def bit_ucast_iff bit_drop_bit_eq bit_from_le add.commute)
  qed
qed

lemma le_bytes_inj:
  assumes "LENGTH('a) \<le> 8 * n" and "le_bytes n (v :: 'a::len word) = le_bytes n w"
  shows "v = w"
  using assms from_le_le_bytes by metis

lemma take_le_bytes [simp]: "take n (le_bytes n w @ rest) = le_bytes n w"
  by simp

lemma drop_le_bytes [simp]: "drop n (le_bytes n w @ rest) = rest"
  by simp

lemma word_xor_eq_0: "(a :: 'a::len word) XOR b = 0 \<longleftrightarrow> a = b"
  by (auto simp: bit_eq_iff bit_xor_iff)

lemma word_xor_cancel_left [simp]: "(a :: 'a::len word) XOR b = a XOR c \<longleftrightarrow> b = c"
  by (auto simp: bit_eq_iff bit_xor_iff)

lemma word_xor_cancel_right [simp]: "(b :: 'a::len word) XOR a = c XOR a \<longleftrightarrow> b = c"
  by (auto simp: bit_eq_iff bit_xor_iff)

lemma from_le_snoc:
  "from_le (us @ [b]) = (from_le us XOR push_bit (8 * length us) (ucast b) :: 'a::len word)"
proof (rule bit_word_eqI)
  fix i assume i: "i < LENGTH('a)"
  consider "i div 8 < length us" | "i div 8 = length us" | "length us < i div 8" by linarith
  then show "bit (from_le (us @ [b]) :: 'a word) i =
      bit (from_le us XOR push_bit (8 * length us) (ucast b) :: 'a word) i"
  proof cases
    case 1
    then have "i < 8 * length us" by auto
    then show ?thesis using i 1
      by (auto simp: bit_from_le bit_xor_iff bit_push_bit_iff bit_ucast_iff nth_append)
  next
    case 2
    then have "8 * length us \<le> i" "i - 8 * length us = i mod 8" "i < 8 * Suc (length us)"
      by (simp_all add: minus_mult_div_eq_mod flip: 2)
    then show ?thesis using i 2
      by (auto simp: bit_from_le bit_xor_iff bit_push_bit_iff bit_ucast_iff nth_append)
  next
    case 3
    then have "8 * Suc (length us) \<le> i" using div_le_mono2 by (metis Suc_leI less_eq_div_iff_mult_less_eq mult.commute zero_less_numeral)
    then show ?thesis
      by (auto simp: bit_from_le bit_xor_iff bit_push_bit_iff bit_ucast_iff dest: bit_imp_le_length)
  qed
qed

lemma from_le_inj:
  assumes "(from_le us :: 'a::len word) = from_le vs" "length us = length vs" "8 * length us \<le> LENGTH('a)"
  shows "us = vs"
proof (rule nth_equalityI)
  fix i assume i: "i < length us"
  show "us ! i = vs ! i"
  proof (rule bit_word_eqI)
    fix n assume n: "n < LENGTH(8)"
    have "(8 * i + n) div 8 = i" "(8 * i + n) mod 8 = n" "8 * i + n < 8 * length us" using i n by auto
    moreover have "bit (from_le us :: 'a word) (8 * i + n) = bit (from_le vs :: 'a word) (8 * i + n)"
      using assms(1) by simp
    ultimately show "bit (us ! i) n = bit (vs ! i) n"
      using assms(2,3) by (simp add: bit_from_le)
  qed
qed (fact assms(2))

lemma take_bit_ucast_byte [simp]: "take_bit 8 (ucast (b :: u8) :: 'a::len word) = ucast b"
  by (rule bit_word_eqI) (auto simp: bit_take_bit_iff bit_ucast_iff dest: bit_imp_le_length)

lemma ucast_inj_u8: "(ucast (b :: u8) :: u64) = ucast c \<longleftrightarrow> b = c"
proof
  assume eq: "(ucast b :: u64) = ucast c"
  show "b = c"
  proof (rule bit_word_eqI)
    fix n assume "n < LENGTH(8)"
    moreover have "bit (ucast b :: u64) n = bit (ucast c :: u64) n" using eq by simp
    ultimately show "bit b n = bit c n" by (simp add: bit_ucast_iff)
  qed
qed simp

lemma unat_ucast_u32 [simp]: "unat (ucast (v :: u32) :: u64) = unat v"
proof -
  have "unat v < 2 ^ 64" using unsigned_less [of v, where ?'a = nat] by simp
  then show ?thesis by (simp add: unsigned_ucast_eq take_bit_nat_eq_self_iff)
qed

lemma ucast_ucast_u32 [simp]: "ucast (ucast (v :: u32) :: u64) = v"
  by (rule bit_word_eqI) (simp add: bit_ucast_iff)

section \<open>Strings and bytes\<close>

definition bytes_of_string :: "string \<Rightarrow> bytes" where
  "bytes_of_string s = map (\<lambda>c. word_of_nat (of_char c)) s"

definition string_of_bytes :: "bytes \<Rightarrow> string" where
  "string_of_bytes bs = map (\<lambda>b. char_of (unat b)) bs"

lemma length_bytes_of_string [simp]: "length (bytes_of_string s) = length s"
  by (simp add: bytes_of_string_def)

lemma length_string_of_bytes [simp]: "length (string_of_bytes bs) = length bs"
  by (simp add: string_of_bytes_def)

lemma string_of_bytes_of_string [simp]: "string_of_bytes (bytes_of_string s) = s"
proof (induction s)
  case (Cons c s)
  have "(of_char c :: nat) < 256" by simp
  then have "unat (word_of_nat (of_char c) :: u8) = of_char c"
    by (simp add: unat_of_nat)
  with Cons show ?case by (simp add: bytes_of_string_def string_of_bytes_def)
qed (simp add: bytes_of_string_def string_of_bytes_def)

lemma bytes_of_string_of_bytes [simp]: "bytes_of_string (string_of_bytes bs) = bs"
proof (induction bs)
  case (Cons b bs)
  have "unat b < 256" using unsigned_less [of b, where ?'a = nat] by simp
  then have "of_char (char_of (unat b)) = unat b" by simp
  with Cons show ?case by (simp add: bytes_of_string_def string_of_bytes_def)
qed (simp add: bytes_of_string_def string_of_bytes_def)

lemma bytes_of_string_inj [simp]: "bytes_of_string s = bytes_of_string t \<longleftrightarrow> s = t"
  by (metis string_of_bytes_of_string)

text \<open>A product of two \<open>size_t\<close> values.\<close>

definition size_mul :: "nat \<Rightarrow> nat \<Rightarrow> nat" where
  "size_mul a b = (a * b) mod 2 ^ 64"

lemma size_mul_small [simp]: "a * b < 2 ^ 64 \<Longrightarrow> size_mul a b = a * b"
  by (simp add: size_mul_def)

text \<open>\<open>std::to_string\<close> on an unsigned integer.\<close>

fun digit_char :: "nat \<Rightarrow> char" where
  "digit_char d = char_of (48 + d)"

fun to_string :: "nat \<Rightarrow> string" where
  "to_string n = (if n < 10 then [digit_char n] else to_string (n div 10) @ [digit_char (n mod 10)])"

declare to_string.simps [simp del]

text \<open>The number a digit string denotes.\<close>

definition digits_value :: "string \<Rightarrow> nat" where
  "digits_value s = foldl (\<lambda>acc c. 10 * acc + (of_char c - 48)) 0 s"

lemma digit_char_value: "d < 10 \<Longrightarrow> of_char (digit_char d) - (48::nat) = d"
  by simp

lemma digits_value_to_string [simp]: "digits_value (to_string n) = n"
proof (induction n rule: to_string.induct)
  case (1 n)
  show ?case
  proof (cases "n < 10")
    case True
    then show ?thesis
      by (simp add: to_string.simps [of n] digits_value_def del: digit_char.simps)
        (rule digit_char_value)
  next
    case False
    have m: "of_char (digit_char (n mod 10)) - (48::nat) = n mod 10"
      by (rule digit_char_value) simp
    from False "1" have "digits_value (to_string (n div 10)) = n div 10" by simp
    then show ?thesis
      using False m
      by (simp add: to_string.simps [of n] digits_value_def del: digit_char.simps)
  qed
qed

lemma to_string_inj [simp]: "to_string m = to_string n \<longleftrightarrow> m = n"
  by (metis digits_value_to_string)

section \<open>Sort and unique\<close>

text \<open>\<open>std::ranges::sort\<close> followed by \<open>erase(unique(...))\<close>.\<close>

definition sort_dedup :: "'a::linorder list \<Rightarrow> 'a list" where
  "sort_dedup xs = remdups_adj (sort xs)"

lemma set_sort_dedup [simp]: "set (sort_dedup xs) = set xs"
  by (simp add: sort_dedup_def)

lemma sorted_sort_dedup [simp]: "sorted (sort_dedup xs)"
  by (simp add: sort_dedup_def sorted_remdups_adj)

lemma distinct_sort_dedup [simp]: "distinct (sort_dedup xs)"
proof -
  have "distinct (remdups_adj ys)" if "sorted ys" for ys :: "'a list"
    using that
  proof (induction ys rule: remdups_adj.induct)
    case (3 x y ys)
    then show ?case by (auto simp: order.antisym)
  qed simp_all
  then show ?thesis by (simp add: sort_dedup_def)
qed

lemma sort_dedup_unique: "set xs = set ys \<Longrightarrow> sort_dedup xs = sort_dedup ys"
  by (rule sorted_distinct_set_unique) simp_all

lemma sort_dedup_id: "sorted xs \<Longrightarrow> distinct xs \<Longrightarrow> sort_dedup xs = xs"
  by (rule sorted_distinct_set_unique) simp_all

lemma sort_dedup_idem [simp]: "sort_dedup (sort_dedup xs) = sort_dedup xs"
  by (rule sort_dedup_unique) simp

lemma sort_dedup_Nil [simp]: "sort_dedup [] = []"
  by (simp add: sort_dedup_def)

lemma sort_dedup_eq_Nil [simp]: "sort_dedup xs = [] \<longleftrightarrow> xs = []"
  by (metis set_empty set_sort_dedup)

section \<open>Association lists\<close>

abbreviation mput :: "'k \<Rightarrow> 'v \<Rightarrow> ('k, 'v) amap \<Rightarrow> ('k, 'v) amap" where
  "mput \<equiv> AList.update"

abbreviation merase :: "'k \<Rightarrow> ('k, 'v) amap \<Rightarrow> ('k, 'v) amap" where
  "merase \<equiv> AList.delete"

abbreviation mkeys :: "('k, 'v) amap \<Rightarrow> 'k list" where
  "mkeys m \<equiv> map fst m"

lemma map_of_mput [simp]: "map_of (mput k v m) = (map_of m)(k \<mapsto> v)"
  by (simp add: update_conv')

lemma map_of_merase [simp]: "map_of (merase k m) = (map_of m)(k := None)"
  by (simp add: delete_conv')

lemma distinct_mput [simp]: "distinct (mkeys m) \<Longrightarrow> distinct (mkeys (mput k v m))"
  by (rule distinct_update)

lemma distinct_merase [simp]: "distinct (mkeys m) \<Longrightarrow> distinct (mkeys (merase k m))"
  by (rule distinct_delete)

lemma set_mkeys_mput: "set (mkeys (mput k v m)) = insert k (set (mkeys m))"
  by (simp add: AList.dom_update)

lemma set_mkeys_merase: "set (mkeys (merase k m)) = set (mkeys m) - {k}"
  by (simp add: AList.delete_keys)

lemma length_mput_new: "k \<notin> set (mkeys m) \<Longrightarrow> length (mput k v m) = Suc (length m)"
  by (induction m) auto

lemma length_mput_old: "k \<in> set (mkeys m) \<Longrightarrow> length (mput k v m) = length m"
  by (induction m) auto

lemma length_mput_le: "length (mput k v m) \<le> Suc (length m)"
  by (induction m) auto

lemma length_merase_le: "length (merase k m) \<le> length m"
  by (simp add: AList.delete_eq)

lemma map_of_filter_keys:
  "map_of (filter (\<lambda>p. P (fst p)) m) k = (if P k then map_of m k else None)"
  by (induction m) auto

text \<open>\<open>operator[]\<close> of a map: the stored value, or a default-constructed one.\<close>

definition mget :: "'v \<Rightarrow> ('k, 'v) amap \<Rightarrow> 'k \<Rightarrow> 'v" where
  "mget d m k = (case map_of m k of None \<Rightarrow> d | Some v \<Rightarrow> v)"

lemma mget_mput_same [simp]: "mget d (mput k v m) k = v"
  by (simp add: mget_def)

lemma mget_mput_other [simp]: "k' \<noteq> k \<Longrightarrow> mget d (mput k v m) k' = mget d m k'"
  by (simp add: mget_def)

section \<open>Lists\<close>

text \<open>\<open>vector\<close> indexing by a side identifier, with its range check.\<close>

definition in_range :: "i32 \<Rightarrow> 'a list \<Rightarrow> bool" where
  "in_range i xs \<longleftrightarrow> 0 \<le> i \<and> nat i < length xs"

lemma in_range_nth: "in_range i xs \<Longrightarrow> xs ! nat i \<in> set xs"
  by (simp add: in_range_def)

lemma in_range_update [simp]: "in_range i (xs[n := x]) \<longleftrightarrow> in_range i xs"
  by (simp add: in_range_def)

section \<open>Step systems\<close>

text \<open>
  The interfaces of the program are step relations: one step is one call. What every step keeps is
  a reflexive and transitive relation, in the simplest case the one that an invariant induces.
\<close>

locale step_frame =
  fixes step :: "'s \<Rightarrow> 's \<Rightarrow> bool" and keeps :: "'s \<Rightarrow> 's \<Rightarrow> bool"
  assumes keeps_refl: "keeps s s"
    and keeps_trans: "keeps s t \<Longrightarrow> keeps t u \<Longrightarrow> keeps s u"
    and keeps_step: "step s t \<Longrightarrow> keeps s t"
begin

lemma keeps_steps: "rtranclp step s t \<Longrightarrow> keeps s t"
  by (induction rule: rtranclp_induct) (blast intro: keeps_refl keeps_trans keeps_step)+

end

locale step_invariant =
  fixes step :: "'s \<Rightarrow> 's \<Rightarrow> bool" and inv :: "'s \<Rightarrow> bool"
  assumes inv_step: "step s t \<Longrightarrow> inv s \<Longrightarrow> inv t"

sublocale step_invariant \<subseteq> step_frame step "\<lambda>s t. inv s \<longrightarrow> inv t"
  by unfold_locales (auto dest: inv_step)

context step_invariant
begin

lemma inv_steps: "rtranclp step s t \<Longrightarrow> inv s \<Longrightarrow> inv t"
  using keeps_steps by blast

end

end
