(* ===== verification/Schema.thy ===== *)
theory Schema
  imports Prelude
begin

text \<open>
  The runtime schema of the library (\<open>Cpp-Headers/internal.hpp\<close>, \<open>src/core.cpp\<close> and the
  identifier tables of \<open>src/serialize.cpp\<close>): type descriptors, endpoint names, the tuning
  configuration, and the translation between local identifiers and the identifiers carried
  on the wire. The generated schema (\<open>make_type_info\<close>, \<open>make_endpoint_names\<close>) and the ZSTD
  library are not part of the sources and are parameters.
\<close>

section \<open>Descriptors\<close>

datatype element_data_type =
    NoData | Bool | UInt8 | UInt16 | UInt32 | UInt64 | UInt128 | Int8 | Int16 | Int32 | Int64
  | Int128 | Float32 | Float64 | String | Binary

datatype message_class = Data | Error | Warning

datatype reliable_mode = RM_None | Ordered | Unordered

text \<open>
  \<open>TypeInfo\<close>. A gap of the table has the empty name, as in the sources; no entry has a null
  name (every entry is built from a literal or from a registered string).
\<close>

record type_info =
  ti_name :: string
  elem_size :: nat
  static_count :: nat
  dynamic :: bool
  ti_reliable_mode :: reliable_mode
  data_type :: element_data_type
  ti_message_class :: message_class
  link_local_only :: bool
  ti_endpoints :: "u32 list"

definition ti_reliable :: "type_info \<Rightarrow> bool" where
  "ti_reliable ti \<longleftrightarrow> ti_reliable_mode ti \<noteq> RM_None"

definition empty_type_info :: type_info where
  "empty_type_info = \<lparr>ti_name = '''', elem_size = 0, static_count = 0, dynamic = False,
     ti_reliable_mode = RM_None, data_type = NoData, ti_message_class = Data,
     link_local_only = False, ti_endpoints = []\<rparr>"

record tuning_config =
  payload_compress_threshold :: nat
  static_string_length :: nat
  static_hex_length :: nat
  string_precision :: nat
  max_handler_retries :: nat
  reliable_retransmit_ms :: u32
  reliable_max_retries :: u32
  reliable_max_pending :: nat
  reliable_max_return_routes :: nat
  reliable_max_end_to_end_pending :: nat
  reliable_max_end_to_end_ack_cache :: nat

definition default_tuning :: tuning_config where
  "default_tuning = \<lparr>payload_compress_threshold = 128, static_string_length = 1024,
     static_hex_length = 1024, string_precision = 8, max_handler_retries = 3,
     reliable_retransmit_ms = 200, reliable_max_retries = 8, reliable_max_pending = 32,
     reliable_max_return_routes = 128, reliable_max_end_to_end_pending = 32,
     reliable_max_end_to_end_ack_cache = 128\<rparr>"

definition valid_runtime_tuning_config :: "tuning_config \<Rightarrow> bool" where
  "valid_runtime_tuning_config cfg \<longleftrightarrow>
     static_string_length cfg \<noteq> 0 \<and> static_hex_length cfg \<noteq> 0 \<and> max_handler_retries cfg \<noteq> 0 \<and>
     reliable_retransmit_ms cfg \<noteq> 0 \<and> reliable_max_retries cfg \<noteq> 0 \<and>
     reliable_max_pending cfg \<noteq> 0 \<and> reliable_max_return_routes cfg \<noteq> 0 \<and>
     reliable_max_end_to_end_pending cfg \<noteq> 0 \<and> reliable_max_end_to_end_ack_cache cfg \<noteq> 0"

text \<open>
  The two ZSTD calls the sources make, as a parameter: compression of a buffer and
  decompression into a buffer of a given capacity; \<open>None\<close> is \<open>ZSTD_isError\<close>.
\<close>

record zstd_lib =
  zstd_compress :: "bytes \<Rightarrow> bytes option"
  zstd_decompress :: "bytes \<Rightarrow> nat \<Rightarrow> bytes option"

text \<open>The process-wide state the runtime reads: schema tables, tuning, identity, build option.\<close>

record env =
  kTypeInfo :: "type_info list"
  kEndpointNames :: "string option list"
  kEndpointCount :: u32
  tuning :: tuning_config
  device_identifier :: string
  seds_has_zstd :: "zstd_lib option"

section \<open>Built-in identifiers\<close>

abbreviation SEDS_DT_TELEMETRY_ERROR :: u32 where "SEDS_DT_TELEMETRY_ERROR \<equiv> 0"
abbreviation SEDS_DT_RELIABLE_ACK :: u32 where "SEDS_DT_RELIABLE_ACK \<equiv> 1"
abbreviation SEDS_DT_RELIABLE_PACKET_REQUEST :: u32 where "SEDS_DT_RELIABLE_PACKET_REQUEST \<equiv> 2"
abbreviation SEDS_DT_RELIABLE_PARTIAL_ACK :: u32 where "SEDS_DT_RELIABLE_PARTIAL_ACK \<equiv> 3"
abbreviation SEDS_DT_TIME_SYNC_ANNOUNCE :: u32 where "SEDS_DT_TIME_SYNC_ANNOUNCE \<equiv> 4"
abbreviation SEDS_DT_TIME_SYNC_REQUEST :: u32 where "SEDS_DT_TIME_SYNC_REQUEST \<equiv> 5"
abbreviation SEDS_DT_TIME_SYNC_RESPONSE :: u32 where "SEDS_DT_TIME_SYNC_RESPONSE \<equiv> 6"
abbreviation SEDS_DT_DISCOVERY_ANNOUNCE :: u32 where "SEDS_DT_DISCOVERY_ANNOUNCE \<equiv> 7"
abbreviation SEDS_DT_DISCOVERY_TIMESYNC_SOURCES :: u32 where
  "SEDS_DT_DISCOVERY_TIMESYNC_SOURCES \<equiv> 8"
abbreviation SEDS_DT_DISCOVERY_TOPOLOGY :: u32 where "SEDS_DT_DISCOVERY_TOPOLOGY \<equiv> 9"
abbreviation kDiscoveryLeaveType :: u32 where "kDiscoveryLeaveType \<equiv> 1015"
abbreviation SEDS_EP_TIME_SYNC :: u32 where "SEDS_EP_TIME_SYNC \<equiv> 200"
abbreviation SEDS_EP_DISCOVERY :: u32 where "SEDS_EP_DISCOVERY \<equiv> 201"
abbreviation SEDS_EP_TELEMETRY_ERROR :: u32 where "SEDS_EP_TELEMETRY_ERROR \<equiv> 202"

definition is_discovery_control_type :: "u32 \<Rightarrow> bool" where
  "is_discovery_control_type ty \<longleftrightarrow>
     ty = SEDS_DT_DISCOVERY_ANNOUNCE \<or> ty = SEDS_DT_DISCOVERY_TIMESYNC_SOURCES \<or>
     ty = SEDS_DT_DISCOVERY_TOPOLOGY \<or> ty = kDiscoveryLeaveType"

definition is_internal_control_type :: "u32 \<Rightarrow> bool" where
  "is_internal_control_type ty \<longleftrightarrow>
     ty = SEDS_DT_RELIABLE_ACK \<or> ty = SEDS_DT_RELIABLE_PARTIAL_ACK \<or>
     ty = SEDS_DT_RELIABLE_PACKET_REQUEST"

section \<open>Table lookups\<close>

definition valid_type :: "env \<Rightarrow> u32 \<Rightarrow> bool" where
  "valid_type E ty \<longleftrightarrow> unat ty < length (kTypeInfo E) \<and> ti_name (kTypeInfo E ! unat ty) \<noteq> ''''"

definition valid_endpoint :: "env \<Rightarrow> u32 \<Rightarrow> bool" where
  "valid_endpoint E ep \<longleftrightarrow>
     unat ep < length (kEndpointNames E) \<and> kEndpointNames E ! unat ep \<noteq> None"

text \<open>
  \<open>kTypeInfo[ty]\<close> at a type that the caller has checked or that the table is known to hold.
  Beyond the end of the table the model reads a gap; the one read of the sources that is not
  behind a check of the same index is treated apart (theory \<open>Wire\<close>).
\<close>

definition type_at :: "env \<Rightarrow> u32 \<Rightarrow> type_info" where
  "type_at E ty =
     (if unat ty < length (kTypeInfo E) then kTypeInfo E ! unat ty else empty_type_info)"

definition endpoint_at :: "env \<Rightarrow> u32 \<Rightarrow> string option" where
  "endpoint_at E ep =
     (if unat ep < length (kEndpointNames E) then kEndpointNames E ! unat ep else None)"

lemma valid_type_iff: "valid_type E ty \<longleftrightarrow> ti_name (type_at E ty) \<noteq> ''''"
  by (simp add: valid_type_def type_at_def empty_type_info_def)

lemma valid_endpoint_iff: "valid_endpoint E ep \<longleftrightarrow> endpoint_at E ep \<noteq> None"
  by (simp add: valid_endpoint_def endpoint_at_def)

definition is_reliable_type :: "env \<Rightarrow> u32 \<Rightarrow> bool" where
  "is_reliable_type E ty \<longleftrightarrow> valid_type E ty \<and> ti_reliable (type_at E ty)"

definition validate_payload :: "env \<Rightarrow> u32 \<Rightarrow> nat \<Rightarrow> bool" where
  "validate_payload E ty n =
     (if \<not> valid_type E ty then False
      else let info = type_at E ty in
        if \<not> dynamic info then n = size_mul (elem_size info) (static_count info)
        else (case data_type info of
            String \<Rightarrow> n \<le> static_string_length (tuning E)
          | Binary \<Rightarrow> n \<le> static_hex_length (tuning E)
          | NoData \<Rightarrow> n = 0
          | _ \<Rightarrow> elem_size info \<noteq> 0 \<and> n mod elem_size info = 0))"

text \<open>An endpoint is link-local when some type names it and every such type is link-local.\<close>

definition endpoint_link_local_only :: "env \<Rightarrow> u32 \<Rightarrow> bool" where
  "endpoint_link_local_only E ep =
     (if \<not> valid_endpoint E ep then False
      else let using_it = filter (\<lambda>info. ep \<in> set (ti_endpoints info)) (kTypeInfo E)
           in using_it \<noteq> [] \<and> list_all link_local_only using_it)"

section \<open>Building the runtime tables\<close>

definition runtime_endpoint_id_for_name :: "string \<Rightarrow> u32 \<Rightarrow> u32" where
  "runtime_endpoint_id_for_name name legacy =
     (if name = ''TIME_SYNC'' then 200
      else if name = ''DISCOVERY'' then 201
      else if name = ''TELEMETRY_ERROR'' then 202
      else 100 + legacy)"

definition core_builtin_names :: "string list" where
  "core_builtin_names =
     [''TELEMETRY_ERROR'', ''RELIABLE_ACK'', ''RELIABLE_PACKET_REQUEST'', ''RELIABLE_PARTIAL_ACK'',
      ''TIME_SYNC_ANNOUNCE'', ''TIME_SYNC_REQUEST'', ''TIME_SYNC_RESPONSE'', ''DISCOVERY_ANNOUNCE'',
      ''DISCOVERY_TIMESYNC_SOURCES'', ''DISCOVERY_TOPOLOGY'']"

definition runtime_user_type_id_for_name :: "string \<Rightarrow> u32 \<Rightarrow> u32 option" where
  "runtime_user_type_id_for_name name legacy =
     (if name \<in> set core_builtin_names then None else Some (100 + legacy))"

text \<open>\<open>if (v.size() <= i) v.resize(i + 1, fill); v[i] = x\<close>\<close>

definition grow_set :: "'a \<Rightarrow> nat \<Rightarrow> 'a \<Rightarrow> 'a list \<Rightarrow> 'a list" where
  "grow_set fill i x xs = (xs @ replicate (Suc i - length xs) fill)[i := x]"

lemma length_grow_set [simp]: "length (grow_set fill i x xs) = max (length xs) (Suc i)"
  by (simp add: grow_set_def)

lemma nth_grow_set_same [simp]: "grow_set fill i x xs ! i = x"
  by (simp add: grow_set_def)

lemma nth_grow_set_other:
  "j \<noteq> i \<Longrightarrow> j < max (length xs) (Suc i) \<Longrightarrow>
     grow_set fill i x xs ! j = (if j < length xs then xs ! j else fill)"
  by (auto simp: grow_set_def nth_append)

definition make_runtime_endpoint_names :: "string list \<Rightarrow> string option list" where
  "make_runtime_endpoint_names legacy =
     foldl (\<lambda>names i. grow_set None
                (unat (runtime_endpoint_id_for_name (legacy ! i) (word_of_nat i)))
                (Some (legacy ! i)) names)
       (map Some legacy) [0..<length legacy]"

definition discovery_endpoint_of :: "string list \<Rightarrow> u32" where
  "discovery_endpoint_of names =
     (case find (\<lambda>i. names ! i = ''DISCOVERY'') [0..<length names] of
        Some i \<Rightarrow> runtime_endpoint_id_for_name (names ! i) (word_of_nat i)
      | None \<Rightarrow> 201)"

definition add_builtin ::
    "u32 \<Rightarrow> nat \<Rightarrow> string \<Rightarrow> reliable_mode \<Rightarrow> type_info list \<Rightarrow> type_info list" where
  "add_builtin disc local nm reliable types =
     grow_set empty_type_info local
       \<lparr>ti_name = nm, elem_size = 1, static_count = 0, dynamic = True,
        ti_reliable_mode = reliable, data_type = UInt8, ti_message_class = Data,
        link_local_only = False, ti_endpoints = [disc]\<rparr> types"

definition remap_endpoints :: "string list \<Rightarrow> type_info \<Rightarrow> type_info" where
  "remap_endpoints names ti =
     ti\<lparr>ti_endpoints := map (\<lambda>ep. if unat ep < length names
                                  then runtime_endpoint_id_for_name (names ! unat ep) ep
                                  else ep) (ti_endpoints ti)\<rparr>"

definition copy_builtin ::
    "string list \<Rightarrow> type_info list \<Rightarrow> nat \<Rightarrow> string \<Rightarrow> type_info list \<Rightarrow> type_info list" where
  "copy_builtin names legacy local nm types =
     (case find (\<lambda>info. ti_name info = nm) legacy of
        None \<Rightarrow> types
      | Some ti \<Rightarrow> grow_set empty_type_info local (remap_endpoints names ti) types)"

definition copy_user_type ::
    "string list \<Rightarrow> type_info list \<Rightarrow> type_info list \<Rightarrow> nat \<Rightarrow> type_info list" where
  "copy_user_type names legacy types i =
     (case runtime_user_type_id_for_name (ti_name (legacy ! i)) (word_of_nat i) of
        None \<Rightarrow> types
      | Some runtime \<Rightarrow>
          grow_set empty_type_info (unat runtime) (remap_endpoints names (legacy ! i)) types)"

definition sedsnet_builtins :: "(nat \<times> string \<times> reliable_mode) list" where
  "sedsnet_builtins =
     [(1010, ''SEDSNET_DISCOVERY_SCHEMA'', RM_None),
      (1011, ''SEDSNET_DISCOVERY_TOPOLOGY_REQUEST'', RM_None),
      (1012, ''SEDSNET_DISCOVERY_SCHEMA_REQUEST'', RM_None),
      (1013, ''SEDSNET_MANAGED_VARIABLE_REQUEST'', Ordered),
      (1014, ''SEDSNET_MANAGED_VARIABLE_VALUE'', Ordered),
      (1015, ''SEDSNET_DISCOVERY_LEAVE'', RM_None),
      (1016, ''SEDSNET_DISCOVERY_LINK_CAPABILITIES'', RM_None),
      (1017, ''SEDSNET_DISCOVERY_ADDRESS'', Ordered),
      (1018, ''SEDSNET_P2P_MESSAGE'', Ordered)]"

definition make_runtime_type_info :: "type_info list \<Rightarrow> string list \<Rightarrow> type_info list" where
  "make_runtime_type_info legacy names =
     (let disc = discovery_endpoint_of names;
          t1 = foldl (\<lambda>types i. copy_builtin names legacy i (core_builtin_names ! i) types)
                 legacy [0..<10];
          t2 = foldl (copy_user_type names legacy) t1 [0..<length legacy]
      in foldl (\<lambda>types (local, nm, rel). add_builtin disc local nm rel types) t2 sedsnet_builtins)"

definition make_env :: "type_info list \<Rightarrow> string list \<Rightarrow> zstd_lib option \<Rightarrow> env" where
  "make_env legacy names z =
     \<lparr>kTypeInfo = make_runtime_type_info legacy names,
      kEndpointNames = make_runtime_endpoint_names names,
      kEndpointCount = word_of_nat (length (make_runtime_endpoint_names names)),
      tuning = default_tuning, device_identifier = ''CPP'', seds_has_zstd = z\<rparr>"

section \<open>Wire identifiers\<close>

definition v4_type_names :: "string list" where
  "v4_type_names =
     [''TELEMETRY_ERROR'', ''RELIABLE_ACK'', ''RELIABLE_PACKET_REQUEST'', ''RELIABLE_PARTIAL_ACK'',
      ''TIME_SYNC_ANNOUNCE'', ''TIME_SYNC_REQUEST'', ''TIME_SYNC_RESPONSE'', ''DISCOVERY_ANNOUNCE'',
      ''DISCOVERY_TIMESYNC_SOURCES'', ''DISCOVERY_TOPOLOGY'', ''SEDSNET_DISCOVERY_SCHEMA'',
      ''SEDSNET_DISCOVERY_TOPOLOGY_REQUEST'', ''SEDSNET_DISCOVERY_SCHEMA_REQUEST'',
      ''SEDSNET_MANAGED_VARIABLE_REQUEST'', ''SEDSNET_MANAGED_VARIABLE_VALUE'',
      ''SEDSNET_DISCOVERY_LEAVE'', ''SEDSNET_DISCOVERY_LINK_CAPABILITIES'',
      ''SEDSNET_DISCOVERY_ADDRESS'', ''SEDSNET_P2P_MESSAGE'']"

text \<open>The position of a built-in name in that table is its wire identifier.\<close>

definition builtin_wire_id :: "string \<Rightarrow> u32 option" where
  "builtin_wire_id nm =
     map_option word_of_nat (find (\<lambda>i. v4_type_names ! i = nm) [0..<length v4_type_names])"

definition v4_type_id :: "env \<Rightarrow> u32 \<Rightarrow> u32" where
  "v4_type_id E local =
     (if \<not> valid_type E local then local
      else case builtin_wire_id (ti_name (type_at E local)) of
          Some w \<Rightarrow> w
        | None \<Rightarrow> if 100 \<le> local then local else 100 + local)"

definition type_by_name :: "env \<Rightarrow> string \<Rightarrow> u32 option" where
  "type_by_name E nm =
     map_option word_of_nat
       (find (\<lambda>i. nm = ti_name (kTypeInfo E ! i)) [0..<length (kTypeInfo E)])"

definition local_type_id :: "env \<Rightarrow> u32 \<Rightarrow> u32 option" where
  "local_type_id E wire =
     (if wire < 19 then type_by_name E (v4_type_names ! unat wire)
      else if 100 \<le> wire then
        (if valid_type E wire then Some wire
         else let local = wire - 100 in if valid_type E local then Some local else None)
      else None)"

abbreviation wire_type_id :: "env \<Rightarrow> u32 \<Rightarrow> u32" where
  "wire_type_id \<equiv> v4_type_id"

abbreviation local_type_from_wire_id :: "env \<Rightarrow> u32 \<Rightarrow> u32 option" where
  "local_type_from_wire_id \<equiv> local_type_id"

definition v4_endpoint_id :: "env \<Rightarrow> u32 \<Rightarrow> u32" where
  "v4_endpoint_id E local =
     (if \<not> valid_endpoint E local then local
      else if 100 \<le> local then local
      else if endpoint_at E local = Some ''TIME_SYNC'' then 200
      else if endpoint_at E local = Some ''DISCOVERY'' then 201
      else if endpoint_at E local = Some ''TELEMETRY_ERROR'' then 202
      else 100 + local)"

text \<open>
  \<open>by_name\<close> of \<open>local_endpoint_id\<close> compares a string view with every stored pointer, null
  ones included: constructing a view from a null pointer is undefined. \<open>None\<close> is that fault,
  \<open>Some\<close> the search's result.
\<close>

fun endpoint_search :: "string \<Rightarrow> nat \<Rightarrow> string option list \<Rightarrow> u32 option option" where
  "endpoint_search nm i [] = Some None"
| "endpoint_search nm i (None # names) = None"
| "endpoint_search nm i (Some x # names) =
     (if x = nm then Some (Some (word_of_nat i)) else endpoint_search nm (Suc i) names)"

definition local_endpoint_id :: "env \<Rightarrow> u32 \<Rightarrow> u32 option option" where
  "local_endpoint_id E wire =
     (if wire = 200 \<or> wire = 201 \<or> wire = 202 then
        (if valid_endpoint E wire then Some (Some wire)
         else if wire = 200 then endpoint_search ''TIME_SYNC'' 0 (kEndpointNames E)
         else if wire = 201 then endpoint_search ''DISCOVERY'' 0 (kEndpointNames E)
         else endpoint_search ''TELEMETRY_ERROR'' 0 (kEndpointNames E))
      else if 100 \<le> wire then
        (if valid_endpoint E wire then Some (Some wire)
         else let local = wire - 100 in
           if valid_endpoint E local then Some (Some local) else Some None)
      else Some None)"

definition is_reliable_control_type :: "env \<Rightarrow> u32 \<Rightarrow> bool" where
  "is_reliable_control_type E local \<longleftrightarrow>
     valid_type E local \<and>
     ti_name (type_at E local) \<in> {''RELIABLE_ACK'', ''RELIABLE_PACKET_REQUEST'', ''RELIABLE_PARTIAL_ACK''}"

definition has_v4_reliable_header :: "env \<Rightarrow> u32 \<Rightarrow> bool" where
  "has_v4_reliable_header E local \<longleftrightarrow>
     valid_type E local \<and> ti_reliable (type_at E local) \<and> \<not> is_reliable_control_type E local"

end
