(* ===== verification/Packets.thy ===== *)
theory Packets
  imports Schema
begin

text \<open>
  Packets and their identities (\<open>src/core.cpp\<close>): the owned packet, the view that crosses the
  C ABI, the CRC-32 of a frame, the 64-bit packet identity used for duplicate suppression
  and acknowledgements, and the constructors of internal packets. The CRC lemmas give the
  burst-error guarantee the frame reader relies on; the hash lemmas show that identities of
  packets differing in one payload byte differ.
\<close>

section \<open>Packets and views\<close>

record packet =
  ty :: u32
  sender :: string
  endpoints :: "u32 list"
  timestamp :: u64
  payload :: bytes

text \<open>
  \<open>SedsPacketView\<close>: pointers that may be null, with their lengths. A non-null pointer is
  modelled by the list of elements that may be read through it.
\<close>

record packet_view =
  v_ty :: u32
  v_data_size :: nat
  v_sender :: "string option"
  v_sender_len :: nat
  v_endpoints :: "u32 list option"
  v_num_endpoints :: nat
  v_timestamp :: u64
  v_payload :: "bytes option"
  v_payload_len :: nat

text \<open>Reading \<open>n\<close> elements through a pointer; \<open>None\<close> is a read past the readable elements.\<close>

definition read_ptr :: "'a list \<Rightarrow> nat \<Rightarrow> 'a list option" where
  "read_ptr buf n = (if n \<le> length buf then Some (take n buf) else None)"

text \<open>The outer option is a faulting read, the inner one the function's boolean result.\<close>

definition packet_from_view :: "env \<Rightarrow> packet_view option \<Rightarrow> packet option option" where
  "packet_from_view E view =
     (case view of
        None \<Rightarrow> Some None
      | Some v \<Rightarrow>
          if v_endpoints v = None \<or> v_num_endpoints v = 0 then Some None
          else
            case (if valid_type E (v_ty v) then Some (v_ty v)
                  else case local_type_from_wire_id E (v_ty v) of
                      None \<Rightarrow> None
                    | Some l \<Rightarrow> if valid_type E l then Some l else None) of
              None \<Rightarrow> Some None
            | Some t \<Rightarrow> do {
                eps \<leftarrow> read_ptr (the (v_endpoints v)) (v_num_endpoints v);
                if \<not> list_all (valid_endpoint E) eps then Some None
                else if v_payload_len v \<noteq> 0 \<and> v_payload v = None then Some None
                else do {
                  snd \<leftarrow> read_ptr (case v_sender v of Some s \<Rightarrow> s | None \<Rightarrow> [CHR 0x00]) (v_sender_len v);
                  pl \<leftarrow> (if v_payload_len v \<noteq> 0 then read_ptr (the (v_payload v)) (v_payload_len v)
                        else Some []);
                  Some (Some \<lparr>ty = t, sender = snd, endpoints = eps, timestamp = v_timestamp v,
                              payload = pl\<rparr>)
                }
              })"

definition fill_view :: "packet \<Rightarrow> packet_view" where
  "fill_view pkt =
     \<lparr>v_ty = ty pkt, v_data_size = length (payload pkt), v_sender = Some (sender pkt @ [CHR 0x00]),
      v_sender_len = length (sender pkt), v_endpoints = Some (endpoints pkt),
      v_num_endpoints = length (endpoints pkt), v_timestamp = timestamp pkt,
      v_payload = Some (payload pkt), v_payload_len = length (payload pkt)\<rparr>"

text \<open>What \<open>packet_from_view\<close> guarantees of a packet it accepts.\<close>

definition wf_packet :: "env \<Rightarrow> packet \<Rightarrow> bool" where
  "wf_packet E pkt \<longleftrightarrow>
     valid_type E (ty pkt) \<and> endpoints pkt \<noteq> [] \<and> list_all (valid_endpoint E) (endpoints pkt)"

lemma packet_from_view_wf:
  "packet_from_view E view = Some (Some pkt) \<Longrightarrow> wf_packet E pkt"
  by (auto simp: packet_from_view_def wf_packet_def read_ptr_def bind_eq_Some_conv Let_def
      split: option.splits if_splits)

lemma packet_from_fill_view:
  "wf_packet E pkt \<Longrightarrow> packet_from_view E (Some (fill_view pkt)) = Some (Some pkt)"
  by (cases pkt) (auto simp: packet_from_view_def fill_view_def wf_packet_def read_ptr_def)

section \<open>CRC-32\<close>

definition crc32_bit :: "u32 \<Rightarrow> u32" where
  "crc32_bit crc = (let mask = - (crc AND 1) in drop_bit 1 crc XOR (0xEDB88320 AND mask))"

definition crc32_byte :: "u32 \<Rightarrow> u8 \<Rightarrow> u32" where
  "crc32_byte crc b = (crc32_bit ^^ 8) (crc XOR ucast b)"

definition crc32_bytes :: "bytes \<Rightarrow> u32" where
  "crc32_bytes data = NOT (foldl crc32_byte 0xFFFFFFFF data)"

subsection \<open>One shift of the register\<close>

lemma crc32_bit_cases:
  "crc32_bit crc = (if bit crc 0 then drop_bit 1 crc XOR 0xEDB88320 else drop_bit 1 crc)"
proof (cases "bit crc 0")
  case True
  then have "crc AND 1 = 1" by (simp add: and_one_eq mod_2_eq_odd bit_0)
  with True show ?thesis by (simp add: crc32_bit_def Let_def)
next
  case False
  then have "crc AND 1 = 0" by (simp add: and_one_eq mod_2_eq_odd bit_0)
  with False show ?thesis by (simp add: crc32_bit_def Let_def)
qed

lemma crc32_bit_xor: "crc32_bit (a XOR b) = crc32_bit a XOR crc32_bit b"
  by (auto simp: crc32_bit_cases bit_xor_iff drop_bit_xor ac_simps)

lemma crc32_bit_0 [simp]: "crc32_bit 0 = 0"
  by (simp add: crc32_bit_cases)

text \<open>The top bit of the polynomial records the bit shifted out, so a shift loses nothing.\<close>

lemma crc32_bit_eq_0: "crc32_bit a = 0 \<Longrightarrow> a = 0"
proof -
  assume z: "crc32_bit a = 0"
  have b0: "\<not> bit a 0"
  proof
    assume "bit a 0"
    with z have "drop_bit 1 a = 0xEDB88320"
      by (simp add: crc32_bit_cases word_xor_eq_0)
    moreover have "\<not> bit (drop_bit 1 a) 31"
      by (auto simp: bit_drop_bit_eq dest: bit_imp_le_length)
    moreover have "bit (0xEDB88320 :: u32) 31" by simp
    ultimately show False by metis
  qed
  with z have "drop_bit 1 a = 0" by (simp add: crc32_bit_cases)
  show "a = 0"
  proof (rule bit_word_eqI)
    fix n assume "n < LENGTH(32)"
    show "bit a n = bit 0 n"
    proof (cases n)
      case 0
      with b0 show ?thesis by simp
    next
      case (Suc m)
      have "bit (drop_bit 1 a) m = bit (0 :: u32) m" using \<open>drop_bit 1 a = 0\<close> by simp
      with Suc show ?thesis by (simp add: bit_drop_bit_eq)
    qed
  qed
qed

lemma crc32_bits_xor: "(crc32_bit ^^ n) (a XOR b) = (crc32_bit ^^ n) a XOR (crc32_bit ^^ n) b"
  by (induction n) (simp_all add: crc32_bit_xor)

lemma crc32_bits_inj: "(crc32_bit ^^ n) a = (crc32_bit ^^ n) b \<Longrightarrow> a = b"
proof (induction n)
  case (Suc n)
  then have "crc32_bit ((crc32_bit ^^ n) a XOR (crc32_bit ^^ n) b) = 0"
    by (simp add: crc32_bit_xor)
  then have "(crc32_bit ^^ n) a XOR (crc32_bit ^^ n) b = 0" by (rule crc32_bit_eq_0)
  then have "(crc32_bit ^^ n) a = (crc32_bit ^^ n) b" by (simp add: word_xor_eq_0)
  then show ?case by (rule Suc.IH)
qed simp


subsection \<open>Burst errors\<close>

text \<open>
  A byte fed into the register commutes with later shifts of a byte it does not meet yet, so
  the register after at most four bytes is the image of the start value combined with the
  bytes read as one little-endian word.
\<close>

lemma crc32_bit_even: "\<not> bit a 0 \<Longrightarrow> crc32_bit a = drop_bit 1 a"
  by (simp add: crc32_bit_cases)

lemma crc32_bits_push:
  assumes "n + k \<le> 32"
  shows "(crc32_bit ^^ n) (push_bit n (take_bit k a)) = take_bit k (a :: u32)"
  using assms
proof (induction n)
  case (Suc n)
  let ?x = "push_bit (Suc n) (take_bit k a)"
  have "drop_bit 1 ?x = push_bit n (take_bit k a)"
    using Suc.prems
    by (intro bit_word_eqI)
      (auto simp: bit_drop_bit_eq bit_push_bit_iff bit_take_bit_iff simp del: push_bit_Suc)
  moreover have "\<not> bit ?x 0" by (simp add: bit_push_bit_iff del: push_bit_Suc)
  ultimately have "crc32_bit ?x = push_bit n (take_bit k a)" by (simp add: crc32_bit_even)
  moreover have "(crc32_bit ^^ Suc n) ?x = (crc32_bit ^^ n) (crc32_bit ?x)"
    by (simp add: funpow_swap1)
  ultimately show ?case using Suc by (simp del: push_bit_Suc)
qed simp

lemma crc32_bits_push_byte:
  "8 * n + 8 \<le> 32 \<Longrightarrow> (crc32_bit ^^ (8 * n)) (push_bit (8 * n) (ucast (b :: u8))) = ucast b"
  using crc32_bits_push [of "8 * n" 8 "ucast b"]
  by simp

lemma crc32_window:
  "length us \<le> 4 \<Longrightarrow>
     foldl crc32_byte s us = (crc32_bit ^^ (8 * length us)) (s XOR from_le us)"
proof (induction us rule: rev_induct)
  case (snoc b us)
  let ?n = "length us"
  have ub: "ucast b = (crc32_bit ^^ (8 * ?n)) (push_bit (8 * ?n) (ucast b))"
    using snoc.prems by (intro crc32_bits_push_byte [symmetric]) simp
  have "foldl crc32_byte s (us @ [b]) =
      (crc32_bit ^^ 8) ((crc32_bit ^^ (8 * ?n)) (s XOR from_le us) XOR ucast b)"
    using snoc by (simp add: crc32_byte_def [of "(crc32_bit ^^ (8 * ?n)) (s XOR from_le us)"])
  also have "\<dots> = (crc32_bit ^^ 8) ((crc32_bit ^^ (8 * ?n)) (s XOR from_le us XOR push_bit (8 * ?n) (ucast b)))"
    by (subst ub) (simp only: crc32_bits_xor xor.assoc)
  also have "\<dots> = (crc32_bit ^^ (8 + 8 * ?n)) (s XOR from_le (us @ [b]))"
    by (simp add: funpow_add from_le_snoc xor.assoc)
  finally show ?case by (simp add: add.commute)
qed simp

lemma crc32_byte_inj_state: "foldl crc32_byte s zs = foldl crc32_byte t zs \<Longrightarrow> s = t"
proof (induction zs arbitrary: s t)
  case (Cons z zs)
  then have "crc32_byte s z = crc32_byte t z" by simp
  then have "s XOR ucast z = t XOR ucast z" unfolding crc32_byte_def by (rule crc32_bits_inj)
  then have "s = t" by simp
  then show ?case .
qed simp

theorem crc32_detects_burst:
  assumes "length us = length vs" "length us \<le> 4" "us \<noteq> vs"
  shows "crc32_bytes (xs @ us @ zs) \<noteq> crc32_bytes (xs @ vs @ zs)"
proof
  let ?s = "foldl crc32_byte 0xFFFFFFFF xs"
  assume "crc32_bytes (xs @ us @ zs) = crc32_bytes (xs @ vs @ zs)"
  then have "foldl crc32_byte (foldl crc32_byte ?s us) zs = foldl crc32_byte (foldl crc32_byte ?s vs) zs"
    by (simp add: crc32_bytes_def)
  then have "foldl crc32_byte ?s us = foldl crc32_byte ?s vs" by (rule crc32_byte_inj_state)
  then have "(crc32_bit ^^ (8 * length us)) (?s XOR from_le us) =
      (crc32_bit ^^ (8 * length us)) (?s XOR from_le vs)"
    using assms by (simp only: crc32_window)
  then have "?s XOR from_le us = ?s XOR from_le vs" by (rule crc32_bits_inj)
  then have "(from_le us :: u32) = from_le vs"
    by simp
  then show False using assms from_le_inj [of us vs, where ?'a = 32] by simp
qed


section \<open>Packet identities\<close>

abbreviation kPrime :: u64 where "kPrime \<equiv> 0x9E3779B1"

definition hash_step :: "u64 \<Rightarrow> u8 \<Rightarrow> u64" where
  "hash_step h b = (let h1 = (h XOR ucast b) * kPrime in h1 XOR drop_bit 27 h1)"

definition hash_bytes_u64 :: "u64 \<Rightarrow> bytes \<Rightarrow> u64" where
  "hash_bytes_u64 h data = foldl hash_step h data"

definition hash_string :: "u64 \<Rightarrow> string \<Rightarrow> u64" where
  "hash_string h value = hash_bytes_u64 h (bytes_of_string value)"

text \<open>
  The conditional expression of the sources has type \<open>std::string\<close>, so a null endpoint name
  reaches the string constructor, which throws: \<open>None\<close>.
\<close>

definition type_text :: "env \<Rightarrow> u32 \<Rightarrow> string" where
  "type_text E t = (if unat t < length (kTypeInfo E) then ti_name (kTypeInfo E ! unat t)
                    else to_string (unat t))"

definition endpoint_text :: "env \<Rightarrow> u32 \<Rightarrow> string option" where
  "endpoint_text E ep = (if unat ep < length (kEndpointNames E) then kEndpointNames E ! unat ep
                         else Some (to_string (unat ep)))"

fun hash_endpoints :: "env \<Rightarrow> u64 \<Rightarrow> u32 list \<Rightarrow> u64 option" where
  "hash_endpoints E h [] = Some h"
| "hash_endpoints E h (ep # eps) = do {
     t \<leftarrow> endpoint_text E ep;
     hash_endpoints E (hash_string h t) eps
   }"

definition packet_id_with_endpoints :: "env \<Rightarrow> packet \<Rightarrow> u32 list \<Rightarrow> u64 option" where
  "packet_id_with_endpoints E pkt eps = do {
     let h1 = hash_string 0x9E3779B97F4A7C15 (sender pkt);
     let h2 = hash_string h1 (type_text E (ty pkt));
     h3 \<leftarrow> hash_endpoints E h2 eps;
     let h4 = hash_bytes_u64 h3 (le_bytes 8 (timestamp pkt));
     let h5 = hash_bytes_u64 h4 (le_bytes 8 (word_of_nat (length (payload pkt)) :: u64));
     Some (hash_bytes_u64 h5 (payload pkt))
   }"

definition packet_id :: "env \<Rightarrow> packet \<Rightarrow> u64 option" where
  "packet_id E pkt = packet_id_with_endpoints E pkt (endpoints pkt)"

fun push_missing :: "'a list \<Rightarrow> 'a list \<Rightarrow> 'a list" where
  "push_missing acc [] = acc"
| "push_missing acc (x # xs) = push_missing (if x \<in> set acc then acc else acc @ [x]) xs"

definition source_endpoints :: "env \<Rightarrow> packet \<Rightarrow> u32 list" where
  "source_endpoints E pkt =
     push_missing (filter (\<lambda>ep. ep \<in> set (endpoints pkt)) (ti_endpoints (kTypeInfo E ! unat (ty pkt))))
       (endpoints pkt)"

definition source_packet_id :: "env \<Rightarrow> packet \<Rightarrow> u64 option" where
  "source_packet_id E pkt =
     (if length (kTypeInfo E) \<le> unat (ty pkt) then packet_id E pkt
      else packet_id_with_endpoints E pkt (source_endpoints E pkt))"

definition sender_hash :: "string \<Rightarrow> u64" where
  "sender_hash s = foldl (\<lambda>h b. (h XOR ucast b) * 1099511628211) 0x517CC1B727220A95 (bytes_of_string s)"

subsection \<open>The hash step is a bijection of the state\<close>

lemma odd_mult_inj:
  assumes "a * kPrime = b * kPrime"
  shows "a = (b :: u64)"
proof -
  have inv: "kPrime * 0xCFA4A56B0E8B2F51 = (1 :: u64)" by simp
  have "a * (kPrime * 0xCFA4A56B0E8B2F51) = b * (kPrime * 0xCFA4A56B0E8B2F51)"
    by (simp only: assms mult.assoc [symmetric])
  then show ?thesis by (simp only: inv mult_1_right)
qed

lemma xorshift_inj:
  assumes "0 < k" and eq: "a XOR drop_bit k a = b XOR drop_bit k b"
  shows "a = (b :: 'a::len word)"
proof -
  have "drop_bit (n * k) (a XOR b) = a XOR b" for n
  proof (induction n)
    case (Suc n)
    have "drop_bit k (a XOR b) = a XOR b"
    proof (rule bit_word_eqI)
      fix i
      have "bit (a XOR drop_bit k a) i = bit (b XOR drop_bit k b) i" using eq by simp
      then show "bit (drop_bit k (a XOR b)) i = bit (a XOR b) i"
        by (simp add: bit_xor_iff bit_drop_bit_eq) blast
    qed
    with Suc show ?case by (metis drop_bit_drop_bit mult_Suc)
  qed simp
  then have "a XOR b = drop_bit (LENGTH('a) * k) (a XOR b)" by simp
  also have "\<dots> = 0"
    using \<open>0 < k\<close> by (intro bit_word_eqI) (auto simp: bit_drop_bit_eq dest!: bit_imp_le_length)
  finally show ?thesis by (simp add: word_xor_eq_0)
qed

lemma hash_step_mix_inj:
  "hash_step h b = hash_step g c \<longleftrightarrow> h XOR ucast b = g XOR ucast c"
proof
  assume "hash_step h b = hash_step g c"
  then have "(h XOR ucast b) * kPrime = (g XOR ucast c) * kPrime"
    unfolding hash_step_def Let_def by (rule xorshift_inj [OF zero_less_numeral])
  then show "h XOR ucast b = g XOR ucast c" by (rule odd_mult_inj)
qed (simp only: hash_step_def)

lemma hash_bytes_inj_state: "hash_bytes_u64 h zs = hash_bytes_u64 g zs \<longleftrightarrow> h = g"
  unfolding hash_bytes_u64_def
  by (induction zs arbitrary: h g) (simp_all add: hash_step_mix_inj)

lemma hash_bytes_append: "hash_bytes_u64 h (xs @ ys) = hash_bytes_u64 (hash_bytes_u64 h xs) ys"
  by (simp add: hash_bytes_u64_def)

lemma hash_bytes_one_byte:
  "hash_bytes_u64 h (xs @ b # zs) = hash_bytes_u64 h (xs @ c # zs) \<longleftrightarrow> b = c"
proof -
  have "hash_bytes_u64 h (xs @ x # zs) = hash_bytes_u64 (hash_step (hash_bytes_u64 h xs) x) zs" for x
    by (simp add: hash_bytes_u64_def)
  then show ?thesis
    by (simp add: hash_bytes_inj_state hash_step_mix_inj ucast_inj_u8)
qed

lemma hash_endpoints_inj_state:
  "hash_endpoints E h eps = Some v \<Longrightarrow> hash_endpoints E g eps = Some v \<Longrightarrow> h = g"
proof (induction eps arbitrary: h g)
  case (Cons ep eps)
  then obtain t where "endpoint_text E ep = Some t" by (auto simp: bind_eq_Some_conv)
  with Cons.prems have "hash_string h t = hash_string g t" by (intro Cons.IH) simp_all
  then show ?case by (simp add: hash_string_def hash_bytes_inj_state)
qed simp

lemma hash_endpoints_total:
  "hash_endpoints E h eps = None \<longleftrightarrow> (\<exists>ep \<in> set eps. endpoint_text E ep = None)"
  by (induction eps arbitrary: h) (auto simp: bind_eq_None_conv)

lemma hash_step_one_byte: "hash_step h b = hash_step h c \<longleftrightarrow> b = c"
  by (simp add: hash_step_mix_inj ucast_inj_u8)

lemma set_push_missing [simp]: "set (push_missing acc xs) = set acc \<union> set xs"
  by (induction acc xs rule: push_missing.induct) auto

lemma set_source_endpoints [simp]: "set (source_endpoints E pkt) = set (endpoints pkt)"
  by (auto simp: source_endpoints_def)

section \<open>Constructed packets\<close>

fun error_string :: "int \<Rightarrow> string" where
  "error_string code =
     (if code = 0 then ''OK'' else if code = -1 then ''ERR'' else if code = -2 then ''Generic error''
      else if code = -3 then ''Invalid type'' else if code = -4 then ''Size mismatch''
      else if code = -5 then ''Size mismatch error'' else if code = -6 then ''Empty endpoints''
      else if code = -7 then ''Timestamp invalid'' else if code = -8 then ''Missing payload''
      else if code = -9 then ''Handler error'' else if code = -10 then ''Bad arg''
      else if code = -12 then ''Serialize error'' else if code = -13 then ''Deserialize error''
      else if code = -14 then ''I/O error'' else if code = -15 then ''Invalid UTF-8''
      else if code = -16 then ''Type mismatch'' else if code = -17 then ''Invalid link id''
      else if code = -18 then ''Packet too large'' else ''Unknown error'')"

text \<open>The written buffer, or no change; the buffer is at least \<open>buf_len\<close> long.\<close>

definition copy_text :: "string \<Rightarrow> string option \<Rightarrow> nat \<Rightarrow> seds_result \<times> string option" where
  "copy_text text buf buf_len =
     (case buf of
        None \<Rightarrow> (SEDS_ERR, None)
      | Some b \<Rightarrow> if buf_len \<le> length text then (SEDS_ERR, Some b)
                  else (SEDS_OK, Some (text @ CHR 0x00 # drop (Suc (length text)) b)))"

definition make_internal_packet :: "env \<Rightarrow> u32 \<Rightarrow> u64 \<Rightarrow> bytes \<Rightarrow> packet" where
  "make_internal_packet E t ts pl =
     \<lparr>ty = t, sender = device_identifier E, endpoints = ti_endpoints (type_at E t), timestamp = ts,
      payload = pl\<rparr>"

definition telemetry_error_endpoint :: "env \<Rightarrow> u32 \<Rightarrow> u32 list" where
  "telemetry_error_endpoint E control_ty =
     (case find (\<lambda>i. kEndpointNames E ! i = Some ''TELEMETRY_ERROR'') [0..<length (kEndpointNames E)] of
        Some i \<Rightarrow> [word_of_nat i]
      | None \<Rightarrow> ti_endpoints (type_at E control_ty))"

definition make_reliable_control_packet ::
    "env \<Rightarrow> u32 \<Rightarrow> u32 \<Rightarrow> u32 \<Rightarrow> u64 \<Rightarrow> string \<Rightarrow> packet" where
  "make_reliable_control_packet E control_ty t seq ts from =
     \<lparr>ty = control_ty, sender = from, endpoints = telemetry_error_endpoint E control_ty, timestamp = ts,
      payload = append_le 4 seq (append_le 4 (wire_type_id E t) [])\<rparr>"

definition make_e2e_reliable_ack_packet :: "env \<Rightarrow> u64 \<Rightarrow> u64 \<Rightarrow> string \<Rightarrow> packet" where
  "make_e2e_reliable_ack_packet E pid ts from =
     \<lparr>ty = SEDS_DT_RELIABLE_ACK, sender = from, endpoints = ti_endpoints (type_at E SEDS_DT_RELIABLE_ACK),
      timestamp = ts, payload = append_le 8 pid []\<rparr>"

definition kMaxErrorPayloadBytes :: nat where "kMaxErrorPayloadBytes = 1024"

definition make_router_error_packet :: "env \<Rightarrow> u32 list \<Rightarrow> string \<Rightarrow> packet" where
  "make_router_error_packet E eps message =
     \<lparr>ty = SEDS_DT_TELEMETRY_ERROR, sender = device_identifier E, endpoints = eps, timestamp = 0,
      payload = bytes_of_string (take kMaxErrorPayloadBytes message)\<rparr>"

end
