(* ===== verification/Wire.thy ===== *)
theory Wire
  imports Packets
begin

text \<open>
  The frame codec (\<open>src/serialize.cpp\<close>). A cursor \<open>const uint8_t *&cur\<close> with its \<open>end\<close> is the
  list of the bytes still to be read; a writer returns the bytes it appends. A function
  that can reach undefined behaviour or an uncaught exception returns an outer option whose
  \<open>None\<close> is that fault, with the sources' own \<open>std::optional\<close> inside. Every access through a
  cursor is such a function: a byte, a block or an advance behind \<open>end\<close> is a fault, and only
  the tests of the code keep the readers from it.
\<close>

section \<open>Cursors\<close>

text \<open>\<open>*cur++\<close> and \<open>cur += n\<close>; \<open>None\<close> is an access behind the end.\<close>

fun next_byte :: "bytes \<Rightarrow> (u8 \<times> bytes) option" where
  "next_byte [] = None"
| "next_byte (b # cur) = Some (b, cur)"

definition advance :: "bytes \<Rightarrow> nat \<Rightarrow> bytes option" where
  "advance cur n = (if n \<le> length cur then Some (drop n cur) else None)"

text \<open>Going on after a step that can fault, and that can refuse its input.\<close>

fun reads :: "'a option option \<Rightarrow> ('a \<Rightarrow> 'b option option) \<Rightarrow> 'b option option" where
  "reads None f = None"
| "reads (Some None) f = Some None"
| "reads (Some (Some x)) f = f x"

lemma reads_eq_Some_Some: "reads m f = Some (Some y) \<longleftrightarrow> (\<exists>x. m = Some (Some x) \<and> f x = Some (Some y))"
  by (cases "(m, f)" rule: reads.cases) auto

lemma reads_eq_None: "reads m f = None \<longleftrightarrow> m = None \<or> (\<exists>x. m = Some (Some x) \<and> f x = None)"
  by (cases "(m, f)" rule: reads.cases) auto

lemma next_byte_total: "cur \<noteq> [] \<Longrightarrow> next_byte cur = Some (hd cur, tl cur)"
  by (cases cur) simp_all

section \<open>Variable-length integers\<close>

lemma unat_drop_bit_7: "unat (drop_bit 7 v) = unat (v :: u64) div 128"
  by (simp add: drop_bit_eq_div unat_div)

function write_uleb128 :: "u64 \<Rightarrow> bytes" where
  "write_uleb128 v =
     (let byte = ucast (v AND 0x7F); v' = drop_bit 7 v
      in if v' \<noteq> 0 then (byte OR 0x80) # write_uleb128 v' else [byte])"
  by pat_completeness auto

termination
proof (relation "measure unat")
  fix v v' :: u64 assume "v' = drop_bit 7 v" "v' \<noteq> 0"
  then have "unat v div 128 \<noteq> 0" using unat_drop_bit_7 [of v] by (metis unat_eq_zero)
  then have "unat v' < unat v" using unat_drop_bit_7 [of v] \<open>v' = drop_bit 7 v\<close> by simp
  then show "(v', v) \<in> measure unat" by simp
qed simp

declare write_uleb128.simps [simp del]

text \<open>The loop of \<open>read_uleb128\<close> with \<open>i\<close> iterations left.\<close>

fun read_uleb_loop :: "nat \<Rightarrow> nat \<Rightarrow> u64 \<Rightarrow> bytes \<Rightarrow> (u64 \<times> bytes) option option" where
  "read_uleb_loop 0 shift out cur = Some None"
| "read_uleb_loop (Suc i) shift out cur =
     (if cur = [] then Some None
      else case next_byte cur of
          None \<Rightarrow> None
        | Some (byte, cur') \<Rightarrow>
            let out' = out OR push_bit shift (ucast (byte AND 0x7F))
            in if byte AND 0x80 = 0 then Some (Some (out', cur')) else read_uleb_loop i (shift + 7) out' cur')"

definition read_uleb128 :: "bytes \<Rightarrow> (u64 \<times> bytes) option option" where
  "read_uleb128 cur = read_uleb_loop 10 0 0 cur"

lemma and_7F: "(a :: 'a::len word) AND 0x7F = take_bit 7 a"
  by (simp add: take_bit_eq_mask mask_eq_exp_minus_1)

lemma and_80: "(b :: u8) AND 0x80 = 0 \<longleftrightarrow> \<not> bit b 7"
  using and_exp_eq_0_iff_not_bit [of b 7] by simp

lemma bit_80: "bit (0x80 :: u8) n \<longleftrightarrow> n = 7"
  using bit_exp_iff [where ?'a = u8, of 7 n] by (auto dest: bit_imp_le_length)

lemma uleb_low_bits:
  "ucast (take_bit 7 (ucast (take_bit 7 v) OR 0x80 :: u8)) = take_bit 7 (v :: u64)"
  "ucast (take_bit 7 (ucast (take_bit 7 v) :: u8)) = take_bit 7 (v :: u64)"
  by (rule bit_word_eqI; auto simp: bit_take_bit_iff bit_ucast_iff bit_or_iff bit_80)+

lemma uleb_split: "push_bit s (take_bit 7 v) OR push_bit (s + 7) (drop_bit 7 v) = push_bit s (v :: u64)"
proof (rule bit_word_eqI)
  fix n assume "n < LENGTH(64)"
  moreover have "7 + (n - (s + 7)) = n - s" if "\<not> n - s < 7" using that by linarith
  ultimately show "bit (push_bit s (take_bit 7 v) OR push_bit (s + 7) (drop_bit 7 v)) n = bit (push_bit s v) n"
    by (cases "n - s < 7") (auto simp: bit_take_bit_iff bit_or_iff bit_push_bit_iff bit_drop_bit_eq)
qed

lemma read_uleb_loop_write:
  "unat v < 2 ^ (7 * i) \<Longrightarrow> 0 < i \<Longrightarrow>
     read_uleb_loop i s acc (write_uleb128 v @ rest) = Some (Some (acc OR push_bit s v, rest))"
proof (induction i arbitrary: v s acc)
  case (Suc i)
  have top: "bit (ucast (take_bit 7 v) OR 0x80 :: u8) 7" "\<not> bit (ucast (take_bit 7 v) :: u8) 7"
    by (simp_all add: bit_or_iff bit_80 bit_ucast_iff bit_take_bit_iff)
  show ?case
  proof (cases "drop_bit 7 v = 0")
    case True
    then have "push_bit s (take_bit 7 v) = push_bit s v" using uleb_split [of s v] by simp
    then show ?thesis
      using True top
      by (simp add: write_uleb128.simps [of v] and_7F and_80 uleb_low_bits Let_def)
  next
    case False
    have "unat v < 2 ^ (7 * i) * 128" using Suc.prems by (simp add: power_add mult.commute)
    then have lt: "unat (drop_bit 7 v) < 2 ^ (7 * i)" by (simp add: unat_drop_bit_7 less_mult_imp_div_less del: drop_bit_numeral_bit0)
    moreover have "0 < i" using False lt by (cases i) (auto simp: unat_eq_zero)
    ultimately have "read_uleb_loop i (s + 7) (acc OR push_bit s (take_bit 7 v))
        (write_uleb128 (drop_bit 7 v) @ rest) =
        Some (Some ((acc OR push_bit s (take_bit 7 v)) OR push_bit (s + 7) (drop_bit 7 v), rest))"
      by (rule Suc.IH)
    then show ?thesis
      using False top uleb_split [of s v]
      by (simp add: write_uleb128.simps [of v] and_7F and_80 uleb_low_bits Let_def or.assoc)
  qed
qed simp

lemma read_write_uleb128 [wire_simps]: "read_uleb128 (write_uleb128 v @ rest) = Some (Some (v, rest))"
proof -
  have "unat v < 2 ^ 64" using unsigned_less [of v, where ?'a = nat] by simp
  then have "unat v < 2 ^ (7 * 10)" by (rule less_trans) simp
  then show ?thesis unfolding read_uleb128_def by (simp only: read_uleb_loop_write) simp
qed

section \<open>Frame data\<close>

record reliable_header =
  rh_flags :: u8
  seq :: u32
  ack :: u32

record telemetry_envelope =
  env_ty :: u32
  env_endpoints :: "u32 list"
  env_sender :: string
  timestamp_ms :: u64

record frame_info =
  envelope :: telemetry_envelope
  reliable :: "reliable_header option"

definition ack_only :: "frame_info \<Rightarrow> bool" where
  "ack_only info = (case reliable info of None \<Rightarrow> False | Some h \<Rightarrow> rh_flags h AND 0x01 \<noteq> 0)"

abbreviation kCrcBytes :: nat where "kCrcBytes \<equiv> 4"
abbreviation kReliableHeaderBytes :: nat where "kReliableHeaderBytes \<equiv> 9"
abbreviation kFlagCompressedPayload :: u8 where "kFlagCompressedPayload \<equiv> 0x01"
abbreviation kFlagCompressedSender :: u8 where "kFlagCompressedSender \<equiv> 0x02"
abbreviation kV4EndpointBitmapBytes :: nat where "kV4EndpointBitmapBytes \<equiv> 32"
abbreviation kV4FlagCompressedPayload :: u8 where "kV4FlagCompressedPayload \<equiv> 0x01"
abbreviation kV4FlagEndpointBitmapPresent :: u8 where "kV4FlagEndpointBitmapPresent \<equiv> 0x20"
abbreviation kV4FlagCompactReliableHeader :: u8 where "kV4FlagCompactReliableHeader \<equiv> 0x40"
abbreviation kV4ReliableFlagAckOnly :: u8 where "kV4ReliableFlagAckOnly \<equiv> 0x01"
abbreviation kV4ReliableFlagUnsequenced :: u8 where "kV4ReliableFlagUnsequenced \<equiv> 0x80"
abbreviation kV4ReliableWireSeqPresent :: u8 where "kV4ReliableWireSeqPresent \<equiv> 0x04"
abbreviation kV4ReliableWireAckPresent :: u8 where "kV4ReliableWireAckPresent \<equiv> 0x08"

definition is_v4_frame_flags :: "u8 \<Rightarrow> bool" where
  "is_v4_frame_flags flags \<longleftrightarrow>
     flags AND (0x04 OR 0x08 OR 0x10 OR kV4FlagEndpointBitmapPresent OR kV4FlagCompactReliableHeader) \<noteq> 0 \<or>
     flags AND NOT (kV4FlagCompressedPayload OR 0x04 OR 0x08 OR 0x10 OR kV4FlagEndpointBitmapPresent
                      OR kV4FlagCompactReliableHeader) \<noteq> 0"

definition sender_address_u32 :: "string \<Rightarrow> u32" where
  "sender_address_u32 s =
     (let raw = ucast (hash_string 0xA6D38C214B7F19E5 s) :: u32 in if raw = 0 then 1 else raw)"

text \<open>The sender a decoder reports: only the 32-bit address travels.\<close>

definition address_sender :: "u64 \<Rightarrow> string" where
  "address_sender a = ''@addr:'' @ to_string (unat a)"

section \<open>Endpoint bitmaps\<close>

definition set_bitmap_bit :: "nat \<Rightarrow> bytes \<Rightarrow> bytes" where
  "set_bitmap_bit i bm = bm[i div 8 := (bm ! (i div 8)) OR push_bit (i mod 8) 1]"

definition bitmap_bit :: "bytes \<Rightarrow> nat \<Rightarrow> bool" where
  "bitmap_bit bm i \<longleftrightarrow> (bm ! (i div 8)) AND push_bit (i mod 8) 1 \<noteq> 0"

definition v4_endpoint_bitmap :: "env \<Rightarrow> u32 list \<Rightarrow> bytes" where
  "v4_endpoint_bitmap E eps =
     foldl (\<lambda>bm ep. let wire = unat (v4_endpoint_id E ep) in
                if wire < kV4EndpointBitmapBytes * 8 then set_bitmap_bit wire bm else bm)
       (replicate kV4EndpointBitmapBytes 0) eps"

text \<open>The loop of \<open>parse_v4_bitmap\<close> over the bit positions given.\<close>

fun parse_v4_bits :: "env \<Rightarrow> bytes \<Rightarrow> nat list \<Rightarrow> u32 list option" where
  "parse_v4_bits E bm [] = Some []"
| "parse_v4_bits E bm (i # is) =
     (if bitmap_bit bm i then do {
        local \<leftarrow> local_endpoint_id E (word_of_nat i);
        out \<leftarrow> parse_v4_bits E bm is;
        Some (case local of Some l \<Rightarrow> l # out | None \<Rightarrow> out)
      } else parse_v4_bits E bm is)"

definition parse_v4_bitmap :: "env \<Rightarrow> bytes \<Rightarrow> u32 list option" where
  "parse_v4_bitmap E bm = parse_v4_bits E bm [0..<length bm * 8]"

definition endpoint_bitmap_bytes :: "env \<Rightarrow> nat" where
  "endpoint_bitmap_bytes E = unat ((kEndpointCount E + 7) div 8)"

definition endpoint_bitmap :: "env \<Rightarrow> u32 list \<Rightarrow> bytes" where
  "endpoint_bitmap E eps =
     foldl (\<lambda>bm ep. if valid_endpoint E ep then set_bitmap_bit (unat ep) bm else bm)
       (replicate (endpoint_bitmap_bytes E) 0) eps"

definition parse_bitmap :: "env \<Rightarrow> bytes \<Rightarrow> u32 list" where
  "parse_bitmap E bm =
     map word_of_nat (filter (bitmap_bit bm) [0..<min (length bm * 8) (unat (kEndpointCount E))])"

section \<open>Compression\<close>

definition maybe_compress :: "env \<Rightarrow> bytes \<Rightarrow> bytes \<times> bool" where
  "maybe_compress E data =
     (case seds_has_zstd E of
        None \<Rightarrow> (data, False)
      | Some z \<Rightarrow>
          if payload_compress_threshold (tuning E) \<le> length data then
            (case zstd_compress z data of
               None \<Rightarrow> (data, False)
             | Some out \<Rightarrow> if length out < length data then (out, True) else (data, False))
          else (data, False))"

text \<open>
  \<open>std::vector<uint8_t> out(logical_len)\<close> throws \<open>std::length_error\<close> above the largest vector
  size, before ZSTD is called; running out of memory below it is not modelled.
\<close>

definition maybe_decompress :: "env \<Rightarrow> bytes \<Rightarrow> nat \<Rightarrow> bool \<Rightarrow> bytes option" where
  "maybe_decompress E data logical_len compressed =
     (if \<not> compressed then Some data
      else case seds_has_zstd E of
          None \<Rightarrow> Some []
        | Some z \<Rightarrow>
            if 2 ^ 63 \<le> logical_len then None
            else case zstd_decompress z data logical_len of
                None \<Rightarrow> Some []
              | Some out \<Rightarrow> if length out \<noteq> logical_len then Some [] else Some out)"

section \<open>Reliable headers\<close>

definition should_compact_reliable_header :: "reliable_header \<Rightarrow> bool" where
  "should_compact_reliable_header h \<longleftrightarrow>
     rh_flags h AND kV4ReliableFlagAckOnly \<noteq> 0 \<or> seq h = 0 \<or> ack h = 0"

definition write_v4_reliable_header :: "reliable_header \<Rightarrow> bool \<Rightarrow> bytes" where
  "write_v4_reliable_header h compact =
     (if \<not> compact then append_le 4 (ack h) (append_le 4 (seq h) [rh_flags h])
      else
        let seq_present = rh_flags h AND kV4ReliableFlagAckOnly = 0 \<or> seq h \<noteq> 0;
            ack_present = ack h \<noteq> 0 \<or> rh_flags h AND kV4ReliableFlagAckOnly \<noteq> 0;
            flags1 = (if seq_present then rh_flags h OR kV4ReliableWireSeqPresent else rh_flags h);
            flags2 = (if ack_present then flags1 OR kV4ReliableWireAckPresent else flags1)
        in [flags2] @ (if seq_present then write_uleb128 (ucast (seq h)) else [])
             @ (if ack_present then write_uleb128 (ucast (ack h)) else []))"

text \<open>An optional 32-bit field of the compact form.\<close>

definition read_field :: "bool \<Rightarrow> bytes \<Rightarrow> (u32 \<times> bytes) option option" where
  "read_field present cur =
     (if \<not> present then Some (Some (0, cur))
      else reads (read_uleb128 cur) (\<lambda>(v, rest).
        if 0xFFFFFFFF < v then Some None else Some (Some (ucast v, rest))))"

definition read_v4_reliable_header :: "bytes \<Rightarrow> bool \<Rightarrow> (reliable_header \<times> bytes) option option" where
  "read_v4_reliable_header cur compact =
     (if cur = [] then Some None
      else do {
        (flags, cur1) \<leftarrow> next_byte cur;
        if \<not> compact then
          (if length cur1 < 8 then Some None
           else do {
             s \<leftarrow> read_ptr cur1 4;
             a \<leftarrow> read_ptr (drop 4 cur1) 4;
             cur2 \<leftarrow> advance cur1 8;
             Some (Some (\<lparr>rh_flags = flags, seq = from_le s, ack = from_le a\<rparr>, cur2))
           })
        else
          reads (read_field (flags AND kV4ReliableWireSeqPresent \<noteq> 0) cur1) (\<lambda>(s, cur2).
          reads (read_field (flags AND kV4ReliableWireAckPresent \<noteq> 0) cur2) (\<lambda>(a, cur3).
          Some (Some (\<lparr>rh_flags = flags AND NOT (kV4ReliableWireSeqPresent OR kV4ReliableWireAckPresent),
                       seq = s, ack = a\<rparr>, cur3))))
      })"

lemma read_field_write [wire_simps]:
  "read_field True (write_uleb128 (ucast v) @ rest) = Some (Some (v, rest))"
proof -
  have "\<not> 0xFFFFFFFF < (ucast v :: u64)"
    using unsigned_less [of v, where ?'a = nat] by (simp add: word_less_nat_alt)
  then show ?thesis by (simp add: read_field_def read_write_uleb128)
qed

lemma read_field_absent [wire_simps]: "read_field False cur = Some (Some (0, cur))"
  by (simp add: read_field_def)

text \<open>The two presence bits do not disturb the flags and are read back exactly.\<close>

lemma and_wire_bit: "(f :: u8) AND 0x04 = 0 \<longleftrightarrow> \<not> bit f 2" "(f :: u8) AND 0x08 = 0 \<longleftrightarrow> \<not> bit f 3"
  using and_exp_eq_0_iff_not_bit [of f 2] and_exp_eq_0_iff_not_bit [of f 3] by simp_all

lemma bit_wire_bit: "bit (0x04 :: u8) n \<longleftrightarrow> n = 2" "bit (0x08 :: u8) n \<longleftrightarrow> n = 3"
  using bit_exp_iff [where ?'a = u8, of 2 n] bit_exp_iff [where ?'a = u8, of 3 n]
  by (auto dest: bit_imp_le_length)

lemma bit_clear_mask: "bit (NOT (0x04 OR 0x08) :: u8) n \<longleftrightarrow> n < 8 \<and> n \<noteq> 2 \<and> n \<noteq> 3"
  unfolding bit_not_iff bit_or_iff bit_wire_bit by auto

lemma presence_bits:
  fixes f :: u8
  assumes "\<not> bit f 2" "\<not> bit f 3"
  defines "g \<equiv> \<lambda>s a. (if a then (if s then f OR 0x04 else f) OR 0x08 else if s then f OR 0x04 else f)"
  shows "g s a AND 0x04 \<noteq> 0 \<longleftrightarrow> s" "g s a AND 0x08 \<noteq> 0 \<longleftrightarrow> a" "g s a AND NOT (0x04 OR 0x08) = f"
proof -
  have b: "bit (g s a) n \<longleftrightarrow> bit f n \<or> s \<and> n = 2 \<or> a \<and> n = 3" for n
    unfolding g_def by (auto simp only: bit_or_iff bit_wire_bit split: if_splits)
  show "g s a AND 0x04 \<noteq> 0 \<longleftrightarrow> s" "g s a AND 0x08 \<noteq> 0 \<longleftrightarrow> a"
    using assms(1,2) by (auto simp: and_wire_bit b)
  show "g s a AND NOT (0x04 OR 0x08) = f"
    using assms(1,2) by (intro bit_word_eqI) (auto simp only: bit_and_iff bit_clear_mask b len_num1 len_bit0)
qed

lemma read_write_v4_reliable_header:
  assumes "compact \<Longrightarrow> \<not> bit (rh_flags h) 2 \<and> \<not> bit (rh_flags h) 3"
  shows "read_v4_reliable_header (write_v4_reliable_header h compact @ rest) compact = Some (Some (h, rest))"
proof (cases compact)
  case False
  then show ?thesis
    by (simp add: write_v4_reliable_header_def read_v4_reliable_header_def append_le_def read_ptr_def advance_def)
next
  case True
  note p = presence_bits [of "rh_flags h"]
  show ?thesis
    unfolding write_v4_reliable_header_def read_v4_reliable_header_def Let_def
    using assms True
    by (auto simp only: p append_Cons append_Nil append.assoc list.distinct next_byte.simps if_True if_False
        not_True_eq_False bind.simps reads.simps wire_simps prod.case simp_thms split: if_split) (cases h; simp)+
qed

section \<open>Encoders\<close>

definition frame_of_body :: "bytes \<Rightarrow> bytes" where
  "frame_of_body out = append_le 4 (crc32_bytes out) out"

definition serialize_packet_with_reliable :: "env \<Rightarrow> packet \<Rightarrow> reliable_header \<Rightarrow> bytes" where
  "serialize_packet_with_reliable E pkt h =
     (let (payload_wire, payload_compressed) = maybe_compress E (payload pkt);
          compact_reliable = should_compact_reliable_header h;
          flags1 = (if payload_compressed then kV4FlagCompressedPayload else 0);
          flags2 = flags1 OR kV4FlagEndpointBitmapPresent;
          flags = (if compact_reliable then flags2 OR kV4FlagCompactReliableHeader else flags2)
      in frame_of_body
           ([flags, word_of_nat (length (endpoints pkt))] @
            write_uleb128 (ucast (v4_type_id E (ty pkt))) @
            write_uleb128 (word_of_nat (length (payload pkt))) @
            write_uleb128 (timestamp pkt) @
            write_uleb128 (ucast (sender_address_u32 (sender pkt))) @
            v4_endpoint_bitmap E (endpoints pkt) @
            (if has_v4_reliable_header E (ty pkt) then write_v4_reliable_header h compact_reliable else []) @
            payload_wire))"

definition serialize_reliable_ack :: "env \<Rightarrow> string \<Rightarrow> u32 \<Rightarrow> u64 \<Rightarrow> u32 \<Rightarrow> bytes" where
  "serialize_reliable_ack E from t ts a =
     frame_of_body
       ([kV4FlagEndpointBitmapPresent OR kV4FlagCompactReliableHeader, 0] @
        write_uleb128 (ucast (v4_type_id E t)) @
        write_uleb128 0 @
        write_uleb128 ts @
        write_uleb128 (ucast (sender_address_u32 from)) @
        replicate kV4EndpointBitmapBytes 0 @
        write_v4_reliable_header \<lparr>rh_flags = kV4ReliableFlagAckOnly, seq = 0, ack = a\<rparr> True)"

definition serialize_packet :: "env \<Rightarrow> packet \<Rightarrow> bytes" where
  "serialize_packet E pkt =
     (if ty pkt = SEDS_DT_RELIABLE_ACK \<and> length (payload pkt) = 8 \<and> \<not> prefix ''E2EACK:'' (sender pkt) then
        let acked_ty = from_le (take 4 (payload pkt));
            a = from_le (take 4 (drop 4 (payload pkt)));
            t = (case local_type_from_wire_id E acked_ty of Some l \<Rightarrow> l | None \<Rightarrow> acked_ty)
        in serialize_reliable_ack E (sender pkt) t (timestamp pkt) a
      else if has_v4_reliable_header E (ty pkt) then
        serialize_packet_with_reliable E pkt \<lparr>rh_flags = kV4ReliableFlagUnsequenced, seq = 0, ack = 0\<rparr>
      else
        let (payload_wire, payload_compressed) = maybe_compress E (payload pkt);
            flags1 = (if payload_compressed then kV4FlagCompressedPayload else 0);
            flags = flags1 OR kV4FlagEndpointBitmapPresent
        in frame_of_body
             ([flags, word_of_nat (length (endpoints pkt))] @
              write_uleb128 (ucast (v4_type_id E (ty pkt))) @
              write_uleb128 (word_of_nat (length (payload pkt))) @
              write_uleb128 (timestamp pkt) @
              write_uleb128 (ucast (sender_address_u32 (sender pkt))) @
              v4_endpoint_bitmap E (endpoints pkt) @
              payload_wire))"

section \<open>Decoders\<close>

text \<open>
  A null buffer is refused by the same test as a short one. The body of a frame is what
  precedes its checksum.
\<close>

definition frame_body :: "bytes \<Rightarrow> bytes" where
  "frame_body bs = take (length bs - kCrcBytes) bs"

definition frame_crc :: "bytes \<Rightarrow> bytes" where
  "frame_crc bs = drop (length bs - kCrcBytes) bs"

definition crc_matches :: "bytes \<Rightarrow> bool" where
  "crc_matches bs \<longleftrightarrow> crc32_bytes (frame_body bs) = from_le (frame_crc bs)"

record v4_head =
  h_flags :: u8
  h_nep :: u8
  h_wire_ty :: u64
  h_logical_size :: u64
  h_timestamp :: u64
  h_source_address :: u64

text \<open>The fixed part of a version 4 header, common to the three readers.\<close>

definition read_v4_head :: "bytes \<Rightarrow> (v4_head \<times> bytes) option option" where
  "read_v4_head cur = do {
     (flags, cur') \<leftarrow> next_byte cur;
     (nep, cur0) \<leftarrow> next_byte cur';
     reads (read_uleb128 cur0) (\<lambda>(wire_ty, cur1).
     reads (read_uleb128 cur1) (\<lambda>(logical_size, cur2).
     reads (read_uleb128 cur2) (\<lambda>(ts, cur3).
     reads (if flags AND 0x08 \<noteq> 0 then reads (read_uleb128 cur3) (\<lambda>(nonce, cur'). Some (Some cur'))
            else Some (Some cur3)) (\<lambda>cur4.
     reads (read_uleb128 cur4) (\<lambda>(source_address, cur5).
     Some (Some (\<lparr>h_flags = flags, h_nep = nep, h_wire_ty = wire_ty, h_logical_size = logical_size,
                  h_timestamp = ts, h_source_address = source_address\<rparr>, cur5)))))))
   }"

text \<open>The optional contract block.\<close>

definition skip_contract :: "u8 \<Rightarrow> bytes \<Rightarrow> bytes option option" where
  "skip_contract flags cur =
     (if flags AND 0x04 \<noteq> 0 then
        reads (read_uleb128 cur) (\<lambda>(contract_len, rest).
        if length rest < unat contract_len then Some None
        else map_option Some (advance rest (unat contract_len)))
      else Some (Some cur))"

text \<open>The endpoint set: a bitmap when the flag says so, else the endpoints of the type.\<close>

definition read_v4_endpoints :: "env \<Rightarrow> u8 \<Rightarrow> u32 \<Rightarrow> bytes \<Rightarrow> (u32 list \<times> bytes) option option" where
  "read_v4_endpoints E flags t cur =
     (if flags AND kV4FlagEndpointBitmapPresent \<noteq> 0 then
        (if length cur < kV4EndpointBitmapBytes then Some None
         else do {
           bm \<leftarrow> read_ptr cur kV4EndpointBitmapBytes;
           eps \<leftarrow> parse_v4_bitmap E bm;
           rest \<leftarrow> advance cur kV4EndpointBitmapBytes;
           Some (Some (eps, rest))
         })
      else Some (Some (ti_endpoints (type_at E t), cur)))"

text \<open>
  Everything up to the reliable header: the head, the local type, the endpoint list and the
  position behind the contract block.
\<close>

definition read_v4_envelope ::
    "env \<Rightarrow> bytes \<Rightarrow> (v4_head \<times> u32 \<times> u32 list \<times> bytes) option option" where
  "read_v4_envelope E body =
     reads (read_v4_head body) (\<lambda>(h, cur).
       case local_type_id E (ucast (h_wire_ty h)) of
         None \<Rightarrow> Some None
       | Some t \<Rightarrow>
           if \<not> valid_type E t then Some None
           else
             reads (read_v4_endpoints E (h_flags h) t cur) (\<lambda>(eps, cur2).
             if length eps \<noteq> unat (h_nep h) then Some None
             else reads (skip_contract (h_flags h) cur2) (\<lambda>cur3. Some (Some (h, t, eps, cur3)))))"

definition deserialize_v4 :: "env \<Rightarrow> bytes \<Rightarrow> packet option option" where
  "deserialize_v4 E body =
     reads (read_v4_envelope E body) (\<lambda>(h, t, eps, cur).
     reads (if has_v4_reliable_header E t then
              reads (read_v4_reliable_header cur (h_flags h AND kV4FlagCompactReliableHeader \<noteq> 0)) (\<lambda>(rel, cur').
              if rh_flags rel AND kV4ReliableFlagAckOnly \<noteq> 0 then Some None else Some (Some cur'))
            else Some (Some cur)) (\<lambda>cur2.
     do {
       pl \<leftarrow> maybe_decompress E cur2 (unat (h_logical_size h)) (h_flags h AND kV4FlagCompressedPayload \<noteq> 0);
       Some (if length pl \<noteq> unat (h_logical_size h) then None
             else Some \<lparr>ty = t, sender = address_sender (h_source_address h), endpoints = eps,
                        timestamp = h_timestamp h, payload = pl\<rparr>)
     }))"

subsection \<open>Legacy frames\<close>

record legacy_head =
  l_flags :: u8
  l_nep :: u8
  l_ty :: u64
  l_logical_size :: u64
  l_timestamp :: u64
  l_sender_len :: u64
  l_sender_wire_len :: u64

definition read_legacy_head :: "bytes \<Rightarrow> (legacy_head \<times> bytes) option option" where
  "read_legacy_head cur = do {
     (flags, cur') \<leftarrow> next_byte cur;
     (nep, cur0) \<leftarrow> next_byte cur';
     reads (read_uleb128 cur0) (\<lambda>(t, cur1).
     reads (read_uleb128 cur1) (\<lambda>(logical_size, cur2).
     reads (read_uleb128 cur2) (\<lambda>(ts, cur3).
     reads (read_uleb128 cur3) (\<lambda>(sender_len, cur4).
     reads (if flags AND kFlagCompressedSender \<noteq> 0 then read_uleb128 cur4 else Some (Some (sender_len, cur4)))
       (\<lambda>(sender_wire_len, cur5).
     Some (Some (\<lparr>l_flags = flags, l_nep = nep, l_ty = t, l_logical_size = logical_size, l_timestamp = ts,
                  l_sender_len = sender_len, l_sender_wire_len = sender_wire_len\<rparr>, cur5)))))))
   }"

text \<open>\<open>bitmap_len + sender_wire_len\<close> in 64-bit arithmetic.\<close>

definition legacy_prefix_len :: "env \<Rightarrow> legacy_head \<Rightarrow> u64" where
  "legacy_prefix_len E h = word_of_nat (endpoint_bitmap_bytes E) + l_sender_wire_len h"

text \<open>
  The type is checked after a cast to 32 bits and indexed at 64 bits: an index beyond the
  table is a read out of bounds.
\<close>

definition legacy_type_reliable :: "env \<Rightarrow> u64 \<Rightarrow> bool option" where
  "legacy_type_reliable E t =
     (if unat t < length (kTypeInfo E) then Some (ti_reliable (kTypeInfo E ! unat t)) else None)"

text \<open>
  The endpoint list and the sender; \<open>crc\<close> is the readable rest of the buffer behind \<open>end\<close>,
  which an unchecked read can reach when the length test above wraps around.
\<close>

definition read_legacy_envelope ::
    "env \<Rightarrow> bytes \<Rightarrow> bytes \<Rightarrow> (legacy_head \<times> u32 list \<times> bytes \<times> bytes) option option" where
  "read_legacy_envelope E body crc =
     reads (read_legacy_head body) (\<lambda>(h, cur).
          if \<not> valid_type E (ucast (l_ty h)) then Some None
          else if length cur < unat (legacy_prefix_len E h) then Some None
          else do {
            bm \<leftarrow> read_ptr (cur @ crc) (endpoint_bitmap_bytes E);
            let eps = parse_bitmap E bm;
            if length eps \<noteq> unat (l_nep h) then Some None
            else do {
              let cur1 = drop (endpoint_bitmap_bytes E) (cur @ crc);
              wire \<leftarrow> read_ptr cur1 (unat (l_sender_wire_len h));
              sender_bytes \<leftarrow> maybe_decompress E wire (unat (l_sender_len h))
                                (l_flags h AND kFlagCompressedSender \<noteq> 0);
              Some (if length sender_bytes \<noteq> unat (l_sender_len h) then None
                    else Some (h, eps, sender_bytes,
                               drop (endpoint_bitmap_bytes E + unat (l_sender_wire_len h)) cur))
            }
          })"

definition deserialize_legacy :: "env \<Rightarrow> bytes \<Rightarrow> bytes \<Rightarrow> packet option option" where
  "deserialize_legacy E body crc = do {
     r \<leftarrow> read_legacy_envelope E body crc;
     (case r of
        None \<Rightarrow> Some None
      | Some (h, eps, sender_bytes, cur) \<Rightarrow> do {
          rel \<leftarrow> legacy_type_reliable E (l_ty h);
          if rel \<and> (length cur < kReliableHeaderBytes \<or> hd cur AND 0x01 \<noteq> 0) then Some None
          else do {
            pl \<leftarrow> maybe_decompress E (if rel then drop kReliableHeaderBytes cur else cur)
                    (unat (l_logical_size h)) (l_flags h AND kFlagCompressedPayload \<noteq> 0);
            Some (if length pl \<noteq> unat (l_logical_size h) then None
                  else Some \<lparr>ty = ucast (l_ty h), sender = string_of_bytes sender_bytes, endpoints = eps,
                             timestamp = l_timestamp h, payload = pl\<rparr>)
          }
        })
   }"

subsection \<open>The readers\<close>

definition deserialize_packet :: "env \<Rightarrow> bytes \<Rightarrow> packet option option" where
  "deserialize_packet E bs =
     (if length bs < 2 + kCrcBytes then Some None
      else if \<not> crc_matches bs then Some None
      else if is_v4_frame_flags (hd bs) then deserialize_v4 E (frame_body bs)
      else deserialize_legacy E (frame_body bs) (frame_crc bs))"

definition peek_v4 :: "env \<Rightarrow> bytes \<Rightarrow> frame_info option option" where
  "peek_v4 E body =
     reads (read_v4_envelope E body) (\<lambda>(h, t, eps, cur).
       let e = \<lparr>env_ty = t, env_endpoints = eps, env_sender = address_sender (h_source_address h),
                timestamp_ms = h_timestamp h\<rparr>
       in if has_v4_reliable_header E t then
            reads (read_v4_reliable_header cur (h_flags h AND kV4FlagCompactReliableHeader \<noteq> 0)) (\<lambda>(rel, cur').
            Some (Some \<lparr>envelope = e, reliable = Some rel\<rparr>))
          else Some (Some \<lparr>envelope = e, reliable = None\<rparr>))"

definition peek_legacy :: "env \<Rightarrow> bytes \<Rightarrow> bytes \<Rightarrow> frame_info option option" where
  "peek_legacy E body crc = do {
     r \<leftarrow> read_legacy_envelope E body crc;
     (case r of
        None \<Rightarrow> Some None
      | Some (h, eps, sender_bytes, cur) \<Rightarrow> do {
          rel \<leftarrow> legacy_type_reliable E (l_ty h);
          (let e = \<lparr>env_ty = ucast (l_ty h), env_endpoints = eps,
                    env_sender = string_of_bytes sender_bytes, timestamp_ms = l_timestamp h\<rparr>
           in Some (if \<not> rel then Some \<lparr>envelope = e, reliable = None\<rparr>
                    else if length cur < kReliableHeaderBytes then None
                    else Some \<lparr>envelope = e,
                               reliable = Some \<lparr>rh_flags = hd cur, seq = from_le (take 4 (drop 1 cur)),
                                                ack = from_le (take 4 (drop 5 cur))\<rparr>\<rparr>))
        })
   }"

definition peek_frame_info :: "env \<Rightarrow> bytes \<Rightarrow> bool \<Rightarrow> frame_info option option" where
  "peek_frame_info E bs verify_crc =
     (if length bs < 2 + kCrcBytes then Some None
      else if verify_crc \<and> \<not> crc_matches bs then Some None
      else if is_v4_frame_flags (hd bs) then peek_v4 E (frame_body bs)
      else peek_legacy E (frame_body bs) (frame_crc bs))"

text \<open>Positions are counted from the front of the body.\<close>

definition reliable_header_offset :: "env \<Rightarrow> bytes \<Rightarrow> nat option option" where
  "reliable_header_offset E bs =
     (if length bs < 2 + kCrcBytes then Some None
      else let body = frame_body bs; pos = (\<lambda>cur. length body - length cur) in
        if is_v4_frame_flags (hd bs) then
          reads (read_v4_head body) (\<lambda>(h, cur).
            case local_type_id E (ucast (h_wire_ty h)) of
              None \<Rightarrow> Some None
            | Some t \<Rightarrow>
                if \<not> has_v4_reliable_header E t then Some None
                else
                  reads (if h_flags h AND kV4FlagEndpointBitmapPresent \<noteq> 0 then
                           (if length cur < kV4EndpointBitmapBytes then Some None
                            else map_option Some (advance cur kV4EndpointBitmapBytes))
                         else Some (Some cur)) (\<lambda>cur2.
                  reads (skip_contract (h_flags h) cur2) (\<lambda>cur3. Some (Some (pos cur3)))))
        else
          reads (read_legacy_head body) (\<lambda>(h, cur).
               if \<not> valid_type E (ucast (l_ty h)) \<or> length cur < unat (legacy_prefix_len E h) then Some None
               else do {
                 rel \<leftarrow> legacy_type_reliable E (l_ty h);
                 Some (if \<not> rel then None else Some (pos (drop (unat (legacy_prefix_len E h)) cur)))
               }))"

definition rewrite_reliable_header ::
    "env \<Rightarrow> bytes \<Rightarrow> u8 \<Rightarrow> u32 \<Rightarrow> u32 \<Rightarrow> (bool \<times> bytes) option" where
  "rewrite_reliable_header E bs flags s a = do {
     off \<leftarrow> reliable_header_offset E bs;
     (case off of
        None \<Rightarrow> Some (False, bs)
      | Some n \<Rightarrow>
          if length bs < n + kReliableHeaderBytes + kCrcBytes then Some (False, bs)
          else let body = take n (frame_body bs) @ [flags] @ le_bytes 4 s @ le_bytes 4 a
                            @ drop (n + kReliableHeaderBytes) (frame_body bs)
               in Some (True, frame_of_body body))
   }"

definition packet_id_from_wire :: "env \<Rightarrow> bytes \<Rightarrow> u64 option option" where
  "packet_id_from_wire E bs = do {
     r \<leftarrow> deserialize_packet E bs;
     (case r of None \<Rightarrow> Some None | Some pkt \<Rightarrow> map_option Some (packet_id E pkt))
   }"

end
