(* ===== verification/Samples.thy ===== *)
theory Samples
  imports Wire
begin

text \<open>
  A small concrete schema: the ten core built-in types, an unreliable sensor type, an ordered
  and an unordered reliable type, and five endpoints. The applications of the theorems
  evaluate the model on it.
\<close>

definition builtin_sample :: "string \<Rightarrow> type_info" where
  "builtin_sample nm =
     \<lparr>ti_name = nm, elem_size = 1, static_count = 0, dynamic = True, ti_reliable_mode = RM_None,
      data_type = UInt8, ti_message_class = Data, link_local_only = False, ti_endpoints = [3]\<rparr>"

definition sample_types :: "type_info list" where
  "sample_types = map builtin_sample core_builtin_names @
     [\<lparr>ti_name = ''GPS'', elem_size = 1, static_count = 3, dynamic = False, ti_reliable_mode = RM_None,
       data_type = UInt8, ti_message_class = Data, link_local_only = False, ti_endpoints = [0, 1]\<rparr>,
      \<lparr>ti_name = ''COMMAND'', elem_size = 1, static_count = 0, dynamic = True, ti_reliable_mode = Ordered,
       data_type = UInt8, ti_message_class = Data, link_local_only = False, ti_endpoints = [1]\<rparr>,
      \<lparr>ti_name = ''EVENT'', elem_size = 1, static_count = 0, dynamic = True, ti_reliable_mode = Unordered,
       data_type = UInt8, ti_message_class = Data, link_local_only = True, ti_endpoints = [4]\<rparr>]"

definition sample_env :: env where
  "sample_env =
     \<lparr>kTypeInfo = sample_types,
      kEndpointNames = [Some ''RADIO'', Some ''SD_CARD'', Some ''TELEMETRY_ERROR'', Some ''DISCOVERY'', Some ''UMBILICAL''],
      kEndpointCount = 5, tuning = default_tuning, device_identifier = ''CPP'', seds_has_zstd = None\<rparr>"

abbreviation GPS :: u32 where "GPS \<equiv> 10"
abbreviation COMMAND :: u32 where "COMMAND \<equiv> 11"
abbreviation EVENT :: u32 where "EVENT \<equiv> 12"

definition gps_packet :: packet where
  "gps_packet = \<lparr>ty = GPS, sender = ''ROCKET'', endpoints = [1, 0], timestamp = 1000, payload = [1, 2, 3]\<rparr>"

definition command_packet :: packet where
  "command_packet = \<lparr>ty = COMMAND, sender = ''GROUND'', endpoints = [1], timestamp = 7, payload = [42]\<rparr>"

definition data_hdr :: reliable_header where
  "data_hdr = \<lparr>rh_flags = 0, seq = 5, ack = 9\<rparr>"

lemmas sample_defs = sample_env_def sample_types_def builtin_sample_def core_builtin_names_def

lemma sample_valid_types [simp]:
  "valid_type sample_env GPS" "valid_type sample_env COMMAND" "valid_type sample_env EVENT"
  by (simp_all add: valid_type_def sample_defs)

lemma sample_type_at:
  "ti_name (type_at sample_env GPS) = ''GPS''" "ti_name (type_at sample_env COMMAND) = ''COMMAND''"
  "ti_reliable_mode (type_at sample_env GPS) = RM_None"
  "ti_reliable_mode (type_at sample_env COMMAND) = Ordered"
  "ti_reliable_mode (type_at sample_env EVENT) = Unordered"
  by (simp_all add: type_at_def sample_defs)

lemma sample_wire_types [simp]:
  "v4_type_id sample_env GPS = 110" "v4_type_id sample_env COMMAND = 111"
  "local_type_id sample_env 110 = Some GPS" "local_type_id sample_env 111 = Some COMMAND"
proof -
  show "v4_type_id sample_env GPS = 110" "v4_type_id sample_env COMMAND = 111"
    by (simp_all add: v4_type_id_def builtin_wire_id_def v4_type_names_def sample_type_at)
  show "local_type_id sample_env 110 = Some GPS" "local_type_id sample_env 111 = Some COMMAND"
    by (simp_all add: local_type_id_def valid_type_def sample_defs)
qed

lemma sample_wire_endpoints [simp]:
  "v4_endpoint_id sample_env 0 = 100" "v4_endpoint_id sample_env 1 = 101"
  "local_endpoint_id sample_env 100 = Some (Some 0)" "local_endpoint_id sample_env 101 = Some (Some 1)"
  by (simp_all add: v4_endpoint_id_def local_endpoint_id_def valid_endpoint_def endpoint_at_def sample_defs
      word_le_nat_alt)

lemma sample_reliable [simp]:
  "has_v4_reliable_header sample_env COMMAND" "\<not> has_v4_reliable_header sample_env GPS"
  by (simp_all add: has_v4_reliable_header_def is_reliable_control_type_def ti_reliable_def sample_type_at)

end
