(* ===== verification/Queues.thy ===== *)
theory Queues
  imports Samples
begin

text \<open>
  The byte-budgeted queues (\<open>src/queue.cpp\<close>, \<open>enforce_shared_queue_budget\<close> of
  \<open>Cpp-Headers/internal.hpp\<close>) and the cache of recently received identities (\<open>push_recent\<close> of
  \<open>src/router_core.cpp\<close>). A queue is its items with the byte counter kept beside them; the
  counter is a 64-bit \<open>size_t\<close> with its wrap-around.
\<close>

section \<open>Items and their cost\<close>

record tx_item =
  tx_pkt :: packet
  tx_src_side :: "i32 option"
  tx_dst_side :: "i32 option"
  deliver_local :: bool

record rx_item =
  rx_pkt :: packet
  rx_src_side :: "i32 option"
  wire_bytes :: bytes

definition byte_cost_packet :: "packet \<Rightarrow> nat" where
  "byte_cost_packet pkt =
     4 + 8 + length (sender pkt) + length (endpoints pkt) * 4 + length (payload pkt)"

definition byte_cost_tx :: "tx_item \<Rightarrow> u64" where
  "byte_cost_tx item = word_of_nat (byte_cost_packet (tx_pkt item) + 1 + 4 * 2)"

definition byte_cost_rx :: "rx_item \<Rightarrow> u64" where
  "byte_cost_rx item = word_of_nat (byte_cost_packet (rx_pkt item) + 4 + length (wire_bytes item))"

section \<open>Bounded insertion\<close>

text \<open>The eviction loop: drop from the front until the new item fits.\<close>

fun evict :: "('i \<Rightarrow> u64) \<Rightarrow> u64 \<Rightarrow> u64 \<Rightarrow> 'i list \<Rightarrow> u64 \<Rightarrow> 'i list \<times> u64" where
  "evict byte_cost cost budget [] queue_bytes = ([], queue_bytes)"
| "evict byte_cost cost budget (i # queue) queue_bytes =
     (if budget < queue_bytes + cost then evict byte_cost cost budget queue (queue_bytes - byte_cost i)
      else (i # queue, queue_bytes))"

definition enqueue_bounded ::
    "('i \<Rightarrow> u64) \<Rightarrow> 'i list \<times> u64 \<Rightarrow> 'i \<Rightarrow> bool \<Rightarrow> u64 \<Rightarrow> bool \<times> ('i list \<times> u64)" where
  "enqueue_bounded byte_cost Q item front budget =
     (let cost = byte_cost item in
      if budget < cost then (False, Q)
      else let (queue, queue_bytes) = evict byte_cost cost budget (fst Q) (snd Q)
           in (True, (if front then item # queue else queue @ [item], queue_bytes + cost)))"

definition pop_queue :: "('i \<Rightarrow> u64) \<Rightarrow> 'i list \<times> u64 \<Rightarrow> 'i option \<times> ('i list \<times> u64)" where
  "pop_queue byte_cost Q =
     (case fst Q of
        [] \<Rightarrow> (None, Q)
      | i # queue \<Rightarrow> (Some i, (queue, snd Q - byte_cost i)))"

definition clear_queue :: "'i list \<times> u64 \<Rightarrow> 'i list \<times> u64" where
  "clear_queue Q = ([], 0)"

definition enqueue_tx where
  "enqueue_tx Q item budget = enqueue_bounded byte_cost_tx Q item False budget"

definition enqueue_tx_front where
  "enqueue_tx_front Q item budget = enqueue_bounded byte_cost_tx Q item True budget"

definition enqueue_rx where
  "enqueue_rx Q item budget = enqueue_bounded byte_cost_rx Q item False budget"

definition enqueue_rx_front where
  "enqueue_rx_front Q item budget = enqueue_bounded byte_cost_rx Q item True budget"

definition pop_tx where "pop_tx Q = pop_queue byte_cost_tx Q"

definition pop_rx where "pop_rx Q = pop_queue byte_cost_rx Q"

section \<open>Budget shared by the two queues\<close>

function enforce_shared_queue_budget ::
    "u64 \<Rightarrow> rx_item list \<times> u64 \<Rightarrow> tx_item list \<times> u64 \<Rightarrow> (rx_item list \<times> u64) \<times> (tx_item list \<times> u64)" where
  "enforce_shared_queue_budget budget (rx, rx_bytes) (tx, tx_bytes) =
     (if budget < rx_bytes + tx_bytes then
        (if rx \<noteq> [] \<and> (tx = [] \<or> tx_bytes \<le> rx_bytes) then
           enforce_shared_queue_budget budget (tl rx, rx_bytes - byte_cost_rx (hd rx)) (tx, tx_bytes)
         else if tx \<noteq> [] then
           enforce_shared_queue_budget budget (rx, rx_bytes) (tl tx, tx_bytes - byte_cost_tx (hd tx))
         else ((rx, rx_bytes), (tx, tx_bytes)))
      else ((rx, rx_bytes), (tx, tx_bytes)))"
  by pat_completeness auto
termination by (relation "measure (\<lambda>(b, (rx, _), (tx, _)). length rx + length tx)") auto

declare enforce_shared_queue_budget.simps [simp del]

section \<open>Accounting\<close>

text \<open>
  The counter is the sum of the costs of the queued items, as a 64-bit word; the sum itself
  stays within the budget.
\<close>

definition total_cost :: "('i \<Rightarrow> u64) \<Rightarrow> 'i list \<Rightarrow> nat" where
  "total_cost byte_cost queue = sum_list (map (\<lambda>i. unat (byte_cost i)) queue)"

definition queue_inv :: "('i \<Rightarrow> u64) \<Rightarrow> u64 \<Rightarrow> 'i list \<times> u64 \<Rightarrow> bool" where
  "queue_inv byte_cost budget Q \<longleftrightarrow>
     total_cost byte_cost (fst Q) \<le> unat budget \<and> unat (snd Q) = total_cost byte_cost (fst Q)"

lemma total_cost_simps [simp]:
  "total_cost c [] = 0" "total_cost c (i # q) = unat (c i) + total_cost c q"
  "total_cost c (q @ r) = total_cost c q + total_cost c r"
  by (simp_all add: total_cost_def)

lemma unat_add_small: "unat (a :: u64) + unat b < 2 ^ 64 \<Longrightarrow> unat (a + b) = unat a + unat b"
  by (simp add: unat_word_ariths)

lemma unat_sub_small: "unat (b :: u64) \<le> unat a \<Longrightarrow> unat (a - b) = unat a - unat b"
  by (simp add: unat_sub word_le_nat_alt)

lemma evict_spec:
  assumes "unat b = total_cost c q" "total_cost c q \<le> unat budget" "unat cost \<le> unat budget"
    and "unat budget < 2 ^ 63" "evict c cost budget q b = (q', b')"
  shows "unat b' = total_cost c q' \<and> total_cost c q' + unat cost \<le> unat budget \<and> suffix q' q"
  using assms
proof (induction q arbitrary: b)
  case (Cons i q)
  have sum: "unat (b + cost) = unat b + unat cost"
    using Cons.prems by (intro unat_add_small) simp
  show ?case
  proof (cases "budget < b + cost")
    case True
    have "unat (b - c i) = total_cost c q" using Cons.prems by (simp add: unat_sub_small)
    with Cons True show ?thesis by (auto intro: suffix_ConsI)
  next
    case False
    then have "unat b + unat cost \<le> unat budget" using sum by (simp add: word_less_nat_alt)
    with False Cons.prems show ?thesis by auto
  qed
qed auto

section \<open>The queue interface\<close>

datatype 'i queue_op = Enq 'i | EnqFront 'i | Pop | Clear

text \<open>A client's sequence of calls.\<close>

fun queue_run ::
    "('i list \<times> u64 \<Rightarrow> 'i \<Rightarrow> u64 \<Rightarrow> bool \<times> ('i list \<times> u64)) \<Rightarrow>
     ('i list \<times> u64 \<Rightarrow> 'i \<Rightarrow> u64 \<Rightarrow> bool \<times> ('i list \<times> u64)) \<Rightarrow>
     ('i list \<times> u64 \<Rightarrow> 'i option \<times> ('i list \<times> u64)) \<Rightarrow> u64 \<Rightarrow> 'i queue_op list \<Rightarrow>
     'i list \<times> u64 \<Rightarrow> 'i list \<times> u64" where
  "queue_run enq enqf pop budget [] Q = Q"
| "queue_run enq enqf pop budget (Enq i # ops) Q = queue_run enq enqf pop budget ops (snd (enq Q i budget))"
| "queue_run enq enqf pop budget (EnqFront i # ops) Q = queue_run enq enqf pop budget ops (snd (enqf Q i budget))"
| "queue_run enq enqf pop budget (Pop # ops) Q = queue_run enq enqf pop budget ops (snd (pop Q))"
| "queue_run enq enqf pop budget (Clear # ops) Q = queue_run enq enqf pop budget ops (clear_queue Q)"

locale bounded_queue =
  fixes byte_cost :: "'i \<Rightarrow> u64"
    and enqueue :: "'i list \<times> u64 \<Rightarrow> 'i \<Rightarrow> u64 \<Rightarrow> bool \<times> ('i list \<times> u64)"
    and enqueue_front :: "'i list \<times> u64 \<Rightarrow> 'i \<Rightarrow> u64 \<Rightarrow> bool \<times> ('i list \<times> u64)"
    and pop :: "'i list \<times> u64 \<Rightarrow> 'i option \<times> ('i list \<times> u64)"
  assumes enqueue_inv: "queue_inv byte_cost budget Q \<Longrightarrow> unat budget < 2 ^ 63 \<Longrightarrow>
      queue_inv byte_cost budget (snd (enqueue Q i budget))"
    and enqueue_front_inv: "queue_inv byte_cost budget Q \<Longrightarrow> unat budget < 2 ^ 63 \<Longrightarrow>
      queue_inv byte_cost budget (snd (enqueue_front Q i budget))"
    and enqueue_result: "fst (enqueue Q i budget) \<longleftrightarrow> byte_cost i \<le> budget"
    and enqueue_keeps: "queue_inv byte_cost budget Q \<Longrightarrow> unat budget < 2 ^ 63 \<Longrightarrow> byte_cost i \<le> budget \<Longrightarrow>
      \<exists>keep. suffix keep (fst Q) \<and> fst (snd (enqueue Q i budget)) = keep @ [i]"
    and enqueue_fits: "queue_inv byte_cost budget Q \<Longrightarrow> unat budget < 2 ^ 63 \<Longrightarrow>
      total_cost byte_cost (fst Q) + unat (byte_cost i) \<le> unat budget \<Longrightarrow>
      fst (snd (enqueue Q i budget)) = fst Q @ [i]"
    and pop_empty: "fst Q = [] \<Longrightarrow> pop Q = (None, Q)"
    and pop_front: "fst Q = i # q \<Longrightarrow> pop Q = (Some i, (q, snd Q - byte_cost i))"
begin

lemma pop_inv: "queue_inv byte_cost budget Q \<Longrightarrow> queue_inv byte_cost budget (snd (pop Q))"
  using pop_empty [of Q] pop_front [of Q]
  by (cases "fst Q") (auto simp: queue_inv_def unat_sub_small)

lemma run_inv:
  assumes "unat budget < 2 ^ 63" "queue_inv byte_cost budget Q"
  shows "queue_inv byte_cost budget (queue_run enqueue enqueue_front pop budget ops Q)"
  using assms(2)
proof (induction ops arbitrary: Q)
  case (Cons op ops)
  have "queue_inv byte_cost budget (clear_queue Q)" by (simp add: clear_queue_def queue_inv_def)
  with Cons show ?case
    using enqueue_inv enqueue_front_inv pop_inv assms(1) by (cases op) simp_all
qed simp

lemma enqueue_all_fits:
  assumes "unat budget < 2 ^ 63" "queue_inv byte_cost budget Q"
    and "total_cost byte_cost (fst Q) + total_cost byte_cost items \<le> unat budget"
  shows "fst (queue_run enqueue enqueue_front pop budget (map Enq items) Q) = fst Q @ items"
  using assms(2,3)
proof (induction items arbitrary: Q)
  case (Cons i items)
  have "fst (snd (enqueue Q i budget)) = fst Q @ [i]"
    using Cons.prems assms(1) by (intro enqueue_fits) simp_all
  then show ?case
    using Cons enqueue_inv [OF Cons.prems(1) assms(1), of i] by simp
qed simp

end

lemma enqueue_bounded_inv:
  assumes "queue_inv c budget Q" "unat budget < 2 ^ 63"
  shows "queue_inv c budget (snd (enqueue_bounded c Q i front budget))"
proof (cases "budget < c i")
  case True
  with assms show ?thesis by (simp add: enqueue_bounded_def Let_def)
next
  case False
  obtain q b where e: "evict c (c i) budget (fst Q) (snd Q) = (q, b)" by fastforce
  have ci: "unat (c i) \<le> unat budget" using False by (simp add: word_less_nat_alt)
  note spec = evict_spec [OF _ _ ci assms(2) e]
  have "unat b = total_cost c q" "total_cost c q + unat (c i) \<le> unat budget"
    using spec assms(1) by (simp_all add: queue_inv_def)
  moreover from this have "unat (b + c i) = unat b + unat (c i)"
    using assms(2) by (intro unat_add_small) simp
  ultimately show ?thesis using False e by (simp add: enqueue_bounded_def Let_def queue_inv_def)
qed

lemma enqueue_bounded_keeps:
  assumes "queue_inv c budget Q" "unat budget < 2 ^ 63" "c i \<le> budget"
  shows "\<exists>keep. suffix keep (fst Q) \<and>
    fst (snd (enqueue_bounded c Q i front budget)) = (if front then i # keep else keep @ [i])"
proof -
  obtain q b where e: "evict c (c i) budget (fst Q) (snd Q) = (q, b)" by fastforce
  have ci: "unat (c i) \<le> unat budget" using assms(3) by (simp add: word_le_nat_alt)
  show ?thesis
    using evict_spec [OF _ _ ci assms(2) e] assms e
    by (auto simp: enqueue_bounded_def Let_def queue_inv_def not_less)
qed

lemma evict_fits:
  assumes "\<not> budget < b + cost"
  shows "evict c cost budget q b = (q, b)"
  using assms by (cases q) simp_all

lemma enqueue_bounded_fits:
  assumes "queue_inv c budget Q" "unat budget < 2 ^ 63"
    and "total_cost c (fst Q) + unat (c i) \<le> unat budget"
  shows "fst (snd (enqueue_bounded c Q i False budget)) = fst Q @ [i]"
proof -
  have "unat (snd Q + c i) = unat (snd Q) + unat (c i)"
    using assms by (intro unat_add_small) (simp add: queue_inv_def)
  then have "\<not> budget < snd Q + c i" "\<not> budget < c i"
    using assms by (simp_all add: queue_inv_def word_less_nat_alt)
  then show ?thesis by (cases Q) (simp add: enqueue_bounded_def evict_fits)
qed

lemma enqueue_bounded_result: "fst (enqueue_bounded c Q i front budget) \<longleftrightarrow> c i \<le> budget"
  by (auto simp: enqueue_bounded_def Let_def not_less split: prod.splits)

lemma pop_queue_simps:
  "fst Q = [] \<Longrightarrow> pop_queue c Q = (None, Q)"
  "fst Q = i # q \<Longrightarrow> pop_queue c Q = (Some i, (q, snd Q - c i))"
  by (simp_all add: pop_queue_def)

lemmas enqueue_bounded_facts = enqueue_bounded_inv enqueue_bounded_fits enqueue_bounded_result pop_queue_simps

interpretation txq: bounded_queue byte_cost_tx enqueue_tx enqueue_tx_front pop_tx
  using enqueue_bounded_keeps [of byte_cost_tx _ _ _ False]
  by unfold_locales
    (simp_all add: enqueue_tx_def enqueue_tx_front_def pop_tx_def enqueue_bounded_facts)

interpretation rxq: bounded_queue byte_cost_rx enqueue_rx enqueue_rx_front pop_rx
  using enqueue_bounded_keeps [of byte_cost_rx _ _ _ False]
  by unfold_locales
    (simp_all add: enqueue_rx_def enqueue_rx_front_def pop_rx_def enqueue_bounded_facts)

section \<open>The shared budget\<close>

lemma queue_inv_tl:
  "queue_inv c budget (i # q, b) \<Longrightarrow> queue_inv c budget (q, b - c i)"
  by (simp add: queue_inv_def unat_sub_small)

lemma enforce_shared_queue_budget_spec:
  assumes "queue_inv byte_cost_rx budget (rx, rxb)" "queue_inv byte_cost_tx budget (tx, txb)"
    and "unat budget < 2 ^ 63"
    and "enforce_shared_queue_budget budget (rx, rxb) (tx, txb) = ((rx', rxb'), (tx', txb'))"
  shows "queue_inv byte_cost_rx budget (rx', rxb') \<and> queue_inv byte_cost_tx budget (tx', txb') \<and>
    total_cost byte_cost_rx rx' + total_cost byte_cost_tx tx' \<le> unat budget \<and>
    suffix rx' rx \<and> suffix tx' tx"
  using assms
proof (induction budget "(rx, rxb)" "(tx, txb)" arbitrary: rx rxb tx txb
    rule: enforce_shared_queue_budget.induct)
  case (1 budget rx rxb tx txb)
  note unf = enforce_shared_queue_budget.simps [of budget rx rxb tx txb]
  have "unat (rxb + txb) = unat rxb + unat txb"
    using "1.prems" by (intro unat_add_small) (simp add: queue_inv_def)
  then have over: "budget < rxb + txb \<longleftrightarrow>
      unat budget < total_cost byte_cost_rx rx + total_cost byte_cost_tx tx"
    using "1.prems" by (simp add: word_less_nat_alt queue_inv_def)
  show ?case
  proof (cases "budget < rxb + txb")
    case False
    with "1.prems" over unf show ?thesis by (auto simp: not_less)
  next
    case True
    consider (rx) i q where "rx = i # q" "tx = [] \<or> txb \<le> rxb"
      | (tx) i q where "tx = i # q" "\<not> (rx \<noteq> [] \<and> (tx = [] \<or> txb \<le> rxb))"
      using True over by (cases rx; cases tx; auto)
    then show ?thesis
    proof cases
      case rx
      then have "queue_inv byte_cost_rx budget (q, rxb - byte_cost_rx i)"
        using "1.prems"(1) queue_inv_tl by simp
      with "1.hyps"(1) "1.prems" True rx unf show ?thesis by (auto intro: suffix_ConsI)
    next
      case tx
      then have "queue_inv byte_cost_tx budget (q, txb - byte_cost_tx i)"
        using "1.prems"(2) queue_inv_tl by simp
      with "1.hyps"(2) "1.prems" True tx unf show ?thesis by (auto intro: suffix_ConsI)
    qed
  qed
qed

section \<open>Recent identities\<close>

text \<open>
  \<open>recent_ids.front()\<close> of an empty deque is a fault; the constructors refuse a capacity of
  zero (\<open>validate_runtime_memory_config\<close>).
\<close>

definition push_recent :: "nat \<Rightarrow> u64 list \<times> u64 uset \<Rightarrow> u64 \<Rightarrow> (u64 list \<times> u64 uset) option" where
  "push_recent max_recent_rx_ids R pid =
     (let (recent_ids, recent_set) = R in
      if pid \<in> set recent_set then Some R
      else if max_recent_rx_ids \<le> length recent_ids then
        (case recent_ids of
           [] \<Rightarrow> None
         | oldest # rest \<Rightarrow> Some (rest @ [pid], removeAll oldest recent_set @ [pid]))
      else Some (recent_ids @ [pid], recent_set @ [pid]))"

definition recent_inv :: "nat \<Rightarrow> u64 list \<times> u64 uset \<Rightarrow> bool" where
  "recent_inv cap R \<longleftrightarrow>
     distinct (fst R) \<and> distinct (snd R) \<and> set (snd R) = set (fst R) \<and> length (fst R) \<le> cap"

lemma push_recent_spec:
  assumes "recent_inv cap R" "0 < cap"
  shows "\<exists>R'. push_recent cap R pid = Some R' \<and> recent_inv cap R' \<and> pid \<in> set (snd R') \<and>
    fst R' = (if pid \<in> set (fst R) then fst R else drop (Suc (length (fst R)) - cap) (fst R @ [pid]))"
proof -
  obtain ids st where R: "R = (ids, st)" by fastforce
  have inv: "distinct ids" "distinct st" "set st = set ids" "length ids \<le> cap"
    using assms(1) by (simp_all add: recent_inv_def R)
  consider "pid \<in> set ids" | "pid \<notin> set ids" "length ids < cap" | "pid \<notin> set ids" "length ids = cap"
    using inv(4) by linarith
  then show ?thesis
  proof cases
    case 1
    with inv show ?thesis by (simp add: push_recent_def recent_inv_def R)
  next
    case 2
    with inv show ?thesis by (simp add: push_recent_def recent_inv_def R)
  next
    case 3
    then obtain x xs where "ids = x # xs" using assms(2) by (cases ids) auto
    with 3 inv show ?thesis by (simp add: push_recent_def recent_inv_def R distinct_removeAll)
  qed
qed

fun push_all :: "nat \<Rightarrow> u64 list \<times> u64 uset \<Rightarrow> u64 list \<Rightarrow> (u64 list \<times> u64 uset) option" where
  "push_all cap R [] = Some R"
| "push_all cap R (pid # ids) = do { R' \<leftarrow> push_recent cap R pid; push_all cap R' ids }"

lemma push_all_fresh:
  assumes "recent_inv cap R" "0 < cap" "distinct (fst R @ ids)"
  shows "\<exists>R'. push_all cap R ids = Some R' \<and> recent_inv cap R' \<and>
    fst R' = drop (length (fst R) + length ids - cap) (fst R @ ids)"
  using assms
proof (induction ids arbitrary: R)
  case Nil
  then show ?case by (simp add: recent_inv_def)
next
  case (Cons pid ids)
  obtain R1 where R1: "push_recent cap R pid = Some R1" "recent_inv cap R1"
    "fst R1 = drop (Suc (length (fst R)) - cap) (fst R @ [pid])"
    using push_recent_spec [OF Cons.prems(1,2), of pid] Cons.prems(3) by auto
  have "set (fst R1) \<subseteq> set (fst R @ [pid])" unfolding R1(3) by (rule set_drop_subset)
  then have "distinct (fst R1 @ ids)"
    using Cons.prems(3) R1 by (auto simp: recent_inv_def)
  then obtain R' where R': "push_all cap R1 ids = Some R'" "recent_inv cap R'"
    "fst R' = drop (length (fst R1) + length ids - cap) (fst R1 @ ids)"
    using Cons.IH [OF R1(2) Cons.prems(2)] by blast
  have "length (fst R) < cap \<or> length (fst R) = cap" using Cons.prems(1) by (auto simp: recent_inv_def)
  then have "fst R' = drop (length (fst R) + length (pid # ids) - cap) (fst R @ pid # ids)"
  proof
    assume "length (fst R) < cap"
    then show ?thesis by (simp add: R'(3) R1(3))
  next
    assume eq: "length (fst R) = cap"
    then obtain x xs where "fst R = x # xs" using Cons.prems(2) by (cases "fst R") auto
    with eq show ?thesis by (auto simp: R'(3) R1(3))
  qed
  with R1(1) R'(1,2) show ?case by simp
qed

section \<open>Properties of the queues\<close>

text \<open>
  Memory bound of the transmit queue: after any sequence of insertions at either end,
  removals and clears starting from an empty queue, the counter equals the total cost of the
  queued items and that total is within the budget.
\<close>

theorem tx_queue_bounded:
  assumes "unat budget < 2 ^ 63"
  shows "queue_inv byte_cost_tx budget (queue_run enqueue_tx enqueue_tx_front pop_tx budget ops ([], 0))"
  using assms by (rule txq.run_inv) (simp add: queue_inv_def)

theorem tx_queue_bounded_witness:
  "queue_inv byte_cost_tx 64 (queue_run enqueue_tx enqueue_tx_front pop_tx 64
     [Enq \<lparr>tx_pkt = gps_packet, tx_src_side = None, tx_dst_side = None, deliver_local = False\<rparr>,
      EnqFront \<lparr>tx_pkt = command_packet, tx_src_side = None, tx_dst_side = Some 0, deliver_local = False\<rparr>,
      Pop] ([], 0))"
  by (rule tx_queue_bounded) simp

text \<open>
  First in, first out, without loss: receive items that fit the budget together are all
  queued, in order.
\<close>

theorem rx_queue_fifo:
  assumes "unat budget < 2 ^ 63" "queue_inv byte_cost_rx budget Q"
    and "total_cost byte_cost_rx (fst Q) + total_cost byte_cost_rx items \<le> unat budget"
  shows "fst (queue_run enqueue_rx enqueue_rx_front pop_rx budget (map Enq items) Q) = fst Q @ items"
  using assms by (rule rxq.enqueue_all_fits)

theorem rx_queue_fifo_witness:
  "fst (queue_run enqueue_rx enqueue_rx_front pop_rx 100
      (map Enq [\<lparr>rx_pkt = gps_packet, rx_src_side = Some 0, wire_bytes = []\<rparr>,
                \<lparr>rx_pkt = command_packet, rx_src_side = Some 1, wire_bytes = []\<rparr>]) ([], 0)) =
    [\<lparr>rx_pkt = gps_packet, rx_src_side = Some 0, wire_bytes = []\<rparr>,
     \<lparr>rx_pkt = command_packet, rx_src_side = Some 1, wire_bytes = []\<rparr>]"
  using rx_queue_fifo [of 100 "([], 0)"
      "[\<lparr>rx_pkt = gps_packet, rx_src_side = Some 0, wire_bytes = []\<rparr>,
        \<lparr>rx_pkt = command_packet, rx_src_side = Some 1, wire_bytes = []\<rparr>]"]
  by (simp add: queue_inv_def byte_cost_rx_def byte_cost_packet_def gps_packet_def command_packet_def)

text \<open>
  The shared budget: \<open>enforce_shared_queue_budget\<close> leaves two queues whose joint cost is
  within the budget, drops only from the fronts, and keeps both counters exact.
\<close>

theorem shared_budget_enforced:
  assumes "queue_inv byte_cost_rx budget (rx, rxb)" "queue_inv byte_cost_tx budget (tx, txb)"
    and "unat budget < 2 ^ 63"
    and "enforce_shared_queue_budget budget (rx, rxb) (tx, txb) = ((rx', rxb'), (tx', txb'))"
  shows "total_cost byte_cost_rx rx' + total_cost byte_cost_tx tx' \<le> unat budget \<and>
    unat rxb' = total_cost byte_cost_rx rx' \<and> unat txb' = total_cost byte_cost_tx tx' \<and>
    suffix rx' rx \<and> suffix tx' tx"
  using enforce_shared_queue_budget_spec [OF assms] by (simp add: queue_inv_def)

theorem shared_budget_enforced_witness:
  "\<exists>rx' rxb' tx' txb'. enforce_shared_queue_budget 50
      ([\<lparr>rx_pkt = gps_packet, rx_src_side = None, wire_bytes = []\<rparr>], 33)
      ([\<lparr>tx_pkt = command_packet, tx_src_side = None, tx_dst_side = None, deliver_local = False\<rparr>], 32) =
        ((rx', rxb'), (tx', txb')) \<and>
    total_cost byte_cost_rx rx' + total_cost byte_cost_tx tx' \<le> 50"
proof -
  let ?rx = "([\<lparr>rx_pkt = gps_packet, rx_src_side = None, wire_bytes = []\<rparr>], 33)"
  let ?tx = "([\<lparr>tx_pkt = command_packet, tx_src_side = None, tx_dst_side = None, deliver_local = False\<rparr>], 32)"
  obtain rx' rxb' tx' txb' where e: "enforce_shared_queue_budget 50 ?rx ?tx = ((rx', rxb'), (tx', txb'))"
    by (metis surj_pair)
  have "queue_inv byte_cost_rx 50 ?rx" "queue_inv byte_cost_tx 50 ?tx"
    by (simp_all add: queue_inv_def byte_cost_rx_def byte_cost_tx_def byte_cost_packet_def
        gps_packet_def command_packet_def)
  from shared_budget_enforced [OF this _ e] e show ?thesis by simp
qed

text \<open>
  The duplicate cache remembers exactly the most recent identities: pushing fresh
  identities never faults, keeps deque and set in agreement, and leaves the last
  \<open>max_recent_rx_ids\<close> of them.
\<close>

theorem recent_cache_keeps_latest:
  assumes "recent_inv cap R" "0 < cap" "distinct (fst R @ ids)"
  shows "\<exists>R'. push_all cap R ids = Some R' \<and> set (snd R') = set (fst R') \<and> length (fst R') \<le> cap \<and>
    fst R' = drop (length (fst R) + length ids - cap) (fst R @ ids)"
  using push_all_fresh [OF assms] by (auto simp: recent_inv_def)

theorem recent_cache_keeps_latest_witness:
  "\<exists>R'. push_all 2 ([], []) [5, 6, 7] = Some R' \<and> fst R' = [6, 7]"
  using recent_cache_keeps_latest [of 2 "([], [])" "[5, 6, 7]"] by (auto simp: recent_inv_def)

end
