(* ===== verification/Topology.thy ===== *)
theory Topology
  imports Samples
begin

text \<open>
  Discovery payloads (\<open>Cpp-Headers/discovery_helpers.hpp\<close>): boards of the topology graph, their
  normal form, merging and summaries, and the encoders and decoders of the three discovery
  payloads. A decoder that throws \<open>std::invalid_argument\<close> returns \<open>None\<close>. The sort of the
  sources is not stable; the model takes the stable order, which differs only for boards that
  repeat a sender.
\<close>

section \<open>Boards\<close>

record topology_board_node =
  sender_id :: string
  reachable_endpoints :: "u32 list"
  reachable_timesync_sources :: "string list"
  connections :: "string list"

abbreviation sort_dedup_strings :: "string list \<Rightarrow> string list" where
  "sort_dedup_strings \<equiv> sort_dedup"

definition normalize_board :: "topology_board_node \<Rightarrow> topology_board_node" where
  "normalize_board board =
     board\<lparr>reachable_endpoints := sort_dedup (reachable_endpoints board),
           reachable_timesync_sources := sort_dedup_strings (reachable_timesync_sources board),
           connections := sort_dedup_strings (removeAll (sender_id board) (connections board))\<rparr>"

text \<open>\<open>std::ranges::unique\<close> with the projection \<open>sender_id\<close>: the first of each run survives.\<close>

fun unique_senders :: "topology_board_node list \<Rightarrow> topology_board_node list" where
  "unique_senders (a # b # bs) =
     (if sender_id a = sender_id b then unique_senders (a # bs) else a # unique_senders (b # bs))"
| "unique_senders bs = bs"

definition normalize_topology_boards :: "topology_board_node list \<Rightarrow> topology_board_node list" where
  "normalize_topology_boards boards =
     unique_senders (sort_key sender_id (map normalize_board boards))"

text \<open>One step of \<open>merge_topology_boards\<close>: extend the board with that sender or append.\<close>

fun merge_board :: "topology_board_node list \<Rightarrow> topology_board_node \<Rightarrow> topology_board_node list" where
  "merge_board [] board = [board]"
| "merge_board (d # dst) board =
     (if sender_id d = sender_id board then
        d\<lparr>reachable_endpoints := reachable_endpoints d @ reachable_endpoints board,
          reachable_timesync_sources := reachable_timesync_sources d @ reachable_timesync_sources board,
          connections := connections d @ connections board\<rparr> # dst
      else d # merge_board dst board)"

definition merge_topology_boards ::
    "topology_board_node list \<Rightarrow> topology_board_node list \<Rightarrow> topology_board_node list" where
  "merge_topology_boards dst src = normalize_topology_boards (foldl merge_board dst src)"

definition summarize_topology_boards :: "topology_board_node list \<Rightarrow> u32 list \<times> string list" where
  "summarize_topology_boards boards =
     (sort_dedup (concat (map reachable_endpoints boards)),
      sort_dedup_strings (concat (map reachable_timesync_sources boards)))"

section \<open>Payload writers\<close>

definition make_packet :: "env \<Rightarrow> u32 \<Rightarrow> u32 list \<Rightarrow> string \<Rightarrow> u64 \<Rightarrow> bytes \<Rightarrow> packet option" where
  "make_packet E t eps from ts pl =
     (if \<not> valid_type E t \<or> eps = [] \<or> \<not> validate_payload E t (length pl) then None
      else Some \<lparr>ty = t, sender = from, endpoints = eps, timestamp = ts, payload = pl\<rparr>)"

definition u32_bytes :: "nat \<Rightarrow> bytes" where
  "u32_bytes n = le_bytes 4 (word_of_nat n :: u32)"

definition append_string :: "string \<Rightarrow> bytes" where
  "append_string s = u32_bytes (length s) @ bytes_of_string s"

definition endpoint_words :: "u32 list \<Rightarrow> bytes" where
  "endpoint_words eps = concat (map (le_bytes 4) eps)"

definition string_list_payload :: "string list \<Rightarrow> bytes" where
  "string_list_payload ss = u32_bytes (length ss) @ concat (map append_string ss)"

definition board_payload :: "topology_board_node \<Rightarrow> bytes" where
  "board_payload board =
     append_string (sender_id board) @
     u32_bytes (length (reachable_endpoints board)) @ endpoint_words (reachable_endpoints board) @
     string_list_payload (reachable_timesync_sources board) @
     string_list_payload (connections board)"

definition topology_payload :: "topology_board_node list \<Rightarrow> bytes" where
  "topology_payload boards =
     (let normalized = normalize_topology_boards boards
      in u32_bytes (length normalized) @ concat (map board_payload normalized))"

definition build_discovery_announce :: "env \<Rightarrow> string \<Rightarrow> u64 \<Rightarrow> u32 list \<Rightarrow> packet option" where
  "build_discovery_announce E from ts eps =
     make_packet E SEDS_DT_DISCOVERY_ANNOUNCE [SEDS_EP_DISCOVERY] from ts (endpoint_words eps)"

definition build_discovery_timesync_sources :: "env \<Rightarrow> string \<Rightarrow> u64 \<Rightarrow> string list \<Rightarrow> packet option" where
  "build_discovery_timesync_sources E from ts sources =
     make_packet E SEDS_DT_DISCOVERY_TIMESYNC_SOURCES [SEDS_EP_DISCOVERY] from ts
       (string_list_payload (sort_dedup_strings sources))"

definition build_discovery_topology ::
    "env \<Rightarrow> string \<Rightarrow> u64 \<Rightarrow> topology_board_node list \<Rightarrow> packet option" where
  "build_discovery_topology E from ts boards =
     make_packet E SEDS_DT_DISCOVERY_TOPOLOGY [SEDS_EP_DISCOVERY] from ts (topology_payload boards)"

section \<open>Payload readers\<close>

text \<open>The cursor is the rest of the payload behind \<open>offset\<close>.\<close>

definition decode_u32 :: "bytes \<Rightarrow> (nat \<times> bytes) option" where
  "decode_u32 cur =
     (if length cur < 4 then None else Some (unat (from_le (take 4 cur) :: u32), drop 4 cur))"

definition decode_sized_string :: "bytes \<Rightarrow> (string \<times> bytes) option" where
  "decode_sized_string cur = do {
     (len, rest) \<leftarrow> decode_u32 cur;
     if length rest < len then None else Some (string_of_bytes (take len rest), drop len rest)
   }"

fun words_of :: "nat \<Rightarrow> bytes \<Rightarrow> u32 list" where
  "words_of 0 bs = []"
| "words_of (Suc n) bs = from_le (take 4 bs) # words_of n (drop 4 bs)"

text \<open>A loop that reads \<open>n\<close> items and stops at the first failure.\<close>

fun decode_times :: "nat \<Rightarrow> (bytes \<Rightarrow> ('a \<times> bytes) option) \<Rightarrow> bytes \<Rightarrow> ('a list \<times> bytes) option" where
  "decode_times 0 f cur = Some ([], cur)"
| "decode_times (Suc n) f cur = do {
     (x, cur1) \<leftarrow> f cur;
     (xs, cur2) \<leftarrow> decode_times n f cur1;
     Some (x # xs, cur2)
   }"

definition decode_string_list :: "bytes \<Rightarrow> (string list \<times> bytes) option" where
  "decode_string_list cur = do {
     (n, cur1) \<leftarrow> decode_u32 cur;
     decode_times n decode_sized_string cur1
   }"

definition decode_board :: "bytes \<Rightarrow> (topology_board_node \<times> bytes) option" where
  "decode_board cur = do {
     (sid, cur1) \<leftarrow> decode_sized_string cur;
     (n, cur2) \<leftarrow> decode_u32 cur1;
     if length cur2 < n * 4 then None
     else do {
       (srcs, cur4) \<leftarrow> decode_string_list (drop (n * 4) cur2);
       (conns, cur5) \<leftarrow> decode_string_list cur4;
       Some (\<lparr>sender_id = sid, reachable_endpoints = removeAll SEDS_EP_DISCOVERY (words_of n cur2),
              reachable_timesync_sources = filter (\<lambda>s. s \<noteq> []) srcs,
              connections = filter (\<lambda>s. s \<noteq> []) conns\<rparr>, cur5)
     }
   }"

definition decode_discovery_topology_payload :: "bytes \<Rightarrow> topology_board_node list option" where
  "decode_discovery_topology_payload pl = do {
     (n, cur) \<leftarrow> decode_u32 pl;
     (boards, rest) \<leftarrow> decode_times n decode_board cur;
     if rest \<noteq> [] then None else Some (normalize_topology_boards boards)
   }"

definition decode_discovery_payload :: "bytes \<Rightarrow> u32 list option" where
  "decode_discovery_payload pl =
     (if length pl mod 4 \<noteq> 0 then None
      else Some (sort_dedup (removeAll SEDS_EP_DISCOVERY (words_of (length pl div 4) pl))))"

definition decode_discovery_timesync_sources_payload :: "bytes \<Rightarrow> string list option" where
  "decode_discovery_timesync_sources_payload pl =
     map_option (\<lambda>(ss, _). sort_dedup_strings ss) (decode_string_list pl)"

text \<open>The packet-level readers check the type first.\<close>

definition decode_discovery_announce :: "packet \<Rightarrow> u32 list option" where
  "decode_discovery_announce pkt =
     (if ty pkt \<noteq> SEDS_DT_DISCOVERY_ANNOUNCE then None else decode_discovery_payload (payload pkt))"

definition decode_discovery_timesync_sources :: "packet \<Rightarrow> string list option" where
  "decode_discovery_timesync_sources pkt =
     (if ty pkt \<noteq> SEDS_DT_DISCOVERY_TIMESYNC_SOURCES then None
      else decode_discovery_timesync_sources_payload (payload pkt))"

definition decode_discovery_topology :: "packet \<Rightarrow> topology_board_node list option" where
  "decode_discovery_topology pkt =
     (if ty pkt \<noteq> SEDS_DT_DISCOVERY_TOPOLOGY then None
      else decode_discovery_topology_payload (payload pkt))"

section \<open>Normal forms\<close>

definition board_normal :: "topology_board_node \<Rightarrow> bool" where
  "board_normal b \<longleftrightarrow>
     sorted (reachable_endpoints b) \<and> distinct (reachable_endpoints b) \<and>
     sorted (reachable_timesync_sources b) \<and> distinct (reachable_timesync_sources b) \<and>
     sorted (connections b) \<and> distinct (connections b) \<and> sender_id b \<notin> set (connections b)"

definition boards_normal :: "topology_board_node list \<Rightarrow> bool" where
  "boards_normal bs \<longleftrightarrow>
     list_all board_normal bs \<and> sorted (map sender_id bs) \<and> distinct (map sender_id bs)"

lemma board_normal_normalize [simp]: "board_normal (normalize_board b)"
  by (simp add: board_normal_def normalize_board_def)

lemma sender_id_normalize_board [simp]: "sender_id (normalize_board b) = sender_id b"
  by (simp add: normalize_board_def)

lemma normalize_board_id: "board_normal b \<Longrightarrow> normalize_board b = b"
  by (simp add: normalize_board_def board_normal_def sort_dedup_id)

lemma unique_senders_spec:
  assumes "sorted (map sender_id bs)"
  shows "sorted (map sender_id (unique_senders bs)) \<and> distinct (map sender_id (unique_senders bs)) \<and>
    set (unique_senders bs) \<subseteq> set bs \<and>
    sender_id ` set (unique_senders bs) = sender_id ` set bs \<and>
    (bs \<noteq> [] \<longrightarrow> unique_senders bs \<noteq> [] \<and> hd (unique_senders bs) = hd bs)"
  using assms
proof (induction bs rule: unique_senders.induct)
  case (1 a b bs)
  show ?case
  proof (cases "sender_id a = sender_id b")
    case True
    with 1 show ?thesis by auto
  next
    case False
    then have "\<forall>x \<in> set (b # bs). sender_id a < sender_id x"
      using "1.prems" by force
    with 1 False show ?thesis by (fastforce simp: order.strict_implies_order)
  qed
qed auto

lemma unique_senders_id: "distinct (map sender_id bs) \<Longrightarrow> unique_senders bs = bs"
  by (induction bs rule: unique_senders.induct) auto

lemma boards_normal_normalize [simp]: "boards_normal (normalize_topology_boards bs)"
proof -
  let ?s = "sort_key sender_id (map normalize_board bs)"
  have spec: "sorted (map sender_id (unique_senders ?s))" "distinct (map sender_id (unique_senders ?s))"
    "set (unique_senders ?s) \<subseteq> set ?s"
    using unique_senders_spec [of ?s] by simp_all
  moreover have "list_all board_normal (unique_senders ?s)"
    using spec(3) by (auto simp: list_all_iff)
  ultimately show ?thesis by (simp add: boards_normal_def normalize_topology_boards_def)
qed

lemma normalize_topology_boards_id: "boards_normal bs \<Longrightarrow> normalize_topology_boards bs = bs"
  by (simp add: normalize_topology_boards_def boards_normal_def list_all_iff normalize_board_id
      map_idI sorted_sort_id sort_key_id_if_sorted unique_senders_id)

lemma sender_ids_normalize: "sender_id ` set (normalize_topology_boards bs) = sender_id ` set bs"
  using unique_senders_spec [of "sort_key sender_id (map normalize_board bs)"]
  by (simp add: normalize_topology_boards_def image_image)

section \<open>Reading what was written\<close>

lemma decode_u32_bytes [wire_simps]: "n < 2 ^ 32 \<Longrightarrow> decode_u32 (u32_bytes n @ rest) = Some (n, rest)"
  by (simp add: decode_u32_def u32_bytes_def unat_of_nat)

lemma decode_append_string [wire_simps]:
  "length s < 2 ^ 32 \<Longrightarrow> decode_sized_string (append_string s @ rest) = Some (s, rest)"
  by (simp add: decode_sized_string_def append_string_def wire_simps)

lemma decode_times_concat:
  assumes "\<And>x rest. x \<in> set xs \<Longrightarrow> f (g x @ rest) = Some (h x, rest)"
  shows "decode_times (length xs) f (concat (map g xs) @ rest) = Some (map h xs, rest)"
  using assms by (induction xs) simp_all

definition strings_ok :: "string list \<Rightarrow> bool" where
  "strings_ok ss \<longleftrightarrow> length ss < 2 ^ 32 \<and> list_all (\<lambda>s. s \<noteq> [] \<and> length s < 2 ^ 32) ss"

lemma decode_string_list_payload:
  assumes "strings_ok ss"
  shows "decode_string_list (string_list_payload ss @ rest) = Some (ss, rest)"
proof -
  have "decode_times (length ss) decode_sized_string (concat (map append_string ss) @ rest) =
      Some (map (\<lambda>s. s) ss, rest)"
    using assms by (intro decode_times_concat) (simp add: strings_ok_def list_all_iff wire_simps)
  with assms show ?thesis
    by (simp add: decode_string_list_def string_list_payload_def wire_simps strings_ok_def)
qed

lemma length_endpoint_words [simp]: "length (endpoint_words eps) = length eps * 4"
  by (induction eps) (simp_all add: endpoint_words_def)

lemma words_of_endpoint_words: "words_of (length eps) (endpoint_words eps @ rest) = eps"
  by (induction eps) (simp_all add: endpoint_words_def)

definition board_ok :: "topology_board_node \<Rightarrow> bool" where
  "board_ok b \<longleftrightarrow>
     length (sender_id b) < 2 ^ 32 \<and> length (reachable_endpoints b) < 2 ^ 32 \<and>
     SEDS_EP_DISCOVERY \<notin> set (reachable_endpoints b) \<and>
     strings_ok (reachable_timesync_sources b) \<and> strings_ok (connections b)"

lemma strings_ok_filter: "strings_ok ss \<Longrightarrow> filter (\<lambda>s. s \<noteq> []) ss = ss"
  by (simp add: strings_ok_def list_all_iff)

lemma decode_board_payload:
  assumes "board_ok b"
  shows "decode_board (board_payload b @ rest) = Some (b, rest)"
  using assms words_of_endpoint_words [of "reachable_endpoints b"]
  by (simp add: decode_board_def board_payload_def board_ok_def wire_simps decode_string_list_payload
      strings_ok_filter)

lemma decode_topology_payload:
  assumes "boards_normal bs" "list_all board_ok bs" "length bs < 2 ^ 32"
  shows "decode_discovery_topology_payload (topology_payload bs) = Some bs"
proof -
  have "decode_times (length bs) decode_board (concat (map board_payload bs) @ []) = Some (map (\<lambda>b. b) bs, [])"
    using assms(2) by (intro decode_times_concat) (simp add: list_all_iff decode_board_payload)
  with assms show ?thesis
    by (simp add: decode_discovery_topology_payload_def topology_payload_def Let_def
        normalize_topology_boards_id decode_u32_bytes)
qed

section \<open>Sizes under normalisation\<close>

lemma length_sort_dedup_le: "length (sort_dedup xs) \<le> length xs"
  by (metis card_length distinct_card distinct_sort_dedup set_sort_dedup)

lemma strings_ok_sort_dedup:
  assumes "strings_ok ss" "set ts \<subseteq> set ss" "length ts \<le> length ss"
  shows "strings_ok (sort_dedup ts)"
  using assms length_sort_dedup_le [of ts] by (auto simp: strings_ok_def list_all_iff)

lemma length_removeAll_le: "length (removeAll x xs) \<le> length xs"
  by (simp add: removeAll_filter_not_eq)

lemma board_ok_normalize:
  assumes "board_ok b"
  shows "board_ok (normalize_board b)"
  using assms length_sort_dedup_le [of "reachable_endpoints b"]
    strings_ok_sort_dedup [of "connections b" "removeAll (sender_id b) (connections b)"]
    strings_ok_sort_dedup [of "reachable_timesync_sources b" "reachable_timesync_sources b"]
  by (auto simp: board_ok_def normalize_board_def length_removeAll_le)

lemma length_unique_senders: "length (unique_senders bs) \<le> length bs"
  by (induction bs rule: unique_senders.induct) auto

lemma length_normalize: "length (normalize_topology_boards bs) \<le> length bs"
  using length_unique_senders [of "sort_key sender_id (map normalize_board bs)"]
  by (simp add: normalize_topology_boards_def)

lemma boards_ok_normalize:
  assumes "list_all board_ok bs"
  shows "list_all board_ok (normalize_topology_boards bs)"
proof -
  have "set (normalize_topology_boards bs) \<subseteq> normalize_board ` set bs"
    using unique_senders_spec [of "sort_key sender_id (map normalize_board bs)"]
    by (simp add: normalize_topology_boards_def)
  then show ?thesis using assms board_ok_normalize by (auto simp: list_all_iff)
qed

lemma topology_payload_normalize: "topology_payload (normalize_topology_boards bs) = topology_payload bs"
  by (simp add: topology_payload_def normalize_topology_boards_id)

section \<open>Merging\<close>

lemma merge_board_ids:
  "set (map sender_id (merge_board dst b)) = insert (sender_id b) (set (map sender_id dst))"
  "distinct (map sender_id dst) \<Longrightarrow> distinct (map sender_id (merge_board dst b))"
proof -
  show ids: "set (map sender_id (merge_board dst b)) = insert (sender_id b) (set (map sender_id dst))" for dst
    by (induction dst) auto
  show "distinct (map sender_id dst) \<Longrightarrow> distinct (map sender_id (merge_board dst b))"
  proof (induction dst)
    case (Cons d dst)
    then show ?case using ids [of dst] by auto
  qed simp
qed

lemma merge_board_reach:
  "(\<Union>x \<in> set (merge_board dst b). set (reachable_endpoints x)) =
     (\<Union>x \<in> set dst. set (reachable_endpoints x)) \<union> set (reachable_endpoints b)"
  by (induction dst) auto

lemma merge_fold:
  assumes "distinct (map sender_id dst)"
  shows "distinct (map sender_id (foldl merge_board dst src)) \<and>
    (\<Union>x \<in> set (foldl merge_board dst src). set (reachable_endpoints x)) =
      (\<Union>x \<in> set dst. set (reachable_endpoints x)) \<union> (\<Union>x \<in> set src. set (reachable_endpoints x))"
  using assms
proof (induction src arbitrary: dst)
  case (Cons b src)
  then show ?case using merge_board_ids(2) [of dst b] merge_board_reach [of dst b] by auto
qed simp

lemma normalize_distinct:
  assumes "distinct (map sender_id bs)"
  shows "normalize_topology_boards bs = sort_key sender_id (map normalize_board bs)"
proof -
  have "map sender_id (map normalize_board bs) = map sender_id bs" by simp
  then have "distinct (map sender_id (sort_key sender_id (map normalize_board bs)))"
    using assms by (auto simp: distinct_map inj_on_def) (metis sender_id_normalize_board)+
  then show ?thesis by (simp add: normalize_topology_boards_def unique_senders_id)
qed

lemma set_summarize: "set (fst (summarize_topology_boards bs)) = (\<Union>x \<in> set bs. set (reachable_endpoints x))"
  by (simp add: summarize_topology_boards_def)

section \<open>Properties of the topology payloads\<close>

text \<open>
  A topology announcement is read back as the normal form of what was announced: no
  board, endpoint, time source or connection is lost or invented.
\<close>

theorem topology_payload_roundtrip:
  assumes "list_all board_ok boards" "length boards < 2 ^ 32"
  shows "decode_discovery_topology_payload (topology_payload boards) = Some (normalize_topology_boards boards)"
proof -
  let ?n = "normalize_topology_boards boards"
  have "decode_discovery_topology_payload (topology_payload ?n) = Some ?n"
    using assms length_normalize [of boards] by (intro decode_topology_payload) (simp_all add: boards_ok_normalize)
  then show ?thesis by (simp only: topology_payload_normalize)
qed

definition sample_boards :: "topology_board_node list" where
  "sample_boards =
     [\<lparr>sender_id = ''B'', reachable_endpoints = [4, 1], reachable_timesync_sources = [''gps''],
       connections = [''A'', ''B'']\<rparr>,
      \<lparr>sender_id = ''A'', reachable_endpoints = [0], reachable_timesync_sources = [], connections = [''B'']\<rparr>]"

theorem topology_payload_roundtrip_witness:
  "decode_discovery_topology_payload (topology_payload sample_boards) =
     Some (normalize_topology_boards sample_boards)"
  by (rule topology_payload_roundtrip) (simp_all add: sample_boards_def board_ok_def strings_ok_def)

text \<open>
  Merging topology reports loses nothing: where the destination names every board once,
  the endpoints reachable after the merge are those reachable in either report, and the
  result is in normal form with one entry for each board.
\<close>

theorem merge_topology_boards_union:
  assumes "distinct (map sender_id dst)"
  shows "boards_normal (merge_topology_boards dst src) \<and>
    set (fst (summarize_topology_boards (merge_topology_boards dst src))) =
      set (fst (summarize_topology_boards dst)) \<union> set (fst (summarize_topology_boards src))"
proof -
  have "(\<Union>x \<in> set (merge_topology_boards dst src). set (reachable_endpoints x)) =
      (\<Union>x \<in> set (foldl merge_board dst src). set (reachable_endpoints x))"
    using merge_fold [OF assms, of src]
    by (simp add: merge_topology_boards_def normalize_distinct normalize_board_def)
  then show ?thesis
    using merge_fold [OF assms, of src] by (simp add: set_summarize) (simp add: merge_topology_boards_def)
qed

theorem merge_topology_boards_union_witness:
  "set (fst (summarize_topology_boards (merge_topology_boards sample_boards
      [\<lparr>sender_id = ''A'', reachable_endpoints = [3], reachable_timesync_sources = [], connections = []\<rparr>]))) =
    {0, 1, 3, 4}"
  using merge_topology_boards_union [of sample_boards
      "[\<lparr>sender_id = ''A'', reachable_endpoints = [3], reachable_timesync_sources = [], connections = []\<rparr>]"]
  by (auto simp: sample_boards_def set_summarize)

text \<open>
  The endpoint and time-source announcements are read back as sorted sets, with the
  discovery endpoint itself left out.
\<close>

theorem announce_payload_roundtrip:
  "decode_discovery_payload (endpoint_words eps) = Some (sort_dedup (removeAll SEDS_EP_DISCOVERY eps)) \<and>
   (strings_ok sources \<longrightarrow>
      decode_discovery_timesync_sources_payload (string_list_payload (sort_dedup_strings sources)) =
        Some (sort_dedup_strings sources))"
  using words_of_endpoint_words [of eps "[]"] decode_string_list_payload [of "sort_dedup sources" "[]"]
    strings_ok_sort_dedup [of sources sources]
  by (auto simp: decode_discovery_payload_def decode_discovery_timesync_sources_payload_def)

theorem announce_payload_roundtrip_witness:
  "decode_discovery_timesync_sources_payload (string_list_payload (sort_dedup_strings [''gps'', ''gps''])) =
     Some (sort_dedup_strings [''gps'', ''gps''])"
  using announce_payload_roundtrip [of "[]" "[''gps'', ''gps'']"] by (simp add: strings_ok_def)

end
