(* ===== verification/State.thy ===== *)
theory State
  imports Queues Topology
begin

text \<open>
  The state of a node (\<open>Cpp-Headers/internal.hpp\<close>): sides, routes, policies, the reliable
  transmit and receive state of every side and type, and the two kinds of node. What
  \<open>SedsRouter\<close> and \<open>SedsRelay\<close> have in common is the record \<open>owner\<close>, which both extend, so that
  a template over \<open>OwnerT\<close> is one function on \<open>owner\<close> schemes.
\<close>

section \<open>Callbacks and the clock\<close>

text \<open>
  A function pointer with its user data is a number. Every call the library makes to the
  application is recorded in a trace; the application's answer and the clock are functions of
  that trace, so the clock moves between callbacks and not inside a handler. An application
  callback that calls back into the library is a later call of the model in a state with
  \<open>side_tx_active\<close> set.
\<close>

type_synonym fn = nat

record stream_event =
  ev_kind :: u8
  ev_stream_id :: u32
  ev_peer_stream_id :: u32
  ev_sequence :: u32
  ev_peer_hostname :: string
  ev_peer_address :: u32
  ev_local_port :: u16
  ev_peer_port :: u16
  ev_payload :: bytes

datatype event =
    SerializedTx fn bytes
  | PacketTx fn packet
  | PacketHandler fn packet
  | SerializedHandler fn bytes
  | ManagedCallback fn packet
  | P2pMessage fn string u32 u16 u16 bytes
  | P2pStream fn stream_event

record world =
  clock :: "event list \<Rightarrow> u64"
  respond :: "event list \<Rightarrow> event \<Rightarrow> seds_result"

section \<open>Sides and local endpoints\<close>

record local_endpoint =
  le_endpoint :: u32
  packet_handler :: "fn option"
  serialized_handler :: "fn option"

datatype side_transport_profile =
    PROFILE_CANONICAL | PROFILE_TEMPLATE | PROFILE_IPV6_LIKE | PROFILE_IPV4_LIKE | PROFILE_OTHER nat

record side =
  side_name :: string
  serialized_tx :: "fn option"
  packet_tx :: "fn option"
  reliable_enabled :: bool
  link_local_enabled :: bool
  ingress_enabled :: bool
  egress_enabled :: bool
  header_template_enabled :: bool
  max_frame_bytes :: nat
  compact_header_target_bytes :: nat
  max_side_transport_templates :: nat
  transport_profile :: side_transport_profile

section \<open>Discovery\<close>

record sender_state =
  ss_endpoints :: "u32 uset"
  ss_timesync_sources :: "string uset"
  topology_boards :: "topology_board_node list"
  ss_last_seen_ms :: u64

record discovery_route =
  rt_endpoints :: "u32 uset"
  rt_timesync_sources :: "string uset"
  rt_last_seen_ms :: u64
  announcers :: "(string, sender_state) amap"

definition empty_sender_state :: sender_state where
  "empty_sender_state = \<lparr>ss_endpoints = [], ss_timesync_sources = [], topology_boards = [], ss_last_seen_ms = 0\<rparr>"

definition empty_discovery_route :: discovery_route where
  "empty_discovery_route = \<lparr>rt_endpoints = [], rt_timesync_sources = [], rt_last_seen_ms = 0, announcers = []\<rparr>"

abbreviation kDiscoveryFastMs :: u64 where "kDiscoveryFastMs \<equiv> 250"
abbreviation kDiscoverySlowMs :: u64 where "kDiscoverySlowMs \<equiv> 5000"
abbreviation kDiscoveryTtlMs :: u64 where "kDiscoveryTtlMs \<equiv> 30000"

section \<open>Routing policies\<close>

datatype route_selection_mode = Seds_RSM_Fanout | Seds_RSM_Weighted | Seds_RSM_Failover

record route_policy =
  policy_mode :: route_selection_mode
  weights :: "(i32, u32) amap"
  priorities :: "(i32, u32) amap"
  rr_counter :: u64

definition default_policy :: route_policy where
  "default_policy = \<lparr>policy_mode = Seds_RSM_Fanout, weights = [], priorities = [], rr_counter = 0\<rparr>"

section \<open>Reliable delivery\<close>

record sent_frame =
  sent_bytes :: bytes
  last_send_ms :: u64
  retries :: u32
  queued :: bool
  partial_acked :: bool

record reliable_tx_state =
  next_seq :: u32
  sent_order :: "u32 list"
  sent :: "(u32, sent_frame) amap"

definition default_tx_state :: reliable_tx_state where
  "default_tx_state = \<lparr>next_seq = 1, sent_order = [], sent = []\<rparr>"

record buffered_frame =
  buf_pkt :: packet
  buf_wire :: bytes

record reliable_rx_state =
  expected_seq :: u32
  last_ack :: u32
  buffered :: "(u32, buffered_frame) amap"

definition default_rx_state :: reliable_rx_state where
  "default_rx_state = \<lparr>expected_seq = 1, last_ack = 0, buffered = []\<rparr>"

record end_to_end_sent =
  e2e_pkt :: packet
  pending_destinations :: "(u64, i32) amap"
  tracked_destinations :: bool
  e2e_last_send_ms :: u64
  e2e_retries :: u32
  e2e_queued :: bool

section \<open>Memory configuration\<close>

text \<open>\<open>grow_step_ok\<close> stands for \<open>isfinite(queue_grow_step) && queue_grow_step > 1.0\<close>.\<close>

record memory_config =
  max_queue_budget :: u64
  max_recent_rx_ids :: nat
  starting_queue_size :: u64
  grow_step_ok :: bool

definition default_runtime_memory_config :: memory_config where
  "default_runtime_memory_config =
     \<lparr>max_queue_budget = 102400, max_recent_rx_ids = 128, starting_queue_size = 64, grow_step_ok = True\<rparr>"

definition validate_runtime_memory_config :: "memory_config \<Rightarrow> bool" where
  "validate_runtime_memory_config cfg \<longleftrightarrow>
     max_queue_budget cfg \<noteq> 0 \<and> max_recent_rx_ids cfg \<noteq> 0 \<and> starting_queue_size cfg \<noteq> 0 \<and>
     starting_queue_size cfg \<le> max_queue_budget cfg \<and> grow_step_ok cfg"

section \<open>Nodes\<close>

record owner =
  sides :: "side list"
  tx_queue :: "tx_item list"
  rx_queue :: "rx_item list"
  reliable_released_rx :: "rx_item list"
  memory :: memory_config
  tx_queue_bytes :: u64
  rx_queue_bytes :: u64
  recent_ids :: "u64 list"
  recent_set :: "u64 uset"
  discovery_routes :: "(i32, discovery_route) amap"
  discovery_interval_ms :: u64
  discovery_next_ms :: u64
  local_policy :: route_policy
  source_policy :: "(i32, route_policy) amap"
  route_overrides :: "(i32 \<times> i32, bool) amap"
  typed_route_overrides :: "(i32 \<times> u32 \<times> i32, bool) amap"
  reliable_tx :: "(u64, reliable_tx_state) amap"
  reliable_rx :: "(u64, reliable_rx_state) amap"
  reliable_return_routes :: "(u64, i32) amap"
  reliable_return_route_order :: "u64 list"
  side_tx_active :: bool
  side_tx_deferred :: bool
  trace :: "event list"

datatype router_mode = Seds_RM_Sink | Seds_RM_Relay

record timesync_source =
  src_priority :: u64
  src_last_seen_ms :: u64
  src_last_time_ms :: u64

record timesync_runtime =
  ts_enabled :: bool
  ts_role :: u32
  ts_priority :: u64
  source_timeout_ms :: u64
  announce_interval_ms :: u64
  request_interval_ms :: u64
  last_announce_ms :: u64
  last_request_ms :: u64
  has_network_time :: bool
  network_anchor_local_ms :: u64
  network_anchor_unix_ms :: u64
  current_source :: string
  current_source_priority :: u64
  ts_sources :: "(string, timesync_source) amap"

record managed_variable_entry =
  mv_pkt :: packet
  mv_packed :: bytes
  mv_updated_ms :: u64

record managed_variable_policy =
  mv_enabled :: bool
  mv_can_read :: bool
  mv_can_write :: bool

record p2p_stream_session =
  peer_hostname :: string
  peer_address :: u32
  local_port :: u16
  peer_port :: u16
  peer_stream_id :: u32
  next_sequence :: u32
  connected :: bool

record router = owner +
  mode :: router_mode
  locals :: "local_endpoint list"
  end_to_end_reliable_tx :: "(u64, end_to_end_sent) amap"
  end_to_end_reliable_tx_order :: "u64 list"
  managed_policy :: "(u32, managed_variable_policy) amap"
  managed_latest :: "(u32, managed_variable_entry) amap"
  managed_callbacks :: "(u32, fn option) amap"
  p2p_address :: u32
  p2p_address_book :: "(string, u32) amap"
  p2p_host_by_address :: "(u32, string) amap"
  p2p_handlers :: "(u16, fn option list) amap"
  p2p_stream_handlers :: "(u16, fn option list) amap"
  p2p_stream_sessions :: "(u32, p2p_stream_session) amap"
  p2p_next_stream_id :: u32
  r_sender :: string
  node_sender :: string
  timesync :: timesync_runtime

record relay = owner +
  end_to_end_acked_destinations :: "(u64, u64 uset) amap"
  end_to_end_acked_destination_order :: "u64 list"

definition now_ms :: "world \<Rightarrow> 'a owner_scheme \<Rightarrow> u64" where
  "now_ms w r = clock w (trace r)"

text \<open>One call of the application: the answer, and the trace that records the call.\<close>

definition call_back :: "world \<Rightarrow> event \<Rightarrow> 'a owner_scheme \<Rightarrow> seds_result \<times> 'a owner_scheme" where
  "call_back w ev r = (respond w (trace r) ev, r\<lparr>trace := trace r @ [ev]\<rparr>)"

section \<open>Queue operations on a node\<close>

definition owner_tx :: "'a owner_scheme \<Rightarrow> tx_item list \<times> u64" where
  "owner_tx r = (tx_queue r, tx_queue_bytes r)"

definition owner_rx :: "'a owner_scheme \<Rightarrow> rx_item list \<times> u64" where
  "owner_rx r = (rx_queue r, rx_queue_bytes r)"

definition set_tx :: "tx_item list \<times> u64 \<Rightarrow> 'a owner_scheme \<Rightarrow> 'a owner_scheme" where
  "set_tx Q r = r\<lparr>tx_queue := fst Q, tx_queue_bytes := snd Q\<rparr>"

definition set_rx :: "rx_item list \<times> u64 \<Rightarrow> 'a owner_scheme \<Rightarrow> 'a owner_scheme" where
  "set_rx Q r = r\<lparr>rx_queue := fst Q, rx_queue_bytes := snd Q\<rparr>"

definition push_tx :: "tx_item \<Rightarrow> 'a owner_scheme \<Rightarrow> 'a owner_scheme" where
  "push_tx item r = set_tx (snd (enqueue_tx (owner_tx r) item (max_queue_budget (memory r)))) r"

definition push_tx_front :: "tx_item \<Rightarrow> 'a owner_scheme \<Rightarrow> 'a owner_scheme" where
  "push_tx_front item r = set_tx (snd (enqueue_tx_front (owner_tx r) item (max_queue_budget (memory r)))) r"

definition owner_queues_inv :: "'a owner_scheme \<Rightarrow> bool" where
  "owner_queues_inv r \<longleftrightarrow>
     queue_inv byte_cost_tx (max_queue_budget (memory r)) (owner_tx r) \<and>
     queue_inv byte_cost_rx (max_queue_budget (memory r)) (owner_rx r)"

lemma owner_tx_set_tx [simp]: "owner_tx (set_tx Q r) = Q" "owner_rx (set_tx Q r) = owner_rx r"
  by (simp_all add: owner_tx_def owner_rx_def set_tx_def)

lemma owner_rx_set_rx [simp]: "owner_rx (set_rx Q r) = Q" "owner_tx (set_rx Q r) = owner_tx r"
  by (simp_all add: owner_tx_def owner_rx_def set_rx_def)

lemma memory_set [simp]: "memory (set_tx Q r) = memory r" "memory (set_rx P r) = memory r"
  by (simp_all add: set_tx_def set_rx_def)

lemma push_tx_inv:
  assumes "owner_queues_inv r" "unat (max_queue_budget (memory r)) < 2 ^ 63"
  shows "owner_queues_inv (push_tx item r)" "owner_queues_inv (push_tx_front item r)"
  using assms txq.enqueue_inv txq.enqueue_front_inv
  by (simp_all add: owner_queues_inv_def push_tx_def push_tx_front_def)

end
