(* ===== verification/Routing.thy ===== *)
theory Routing
  imports State
begin

text \<open>
  Destination selection (\<open>src/router_core.cpp\<close>: \<open>default_candidates\<close>, \<open>select_destinations\<close>;
  \<open>src/core.cpp\<close>: \<open>apply_policy\<close>, \<open>packet_requires_link_local\<close>, \<open>side_accepts_packet\<close>,
  \<open>reliable_key\<close>). A policy's round-robin counter is the only state selection changes.
\<close>

section \<open>Policies\<close>

definition priority_of :: "route_policy \<Rightarrow> i32 \<Rightarrow> u32" where
  "priority_of policy s = (case map_of (priorities policy) s of None \<Rightarrow> 0xFFFFFFFF div 2 | Some p \<Rightarrow> p)"

definition weight_of :: "route_policy \<Rightarrow> i32 \<Rightarrow> u64" where
  "weight_of policy s = (case map_of (weights policy) s of None \<Rightarrow> 1 | Some wt \<Rightarrow> ucast (max 1 wt))"

text \<open>The failover loop: the first side of strictly smaller priority replaces the best.\<close>

fun failover_best :: "route_policy \<Rightarrow> i32 \<Rightarrow> u32 \<Rightarrow> i32 list \<Rightarrow> i32" where
  "failover_best policy best best_pri [] = best"
| "failover_best policy best best_pri (s # ss) =
     (let pri = priority_of policy s in
      if pri < best_pri then failover_best policy s pri ss else failover_best policy best best_pri ss)"

fun weighted_pick :: "route_policy \<Rightarrow> u64 \<Rightarrow> u64 \<Rightarrow> i32 list \<Rightarrow> i32 option" where
  "weighted_pick policy pick running [] = None"
| "weighted_pick policy pick running (s # ss) =
     (let running' = running + weight_of policy s in
      if pick < running' then Some s else weighted_pick policy pick running' ss)"

definition apply_policy :: "route_policy \<Rightarrow> i32 list \<Rightarrow> i32 list \<times> route_policy" where
  "apply_policy policy ss =
     (if ss = [] \<or> policy_mode policy = Seds_RSM_Fanout then (ss, policy)
      else if policy_mode policy = Seds_RSM_Failover then
        ([failover_best policy (hd ss) 0xFFFFFFFF ss], policy)
      else
        let total = sum_list (map (weight_of policy) ss) in
        if total = 0 then ([hd ss], policy)
        else let pick = rr_counter policy mod total;
                 policy' = policy\<lparr>rr_counter := rr_counter policy + 1\<rparr>
             in case weighted_pick policy pick 0 ss of
                  Some s \<Rightarrow> ([s], policy')
                | None \<Rightarrow> ([hd ss], policy'))"

section \<open>Acceptance\<close>

definition packet_requires_link_local :: "env \<Rightarrow> packet \<Rightarrow> bool" where
  "packet_requires_link_local E pkt \<longleftrightarrow>
     endpoints pkt \<noteq> [] \<and> list_all (endpoint_link_local_only E) (endpoints pkt)"

definition side_accepts_packet :: "env \<Rightarrow> side \<Rightarrow> packet \<Rightarrow> bool" where
  "side_accepts_packet E s pkt \<longleftrightarrow> \<not> (packet_requires_link_local E pkt \<and> \<not> link_local_enabled s)"

text \<open>An \<open>int32_t\<close> side is cast to \<open>uint32_t\<close> before it becomes the high half of the key.\<close>

definition reliable_key :: "i32 \<Rightarrow> u32 \<Rightarrow> u64" where
  "reliable_key side_id t = push_bit 32 (ucast (word_of_int side_id :: u32)) OR ucast t"

definition key_side :: "u64 \<Rightarrow> i32" where
  "key_side key = sint (ucast (drop_bit 32 key) :: u32)"

section \<open>Candidates\<close>

text \<open>The tests both loops over the routes share.\<close>

definition route_usable ::
    "side list \<Rightarrow> bool \<Rightarrow> i32 option \<Rightarrow> u64 \<Rightarrow> i32 \<Rightarrow> discovery_route \<Rightarrow> bool" where
  "route_usable ss require_link_local src_side now side_id route \<longleftrightarrow>
     src_side \<noteq> Some side_id \<and> \<not> kDiscoveryTtlMs < now - rt_last_seen_ms route \<and>
     in_range side_id ss \<and> (require_link_local \<longrightarrow> link_local_enabled (ss ! nat side_id))"

definition default_candidates ::
    "env \<Rightarrow> side list \<Rightarrow> (i32, discovery_route) amap \<Rightarrow> packet \<Rightarrow> i32 option \<Rightarrow> string option \<Rightarrow> u64 \<Rightarrow> i32 list" where
  "default_candidates E ss routes pkt src_side preferred now =
     (let require_link_local = packet_requires_link_local E pkt;
          usable = filter (\<lambda>(side_id, route). route_usable ss require_link_local src_side now side_id route) routes;
          by_source = (case preferred of
              None \<Rightarrow> []
            | Some p \<Rightarrow> map fst (filter (\<lambda>(_, route). p \<in> set (rt_timesync_sources route)) usable))
      in if by_source \<noteq> [] then sort_dedup by_source
         else
           let by_endpoint = map fst (filter (\<lambda>(_, route).
                 list_ex (\<lambda>ep. ep = SEDS_EP_DISCOVERY \<or> ep \<in> set (rt_endpoints route)) (endpoints pkt)) usable);
               out = (if by_endpoint \<noteq> [] then by_endpoint
                      else map int (filter (\<lambda>i. src_side \<noteq> Some (int i) \<and> egress_enabled (ss ! i) \<and>
                                     (require_link_local \<longrightarrow> link_local_enabled (ss ! i))) [0..<length ss]))
           in sort_dedup out)"

section \<open>Selection\<close>

definition typed_override_present :: "(i32 \<times> u32 \<times> i32, bool) amap \<Rightarrow> i32 \<Rightarrow> u32 \<Rightarrow> bool" where
  "typed_override_present overrides src t \<longleftrightarrow> list_ex (\<lambda>((s, t', _), _). s = src \<and> t' = t) overrides"

text \<open>The body of the loop over the candidates.\<close>

definition destination_allowed ::
    "env \<Rightarrow> side list \<Rightarrow> (i32 \<times> i32, bool) amap \<Rightarrow> (i32 \<times> u32 \<times> i32, bool) amap \<Rightarrow> packet \<Rightarrow> i32 \<Rightarrow> i32 \<Rightarrow> bool" where
  "destination_allowed E ss overrides typed pkt src side_id =
     (if \<not> in_range side_id ss then False
      else if \<not> egress_enabled (ss ! nat side_id) then False
      else if \<not> side_accepts_packet E (ss ! nat side_id) pkt then False
      else if map_of overrides (src, side_id) = Some False then False
      else case map_of typed (src, ty pkt, side_id) of
          Some b \<Rightarrow> b
        | None \<Rightarrow>
            if typed_override_present typed src (ty pkt) then False
            else case map_of overrides (src, side_id) of Some b \<Rightarrow> b | None \<Rightarrow> True)"

definition select_destinations ::
    "env \<Rightarrow> side list \<Rightarrow> (i32, discovery_route) amap \<Rightarrow> (i32 \<times> i32, bool) amap \<Rightarrow>
     (i32 \<times> u32 \<times> i32, bool) amap \<Rightarrow> route_policy \<Rightarrow> packet \<Rightarrow> i32 option \<Rightarrow> i32 option \<Rightarrow>
     string option \<Rightarrow> u64 \<Rightarrow> i32 list \<times> route_policy" where
  "select_destinations E ss routes overrides typed policy pkt src_side explicit_dst preferred now =
     (case explicit_dst of
        Some d \<Rightarrow> ([d], policy)
      | None \<Rightarrow>
          let candidates = default_candidates E ss routes pkt src_side preferred now;
              src = (case src_side of Some s \<Rightarrow> s | None \<Rightarrow> -1)
          in apply_policy policy (filter (destination_allowed E ss overrides typed pkt src) candidates))"

section \<open>Facts about policies\<close>

lemma failover_best_spec:
  "failover_best policy b bp ss \<in> insert b (set ss) \<and>
   (bp \<le> priority_of policy (failover_best policy b bp ss) \<longrightarrow> failover_best policy b bp ss = b) \<and>
   (\<forall>s \<in> set ss. min bp (priority_of policy (failover_best policy b bp ss)) \<le> priority_of policy s)"
proof (induction ss arbitrary: b bp)
  case (Cons s ss)
  show ?case
  proof (cases "priority_of policy s < bp")
    case True
    let ?f = "failover_best policy s (priority_of policy s) ss"
    have IH: "?f \<in> insert s (set ss)" "priority_of policy s \<le> priority_of policy ?f \<longrightarrow> ?f = s"
      "\<forall>x \<in> set ss. min (priority_of policy s) (priority_of policy ?f) \<le> priority_of policy x"
      using Cons.IH by simp_all
    then have "priority_of policy ?f \<le> priority_of policy s" by (metis linear order_refl)
    with IH True show ?thesis by (auto simp: Let_def min_def)
  next
    case False
    then have "min bp q \<le> priority_of policy s" for q by (simp add: min.coboundedI1)
    with Cons.IH [of b bp] False show ?thesis by (auto simp: Let_def)
  qed
qed simp

lemma weight_pos: "0 < unat (weight_of policy s)"
proof -
  have "(1::u32) \<le> max 1 wt" for wt by simp
  then have "unat (1 :: u32) \<le> unat (max 1 wt)" for wt :: u32
    by (simp only: word_le_nat_alt [symmetric])
  then have "0 < unat (max 1 wt)" for wt :: u32 by (simp add: Suc_le_eq)
  then show ?thesis by (auto simp: weight_of_def split: option.splits)
qed

definition total_weight :: "route_policy \<Rightarrow> i32 list \<Rightarrow> nat" where
  "total_weight policy ss = sum_list (map (\<lambda>s. unat (weight_of policy s)) ss)"

lemma unat_total:
  "total_weight policy ss < 2 ^ 64 \<Longrightarrow> unat (sum_list (map (weight_of policy) ss)) = total_weight policy ss"
  by (induction ss) (simp_all add: total_weight_def unat_add_small)

lemma weighted_pick_count:
  assumes "distinct ss" "r + total_weight policy ss < 2 ^ 64"
  shows "card {p \<in> {r..<r + total_weight policy ss}.
      weighted_pick policy (word_of_nat p) (word_of_nat r) ss = Some x} =
    (if x \<in> set ss then unat (weight_of policy x) else 0)"
  using assms
proof (induction ss arbitrary: r)
  case (Cons s ss)
  let ?w = "unat (weight_of policy s)" and ?T = "total_weight policy ss"
  have T: "total_weight policy (s # ss) = ?w + ?T" by (simp add: total_weight_def)
  have next_r: "word_of_nat r + weight_of policy s = (word_of_nat (r + ?w) :: u64)"
    by simp
  have lt: "(word_of_nat p :: u64) < word_of_nat (r + ?w) \<longleftrightarrow> p < r + ?w" if "p < r + (?w + ?T)" for p
    using that Cons.prems(2) T by (simp add: word_less_nat_alt unat_of_nat del: of_nat_add)
  have step: "weighted_pick policy (word_of_nat p) (word_of_nat r) (s # ss) =
      (if p < r + ?w then Some s else weighted_pick policy (word_of_nat p) (word_of_nat (r + ?w)) ss)"
    if "p < r + (?w + ?T)" for p
    by (simp only: weighted_pick.simps Let_def next_r lt [OF that])
  let ?A = "{p \<in> {r..<r + (?w + ?T)}. weighted_pick policy (word_of_nat p) (word_of_nat r) (s # ss) = Some x}"
  let ?B = "{p \<in> {r + ?w..<(r + ?w) + ?T}. weighted_pick policy (word_of_nat p) (word_of_nat (r + ?w)) ss = Some x}"
  have "?A = (if x = s then {r..<r + ?w} else {}) \<union> ?B"
    using step by (auto simp del: weighted_pick.simps of_nat_add split: if_splits)
  moreover have "card ?B = (if x \<in> set ss then unat (weight_of policy x) else 0)"
    using Cons.prems T by (intro Cons.IH) simp_all
  moreover have "{r..<r + ?w} \<inter> ?B = {}" by auto
  ultimately show ?case using Cons.prems(1) T
    by (cases "x = s") (simp_all add: card_Un_disjoint)
qed (simp add: total_weight_def)

lemma weighted_pick_first: "p < total_weight policy ss \<Longrightarrow> total_weight policy ss < 2 ^ 64 \<Longrightarrow>
    \<exists>s. weighted_pick policy (word_of_nat p) 0 ss = Some s"
proof -
  have "\<exists>s. weighted_pick policy (word_of_nat p) (word_of_nat r) ss = Some s"
    if "r \<le> p" "p < r + total_weight policy ss" "r + total_weight policy ss < 2 ^ 64" for r
    using that
  proof (induction ss arbitrary: r)
    case Nil
    then show ?case by (simp add: total_weight_def)
  next
    case (Cons s ss)
    have eq: "word_of_nat r + weight_of policy s = (word_of_nat (r + unat (weight_of policy s)) :: u64)" by simp
    show ?case
    proof (cases "(word_of_nat p :: u64) < word_of_nat r + weight_of policy s")
      case False
      then have "\<not> p < r + unat (weight_of policy s)"
        using Cons.prems unfolding eq
        by (simp add: total_weight_def word_less_nat_alt unat_of_nat del: of_nat_add)
      with False show ?thesis
        using Cons.IH [of "r + unat (weight_of policy s)"] Cons.prems
        by (simp add: total_weight_def add.assoc)
    qed (simp add: Let_def)
  qed
  from this [of 0] show "p < total_weight policy ss \<Longrightarrow> total_weight policy ss < 2 ^ 64 \<Longrightarrow> ?thesis" by simp
qed

lemma apply_policy_weighted:
  assumes "policy_mode policy = Seds_RSM_Weighted" "ss \<noteq> []" "total_weight policy ss < 2 ^ 64"
  shows "fst (apply_policy policy ss) =
    [the (weighted_pick policy (word_of_nat (unat (rr_counter policy) mod total_weight policy ss)) 0 ss)]"
proof -
  let ?T = "sum_list (map (weight_of policy) ss)"
  have T: "unat ?T = total_weight policy ss" using assms(3) by (rule unat_total)
  have pos: "0 < total_weight policy ss"
    using assms(2) weight_pos [of policy "hd ss"] by (cases ss) (auto simp: total_weight_def)
  have pick: "rr_counter policy mod ?T = word_of_nat (unat (rr_counter policy) mod total_weight policy ss)"
    by (simp add: word_arith_nat_mod T)
  have "unat (rr_counter policy) mod total_weight policy ss < total_weight policy ss" using pos by simp
  then obtain s where
    "weighted_pick policy (word_of_nat (unat (rr_counter policy) mod total_weight policy ss)) 0 ss = Some s"
    using weighted_pick_first [OF _ assms(3)] by blast
  moreover have "?T \<noteq> 0" using T pos by auto
  ultimately show ?thesis using assms pick by (simp add: apply_policy_def Let_def)
qed

section \<open>Facts about selection\<close>

lemma set_apply_policy: "set (fst (apply_policy policy ss)) \<subseteq> set ss"
proof (cases "ss = []")
  case False
  have "x \<in> set ss" if "weighted_pick policy p r ss = Some x" for p r x
    using that by (induction ss arbitrary: r) (auto simp: Let_def split: if_splits)
  moreover have "failover_best policy (hd ss) 0xFFFFFFFF ss \<in> set ss"
    using failover_best_spec [where policy = policy and b = "hd ss" and bp = "0xFFFFFFFF" and ss = ss] False
    by auto
  ultimately show ?thesis using False
    by (auto simp: apply_policy_def Let_def split: option.splits)
qed (simp add: apply_policy_def)

lemma default_candidates_not_source:
  "s \<in> set (default_candidates E ss routes pkt src preferred now) \<Longrightarrow> src \<noteq> Some s"
  by (auto simp: default_candidates_def Let_def route_usable_def split: option.splits if_splits)

lemma distinct_default_candidates [simp]: "distinct (default_candidates E ss routes pkt src preferred now)"
  by (simp add: default_candidates_def Let_def)

lemma destination_allowed_side:
  assumes "destination_allowed E ss overrides typed pkt src s"
  shows "in_range s ss \<and> egress_enabled (ss ! nat s) \<and> side_accepts_packet E (ss ! nat s) pkt \<and>
    map_of overrides (src, s) \<noteq> Some False \<and> map_of typed (src, ty pkt, s) \<noteq> Some False"
  using assms by (auto simp: destination_allowed_def split: if_splits option.splits)

lemma reliable_key_halves:
  "ucast (drop_bit 32 (reliable_key s t)) = (word_of_int s :: u32)" "ucast (reliable_key s t) = t"
  by (rule bit_word_eqI;
      auto simp: reliable_key_def bit_ucast_iff bit_drop_bit_eq bit_or_iff bit_push_bit_iff
        dest: bit_imp_le_length)+

lemma key_side_reliable_key:
  assumes "- (2 ^ 31) \<le> s" "s < 2 ^ 31"
  shows "key_side (reliable_key s t) = s"
  using assms by (simp add: key_side_def reliable_key_halves signed_of_int signed_take_bit_int_eq_self)

section \<open>The policy interface\<close>

text \<open>What selection needs of a policy: it chooses among the sides it is given, and it chooses.\<close>

locale destination_policy =
  fixes select :: "route_policy \<Rightarrow> i32 list \<Rightarrow> i32 list \<times> route_policy"
  assumes choose_subset: "set (fst (select policy ss)) \<subseteq> set ss"
    and choose_some: "ss \<noteq> [] \<Longrightarrow> fst (select policy ss) \<noteq> []"
begin

lemma choose_filtered: "s \<in> set (fst (select policy (filter P ss))) \<Longrightarrow> s \<in> set ss \<and> P s"
  using choose_subset [of policy "filter P ss"] by auto

lemma choose_filtered_some: "\<exists>s \<in> set ss. P s \<Longrightarrow> \<exists>s \<in> set (fst (select policy (filter P ss))). s \<in> set ss \<and> P s"
  using choose_some [of "filter P ss" policy] choose_subset [of policy "filter P ss"]
  by (metis (mono_tags) choose_filtered empty_filter_conv last_in_set)

end

interpretation policy: destination_policy apply_policy
proof
  show "set (fst (apply_policy p ss)) \<subseteq> set ss" for p ss by (rule set_apply_policy)
  show "fst (apply_policy p ss) \<noteq> []" if "ss \<noteq> []" for p ss
    using that by (auto simp: apply_policy_def Let_def split: option.splits)
qed

section \<open>Properties of routing\<close>

text \<open>
  (C8) Safety of routing. A side chosen by default routing exists, has egress enabled,
  accepts the packet's link-local scope, is never the side the packet came from, and is not
  disabled by a route or typed-route override.
\<close>

theorem selected_destinations_safe:
  assumes "s \<in> set (fst (select_destinations E ss routes overrides typed policy pkt src None preferred now))"
  shows "in_range s ss \<and> egress_enabled (ss ! nat s) \<and> side_accepts_packet E (ss ! nat s) pkt \<and>
    src \<noteq> Some s \<and> map_of overrides (case src of Some i \<Rightarrow> i | None \<Rightarrow> -1, s) \<noteq> Some False \<and>
    map_of typed (case src of Some i \<Rightarrow> i | None \<Rightarrow> -1, ty pkt, s) \<noteq> Some False"
proof -
  have "s \<in> set (default_candidates E ss routes pkt src preferred now) \<and>
      destination_allowed E ss overrides typed pkt (case src of Some i \<Rightarrow> i | None \<Rightarrow> -1) s"
    using assms by (intro policy.choose_filtered) (simp add: select_destinations_def Let_def)
  then show ?thesis
    using default_candidates_not_source destination_allowed_side by blast
qed

definition sample_side :: "bool \<Rightarrow> side" where
  "sample_side egress = \<lparr>side_name = ''S'', serialized_tx = Some 1, packet_tx = None, reliable_enabled = True,
     link_local_enabled = False, ingress_enabled = True, egress_enabled = egress, header_template_enabled = False,
     max_frame_bytes = 0, compact_header_target_bytes = 0, max_side_transport_templates = 64,
     transport_profile = PROFILE_CANONICAL\<rparr>"

lemma sample_selection:
  "fst (select_destinations sample_env [sample_side True, sample_side False, sample_side True] [] [] []
     default_policy gps_packet (Some 0) None None 0) = [2]"
proof -
  have ll: "\<not> packet_requires_link_local sample_env gps_packet"
    by (simp add: packet_requires_link_local_def gps_packet_def endpoint_link_local_only_def sample_defs
        valid_endpoint_def)
  then have "default_candidates sample_env [sample_side True, sample_side False, sample_side True] []
      gps_packet (Some 0) None 0 = [2]"
    by (simp add: default_candidates_def sample_side_def upt_rec sort_dedup_def)
  then show ?thesis
    using ll by (simp add: select_destinations_def destination_allowed_def in_range_def sample_side_def
        side_accepts_packet_def apply_policy_def default_policy_def typed_override_present_def)
qed

theorem selected_destinations_safe_witness:
  "egress_enabled ([sample_side True, sample_side False, sample_side True] ! nat 2) \<and> Some 0 \<noteq> Some (2 :: i32)"
proof -
  have "2 \<in> set (fst (select_destinations sample_env [sample_side True, sample_side False, sample_side True]
      [] [] [] default_policy gps_packet (Some 0) None None 0))"
    by (simp only: sample_selection) simp
  from selected_destinations_safe [OF this] show ?thesis by simp
qed

text \<open>
  Routing does not drop a packet that has somewhere to go: if any candidate side passes
  the filters, at least one of the passing candidates is chosen, whatever the policy mode.
\<close>

theorem selection_not_empty:
  assumes "c \<in> set (default_candidates E ss routes pkt src preferred now)"
    and "destination_allowed E ss overrides typed pkt (case src of Some i \<Rightarrow> i | None \<Rightarrow> -1) c"
  shows "\<exists>s \<in> set (fst (select_destinations E ss routes overrides typed policy pkt src None preferred now)).
    destination_allowed E ss overrides typed pkt (case src of Some i \<Rightarrow> i | None \<Rightarrow> -1) s"
  using policy.choose_filtered_some [of "default_candidates E ss routes pkt src preferred now"
      "destination_allowed E ss overrides typed pkt (case src of Some i \<Rightarrow> i | None \<Rightarrow> -1)" policy] assms
  by (auto simp: select_destinations_def Let_def)

theorem selection_not_empty_witness:
  "\<exists>s \<in> set (fst (select_destinations sample_env [sample_side True] [] [] [] default_policy gps_packet None None None 0)).
    destination_allowed sample_env [sample_side True] [] [] gps_packet (-1) s"
proof -
  have ll: "\<not> packet_requires_link_local sample_env gps_packet"
    by (simp add: packet_requires_link_local_def gps_packet_def endpoint_link_local_only_def sample_defs
        valid_endpoint_def)
  have "0 \<in> set (default_candidates sample_env [sample_side True] [] gps_packet None None 0)"
    using ll by (simp add: default_candidates_def sample_side_def sort_dedup_def)
  moreover have "destination_allowed sample_env [sample_side True] [] [] gps_packet (case None of Some i \<Rightarrow> i | None \<Rightarrow> -1) 0"
    using ll by (simp add: destination_allowed_def in_range_def sample_side_def side_accepts_packet_def
        typed_override_present_def)
  ultimately show ?thesis using selection_not_empty [of 0 sample_env "[sample_side True]" "[]" gps_packet None None 0]
    by simp
qed

text \<open>
  Failover picks exactly one side, and no other side offered has a smaller priority
  value.
\<close>

theorem failover_picks_best:
  assumes "policy_mode policy = Seds_RSM_Failover" "ss \<noteq> []"
  shows "\<exists>b \<in> set ss. fst (apply_policy policy ss) = [b] \<and>
    (\<forall>s \<in> set ss. priority_of policy b \<le> priority_of policy s)"
proof -
  let ?b = "failover_best policy (hd ss) 0xFFFFFFFF ss"
  have top: "p \<le> (0xFFFFFFFF :: u32)" for p
    using unsigned_less [of p, where ?'a = nat] by (simp add: word_le_nat_alt)
  have "?b \<in> set ss" "\<forall>s \<in> set ss. min 0xFFFFFFFF (priority_of policy ?b) \<le> priority_of policy s"
    using failover_best_spec [where policy = policy and b = "hd ss" and bp = "0xFFFFFFFF" and ss = ss] assms(2)
    by auto
  moreover have "min 0xFFFFFFFF (priority_of policy ?b) = priority_of policy ?b"
    using top by (simp add: min_absorb2)
  moreover have "fst (apply_policy policy ss) = [?b]" using assms by (simp add: apply_policy_def)
  ultimately show ?thesis by auto
qed

theorem failover_picks_best_witness:
  "\<exists>b \<in> set [3, 5]. fst (apply_policy \<lparr>policy_mode = Seds_RSM_Failover, weights = [], priorities = [(5, 1), (3, 2)],
      rr_counter = 0\<rparr> [3, 5]) = [b]"
  using failover_picks_best [of "\<lparr>policy_mode = Seds_RSM_Failover, weights = [], priorities = [(5, 1), (3, 2)],
      rr_counter = 0\<rparr>" "[3, 5]"] by auto

text \<open>
  Weighted round robin is exactly fair: over one full cycle of \<open>total_weight\<close> consecutive
  counter values, each side is chosen as many times as its weight.
\<close>

theorem weighted_round_robin_fair:
  assumes "policy_mode policy = Seds_RSM_Weighted" "distinct ss" "x \<in> set ss"
    and "total_weight policy ss < 2 ^ 64"
  shows "card {k \<in> {0..<total_weight policy ss}.
      fst (apply_policy (policy\<lparr>rr_counter := word_of_nat k\<rparr>) ss) = [x]} = unat (weight_of policy x)"
proof -
  let ?T = "total_weight policy ss"
  have "fst (apply_policy (policy\<lparr>rr_counter := word_of_nat k\<rparr>) ss) = [x] \<longleftrightarrow>
      weighted_pick policy (word_of_nat k) 0 ss = Some x" if k: "k < ?T" for k
  proof -
    have same: "weight_of (policy\<lparr>rr_counter := c\<rparr>) = weight_of policy" for c
      by (simp add: weight_of_def fun_eq_iff)
    have pick: "weighted_pick (policy\<lparr>rr_counter := c\<rparr>) p r xs = weighted_pick policy p r xs" for c p r xs
      by (induction xs arbitrary: r) (simp_all add: same Let_def)
    have "unat (word_of_nat k :: u64) mod ?T = k" using k assms(4) by (simp add: unat_of_nat)
    then have "fst (apply_policy (policy\<lparr>rr_counter := word_of_nat k\<rparr>) ss) =
        [the (weighted_pick policy (word_of_nat k) 0 ss)]"
      using assms apply_policy_weighted [of "policy\<lparr>rr_counter := word_of_nat k\<rparr>" ss]
      by (simp add: pick total_weight_def same) (metis empty_iff list.set(1))
    then show ?thesis using weighted_pick_first [OF k assms(4)] by auto
  qed
  then have "{k \<in> {0..<?T}. fst (apply_policy (policy\<lparr>rr_counter := word_of_nat k\<rparr>) ss) = [x]} =
      {k \<in> {0..<0 + ?T}. weighted_pick policy (word_of_nat k) (word_of_nat 0) ss = Some x}"
    by auto
  then show ?thesis
    using weighted_pick_count [of ss 0 policy x] assms by simp
qed

theorem weighted_round_robin_fair_witness:
  "card {k \<in> {0..<total_weight \<lparr>policy_mode = Seds_RSM_Weighted, weights = [(1, 3)], priorities = [], rr_counter = 0\<rparr> [0, 1]}.
     fst (apply_policy (\<lparr>policy_mode = Seds_RSM_Weighted, weights = [(1, 3)], priorities = [], rr_counter = 0\<rparr>
        \<lparr>rr_counter := word_of_nat k\<rparr>) [0, 1]) = [1]} = 3"
  using weighted_round_robin_fair [of "\<lparr>policy_mode = Seds_RSM_Weighted, weights = [(1, 3)], priorities = [], rr_counter = 0\<rparr>"
      "[0, 1]" 1]
  by (simp add: total_weight_def weight_of_def max_def word_le_nat_alt)

text \<open>
  The key of the reliable state of a side and a type determines both: the side is read
  back from the key by the cast the timeout loop uses, and different pairs have different
  keys.
\<close>

theorem reliable_key_faithful:
  assumes "- (2 ^ 31) \<le> s" "s < 2 ^ 31" "- (2 ^ 31) \<le> s'" "s' < 2 ^ 31"
  shows "key_side (reliable_key s t) = s \<and> (reliable_key s t = reliable_key s' t' \<longleftrightarrow> s = s' \<and> t = t')"
  using key_side_reliable_key [OF assms(1,2), of t] key_side_reliable_key [OF assms(3,4), of t']
    reliable_key_halves(2) by metis

theorem reliable_key_faithful_witness:
  "key_side (reliable_key (-1) 7) = -1 \<and> reliable_key 2 7 \<noteq> reliable_key 3 7"
  using reliable_key_faithful [of "-1" "-1" 7 7] reliable_key_faithful [of 2 3 7 7] by simp

end
