(* ===== verification/Reliable.thy ===== *)
theory Reliable
  imports Routing
begin

text \<open>
  Link-level reliable delivery (\<open>src/router_core.cpp\<close>): acknowledgements, partial
  acknowledgements and packet requests on the sending side, sequencing and buffering on the
  receiving side, retransmission, and the return routes of end-to-end acknowledgements. The
  functions are templates over the owner; the name the owner signs control packets with
  (\<open>control_sender\<close>: the router's sender, or \<open>RELAY\<close>) is an argument.
\<close>

section \<open>Calling a side\<close>

definition call_serialized_tx :: "world \<Rightarrow> fn \<Rightarrow> bytes \<Rightarrow> 'a owner_scheme \<Rightarrow> seds_result \<times> 'a owner_scheme" where
  "call_serialized_tx w f bs r =
     (if side_tx_active r then (SEDS_IO, r\<lparr>side_tx_deferred := True\<rparr>)
      else let (rc, r') = call_back w (SerializedTx f bs) (r\<lparr>side_tx_active := True\<rparr>)
           in (rc, r'\<lparr>side_tx_active := False\<rparr>))"

section \<open>The sending side\<close>

fun drop_acked :: "u32 \<Rightarrow> reliable_tx_state \<Rightarrow> u32 list \<Rightarrow> reliable_tx_state" where
  "drop_acked a tx [] = tx\<lparr>sent_order := []\<rparr>"
| "drop_acked a tx (s # order) =
     (if s \<le> a then drop_acked a (tx\<lparr>sent := merase s (sent tx)\<rparr>) order
      else tx\<lparr>sent_order := s # order\<rparr>)"

definition ack_tx :: "env \<Rightarrow> u32 \<Rightarrow> u32 \<Rightarrow> reliable_tx_state \<Rightarrow> reliable_tx_state" where
  "ack_tx E t a tx =
     (if ti_reliable_mode (type_at E t) = Unordered
      then tx\<lparr>sent := merase a (sent tx), sent_order := removeAll a (sent_order tx)\<rparr>
      else drop_acked a tx (sent_order tx))"

definition handle_ack_impl :: "env \<Rightarrow> i32 \<Rightarrow> u32 \<Rightarrow> u32 \<Rightarrow> 'a owner_scheme \<Rightarrow> 'a owner_scheme" where
  "handle_ack_impl E side_id t a r =
     (let key = reliable_key side_id t in
      case map_of (reliable_tx r) key of
        None \<Rightarrow> r
      | Some tx \<Rightarrow> r\<lparr>reliable_tx := mput key (ack_tx E t a tx) (reliable_tx r)\<rparr>)"

definition handle_partial_ack_impl :: "i32 \<Rightarrow> u32 \<Rightarrow> u32 \<Rightarrow> 'a owner_scheme \<Rightarrow> 'a owner_scheme" where
  "handle_partial_ack_impl side_id t sq r =
     (let key = reliable_key side_id t in
      case map_of (reliable_tx r) key of
        None \<Rightarrow> r
      | Some tx \<Rightarrow>
          (case map_of (sent tx) sq of
             None \<Rightarrow> r
           | Some s \<Rightarrow>
               r\<lparr>reliable_tx := mput key (tx\<lparr>sent := mput sq (s\<lparr>partial_acked := True\<rparr>) (sent tx)\<rparr>)
                                  (reliable_tx r)\<rparr>))"

definition handle_packet_request_impl :: "world \<Rightarrow> i32 \<Rightarrow> u32 \<Rightarrow> u32 \<Rightarrow> 'a owner_scheme \<Rightarrow> 'a owner_scheme" where
  "handle_packet_request_impl w side_id t sq r =
     (if \<not> in_range side_id (sides r) then r
      else let key = reliable_key side_id t in
        case map_of (reliable_tx r) key of
          None \<Rightarrow> r
        | Some tx \<Rightarrow>
            (case map_of (sent tx) sq of
               None \<Rightarrow> r
             | Some s \<Rightarrow>
                 (case serialized_tx (sides r ! nat side_id) of
                    None \<Rightarrow> r
                  | Some f \<Rightarrow>
                      let (_, r') = call_serialized_tx w f (sent_bytes s) r;
                          s' = s\<lparr>last_send_ms := now_ms w r', retries := retries s + 1, queued := False,
                                 partial_acked := False\<rparr>
                      in r'\<lparr>reliable_tx := mput key (tx\<lparr>sent := mput sq s' (sent tx)\<rparr>) (reliable_tx r')\<rparr>)))"

definition bump_seq :: "u32 \<Rightarrow> u32" where
  "bump_seq s = (if s + 1 = 0 then 1 else s + 1)"

abbreviation kReliableFlagAckOnly :: u8 where "kReliableFlagAckOnly \<equiv> 0x01"
abbreviation kReliableFlagUnordered :: u8 where "kReliableFlagUnordered \<equiv> 0x02"
abbreviation kReliableFlagUnsequenced :: u8 where "kReliableFlagUnsequenced \<equiv> 0x80"

definition reliable_frame :: "env \<Rightarrow> packet \<Rightarrow> u32 \<Rightarrow> bytes" where
  "reliable_frame E pkt sq =
     serialize_packet_with_reliable E pkt
       \<lparr>rh_flags = (if ti_reliable_mode (type_at E (ty pkt)) = Unordered then kReliableFlagUnordered else 0),
        seq = sq, ack = 0\<rparr>"

text \<open>\<open>emplace\<close> keeps an entry that is already there.\<close>

definition send_serialized_with_reliable ::
    "env \<Rightarrow> world \<Rightarrow> i32 \<Rightarrow> packet \<Rightarrow> 'a owner_scheme \<Rightarrow> seds_result \<times> 'a owner_scheme" where
  "send_serialized_with_reliable E w side_id pkt r =
     (let s = sides r ! nat side_id in
      case serialized_tx s of
        None \<Rightarrow> (SEDS_OK, r)
      | Some f \<Rightarrow>
          if \<not> reliable_enabled s \<or> \<not> is_reliable_type E (ty pkt) then
            call_serialized_tx w f (serialize_packet E pkt) r
          else
            let key = reliable_key side_id (ty pkt);
                tx = mget default_tx_state (reliable_tx r) key
            in if reliable_max_pending (tuning E) \<le> length (sent tx) then
                 (SEDS_PACKET_TOO_LARGE, r\<lparr>reliable_tx := mput key tx (reliable_tx r)\<rparr>)
               else
                 let bs = reliable_frame E pkt (next_seq tx);
                     sq = next_seq tx;
                     tx1 = tx\<lparr>next_seq := bump_seq sq\<rparr>;
                     (rc, r1) = call_serialized_tx w f bs (r\<lparr>reliable_tx := mput key tx1 (reliable_tx r)\<rparr>)
                 in if rc \<noteq> SEDS_OK then (rc, r1)
                    else
                      let entry = \<lparr>sent_bytes = bs, last_send_ms = now_ms w r1, retries = 0, queued = False,
                                   partial_acked = False\<rparr>;
                          tx2 = tx1\<lparr>sent_order := sent_order tx1 @ [sq],
                                    sent := (if map_of (sent tx1) sq = None then mput sq entry (sent tx1)
                                             else sent tx1)\<rparr>
                      in (SEDS_OK, r1\<lparr>reliable_tx := mput key tx2 (reliable_tx r1)\<rparr>))"

section \<open>Retransmission\<close>

definition timeout_seq ::
    "env \<Rightarrow> world \<Rightarrow> u64 \<Rightarrow> fn \<Rightarrow> reliable_tx_state \<times> 'a owner_scheme \<Rightarrow> u32 \<Rightarrow>
     reliable_tx_state \<times> 'a owner_scheme" where
  "timeout_seq E w now f S sq =
     (let (tx, r) = S in
      case map_of (sent tx) sq of
        None \<Rightarrow> (tx, r)
      | Some s \<Rightarrow>
          if queued s \<or> partial_acked s \<or> now - last_send_ms s < ucast (reliable_retransmit_ms (tuning E)) then
            (tx, r)
          else if reliable_max_retries (tuning E) \<le> retries s then
            (tx\<lparr>sent := merase sq (sent tx), sent_order := removeAll sq (sent_order tx)\<rparr>, r)
          else
            let (rc, r') = call_serialized_tx w f (sent_bytes s) r in
            if rc = SEDS_OK then
              (tx\<lparr>sent := mput sq (s\<lparr>last_send_ms := now, retries := retries s + 1\<rparr>) (sent tx)\<rparr>, r')
            else (tx, r'))"

definition timeout_key :: "env \<Rightarrow> world \<Rightarrow> u64 \<Rightarrow> 'a owner_scheme \<Rightarrow> u64 \<Rightarrow> 'a owner_scheme" where
  "timeout_key E w now r key =
     (let side_id = key_side key in
      if \<not> in_range side_id (sides r) then r
      else case serialized_tx (sides r ! nat side_id) of
          None \<Rightarrow> r
        | Some f \<Rightarrow>
            let tx = mget default_tx_state (reliable_tx r) key;
                (tx', r') = foldl (timeout_seq E w now f) (tx, r) (sent_order tx)
            in r'\<lparr>reliable_tx := mput key tx' (reliable_tx r')\<rparr>)"

definition do_reliable_timeouts :: "env \<Rightarrow> world \<Rightarrow> 'a owner_scheme \<Rightarrow> 'a owner_scheme" where
  "do_reliable_timeouts E w r = foldl (timeout_key E w (now_ms w r)) r (mkeys (reliable_tx r))"

section \<open>The receiving side\<close>

definition queue_reliable_control ::
    "u32 \<Rightarrow> env \<Rightarrow> world \<Rightarrow> string \<Rightarrow> i32 \<Rightarrow> u32 \<Rightarrow> u32 \<Rightarrow> 'a owner_scheme \<Rightarrow> 'a owner_scheme" where
  "queue_reliable_control control_ty E w from side_id t sq r =
     (if \<not> in_range side_id (sides r) then r
      else let s = sides r ! nat side_id in
        if \<not> reliable_enabled s \<or> serialized_tx s = None then r
        else push_tx_front
          \<lparr>tx_pkt = make_reliable_control_packet E control_ty t sq (now_ms w r) from, tx_src_side = None,
           tx_dst_side = Some side_id, deliver_local = False\<rparr> r)"

definition queue_reliable_ack where
  "queue_reliable_ack = queue_reliable_control SEDS_DT_RELIABLE_ACK"

definition queue_reliable_packet_request where
  "queue_reliable_packet_request = queue_reliable_control SEDS_DT_RELIABLE_PACKET_REQUEST"

definition queue_reliable_partial_ack where
  "queue_reliable_partial_ack = queue_reliable_control SEDS_DT_RELIABLE_PARTIAL_ACK"

lemma length_merase_less: "map_of m k = Some v \<Longrightarrow> length (merase k m) < length m"
  by (induction m) (auto simp: AList.delete_eq less_Suc_eq_le)

text \<open>The loop that releases buffered frames while the next expected one is there.\<close>

function release_buffered ::
    "i32 \<Rightarrow> reliable_rx_state \<Rightarrow> rx_item list \<Rightarrow> reliable_rx_state \<times> rx_item list" where
  "release_buffered side_id rx released =
     (case map_of (buffered rx) (expected_seq rx) of
        None \<Rightarrow> (rx, released)
      | Some b \<Rightarrow>
          release_buffered side_id
            (rx\<lparr>buffered := merase (expected_seq rx) (buffered rx), last_ack := expected_seq rx,
                expected_seq := bump_seq (expected_seq rx)\<rparr>)
            (released @ [\<lparr>rx_pkt = buf_pkt b, rx_src_side = Some side_id, wire_bytes = buf_wire b\<rparr>]))"
  by pat_completeness auto

termination
  by (relation "measure (\<lambda>(_, rx, _). length (buffered rx))") (auto dest: length_merase_less)

declare release_buffered.simps [simp del]

definition process_reliable_ingress_impl ::
    "env \<Rightarrow> world \<Rightarrow> string \<Rightarrow> i32 \<Rightarrow> frame_info \<Rightarrow> packet \<Rightarrow> bytes \<Rightarrow> 'a owner_scheme \<Rightarrow> bool \<times> 'a owner_scheme" where
  "process_reliable_ingress_impl E w from side_id frame pkt wire r =
     (case reliable frame of
        None \<Rightarrow> (True, r)
      | Some hdr \<Rightarrow>
          let t = env_ty (envelope frame); key = reliable_key side_id t in
          if rh_flags hdr AND kReliableFlagAckOnly \<noteq> 0 then (False, handle_ack_impl E side_id t (ack hdr) r)
          else if rh_flags hdr AND kReliableFlagUnsequenced \<noteq> 0 then (True, r)
          else
            let rx = mget default_rx_state (reliable_rx r) key;
                put = (\<lambda>rx' r. r\<lparr>reliable_rx := mput key rx' (reliable_rx r)\<rparr>)
            in
            if rh_flags hdr AND kReliableFlagUnordered \<noteq> 0 then
              (True, queue_reliable_ack E w from side_id t (seq hdr) (put (rx\<lparr>last_ack := seq hdr\<rparr>) r))
            else if seq hdr < expected_seq rx then
              let la = (if 0 < expected_seq rx then expected_seq rx - 1 else 0)
              in (False, queue_reliable_ack E w from side_id t la (put (rx\<lparr>last_ack := la\<rparr>) r))
            else if expected_seq rx < seq hdr then
              let rx' = (if length (buffered rx) < reliable_max_pending (tuning E) \<and>
                            map_of (buffered rx) (seq hdr) = None
                         then rx\<lparr>buffered := mput (seq hdr) \<lparr>buf_pkt = pkt, buf_wire = wire\<rparr> (buffered rx)\<rparr>
                         else rx)
              in (False, queue_reliable_packet_request E w from side_id t (expected_seq rx)
                           (queue_reliable_partial_ack E w from side_id t (seq hdr) (put rx' r)))
            else
              let rx1 = rx\<lparr>expected_seq := bump_seq (expected_seq rx), last_ack := seq hdr\<rparr>;
                  (rx2, released) = release_buffered side_id rx1 (reliable_released_rx r)
              in (True, queue_reliable_ack E w from side_id t (last_ack rx2)
                          (put rx2 (r\<lparr>reliable_released_rx := released\<rparr>))))"

section \<open>Return routes\<close>

text \<open>\<open>while (order.size() >= cap)\<close>: forget the oldest routes.\<close>

fun forget_oldest :: "nat \<Rightarrow> u64 list \<Rightarrow> (u64, 'v) amap \<Rightarrow> u64 list \<times> (u64, 'v) amap" where
  "forget_oldest cap [] m = ([], m)"
| "forget_oldest cap (k # order) m =
     (if cap \<le> length (k # order) then forget_oldest cap order (merase k m) else (k # order, m))"

definition remember_id :: "nat \<Rightarrow> u64 \<Rightarrow> u64 list \<times> (u64, 'v) amap \<Rightarrow> u64 list \<times> (u64, 'v) amap" where
  "remember_id cap pid S =
     (let (order, m) = forget_oldest (max 1 cap) (removeAll pid (fst S)) (snd S) in (order @ [pid], m))"

definition note_reliable_return_route :: "env \<Rightarrow> i32 \<Rightarrow> u64 \<Rightarrow> 'a owner_scheme \<Rightarrow> 'a owner_scheme" where
  "note_reliable_return_route E side_id pid r =
     (let (order, m) = remember_id (reliable_max_return_routes (tuning E)) pid
                         (reliable_return_route_order r, reliable_return_routes r)
      in r\<lparr>reliable_return_route_order := order, reliable_return_routes := mput pid side_id m\<rparr>)"

end
