(* ===== verification/Reliable_Facts.thy ===== *)
theory Reliable_Facts
  imports Reliable
begin

text \<open>
  What reliable delivery guarantees on one side and type: the receiver hands packets on in
  sequence order, exactly once and with bounded buffering; the sender's window is bounded and
  cumulative acknowledgements release exactly what they cover.
\<close>

section \<open>Sequence numbers\<close>

lemma unat_bump_seq: "unat s < 2 ^ 32 - 1 \<Longrightarrow> unat (bump_seq s) = unat s + 1"
proof -
  assume lt: "unat s < 2 ^ 32 - 1"
  then have u: "unat (s + 1) = unat s + 1" by (simp add: unat_word_ariths)
  then have "s + 1 \<noteq> 0" by (metis Suc_eq_plus1 nat.distinct(1) unat_0)
  with u show ?thesis by (simp add: bump_seq_def)
qed

section \<open>Releasing buffered frames\<close>

definition buffered_ok :: "(u32 \<Rightarrow> packet) \<Rightarrow> reliable_rx_state \<Rightarrow> bool" where
  "buffered_ok P rx \<longleftrightarrow>
     distinct (mkeys (buffered rx)) \<and>
     (\<forall>s b. map_of (buffered rx) s = Some b \<longrightarrow> buf_pkt b = P s \<and> expected_seq rx \<le> s \<and> unat s < 2 ^ 32 - 1)"

lemma release_buffered_spec:
  assumes "buffered_ok P rx" "release_buffered side_id rx rel = (rx', rel')"
  shows "buffered_ok P rx' \<and> map_of (buffered rx') (expected_seq rx') = None \<and>
    unat (expected_seq rx) \<le> unat (expected_seq rx') \<and>
    length (buffered rx') \<le> length (buffered rx) \<and>
    (\<forall>s. map_of (buffered rx) s \<noteq> None \<longrightarrow>
       map_of (buffered rx') s = map_of (buffered rx) s \<or> s < expected_seq rx') \<and>
    map rx_pkt rel' = map rx_pkt rel @
      map (\<lambda>n. P (word_of_nat n)) [unat (expected_seq rx)..<unat (expected_seq rx')]"
  using assms
proof (induction side_id rx rel rule: release_buffered.induct)
  case (1 side_id rx rel)
  show ?case
  proof (cases "map_of (buffered rx) (expected_seq rx)")
    case None
    with "1.prems" show ?thesis by (simp add: release_buffered.simps [of side_id rx rel])
  next
    case (Some b)
    let ?e = "expected_seq rx"
    let ?rx1 = "rx\<lparr>buffered := merase ?e (buffered rx), last_ack := ?e, expected_seq := bump_seq ?e\<rparr>"
    have e: "unat ?e < 2 ^ 32 - 1" "buf_pkt b = P ?e" using "1.prems"(1) Some by (auto simp: buffered_ok_def)
    then have be: "unat (bump_seq ?e) = unat ?e + 1" by (simp add: unat_bump_seq)
    have next_le: "bump_seq ?e \<le> s" if "?e \<le> s" "s \<noteq> ?e" for s
      using that be by (simp add: word_le_nat_alt) (metis Suc_leI le_neq_implies_less word_unat_eq_iff)
    have ok1: "buffered_ok P ?rx1"
      using "1.prems"(1) next_le by (auto simp: buffered_ok_def)
    have rel1: "release_buffered side_id ?rx1
        (rel @ [\<lparr>rx_pkt = buf_pkt b, rx_src_side = Some side_id, wire_bytes = buf_wire b\<rparr>]) = (rx', rel')"
      using "1.prems"(2) Some by (simp add: release_buffered.simps [of side_id rx rel])
    note IH = "1.IH" [OF Some ok1 rel1]
    have le: "unat ?e < unat (expected_seq rx')" using IH be by simp
    then have "?e < expected_seq rx'" by (simp add: word_less_nat_alt)
    then have keep: "\<forall>s. map_of (buffered rx) s \<noteq> None \<longrightarrow>
        map_of (buffered rx') s = map_of (buffered rx) s \<or> s < expected_seq rx'"
      using IH by (auto split: if_splits) (metis option.distinct(1))
    have "[unat ?e..<unat (expected_seq rx')] = unat ?e # [unat (bump_seq ?e)..<unat (expected_seq rx')]"
      using le be by (simp add: upt_conv_Cons)
    then have "map rx_pkt rel' = map rx_pkt rel @
        map (\<lambda>n. P (word_of_nat n)) [unat ?e..<unat (expected_seq rx')]"
      using IH e(2) by simp
    moreover have "length (merase ?e (buffered rx)) \<le> length (buffered rx)" by (rule length_merase_le)
    ultimately show ?thesis using IH keep be by auto
  qed
qed

lemma release_buffered_keys:
  "release_buffered side_id rx rel = (rx', rel') \<Longrightarrow> set (mkeys (buffered rx')) \<subseteq> set (mkeys (buffered rx))"
proof (induction side_id rx rel rule: release_buffered.induct)
  case (1 side_id rx rel)
  show ?case
  proof (cases "map_of (buffered rx) (expected_seq rx)")
    case None
    with "1.prems" show ?thesis by (simp add: release_buffered.simps [of side_id rx rel])
  next
    case (Some b)
    with "1.prems" "1.IH" [OF Some] show ?thesis
      by (simp add: release_buffered.simps [of side_id rx rel] AList.delete_keys) blast
  qed
qed

section \<open>What ingress changes\<close>

lemma queue_reliable_control_frame [frame_simps]:
  "reliable_rx (queue_reliable_control c E w from side_id t sq r) = reliable_rx r"
  "reliable_tx (queue_reliable_control c E w from side_id t sq r) = reliable_tx r"
  "reliable_released_rx (queue_reliable_control c E w from side_id t sq r) = reliable_released_rx r"
  "sides (queue_reliable_control c E w from side_id t sq r) = sides r"
  "rx_queue (queue_reliable_control c E w from side_id t sq r) = rx_queue r"
  "trace (queue_reliable_control c E w from side_id t sq r) = trace r"
  "memory (queue_reliable_control c E w from side_id t sq r) = memory r"
  by (simp_all add: queue_reliable_control_def push_tx_front_def set_tx_def Let_def)

lemmas queue_control_defs =
  queue_reliable_ack_def queue_reliable_packet_request_def queue_reliable_partial_ack_def

definition ordered_frame :: "u32 \<Rightarrow> u32 \<Rightarrow> frame_info \<Rightarrow> bool" where
  "ordered_frame t sq frame \<longleftrightarrow> env_ty (envelope frame) = t \<and> (\<exists>a. reliable frame = Some \<lparr>rh_flags = 0, seq = sq, ack = a\<rparr>)"

text \<open>The receive state of a side and type, and what ingress of an ordered frame does to it.\<close>

definition rx_state :: "i32 \<Rightarrow> u32 \<Rightarrow> 'a owner_scheme \<Rightarrow> reliable_rx_state" where
  "rx_state side_id t r = mget default_rx_state (reliable_rx r) (reliable_key side_id t)"

definition ingress_rx :: "env \<Rightarrow> i32 \<Rightarrow> u32 \<Rightarrow> packet \<Rightarrow> bytes \<Rightarrow> reliable_rx_state \<Rightarrow>
    bool \<times> reliable_rx_state \<times> rx_item list" where
  "ingress_rx E side_id sq pkt wire rx =
     (if sq < expected_seq rx then
        (False, rx\<lparr>last_ack := (if 0 < expected_seq rx then expected_seq rx - 1 else 0)\<rparr>, [])
      else if expected_seq rx < sq then
        (False, (if length (buffered rx) < reliable_max_pending (tuning E) \<and> map_of (buffered rx) sq = None
                 then rx\<lparr>buffered := mput sq \<lparr>buf_pkt = pkt, buf_wire = wire\<rparr> (buffered rx)\<rparr> else rx), [])
      else (True, release_buffered side_id (rx\<lparr>expected_seq := bump_seq (expected_seq rx), last_ack := sq\<rparr>) []))"

lemma ingress_ordered:
  assumes "ordered_frame t sq frame" "reliable_released_rx r = []"
    and "process_reliable_ingress_impl E w from side_id frame pkt wire r = (ok, r')"
  shows "(ok, rx_state side_id t r', reliable_released_rx r') =
      ingress_rx E side_id sq pkt wire (rx_state side_id t r)"
    and "sides r' = sides r" "rx_queue r' = rx_queue r" "reliable_tx r' = reliable_tx r"
  using assms
  by (auto simp: process_reliable_ingress_impl_def ordered_frame_def ingress_rx_def rx_state_def Let_def
      frame_simps queue_control_defs split: prod.splits if_splits)

section \<open>A run of arrivals\<close>

text \<open>
  Frames of one side and type arrive in any order, with repetitions; \<open>P\<close> gives the packet of a
  sequence number. The caller hands on the accepted packet, then the released ones, and
  empties the release list, as the receive functions of the API do.
\<close>

fun arrivals :: "env \<Rightarrow> world \<Rightarrow> string \<Rightarrow> i32 \<Rightarrow> (frame_info \<times> packet \<times> bytes) list \<Rightarrow> 'a owner_scheme \<Rightarrow>
    packet list \<times> 'a owner_scheme" where
  "arrivals E w from side_id [] r = ([], r)"
| "arrivals E w from side_id ((frame, pkt, wire) # fs) r =
     (let (ok, r1) = process_reliable_ingress_impl E w from side_id frame pkt wire (r\<lparr>reliable_released_rx := []\<rparr>);
          now = (if ok then pkt # map rx_pkt (reliable_released_rx r1) else []);
          (later, r2) = arrivals E w from side_id fs r1
      in (now @ later, r2))"

definition stream_of :: "u32 \<Rightarrow> (u32 \<Rightarrow> packet) \<Rightarrow> u32 list \<Rightarrow> (frame_info \<times> packet \<times> bytes) list \<Rightarrow> bool" where
  "stream_of t P sqs fs \<longleftrightarrow>
     list_all2 (\<lambda>sq (frame, pkt, _). ordered_frame t sq frame \<and> pkt = P sq \<and> unat sq < 2 ^ 32 - 1) sqs fs"

definition rx_ok :: "env \<Rightarrow> (u32 \<Rightarrow> packet) \<Rightarrow> reliable_rx_state \<Rightarrow> bool" where
  "rx_ok E P rx \<longleftrightarrow> buffered_ok P rx \<and> map_of (buffered rx) (expected_seq rx) = None \<and>
     length (buffered rx) \<le> reliable_max_pending (tuning E)"

lemma ingress_rx_spec:
  assumes "rx_ok E P rx" "unat sq < 2 ^ 32 - 1"
    and "ingress_rx E side_id sq (P sq) wire rx = (ok, rx', rel)"
  shows "rx_ok E P rx' \<and> unat (expected_seq rx) \<le> unat (expected_seq rx') \<and>
    (if ok then P sq # map rx_pkt rel else []) =
      map (\<lambda>n. P (word_of_nat n)) [unat (expected_seq rx)..<unat (expected_seq rx')]"
proof -
  consider (old) "sq < expected_seq rx" | (early) "expected_seq rx < sq" | (due) "sq = expected_seq rx"
    by fastforce
  then show ?thesis
  proof cases
    case old
    with assms show ?thesis by (auto simp: ingress_rx_def rx_ok_def buffered_ok_def)
  next
    case early
    then have "\<not> sq < expected_seq rx" by simp
    with early assms show ?thesis
      using length_mput_le [of sq "\<lparr>buf_pkt = P sq, buf_wire = wire\<rparr>" "buffered rx"]
      by (auto simp: ingress_rx_def rx_ok_def buffered_ok_def split: if_splits)
  next
    case due
    let ?rx1 = "rx\<lparr>expected_seq := bump_seq (expected_seq rx), last_ack := sq\<rparr>"
    have be: "unat (bump_seq sq) = unat sq + 1" using assms(2) by (rule unat_bump_seq)
    have rb: "release_buffered side_id ?rx1 [] = (rx', rel)" and ok: "ok"
      using assms(3) due by (simp_all add: ingress_rx_def)
    have "bump_seq sq \<le> s" if "sq \<le> s" "s \<noteq> sq" for s
      using that be by (simp add: word_le_nat_alt) (metis Suc_leI le_neq_implies_less word_unat_eq_iff)
    then have "buffered_ok P ?rx1"
      using assms(1) due by (auto simp: rx_ok_def buffered_ok_def) (metis map_of_eq_Some_iff option.distinct(1))
    note spec = release_buffered_spec [OF this rb]
    then have "[unat sq..<unat (expected_seq rx')] = unat sq # [unat (bump_seq sq)..<unat (expected_seq rx')]"
      using be due by (simp add: upt_conv_Cons)
    with spec ok due be assms(1) show ?thesis by (simp add: rx_ok_def)
  qed
qed

lemma arrivals_spec:
  assumes "stream_of t P sqs fs" "rx_ok E P (rx_state side_id t r)"
    and "arrivals E w from side_id fs r = (delivered, r')"
  shows "rx_ok E P (rx_state side_id t r') \<and>
    unat (expected_seq (rx_state side_id t r)) \<le> unat (expected_seq (rx_state side_id t r')) \<and>
    delivered = map (\<lambda>n. P (word_of_nat n))
      [unat (expected_seq (rx_state side_id t r))..<unat (expected_seq (rx_state side_id t r'))]"
  using assms
proof (induction fs arbitrary: sqs r delivered)
  case (Cons f fs)
  obtain frame pkt wire where f: "f = (frame, pkt, wire)" by (cases f) auto
  obtain sq sqs' where sqs: "sqs = sq # sqs'" "ordered_frame t sq frame" "pkt = P sq" "unat sq < 2 ^ 32 - 1"
    "stream_of t P sqs' fs"
    using Cons.prems(1) f by (auto simp: stream_of_def list_all2_Cons2)
  let ?r0 = "r\<lparr>reliable_released_rx := []\<rparr>"
  obtain ok r1 where p: "process_reliable_ingress_impl E w from side_id frame pkt wire ?r0 = (ok, r1)" by fastforce
  obtain later where l: "arrivals E w from side_id fs r1 = (later, r')"
    "delivered = (if ok then pkt # map rx_pkt (reliable_released_rx r1) else []) @ later"
    using Cons.prems(3) f p by (auto simp: Let_def split: prod.splits)
  have st: "rx_state side_id t ?r0 = rx_state side_id t r" by (simp add: rx_state_def)
  have "(ok, rx_state side_id t r1, reliable_released_rx r1) =
      ingress_rx E side_id sq (P sq) wire (rx_state side_id t r)"
    using ingress_ordered(1) [OF sqs(2) _ p] sqs(3) st by simp
  note step = ingress_rx_spec [OF Cons.prems(2) sqs(4) this [symmetric]]
  have rest: "rx_ok E P (rx_state side_id t r')"
    "unat (expected_seq (rx_state side_id t r1)) \<le> unat (expected_seq (rx_state side_id t r'))"
    "later = map (\<lambda>n. P (word_of_nat n))
       [unat (expected_seq (rx_state side_id t r1))..<unat (expected_seq (rx_state side_id t r'))]"
    using Cons.IH [OF sqs(5) _ l(1)] step by auto
  have split: "[a..<c] = [a..<b] @ [b..<c]" if "a \<le> b" "b \<le> c" for a b c :: nat
    using that by (metis le_add_diff_inverse upt_add_eq_append)
  have "(if ok then pkt # map rx_pkt (reliable_released_rx r1) else []) =
      map (\<lambda>n. P (word_of_nat n)) [unat (expected_seq (rx_state side_id t r))..<unat (expected_seq (rx_state side_id t r1))]"
    unfolding sqs(3) using step by (elim conjE)
  then have "delivered = map (\<lambda>n. P (word_of_nat n))
      ([unat (expected_seq (rx_state side_id t r))..<unat (expected_seq (rx_state side_id t r1))] @
       [unat (expected_seq (rx_state side_id t r1))..<unat (expected_seq (rx_state side_id t r'))])"
    by (simp only: l(2) rest(3) map_append)
  then have "delivered = map (\<lambda>n. P (word_of_nat n))
      [unat (expected_seq (rx_state side_id t r))..<unat (expected_seq (rx_state side_id t r'))]"
    using split [of "unat (expected_seq (rx_state side_id t r))" "unat (expected_seq (rx_state side_id t r1))"
        "unat (expected_seq (rx_state side_id t r'))"] step rest(2) by simp
  with rest step show ?case by simp
qed simp

text \<open>
  The receive window. A frame is in the window if every frame more than \<open>W\<close> numbers before it has
  arrived before it; \<open>S\<close> are the numbers that arrived so far.
\<close>

fun in_window :: "nat \<Rightarrow> u32 set \<Rightarrow> u32 list \<Rightarrow> bool" where
  "in_window W S [] \<longleftrightarrow> True"
| "in_window W S (sq # sqs) \<longleftrightarrow> (\<forall>k \<in> {1..<unat sq - W}. word_of_nat k \<in> S) \<and> in_window W (insert sq S) sqs"

text \<open>Inside the window nothing that arrived is lost: it is delivered or buffered.\<close>

definition retained :: "u32 set \<Rightarrow> reliable_rx_state \<Rightarrow> bool" where
  "retained S rx \<longleftrightarrow> (\<forall>s \<in> S. s < expected_seq rx \<or> map_of (buffered rx) s \<noteq> None)"

definition near :: "nat \<Rightarrow> reliable_rx_state \<Rightarrow> bool" where
  "near W rx \<longleftrightarrow> (\<forall>s \<in> set (mkeys (buffered rx)). unat s \<le> unat (expected_seq rx) + W)"

lemma window_bound:
  assumes "rx_ok E P rx" "retained S rx" "1 \<le> unat (expected_seq rx)" "\<forall>k \<in> {1..<unat sq - W}. word_of_nat k \<in> S"
  shows "unat sq \<le> unat (expected_seq rx) + W"
proof (rule ccontr)
  assume "\<not> ?thesis"
  then have "unat (expected_seq rx) \<in> {1..<unat sq - W}" using assms(3) by auto
  then have "word_of_nat (unat (expected_seq rx)) \<in> S" using assms(4) by blast
  then have "expected_seq rx \<in> S" by simp
  with assms(1,2) show False by (auto simp: retained_def rx_ok_def)
qed

lemma window_room:
  assumes "rx_ok E P rx" "near W rx" "expected_seq rx < sq" "unat sq \<le> unat (expected_seq rx) + W"
    and "map_of (buffered rx) sq = None"
  shows "length (buffered rx) < W"
proof -
  let ?K = "set (mkeys (buffered rx))" and ?e = "unat (expected_seq rx)"
  have d: "distinct (mkeys (buffered rx))" using assms(1) by (simp add: rx_ok_def buffered_ok_def)
  have new: "sq \<notin> ?K" using assms(5) by (simp add: map_of_eq_None_iff)
  have "expected_seq rx < s" if s: "s \<in> ?K" for s
  proof -
    obtain b where b: "map_of (buffered rx) s = Some b"
      using s by (cases "map_of (buffered rx) s") (auto simp: map_of_eq_None_iff)
    then have "expected_seq rx \<le> s" "s \<noteq> expected_seq rx"
      using assms(1) by (auto simp: rx_ok_def buffered_ok_def)
    then show ?thesis by simp
  qed
  then have "unat ` insert sq ?K \<subseteq> {?e<..?e + W}"
    using assms(2-4) unfolding near_def word_less_nat_alt image_subset_iff by (simp del: set_map)
  then have "card (unat ` insert sq ?K) \<le> W" using card_mono [of "{?e<..?e + W}"] by simp
  moreover have "card (unat ` insert sq ?K) = Suc (length (buffered rx))"
  proof -
    have "inj_on unat (insert sq ?K)" by (rule inj_onI) (simp add: word_unat_eq_iff)
    then show ?thesis using new distinct_card [OF d] by (simp add: card_image del: set_map)
  qed
  ultimately show ?thesis by simp
qed

lemma ingress_rx_near:
  assumes "rx_ok E P rx" "unat sq < 2 ^ 32 - 1" "near W rx" "unat sq \<le> unat (expected_seq rx) + W"
    and "ingress_rx E side_id sq (P sq) wire rx = (ok, rx', rel)"
  shows "near W rx'"
proof (cases "sq = expected_seq rx")
  case False
  then show ?thesis
    using assms(3-5) by (auto simp: ingress_rx_def near_def set_mkeys_mput simp del: set_map split: if_splits)
next
  case True
  then have "release_buffered side_id (rx\<lparr>expected_seq := bump_seq (expected_seq rx), last_ack := sq\<rparr>) [] = (rx', rel)"
    using assms(5) by (simp add: ingress_rx_def)
  from release_buffered_keys [OF this] have "set (mkeys (buffered rx')) \<subseteq> set (mkeys (buffered rx))" by simp
  moreover have "unat (expected_seq rx) \<le> unat (expected_seq rx')"
    using ingress_rx_spec [OF assms(1,2,5)] by simp
  ultimately show ?thesis using assms(3) unfolding near_def by (meson add_le_mono1 le_trans subsetD)
qed

lemma ingress_rx_kept:
  assumes "rx_ok E P rx" "unat sq < 2 ^ 32 - 1" "retained S rx"
    and "expected_seq rx < sq \<Longrightarrow> map_of (buffered rx) sq = None \<Longrightarrow>
      length (buffered rx) < reliable_max_pending (tuning E)"
    and "ingress_rx E side_id sq (P sq) wire rx = (ok, rx', rel)"
  shows "retained (insert sq S) rx'"
proof -
  consider (old) "sq < expected_seq rx" | (early) "expected_seq rx < sq" | (due) "sq = expected_seq rx"
    by fastforce
  then show ?thesis
  proof cases
    case old
    with assms show ?thesis by (auto simp: ingress_rx_def retained_def)
  next
    case early
    then have "\<not> sq < expected_seq rx" by simp
    with early assms show ?thesis
      by (auto simp: ingress_rx_def retained_def split: if_splits)
  next
    case due
    let ?rx1 = "rx\<lparr>expected_seq := bump_seq (expected_seq rx), last_ack := sq\<rparr>"
    have be: "unat (bump_seq sq) = unat sq + 1" using assms(2) by (rule unat_bump_seq)
    have rb: "release_buffered side_id ?rx1 [] = (rx', rel)"
      using assms(5) due by (simp add: ingress_rx_def)
    have "bump_seq sq \<le> s" if "sq \<le> s" "s \<noteq> sq" for s
      using that be by (simp add: word_le_nat_alt) (metis Suc_leI le_neq_implies_less word_unat_eq_iff)
    then have "buffered_ok P ?rx1"
      using assms(1) due by (auto simp: rx_ok_def buffered_ok_def) (metis map_of_eq_Some_iff option.distinct(1))
    note spec = release_buffered_spec [OF this rb]
    then have gt: "sq < expected_seq rx'" using be due by (simp add: word_less_nat_alt)
    have "s < expected_seq rx' \<or> map_of (buffered rx') s \<noteq> None" if "s \<in> insert sq S" for s
    proof (cases "s \<le> sq")
      case True
      with gt show ?thesis by (meson order.strict_trans1)
    next
      case False
      then have "s \<in> S" "\<not> s < expected_seq rx" using that due by auto
      then have "map_of (buffered rx) s \<noteq> None" using assms(3) by (auto simp: retained_def)
      then show ?thesis using spec by fastforce
    qed
    then show ?thesis by (simp add: retained_def)
  qed
qed

lemma arrivals_kept:
  assumes "stream_of t P sqs fs" "rx_ok E P (rx_state side_id t r)" "retained S (rx_state side_id t r)"
    and "near W (rx_state side_id t r)" "1 \<le> unat (expected_seq (rx_state side_id t r))"
    and "in_window W S sqs" "W \<le> reliable_max_pending (tuning E)"
    and "arrivals E w from side_id fs r = (delivered, r')"
  shows "retained (S \<union> set sqs) (rx_state side_id t r')"
  using assms
proof (induction fs arbitrary: sqs r delivered S)
  case Nil
  then show ?case by (simp add: stream_of_def)
next
  case (Cons f fs)
  obtain frame pkt wire where f: "f = (frame, pkt, wire)" by (cases f) auto
  obtain sq sqs' where sqs: "sqs = sq # sqs'" "ordered_frame t sq frame" "pkt = P sq" "unat sq < 2 ^ 32 - 1"
    "stream_of t P sqs' fs"
    using Cons.prems(1) f by (auto simp: stream_of_def list_all2_Cons2)
  let ?r0 = "r\<lparr>reliable_released_rx := []\<rparr>"
  obtain ok r1 where p: "process_reliable_ingress_impl E w from side_id frame pkt wire ?r0 = (ok, r1)" by fastforce
  obtain later where l: "arrivals E w from side_id fs r1 = (later, r')"
    using Cons.prems(8) f p by (auto simp: Let_def split: prod.splits)
  have st: "rx_state side_id t ?r0 = rx_state side_id t r" by (simp add: rx_state_def)
  have eq: "ingress_rx E side_id sq (P sq) wire (rx_state side_id t r) =
      (ok, rx_state side_id t r1, reliable_released_rx r1)"
    using ingress_ordered(1) [OF sqs(2) _ p] sqs(3) st by simp
  have sq: "unat sq \<le> unat (expected_seq (rx_state side_id t r)) + W"
    using Cons.prems(6) sqs(1) by (intro window_bound [OF Cons.prems(2,3,5)]) simp
  have "retained (insert sq S) (rx_state side_id t r1)"
    using window_room [OF Cons.prems(2,4) _ sq] Cons.prems(7)
    by (intro ingress_rx_kept [OF Cons.prems(2) sqs(4) Cons.prems(3) _ eq]) (simp add: less_le_trans)
  moreover note ingress_rx_near [OF Cons.prems(2) sqs(4) Cons.prems(4) sq eq] ingress_rx_spec [OF Cons.prems(2) sqs(4) eq]
  ultimately have "retained (insert sq S \<union> set sqs') (rx_state side_id t r')"
    using Cons.prems(5-7) sqs(1) by (intro Cons.IH [OF sqs(5) _ _ _ _ _ _ l]) auto
  then show ?case by (simp add: sqs(1))
qed

section \<open>The sender's window\<close>

definition tx_ok :: "env \<Rightarrow> reliable_tx_state \<Rightarrow> bool" where
  "tx_ok E tx \<longleftrightarrow>
     distinct (mkeys (sent tx)) \<and> distinct (sent_order tx) \<and> set (mkeys (sent tx)) = set (sent_order tx) \<and>
     length (sent tx) \<le> reliable_max_pending (tuning E)"

lemma drop_acked_spec:
  assumes "sorted order" "distinct order" "distinct (mkeys (sent tx))"
    and "\<forall>s \<in> set order. s \<in> set (mkeys (sent tx))"
  shows "sent_order (drop_acked a tx order) = filter (\<lambda>s. a < s) order \<and>
    next_seq (drop_acked a tx order) = next_seq tx \<and>
    (\<forall>s. map_of (sent (drop_acked a tx order)) s =
       (if s \<in> set order \<and> s \<le> a then None else map_of (sent tx) s)) \<and>
    distinct (mkeys (sent (drop_acked a tx order)))"
  using assms
proof (induction order arbitrary: tx)
  case (Cons s order)
  show ?case
  proof (cases "s \<le> a")
    case True
    let ?tx = "tx\<lparr>sent := merase s (sent tx)\<rparr>"
    have "\<forall>x \<in> set order. x \<in> set (mkeys (sent ?tx))"
      using Cons.prems(2,4) by (auto simp: AList.delete_keys)
    then have IH: "sent_order (drop_acked a ?tx order) = filter (\<lambda>s. a < s) order"
      "next_seq (drop_acked a ?tx order) = next_seq ?tx"
      "\<forall>x. map_of (sent (drop_acked a ?tx order)) x = (if x \<in> set order \<and> x \<le> a then None else map_of (sent ?tx) x)"
      "distinct (mkeys (sent (drop_acked a ?tx order)))"
      using Cons.IH [of ?tx] Cons.prems by simp_all
    with True show ?thesis by (auto simp: not_less)
  next
    case False
    then have "\<forall>x \<in> set (s # order). a < x" using Cons.prems(1) by force
    with False Cons.prems show ?thesis by (auto simp: not_le)
  qed
qed simp

lemma ack_tx_ordered:
  assumes "tx_ok E tx" "sorted (sent_order tx)" "ti_reliable_mode (type_at E t) \<noteq> Unordered"
  shows "sent_order (ack_tx E t a tx) = filter (\<lambda>s. a < s) (sent_order tx) \<and>
    (\<forall>s. map_of (sent (ack_tx E t a tx)) s = (if s \<le> a then None else map_of (sent tx) s))"
proof -
  have keys: "set (mkeys (sent tx)) = set (sent_order tx)" using assms(1) by (simp add: tx_ok_def)
  then have out: "map_of (sent tx) s = None" if "s \<notin> set (sent_order tx)" for s
    using that by (metis image_set map_of_eq_None_iff)
  show ?thesis
    using drop_acked_spec [of "sent_order tx" tx a] assms out keys by (auto simp: ack_tx_def tx_ok_def)
qed

section \<open>Sending\<close>

definition tx_state :: "i32 \<Rightarrow> u32 \<Rightarrow> 'a owner_scheme \<Rightarrow> reliable_tx_state" where
  "tx_state side_id t r = mget default_tx_state (reliable_tx r) (reliable_key side_id t)"

definition reliable_side :: "env \<Rightarrow> i32 \<Rightarrow> packet \<Rightarrow> fn \<Rightarrow> 'a owner_scheme \<Rightarrow> bool" where
  "reliable_side E side_id pkt f r \<longleftrightarrow>
     serialized_tx (sides r ! nat side_id) = Some f \<and> reliable_enabled (sides r ! nat side_id) \<and>
     is_reliable_type E (ty pkt)"

lemma call_serialized_tx_frame [frame_simps]:
  "sides (snd (call_serialized_tx w f bs r)) = sides r"
  "reliable_tx (snd (call_serialized_tx w f bs r)) = reliable_tx r"
  "reliable_rx (snd (call_serialized_tx w f bs r)) = reliable_rx r"
  "tx_queue (snd (call_serialized_tx w f bs r)) = tx_queue r"
  "rx_queue (snd (call_serialized_tx w f bs r)) = rx_queue r"
  "side_tx_active (snd (call_serialized_tx w f bs r)) = side_tx_active r"
  by (simp_all add: call_serialized_tx_def call_back_def)

text \<open>Sending with a full window transmits nothing.\<close>

lemma send_window_full:
  assumes "reliable_side E side_id pkt f r"
    and "reliable_max_pending (tuning E) \<le> length (sent (tx_state side_id (ty pkt) r))"
    and "send_serialized_with_reliable E w side_id pkt r = (rc, r')"
  shows "rc = SEDS_PACKET_TOO_LARGE \<and> trace r' = trace r \<and>
    tx_state side_id (ty pkt) r' = tx_state side_id (ty pkt) r"
  using assms by (auto simp: send_serialized_with_reliable_def reliable_side_def tx_state_def Let_def)

lemma send_reliable_cases:
  assumes "reliable_side E side_id pkt f r" "\<not> side_tx_active r"
    and "length (sent (tx_state side_id (ty pkt) r)) < reliable_max_pending (tuning E)"
    and "send_serialized_with_reliable E w side_id pkt r = (rc, r')"
  defines "tx \<equiv> tx_state side_id (ty pkt) r" and "tx' \<equiv> tx_state side_id (ty pkt) r'"
  shows "trace r' = trace r @ [SerializedTx f (reliable_frame E pkt (next_seq tx))] \<and>
    rc = respond w (trace r) (SerializedTx f (reliable_frame E pkt (next_seq tx))) \<and>
    next_seq tx' = bump_seq (next_seq tx) \<and>
    sent_order tx' = (if rc = SEDS_OK then sent_order tx @ [next_seq tx] else sent_order tx) \<and>
    sent tx' = (if rc = SEDS_OK \<and> map_of (sent tx) (next_seq tx) = None
      then mput (next_seq tx) \<lparr>sent_bytes = reliable_frame E pkt (next_seq tx), last_send_ms = now_ms w r', retries = 0,
             queued = False, partial_acked = False\<rparr> (sent tx)
      else sent tx)"
  using assms
  by (auto simp: send_serialized_with_reliable_def reliable_side_def tx_state_def Let_def call_serialized_tx_def
      call_back_def now_ms_def split: if_splits)

lemma send_reliable_ok:
  assumes "tx_ok E (tx_state side_id (ty pkt) r)"
    and "\<forall>s \<in> set (sent_order (tx_state side_id (ty pkt) r)). s < next_seq (tx_state side_id (ty pkt) r)"
    and "unat (next_seq (tx_state side_id (ty pkt) r)) < 2 ^ 32 - 1"
    and "reliable_side E side_id pkt f r" "\<not> side_tx_active r"
    and "length (sent (tx_state side_id (ty pkt) r)) < reliable_max_pending (tuning E)"
    and "send_serialized_with_reliable E w side_id pkt r = (rc, r')"
  shows "tx_ok E (tx_state side_id (ty pkt) r') \<and>
    (\<forall>s \<in> set (sent_order (tx_state side_id (ty pkt) r')). s < next_seq (tx_state side_id (ty pkt) r'))"
proof -
  let ?tx = "tx_state side_id (ty pkt) r" and ?tx' = "tx_state side_id (ty pkt) r'"
  have be: "next_seq ?tx < bump_seq (next_seq ?tx)"
    using assms(3) by (simp add: word_less_nat_alt unat_bump_seq)
  have fresh: "next_seq ?tx \<notin> set (sent_order ?tx)" using assms(2) by blast
  then have none: "map_of (sent ?tx) (next_seq ?tx) = None"
    using assms(1) by (metis image_set map_of_eq_None_iff tx_ok_def)
  note c = send_reliable_cases [OF assms(4-7)]
  show ?thesis
  proof (cases "rc = SEDS_OK")
    case True
    then obtain e where t': "sent_order ?tx' = sent_order ?tx @ [next_seq ?tx]"
      "next_seq ?tx' = bump_seq (next_seq ?tx)" "sent ?tx' = mput (next_seq ?tx) e (sent ?tx)"
      using c none by auto
    have "length (sent ?tx') \<le> reliable_max_pending (tuning E)"
      unfolding t'(3) using length_mput_le [of "next_seq ?tx" e "sent ?tx"] assms(6) by linarith
    moreover have "set (mkeys (sent ?tx')) = set (sent_order ?tx')"
      unfolding t' using assms(1) by (simp add: set_mkeys_mput tx_ok_def del: set_map)
    moreover have "distinct (mkeys (sent ?tx'))" "distinct (sent_order ?tx')"
      unfolding t' using assms(1) fresh by (simp_all add: tx_ok_def)
    moreover have "s < next_seq ?tx'" if "s \<in> set (sent_order ?tx')" for s
    proof -
      have "s \<le> next_seq ?tx" using that assms(2) t'(1) by (auto intro: less_imp_le)
      then show ?thesis using be t'(2) by (simp add: order.strict_trans1)
    qed
    ultimately show ?thesis by (simp add: tx_ok_def)
  next
    case False
    with c assms(1,2) be show ?thesis by (auto simp: tx_ok_def intro: order.strict_trans)
  qed
qed

section \<open>Retransmission\<close>

definition retries_bounded :: "env \<Rightarrow> reliable_tx_state \<Rightarrow> bool" where
  "retries_bounded E tx \<longleftrightarrow> (\<forall>s e. map_of (sent tx) s = Some e \<longrightarrow> retries e \<le> reliable_max_retries (tuning E))"

definition owner_retries_bounded :: "env \<Rightarrow> 'a owner_scheme \<Rightarrow> bool" where
  "owner_retries_bounded E r \<longleftrightarrow> (\<forall>k tx. map_of (reliable_tx r) k = Some tx \<longrightarrow> retries_bounded E tx)"

lemma timeout_seq_retries:
  assumes "retries_bounded E tx" "timeout_seq E w now f (tx, r) sq = (tx', r')"
  shows "retries_bounded E tx' \<and> reliable_tx r' = reliable_tx r \<and> sides r' = sides r"
proof (cases "map_of (sent tx) sq")
  case None
  with assms show ?thesis by (simp add: timeout_seq_def)
next
  case (Some e)
  obtain rc r1 where c: "call_serialized_tx w f (sent_bytes e) r = (rc, r1)" by fastforce
  have fr: "reliable_tx r1 = reliable_tx r" "sides r1 = sides r"
    using call_serialized_tx_frame [of w f "sent_bytes e" r] c by simp_all
  have "retries e + 1 \<le> reliable_max_retries (tuning E)" if "\<not> reliable_max_retries (tuning E) \<le> retries e"
    using that by (simp add: inc_le not_le)
  then show ?thesis
    using assms Some c fr by (auto simp: timeout_seq_def Let_def retries_bounded_def split: if_splits)
qed

lemma timeout_seqs_retries:
  assumes "retries_bounded E tx" "foldl (timeout_seq E w now f) (tx, r) sqs = (tx', r')"
  shows "retries_bounded E tx' \<and> reliable_tx r' = reliable_tx r \<and> sides r' = sides r"
  using assms
proof (induction sqs arbitrary: tx r)
  case (Cons sq sqs)
  obtain tx1 r1 where s: "timeout_seq E w now f (tx, r) sq = (tx1, r1)" by fastforce
  from timeout_seq_retries [OF Cons.prems(1) s] Cons.IH [of tx1 r1] Cons.prems(2) s show ?case by simp
qed simp

lemma timeout_key_retries:
  assumes "owner_retries_bounded E r"
  shows "owner_retries_bounded E (timeout_key E w now r key)"
proof -
  let ?tx = "mget default_tx_state (reliable_tx r) key"
  have tx: "retries_bounded E ?tx"
    using assms by (auto simp: owner_retries_bounded_def mget_def retries_bounded_def default_tx_state_def
        split: option.splits)
  show ?thesis
  proof (cases "in_range (key_side key) (sides r) \<and> serialized_tx (sides r ! nat (key_side key)) \<noteq> None")
    case True
    then obtain f where f: "serialized_tx (sides r ! nat (key_side key)) = Some f" by auto
    obtain tx' r' where fo: "foldl (timeout_seq E w now f) (?tx, r) (sent_order ?tx) = (tx', r')" by fastforce
    from timeout_seqs_retries [OF tx fo] have "retries_bounded E tx'" "reliable_tx r' = reliable_tx r" by simp_all
    with assms True f fo show ?thesis
      by (auto simp: timeout_key_def owner_retries_bounded_def Let_def)
  next
    case False
    with assms show ?thesis by (auto simp: timeout_key_def Let_def)
  qed
qed

lemma do_reliable_timeouts_retries:
  assumes "owner_retries_bounded E r"
  shows "owner_retries_bounded E (do_reliable_timeouts E w r)"
proof -
  have "owner_retries_bounded E (foldl (timeout_key E w now) r ks)" for now ks
    using assms by (induction ks arbitrary: r) (simp_all add: timeout_key_retries)
  then show ?thesis by (simp add: do_reliable_timeouts_def)
qed

section \<open>A sample node\<close>

definition sample_world :: world where
  "sample_world = \<lparr>clock = (\<lambda>_. 1000), respond = (\<lambda>_ _. SEDS_OK)\<rparr>"

definition refusing_world :: world where
  "refusing_world = \<lparr>clock = (\<lambda>_. 1000), respond = (\<lambda>_ _. SEDS_IO)\<rparr>"

definition sample_owner :: owner where
  "sample_owner =
     \<lparr>sides = [sample_side True, sample_side True], tx_queue = [], rx_queue = [], reliable_released_rx = [],
      memory = default_runtime_memory_config, tx_queue_bytes = 0, rx_queue_bytes = 0, recent_ids = [],
      recent_set = [], discovery_routes = [], discovery_interval_ms = kDiscoveryFastMs, discovery_next_ms = 0,
      local_policy = default_policy, source_policy = [], route_overrides = [], typed_route_overrides = [],
      reliable_tx = [], reliable_rx = [], reliable_return_routes = [], reliable_return_route_order = [],
      side_tx_active = False, side_tx_deferred = False, trace = []\<rparr>"

definition sample_frame :: "u32 \<Rightarrow> frame_info" where
  "sample_frame sq =
     \<lparr>envelope = \<lparr>env_ty = COMMAND, env_endpoints = [1], env_sender = ''GROUND'', timestamp_ms = 7\<rparr>,
      reliable = Some \<lparr>rh_flags = 0, seq = sq, ack = 0\<rparr>\<rparr>"

definition numbered :: "u32 \<Rightarrow> packet" where
  "numbered sq = command_packet\<lparr>payload := [ucast sq]\<rparr>"

definition sample_stream :: "(frame_info \<times> packet \<times> bytes) list" where
  "sample_stream = map (\<lambda>sq. (sample_frame sq, numbered sq, [])) [2, 1, 1, 3]"

lemma sample_stream_of: "stream_of COMMAND numbered [2, 1, 1, 3] sample_stream"
  by (simp add: stream_of_def sample_stream_def ordered_frame_def sample_frame_def)

section \<open>Properties of reliable delivery\<close>

text \<open>
  (C3) Ordered delivery. Whatever the order, repetition and loss in which the frames of an
  ordered type arrive on a side, the packets handed on are exactly those numbered
  \<open>1, 2, \<dots>, expected_seq - 1\<close>, each once and in that order, and the frames held back never
  exceed the configured limit.
\<close>

theorem ordered_delivery_in_sequence:
  assumes "stream_of t P sqs fs" "map_of (reliable_rx r) (reliable_key side_id t) = None"
    and "arrivals E w from side_id fs r = (delivered, r')"
  shows "delivered = map (\<lambda>n. P (word_of_nat n)) [1..<unat (expected_seq (rx_state side_id t r'))] \<and>
    length (buffered (rx_state side_id t r')) \<le> reliable_max_pending (tuning E)"
proof -
  have fresh: "rx_state side_id t r = default_rx_state" using assms(2) by (simp add: rx_state_def mget_def)
  then have "rx_ok E P (rx_state side_id t r)"
    by (simp add: rx_ok_def buffered_ok_def default_rx_state_def)
  from arrivals_spec [OF assms(1) this assms(3)] show ?thesis
    by (simp add: fresh rx_ok_def default_rx_state_def)
qed

theorem ordered_delivery_in_sequence_witness:
  "\<exists>delivered r'. arrivals sample_env sample_world ''CPP'' 0 sample_stream sample_owner = (delivered, r') \<and>
     delivered = map (\<lambda>n. numbered (word_of_nat n)) [1..<unat (expected_seq (rx_state 0 COMMAND r'))]"
proof -
  obtain d r' where a: "arrivals sample_env sample_world ''CPP'' 0 sample_stream sample_owner = (d, r')" by fastforce
  have "map_of (reliable_rx sample_owner) (reliable_key 0 COMMAND) = None" by (simp add: sample_owner_def)
  from ordered_delivery_in_sequence [OF sample_stream_of this a] a show ?thesis by auto
qed

text \<open>
  (C12) Completeness of ordered delivery. If every frame \<open>1, \<dots>, n\<close> arrives at least once, in any order
  and with any repetitions, and the receive window is kept, that is, a frame arrives only after all
  frames more than \<open>reliable_max_pending\<close> numbers before it, then all \<open>n\<close> are delivered, in order. The
  number of arrivals is not bounded.
\<close>

theorem ordered_delivery_complete:
  assumes "stream_of t P sqs fs" "map_of (reliable_rx r) (reliable_key side_id t) = None"
    and "arrivals E w from side_id fs r = (delivered, r')"
    and "\<forall>k \<in> {1..n}. word_of_nat k \<in> set sqs" "in_window (reliable_max_pending (tuning E)) {} sqs"
  shows "take n delivered = map (\<lambda>k. P (word_of_nat k)) [1..<Suc n]"
proof -
  let ?rx = "rx_state side_id t r'"
  have fresh: "rx_state side_id t r = default_rx_state" using assms(2) by (simp add: rx_state_def mget_def)
  then have ok: "rx_ok E P (rx_state side_id t r)" and k0: "retained {} (rx_state side_id t r)"
    and nr: "near W (rx_state side_id t r)" and one: "1 \<le> unat (expected_seq (rx_state side_id t r))" for W
    by (simp_all add: rx_ok_def buffered_ok_def default_rx_state_def retained_def near_def)
  note spec = arrivals_spec [OF assms(1) ok assms(3)]
  have e: "1 \<le> unat (expected_seq ?rx)" "delivered = map (\<lambda>k. P (word_of_nat k)) [1..<unat (expected_seq ?rx)]"
    using spec by (simp_all add: fresh default_rx_state_def)
  have "retained ({} \<union> set sqs) ?rx"
    by (rule arrivals_kept [OF assms(1) ok k0 nr one assms(5) order_refl assms(3)])
  moreover have "expected_seq ?rx \<in> set sqs" if "\<not> n < unat (expected_seq ?rx)"
  proof -
    have "unat (expected_seq ?rx) \<in> {1..n}" using e that by auto
    with assms(4) have "word_of_nat (unat (expected_seq ?rx)) \<in> set sqs" by blast
    then show ?thesis by simp
  qed
  ultimately have "n < unat (expected_seq ?rx)" using spec by (fastforce simp: retained_def rx_ok_def)
  then show ?thesis by (simp add: e(2) take_map)
qed

text \<open>A receiver that holds back at most two frames, and more arrivals than that.\<close>

definition narrow_env :: env where
  "narrow_env = sample_env\<lparr>tuning := (tuning sample_env)\<lparr>reliable_max_pending := 2\<rparr>\<rparr>"

definition long_stream :: "(frame_info \<times> packet \<times> bytes) list" where
  "long_stream = map (\<lambda>sq. (sample_frame sq, numbered sq, [])) [2, 1, 1, 3, 5, 6, 4, 7]"

theorem ordered_delivery_complete_witness:
  "take 7 (fst (arrivals narrow_env sample_world ''CPP'' 0 long_stream sample_owner)) =
     map (\<lambda>k. numbered (word_of_nat k)) [1..<8]"
proof -
  obtain d r' where a: "arrivals narrow_env sample_world ''CPP'' 0 long_stream sample_owner = (d, r')" by fastforce
  have n: "map_of (reliable_rx sample_owner) (reliable_key 0 COMMAND) = None" by (simp add: sample_owner_def)
  have s: "stream_of COMMAND numbered [2, 1, 1, 3, 5, 6, 4, 7] long_stream"
    by (simp add: stream_of_def long_stream_def ordered_frame_def sample_frame_def)
  have "{1..7} = {1, 2, 3, 4, 5, 6, 7 :: nat}" by auto
  then have "\<forall>k \<in> {1..7}. word_of_nat k \<in> set [2, 1, 1, 3, 5, 6, 4, 7 :: u32]" by simp
  moreover have "in_window (reliable_max_pending (tuning narrow_env)) {} [2, 1, 1, 3, 5, 6, 4, 7]"
    by (simp add: narrow_env_def atLeastLessThan_upt upt_rec)
  ultimately show ?thesis
    using ordered_delivery_complete [OF s n a, of 7] a by simp
qed

text \<open>
  A cumulative acknowledgement of an ordered type releases exactly the frames it covers:
  every outstanding frame numbered up to it is forgotten, every later one is retained unchanged.
\<close>

theorem cumulative_ack_exact:
  assumes "tx_ok E (tx_state side_id t r)" "sorted (sent_order (tx_state side_id t r))"
    and "ti_reliable_mode (type_at E t) \<noteq> Unordered"
    and "map_of (reliable_tx r) (reliable_key side_id t) \<noteq> None"
  shows "sent_order (tx_state side_id t (handle_ack_impl E side_id t a r)) =
      filter (\<lambda>s. a < s) (sent_order (tx_state side_id t r)) \<and>
    (\<forall>s. map_of (sent (tx_state side_id t (handle_ack_impl E side_id t a r))) s =
      (if s \<le> a then None else map_of (sent (tx_state side_id t r)) s))"
proof -
  obtain tx where tx: "map_of (reliable_tx r) (reliable_key side_id t) = Some tx" using assms(4) by blast
  then have "tx_state side_id t (handle_ack_impl E side_id t a r) = ack_tx E t a (tx_state side_id t r)"
    by (simp add: handle_ack_impl_def tx_state_def mget_def)
  with ack_tx_ordered [OF assms(1-3)] show ?thesis by simp
qed

definition acked_tx :: reliable_tx_state where
  "acked_tx =
     \<lparr>next_seq = 4, sent_order = [2, 3],
      sent = [(2, \<lparr>sent_bytes = [1], last_send_ms = 0, retries = 0, queued = False, partial_acked = False\<rparr>),
              (3, \<lparr>sent_bytes = [2], last_send_ms = 0, retries = 0, queued = False, partial_acked = False\<rparr>)]\<rparr>"

definition acked_owner :: owner where
  "acked_owner = sample_owner\<lparr>reliable_tx := [(reliable_key 0 COMMAND, acked_tx)]\<rparr>"

lemma acked_tx_state: "tx_state 0 COMMAND acked_owner = acked_tx"
  by (simp add: tx_state_def acked_owner_def mget_def)

lemma acked_tx_ok: "tx_ok sample_env acked_tx"
  by (simp add: acked_tx_def tx_ok_def sample_env_def default_tuning_def)

theorem cumulative_ack_exact_witness:
  "sent_order (tx_state 0 COMMAND (handle_ack_impl sample_env 0 COMMAND 2 acked_owner)) = [3]"
proof -
  have o: "sent_order acked_tx = [2, 3]" by (simp add: acked_tx_def)
  have "map_of (reliable_tx acked_owner) (reliable_key 0 COMMAND) \<noteq> None" by (simp add: acked_owner_def)
  then show ?thesis
    using cumulative_ack_exact [of sample_env 0 COMMAND acked_owner 2]
    by (simp add: sample_type_at acked_tx_state acked_tx_ok o)
qed

text \<open>
  The sending window. A successful or failed reliable transmission keeps the state
  well formed: at most \<open>reliable_max_pending\<close> frames outstanding, each numbered once and below
  the next number; with the window full nothing is transmitted and the caller is told so.
\<close>

theorem send_window_bounded:
  assumes "tx_ok E (tx_state side_id (ty pkt) r)"
    and "\<forall>s \<in> set (sent_order (tx_state side_id (ty pkt) r)). s < next_seq (tx_state side_id (ty pkt) r)"
    and "unat (next_seq (tx_state side_id (ty pkt) r)) < 2 ^ 32 - 1"
    and "reliable_side E side_id pkt f r" "\<not> side_tx_active r"
    and "send_serialized_with_reliable E w side_id pkt r = (rc, r')"
  shows "tx_ok E (tx_state side_id (ty pkt) r') \<and>
    (\<forall>s \<in> set (sent_order (tx_state side_id (ty pkt) r')). s < next_seq (tx_state side_id (ty pkt) r')) \<and>
    (reliable_max_pending (tuning E) \<le> length (sent (tx_state side_id (ty pkt) r)) \<longrightarrow>
       rc = SEDS_PACKET_TOO_LARGE \<and> trace r' = trace r)"
proof (cases "reliable_max_pending (tuning E) \<le> length (sent (tx_state side_id (ty pkt) r))")
  case True
  with send_window_full [OF assms(4) True assms(6)] assms(1,2) show ?thesis by simp
next
  case False
  with send_reliable_ok [OF assms(1-5) _ assms(6)] show ?thesis by simp
qed

lemma sample_reliable_side: "reliable_side sample_env 0 command_packet 1 acked_owner"
  by (simp add: reliable_side_def acked_owner_def sample_owner_def sample_side_def is_reliable_type_def
      ti_reliable_def sample_type_at command_packet_def)

theorem send_window_bounded_witness:
  "tx_ok sample_env (tx_state 0 COMMAND (snd (send_serialized_with_reliable sample_env sample_world 0 command_packet acked_owner)))"
proof -
  obtain rc r' where s: "send_serialized_with_reliable sample_env sample_world 0 command_packet acked_owner = (rc, r')"
    by fastforce
  have t: "ty command_packet = COMMAND" by (simp add: command_packet_def)
  have n: "next_seq acked_tx = 4" "sent_order acked_tx = [2, 3]" by (simp_all add: acked_tx_def)
  have a: "\<not> side_tx_active acked_owner" by (simp add: acked_owner_def sample_owner_def)
  show ?thesis
    using send_window_bounded [OF _ _ _ sample_reliable_side a s]
    by (simp add: s t acked_tx_state acked_tx_ok n)
qed

text \<open>
  (C30) A refused transmission loses its sequence number. When the side's callback fails, the
  number is consumed although no frame carries it; a later request for it finds nothing to
  send again, so an ordered receiver waits for it for ever.
\<close>

theorem refused_send_loses_number:
  assumes "tx_ok E (tx_state side_id (ty pkt) r)"
    and "next_seq (tx_state side_id (ty pkt) r) \<notin> set (sent_order (tx_state side_id (ty pkt) r))"
    and "length (sent (tx_state side_id (ty pkt) r)) < reliable_max_pending (tuning E)"
    and "reliable_side E side_id pkt f r" "\<not> side_tx_active r"
    and "send_serialized_with_reliable E w side_id pkt r = (rc, r')" "rc \<noteq> SEDS_OK"
  shows "next_seq (tx_state side_id (ty pkt) r') = bump_seq (next_seq (tx_state side_id (ty pkt) r)) \<and>
    handle_packet_request_impl w side_id (ty pkt) (next_seq (tx_state side_id (ty pkt) r)) r' = r'"
proof -
  let ?tx = "tx_state side_id (ty pkt) r" and ?tx' = "tx_state side_id (ty pkt) r'"
  note c = send_reliable_cases [OF assms(4,5,3,6)]
  have "map_of (sent ?tx) (next_seq ?tx) = None"
    using assms(1,2) by (metis image_set map_of_eq_None_iff tx_ok_def)
  then have "map_of (sent ?tx') (next_seq ?tx) = None" using c assms(7) by simp
  then have "handle_packet_request_impl w side_id (ty pkt) (next_seq ?tx) r' = r'"
    by (auto simp: handle_packet_request_impl_def tx_state_def mget_def Let_def split: option.splits)
  with c show ?thesis by simp
qed

theorem refused_send_loses_number_witness:
  "handle_packet_request_impl refusing_world 0 COMMAND 4
     (snd (send_serialized_with_reliable sample_env refusing_world 0 command_packet acked_owner)) =
   snd (send_serialized_with_reliable sample_env refusing_world 0 command_packet acked_owner)"
proof -
  obtain rc r' where s: "send_serialized_with_reliable sample_env refusing_world 0 command_packet acked_owner = (rc, r')"
    by fastforce
  have t: "ty command_packet = COMMAND" by (simp add: command_packet_def)
  have n: "next_seq acked_tx = 4" "sent_order acked_tx = [2, 3]" "length (sent acked_tx) < reliable_max_pending (tuning sample_env)"
    by (simp_all add: acked_tx_def sample_env_def default_tuning_def)
  have a: "\<not> side_tx_active acked_owner" by (simp add: acked_owner_def sample_owner_def)
  have "rc \<noteq> SEDS_OK"
    using send_reliable_cases [OF sample_reliable_side a _ s] t n(3)
    by (simp add: acked_tx_state refusing_world_def)
  then show ?thesis
    using refused_send_loses_number [OF _ _ _ sample_reliable_side a s] t n
    by (simp add: s acked_tx_state acked_tx_ok)
qed

text \<open>
  Retransmission is bounded: the timeout pass never raises the retry count of a frame
  above \<open>reliable_max_retries\<close>.
\<close>

theorem timeouts_bound_retries:
  assumes "owner_retries_bounded E r"
  shows "owner_retries_bounded E (do_reliable_timeouts E w r)"
  using assms by (rule do_reliable_timeouts_retries)

theorem timeouts_bound_retries_witness:
  "owner_retries_bounded sample_env (do_reliable_timeouts sample_env sample_world acked_owner)"
  by (rule timeouts_bound_retries)
    (simp add: owner_retries_bounded_def acked_owner_def retries_bounded_def acked_tx_def)

end
