(* ===== verification/Discovery.thy ===== *)
theory Discovery
  imports Reliable_Facts
begin

text \<open>
  Discovery (\<open>src/discovery.cpp\<close>): what a node learns from the announcements it receives, how
  that knowledge ages, and what it announces in turn. The router and the relay share the
  code up to the board they describe themselves with and the name they sign with; both are
  arguments. An exception thrown by a packet constructor is the outer \<open>None\<close>.
\<close>

section \<open>Knowledge about a sender and a side\<close>

definition refresh_sender_topology_state :: "sender_state \<Rightarrow> sender_state" where
  "refresh_sender_topology_state s =
     (let boards = normalize_topology_boards (topology_boards s);
          (reachable, sources) = summarize_topology_boards boards
      in s\<lparr>topology_boards := boards, ss_endpoints := reachable, ss_timesync_sources := sources\<rparr>)"

definition recompute_discovery_side_state :: "discovery_route \<Rightarrow> discovery_route" where
  "recompute_discovery_side_state route =
     (let ss = map snd (announcers route)
      in route\<lparr>rt_endpoints := remdups (concat (map ss_endpoints ss)),
               rt_timesync_sources := remdups (concat (map ss_timesync_sources ss)),
               rt_last_seen_ms := foldl (\<lambda>m s. max m (ss_last_seen_ms s)) 0 ss\<rparr>)"

text \<open>\<open>sender_topology_board_mut\<close> with the update made through the returned pointer.\<close>

definition update_sender_board ::
    "string \<Rightarrow> (topology_board_node \<Rightarrow> topology_board_node) \<Rightarrow> topology_board_node list \<Rightarrow> topology_board_node list" where
  "update_sender_board sid f boards =
     (case find (\<lambda>i. sender_id (boards ! i) = sid) [0..<length boards] of
        Some i \<Rightarrow> boards[i := f (boards ! i)]
      | None \<Rightarrow> boards @ [f \<lparr>sender_id = sid, reachable_endpoints = [], reachable_timesync_sources = [], connections = []\<rparr>])"

definition sender_board :: "string \<Rightarrow> topology_board_node list \<Rightarrow> topology_board_node" where
  "sender_board sid boards =
     (case find (\<lambda>b. sender_id b = sid) boards of
        Some b \<Rightarrow> b
      | None \<Rightarrow> \<lparr>sender_id = sid, reachable_endpoints = [], reachable_timesync_sources = [], connections = []\<rparr>)"

section \<open>Ageing\<close>

definition stale :: "u64 \<Rightarrow> u64 \<Rightarrow> bool" where
  "stale now seen \<longleftrightarrow> kDiscoveryTtlMs < now - seen"

definition prune_route :: "u64 \<Rightarrow> discovery_route \<Rightarrow> discovery_route" where
  "prune_route now route =
     recompute_discovery_side_state
       (route\<lparr>announcers := filter (\<lambda>(_, s). \<not> stale now (ss_last_seen_ms s)) (announcers route)\<rparr>)"

definition prune_discovery_routes ::
    "u64 \<Rightarrow> (i32, discovery_route) amap \<Rightarrow> bool \<times> (i32, discovery_route) amap" where
  "prune_discovery_routes now routes =
     (let pruned = map (\<lambda>(k, route). (k, prune_route now route)) routes;
          gone = (\<lambda>route. announcers route = [] \<or> stale now (rt_last_seen_ms route))
      in (list_ex (\<lambda>(_, route). list_ex (\<lambda>(_, s). stale now (ss_last_seen_ms s)) (announcers route)) routes \<or>
          list_ex (\<lambda>(_, route). gone route) pruned,
          filter (\<lambda>(_, route). \<not> gone route) pruned))"

definition leave_boards :: "string \<Rightarrow> topology_board_node list \<Rightarrow> topology_board_node list" where
  "leave_boards leaving boards =
     map (\<lambda>b. b\<lparr>connections := removeAll leaving (connections b)\<rparr>) (filter (\<lambda>b. sender_id b \<noteq> leaving) boards)"

definition leave_sender_state :: "string \<Rightarrow> sender_state \<Rightarrow> sender_state" where
  "leave_sender_state leaving s =
     (let boards = leave_boards leaving (topology_boards s)
      in if boards \<noteq> topology_boards s then refresh_sender_topology_state (s\<lparr>topology_boards := boards\<rparr>) else s)"

definition prune_leaving_discovery_sender ::
    "string \<Rightarrow> (i32, discovery_route) amap \<Rightarrow> bool \<times> (i32, discovery_route) amap" where
  "prune_leaving_discovery_sender leaving routes =
     (let changed = list_ex (\<lambda>(_, route). leaving \<in> set (mkeys (announcers route)) \<or>
            list_ex (\<lambda>(_, s). leave_boards leaving (topology_boards s) \<noteq> topology_boards s)
              (merase leaving (announcers route))) routes;
          out = map (\<lambda>(k, route). (k, recompute_discovery_side_state
                  (route\<lparr>announcers := map (\<lambda>(n, s). (n, leave_sender_state leaving s))
                           (merase leaving (announcers route))\<rparr>))) routes
      in (changed, filter (\<lambda>(_, route). announcers route \<noteq> []) out))"

definition note_discovery_topology_change :: "u64 \<Rightarrow> 'a owner_scheme \<Rightarrow> 'a owner_scheme" where
  "note_discovery_topology_change now r = r\<lparr>discovery_interval_ms := kDiscoveryFastMs, discovery_next_ms := now\<rparr>"

section \<open>Reading announcements\<close>

definition decode_discovery_endpoints :: "env \<Rightarrow> packet \<Rightarrow> u32 list" where
  "decode_discovery_endpoints E pkt =
     sort_dedup (filter (\<lambda>ep. valid_endpoint E ep \<and> ep \<noteq> SEDS_EP_DISCOVERY)
       (words_of (length (payload pkt) div 4) (payload pkt)))"

text \<open>The lenient reader of the source list: it stops at the first truncated item.\<close>

fun read_sources :: "nat \<Rightarrow> bytes \<Rightarrow> string list" where
  "read_sources 0 cur = []"
| "read_sources (Suc n) cur =
     (if length cur < 4 then []
      else let len = unat (from_le (take 4 cur) :: u32); rest = drop 4 cur in
        if length rest < len then []
        else (if len \<noteq> 0 then [string_of_bytes (take len rest)] else []) @ read_sources n (drop len rest))"

definition decode_discovery_timesync_sources_packet :: "packet \<Rightarrow> string list" where
  "decode_discovery_timesync_sources_packet pkt =
     (if length (payload pkt) < 4 then []
      else sort_dedup (read_sources (unat (from_le (take 4 (payload pkt)) :: u32)) (drop 4 (payload pkt))))"

definition decode_discovery_topology_packet :: "packet \<Rightarrow> topology_board_node list" where
  "decode_discovery_topology_packet pkt =
     (case decode_discovery_topology_payload (payload pkt) of Some boards \<Rightarrow> boards | None \<Rightarrow> [])"

definition drop_link_local :: "env \<Rightarrow> bool \<Rightarrow> u32 list \<Rightarrow> u32 list" where
  "drop_link_local E link_local eps = (if link_local then eps else filter (\<lambda>ep. \<not> endpoint_link_local_only E ep) eps)"

text \<open>The three kinds of announcement: whether the sender's state changed, and the new state.\<close>

definition learn_announcement ::
    "env \<Rightarrow> bool \<Rightarrow> packet \<Rightarrow> sender_state \<Rightarrow> bool \<times> sender_state" where
  "learn_announcement E link_local pkt s =
     (if ty pkt = SEDS_DT_DISCOVERY_ANNOUNCE then
        let reachable = decode_discovery_endpoints E pkt;
            changed = reachable_endpoints (sender_board (sender pkt) (topology_boards s)) \<noteq> reachable;
            boards = update_sender_board (sender pkt)
                       (\<lambda>b. b\<lparr>reachable_endpoints := drop_link_local E link_local reachable\<rparr>) (topology_boards s)
        in (changed, refresh_sender_topology_state (s\<lparr>topology_boards := boards\<rparr>))
      else if ty pkt = SEDS_DT_DISCOVERY_TIMESYNC_SOURCES then
        let sources = decode_discovery_timesync_sources_packet pkt;
            changed = reachable_timesync_sources (sender_board (sender pkt) (topology_boards s)) \<noteq> sources;
            boards = update_sender_board (sender pkt)
                       (\<lambda>b. b\<lparr>reachable_timesync_sources := sources\<rparr>) (topology_boards s)
        in (changed, refresh_sender_topology_state (s\<lparr>topology_boards := boards\<rparr>))
      else if ty pkt = SEDS_DT_DISCOVERY_TOPOLOGY then
        let boards = map (\<lambda>b. b\<lparr>reachable_endpoints := drop_link_local E link_local (reachable_endpoints b)\<rparr>)
                       (decode_discovery_topology_packet pkt);
            changed = topology_boards s \<noteq> boards
        in (changed, refresh_sender_topology_state (s\<lparr>topology_boards := boards\<rparr>))
      else (False, s))"

definition side_link_local :: "i32 \<Rightarrow> 'a owner_scheme \<Rightarrow> bool" where
  "side_link_local side_id r \<longleftrightarrow> in_range side_id (sides r) \<and> link_local_enabled (sides r ! nat side_id)"

text \<open>The part of \<open>handle_discovery_packet\<close> the router and the relay share.\<close>

definition handle_discovery_impl :: "env \<Rightarrow> world \<Rightarrow> packet \<Rightarrow> i32 \<Rightarrow> 'a owner_scheme \<Rightarrow> 'a owner_scheme" where
  "handle_discovery_impl E w pkt src r =
     (if ty pkt = kDiscoveryLeaveType then
        let (changed, routes) = prune_leaving_discovery_sender (sender pkt) (discovery_routes r);
            r1 = r\<lparr>discovery_routes := routes\<rparr>
        in if changed then note_discovery_topology_change (now_ms w r1) r1 else r1
      else
        let route = mget empty_discovery_route (discovery_routes r) src;
            s = mget empty_sender_state (announcers route) (sender pkt);
            (changed, s1) = learn_announcement E (side_link_local src r) pkt s;
            s2 = s1\<lparr>ss_last_seen_ms := now_ms w r\<rparr>;
            route' = recompute_discovery_side_state
                       (route\<lparr>announcers := mput (sender pkt) s2 (announcers route)\<rparr>);
            r1 = r\<lparr>discovery_routes := mput src route' (discovery_routes r)\<rparr>
        in if changed then note_discovery_topology_change (now_ms w r1) r1 else r1)"

section \<open>Announcing\<close>

definition discovery_connections :: "u64 \<Rightarrow> 'a owner_scheme \<Rightarrow> string list" where
  "discovery_connections now r =
     sort_dedup (concat (map (\<lambda>(_, route).
       if stale now (rt_last_seen_ms route) then []
       else map fst (filter (\<lambda>(_, s). \<not> stale now (ss_last_seen_ms s)) (announcers route))) (discovery_routes r)))"

text \<open>The boards one announcer contributes, with the local node added as its neighbour.\<close>

definition announcer_boards ::
    "env \<Rightarrow> bool \<Rightarrow> string \<Rightarrow> string \<Rightarrow> sender_state \<Rightarrow> topology_board_node list" where
  "announcer_boards E link_local local_sender announcer s =
     (let boards = (if topology_boards s = [] then
            [\<lparr>sender_id = announcer, reachable_endpoints = ss_endpoints s,
              reachable_timesync_sources = ss_timesync_sources s, connections = [local_sender]\<rparr>]
          else (if announcer \<in> sender_id ` set (topology_boards s)
                then update_sender_board announcer (\<lambda>b. b\<lparr>connections := connections b @ [local_sender]\<rparr>)
                       (topology_boards s)
                else topology_boards s))
      in map (\<lambda>b. b\<lparr>reachable_endpoints := drop_link_local E link_local (reachable_endpoints b)\<rparr>) boards)"

definition advertised_discovery_topology ::
    "env \<Rightarrow> world \<Rightarrow> (bool \<Rightarrow> topology_board_node) \<Rightarrow> string \<Rightarrow> i32 \<Rightarrow> 'a owner_scheme \<Rightarrow> topology_board_node list" where
  "advertised_discovery_topology E w local_board local_sender dst_side r =
     (let now = now_ms w r;
          link_local = side_link_local dst_side r;
          live = concat (map (\<lambda>(_, route). if stale now (rt_last_seen_ms route) then []
                   else filter (\<lambda>(_, s). \<not> stale now (ss_last_seen_ms s)) (announcers route)) (discovery_routes r))
      in normalize_topology_boards
           (foldl (\<lambda>boards (announcer, s).
                merge_topology_boards boards (announcer_boards E link_local local_sender announcer s))
              [local_board link_local] live))"

definition advertised_endpoints_for_side ::
    "env \<Rightarrow> world \<Rightarrow> (bool \<Rightarrow> topology_board_node) \<Rightarrow> string \<Rightarrow> i32 \<Rightarrow> 'a owner_scheme \<Rightarrow> u32 list" where
  "advertised_endpoints_for_side E w local_board local_sender dst_side r =
     filter (\<lambda>ep. \<not> (ep = SEDS_EP_DISCOVERY \<or> \<not> side_link_local dst_side r \<and> endpoint_link_local_only E ep))
       (fst (summarize_topology_boards (advertised_discovery_topology E w local_board local_sender dst_side r)))"

definition control_item :: "packet \<Rightarrow> i32 \<Rightarrow> tx_item" where
  "control_item pkt side_id =
     \<lparr>tx_pkt = pkt, tx_src_side = None, tx_dst_side = Some side_id, deliver_local = False\<rparr>"

text \<open>The announcements for one side.\<close>

definition announce_on_side ::
    "env \<Rightarrow> world \<Rightarrow> (bool \<Rightarrow> topology_board_node) \<Rightarrow> string \<Rightarrow> u64 \<Rightarrow> nat \<Rightarrow> 'a owner_scheme \<Rightarrow> 'a owner_scheme option" where
  "announce_on_side E w local_board from now i r =
     (if \<not> egress_enabled (sides r ! i) then Some r
      else
        let boards = advertised_discovery_topology E w local_board from (int i) r in do {
          r1 \<leftarrow> (if boards \<noteq> [] then do {
                   topo \<leftarrow> build_discovery_topology E from now boards;
                   Some (push_tx_front (control_item topo (int i)) r)
                 } else Some r);
          let sources = snd (summarize_topology_boards boards);
          let r2 = (if sources \<noteq> [] then
                      push_tx_front (control_item
                        ((make_internal_packet E SEDS_DT_DISCOVERY_TIMESYNC_SOURCES now (string_list_payload sources))
                           \<lparr>sender := from\<rparr>) (int i)) r1
                    else r1);
          let eps = advertised_endpoints_for_side E w local_board from (int i) r;
          Some (push_tx_front (control_item
            ((make_internal_packet E SEDS_DT_DISCOVERY_ANNOUNCE now (endpoint_words eps))\<lparr>sender := from\<rparr>) (int i)) r2)
        })"

fun announce_on_sides ::
    "env \<Rightarrow> world \<Rightarrow> (bool \<Rightarrow> topology_board_node) \<Rightarrow> string \<Rightarrow> u64 \<Rightarrow> nat list \<Rightarrow> 'a owner_scheme \<Rightarrow> 'a owner_scheme option" where
  "announce_on_sides E w local_board from now [] r = Some r"
| "announce_on_sides E w local_board from now (i # is) r = do {
     r' \<leftarrow> announce_on_side E w local_board from now i r;
     announce_on_sides E w local_board from now is r'
   }"

definition age_routes :: "u64 \<Rightarrow> 'a owner_scheme \<Rightarrow> 'a owner_scheme" where
  "age_routes now r =
     (let (changed, routes) = prune_discovery_routes now (discovery_routes r);
          r1 = r\<lparr>discovery_routes := routes\<rparr>
      in if changed then note_discovery_topology_change now r1 else r1)"

definition queue_discovery_impl ::
    "env \<Rightarrow> world \<Rightarrow> ('a owner_scheme \<Rightarrow> bool \<Rightarrow> topology_board_node) \<Rightarrow> string \<Rightarrow> 'a owner_scheme \<Rightarrow> 'a owner_scheme option" where
  "queue_discovery_impl E w board_of from r = do {
     let now = now_ms w r;
     let r0 = age_routes now r;
     r1 \<leftarrow> announce_on_sides E w (board_of r0) from now [0..<length (sides r0)] r0;
     Some (r1\<lparr>discovery_next_ms := now + discovery_interval_ms r1,
              discovery_interval_ms := min (discovery_interval_ms r1 * 2) kDiscoverySlowMs\<rparr>)
   }"

section \<open>The router's and the relay's own boards\<close>

definition local_discovery_timesync_sources :: "router \<Rightarrow> string list" where
  "local_discovery_timesync_sources r =
     (if ts_enabled (timesync r) \<and> has_network_time (timesync r)
      then [if current_source (timesync r) = [] then ''local'' else current_source (timesync r)] else [])"

definition router_local_discovery_endpoints :: "env \<Rightarrow> router \<Rightarrow> bool \<Rightarrow> u32 list" where
  "router_local_discovery_endpoints E r link_local =
     sort_dedup (map le_endpoint (filter (\<lambda>l. le_endpoint l \<noteq> SEDS_EP_DISCOVERY \<and>
          (link_local \<or> \<not> endpoint_link_local_only E (le_endpoint l))) (locals r)) @
        (if ts_enabled (timesync r) then [SEDS_EP_TIME_SYNC] else []))"

definition local_router_topology_board :: "env \<Rightarrow> u64 \<Rightarrow> router \<Rightarrow> bool \<Rightarrow> topology_board_node" where
  "local_router_topology_board E now r link_local =
     \<lparr>sender_id = r_sender r, reachable_endpoints = router_local_discovery_endpoints E r link_local,
      reachable_timesync_sources = local_discovery_timesync_sources r, connections = discovery_connections now r\<rparr>"

definition local_relay_topology_board :: "u64 \<Rightarrow> relay \<Rightarrow> topology_board_node" where
  "local_relay_topology_board now r =
     \<lparr>sender_id = ''RELAY'', reachable_endpoints = [], reachable_timesync_sources = [],
      connections = discovery_connections now r\<rparr>"

definition queue_discovery_packets_router :: "env \<Rightarrow> world \<Rightarrow> router \<Rightarrow> router option" where
  "queue_discovery_packets_router E w r =
     queue_discovery_impl E w (\<lambda>r0. local_router_topology_board E (now_ms w r0) r0) (r_sender r) r"

definition queue_discovery_packets_relay :: "env \<Rightarrow> world \<Rightarrow> relay \<Rightarrow> relay option" where
  "queue_discovery_packets_relay E w r =
     queue_discovery_impl E w (\<lambda>r0 _. local_relay_topology_board (now_ms w r0) r0) ''RELAY'' r"

definition handle_discovery_packet_router :: "env \<Rightarrow> world \<Rightarrow> packet \<Rightarrow> i32 option \<Rightarrow> router \<Rightarrow> router" where
  "handle_discovery_packet_router E w pkt src r =
     (case src of
        None \<Rightarrow> r
      | Some s \<Rightarrow> if sender pkt = r_sender r then r else handle_discovery_impl E w pkt s r)"

definition handle_discovery_packet_relay :: "env \<Rightarrow> world \<Rightarrow> packet \<Rightarrow> i32 option \<Rightarrow> relay \<Rightarrow> relay" where
  "handle_discovery_packet_relay E w pkt src r =
     (case src of None \<Rightarrow> r | Some s \<Rightarrow> handle_discovery_impl E w pkt s r)"

end
