(* ===== verification/Discovery_Facts.thy ===== *)
theory Discovery_Facts
  imports Discovery
begin

text \<open>
  What discovery guarantees: announced endpoints become routes, stale and departed senders
  disappear, link-local endpoints stay on their link, and the announcement interval backs off
  to its limit.
\<close>

section \<open>Boards of a sender\<close>

lemma find_SomeD: "find P xs = Some x \<Longrightarrow> x \<in> set xs \<and> P x"
  by (auto simp: find_Some_iff)

lemma find_ex: "x \<in> set xs \<Longrightarrow> P x \<Longrightarrow> \<exists>y. find P xs = Some y"
  by (cases "find P xs") (auto simp: find_None_iff)

lemma find_index_distinct:
  assumes "distinct (map f xs)" "i < length xs" "f (xs ! i) = v"
  shows "find (\<lambda>j. f (xs ! j) = v) [0..<length xs] = Some i"
proof -
  have "j = i" if "j < length xs" "f (xs ! j) = v" for j
    using assms that by (metis length_map nth_eq_iff_index_eq nth_map)
  moreover obtain j where "find (\<lambda>j. f (xs ! j) = v) [0..<length xs] = Some j" "j < length xs" "f (xs ! j) = v"
    using assms by (cases "find (\<lambda>j. f (xs ! j) = v) [0..<length xs]") (auto simp: find_None_iff find_Some_iff)
  ultimately show ?thesis by blast
qed

lemma update_sender_board_spec:
  assumes "distinct (map sender_id boards)" "\<And>b. sender_id (f b) = sender_id b"
  shows "distinct (map sender_id (update_sender_board sid f boards)) \<and>
    f (sender_board sid boards) \<in> set (update_sender_board sid f boards) \<and>
    (\<forall>b \<in> set (update_sender_board sid f boards). sender_id b = sid \<longrightarrow> b = f (sender_board sid boards)) \<and>
    sender_id (sender_board sid boards) = sid"
proof (cases "find (\<lambda>i. sender_id (boards ! i) = sid) [0..<length boards]")
  case None
  then have no: "\<forall>b \<in> set boards. sender_id b \<noteq> sid"
    by (auto simp: find_None_iff in_set_conv_nth)
  then have "find (\<lambda>b. sender_id b = sid) boards = None" by (simp add: find_None_iff)
  with None no assms show ?thesis by (auto simp: update_sender_board_def sender_board_def)
next
  case (Some i)
  then have i: "i < length boards" "sender_id (boards ! i) = sid" by (auto simp: find_Some_iff)
  have fb: "find (\<lambda>b. sender_id b = sid) boards = Some (boards ! i)"
  proof -
    obtain b where b: "find (\<lambda>b. sender_id b = sid) boards = Some b" "b \<in> set boards" "sender_id b = sid"
      using i by (cases "find (\<lambda>b. sender_id b = sid) boards") (auto simp: find_None_iff find_Some_iff)
    then have "b = boards ! i" using i assms(1) by (metis distinct_map inj_onD nth_mem)
    with b show ?thesis by simp
  qed
  have "map sender_id (boards[i := f (boards ! i)]) = map sender_id boards"
    using assms(2) i by (simp add: map_update list_update_same_conv)
  then have d: "distinct (map sender_id (boards[i := f (boards ! i)]))" using assms(1) by simp
  have u: "b = f (boards ! i)" if "b \<in> set (boards[i := f (boards ! i)])" "sender_id b = sid" for b
  proof -
    have "f (boards ! i) \<in> set (boards[i := f (boards ! i)])" using i by (simp add: set_update_memI)
    moreover have "sender_id (f (boards ! i)) = sid" using assms(2) i by simp
    ultimately show ?thesis using d that by (metis distinct_map inj_onD)
  qed
  with Some i fb d show ?thesis
    by (auto simp: update_sender_board_def sender_board_def set_update_memI)
qed

lemma sender_board_normalize:
  assumes "distinct (map sender_id boards)" "b \<in> set boards" "sender_id b = sid"
  shows "sender_board sid (normalize_topology_boards boards) = normalize_board b"
proof -
  let ?n = "normalize_topology_boards boards"
  have n: "set ?n = normalize_board ` set boards" using assms(1) by (simp add: normalize_distinct)
  have d: "distinct (map sender_id ?n)" using boards_normal_normalize [of boards] by (simp add: boards_normal_def)
  have "normalize_board b \<in> set ?n" using n assms(2) by blast
  moreover have "sender_id (normalize_board b) = sid" using assms(3) by simp
  ultimately obtain c where f: "find (\<lambda>x. sender_id x = sid) ?n = Some c"
    using find_ex [of "normalize_board b" ?n "\<lambda>x. sender_id x = sid"] by blast
  from f find_SomeD [OF f] have c: "find (\<lambda>x. sender_id x = sid) ?n = Some c" "c \<in> set ?n" "sender_id c = sid"
    by simp_all
  have "normalize_board b \<in> set ?n" "sender_id (normalize_board b) = sid" using n assms by auto
  then have "c = normalize_board b" using c d by (metis distinct_map inj_onD)
  with c show ?thesis by (simp add: sender_board_def)
qed

section \<open>Learning\<close>

lemma set_mput: "set (mput k v al) \<subseteq> insert (k, v) (set al)"
  by (induction al) auto

lemma learn_announce_boards:
  fixes E :: env and ll :: bool
  assumes "distinct (map sender_id (topology_boards s))" "ty pkt = SEDS_DT_DISCOVERY_ANNOUNCE"
  defines "s' \<equiv> snd (learn_announcement E ll pkt s)"
  shows "boards_normal (topology_boards s')"
    and "reachable_endpoints (sender_board (sender pkt) (topology_boards s')) =
      drop_link_local E ll (decode_discovery_endpoints E pkt)"
    and "set (drop_link_local E ll (decode_discovery_endpoints E pkt)) \<subseteq> set (ss_endpoints s')"
proof -
  let ?f = "\<lambda>b. b\<lparr>reachable_endpoints := drop_link_local E ll (decode_discovery_endpoints E pkt)\<rparr>"
  let ?u = "update_sender_board (sender pkt) ?f (topology_boards s)"
  note spec = update_sender_board_spec [of "topology_boards s" ?f "sender pkt", OF assms(1)]
  have d: "distinct (map sender_id ?u)" and mem: "?f (sender_board (sender pkt) (topology_boards s)) \<in> set ?u"
    and sid: "sender_id (sender_board (sender pkt) (topology_boards s)) = sender pkt"
    using spec by simp_all
  have s': "s' = refresh_sender_topology_state (s\<lparr>topology_boards := ?u\<rparr>)"
    using assms(2) by (simp add: s'_def learn_announcement_def Let_def)
  then have tb: "topology_boards s' = normalize_topology_boards ?u"
    by (simp add: refresh_sender_topology_state_def summarize_topology_boards_def Let_def)
  then show "boards_normal (topology_boards s')" by simp
  let ?d = "drop_link_local E ll (decode_discovery_endpoints E pkt)"
  have sd: "sort_dedup ?d = ?d"
    by (rule sort_dedup_id) (simp_all add: drop_link_local_def decode_discovery_endpoints_def sorted_wrt_filter)
  have "sender_board (sender pkt) (topology_boards s') = normalize_board (?f (sender_board (sender pkt) (topology_boards s)))"
    unfolding tb using d mem sid by (intro sender_board_normalize) simp_all
  then show "reachable_endpoints (sender_board (sender pkt) (topology_boards s')) = ?d"
    using sd by (simp add: normalize_board_def)
  have "ss_endpoints s' = fst (summarize_topology_boards (normalize_topology_boards ?u))"
    using s' by (simp add: refresh_sender_topology_state_def summarize_topology_boards_def Let_def)
  then have "set (ss_endpoints s') = (\<Union>b \<in> set ?u. set (reachable_endpoints b))"
    using d by (simp add: set_summarize normalize_distinct normalize_board_def)
  with mem show "set ?d \<subseteq> set (ss_endpoints s')" by force
qed

lemma set_recompute: "set (rt_endpoints (recompute_discovery_side_state route)) =
    (\<Union>(n, s) \<in> set (announcers route). set (ss_endpoints s))"
  by (auto simp: recompute_discovery_side_state_def Let_def)

lemma foldl_max_ge: "m \<le> foldl (\<lambda>m s. max m (g s)) m xs" "x \<in> set xs \<Longrightarrow> g x \<le> foldl (\<lambda>m s. max m (g s)) m xs"
  for g :: "'b \<Rightarrow> 'c::linorder"
proof -
  show ge: "m \<le> foldl (\<lambda>m s. max m (g s)) m xs" for m xs
  proof (induction xs arbitrary: m)
    case (Cons a xs)
    then show ?case by (metis foldl_Cons max.boundedE)
  qed simp
  show "x \<in> set xs \<Longrightarrow> g x \<le> foldl (\<lambda>m s. max m (g s)) m xs"
  proof (induction xs arbitrary: m)
    case (Cons a xs)
    then show ?case using ge [of "max m (g a)" xs] by auto
  qed simp
qed

lemma foldl_max_in: "foldl (\<lambda>m s. max m (g s)) m xs = m \<or> (\<exists>x \<in> set xs. foldl (\<lambda>m s. max m (g s)) m xs = g x)"
  for g :: "'b \<Rightarrow> 'c::linorder"
proof (induction xs arbitrary: m)
  case (Cons a xs)
  then show ?case using Cons.IH [of "max m (g a)"] by (auto simp: max_def split: if_splits)
qed simp

section \<open>Ageing\<close>

lemma prune_route_announcers:
  "announcers (prune_route now route) = filter (\<lambda>(_, s). \<not> stale now (ss_last_seen_ms s)) (announcers route)"
  by (simp add: prune_route_def recompute_discovery_side_state_def Let_def)

lemma prune_discovery_routes_spec:
  assumes "(k, route') \<in> set (snd (prune_discovery_routes now routes))"
  shows "\<exists>route. (k, route) \<in> set routes \<and> announcers route' \<noteq> [] \<and>
    announcers route' = filter (\<lambda>(_, s). \<not> stale now (ss_last_seen_ms s)) (announcers route) \<and>
    set (rt_endpoints route') = (\<Union>(n, s) \<in> set (announcers route'). set (ss_endpoints s))"
proof -
  obtain route where r: "(k, route) \<in> set routes" "route' = prune_route now route" "announcers route' \<noteq> []"
    using assms by (auto simp: prune_discovery_routes_def Let_def)
  have "set (rt_endpoints route') = (\<Union>(n, s) \<in> set (announcers route'). set (ss_endpoints s))"
    unfolding r(2) prune_route_announcers by (simp add: prune_route_def set_recompute)
  with r show ?thesis by (auto simp: prune_route_announcers)
qed

lemma prune_keeps_fresh:
  assumes "(k, route) \<in> set routes" "(n, s) \<in> set (announcers route)" "\<not> stale now (ss_last_seen_ms s)"
    and "\<forall>(m, x) \<in> set (announcers route). ss_last_seen_ms x \<le> now"
  shows "(k, prune_route now route) \<in> set (snd (prune_discovery_routes now routes))"
proof -
  let ?p = "prune_route now route"
  have live: "(n, s) \<in> set (announcers ?p)" using assms by (simp add: prune_route_announcers)
  have last: "rt_last_seen_ms ?p = foldl (\<lambda>m s. max m (ss_last_seen_ms s)) 0 (map snd (announcers ?p))"
    by (simp add: prune_route_def recompute_discovery_side_state_def Let_def)
  have ge: "ss_last_seen_ms s \<le> rt_last_seen_ms ?p"
    unfolding last using live by (intro foldl_max_ge) force
  have "rt_last_seen_ms ?p \<le> now"
    using foldl_max_in [of ss_last_seen_ms 0 "map snd (announcers ?p)"] assms(4) last
    by (fastforce simp: prune_route_announcers)
  then have "now - rt_last_seen_ms ?p \<le> now - ss_last_seen_ms s"
    using ge by (simp add: word_le_nat_alt unat_sub)
  then have "\<not> stale now (rt_last_seen_ms ?p)" using assms(3) by (simp add: stale_def)
  with assms(1) live show ?thesis by (force simp: prune_discovery_routes_def Let_def)
qed

section \<open>Departure\<close>

definition forgets :: "string \<Rightarrow> topology_board_node list \<Rightarrow> bool" where
  "forgets sid boards \<longleftrightarrow> (\<forall>b \<in> set boards. sender_id b \<noteq> sid \<and> sid \<notin> set (connections b))"

lemma set_normalize_subset: "set (normalize_topology_boards bs) \<subseteq> normalize_board ` set bs"
  using unique_senders_spec [of "sort_key sender_id (map normalize_board bs)"]
  by (simp add: normalize_topology_boards_def)

lemma forgets_leave_boards: "forgets sid (leave_boards sid boards)"
  by (auto simp: forgets_def leave_boards_def)

lemma forgets_normalize: "forgets sid bs \<Longrightarrow> forgets sid (normalize_topology_boards bs)"
  using set_normalize_subset [of bs] by (fastforce simp: forgets_def normalize_board_def)

lemma leave_sender_state_forgets: "forgets sid (topology_boards (leave_sender_state sid s))"
proof (cases "leave_boards sid (topology_boards s) = topology_boards s")
  case True
  then show ?thesis using forgets_leave_boards [of sid "topology_boards s"] by (simp add: leave_sender_state_def)
next
  case False
  then have "topology_boards (leave_sender_state sid s) =
      normalize_topology_boards (leave_boards sid (topology_boards s))"
    by (simp add: leave_sender_state_def refresh_sender_topology_state_def summarize_topology_boards_def Let_def)
  then show ?thesis by (simp add: forgets_normalize forgets_leave_boards)
qed

lemma announcers_recompute [simp]: "announcers (recompute_discovery_side_state route) = announcers route"
  by (simp add: recompute_discovery_side_state_def Let_def)

section \<open>Link-local scope of announcements\<close>

definition all_endpoints :: "(u32 \<Rightarrow> bool) \<Rightarrow> topology_board_node list \<Rightarrow> bool" where
  "all_endpoints P bs \<longleftrightarrow> (\<forall>b \<in> set bs. \<forall>ep \<in> set (reachable_endpoints b). P ep)"

lemma all_endpoints_normalize: "all_endpoints P bs \<Longrightarrow> all_endpoints P (normalize_topology_boards bs)"
  using set_normalize_subset [of bs] by (fastforce simp: all_endpoints_def normalize_board_def)

lemma all_endpoints_merge_board:
  "all_endpoints P bs \<Longrightarrow> (\<forall>ep \<in> set (reachable_endpoints b). P ep) \<Longrightarrow> all_endpoints P (merge_board bs b)"
  by (induction bs) (auto simp: all_endpoints_def)

lemma all_endpoints_merge:
  assumes "all_endpoints P dst" "all_endpoints P src"
  shows "all_endpoints P (merge_topology_boards dst src)"
proof -
  have "all_endpoints P (foldl merge_board dst src)"
    using assms
  proof (induction src arbitrary: dst)
    case (Cons b src)
    then show ?case using all_endpoints_merge_board [of P dst b] by (simp add: all_endpoints_def)
  qed simp
  then show ?thesis by (simp add: merge_topology_boards_def all_endpoints_normalize)
qed

lemma all_endpoints_advertised:
  assumes "\<not> side_link_local dst r"
    and "\<forall>ep \<in> set (reachable_endpoints (local_board False)). \<not> endpoint_link_local_only E ep"
  shows "all_endpoints (\<lambda>ep. \<not> endpoint_link_local_only E ep)
    (advertised_discovery_topology E w local_board local_sender dst r)"
proof -
  let ?P = "\<lambda>ep. \<not> endpoint_link_local_only E ep"
  have contrib: "all_endpoints ?P (announcer_boards E False local_sender a s)" for a s
    by (auto simp: all_endpoints_def announcer_boards_def drop_link_local_def Let_def)
  have fold: "all_endpoints ?P bs \<Longrightarrow> all_endpoints ?P (foldl (\<lambda>boards (announcer, s).
      merge_topology_boards boards (announcer_boards E False local_sender announcer s)) bs live)" for bs live
    by (induction live arbitrary: bs) (auto simp: all_endpoints_merge contrib)
  have base: "all_endpoints ?P [local_board False]" using assms(2) by (simp add: all_endpoints_def)
  have off: "side_link_local dst r = False" using assms(1) by simp
  show ?thesis
    unfolding advertised_discovery_topology_def Let_def off
    by (rule all_endpoints_normalize) (rule fold [OF base])
qed

section \<open>Announcing keeps the queues in bounds\<close>

lemma push_tx_front_frame [frame_simps]:
  "discovery_interval_ms (push_tx_front i r) = discovery_interval_ms r"
  "memory (push_tx_front i r) = memory r" "sides (push_tx_front i r) = sides r"
  "discovery_routes (push_tx_front i r) = discovery_routes r" "trace (push_tx_front i r) = trace r"
  by (simp_all add: push_tx_front_def set_tx_def)

lemma announce_on_side_frame:
  assumes "announce_on_side E w lb from now i r = Some r'" "owner_queues_inv r"
    and "unat (max_queue_budget (memory r)) < 2 ^ 63"
  shows "owner_queues_inv r' \<and> memory r' = memory r \<and> discovery_interval_ms r' = discovery_interval_ms r"
  using assms push_tx_inv(2)
  by (auto simp: announce_on_side_def Let_def bind_eq_Some_conv frame_simps split: if_splits)

lemma announce_on_sides_frame:
  assumes "announce_on_sides E w lb from now is r = Some r'" "owner_queues_inv r"
    and "unat (max_queue_budget (memory r)) < 2 ^ 63"
  shows "owner_queues_inv r' \<and> memory r' = memory r \<and> discovery_interval_ms r' = discovery_interval_ms r"
  using assms
proof (induction "is" arbitrary: r)
  case (Cons i "is")
  then obtain r1 where r1: "announce_on_side E w lb from now i r = Some r1"
    "announce_on_sides E w lb from now is r1 = Some r'" by (auto simp: bind_eq_Some_conv)
  from announce_on_side_frame [OF r1(1) Cons.prems(2,3)] Cons.IH [OF r1(2)] Cons.prems(3) show ?case by simp
qed simp

lemma age_routes_frame:
  "owner_queues_inv (age_routes now r) = owner_queues_inv r" "memory (age_routes now r) = memory r"
  "discovery_interval_ms (age_routes now r) =
     (if fst (prune_discovery_routes now (discovery_routes r)) then kDiscoveryFastMs else discovery_interval_ms r)"
  "sides (age_routes now r) = sides r"
  by (simp_all add: age_routes_def note_discovery_topology_change_def Let_def owner_queues_inv_def owner_tx_def
      owner_rx_def split: prod.splits)

lemma default_candidates_by_endpoint:
  assumes "(k, route) \<in> set routes" "route_usable ss (packet_requires_link_local E q) q_src now k route"
    and "ep \<in> set (rt_endpoints route)" "ep \<in> set (endpoints q)"
  shows "k \<in> set (default_candidates E ss routes q q_src None now)"
proof -
  let ?by = "map fst (filter (\<lambda>(_, route). list_ex (\<lambda>ep. ep = SEDS_EP_DISCOVERY \<or> ep \<in> set (rt_endpoints route)) (endpoints q))
      (filter (\<lambda>(side_id, route). route_usable ss (packet_requires_link_local E q) q_src now side_id route) routes))"
  have k: "k \<in> set ?by" using assms by (force simp: list_ex_iff)
  then have "?by \<noteq> []" by (metis empty_iff empty_set)
  then have "default_candidates E ss routes q q_src None now = sort_dedup ?by"
    unfolding default_candidates_def Let_def by (simp del: filter_filter)
  with k show ?thesis by (simp del: filter_filter)
qed

section \<open>Properties of discovery\<close>

text \<open>
  (C9) Discovery feeds routing. After a node processes an endpoint announcement received on a
  side, that side is among the candidates for every packet addressed to an announced
  endpoint, unless the packet came from there or is confined to link-local sides and this
  side is not one.
\<close>

theorem announced_endpoint_routed:
  assumes "in_range src (sides r)" "ty pkt = SEDS_DT_DISCOVERY_ANNOUNCE"
    and "ep \<in> set (decode_discovery_endpoints E pkt)"
    and "side_link_local src r \<or> \<not> endpoint_link_local_only E ep"
    and "distinct (map sender_id (topology_boards (mget empty_sender_state
           (announcers (mget empty_discovery_route (discovery_routes r) src)) (sender pkt))))"
    and "\<forall>(n, s) \<in> set (announcers (mget empty_discovery_route (discovery_routes r) src)).
           ss_last_seen_ms s \<le> now_ms w r"
    and "ep \<in> set (endpoints q)" "q_src \<noteq> Some src"
    and "packet_requires_link_local E q \<longrightarrow> link_local_enabled (sides r ! nat src)"
  shows "src \<in> set (default_candidates E (sides r) (discovery_routes (handle_discovery_impl E w pkt src r))
    q q_src None (now_ms w r))"
proof -
  let ?route = "mget empty_discovery_route (discovery_routes r) src"
  let ?s = "mget empty_sender_state (announcers ?route) (sender pkt)"
  let ?s1 = "snd (learn_announcement E (side_link_local src r) pkt ?s)"
  let ?as = "mput (sender pkt) (?s1\<lparr>ss_last_seen_ms := now_ms w r\<rparr>) (announcers ?route)"
  let ?route' = "recompute_discovery_side_state (?route\<lparr>announcers := ?as\<rparr>)"
  have routes: "discovery_routes (handle_discovery_impl E w pkt src r) = mput src ?route' (discovery_routes r)"
    using assms(2) by (auto simp: handle_discovery_impl_def Let_def note_discovery_topology_change_def split: prod.splits)
  have mem: "(sender pkt, ?s1\<lparr>ss_last_seen_ms := now_ms w r\<rparr>) \<in> set ?as"
    by (rule map_of_SomeD) simp
  have "ep \<in> set (ss_endpoints ?s1)"
    using learn_announce_boards(3) [OF assms(5,2), of E "side_link_local src r"] assms(3,4)
    by (auto simp: drop_link_local_def split: if_splits)
  then have ep: "ep \<in> set (rt_endpoints ?route')"
    unfolding set_recompute using UN_I [OF mem, of ep "\<lambda>(n, s). set (ss_endpoints s)"] by simp
  have seen: "\<forall>(n, s) \<in> set ?as. ss_last_seen_ms s \<le> now_ms w r"
  proof -
    have "set ?as \<subseteq> insert (sender pkt, ?s1\<lparr>ss_last_seen_ms := now_ms w r\<rparr>) (set (announcers ?route))"
      by (rule set_mput)
    then show ?thesis using assms(6) by fastforce
  qed
  have "rt_last_seen_ms ?route' = foldl (\<lambda>m s. max m (ss_last_seen_ms s)) 0 (map snd ?as)"
    by (simp add: recompute_discovery_side_state_def Let_def)
  moreover have "now_ms w r \<le> foldl (\<lambda>m s. max m (ss_last_seen_ms s)) 0 (map snd ?as)"
    using foldl_max_ge(2) [of "?s1\<lparr>ss_last_seen_ms := now_ms w r\<rparr>" "map snd ?as" ss_last_seen_ms 0] mem by force
  moreover have "foldl (\<lambda>m s. max m (ss_last_seen_ms s)) 0 (map snd ?as) \<le> now_ms w r"
    using foldl_max_in [of ss_last_seen_ms 0 "map snd ?as"] seen by fastforce
  ultimately have "rt_last_seen_ms ?route' = now_ms w r" by simp
  then have usable: "route_usable (sides r) (packet_requires_link_local E q) q_src (now_ms w r) src ?route'"
    using assms(1,8,9) by (simp add: route_usable_def)
  have "(src, ?route') \<in> set (mput src ?route' (discovery_routes r))"
    by (rule map_of_SomeD) simp
  from default_candidates_by_endpoint [OF this usable ep assms(7)] show ?thesis unfolding routes .
qed

definition announce_packet :: packet where
  "announce_packet = \<lparr>ty = SEDS_DT_DISCOVERY_ANNOUNCE, sender = ''GROUND'', endpoints = [3], timestamp = 0,
     payload = endpoint_words [1, 4]\<rparr>"

lemma announce_packet_endpoints: "set (decode_discovery_endpoints sample_env announce_packet) = {1, 4}"
proof -
  have "words_of (length (payload announce_packet) div 4) (payload announce_packet) = [1, 4]"
    using words_of_endpoint_words [of "[1, 4]" "[]"] by (simp add: announce_packet_def numeral_2_eq_2 del: words_of.simps)
  then show ?thesis by (auto simp: decode_discovery_endpoints_def valid_endpoint_def sample_defs)
qed

theorem announced_endpoint_routed_witness:
  "1 \<in> set (default_candidates sample_env (sides sample_owner)
     (discovery_routes (handle_discovery_impl sample_env sample_world announce_packet 1 sample_owner))
     gps_packet (Some 0) None (now_ms sample_world sample_owner))"
proof -
  have ll: "\<not> packet_requires_link_local sample_env gps_packet" "\<not> endpoint_link_local_only sample_env 1"
    by (simp_all add: packet_requires_link_local_def gps_packet_def endpoint_link_local_only_def sample_defs
        valid_endpoint_def)
  have "mget empty_discovery_route (discovery_routes sample_owner) 1 = empty_discovery_route"
    by (simp add: sample_owner_def mget_def)
  then show ?thesis
    using announced_endpoint_routed [of 1 sample_owner announce_packet 1 sample_env sample_world gps_packet "Some 0"] ll
    by (simp add: announce_packet_endpoints empty_discovery_route_def empty_sender_state_def mget_def in_range_def)
      (simp add: sample_owner_def announce_packet_def gps_packet_def)
qed

text \<open>
  Ageing. After pruning, every remaining route has at least one announcer, no announcer
  older than the time to live, exactly the still fresh announcers it had before, and the
  endpoints of those announcers and no others.
\<close>

theorem pruned_routes_fresh:
  assumes "(k, route') \<in> set (snd (prune_discovery_routes now routes))"
  shows "\<exists>route. (k, route) \<in> set routes \<and> announcers route' \<noteq> [] \<and>
    (\<forall>(n, s) \<in> set (announcers route'). \<not> stale now (ss_last_seen_ms s)) \<and>
    set (announcers route') = {(n, s) \<in> set (announcers route). \<not> stale now (ss_last_seen_ms s)} \<and>
    set (rt_endpoints route') = (\<Union>(n, s) \<in> set (announcers route'). set (ss_endpoints s))"
proof -
  obtain route where r: "(k, route) \<in> set routes" "announcers route' \<noteq> []"
      "announcers route' = filter (\<lambda>(_, s). \<not> stale now (ss_last_seen_ms s)) (announcers route)"
      "set (rt_endpoints route') = (\<Union>(n, s) \<in> set (announcers route'). set (ss_endpoints s))"
    using prune_discovery_routes_spec [OF assms] by blast
  moreover have "set (announcers route') = {(n, s) \<in> set (announcers route). \<not> stale now (ss_last_seen_ms s)}"
    unfolding r(3) by auto
  ultimately show ?thesis by blast
qed

theorem pruned_routes_fresh_witness:
  "\<exists>route'. (0, route') \<in> set (snd (prune_discovery_routes 40000
      [(0, empty_discovery_route\<lparr>announcers := [(''A'', empty_sender_state\<lparr>ss_last_seen_ms := 39000\<rparr>),
                                               (''B'', empty_sender_state\<lparr>ss_last_seen_ms := 1\<rparr>)]\<rparr>)])) \<and>
    set (announcers route') = {(''A'', empty_sender_state\<lparr>ss_last_seen_ms := 39000\<rparr>)}"
proof -
  let ?route = "empty_discovery_route\<lparr>announcers := [(''A'', empty_sender_state\<lparr>ss_last_seen_ms := 39000\<rparr>),
                                               (''B'', empty_sender_state\<lparr>ss_last_seen_ms := 1\<rparr>)]\<rparr>"
  have m: "(0, prune_route 40000 ?route) \<in> set (snd (prune_discovery_routes 40000 [(0, ?route)]))"
    by (rule prune_keeps_fresh [where n = "''A''" and s = "empty_sender_state\<lparr>ss_last_seen_ms := 39000\<rparr>" and route = ?route])
      (simp_all add: stale_def)
  obtain route where r: "(0, route) \<in> set [(0 :: i32, ?route)]" "set (announcers (prune_route 40000 ?route)) =
      {(n, s) \<in> set (announcers route). \<not> stale 40000 (ss_last_seen_ms s)}"
    using pruned_routes_fresh [OF m] by blast
  from r(1) have "route = ?route" by simp
  then have "set (announcers (prune_route 40000 ?route)) =
      set (filter (\<lambda>(n, s). \<not> stale 40000 (ss_last_seen_ms s)) (announcers ?route))"
    unfolding r(2) set_filter by (auto split: prod.splits)
  then have "set (announcers (prune_route 40000 ?route)) = {(''A'', empty_sender_state\<lparr>ss_last_seen_ms := 39000\<rparr>)}"
    by (simp add: stale_def)
  with m show ?thesis by blast
qed

lemma departed_announcers:
  assumes "(k, route) \<in> set (snd (prune_leaving_discovery_sender leaving routes))"
  shows "\<exists>as. announcers route = map (\<lambda>(n, s). (n, leave_sender_state leaving s)) (merase leaving as) \<and>
    announcers route \<noteq> [] \<and> leaving \<notin> fst ` set (merase leaving as)"
proof -
  have "\<exists>as. announcers route = map (\<lambda>(n, s). (n, leave_sender_state leaving s)) (merase leaving as) \<and>
      announcers route \<noteq> []"
    using assms by (auto simp: prune_leaving_discovery_sender_def Let_def)
  moreover have "leaving \<notin> fst ` set (merase leaving as)" for as :: "(string, sender_state) amap"
    using set_mkeys_merase [of leaving as] by simp
  ultimately show ?thesis by blast
qed

lemma departed_not_announcer:
  assumes "(k, route) \<in> set (snd (prune_leaving_discovery_sender leaving routes))"
  shows "leaving \<notin> fst ` set (announcers route)"
  using departed_announcers [OF assms] by force

text \<open>
  Departure. After a leave announcement no remaining route has the departed sender as an
  announcer, as a board of anybody's topology, or as a connection of a board.
\<close>

theorem departed_sender_forgotten:
  assumes "(k, route) \<in> set (snd (prune_leaving_discovery_sender leaving routes))"
  shows "leaving \<notin> set (mkeys (announcers route)) \<and> announcers route \<noteq> [] \<and>
    (\<forall>(n, s) \<in> set (announcers route). forgets leaving (topology_boards s))"
  using departed_announcers [OF assms] leave_sender_state_forgets by (force simp: AList.delete_eq)

theorem departed_sender_forgotten_witness:
  "\<exists>route. (0, route) \<in> set (snd (prune_leaving_discovery_sender ''B''
      [(0, empty_discovery_route\<lparr>announcers := [(''A'', empty_sender_state\<lparr>topology_boards := sample_boards\<rparr>),
                                               (''B'', empty_sender_state)]\<rparr>)])) \<and>
    ''B'' \<notin> set (mkeys (announcers route))"
proof -
  let ?routes = "[(0 :: i32, empty_discovery_route\<lparr>announcers := [(''A'', empty_sender_state\<lparr>topology_boards := sample_boards\<rparr>),
                                               (''B'', empty_sender_state)]\<rparr>)]"
  have "\<exists>route. (0, route) \<in> set (snd (prune_leaving_discovery_sender ''B'' ?routes))"
    by (simp add: prune_leaving_discovery_sender_def Let_def)
  then show ?thesis using departed_sender_forgotten by blast
qed

text \<open>
  Link-local endpoints stay on their link. What a node advertises on a side that is not
  link-local, whether as boards of its topology or as its endpoint list, names no endpoint
  that only link-local types use, as long as its own board does not.
\<close>

theorem link_local_not_advertised:
  assumes "\<not> side_link_local dst r"
    and "\<forall>ep \<in> set (reachable_endpoints (local_board False)). \<not> endpoint_link_local_only E ep"
  shows "(\<forall>b \<in> set (advertised_discovery_topology E w local_board from dst r).
      \<forall>ep \<in> set (reachable_endpoints b). \<not> endpoint_link_local_only E ep) \<and>
    (\<forall>ep \<in> set (advertised_endpoints_for_side E w local_board from dst r).
      \<not> endpoint_link_local_only E ep \<and> ep \<noteq> SEDS_EP_DISCOVERY)"
proof
  show b: "\<forall>b \<in> set (advertised_discovery_topology E w local_board from dst r).
      \<forall>ep \<in> set (reachable_endpoints b). \<not> endpoint_link_local_only E ep"
    using all_endpoints_advertised [where dst = dst and r = r and local_board = local_board, OF assms] by (simp add: all_endpoints_def)
  show "\<forall>ep \<in> set (advertised_endpoints_for_side E w local_board from dst r).
      \<not> endpoint_link_local_only E ep \<and> ep \<noteq> SEDS_EP_DISCOVERY"
    using assms(1) by (auto simp: advertised_endpoints_for_side_def)
qed

theorem link_local_not_advertised_witness:
  "list_all (\<lambda>ep. \<not> endpoint_link_local_only sample_env ep) (advertised_endpoints_for_side sample_env sample_world
      (\<lambda>_. \<lparr>sender_id = ''CPP'', reachable_endpoints = [0], reachable_timesync_sources = [], connections = []\<rparr>)
      ''CPP'' 0 sample_owner)"
proof -
  let ?board = "\<lambda>_ :: bool. \<lparr>sender_id = ''CPP'', reachable_endpoints = [0], reachable_timesync_sources = [],
    connections = []\<rparr>"
  have side: "\<not> side_link_local 0 sample_owner" by (simp add: side_link_local_def sample_owner_def sample_side_def)
  have "\<not> endpoint_link_local_only sample_env 0"
    by (simp add: endpoint_link_local_only_def sample_defs valid_endpoint_def)
  then have "\<forall>ep \<in> set (reachable_endpoints (?board False)). \<not> endpoint_link_local_only sample_env ep" by simp
  from link_local_not_advertised [where local_board = ?board, OF side this] show ?thesis by (simp add: list_all_iff)
qed

text \<open>
  Back-off. A round of announcements keeps both queues within the budget, schedules the
  next round one interval ahead, and doubles the interval up to \<open>kDiscoverySlowMs\<close>; the interval
  starts again at \<open>kDiscoveryFastMs\<close> when ageing changed the topology.
\<close>

theorem discovery_round_backs_off:
  assumes "queue_discovery_impl E w board_of from r = Some r'" "owner_queues_inv r"
    and "unat (max_queue_budget (memory r)) < 2 ^ 63"
  shows "owner_queues_inv r' \<and> discovery_interval_ms r' \<le> kDiscoverySlowMs \<and>
    (\<exists>i. i = (if fst (prune_discovery_routes (now_ms w r) (discovery_routes r)) then kDiscoveryFastMs
              else discovery_interval_ms r) \<and>
      discovery_next_ms r' = now_ms w r + i \<and> discovery_interval_ms r' = min (i * 2) kDiscoverySlowMs)"
proof -
  let ?now = "now_ms w r" and ?r0 = "age_routes (now_ms w r) r"
  obtain r1 where r1: "announce_on_sides E w (board_of ?r0) from ?now [0..<length (sides ?r0)] ?r0 = Some r1"
    and r': "r' = r1\<lparr>discovery_next_ms := ?now + discovery_interval_ms r1,
              discovery_interval_ms := min (discovery_interval_ms r1 * 2) kDiscoverySlowMs\<rparr>"
    using assms(1) by (auto simp: queue_discovery_impl_def Let_def bind_eq_Some_conv)
  have f: "owner_queues_inv r1" "discovery_interval_ms r1 = discovery_interval_ms ?r0"
    using announce_on_sides_frame [OF r1] assms(2,3) by (simp_all add: age_routes_frame)
  then have "owner_queues_inv r'" by (simp add: r' owner_queues_inv_def owner_tx_def owner_rx_def)
  then show ?thesis using f(2) by (simp add: r' age_routes_frame)
qed

lemma announce_on_sides_total:
  assumes "\<And>ts boards. \<exists>p. build_discovery_topology E from ts boards = Some p"
  shows "\<exists>r'. announce_on_sides E w local_board from now is r = Some r'"
proof (induction "is" arbitrary: r)
  case (Cons i "is")
  obtain p where "build_discovery_topology E from now (advertised_discovery_topology E w local_board from (int i) r) = Some p"
    using assms by blast
  then have "\<exists>r1. announce_on_side E w local_board from now i r = Some r1"
    by (simp add: announce_on_side_def Let_def)
  with Cons.IH show ?case by fastforce
qed simp

lemma sample_owner_ready: "owner_queues_inv sample_owner" "unat (max_queue_budget (memory sample_owner)) < 2 ^ 63"
  by (simp_all add: sample_owner_def owner_queues_inv_def owner_tx_def owner_rx_def queue_inv_def
      default_runtime_memory_config_def)

theorem discovery_round_backs_off_witness:
  "\<exists>r'. queue_discovery_impl sample_env sample_world
       (\<lambda>_ _. \<lparr>sender_id = ''CPP'', reachable_endpoints = [], reachable_timesync_sources = [], connections = []\<rparr>)
       ''CPP'' sample_owner = Some r' \<and> discovery_interval_ms r' \<le> kDiscoverySlowMs"
proof -
  let ?board = "\<lambda>_ :: bool. \<lparr>sender_id = ''CPP'', reachable_endpoints = [], reachable_timesync_sources = [],
    connections = []\<rparr>"
  have "\<exists>p. build_discovery_topology sample_env ''CPP'' ts boards = Some p" for ts boards
    by (simp add: build_discovery_topology_def make_packet_def validate_payload_def valid_type_def type_at_def
        Let_def sample_defs)
  from announce_on_sides_total [OF this] have "\<exists>r'. announce_on_sides sample_env sample_world ?board ''CPP''
      (now_ms sample_world sample_owner)
      [0..<length (sides (age_routes (now_ms sample_world sample_owner) sample_owner))]
      (age_routes (now_ms sample_world sample_owner) sample_owner) = Some r'" .
  then obtain r' where q: "queue_discovery_impl sample_env sample_world (\<lambda>_. ?board) ''CPP'' sample_owner = Some r'"
    by (auto simp: queue_discovery_impl_def Let_def)
  from discovery_round_backs_off [OF this sample_owner_ready] q show ?thesis by blast
qed

text \<open>
  An announcement that names a link-local endpoint, heard on a side that is not
  link-local, counts as a topology change every time it is repeated: the endpoints as
  received are compared with the endpoints as stored, from which the link-local ones were
  removed.
\<close>

theorem repeated_announcement_always_changes:
  assumes "ty pkt = SEDS_DT_DISCOVERY_ANNOUNCE" "distinct (map sender_id (topology_boards s))"
    and "ep \<in> set (decode_discovery_endpoints E pkt)" "endpoint_link_local_only E ep"
  shows "fst (learn_announcement E False pkt (snd (learn_announcement E False pkt s)))"
proof -
  let ?s = "snd (learn_announcement E False pkt s)"
  have "reachable_endpoints (sender_board (sender pkt) (topology_boards ?s)) =
      drop_link_local E False (decode_discovery_endpoints E pkt)"
    by (rule learn_announce_boards(2) [OF assms(2,1)])
  moreover have "ep \<notin> set (drop_link_local E False (decode_discovery_endpoints E pkt))"
    using assms(4) by (simp add: drop_link_local_def)
  ultimately have "reachable_endpoints (sender_board (sender pkt) (topology_boards ?s)) \<noteq>
      decode_discovery_endpoints E pkt"
    using assms(3) by auto
  then show ?thesis using assms(1) by (simp add: learn_announcement_def Let_def)
qed

theorem repeated_announcement_always_changes_witness:
  "fst (learn_announcement sample_env False announce_packet
     (snd (learn_announcement sample_env False announce_packet empty_sender_state)))"
proof (rule repeated_announcement_always_changes [where ep = 4])
  show "4 \<in> set (decode_discovery_endpoints sample_env announce_packet)" by (simp add: announce_packet_endpoints)
  show "endpoint_link_local_only sample_env 4"
    by (simp add: endpoint_link_local_only_def sample_defs valid_endpoint_def)
qed (simp_all add: announce_packet_def empty_sender_state_def)

end
