(* ===== verification/Timesync_Facts.thy ===== *)
theory Timesync_Facts
  imports Timesync
begin

text \<open>
  What time synchronisation guarantees: the calendar conversions invert each other, protocol
  payloads are read back exactly, the network clock follows the announced time and is never
  turned back by a fail-over, and offset and delay are exact on a symmetric link.
\<close>

section \<open>The calendar\<close>

lemma sdiv_floor:
  assumes n: "0 < n" and k: "k = n - 1"
  shows "(if 0 \<le> z then z else z - k) sdiv n = z div (n :: int)"
proof -
  show ?thesis
  proof (cases "0 \<le> z")
    case True
    then show ?thesis using n by (simp add: signed_divide_int_def sgn_if)
  next
    case False
    have "- ((n - 1 - z) div n) = z div n"
    proof -
      have "n - 1 - z = n * (- (z div n)) + (n - 1 - z mod n)" by (simp add: algebra_simps)
      moreover have "0 \<le> n - 1 - z mod n" "n - 1 - z mod n < n" using pos_mod_bound [OF n, of z] pos_mod_sign [OF n, of z] by linarith+
      ultimately have "(n - 1 - z) div n = - (z div n)" by (rule int_div_pos_eq)
      then show ?thesis by simp
    qed
    then show ?thesis using False n by (simp add: signed_divide_int_def sgn_if k algebra_simps)
  qed
qed

text \<open>
  A day of an era is a day of a year of the 400-year cycle: \<open>c\<close> centuries, \<open>q\<close> four-year
  groups, \<open>r\<close> years and \<open>d\<close> days, where only the last year of a group is a leap year, and of
  the last groups of a century only that of the last.
\<close>

definition day_of_era :: "int \<Rightarrow> int \<Rightarrow> int \<Rightarrow> int \<Rightarrow> int \<Rightarrow> bool" where
  "day_of_era doe c q r d \<longleftrightarrow>
     0 \<le> c \<and> c < 4 \<and> 0 \<le> q \<and> q < 25 \<and> 0 \<le> r \<and> r < 4 \<and> 0 \<le> d \<and>
     (d < 365 \<or> d = 365 \<and> r = 3 \<and> (q < 24 \<or> c = 3)) \<and> doe = 36524 * c + 1461 * q + 365 * r + d"

lemma day_of_era_ex:
  assumes "0 \<le> doe" "doe < 146097"
  shows "\<exists>c q r d. day_of_era doe c q r d"
proof -
  define c where "c = min 3 (doe div 36524)"
  define x where "x = doe - 36524 * c"
  have c: "0 \<le> c" "c < 4" "0 \<le> x" "x < 36524 \<or> c = 3 \<and> x \<le> 36524"
    using assms by (auto simp: c_def x_def min_def)
  define q where "q = x div 1461"
  define y where "y = x - 1461 * q"
  have q: "0 \<le> q" "q < 25" "0 \<le> y" "y < 1461" "q = 24 \<longrightarrow> c \<noteq> 3 \<longrightarrow> y < 1460"
    using c by (auto simp: q_def y_def)
  define r where "r = min 3 (y div 365)"
  define d where "d = y - 365 * r"
  have rd: "0 \<le> r \<and> r < 4 \<and> 0 \<le> d \<and> (d < 365 \<or> d = 365 \<and> r = 3) \<and> (d = 365 \<longrightarrow> y = 1460)"
  proof (cases "y < 1095")
    case True
    then have "y div 365 < 3" by simp
    then have "r = y div 365" by (simp add: r_def)
    then have "d = y mod 365" by (simp add: d_def minus_mult_div_eq_mod)
    then have "d < 365" "0 \<le> d" by simp_all
    then show ?thesis using q \<open>r = y div 365\<close> \<open>y div 365 < 3\<close> by (simp add: pos_imp_zdiv_nonneg_iff)
  next
    case False
    then have "r = 3" by (simp add: r_def)
    then show ?thesis using q False by (auto simp: d_def)
  qed
  have "doe = 36524 * c + 1461 * q + 365 * r + d" by (simp add: x_def y_def d_def)
  moreover have "q < 24 \<or> c = 3" if "d = 365" using q(2,5) rd that by linarith
  ultimately have "day_of_era doe c q r d" unfolding day_of_era_def using c(1,2) q(1,2) rd by blast
  then show ?thesis by blast
qed

lemma year_of_era:
  assumes "day_of_era doe c q r d"
  shows "(doe - doe div 1460 + doe div 36524 - doe div 146096) div 365 = 100 * c + 4 * q + r"
proof -
  note b = assms [unfolded day_of_era_def]
  define e where "e = (if 24 * c + q + 365 * r + d \<ge> 1460 then 1 else 0 :: int)"
  have "doe = 1460 * (25 * c + q) + (24 * c + q + 365 * r + d)" using b by simp
  moreover have "24 * c + q + 365 * r + d < 2920" "0 \<le> 24 * c + q + 365 * r + d" using b by auto
  ultimately have g: "doe div 1460 = 25 * c + q + e" by (auto simp: e_def)
  have cen: "doe div 36524 - doe div 146096 = c"
  proof (cases "doe = 146096")
    case True
    then show ?thesis using b by auto
  next
    case False
    have lt: "1461 * q + 365 * r + d < 36524"
    proof (cases "q = 24")
      case True
      then show ?thesis using b False by auto
    next
      case False
      then show ?thesis using b by auto
    qed
    have "doe < 146096" "0 \<le> doe" using b lt by auto
    then have "doe div 146096 = 0" by simp
    moreover have "doe div 36524 = c" using b lt by auto
    ultimately show ?thesis by simp
  qed
  have "doe - doe div 1460 + doe div 36524 - doe div 146096 = 365 * (100 * c + 4 * q + r) + (d - e)"
    using b g cen by simp
  moreover have "0 \<le> d - e" "d - e < 365" using b by (auto simp: e_def)
  ultimately show ?thesis by simp
qed

lemma day_of_year:
  assumes "day_of_era doe c q r d"
  shows "365 * (100 * c + 4 * q + r) + (100 * c + 4 * q + r) div 4 - (100 * c + 4 * q + r) div 100 = doe - d"
proof -
  note b = assms [unfolded day_of_era_def]
  have "(100 * c + 4 * q + r) div 4 = 25 * c + q" "(100 * c + 4 * q + r) div 100 = c" using b by auto
  then show ?thesis using b by simp
qed

lemma month_index_cases:
  fixes mp :: int
  assumes "0 \<le> mp" "mp \<le> 11"
  shows "mp \<in> {0, 1, 2, 3, 4, 5, 6, 7, 8, 9, 10, 11}"
proof -
  have "mp \<in> {0..11}" using assms by simp
  also have "{0..11} = {0, 1, 2, 3, 4, 5, 6, 7, 8, 9, 10, 11 :: int}"
    by (simp add: set_upto [symmetric] upto.simps del: set_upto)
  finally show ?thesis .
qed

lemma month_of_year:
  fixes doy :: int
  assumes "0 \<le> doy" "doy \<le> 365"
  defines "mp \<equiv> (5 * doy + 2) div 153"
  shows "0 \<le> mp \<and> mp \<le> 11 \<and> (153 * mp + 2) div 5 \<le> doy \<and>
    doy - (153 * mp + 2) div 5 < (if mp = 11 then (if doy = 365 then 29 else 28) else if mp \<in> {1, 3, 6, 8} then 30 else 31)"
proof -
  have mp: "0 \<le> mp" "mp \<le> 11" "153 * mp \<le> 5 * doy + 2" "5 * doy + 2 < 153 * mp + 153"
    using assms by (auto simp: mp_def)
  from month_index_cases [OF mp(1,2)] consider "mp = 0" | "mp = 1" | "mp = 2" | "mp = 3" | "mp = 4" | "mp = 5" | "mp = 6" | "mp = 7" | "mp = 8"
    | "mp = 9" | "mp = 10" | "mp = 11" by auto
  then show ?thesis using mp assms(2) by cases auto
qed

lemma leap_of_era:
  assumes "0 \<le> era" "0 \<le> c" "c < 4" "0 \<le> q" "q < 25" "q < 24 \<or> c = (3 :: int)"
  shows "is_leap_year (100 * c + 4 * q + 3 + era * 400 + 1)"
proof -
  let ?y = "100 * c + 4 * q + 3 + era * 400 + 1"
  have pos: "0 \<le> ?y" using assms by simp
  then have s: "?y smod n = ?y mod n" if "0 < n" for n
    using that by (simp add: signed_modulo_int_def signed_divide_int_def sgn_if minus_div_mult_eq_mod [symmetric])
  show ?thesis
  proof (cases "q = 24")
    case True
    then have "c = 3" using assms by simp
    then have "?y = (era + 1) * 400" using True by simp
    then have "?y mod 400 = 0" by simp
    then show ?thesis using s [of 400] by (simp add: is_leap_year_def)
  next
    case False
    have "?y mod 4 = 0" by presburger
    moreover have "?y mod 100 = 4 * q + 4"
    proof (rule int_mod_pos_eq)
      show "?y = 100 * (c + 4 * era) + (4 * q + 4)" by simp
    qed (use False assms in simp_all)
    ultimately show ?thesis using s [of 4] s [of 100] assms by (simp add: is_leap_year_def)
  qed
qed

lemma split_days_correct:
  assumes "0 \<le> days" "split_days days = (year, month, day)"
  shows "1 \<le> month \<and> month \<le> 12 \<and> 1 \<le> day \<and> day \<le> days_in_month year month \<and>
    days_from_civil year month day = days"
proof -
  define z where "z = days + 719468"
  define era where "era = z div 146097"
  define doe where "doe = z - era * 146097"
  have sd: "(if 0 \<le> z then z else z - 146096) sdiv 146097 = era" unfolding era_def by (rule sdiv_floor) simp_all
  have doe: "0 \<le> doe" "doe < 146097" and era: "0 \<le> era" using assms(1) by (auto simp: doe_def era_def z_def)
  then obtain c q r d where D: "day_of_era doe c q r d" using day_of_era_ex by blast
  note b = D [unfolded day_of_era_def]
  define yoe where "yoe = 100 * c + 4 * q + r"
  have yoe: "0 \<le> yoe" "yoe < 400" using b by (auto simp: yoe_def)
  define mp where "mp = (5 * d + 2) div 153"
  have "0 \<le> d" "d \<le> 365" using b by auto
  note m = month_of_year [OF this, folded mp_def]
  have dy: "doe - (365 * yoe + yoe div 4 - yoe div 100) = d" using day_of_year [OF D] by (simp add: yoe_def)
  define month' where "month' = mp + (if mp < 10 then 3 else -9)"
  have "split_days days = (yoe + era * 400 + (if month' \<le> 2 then 1 else 0), month', d - (153 * mp + 2) div 5 + 1)"
    unfolding split_days_def Let_def z_def [symmetric] sd doe_def [symmetric] year_of_era [OF D] yoe_def [symmetric]
      dy mp_def [symmetric] month'_def [symmetric] by (rule refl)
  then have out: "year = yoe + era * 400 + (if month' \<le> 2 then 1 else 0)" "month = month'"
    "day = d - (153 * mp + 2) div 5 + 1" using assms(2) by simp_all
  have mi: "(if 2 < month' then month' - 3 else month' + 9) = mp" using m by (auto simp: month'_def)
  have y: "year - (if month' \<le> 2 then 1 else 0) = yoe + era * 400" by (simp add: out)
  have "(if 0 \<le> yoe + era * 400 then yoe + era * 400 else yoe + era * 400 - 399) sdiv 400 = era"
    using sdiv_floor [of 400 399 "yoe + era * 400"] yoe by simp
  then have civil: "days_from_civil year month day = days"
    using y mi day_of_year [OF D]
    by (simp add: days_from_civil_def out(2,3) Let_def yoe_def [symmetric] doe_def z_def)
  have leap: "is_leap_year year" if "mp = 11" "d = 365"
    using that b leap_of_era [OF era, of c q] by (auto simp: out(1) month'_def yoe_def)
  have dim: "days_in_month year month = (if mp = 11 then (if is_leap_year year then 29 else 28)
      else if mp \<in> {1, 3, 6, 8} then 30 else 31)"
  proof -
    have "mp \<in> {0, 1, 2, 3, 4, 5, 6, 7, 8, 9, 10, 11}" using m month_index_cases by blast
    then show ?thesis by (auto simp: days_in_month_def out(2) month'_def)
  qed
  have "day \<le> days_in_month year month" using m leap unfolding dim out(3) by (auto split: if_splits)
  moreover have "1 \<le> day" using m by (simp add: out(3))
  moreover have "1 \<le> month" "month \<le> 12" using m by (auto simp: out(2) month'_def)
  ultimately show ?thesis using civil by blast
qed

section \<open>Property: the calendar\<close>

lemma network_time_of_split:
  "network_time_to_unix_ms (split_unix_ms unix_ms) = Some unix_ms"
proof -
  define n where "n = uint unix_ms"
  have n: "0 \<le> n" by (simp add: n_def)
  define days where "days = n div 1000 div 86400"
  define sod where "sod = n div 1000 mod 86400"
  have sod: "0 \<le> sod" "sod < 86400" by (simp_all add: sod_def)
  obtain year month day where s: "split_days days = (year, month, day)" by (cases "split_days days")
  have "0 \<le> days" using n by (simp add: days_def pos_imp_zdiv_nonneg_iff)
  note c = split_days_correct [OF this s]
  have t: "split_unix_ms unix_ms = \<lparr>nt_year = year, nt_month = month, nt_day = day, nt_hour = sod div 3600,
      nt_minute = sod mod 3600 div 60, nt_second = sod mod 60, nt_nanosecond = n mod 1000 * 1000000\<rparr>"
    using s by (simp add: split_unix_ms_def Let_def uint_div uint_mod n_def days_def sod_def)
  have hms: "sod div 3600 * 3600 + sod mod 3600 div 60 * 60 + sod mod 60 = sod"
    using mod_mod_cancel [of 60 3600 sod, simplified] div_mult_mod_eq [of sod 3600] div_mult_mod_eq [of "sod mod 3600" 60] by linarith
  have "days * 86400 + sod = n div 1000" by (simp add: days_def sod_def)
  with hms have secs: "days * 86400 + sod div 3600 * 3600 + sod mod 3600 div 60 * 60 + sod mod 60 = n div 1000" by linarith
  have valid: "sod div 3600 \<le> 23" "sod mod 3600 div 60 \<le> 59" "sod mod 60 \<le> 59" "n mod 1000 * 1000000 < 1000000000"
    using sod by simp_all
  have "(word_of_int days * 86400 + word_of_int (sod div 3600) * 3600 + word_of_int (sod mod 3600 div 60) * 60 +
      word_of_int (sod mod 60)) * 1000 + word_of_int (n mod 1000) = (word_of_int ((days * 86400 + sod div 3600 * 3600 +
      sod mod 3600 div 60 * 60 + sod mod 60) * 1000 + n mod 1000) :: u64)" by simp
  also have "\<dots> = word_of_int n" unfolding secs by simp
  finally show ?thesis using c valid by (simp add: network_time_to_unix_ms_def t Let_def n_def)
qed

text \<open>
  (C22) The calendar conversion is exact. For every 64-bit instant the broken-down network time
  is a valid date and time of day, and converting it back gives the same instant.
\<close>

theorem network_time_roundtrip:
  "network_time_to_unix_ms (split_unix_ms unix_ms) = Some unix_ms"
  by (rule network_time_of_split)

section \<open>Payloads\<close>

lemma word_of_u64_words:
  "i < length ws \<Longrightarrow> take 8 (drop (8 * i) (u64_words ws)) = le_bytes 8 (ws ! i)"
proof (induction ws arbitrary: i)
  case (Cons a ws)
  then show ?case by (cases i) (simp_all add: u64_words_def)
qed simp

lemma u64_at_words: "i < length ws \<Longrightarrow> u64_at (u64_words ws) i = ws ! i"
  by (simp add: u64_at_def word_of_u64_words)

lemma length_u64_words [simp]: "length (u64_words ws) = 8 * length ws"
  by (induction ws) (simp_all add: u64_words_def)

text \<open>
  Every time synchronisation packet is read back exactly: whatever the builders produce,
  the decoders return the fields it was built from.
\<close>

theorem timesync_payload_roundtrip:
  assumes "build_timesync_announce E from ts priority time_ms = Some a"
    and "build_timesync_request E from ts sq t1 = Some q"
    and "build_timesync_response E from ts sq t1 t2 t3 = Some p"
  shows "decode_timesync_announce a = Some \<lparr>af_priority = priority, af_time_ms = time_ms\<rparr> \<and>
    decode_timesync_request q = Some \<lparr>rf_seq = sq, rf_t1_ms = t1\<rparr> \<and>
    decode_timesync_response p = Some \<lparr>sf_seq = sq, sf_t1_ms = t1, sf_t2_ms = t2, sf_t3_ms = t3\<rparr>"
  using assms
  by (auto simp: build_timesync_announce_def build_timesync_request_def build_timesync_response_def make_packet_def
      decode_timesync_announce_def decode_timesync_request_def decode_timesync_response_def u64_at_words
      split: if_splits)

theorem timesync_payload_roundtrip_witness:
  "\<exists>a q p. build_timesync_announce sample_env ''GPS'' 0 10 1700000000000 = Some a \<and>
     build_timesync_request sample_env ''GPS'' 0 1 5 = Some q \<and>
     build_timesync_response sample_env ''GPS'' 0 1 5 7 9 = Some p \<and>
     decode_timesync_announce a = Some \<lparr>af_priority = 10, af_time_ms = 1700000000000\<rparr>"
proof -
  have v: "validate_payload sample_env t n" "valid_type sample_env t" if "t \<in> {4, 5, 6}" for t n
    using that by (auto simp: validate_payload_def valid_type_def type_at_def Let_def sample_defs)
  obtain a q p where b: "build_timesync_announce sample_env ''GPS'' 0 10 1700000000000 = Some a"
    "build_timesync_request sample_env ''GPS'' 0 1 5 = Some q" "build_timesync_response sample_env ''GPS'' 0 1 5 7 9 = Some p"
    by (simp add: build_timesync_announce_def build_timesync_request_def build_timesync_response_def make_packet_def v)
  from timesync_payload_roundtrip [OF b] b show ?thesis by blast
qed

section \<open>The network clock\<close>

text \<open>
  An announcement sets the clock. When an announcement arrives at a node without network
  time, without a current source, or with one of a larger priority value, the announcer
  becomes the source and the network time is the announced time, advancing with the local
  clock from then on; the announcement is remembered with its time of arrival either way.
\<close>

theorem better_source_adopted:
  assumes "ty pkt = SEDS_DT_TIME_SYNC_ANNOUNCE" "payload pkt = u64_words [priority, time_ms]"
    and "\<not> has_network_time (timesync r) \<or> priority < current_source_priority (timesync r) \<or>
         current_source (timesync r) = []"
    and "r' = handle_timesync_packet E w pkt src r"
  shows "current_source (timesync r') = sender pkt \<and> current_source_priority (timesync r') = priority \<and>
    current_network_ms w r' = time_ms \<and>
    (\<forall>later. current_network_ms w (r'\<lparr>trace := later\<rparr>) = time_ms + (clock w later - now_ms w r)) \<and>
    map_of (ts_sources (timesync r')) (sender pkt) =
      Some \<lparr>src_priority = priority, src_last_seen_ms = now_ms w r, src_last_time_ms = time_ms\<rparr>"
proof -
  have w0: "u64_at (payload pkt) 0 = priority" "u64_at (payload pkt) 1 = time_ms"
    using u64_at_words [of 0 "[priority, time_ms]"] u64_at_words [of 1 "[priority, time_ms]"] assms(2) by simp_all
  let ?src = "\<lparr>src_priority = priority, src_last_seen_ms = now_ms w r, src_last_time_ms = time_ms\<rparr>"
  have r': "r' = r\<lparr>timesync := (timesync r)\<lparr>ts_sources := mput (sender pkt) ?src (ts_sources (timesync r)),
      has_network_time := True, network_anchor_local_ms := now_ms w r, network_anchor_unix_ms := time_ms,
      current_source := sender pkt, current_source_priority := priority\<rparr>\<rparr>"
    using assms(1,3) w0 unfolding assms(4)
    by (auto simp: handle_timesync_packet_def source_replaced_def Let_def assms(2))
  then show ?thesis by (simp add: current_network_ms_def now_ms_def)
qed

definition sample_timesync :: timesync_runtime where
  "sample_timesync = \<lparr>ts_enabled = True, ts_role = 0, ts_priority = 100, source_timeout_ms = 5000,
     announce_interval_ms = 1000, request_interval_ms = 1000, last_announce_ms = 0, last_request_ms = 0,
     has_network_time = False, network_anchor_local_ms = 0, network_anchor_unix_ms = 0, current_source = [],
     current_source_priority = - 1, ts_sources = []\<rparr>"

definition sample_router :: router where
  "sample_router = owner.extend sample_owner (router.fields Seds_RM_Sink [] [] [] [] [] [] 0 [] [] [] [] [] 1
     ''CPP'' ''CPP'' sample_timesync)"

definition time_packet :: packet where
  "time_packet = \<lparr>ty = SEDS_DT_TIME_SYNC_ANNOUNCE, sender = ''GPS'', endpoints = [SEDS_EP_TIME_SYNC], timestamp = 0,
     payload = u64_words [10, 1700000000000]\<rparr>"

theorem better_source_adopted_witness:
  "current_network_ms sample_world (handle_timesync_packet sample_env sample_world time_packet (Some 0) sample_router) =
     1700000000000"
proof -
  have r: "\<not> has_network_time (timesync sample_router)"
    by (simp add: sample_router_def owner.defs router.defs sample_timesync_def)
  have "ty time_packet = SEDS_DT_TIME_SYNC_ANNOUNCE" "payload time_packet = u64_words [10, 1700000000000]"
    by (simp_all add: time_packet_def)
  from better_source_adopted [OF this disjI1 [OF r] refl] show ?thesis by blast
qed

lemma best_source_spec:
  assumes "best_source now timeout (n0, p0, s0, t0) sources = (name, pri, seen, time)"
  shows "((name, pri, seen, time) = (n0, p0, s0, t0) \<or>
      (name, \<lparr>src_priority = pri, src_last_seen_ms = seen, src_last_time_ms = time\<rparr>) \<in> set sources \<and>
      now - seen \<le> timeout) \<and>
    pri \<le> p0 \<and> (\<forall>(n, src) \<in> set sources. now - src_last_seen_ms src \<le> timeout \<longrightarrow> pri \<le> src_priority src)"
  using assms
proof (induction sources arbitrary: n0 p0 s0 t0)
  case (Cons x sources)
  obtain n src where x: "x = (n, src)" by (cases x)
  show ?case
  proof (cases "now - src_last_seen_ms src > timeout \<or>
      \<not> (src_priority src < p0 \<or> src_priority src = p0 \<and> src_last_seen_ms src > s0)")
    case True
    then have "best_source now timeout (n0, p0, s0, t0) sources = (name, pri, seen, time)"
      using Cons.prems by (auto simp: x split: if_splits)
    from Cons.IH [OF this] True show ?thesis by (auto simp: x not_less)
  next
    case False
    then have "best_source now timeout (n, src_priority src, src_last_seen_ms src, src_last_time_ms src) sources =
        (name, pri, seen, time)"
      using Cons.prems by (auto simp: x split: if_splits)
    from Cons.IH [OF this] False show ?thesis by (auto simp: x)
  qed
qed simp

text \<open>
  (C24) Fail-over of the clock. Reading the network time fails exactly when there is none. It
  never returns less than the running network clock shows at that moment, so losing a source
  does not turn the clock back; and when the read changes the current source, the new one was
  heard within the timeout and no other source heard within it has a smaller priority value.
\<close>

theorem network_clock_never_turned_back:
  assumes "seds_router_get_network_time_ms w r = (res, r')"
  shows "(res = Inl SEDS_ERR \<longleftrightarrow> \<not> has_network_time (timesync r)) \<and>
    (has_network_time (timesync r) \<longrightarrow> (\<exists>t. res = Inr t \<and> current_network_ms w r \<le> t \<and> current_network_ms w r' = t)) \<and>
    (current_source (timesync r') \<noteq> current_source (timesync r) \<longrightarrow>
       (\<exists>src. (current_source (timesync r'), src) \<in> set (ts_sources (timesync r)) \<and>
          now_ms w r - src_last_seen_ms src \<le> source_timeout_ms (timesync r) \<and>
          (\<forall>(n, other) \<in> set (ts_sources (timesync r)).
             now_ms w r - src_last_seen_ms other \<le> source_timeout_ms (timesync r) \<longrightarrow>
             src_priority src \<le> src_priority other)))"
proof (cases "has_network_time (timesync r) \<and> current_source (timesync r) \<noteq> [] \<and>
    current_source_lost (now_ms w r) (timesync r)")
  case True
  obtain name pri seen time where b: "best_source (now_ms w r) (source_timeout_ms (timesync r)) ([], - 1, 0, 0)
      (ts_sources (timesync r)) = (name, pri, seen, time)" by (metis prod_cases4)
  note spec = best_source_spec [OF b]
  show ?thesis
  proof (cases "name = []")
    case True
    then show ?thesis using assms \<open>has_network_time (timesync r) \<and> _\<close> b
      by (auto simp: seds_router_get_network_time_ms_def Let_def)
  next
    case False
    let ?cand = "time + (now_ms w r - seen)" and ?cur = "current_network_ms w r"
    have out: "r' = r\<lparr>timesync := (timesync r)\<lparr>current_source := name, current_source_priority := pri,
        network_anchor_local_ms := now_ms w r, network_anchor_unix_ms := max ?cur ?cand\<rparr>\<rparr>"
      "res = Inr (current_network_ms w r')"
      using assms False True b by (auto simp: seds_router_get_network_time_ms_def Let_def max_def)
    have "current_network_ms w r' = max ?cur ?cand" using True by (simp add: out(1) current_network_ms_def now_ms_def)
    moreover have "(name, \<lparr>src_priority = pri, src_last_seen_ms = seen, src_last_time_ms = time\<rparr>) \<in> set (ts_sources (timesync r))"
      "now_ms w r - seen \<le> source_timeout_ms (timesync r)" using spec False by auto
    ultimately show ?thesis using True out spec by fastforce
  qed
next
  case False
  then show ?thesis using assms
    by (auto simp: seds_router_get_network_time_ms_def Let_def split: if_splits)
qed

theorem network_clock_never_turned_back_witness:
  "\<exists>t. fst (seds_router_get_network_time_ms sample_world (sample_router\<lparr>timesync := sample_timesync
      \<lparr>has_network_time := True, network_anchor_unix_ms := 1700000000000, current_source := ''GPS''\<rparr>\<rparr>)) = Inr t \<and>
    1700000001000 \<le> t"
proof -
  let ?r = "sample_router\<lparr>timesync := sample_timesync
      \<lparr>has_network_time := True, network_anchor_unix_ms := 1700000000000, current_source := ''GPS''\<rparr>\<rparr>"
  obtain res r' where g: "seds_router_get_network_time_ms sample_world ?r = (res, r')" by fastforce
  have "current_network_ms sample_world ?r = 1700000000000 + now_ms sample_world ?r"
    by (simp add: current_network_ms_def sample_timesync_def)
  moreover have "now_ms sample_world ?r = 1000"
    by (simp add: now_ms_def sample_world_def)
  ultimately have "\<exists>t. res = Inr t \<and> 1700000001000 \<le> t"
    using conjunct1 [OF conjunct2 [OF network_clock_never_turned_back [OF g]]] by simp
  then show ?thesis using g by simp
qed

section \<open>Offset and delay\<close>

text \<open>
  On a link with the same delay \<open>d\<close> in both directions, to a server whose clock is ahead
  by \<open>off\<close> and that answers after \<open>p\<close>, the sample has exactly that offset and the round-trip
  delay \<open>2 * d\<close>, and the estimate is the server's time at arrival.
\<close>

theorem symmetric_link_exact:
  assumes "t1 < 2 ^ 62" "off < 2 ^ 61" "d < 2 ^ 60" "p < 2 ^ 60"
    and "t2 = t1 + off + d" "t3 = t2 + p" "t4 = t1 + 2 * d + p"
  shows "compute_offset_delay (word_of_nat t1) (word_of_nat t2) (word_of_nat t3) (word_of_nat t4) =
      (int off, word_of_nat (2 * d)) \<and>
    estimate_network_time (word_of_nat t1) (word_of_nat t4) (word_of_nat t2) (word_of_nat t3) =
      (word_of_nat (t4 + off), word_of_nat d)"
proof -
  have s: "sint (word_of_nat n :: u64) = int n" if "n < 2 ^ 63" for n
    using that by (simp add: sint_uint signed_take_bit_int_eq_self_iff take_bit_int_eq_self unsigned_of_nat
        take_bit_nat_eq_self)
  have b: "t1 < 2 ^ 63" "t2 < 2 ^ 63" "t3 < 2 ^ 63" "t4 < 2 ^ 63" using assms by simp_all
  have u: "unat (word_of_nat n :: u64) = n" if "n < 2 ^ 63" for n
    using that by (simp add: unsigned_of_nat take_bit_nat_eq_self)
  have co: "int t2 - int t1 + (int t3 - int t4) = 2 * int off" "int t4 - int t1 - (int t3 - int t2) = 2 * int d"
    using assms(5-7) by simp_all
  have "compute_offset_delay (word_of_nat t1) (word_of_nat t2) (word_of_nat t3) (word_of_nat t4) =
      (int off, word_of_nat (2 * d))"
    unfolding compute_offset_delay_def Let_def s [OF b(1)] s [OF b(2)] s [OF b(3)] s [OF b(4)] co
    by (simp add: signed_divide_int_def sgn_if)
  moreover have "estimate_network_time (word_of_nat t1) (word_of_nat t4) (word_of_nat t2) (word_of_nat t3) =
      (word_of_nat (t4 + off), word_of_nat d)"
  proof -
    have le: "word_of_nat t1 \<le> (word_of_nat t4 :: u64)" "word_of_nat t2 \<le> (word_of_nat t3 :: u64)"
      "word_of_nat p \<le> (word_of_nat (2 * d + p) :: u64)"
      using b assms by (simp_all add: word_le_nat_alt u del: of_nat_add of_nat_mult)
    have sub: "(word_of_nat t4 :: u64) - word_of_nat t1 = word_of_nat (2 * d + p)"
      "(word_of_nat t3 :: u64) - word_of_nat t2 = word_of_nat p"
      "(word_of_nat (2 * d + p) :: u64) - word_of_nat p = word_of_nat (2 * d)" using assms(5-7) by simp_all
    have half: "(word_of_nat (2 * d) :: u64) div 2 = word_of_nat d"
      using assms(3) by (simp add: word_unat_eq_iff unat_div u del: of_nat_mult)
    have "(word_of_nat t3 + word_of_nat d :: u64) = word_of_nat (t4 + off)" using assms(5-7) by simp
    then show ?thesis using le by (simp add: estimate_network_time_def sub half Let_def del: of_nat_add of_nat_mult)
  qed
  ultimately show ?thesis by blast
qed

theorem symmetric_link_exact_witness:
  "fst (compute_offset_delay (word_of_nat 1000) (word_of_nat 5030) (word_of_nat 5035) (word_of_nat 1065)) = 4000"
  using symmetric_link_exact [of 1000 4000 30 5 5030 5035 1065] by simp

end
