(* ===== verification/P2p.thy ===== *)
theory P2p
  imports Timesync_Facts
begin

text \<open>
  Point-to-point messages and streams (\<open>src/upstream_api_compat.cpp\<close>): the datagram and stream
  frame encodings, the address book, stream sessions and their handshake, and the functions of
  the interface that use them.
\<close>

section \<open>Addresses\<close>

definition address_for_sender :: "string \<Rightarrow> u32" where
  "address_for_sender s = (let raw = ucast (sender_hash s) :: u32 in if raw = 0 then 1 else raw)"

definition learn_address :: "string \<Rightarrow> u32 \<Rightarrow> router \<Rightarrow> router" where
  "learn_address host addr r =
     r\<lparr>p2p_address_book := mput host addr (p2p_address_book r),
       p2p_host_by_address := mput addr host (p2p_host_by_address r)\<rparr>"

definition local_p2p_address :: "router \<Rightarrow> u32 \<times> router" where
  "local_p2p_address r =
     (if p2p_address r = 0 then
        let addr = address_for_sender (r_sender r)
        in (addr, learn_address (r_sender r) addr (r\<lparr>p2p_address := addr\<rparr>))
      else (p2p_address r, r))"

definition p2p_type_id :: "env \<Rightarrow> u32" where
  "p2p_type_id E = (case local_type_id E 18 of None \<Rightarrow> 1018 | Some t \<Rightarrow> t)"

section \<open>Datagrams\<close>

record p2p_datagram =
  source_hostname :: string
  source_address :: u32
  source_port :: u16
  destination_port :: u16
  dg_payload :: bytes

record p2p_stream_frame =
  fr_flags :: u8
  source_stream_id :: u32
  destination_stream_id :: u32
  fr_sequence :: u32
  fr_payload :: bytes

definition empty_stream_frame :: p2p_stream_frame where
  "empty_stream_frame =
     \<lparr>fr_flags = 0, source_stream_id = 0, destination_stream_id = 0, fr_sequence = 0, fr_payload = []\<rparr>"

text \<open>\<open>static_cast<uint16_t>\<close> and \<open>static_cast<uint32_t>\<close> of the lengths wrap.\<close>

definition encode_p2p_payload :: "string \<Rightarrow> u32 \<Rightarrow> u16 \<Rightarrow> u16 \<Rightarrow> bytes \<Rightarrow> bytes" where
  "encode_p2p_payload host addr src_port dst_port body =
     [1] @ le_bytes 2 dst_port @ le_bytes 2 src_port @ le_bytes 4 addr @
     le_bytes 2 (word_of_nat (length host) :: u16) @ le_bytes 4 (word_of_nat (length body) :: u32) @
     bytes_of_string host @ body"

definition decode_p2p_payload :: "bytes \<Rightarrow> p2p_datagram option" where
  "decode_p2p_payload bs =
     (if length bs < 15 \<or> bs ! 0 \<noteq> 1 then None
      else
        let dst_port = from_le (take 2 (drop 1 bs));
            src_port = from_le (take 2 (drop 3 bs));
            src_address = from_le (take 4 (drop 5 bs));
            host_len = unat (from_le (take 2 (drop 9 bs)) :: u16);
            body_len = unat (from_le (take 4 (drop 11 bs)) :: u32);
            host_end = 15 + host_len;
            body_end = host_end + body_len
        in if length bs < host_end \<or> body_end \<noteq> length bs then None
           else Some \<lparr>source_hostname = string_of_bytes (take host_len (drop 15 bs)), source_address = src_address,
                      source_port = src_port, destination_port = dst_port,
                      dg_payload = take body_len (drop host_end bs)\<rparr>)"

definition kP2pStreamMagic :: bytes where
  "kP2pStreamMagic = bytes_of_string ''SDSP''"

abbreviation kP2pStreamVersion :: u8 where "kP2pStreamVersion \<equiv> 1"
abbreviation kP2pStreamSyn :: u8 where "kP2pStreamSyn \<equiv> 0x01"
abbreviation kP2pStreamAck :: u8 where "kP2pStreamAck \<equiv> 0x02"
abbreviation kP2pStreamFin :: u8 where "kP2pStreamFin \<equiv> 0x04"
abbreviation kP2pStreamRst :: u8 where "kP2pStreamRst \<equiv> 0x08"
abbreviation kP2pStreamData :: u8 where "kP2pStreamData \<equiv> 0x10"

definition encode_p2p_stream_payload :: "u8 \<Rightarrow> u32 \<Rightarrow> u32 \<Rightarrow> u32 \<Rightarrow> bytes \<Rightarrow> bytes" where
  "encode_p2p_stream_payload flags src dst sq body =
     kP2pStreamMagic @ [kP2pStreamVersion, flags] @ le_bytes 4 src @ le_bytes 4 dst @ le_bytes 4 sq @
     le_bytes 4 (word_of_nat (length body) :: u32) @ body"

text \<open>Without the magic there is no frame; a malformed frame is the empty one, with no flag.\<close>

definition decode_p2p_stream_payload :: "bytes \<Rightarrow> p2p_stream_frame option" where
  "decode_p2p_stream_payload bs =
     (if length bs < 4 \<or> take 4 bs \<noteq> kP2pStreamMagic then None
      else if length bs < 22 \<or> bs ! 4 \<noteq> kP2pStreamVersion then Some empty_stream_frame
      else let body_len = unat (from_le (take 4 (drop 18 bs)) :: u32) in
        if 22 + body_len \<noteq> length bs then Some empty_stream_frame
        else Some \<lparr>fr_flags = bs ! 5, source_stream_id = from_le (take 4 (drop 6 bs)),
                   destination_stream_id = from_le (take 4 (drop 10 bs)),
                   fr_sequence = from_le (take 4 (drop 14 bs)), fr_payload = take body_len (drop 22 bs)\<rparr>)"

section \<open>Sending\<close>

definition p2p_item :: "env \<Rightarrow> world \<Rightarrow> u32 \<Rightarrow> u16 \<Rightarrow> u16 \<Rightarrow> bytes \<Rightarrow> router \<Rightarrow> tx_item" where
  "p2p_item E w addr dst_port src_port body r =
     (let pkt = make_internal_packet E (p2p_type_id E) (current_network_ms w r)
                  (encode_p2p_payload (r_sender r) addr src_port dst_port body)
      in \<lparr>tx_pkt = pkt\<lparr>sender := r_sender r\<rparr>, tx_src_side = None, tx_dst_side = None, deliver_local = False\<rparr>)"

definition enqueue_p2p_packet ::
    "env \<Rightarrow> world \<Rightarrow> u16 \<Rightarrow> u16 \<Rightarrow> bytes \<Rightarrow> router \<Rightarrow> seds_result \<times> router" where
  "enqueue_p2p_packet E w dst_port src_port body r =
     (if dst_port = 0 then (SEDS_BAD_ARG, r)
      else let (addr, r1) = local_p2p_address r
           in (SEDS_OK, push_tx (p2p_item E w addr dst_port src_port body r1) r1))"

definition resolve_p2p_host :: "string \<Rightarrow> router \<Rightarrow> (string \<times> u32) option \<times> router" where
  "resolve_p2p_host host r =
     (if host = r_sender r then let (addr, r1) = local_p2p_address r in (Some (r_sender r1, addr), r1)
      else (case map_of (p2p_address_book r) host of
              None \<Rightarrow> (None, r)
            | Some addr \<Rightarrow> (Some (host, addr), r)))"

definition resolve_p2p_address :: "u32 \<Rightarrow> router \<Rightarrow> (string \<times> u32) option \<times> router" where
  "resolve_p2p_address addr r =
     (let (own, r1) = local_p2p_address r in
      if addr = own then (Some (r_sender r1, addr), r1)
      else (case map_of (p2p_host_by_address r1) addr of
              None \<Rightarrow> (None, r1)
            | Some host \<Rightarrow> (Some (host, addr), r1)))"

section \<open>Stream sessions\<close>

text \<open>The loop over at most \<open>UINT32_MAX\<close> identifiers: the identifier (0 if none) and the next one.\<close>

fun allocate_loop :: "nat \<Rightarrow> (u32, 's) amap \<Rightarrow> u32 \<Rightarrow> u32 \<times> u32" where
  "allocate_loop 0 sessions nxt = (0, nxt)"
| "allocate_loop (Suc tries) sessions nxt =
     (let sid = max 1 nxt; nxt' = max 1 (nxt + 1) in
      if sid \<notin> set (mkeys sessions) then (sid, nxt') else allocate_loop tries sessions nxt')"

definition UINT32_MAX :: nat where
  "UINT32_MAX = 2 ^ 32 - 1"

definition allocate_p2p_stream_id :: "router \<Rightarrow> u32 \<times> router" where
  "allocate_p2p_stream_id r =
     (let (sid, nxt) = allocate_loop UINT32_MAX (p2p_stream_sessions r) (p2p_next_stream_id r)
      in (sid, r\<lparr>p2p_next_stream_id := nxt\<rparr>))"

text \<open>The handlers of a port, called in order until one fails; \<open>operator[]\<close> adds a missing port.\<close>

fun call_handlers :: "world \<Rightarrow> (fn \<Rightarrow> event) \<Rightarrow> fn option list \<Rightarrow> router \<Rightarrow> seds_result \<times> router" where
  "call_handlers w mk [] r = (SEDS_OK, r)"
| "call_handlers w mk (None # fs) r = call_handlers w mk fs r"
| "call_handlers w mk (Some f # fs) r =
     (let (rc, r') = call_back w (mk f) r
      in if rc \<noteq> SEDS_OK then (SEDS_HANDLER_ERROR, r') else call_handlers w mk fs r')"

definition touch_port :: "u16 \<Rightarrow> (u16, 'h list) amap \<Rightarrow> (u16, 'h list) amap" where
  "touch_port port m = (if port \<in> set (mkeys m) then m else mput port [] m)"

definition call_stream_handlers :: "world \<Rightarrow> u16 \<Rightarrow> stream_event \<Rightarrow> router \<Rightarrow> seds_result \<times> router" where
  "call_stream_handlers w port ev r =
     (let handlers = mget [] (p2p_stream_handlers r) port;
          r1 = r\<lparr>p2p_stream_handlers := touch_port port (p2p_stream_handlers r)\<rparr>
      in call_handlers w (\<lambda>f. P2pStream f ev) handlers r1)"

definition session_matches :: "p2p_datagram \<Rightarrow> p2p_stream_frame \<Rightarrow> p2p_stream_session \<Rightarrow> bool" where
  "session_matches msg frame s \<longleftrightarrow>
     peer_stream_id s = source_stream_id frame \<and> local_port s = destination_port msg \<and>
     peer_port s = source_port msg \<and> peer_address s = source_address msg \<and> peer_hostname s = source_hostname msg"

definition find_session :: "p2p_datagram \<Rightarrow> p2p_stream_frame \<Rightarrow> router \<Rightarrow> u32" where
  "find_session msg frame r =
     (case find (\<lambda>(_, s). session_matches msg frame s) (p2p_stream_sessions r) of
        None \<Rightarrow> 0 | Some (sid, _) \<Rightarrow> sid)"

definition stream_event_of :: "u8 \<Rightarrow> u32 \<Rightarrow> p2p_stream_session \<Rightarrow> p2p_stream_frame \<Rightarrow> stream_event" where
  "stream_event_of kind sid s frame =
     \<lparr>ev_kind = kind, ev_stream_id = sid, ev_peer_stream_id = source_stream_id frame, ev_sequence = fr_sequence frame,
      ev_peer_hostname = peer_hostname s, ev_peer_address = peer_address s, ev_local_port = local_port s,
      ev_peer_port = peer_port s, ev_payload = fr_payload frame\<rparr>"

definition stream_syn :: "env \<Rightarrow> world \<Rightarrow> p2p_datagram \<Rightarrow> p2p_stream_frame \<Rightarrow> router \<Rightarrow> seds_result \<times> router" where
  "stream_syn E w msg frame r =
     (let reply = (\<lambda>local_id r. enqueue_p2p_packet E w (source_port msg) (destination_port msg)
            (encode_p2p_stream_payload (kP2pStreamSyn OR kP2pStreamAck) local_id (source_stream_id frame) 0 []) r);
          known = find_session msg frame r
      in if known \<noteq> 0 then reply known r
         else let (local_id, r1) = allocate_p2p_stream_id r in
           if local_id = 0 then (SEDS_IO, r1)
           else
             let s = \<lparr>peer_hostname = source_hostname msg, peer_address = source_address msg,
                      local_port = destination_port msg, peer_port = source_port msg,
                      peer_stream_id = source_stream_id frame, next_sequence = 1, connected = True\<rparr>;
                 r2 = r1\<lparr>p2p_stream_sessions := mput local_id s (p2p_stream_sessions r1)\<rparr>;
                 (rc, r3) = call_stream_handlers w (destination_port msg) (stream_event_of 1 local_id s frame) r2
             in if rc \<noteq> SEDS_OK then (rc, r3) else reply local_id r3)"

definition stream_syn_ack :: "world \<Rightarrow> p2p_stream_frame \<Rightarrow> router \<Rightarrow> seds_result \<times> router" where
  "stream_syn_ack w frame r =
     (case map_of (p2p_stream_sessions r) (destination_stream_id frame) of
        None \<Rightarrow> (SEDS_OK, r)
      | Some s0 \<Rightarrow>
          let s = s0\<lparr>peer_stream_id := source_stream_id frame, connected := True\<rparr>;
              r1 = r\<lparr>p2p_stream_sessions := mput (destination_stream_id frame) s (p2p_stream_sessions r)\<rparr>
          in call_stream_handlers w (local_port s) (stream_event_of 2 (destination_stream_id frame) s frame) r1)"

definition stream_data :: "world \<Rightarrow> p2p_datagram \<Rightarrow> p2p_stream_frame \<Rightarrow> router \<Rightarrow> seds_result \<times> router" where
  "stream_data w msg frame r =
     (let kind = (if fr_flags frame AND kP2pStreamRst \<noteq> 0 then 5
                  else if fr_flags frame AND kP2pStreamFin \<noteq> 0 then 4 else 3);
          sid = (if destination_stream_id frame = 0 then find_session msg frame r else destination_stream_id frame)
      in case map_of (p2p_stream_sessions r) sid of
           None \<Rightarrow> (SEDS_OK, r)
         | Some s \<Rightarrow>
             let (rc, r1) = call_stream_handlers w (local_port s) (stream_event_of kind sid s frame) r
             in if rc \<noteq> SEDS_OK then (rc, r1)
                else if kind = 4 \<or> kind = 5
                then (SEDS_OK, r1\<lparr>p2p_stream_sessions := merase sid (p2p_stream_sessions r1)\<rparr>)
                else (SEDS_OK, r1))"

definition dispatch_p2p_stream ::
    "env \<Rightarrow> world \<Rightarrow> p2p_datagram \<Rightarrow> p2p_stream_frame \<Rightarrow> router \<Rightarrow> seds_result \<times> router" where
  "dispatch_p2p_stream E w msg frame r =
     (if fr_flags frame = 0 then (SEDS_DESERIALIZE, r)
      else if fr_flags frame AND kP2pStreamSyn \<noteq> 0 \<and> fr_flags frame AND kP2pStreamAck = 0
      then stream_syn E w msg frame r
      else if fr_flags frame AND kP2pStreamSyn \<noteq> 0 \<and> fr_flags frame AND kP2pStreamAck \<noteq> 0
      then stream_syn_ack w frame r
      else stream_data w msg frame r)"

definition dispatch_p2p_packet :: "env \<Rightarrow> world \<Rightarrow> packet \<Rightarrow> router \<Rightarrow> seds_result \<times> router" where
  "dispatch_p2p_packet E w pkt r =
     (if ty pkt \<noteq> p2p_type_id E then (SEDS_OK, r)
      else case decode_p2p_payload (payload pkt) of
          None \<Rightarrow> (SEDS_DESERIALIZE, r)
        | Some d \<Rightarrow>
            let r1 = (if source_hostname d \<noteq> [] then learn_address (source_hostname d) (source_address d) r else r)
            in case decode_p2p_stream_payload (dg_payload d) of
                 Some frame \<Rightarrow> dispatch_p2p_stream E w d frame r1
               | None \<Rightarrow>
                   let handlers = mget [] (p2p_handlers r1) (destination_port d);
                       r2 = r1\<lparr>p2p_handlers := touch_port (destination_port d) (p2p_handlers r1)\<rparr>
                   in call_handlers w (\<lambda>f. P2pMessage f (source_hostname d) (source_address d) (source_port d)
                        (destination_port d) (dg_payload d)) handlers r2)"

definition send_p2p_stream_control ::
    "env \<Rightarrow> world \<Rightarrow> u32 \<Rightarrow> u8 \<Rightarrow> bytes \<Rightarrow> router \<Rightarrow> seds_result \<times> router" where
  "send_p2p_stream_control E w stream_id flags body r =
     (case map_of (p2p_stream_sessions r) stream_id of
        None \<Rightarrow> (SEDS_BAD_ARG, r)
      | Some s \<Rightarrow>
          let sq = next_sequence s;
              s' = s\<lparr>next_sequence := (if sq + 1 = 0 then 1 else sq + 1)\<rparr>;
              r1 = r\<lparr>p2p_stream_sessions := mput stream_id s' (p2p_stream_sessions r)\<rparr>;
              (rc, r2) = enqueue_p2p_packet E w (peer_port s') (local_port s')
                 (encode_p2p_stream_payload flags stream_id (peer_stream_id s') sq body) r1
          in if rc = SEDS_OK \<and> flags AND (kP2pStreamFin OR kP2pStreamRst) \<noteq> 0
             then (rc, r2\<lparr>p2p_stream_sessions := merase stream_id (p2p_stream_sessions r2)\<rparr>)
             else (rc, r2))"

section \<open>The interface\<close>

text \<open>A null router or pointer is not represented; those calls return \<open>SEDS_BAD_ARG\<close> at once.\<close>

definition seds_router_set_sender :: "string \<Rightarrow> router \<Rightarrow> router" where
  "seds_router_set_sender s r = r\<lparr>r_sender := s, node_sender := s\<rparr>"

definition seds_router_set_sender_id :: "string \<Rightarrow> router \<Rightarrow> router" where
  "seds_router_set_sender_id s r =
     (let r1 = seds_router_set_sender s r; addr = address_for_sender s
      in learn_address s addr (r1\<lparr>p2p_address := addr\<rparr>))"

definition seds_router_configure_address :: "u8 \<Rightarrow> u32 \<Rightarrow> router \<Rightarrow> seds_result \<times> router" where
  "seds_router_configure_address address_mode requested r =
     (if address_mode > 2 then (SEDS_BAD_ARG, r)
      else let addr = (if address_mode = 0 then address_for_sender (r_sender r)
                       else if requested = 0 then 1 else requested)
           in (SEDS_OK, learn_address (r_sender r) addr (r\<lparr>p2p_address := addr\<rparr>)))"

definition seds_router_bind_p2p_port :: "u16 \<Rightarrow> fn \<Rightarrow> router \<Rightarrow> seds_result \<times> router" where
  "seds_router_bind_p2p_port port f r =
     (if port = 0 then (SEDS_BAD_ARG, r)
      else (SEDS_OK, r\<lparr>p2p_handlers := mput port (mget [] (p2p_handlers r) port @ [Some f]) (p2p_handlers r)\<rparr>))"

definition seds_router_clear_p2p_port :: "u16 \<Rightarrow> router \<Rightarrow> router" where
  "seds_router_clear_p2p_port port r = r\<lparr>p2p_handlers := merase port (p2p_handlers r)\<rparr>"

definition seds_router_bind_p2p_stream_port :: "u16 \<Rightarrow> fn \<Rightarrow> router \<Rightarrow> seds_result \<times> router" where
  "seds_router_bind_p2p_stream_port port f r =
     (if port = 0 then (SEDS_BAD_ARG, r)
      else (SEDS_OK, r\<lparr>p2p_stream_handlers :=
              mput port (mget [] (p2p_stream_handlers r) port @ [Some f]) (p2p_stream_handlers r)\<rparr>))"

definition seds_router_clear_p2p_stream_port :: "u16 \<Rightarrow> router \<Rightarrow> router" where
  "seds_router_clear_p2p_stream_port port r = r\<lparr>p2p_stream_handlers := merase port (p2p_stream_handlers r)\<rparr>"

definition seds_router_send_p2p_to_hostname ::
    "env \<Rightarrow> world \<Rightarrow> string \<Rightarrow> u16 \<Rightarrow> u16 \<Rightarrow> bytes \<Rightarrow> router \<Rightarrow> seds_result \<times> router" where
  "seds_router_send_p2p_to_hostname E w host dst_port src_port body r =
     (case resolve_p2p_host host r of
        (None, r1) \<Rightarrow> (SEDS_BAD_ARG, r1)
      | (Some _, r1) \<Rightarrow> enqueue_p2p_packet E w dst_port src_port body r1)"

definition seds_router_send_p2p_to_address ::
    "env \<Rightarrow> world \<Rightarrow> u32 \<Rightarrow> u16 \<Rightarrow> u16 \<Rightarrow> bytes \<Rightarrow> router \<Rightarrow> seds_result \<times> router" where
  "seds_router_send_p2p_to_address E w addr dst_port src_port body r =
     (case resolve_p2p_address addr r of
        (None, r1) \<Rightarrow> (SEDS_BAD_ARG, r1)
      | (Some _, r1) \<Rightarrow> enqueue_p2p_packet E w dst_port src_port body r1)"

text \<open>The common tail of the two functions that open a stream: result, stream identifier, router.\<close>

definition open_p2p_stream ::
    "env \<Rightarrow> world \<Rightarrow> string \<times> u32 \<Rightarrow> u16 \<Rightarrow> u16 \<Rightarrow> router \<Rightarrow> seds_result \<times> u32 \<times> router" where
  "open_p2p_stream E w peer dst_port src_port r =
     (let (stream_id, r1) = allocate_p2p_stream_id r in
      if stream_id = 0 then (SEDS_IO, 0, r1)
      else
        let s = \<lparr>peer_hostname = fst peer, peer_address = snd peer, local_port = src_port, peer_port = dst_port,
                 peer_stream_id = 0, next_sequence = 1, connected = False\<rparr>;
            r2 = r1\<lparr>p2p_stream_sessions := mput stream_id s (p2p_stream_sessions r1)\<rparr>;
            (rc, r3) = enqueue_p2p_packet E w dst_port src_port
              (encode_p2p_stream_payload kP2pStreamSyn stream_id 0 0 []) r2
        in (rc, stream_id, r3))"

definition seds_router_open_p2p_stream_to_hostname ::
    "env \<Rightarrow> world \<Rightarrow> string \<Rightarrow> u16 \<Rightarrow> u16 \<Rightarrow> router \<Rightarrow> seds_result \<times> u32 \<times> router" where
  "seds_router_open_p2p_stream_to_hostname E w host dst_port src_port r =
     (case resolve_p2p_host host r of
        (None, r1) \<Rightarrow> (SEDS_BAD_ARG, 0, r1)
      | (Some peer, r1) \<Rightarrow>
          if dst_port = 0 \<or> src_port = 0 then (SEDS_BAD_ARG, 0, r1)
          else open_p2p_stream E w peer dst_port src_port r1)"

definition seds_router_open_p2p_stream_to_address ::
    "env \<Rightarrow> world \<Rightarrow> u32 \<Rightarrow> u16 \<Rightarrow> u16 \<Rightarrow> router \<Rightarrow> seds_result \<times> u32 \<times> router" where
  "seds_router_open_p2p_stream_to_address E w addr dst_port src_port r =
     (if dst_port = 0 \<or> src_port = 0 then (SEDS_BAD_ARG, 0, r)
      else case resolve_p2p_address addr r of
          (None, r1) \<Rightarrow> (SEDS_BAD_ARG, 0, r1)
        | (Some peer, r1) \<Rightarrow> open_p2p_stream E w peer dst_port src_port r1)"

definition seds_router_send_p2p_stream :: "env \<Rightarrow> world \<Rightarrow> u32 \<Rightarrow> bytes \<Rightarrow> router \<Rightarrow> seds_result \<times> router" where
  "seds_router_send_p2p_stream E w stream_id body r = send_p2p_stream_control E w stream_id kP2pStreamData body r"

definition seds_router_close_p2p_stream :: "env \<Rightarrow> world \<Rightarrow> u32 \<Rightarrow> router \<Rightarrow> seds_result \<times> router" where
  "seds_router_close_p2p_stream E w stream_id r = send_p2p_stream_control E w stream_id kP2pStreamFin [] r"

definition seds_router_reset_p2p_stream :: "env \<Rightarrow> world \<Rightarrow> u32 \<Rightarrow> router \<Rightarrow> seds_result \<times> router" where
  "seds_router_reset_p2p_stream E w stream_id r = send_p2p_stream_control E w stream_id kP2pStreamRst [] r"

end
