(* ===== verification/P2p_Facts.thy ===== *)
theory P2p_Facts
  imports P2p
begin

text \<open>
  What point-to-point messaging guarantees: datagrams and stream frames are read back exactly,
  a free stream identifier is found whenever there is one, the handshake leaves the two ends
  with mirrored sessions, and data sent on a stream reaches the handlers of the other end.
\<close>

section \<open>Encodings\<close>

lemma take_drop_cons: "take n (drop (Suc m) (x # xs)) = take n (drop m xs)"
  by simp

lemma decode_encode_p2p:
  assumes "length host < 2 ^ 16" "length body < 2 ^ 32"
  shows "decode_p2p_payload (encode_p2p_payload host addr sp dp body) =
    Some \<lparr>source_hostname = host, source_address = addr, source_port = sp, destination_port = dp, dg_payload = body\<rparr>"
proof -
  have u: "unat (word_of_nat (length host) :: u16) = length host" "unat (word_of_nat (length body) :: u32) = length body"
    using assms by (simp_all add: unsigned_of_nat take_bit_nat_eq_self)
  let ?bs = "encode_p2p_payload host addr sp dp body"
  have parts: "length ?bs = 15 + length host + length body" "?bs ! 0 = 1"
    "take 2 (drop 1 ?bs) = le_bytes 2 dp" "take 2 (drop 3 ?bs) = le_bytes 2 sp" "take 4 (drop 5 ?bs) = le_bytes 4 addr"
    "take 2 (drop 9 ?bs) = le_bytes 2 (word_of_nat (length host) :: u16)"
    "take 4 (drop 11 ?bs) = le_bytes 4 (word_of_nat (length body) :: u32)"
    "take (length host) (drop 15 ?bs) = bytes_of_string host"
    by (simp_all add: encode_p2p_payload_def)
  have "drop 15 ?bs = bytes_of_string host @ body" by (simp add: encode_p2p_payload_def)
  then have rest: "drop (15 + length host) ?bs = body" by (simp add: drop_drop [symmetric] add.commute del: drop_drop)
  show ?thesis unfolding decode_p2p_payload_def Let_def parts by (simp add: u rest parts)
qed

lemma decode_encode_stream:
  assumes "length body < 2 ^ 32"
  shows "decode_p2p_stream_payload (encode_p2p_stream_payload fl s d sq body) =
    Some \<lparr>fr_flags = fl, source_stream_id = s, destination_stream_id = d, fr_sequence = sq, fr_payload = body\<rparr>"
proof -
  have u: "unat (word_of_nat (length body) :: u32) = length body" using assms by (simp add: unsigned_of_nat take_bit_nat_eq_self)
  have m: "length kP2pStreamMagic = 4" by (simp add: kP2pStreamMagic_def)
  let ?bs = "encode_p2p_stream_payload fl s d sq body"
  have parts: "length ?bs = 22 + length body" "take 4 ?bs = kP2pStreamMagic" "?bs ! 4 = 1" "?bs ! 5 = fl"
    "take 4 (drop 6 ?bs) = le_bytes 4 s" "take 4 (drop 10 ?bs) = le_bytes 4 d" "take 4 (drop 14 ?bs) = le_bytes 4 sq"
    "take 4 (drop 18 ?bs) = le_bytes 4 (word_of_nat (length body) :: u32)" "drop 22 ?bs = body"
    by (simp_all add: encode_p2p_stream_payload_def m nth_append)
  show ?thesis unfolding decode_p2p_stream_payload_def Let_def parts by (simp add: u)
qed

text \<open>
  Every datagram and every stream frame is read back exactly, as long as its host name and
  its payload fit their length fields.
\<close>

theorem p2p_payload_roundtrip:
  assumes "length host < 2 ^ 16" "length body < 2 ^ 32"
  shows "decode_p2p_payload (encode_p2p_payload host addr sp dp body) =
      Some \<lparr>source_hostname = host, source_address = addr, source_port = sp, destination_port = dp, dg_payload = body\<rparr> \<and>
    decode_p2p_stream_payload (encode_p2p_stream_payload fl s d sq body) =
      Some \<lparr>fr_flags = fl, source_stream_id = s, destination_stream_id = d, fr_sequence = sq, fr_payload = body\<rparr>"
  using decode_encode_p2p [OF assms] decode_encode_stream [OF assms(2)] by simp

theorem p2p_payload_roundtrip_witness:
  "decode_p2p_payload (encode_p2p_payload ''GS'' 7 80 9000 [1, 2, 3]) =
     Some \<lparr>source_hostname = ''GS'', source_address = 7, source_port = 80, destination_port = 9000, dg_payload = [1, 2, 3]\<rparr>"
  using p2p_payload_roundtrip [of "''GS''" "[1, 2, 3]"] by simp

section \<open>Stream identifiers\<close>

text \<open>The identifiers in the order in which they are tried, counted from 0.\<close>

definition next_id :: "u32 \<Rightarrow> u32" where
  "next_id i = max 1 (i + 1)"

lemma max1: "max 1 n = (if n = 0 then 1 else n :: u32)"
  by (auto simp: max_def word_le_nat_alt unat_eq_zero Suc_le_eq unat_gt_0)

lemma next_id_rank: "i \<noteq> 0 \<Longrightarrow> unat (next_id i) - 1 = (unat i - 1 + 1) mod (2 ^ 32 - 1)"
proof -
  assume i: "i \<noteq> 0"
  then have p: "0 < unat i" by (simp add: unat_gt_0)
  have lt: "unat i < 2 ^ 32" using unsigned_less [of i, where 'a = nat] by simp
  show ?thesis
  proof (cases "i + 1 = 0")
    case True
    then have "i = - 1" by (simp add: eq_neg_iff_add_eq_0)
    then have "unat i = 2 ^ 32 - 1" by (simp add: unsigned_minus_1_eq_mask mask_eq_exp_minus_1)
    then show ?thesis using True by (simp add: next_id_def max1)
  next
    case False
    then have s: "unat (i + 1) = unat i + 1" by (metis add.commute Suc_eq_plus1 unatSuc)
    then have "unat i + 1 < 2 ^ 32" using unsigned_less [of "i + 1", where 'a = nat] by simp
    then show ?thesis using False s p by (simp add: next_id_def max1)
  qed
qed

lemma next_id_nonzero: "next_id i \<noteq> 0"
  by (simp add: next_id_def max1)

lemma iterate_rank:
  assumes "i \<noteq> 0"
  shows "(next_id ^^ n) i \<noteq> 0 \<and> unat ((next_id ^^ n) i) - 1 = (unat i - 1 + n) mod (2 ^ 32 - 1)"
proof (induction n)
  case 0
  have "unat i < 2 ^ 32" using unsigned_less [of i, where 'a = nat] by simp
  moreover have "0 < unat i" using assms by (simp add: unat_gt_0)
  ultimately have "unat i - 1 < 2 ^ 32 - 1" by linarith
  then show ?case using assms by simp
next
  case (Suc n)
  then show ?case using next_id_rank [of "(next_id ^^ n) i"] next_id_nonzero
    by (simp add: mod_Suc_eq)
qed

lemma iterate_inj:
  assumes "i \<noteq> 0"
  shows "inj_on (\<lambda>n. (next_id ^^ n) i) {..<2 ^ 32 - 1}"
proof (rule inj_onI)
  fix m n assume b: "m \<in> {..<2 ^ 32 - 1 :: nat}" "n \<in> {..<2 ^ 32 - 1 :: nat}" and e: "(next_id ^^ m) i = (next_id ^^ n) i"
  have "(unat i - 1 + m) mod (2 ^ 32 - 1) = (unat i - 1 + n) mod (2 ^ 32 - 1)"
    using iterate_rank [OF assms, of m] iterate_rank [OF assms, of n] e by simp
  then have "int (unat i - 1 + m) mod (2 ^ 32 - 1) = int (unat i - 1 + n) mod (2 ^ 32 - 1)"
    using arg_cong [of _ _ int] by (fastforce simp: zmod_int)
  then have "(2 ^ 32 - 1) dvd int m - int n" by (simp add: mod_eq_dvd_iff)
  moreover have "\<bar>int m - int n\<bar> < 2 ^ 32 - 1" using b by auto
  ultimately show "m = n" using zdvd_imp_le [of "2 ^ 32 - 1" "\<bar>int m - int n\<bar>"] by fastforce
qed

lemma allocate_loop_spec:
  "(fst (allocate_loop n S nxt) \<noteq> 0 \<longrightarrow> fst (allocate_loop n S nxt) \<notin> set (mkeys S)) \<and>
   (nxt \<noteq> 0 \<longrightarrow> fst (allocate_loop n S nxt) = 0 \<longrightarrow> (\<forall>k < n. (next_id ^^ k) nxt \<in> set (mkeys S)))"
proof (induction n arbitrary: nxt)
  case (Suc n)
  show ?case
  proof (cases "max 1 nxt \<in> set (mkeys S)")
    case True
    have e: "max 1 (nxt + 1) = next_id nxt" by (simp add: next_id_def)
    have "(next_id ^^ k) nxt \<in> set (mkeys S)"
      if "nxt \<noteq> 0" "\<forall>k < n. (next_id ^^ k) (next_id nxt) \<in> set (mkeys S)" "k < Suc n" for k
      using that True by (cases k) (auto simp: funpow_swap1 max1)
    with True Suc.IH [of "next_id nxt"] next_id_nonzero [of nxt] show ?thesis by (simp add: Let_def e)
  next
    case False
    then have "allocate_loop (Suc n) S nxt = (max 1 nxt, max 1 (nxt + 1))" by (simp add: Let_def)
    with False show ?thesis by (simp add: max1 del: allocate_loop.simps split: if_splits)
  qed
qed simp

lemma allocate_loop_next: "nxt \<noteq> 0 \<Longrightarrow> snd (allocate_loop n S nxt) \<noteq> 0"
  by (induction n arbitrary: nxt) (simp_all add: Let_def max1)

text \<open>
  Stream identifiers. With fewer than \<open>UINT32_MAX\<close> sessions an identifier is always found;
  it is not 0 and no session has it, so a new stream never replaces an open one. The counter
  starts at 1 and never becomes 0.
\<close>

theorem stream_id_fresh:
  assumes "length (p2p_stream_sessions r) < UINT32_MAX" "p2p_next_stream_id r \<noteq> 0"
  shows "fst (allocate_p2p_stream_id r) \<noteq> 0 \<and>
    fst (allocate_p2p_stream_id r) \<notin> set (mkeys (p2p_stream_sessions r)) \<and>
    p2p_stream_sessions (snd (allocate_p2p_stream_id r)) = p2p_stream_sessions r \<and>
    p2p_next_stream_id (snd (allocate_p2p_stream_id r)) \<noteq> 0"
proof -
  let ?S = "p2p_stream_sessions r" and ?i = "p2p_next_stream_id r"
  let ?a = "allocate_loop UINT32_MAX ?S (p2p_next_stream_id r)"
  have al: "fst (allocate_p2p_stream_id r) = fst ?a" "p2p_stream_sessions (snd (allocate_p2p_stream_id r)) = ?S"
    "p2p_next_stream_id (snd (allocate_p2p_stream_id r)) = snd ?a"
    by (simp_all add: allocate_p2p_stream_id_def split: prod.splits)
  have "fst ?a \<noteq> 0"
  proof
    assume "fst ?a = 0"
    then have "\<forall>k < UINT32_MAX. (next_id ^^ k) ?i \<in> set (mkeys ?S)" using allocate_loop_spec assms(2) by blast
    then have "(\<lambda>k. (next_id ^^ k) ?i) ` {..<UINT32_MAX} \<subseteq> set (mkeys ?S)" by auto
    moreover have "card ((\<lambda>k. (next_id ^^ k) ?i) ` {..<UINT32_MAX}) = UINT32_MAX"
      using iterate_inj [OF assms(2)] by (simp add: card_image UINT32_MAX_def)
    ultimately have "UINT32_MAX \<le> card (set (mkeys ?S))" by (metis List.finite_set card_mono)
    also have "\<dots> \<le> length ?S" using card_length [of "mkeys ?S"] by simp
    finally show False using assms by simp
  qed
  then show ?thesis
    using allocate_loop_spec [of UINT32_MAX ?S ?i] allocate_loop_next [OF assms(2)] al by simp
qed

theorem stream_id_fresh_witness:
  "fst (allocate_p2p_stream_id sample_router) \<noteq> 0"
proof -
  have "length (p2p_stream_sessions sample_router) < UINT32_MAX"
    "p2p_next_stream_id sample_router \<noteq> 0"
    by (simp_all add: sample_router_def owner.defs router.defs UINT32_MAX_def)
  from stream_id_fresh [OF this] show ?thesis by blast
qed

section \<open>Handlers do not touch the sessions\<close>

lemma call_handlers_frame:
  assumes "call_handlers w mk fs r = (rc, r')"
  shows "\<exists>evs. r' = r\<lparr>trace := trace r @ evs\<rparr> \<and> (rc = SEDS_OK \<longrightarrow> evs = map mk (List.map_filter (\<lambda>f. f) fs))"
  using assms
proof (induction w mk fs r rule: call_handlers.induct)
  case (1 w mk r)
  then show ?case by (intro exI [of _ "[]"]) (simp add: map_filter_simps)
next
  case (2 w mk fs r)
  then show ?case by (simp add: map_filter_simps)
next
  case (3 w mk f fs r)
  show ?case
  proof (cases "respond w (trace r) (mk f) = SEDS_OK")
    case False
    then show ?thesis using 3(2) by (intro exI [of _ "[mk f]"]) (auto simp: call_back_def Let_def)
  next
    case True
    then have "call_handlers w mk fs (r\<lparr>trace := trace r @ [mk f]\<rparr>) = (rc, r')"
      using 3(2) by (simp add: call_back_def Let_def)
    from 3(1) [OF _ refl _ this] True obtain evs where "r' = r\<lparr>trace := trace r @ [mk f] @ evs\<rparr>"
      "rc = SEDS_OK \<longrightarrow> evs = map mk (List.map_filter (\<lambda>f. f) fs)" by (auto simp: call_back_def)
    then show ?thesis by (intro exI [of _ "mk f # evs"]) (simp add: map_filter_simps)
  qed
qed

lemma call_stream_handlers_frame:
  assumes "call_stream_handlers w port ev r = (rc, r')"
  shows "\<exists>evs. r' = r\<lparr>p2p_stream_handlers := touch_port port (p2p_stream_handlers r), trace := trace r @ evs\<rparr> \<and>
    (rc = SEDS_OK \<longrightarrow> evs = map (\<lambda>f. P2pStream f ev) (List.map_filter (\<lambda>f. f) (mget [] (p2p_stream_handlers r) port)))"
  using call_handlers_frame [OF assms [unfolded call_stream_handlers_def Let_def]] by simp

section \<open>The last item of the transmit queue\<close>

definition p2p_room :: "env \<Rightarrow> nat \<Rightarrow> router \<Rightarrow> bool" where
  "p2p_room E n r \<longleftrightarrow> length (r_sender r) < 2 ^ 16 \<and> n < 2 ^ 32 \<and>
     58 + n + 2 * length (r_sender r) + 4 * length (ti_endpoints (type_at E (p2p_type_id E))) \<le>
       unat (max_queue_budget (memory r))"

lemma push_tx_last: "byte_cost_tx i \<le> max_queue_budget (memory r) \<Longrightarrow> last (tx_queue (push_tx i r)) = i"
  by (simp add: push_tx_def set_tx_def enqueue_tx_def enqueue_bounded_def Let_def not_less split: prod.splits)

lemma byte_cost_tx_le: "byte_cost_packet (tx_pkt i) + 9 \<le> unat b \<Longrightarrow> byte_cost_tx i \<le> b"
  unfolding byte_cost_tx_def word_le_nat_alt unsigned_of_nat of_nat_id
  by (rule order_trans [OF take_bit_nat_less_eq_self]) simp

lemma push_tx_router_frame [frame_simps]:
  "p2p_stream_sessions (push_tx i r) = p2p_stream_sessions r" "r_sender (push_tx i r) = r_sender r"
  "memory (push_tx i r) = memory r" "p2p_stream_handlers (push_tx i r) = p2p_stream_handlers r"
  "p2p_address (push_tx i r) = p2p_address r" "trace (push_tx i r) = trace r"
  "p2p_address_book (push_tx i r) = p2p_address_book r" "p2p_host_by_address (push_tx i r) = p2p_host_by_address r"
  by (simp_all add: push_tx_def set_tx_def)

text \<open>The address a node signs its datagrams with.\<close>

definition own_address :: "router \<Rightarrow> u32" where
  "own_address r = (if p2p_address r = 0 then address_for_sender (r_sender r) else p2p_address r)"

lemma local_p2p_address_frame:
  "fst (local_p2p_address r) = own_address r" "r_sender (snd (local_p2p_address r)) = r_sender r"
  "p2p_stream_sessions (snd (local_p2p_address r)) = p2p_stream_sessions r"
  "p2p_stream_handlers (snd (local_p2p_address r)) = p2p_stream_handlers r"
  "memory (snd (local_p2p_address r)) = memory r" "trace (snd (local_p2p_address r)) = trace r"
  "own_address (snd (local_p2p_address r)) = own_address r" "own_address r \<noteq> 0"
  by (simp_all add: local_p2p_address_def learn_address_def own_address_def address_for_sender_def Let_def)

lemma enqueue_p2p_packet_spec:
  assumes "enqueue_p2p_packet E w dp sp body r = (SEDS_OK, r')" "p2p_room E (length body - 22) r"
  shows "dp \<noteq> 0" "ty (tx_pkt (last (tx_queue r'))) = p2p_type_id E"
    and "payload (tx_pkt (last (tx_queue r'))) = encode_p2p_payload (r_sender r) (own_address r) sp dp body"
    and "p2p_stream_sessions r' = p2p_stream_sessions r" "r_sender r' = r_sender r" "memory r' = memory r"
    and "p2p_stream_handlers r' = p2p_stream_handlers r" "own_address r' = own_address r" "trace r' = trace r"
proof -
  let ?a = "fst (local_p2p_address r)" and ?r1 = "snd (local_p2p_address r)"
  let ?i = "p2p_item E w ?a dp sp body ?r1"
  have r': "r' = push_tx ?i ?r1" and dp: "dp \<noteq> 0"
    using assms(1) by (auto simp: enqueue_p2p_packet_def split: if_splits prod.splits)
  have "byte_cost_packet (tx_pkt ?i) + 9 = 36 + length body + 2 * length (r_sender r) +
      4 * length (ti_endpoints (type_at E (p2p_type_id E)))"
    by (simp add: byte_cost_packet_def p2p_item_def make_internal_packet_def encode_p2p_payload_def
        local_p2p_address_frame Let_def)
  moreover have "58 + (length body - 22) + 2 * length (r_sender r) +
      4 * length (ti_endpoints (type_at E (p2p_type_id E))) \<le> unat (max_queue_budget (memory r))"
    using assms(2) by (simp add: p2p_room_def)
  ultimately have "byte_cost_packet (tx_pkt ?i) + 9 \<le> unat (max_queue_budget (memory r))" by linarith
  then have "byte_cost_tx ?i \<le> max_queue_budget (memory ?r1)"
    by (intro byte_cost_tx_le) (simp add: local_p2p_address_frame)
  then have l: "last (tx_queue r') = ?i" by (simp add: r' push_tx_last)
  show "dp \<noteq> 0" by (rule dp)
  show "ty (tx_pkt (last (tx_queue r'))) = p2p_type_id E"
    "payload (tx_pkt (last (tx_queue r'))) = encode_p2p_payload (r_sender r) (own_address r) sp dp body"
    by (simp_all add: l p2p_item_def make_internal_packet_def local_p2p_address_frame Let_def)
  show "p2p_stream_sessions r' = p2p_stream_sessions r" "r_sender r' = r_sender r" "memory r' = memory r"
    "p2p_stream_handlers r' = p2p_stream_handlers r" "trace r' = trace r"
    by (simp_all add: r' frame_simps local_p2p_address_frame)
  show "own_address r' = own_address r"
    by (metis r' push_tx_router_frame(2,5) own_address_def local_p2p_address_frame(7))
qed

section \<open>Streams between two nodes\<close>

lemma dispatch_stream_packet:
  assumes "ty pkt = p2p_type_id E"
    and "payload pkt = encode_p2p_payload host addr sp dp (encode_p2p_stream_payload fl s d sq body)"
    and "length host < 2 ^ 16" "length body + 22 < 2 ^ 32"
  shows "dispatch_p2p_packet E w pkt r = dispatch_p2p_stream E w
    \<lparr>source_hostname = host, source_address = addr, source_port = sp, destination_port = dp,
     dg_payload = encode_p2p_stream_payload fl s d sq body\<rparr>
    \<lparr>fr_flags = fl, source_stream_id = s, destination_stream_id = d, fr_sequence = sq, fr_payload = body\<rparr>
    (if host \<noteq> [] then learn_address host addr r else r)"
proof -
  have "length (encode_p2p_stream_payload fl s d sq body) < 2 ^ 32"
    using assms(4) by (simp add: encode_p2p_stream_payload_def kP2pStreamMagic_def)
  then show ?thesis
    using assms decode_encode_p2p [of host] decode_encode_stream [of body]
    by (simp add: dispatch_p2p_packet_def Let_def)
qed

lemma learn_address_frame [frame_simps]:
  "p2p_stream_sessions (learn_address h a r) = p2p_stream_sessions r" "r_sender (learn_address h a r) = r_sender r"
  "memory (learn_address h a r) = memory r" "p2p_stream_handlers (learn_address h a r) = p2p_stream_handlers r"
  "p2p_address (learn_address h a r) = p2p_address r" "trace (learn_address h a r) = trace r"
  "p2p_next_stream_id (learn_address h a r) = p2p_next_stream_id r"
  by (simp_all add: learn_address_def)

lemma allocate_frame:
  "\<exists>n. snd (allocate_p2p_stream_id r) = r\<lparr>p2p_next_stream_id := n\<rparr>"
  by (auto simp: allocate_p2p_stream_id_def split: prod.splits)

text \<open>Two ends of one stream: \<open>s\<close> at the node \<open>r\<close> and \<open>s'\<close>, with identifier \<open>i'\<close>, at the node \<open>r'\<close>.\<close>

definition end_of :: "p2p_stream_session \<Rightarrow> router \<Rightarrow> u32 \<Rightarrow> u16 \<Rightarrow> u16 \<Rightarrow> bool" where
  "end_of s peer peer_id here there \<longleftrightarrow>
     peer_hostname s = r_sender peer \<and> local_port s = here \<and> peer_port s = there \<and> peer_stream_id s = peer_id \<and> connected s"

lemma open_p2p_stream_spec:
  assumes "open_p2p_stream E w peer dp sp A = (SEDS_OK, a, A1)" "p2p_room E 0 A"
  shows "a \<noteq> 0" "ty (tx_pkt (last (tx_queue A1))) = p2p_type_id E"
    and "payload (tx_pkt (last (tx_queue A1))) = encode_p2p_payload (r_sender A) (own_address A) sp dp
           (encode_p2p_stream_payload kP2pStreamSyn a 0 0 [])"
    and "map_of (p2p_stream_sessions A1) a = Some \<lparr>peer_hostname = fst peer, peer_address = snd peer, local_port = sp,
           peer_port = dp, peer_stream_id = 0, next_sequence = 1, connected = False\<rparr>"
    and "r_sender A1 = r_sender A" "memory A1 = memory A" "own_address A1 = own_address A"
proof -
  obtain n where n: "snd (allocate_p2p_stream_id A) = A\<lparr>p2p_next_stream_id := n\<rparr>" using allocate_frame by blast
  let ?s = "\<lparr>peer_hostname = fst peer, peer_address = snd peer, local_port = sp,
           peer_port = dp, peer_stream_id = 0, next_sequence = 1, connected = False\<rparr>"
  let ?A = "A\<lparr>p2p_next_stream_id := n, p2p_stream_sessions := mput a ?s (p2p_stream_sessions A)\<rparr>"
  have e: "a \<noteq> 0" "enqueue_p2p_packet E w dp sp (encode_p2p_stream_payload kP2pStreamSyn a 0 0 []) ?A = (SEDS_OK, A1)"
    using assms(1) n by (auto simp: open_p2p_stream_def Let_def split: prod.splits if_splits)
  have room: "p2p_room E (length (encode_p2p_stream_payload kP2pStreamSyn a 0 0 []) - 22) ?A"
    using assms(2) by (simp add: p2p_room_def encode_p2p_stream_payload_def kP2pStreamMagic_def)
  note sp = enqueue_p2p_packet_spec [OF e(2) room]
  show "a \<noteq> 0" by (rule e)
  show "ty (tx_pkt (last (tx_queue A1))) = p2p_type_id E"
    "payload (tx_pkt (last (tx_queue A1))) = encode_p2p_payload (r_sender A) (own_address A) sp dp
           (encode_p2p_stream_payload kP2pStreamSyn a 0 0 [])"
    "map_of (p2p_stream_sessions A1) a = Some ?s" "r_sender A1 = r_sender A" "memory A1 = memory A"
    "own_address A1 = own_address A"
    using sp by (simp_all add: own_address_def)
qed

lemma stream_syn_accepted:
  assumes "dispatch_p2p_packet E w pkt B = (SEDS_OK, B1)" "ty pkt = p2p_type_id E"
    and "payload pkt = encode_p2p_payload host addr sp dp (encode_p2p_stream_payload kP2pStreamSyn a 0 0 [])"
    and "length host < 2 ^ 16" "p2p_room E 0 B" "\<forall>(i, s) \<in> set (p2p_stream_sessions B). peer_hostname s \<noteq> host"
  shows "\<exists>b. b \<noteq> 0 \<and> ty (tx_pkt (last (tx_queue B1))) = p2p_type_id E \<and>
    payload (tx_pkt (last (tx_queue B1))) = encode_p2p_payload (r_sender B) (own_address B) dp sp
      (encode_p2p_stream_payload (kP2pStreamSyn OR kP2pStreamAck) b a 0 []) \<and>
    map_of (p2p_stream_sessions B1) b = Some \<lparr>peer_hostname = host, peer_address = addr, local_port = dp,
      peer_port = sp, peer_stream_id = a, next_sequence = 1, connected = True\<rparr> \<and>
    r_sender B1 = r_sender B \<and> own_address B1 = own_address B"
proof -
  let ?msg = "\<lparr>source_hostname = host, source_address = addr, source_port = sp, destination_port = dp,
     dg_payload = encode_p2p_stream_payload kP2pStreamSyn a 0 0 []\<rparr>"
  let ?frame = "\<lparr>fr_flags = kP2pStreamSyn, source_stream_id = a, destination_stream_id = 0, fr_sequence = 0, fr_payload = []\<rparr>"
  let ?B = "if host \<noteq> [] then learn_address host addr B else B"
  have Bf: "p2p_stream_sessions ?B = p2p_stream_sessions B" "r_sender ?B = r_sender B" "memory ?B = memory B"
    "p2p_address ?B = p2p_address B" by (simp_all add: frame_simps)
  have syn: "stream_syn E w ?msg ?frame ?B = (SEDS_OK, B1)"
    using assms(1) dispatch_stream_packet [OF assms(2-4)] by (simp add: dispatch_p2p_stream_def)
  have "find (\<lambda>(_, s). session_matches ?msg ?frame s) (p2p_stream_sessions B) = None"
    using assms(6) by (auto simp: find_None_iff session_matches_def)
  then have f: "find_session ?msg ?frame ?B = 0" using Bf by (simp add: find_session_def)
  obtain n where n: "snd (allocate_p2p_stream_id ?B) = ?B\<lparr>p2p_next_stream_id := n\<rparr>" using allocate_frame by blast
  define b where "b = fst (allocate_p2p_stream_id ?B)"
  let ?s = "\<lparr>peer_hostname = host, peer_address = addr, local_port = dp,
      peer_port = sp, peer_stream_id = a, next_sequence = 1, connected = True\<rparr>"
  let ?r2 = "?B\<lparr>p2p_next_stream_id := n, p2p_stream_sessions := mput b ?s (p2p_stream_sessions ?B)\<rparr>"
  obtain rc r3 where h: "call_stream_handlers w dp (stream_event_of 1 b ?s ?frame) ?r2 = (rc, r3)" by fastforce
  have al: "allocate_p2p_stream_id ?B = (b, ?B\<lparr>p2p_next_stream_id := n\<rparr>)" by (simp add: b_def n [symmetric])
  have out: "b \<noteq> 0" "enqueue_p2p_packet E w sp dp (encode_p2p_stream_payload (kP2pStreamSyn OR kP2pStreamAck) b a 0 []) r3 =
      (SEDS_OK, B1)"
    using syn unfolding stream_syn_def Let_def f al prod.case
    by (auto simp: h split: if_splits)
  obtain evs where "r3 = ?r2\<lparr>p2p_stream_handlers := touch_port dp (p2p_stream_handlers ?r2), trace := trace ?r2 @ evs\<rparr>"
    using call_stream_handlers_frame [OF h] by blast
  then have r3: "p2p_stream_sessions r3 = mput b ?s (p2p_stream_sessions B)" "r_sender r3 = r_sender B" "memory r3 = memory B"
    "p2p_address r3 = p2p_address B" using Bf by simp_all
  have room: "p2p_room E (length (encode_p2p_stream_payload (kP2pStreamSyn OR kP2pStreamAck) b a 0 []) - 22) r3"
    using assms(5) by (simp add: p2p_room_def encode_p2p_stream_payload_def kP2pStreamMagic_def r3)
  note sp = enqueue_p2p_packet_spec [OF out(2) room]
  have "own_address r3 = own_address B" by (simp add: own_address_def r3)
  then show ?thesis using sp out(1) r3 by (intro exI [of _ b]) simp
qed

text \<open>
  (C25) The stream handshake. A node opens a stream to a host it knows; the other node handles
  the SYN, its handlers accept, and the first node handles the SYN-ACK. Then both have a
  connected session, and the two mirror each other: each names the other's identifier, its own
  port and the other's port. The second node has no earlier session with the first, and both have
  room for the packets.
\<close>

theorem stream_handshake_connects:
  assumes "seds_router_open_p2p_stream_to_hostname E wA (r_sender B) dp sp A = (SEDS_OK, a, A1)"
    and "dispatch_p2p_packet E wB (tx_pkt (last (tx_queue A1))) B = (SEDS_OK, B1)"
    and "dispatch_p2p_packet E wA (tx_pkt (last (tx_queue B1))) A1 = (rc, A2)"
    and "r_sender A \<noteq> r_sender B" "p2p_room E 0 A" "p2p_room E 0 B"
    and "\<forall>(i, s) \<in> set (p2p_stream_sessions B). peer_hostname s \<noteq> r_sender A"
  shows "\<exists>b sa sb. map_of (p2p_stream_sessions A2) a = Some sa \<and> end_of sa B b sp dp \<and>
    map_of (p2p_stream_sessions B1) b = Some sb \<and> end_of sb A a dp sp \<and> peer_address sb = own_address A"
proof -
  obtain addr where op: "open_p2p_stream E wA (r_sender B, addr) dp sp A = (SEDS_OK, a, A1)"
    using assms(1,4) by (auto simp: seds_router_open_p2p_stream_to_hostname_def resolve_p2p_host_def
        split: option.splits if_splits prod.splits)
  note A1 = open_p2p_stream_spec [OF op assms(5)]
  have "length (r_sender A) < 2 ^ 16" using assms(5) by (simp add: p2p_room_def)
  from stream_syn_accepted [OF assms(2) A1(2,3) this assms(6,7)] obtain b where
    b: "b \<noteq> 0" "ty (tx_pkt (last (tx_queue B1))) = p2p_type_id E"
      "payload (tx_pkt (last (tx_queue B1))) = encode_p2p_payload (r_sender B) (own_address B) dp sp
        (encode_p2p_stream_payload (kP2pStreamSyn OR kP2pStreamAck) b a 0 [])"
      "map_of (p2p_stream_sessions B1) b = Some \<lparr>peer_hostname = r_sender A, peer_address = own_address A,
        local_port = dp, peer_port = sp, peer_stream_id = a, next_sequence = 1, connected = True\<rparr>" by blast
  let ?frame = "\<lparr>fr_flags = kP2pStreamSyn OR kP2pStreamAck, source_stream_id = b, destination_stream_id = a,
    fr_sequence = 0, fr_payload = []\<rparr>"
  let ?A = "if r_sender B \<noteq> [] then learn_address (r_sender B) (own_address B) A1 else A1"
  have "length (r_sender B) < 2 ^ 16" using assms(6) by (simp add: p2p_room_def)
  then have "stream_syn_ack wA ?frame ?A = (rc, A2)"
    using assms(3) dispatch_stream_packet [OF b(2,3)] by (simp add: dispatch_p2p_stream_def)
  then obtain sa evs ev where sa: "sa = \<lparr>peer_hostname = r_sender B, peer_address = addr, local_port = sp,
      peer_port = dp, peer_stream_id = b, next_sequence = 1, connected = True\<rparr>"
    "call_stream_handlers wA sp ev (?A\<lparr>p2p_stream_sessions := mput a sa (p2p_stream_sessions ?A)\<rparr>) = (rc, A2)"
    using A1(4) by (auto simp: stream_syn_ack_def Let_def frame_simps split: if_splits)
  then have "map_of (p2p_stream_sessions A2) a = Some sa"
    using call_stream_handlers_frame [OF sa(2)] by auto
  then show ?thesis using b(4) sa(1) by (intro exI [of _ b]) (simp add: end_of_def)
qed

lemma allocate_first:
  assumes "max 1 (p2p_next_stream_id r) \<notin> set (mkeys (p2p_stream_sessions r))"
  shows "allocate_p2p_stream_id r =
    (max 1 (p2p_next_stream_id r), r\<lparr>p2p_next_stream_id := max 1 (p2p_next_stream_id r + 1)\<rparr>)"
proof -
  obtain k where k: "UINT32_MAX = Suc k" by (cases UINT32_MAX) (simp_all add: UINT32_MAX_def)
  have "allocate_loop UINT32_MAX (p2p_stream_sessions r) (p2p_next_stream_id r) =
      (max 1 (p2p_next_stream_id r), max 1 (p2p_next_stream_id r + 1))"
    unfolding k using assms by (simp add: Let_def)
  then show ?thesis by (simp add: allocate_p2p_stream_id_def)
qed

lemma enqueue_p2p_packet_ok: "dp \<noteq> 0 \<Longrightarrow> \<exists>r'. enqueue_p2p_packet E w dp sp body r = (SEDS_OK, r')"
  by (simp add: enqueue_p2p_packet_def split: prod.splits)

lemma enqueue_p2p_packet_case:
  "dp \<noteq> 0 \<Longrightarrow> (case enqueue_p2p_packet E w dp sp body r of (rc, r') \<Rightarrow> f rc r') =
     f SEDS_OK (snd (enqueue_p2p_packet E w dp sp body r))"
  by (simp add: enqueue_p2p_packet_def split: prod.splits)

definition p2p_env :: env where
  "p2p_env = sample_env\<lparr>kTypeInfo := sample_types @ [builtin_sample ''SEDSNET_P2P_MESSAGE'']\<rparr>"

definition sample_peer :: router where
  "sample_peer = sample_router\<lparr>r_sender := ''GS'', node_sender := ''GS''\<rparr>"

definition sample_opener :: router where
  "sample_opener = sample_router\<lparr>p2p_address_book := [(''GS'', 7)]\<rparr>"

lemmas sample_router_defs = sample_router_def sample_owner_def owner.defs router.defs

lemma sample_p2p_type: "p2p_type_id p2p_env = 13" "ti_endpoints (type_at p2p_env 13) = [3]"
  by (simp_all add: p2p_type_id_def local_type_id_def type_by_name_def v4_type_names_def p2p_env_def sample_defs
      type_at_def)

lemma sample_rooms: "p2p_room p2p_env 0 sample_opener" "p2p_room p2p_env 0 sample_peer"
  by (simp_all add: p2p_room_def sample_p2p_type sample_opener_def sample_peer_def sample_router_defs
      default_runtime_memory_config_def)

theorem stream_handshake_connects_witness:
  "\<exists>A1 B1 A2 sa b. seds_router_open_p2p_stream_to_hostname p2p_env sample_world ''GS'' 80 9000 sample_opener =
      (SEDS_OK, 1, A1) \<and>
    fst (dispatch_p2p_packet p2p_env sample_world (tx_pkt (last (tx_queue A1))) sample_peer) = SEDS_OK \<and>
    dispatch_p2p_packet p2p_env sample_world (tx_pkt (last (tx_queue A1))) sample_peer = (SEDS_OK, B1) \<and>
    dispatch_p2p_packet p2p_env sample_world (tx_pkt (last (tx_queue B1))) A1 = A2 \<and>
    map_of (p2p_stream_sessions (snd A2)) 1 = Some sa \<and> end_of sa sample_peer b 9000 80"
proof -
  let ?A = sample_opener and ?B = sample_peer
  have rs: "r_sender ?B = ''GS''" "r_sender ?A = ''CPP''" "p2p_stream_sessions ?B = []" "p2p_stream_handlers ?B = []"
    "p2p_next_stream_id ?A = 1" "p2p_next_stream_id ?B = 1" "p2p_stream_sessions ?A = []"
    by (simp_all add: sample_peer_def sample_opener_def sample_router_defs)
  obtain A1 where op: "open_p2p_stream p2p_env sample_world (''GS'', 7) 80 9000 ?A = (SEDS_OK, 1, A1)"
    by (simp add: open_p2p_stream_def allocate_first rs Let_def enqueue_p2p_packet_case)
  have "resolve_p2p_host ''GS'' ?A = (Some (''GS'', 7), ?A)"
    by (simp add: resolve_p2p_host_def rs) (simp add: sample_opener_def)
  then have o: "seds_router_open_p2p_stream_to_hostname p2p_env sample_world (r_sender ?B) 80 9000 ?A = (SEDS_OK, 1, A1)"
    using op by (simp add: seds_router_open_p2p_stream_to_hostname_def rs)
  note spec = open_p2p_stream_spec [OF op sample_rooms(1)]
  have "\<exists>B1. dispatch_p2p_packet p2p_env sample_world (tx_pkt (last (tx_queue A1))) ?B = (SEDS_OK, B1)"
    using dispatch_stream_packet [OF spec(2,3), of sample_world ?B] enqueue_p2p_packet_ok [of 9000]
    by (simp add: rs dispatch_p2p_stream_def stream_syn_def find_session_def allocate_first call_stream_handlers_def
        mget_def frame_simps Let_def)
  then obtain B1 where d: "dispatch_p2p_packet p2p_env sample_world (tx_pkt (last (tx_queue A1))) ?B = (SEDS_OK, B1)" ..
  obtain rc A2 where e: "dispatch_p2p_packet p2p_env sample_world (tx_pkt (last (tx_queue B1))) A1 = (rc, A2)" by fastforce
  have "r_sender ?A \<noteq> r_sender ?B" "\<forall>(i, s) \<in> set (p2p_stream_sessions ?B). peer_hostname s \<noteq> r_sender ?A"
    by (simp_all add: rs)
  from stream_handshake_connects [OF o d e this(1) sample_rooms this(2)] o d e show ?thesis
    unfolding rs(1) by (metis fst_conv snd_conv)
qed

lemma send_p2p_stream_spec:
  assumes "seds_router_send_p2p_stream E w a body A = (SEDS_OK, A1)" "map_of (p2p_stream_sessions A) a = Some sa"
    and "p2p_room E (length body) A"
  shows "ty (tx_pkt (last (tx_queue A1))) = p2p_type_id E"
    and "payload (tx_pkt (last (tx_queue A1))) = encode_p2p_payload (r_sender A) (own_address A) (local_port sa)
      (peer_port sa) (encode_p2p_stream_payload kP2pStreamData a (peer_stream_id sa) (next_sequence sa) body)"
    and "p2p_stream_sessions A1 = mput a (sa\<lparr>next_sequence := bump_seq (next_sequence sa)\<rparr>) (p2p_stream_sessions A)"
proof -
  let ?pl = "encode_p2p_stream_payload kP2pStreamData a (peer_stream_id sa) (next_sequence sa) body"
  let ?A = "A\<lparr>p2p_stream_sessions := mput a (sa\<lparr>next_sequence := bump_seq (next_sequence sa)\<rparr>) (p2p_stream_sessions A)\<rparr>"
  have e: "enqueue_p2p_packet E w (peer_port sa) (local_port sa) ?pl ?A = (SEDS_OK, A1)"
    using assms(1,2)
    by (auto simp: seds_router_send_p2p_stream_def send_p2p_stream_control_def Let_def bump_seq_def split: prod.splits if_splits)
  have room: "p2p_room E (length ?pl - 22) ?A"
    using assms(3) by (simp add: p2p_room_def encode_p2p_stream_payload_def kP2pStreamMagic_def)
  show "ty (tx_pkt (last (tx_queue A1))) = p2p_type_id E"
    "payload (tx_pkt (last (tx_queue A1))) = encode_p2p_payload (r_sender A) (own_address A) (local_port sa) (peer_port sa) ?pl"
    "p2p_stream_sessions A1 = mput a (sa\<lparr>next_sequence := bump_seq (next_sequence sa)\<rparr>) (p2p_stream_sessions A)"
    using enqueue_p2p_packet_spec [OF e room] by (simp_all add: own_address_def)
qed

text \<open>
  (C26) Data on a stream. When the two ends of a stream are mirrored and one sends data that
  fits the queue, handling the datagram at the other end calls every handler bound to the port
  of the stream there, in order, with exactly the data, the identifiers of both ends and the
  sender's next sequence number; the receiver's sessions stay as they were and the sender's
  sequence number advances, skipping 0.
\<close>

theorem stream_data_delivered:
  assumes "map_of (p2p_stream_sessions A) a = Some sa" "map_of (p2p_stream_sessions B) b = Some sb"
    and "peer_stream_id sa = b" "b \<noteq> 0" "p2p_room E (length body) A" "length body + 22 < 2 ^ 32"
    and "seds_router_send_p2p_stream E wA a body A = (SEDS_OK, A1)"
    and "dispatch_p2p_packet E wB (tx_pkt (last (tx_queue A1))) B = (SEDS_OK, B1)"
  shows "trace B1 = trace B @ map (\<lambda>f. P2pStream f
        \<lparr>ev_kind = 3, ev_stream_id = b, ev_peer_stream_id = a, ev_sequence = next_sequence sa,
         ev_peer_hostname = peer_hostname sb, ev_peer_address = peer_address sb, ev_local_port = local_port sb,
         ev_peer_port = peer_port sb, ev_payload = body\<rparr>)
      (List.map_filter (\<lambda>f. f) (mget [] (p2p_stream_handlers B) (local_port sb))) \<and>
    p2p_stream_sessions B1 = p2p_stream_sessions B \<and>
    map_of (p2p_stream_sessions A1) a = Some (sa\<lparr>next_sequence := bump_seq (next_sequence sa)\<rparr>)"
proof -
  note sp = send_p2p_stream_spec [OF assms(7,1,5), unfolded assms(3)]
  have host: "length (r_sender A) < 2 ^ 16" using assms(5) by (simp add: p2p_room_def)
  let ?B = "if r_sender A \<noteq> [] then learn_address (r_sender A) (own_address A) B else B"
  let ?msg = "\<lparr>source_hostname = r_sender A, source_address = own_address A, source_port = local_port sa,
    destination_port = peer_port sa,
    dg_payload = encode_p2p_stream_payload kP2pStreamData a b (next_sequence sa) body\<rparr>"
  let ?frame = "\<lparr>fr_flags = kP2pStreamData, source_stream_id = a, destination_stream_id = b,
    fr_sequence = next_sequence sa, fr_payload = body\<rparr>"
  have "dispatch_p2p_stream E wB ?msg ?frame ?B = (SEDS_OK, B1)"
    using assms(8) dispatch_stream_packet [OF sp(1,2) host assms(6)] by simp
  then have d: "stream_data wB ?msg ?frame ?B = (SEDS_OK, B1)" by (simp add: dispatch_p2p_stream_def)
  have "map_of (p2p_stream_sessions ?B) b = Some sb" using assms(2) by (simp add: frame_simps)
  then have c: "call_stream_handlers wB (local_port sb) (stream_event_of 3 b sb ?frame) ?B = (SEDS_OK, B1)"
    using d assms(4) by (auto simp: stream_data_def Let_def split: prod.splits if_splits)
  obtain evs where B1: "B1 = ?B\<lparr>p2p_stream_handlers := touch_port (local_port sb) (p2p_stream_handlers ?B),
      trace := trace ?B @ evs\<rparr>" "evs = map (\<lambda>f. P2pStream f (stream_event_of 3 b sb ?frame))
      (List.map_filter (\<lambda>f. f) (mget [] (p2p_stream_handlers ?B) (local_port sb)))"
    using call_stream_handlers_frame [OF c] by blast
  have Bf: "p2p_stream_handlers ?B = p2p_stream_handlers B" "trace ?B = trace B"
    "p2p_stream_sessions ?B = p2p_stream_sessions B" by (simp_all add: frame_simps)
  have "trace B1 = trace B @ evs" "p2p_stream_sessions B1 = p2p_stream_sessions B" by (simp_all add: B1(1) frame_simps)
  then show ?thesis using sp(3) unfolding B1(2) Bf by (simp add: stream_event_of_def)
qed

definition sample_session :: "string \<Rightarrow> u16 \<Rightarrow> u16 \<Rightarrow> u32 \<Rightarrow> p2p_stream_session" where
  "sample_session host here there i = \<lparr>peer_hostname = host, peer_address = 7, local_port = here, peer_port = there,
     peer_stream_id = i, next_sequence = 1, connected = True\<rparr>"

theorem stream_data_delivered_witness:
  "\<exists>A1 B1. seds_router_send_p2p_stream p2p_env sample_world 4 [42]
      (sample_opener\<lparr>p2p_stream_sessions := [(4, sample_session ''GS'' 9000 80 6)]\<rparr>) = (SEDS_OK, A1) \<and>
    dispatch_p2p_packet p2p_env sample_world (tx_pkt (last (tx_queue A1)))
      (sample_peer\<lparr>p2p_stream_sessions := [(6, sample_session ''CPP'' 80 9000 4)], p2p_stream_handlers := [(80, [Some 1])]\<rparr>) =
      (SEDS_OK, B1) \<and>
    trace B1 = [P2pStream 1 \<lparr>ev_kind = 3, ev_stream_id = 6, ev_peer_stream_id = 4, ev_sequence = 1,
      ev_peer_hostname = ''CPP'', ev_peer_address = 7, ev_local_port = 80, ev_peer_port = 9000, ev_payload = [42]\<rparr>]"
proof -
  let ?A = "sample_opener\<lparr>p2p_stream_sessions := [(4, sample_session ''GS'' 9000 80 6)]\<rparr>"
  let ?B = "sample_peer\<lparr>p2p_stream_sessions := [(6, sample_session ''CPP'' 80 9000 4)], p2p_stream_handlers := [(80, [Some 1])]\<rparr>"
  have m: "map_of (p2p_stream_sessions ?A) 4 = Some (sample_session ''GS'' 9000 80 6)"
    "map_of (p2p_stream_sessions ?B) 6 = Some (sample_session ''CPP'' 80 9000 4)" by simp_all
  have room: "p2p_room p2p_env (length [42 :: u8]) ?A"
    by (simp add: p2p_room_def sample_p2p_type sample_opener_def sample_router_defs default_runtime_memory_config_def)
  have "\<exists>A1. seds_router_send_p2p_stream p2p_env sample_world 4 [42] ?A = (SEDS_OK, A1)"
    by (simp add: seds_router_send_p2p_stream_def send_p2p_stream_control_def Let_def enqueue_p2p_packet_case
        sample_session_def enqueue_p2p_packet_ok)
  then obtain A1 where s: "seds_router_send_p2p_stream p2p_env sample_world 4 [42] ?A = (SEDS_OK, A1)" ..
  have t: "trace ?B = []" "sample_world = \<lparr>clock = \<lambda>_. 1000, respond = \<lambda>_ _. SEDS_OK\<rparr>"
    by (simp_all add: sample_peer_def sample_router_defs sample_world_def)
  have ok: "fst (call_handlers sample_world mk fs r) = SEDS_OK" for mk fs r
    by (induction sample_world mk fs r rule: call_handlers.induct) (auto simp: call_back_def t(2) Let_def)
  have case_ok: "(case call_handlers sample_world mk fs r of (rc, r') \<Rightarrow> f rc r') =
      f SEDS_OK (snd (call_handlers sample_world mk fs r))" for mk fs r and f :: "seds_result \<Rightarrow> router \<Rightarrow> seds_result \<times> router"
    using ok [of mk fs r] by (simp add: case_prod_unfold)
  have r: "r_sender ?A = ''CPP''" by (simp add: sample_opener_def sample_router_defs)
  note sp = send_p2p_stream_spec [OF s m(1) room]
  have "fst (dispatch_p2p_packet p2p_env sample_world (tx_pkt (last (tx_queue A1))) ?B) = SEDS_OK"
    using dispatch_stream_packet [OF sp(1,2), of sample_world ?B] r
    by (simp add: dispatch_p2p_stream_def stream_data_def sample_session_def call_stream_handlers_def Let_def frame_simps
        case_ok)
  then obtain B1 where d: "dispatch_p2p_packet p2p_env sample_world (tx_pkt (last (tx_queue A1))) ?B = (SEDS_OK, B1)"
    by (metis prod.collapse)
  from stream_data_delivered [OF m _ _ room _ s d] t(1) have "trace B1 = [P2pStream 1 \<lparr>ev_kind = 3, ev_stream_id = 6,
      ev_peer_stream_id = 4, ev_sequence = 1, ev_peer_hostname = ''CPP'', ev_peer_address = 7, ev_local_port = 80,
      ev_peer_port = 9000, ev_payload = [42]\<rparr>]"
    by (simp add: sample_session_def mget_def map_filter_simps)
  with s d show ?thesis by blast
qed

end
