(* ===== verification/Endtoend.thy ===== *)
theory Endtoend
  imports P2p_Facts
begin

text \<open>
  End-to-end reliable delivery (\<open>src/router_core.cpp\<close>): which boards a packet is expected to
  reach, the acknowledgements they send back, the packets a router keeps until all have come,
  and the destinations a relay knows to be satisfied.
\<close>

section \<open>Acknowledgement senders\<close>

definition kEndToEndAckSender :: string where "kEndToEndAckSender = ''E2EACK''"

definition kEndToEndAckPrefix :: string where "kEndToEndAckPrefix = ''E2EACK:''"

definition is_end_to_end_ack_sender :: "string \<Rightarrow> bool" where
  "is_end_to_end_ack_sender s \<longleftrightarrow>
     s = kEndToEndAckSender \<or> take (length kEndToEndAckPrefix) s = kEndToEndAckPrefix"

definition decode_end_to_end_ack_sender_hash :: "string \<Rightarrow> u64 option" where
  "decode_end_to_end_ack_sender_hash s =
     (if take (length kEndToEndAckPrefix) s \<noteq> kEndToEndAckPrefix \<or> length s \<le> length kEndToEndAckPrefix then None
      else Some (sender_hash (drop (length kEndToEndAckPrefix) s)))"

definition encode_end_to_end_ack_sender :: "router \<Rightarrow> string" where
  "encode_end_to_end_ack_sender r = kEndToEndAckPrefix @ r_sender r"

definition is_end_to_end_destination_sender :: "string \<Rightarrow> bool" where
  "is_end_to_end_destination_sender s \<longleftrightarrow> s \<noteq> ''RELAY'' \<and> \<not> is_end_to_end_ack_sender s"

definition board_matches_any_endpoint :: "topology_board_node \<Rightarrow> u32 list \<Rightarrow> bool" where
  "board_matches_any_endpoint board eps \<longleftrightarrow> list_ex (\<lambda>ep. ep \<in> set (reachable_endpoints board)) eps"

section \<open>Expected destinations\<close>

text \<open>The boards one announcer contributes: its topology, or the announcer itself without one.\<close>

definition announcer_destinations :: "packet \<Rightarrow> string \<times> sender_state \<Rightarrow> u64 list" where
  "announcer_destinations pkt A =
     (let (from, s) = A in
      map (\<lambda>b. sender_hash (sender_id b))
        (filter (\<lambda>b. is_end_to_end_destination_sender (sender_id b) \<and> board_matches_any_endpoint b (endpoints pkt))
          (topology_boards s)) @
      (if topology_boards s = [] \<and> is_end_to_end_destination_sender from \<and>
          list_ex (\<lambda>ep. ep \<in> set (ss_endpoints s)) (endpoints pkt)
       then [sender_hash from] else []))"

definition route_awaited :: "env \<Rightarrow> router \<Rightarrow> packet \<Rightarrow> u64 \<Rightarrow> i32 \<times> discovery_route \<Rightarrow> bool" where
  "route_awaited E r pkt now R =
     (let (side_id, route) = R in
      \<not> now - rt_last_seen_ms route > kDiscoveryTtlMs \<and> in_range side_id (sides r) \<and>
      egress_enabled (sides r ! nat side_id) \<and>
      (packet_requires_link_local E pkt \<longrightarrow> link_local_enabled (sides r ! nat side_id)))"

text \<open>\<open>out[hash] = side_id\<close>, returning as soon as the map has \<open>cap\<close> entries.\<close>

fun insert_capped :: "nat \<Rightarrow> (u64, i32) amap \<Rightarrow> (u64 \<times> i32) list \<Rightarrow> (u64, i32) amap" where
  "insert_capped cap out [] = out"
| "insert_capped cap out ((h, s) # rest) =
     (let out' = mput h s out in if cap \<le> length out' then out' else insert_capped cap out' rest)"

definition expected_end_to_end_destinations :: "env \<Rightarrow> world \<Rightarrow> router \<Rightarrow> packet \<Rightarrow> (u64, i32) amap" where
  "expected_end_to_end_destinations E w r pkt =
     insert_capped (reliable_max_end_to_end_pending (tuning E)) []
       (concat (map (\<lambda>(side_id, route).
          map (\<lambda>h. (h, side_id)) (concat (map (announcer_destinations pkt) (announcers route))))
          (filter (route_awaited E r pkt (now_ms w r)) (discovery_routes r))))"

section \<open>Pending packets of a router\<close>

definition remember_end_to_end_reliable_tx :: "env \<Rightarrow> u64 \<Rightarrow> router \<Rightarrow> router" where
  "remember_end_to_end_reliable_tx E pid r =
     (let (order, m) = remember_id (reliable_max_end_to_end_pending (tuning E)) pid
                         (end_to_end_reliable_tx_order r, end_to_end_reliable_tx r)
      in r\<lparr>end_to_end_reliable_tx_order := order, end_to_end_reliable_tx := m\<rparr>)"

text \<open>What \<open>transmit_item\<close> does before sending a reliable packet to its targets.\<close>

definition track_end_to_end :: "env \<Rightarrow> world \<Rightarrow> packet \<Rightarrow> i32 list \<Rightarrow> router \<Rightarrow> router option" where
  "track_end_to_end E w pkt targets r =
     (if is_reliable_type E (ty pkt) \<and> \<not> is_internal_control_type (ty pkt) \<and>
         list_ex (\<lambda>s. in_range s (sides r) \<and> reliable_enabled (sides r ! nat s) \<and>
                      serialized_tx (sides r ! nat s) \<noteq> None) targets
      then let pending = expected_end_to_end_destinations E w r pkt in
        if pending = [] then Some r
        else do {
          pid \<leftarrow> packet_id E pkt;
          let r1 = remember_end_to_end_reliable_tx E pid r;
          Some (r1\<lparr>end_to_end_reliable_tx := mput pid
                     \<lparr>e2e_pkt = pkt, pending_destinations = pending, tracked_destinations = True,
                      e2e_last_send_ms = now_ms w r1, e2e_retries = 0, e2e_queued = False\<rparr>
                     (end_to_end_reliable_tx r1)\<rparr>)
        }
      else Some r)"

definition queue_end_to_end_ack :: "env \<Rightarrow> world \<Rightarrow> packet \<Rightarrow> i32 option \<Rightarrow> router \<Rightarrow> router option" where
  "queue_end_to_end_ack E w pkt src r = do {
     pid \<leftarrow> packet_id E pkt;
     source_id \<leftarrow> source_packet_id E pkt;
     let item = (\<lambda>i r. \<lparr>tx_pkt = make_e2e_reliable_ack_packet E i (now_ms w r) (encode_end_to_end_ack_sender r),
                        tx_src_side = None, tx_dst_side = src, deliver_local = False\<rparr>);
     let r1 = push_tx_front (item pid r) r;
     Some (if source_id \<noteq> pid then push_tx_front (item source_id r1) r1 else r1)
   }"

text \<open>An end-to-end acknowledgement at the router that sent the packet.\<close>

definition end_to_end_acked :: "u64 \<Rightarrow> string \<Rightarrow> router \<Rightarrow> router" where
  "end_to_end_acked acked_id from r =
     (case map_of (end_to_end_reliable_tx r) acked_id of
        None \<Rightarrow> r
      | Some entry \<Rightarrow>
          (case decode_end_to_end_ack_sender_hash from of
             Some h \<Rightarrow>
               let pending = merase h (pending_destinations entry) in
               if pending = [] then r\<lparr>end_to_end_reliable_tx := merase acked_id (end_to_end_reliable_tx r)\<rparr>
               else r\<lparr>end_to_end_reliable_tx :=
                        mput acked_id (entry\<lparr>pending_destinations := pending\<rparr>) (end_to_end_reliable_tx r)\<rparr>
           | None \<Rightarrow> r\<lparr>end_to_end_reliable_tx := merase acked_id (end_to_end_reliable_tx r)\<rparr>))"

definition destination_announced :: "discovery_route \<Rightarrow> u64 \<Rightarrow> bool" where
  "destination_announced route h \<longleftrightarrow>
     list_ex (\<lambda>(from, s).
       list_ex (\<lambda>b. is_end_to_end_destination_sender (sender_id b) \<and> sender_hash (sender_id b) = h) (topology_boards s) \<or>
       topology_boards s = [] \<and> is_end_to_end_destination_sender from \<and> sender_hash from = h) (announcers route)"

definition destination_alive :: "env \<Rightarrow> world \<Rightarrow> router \<Rightarrow> packet \<Rightarrow> u64 \<times> i32 \<Rightarrow> bool" where
  "destination_alive E w r pkt D =
     (let (h, s) = D in
      in_range s (sides r) \<and> egress_enabled (sides r ! nat s) \<and>
      (packet_requires_link_local E pkt \<longrightarrow> link_local_enabled (sides r ! nat s)) \<and>
      (case map_of (discovery_routes r) s of
         None \<Rightarrow> False
       | Some route \<Rightarrow> now_ms w r - rt_last_seen_ms route \<le> kDiscoveryTtlMs \<and> destination_announced route h))"

definition reconcile_end_to_end_reliable_destinations :: "env \<Rightarrow> world \<Rightarrow> router \<Rightarrow> router" where
  "reconcile_end_to_end_reliable_destinations E w r =
     r\<lparr>end_to_end_reliable_tx :=
        filter (\<lambda>(_, entry). \<not> tracked_destinations entry \<or> pending_destinations entry \<noteq> [])
          (map (\<lambda>(k, entry). (k, if tracked_destinations entry
              then entry\<lparr>pending_destinations :=
                     filter (destination_alive E w r (e2e_pkt entry)) (pending_destinations entry)\<rparr>
              else entry)) (end_to_end_reliable_tx r))\<rparr>"

text \<open>The first loop over the pending packets: expired ones go, due ones are marked.\<close>

definition e2e_due :: "u64 \<Rightarrow> end_to_end_sent \<Rightarrow> bool" where
  "e2e_due now entry \<longleftrightarrow> \<not> (e2e_queued entry \<or> now - e2e_last_send_ms entry < 200)"

definition mark_due :: "u64 \<Rightarrow> (u64, end_to_end_sent) amap \<Rightarrow> u64 list \<times> (u64, end_to_end_sent) amap" where
  "mark_due now m =
     (map fst (filter (\<lambda>(_, entry). e2e_due now entry \<and> e2e_retries entry < 8) m),
      map (\<lambda>(k, entry). (k, if e2e_due now entry then entry\<lparr>e2e_retries := e2e_retries entry + 1, e2e_queued := True\<rparr> else entry))
        (filter (\<lambda>(_, entry). \<not> (e2e_due now entry \<and> 8 \<le> e2e_retries entry)) m))"

text \<open>The second loop: one copy of the packet for every side with a pending destination.\<close>

definition requeue_pending :: "u64 \<Rightarrow> router \<Rightarrow> u64 \<Rightarrow> router" where
  "requeue_pending now r pid =
     (case map_of (end_to_end_reliable_tx r) pid of
        None \<Rightarrow> r
      | Some entry \<Rightarrow>
          let targets = sort_dedup (map snd (pending_destinations entry));
              item = (\<lambda>dst. \<lparr>tx_pkt = e2e_pkt entry, tx_src_side = None, tx_dst_side = dst, deliver_local = False\<rparr>)
          in if tracked_destinations entry \<and> targets = []
             then r\<lparr>end_to_end_reliable_tx := merase pid (end_to_end_reliable_tx r)\<rparr>
             else
               let r1 = foldl (\<lambda>r s. push_tx_front (item (Some s)) r) r targets;
                   r2 = (if tracked_destinations entry then r1 else push_tx_front (item None) r1)
               in r2\<lparr>end_to_end_reliable_tx := mput pid (entry\<lparr>e2e_last_send_ms := now, e2e_queued := False\<rparr>)
                        (end_to_end_reliable_tx r2)\<rparr>)"

definition process_end_to_end_reliable_timeouts :: "env \<Rightarrow> world \<Rightarrow> router \<Rightarrow> router" where
  "process_end_to_end_reliable_timeouts E w r =
     (let now = now_ms w r;
          r1 = reconcile_end_to_end_reliable_destinations E w r;
          (requeue, m) = mark_due now (end_to_end_reliable_tx r1)
      in foldl (requeue_pending now) (r1\<lparr>end_to_end_reliable_tx := m\<rparr>) requeue)"

section \<open>Satisfied destinations of a relay\<close>

definition note_end_to_end_acked_destination :: "env \<Rightarrow> u64 \<Rightarrow> u64 \<Rightarrow> relay \<Rightarrow> relay" where
  "note_end_to_end_acked_destination E pid h r =
     (let (order, m) = remember_id (reliable_max_end_to_end_ack_cache (tuning E)) pid
                         (end_to_end_acked_destination_order r, end_to_end_acked_destinations r);
          senders = mget [] m pid;
          senders' = (if length senders < max 1 (reliable_max_end_to_end_pending (tuning E)) \<or> h \<in> set senders
                      then List.insert h senders else senders)
      in r\<lparr>end_to_end_acked_destination_order := order, end_to_end_acked_destinations := mput pid senders' m\<rparr>)"

text \<open>The loop over the boards of one announcer: \<open>had_destination_board\<close> and \<open>still_pending\<close>.\<close>

fun scan_boards :: "u64 list \<Rightarrow> u32 list \<Rightarrow> topology_board_node list \<Rightarrow> bool \<Rightarrow> bool \<times> bool" where
  "scan_boards acked eps [] had = (had, False)"
| "scan_boards acked eps (b # bs) had =
     (if \<not> is_end_to_end_destination_sender (sender_id b) then scan_boards acked eps bs had
      else if board_matches_any_endpoint b eps \<and> sender_hash (sender_id b) \<notin> set acked then (True, True)
      else scan_boards acked eps bs True)"

fun scan_announcers :: "u64 list \<Rightarrow> u32 list \<Rightarrow> (string, sender_state) amap \<Rightarrow> bool \<Rightarrow> bool \<times> bool" where
  "scan_announcers acked eps [] had = (had, False)"
| "scan_announcers acked eps ((from, s) # rest) had =
     (let (had1, pending) = scan_boards acked eps (topology_boards s) had;
          (had2, pending2) =
            (if \<not> had1 \<and> topology_boards s = [] \<and> is_end_to_end_destination_sender from
             then (True, list_ex (\<lambda>ep. ep \<in> set (ss_endpoints s) \<and> sender_hash from \<notin> set acked) eps)
             else (had1, pending))
      in if pending2 then (had2, True) else scan_announcers acked eps rest had2)"

definition side_unsatisfied :: "u64 list \<Rightarrow> packet \<Rightarrow> relay \<Rightarrow> i32 \<Rightarrow> bool" where
  "side_unsatisfied acked pkt r s =
     (case map_of (discovery_routes r) s of
        None \<Rightarrow> True
      | Some route \<Rightarrow>
          if announcers route = [] then True
          else let (had, pending) = scan_announcers acked (endpoints pkt) (announcers route) False
               in pending \<or> \<not> had)"

definition filter_end_to_end_satisfied_sides :: "env \<Rightarrow> packet \<Rightarrow> i32 list \<Rightarrow> relay \<Rightarrow> i32 list option" where
  "filter_end_to_end_satisfied_sides E pkt ss r =
     (if \<not> is_reliable_type E (ty pkt) \<or> is_internal_control_type (ty pkt) then Some ss
      else do {
        pid \<leftarrow> packet_id E pkt;
        Some (case map_of (end_to_end_acked_destinations r) pid of
                None \<Rightarrow> ss
              | Some acked \<Rightarrow> filter (side_unsatisfied acked pkt r) ss)
      })"

end
