(* ===== verification/Router.thy ===== *)
theory Router
  imports Endtoend
begin

text \<open>
  The router (\<open>src/router_core.cpp\<close>, \<open>src/upstream_api_compat.cpp\<close>): local delivery with its
  retries and error packets, transmission, managed variables, and reception. The result is
  \<open>None\<close> where the sources would throw or run into undefined behaviour: an endpoint without a
  name in \<open>packet_id\<close>, or a cache of recent identities of capacity 0.
\<close>

section \<open>Local delivery\<close>

definition tx_error_message :: "side \<Rightarrow> seds_result \<Rightarrow> string" where
  "tx_error_message s rc =
     ''TX handler failed on side '' @ side_name s @ '': '' @ error_string (result_code rc)"

definition local_handler_error_message :: "env \<Rightarrow> u32 \<Rightarrow> seds_result \<Rightarrow> string" where
  "local_handler_error_message E ep rc =
     (let ep_name = (case endpoint_at E ep of Some nm \<Rightarrow> nm | None \<Rightarrow> to_string (unat ep))
      in ''Handler for endpoint '' @ ep_name @ '' failed: '' @ error_string (result_code rc))"

definition local_endpoints_for_error :: "env \<Rightarrow> local_endpoint list \<Rightarrow> u32 list" where
  "local_endpoints_for_error E ls =
     (let eps = push_missing [] (map le_endpoint ls) in
      if eps = [] \<and> valid_type E SEDS_DT_TELEMETRY_ERROR
      then ti_endpoints (type_at E SEDS_DT_TELEMETRY_ERROR) else eps)"

text \<open>At most \<open>max_handler_retries\<close> attempts, until one succeeds.\<close>

fun attempt_handler :: "nat \<Rightarrow> world \<Rightarrow> event \<Rightarrow> seds_result \<Rightarrow> 'a owner_scheme \<Rightarrow> seds_result \<times> 'a owner_scheme" where
  "attempt_handler 0 w ev rc r = (rc, r)"
| "attempt_handler (Suc n) w ev rc r =
     (let (rc', r') = call_back w ev r
      in if rc' = SEDS_OK then (SEDS_OK, r') else attempt_handler n w ev rc' r')"

record failure =
  had_failure :: bool
  error_endpoints :: "u32 list"
  failing_endpoint :: u32
  failing_rc :: seds_result

definition no_failure :: failure where
  "no_failure = \<lparr>had_failure = False, error_endpoints = [], failing_endpoint = 0, failing_rc = SEDS_OK\<rparr>"

definition note_failure :: "local_endpoint list \<Rightarrow> local_endpoint \<Rightarrow> seds_result \<Rightarrow> failure \<Rightarrow> failure" where
  "note_failure ls l rc f =
     (let f1 = f\<lparr>had_failure := True\<rparr>;
          f2 = (if failing_rc f1 = SEDS_OK then f1\<lparr>failing_endpoint := le_endpoint l, failing_rc := rc\<rparr> else f1)
      in f2\<lparr>error_endpoints := push_missing (error_endpoints f2)
              (map le_endpoint (filter (\<lambda>other. le_endpoint other \<noteq> le_endpoint l \<and> packet_handler other \<noteq> None) ls))\<rparr>)"

fun deliver_packet_handlers ::
    "env \<Rightarrow> world \<Rightarrow> packet \<Rightarrow> local_endpoint list \<Rightarrow> local_endpoint list \<Rightarrow> failure \<Rightarrow> 'a owner_scheme
     \<Rightarrow> failure \<times> 'a owner_scheme" where
  "deliver_packet_handlers E w pkt ls [] f r = (f, r)"
| "deliver_packet_handlers E w pkt ls (l # rest) f r =
     (if le_endpoint l \<notin> set (endpoints pkt) then deliver_packet_handlers E w pkt ls rest f r
      else case packet_handler l of
          None \<Rightarrow> deliver_packet_handlers E w pkt ls rest f r
        | Some h \<Rightarrow>
            let (rc, r') = attempt_handler (max_handler_retries (tuning E)) w (PacketHandler h pkt) SEDS_OK r
            in deliver_packet_handlers E w pkt ls rest (if rc \<noteq> SEDS_OK then note_failure ls l rc f else f) r')"

fun notify_handlers :: "world \<Rightarrow> packet \<Rightarrow> local_endpoint list \<Rightarrow> 'a owner_scheme \<Rightarrow> 'a owner_scheme" where
  "notify_handlers w pkt [] r = r"
| "notify_handlers w pkt (l # rest) r =
     notify_handlers w pkt rest
       (case packet_handler l of
          Some h \<Rightarrow> if le_endpoint l \<in> set (endpoints pkt) then snd (call_back w (PacketHandler h pkt) r) else r
        | None \<Rightarrow> r)"

definition dispatch_local_packet_handlers ::
    "env \<Rightarrow> world \<Rightarrow> packet \<Rightarrow> local_endpoint list \<Rightarrow> 'a owner_scheme \<Rightarrow> seds_result \<times> 'a owner_scheme" where
  "dispatch_local_packet_handlers E w pkt ls r =
     (let (f, r1) = deliver_packet_handlers E w pkt ls ls no_failure r;
          r2 = (if had_failure f \<and> ty pkt \<noteq> SEDS_DT_TELEMETRY_ERROR \<and> error_endpoints f \<noteq> [] then
                  notify_handlers w (make_router_error_packet E (error_endpoints f)
                    (local_handler_error_message E (failing_endpoint f) (failing_rc f))) ls r1
                else r1)
      in (if had_failure f then SEDS_HANDLER_ERROR else SEDS_OK, r2))"

fun dispatch_local_serialized_handlers ::
    "world \<Rightarrow> u32 list \<Rightarrow> bytes \<Rightarrow> local_endpoint list \<Rightarrow> 'a owner_scheme \<Rightarrow> 'a owner_scheme" where
  "dispatch_local_serialized_handlers w eps bs [] r = r"
| "dispatch_local_serialized_handlers w eps bs (l # rest) r =
     dispatch_local_serialized_handlers w eps bs rest
       (case serialized_handler l of
          Some h \<Rightarrow> if le_endpoint l \<in> set eps then snd (call_back w (SerializedHandler h bs) r) else r
        | None \<Rightarrow> r)"

definition dispatch_local_from_packet ::
    "env \<Rightarrow> world \<Rightarrow> packet \<Rightarrow> local_endpoint list \<Rightarrow> 'a owner_scheme \<Rightarrow> 'a owner_scheme" where
  "dispatch_local_from_packet E w pkt ls r =
     (let (_, r1) = dispatch_local_packet_handlers E w pkt ls r
      in dispatch_local_serialized_handlers w (endpoints pkt) (serialize_packet E pkt) ls r1)"

section \<open>Transmission\<close>

text \<open>The policy a packet is routed with, and the targets it selects.\<close>

definition choose_targets ::
    "env \<Rightarrow> world \<Rightarrow> string option \<Rightarrow> tx_item \<Rightarrow> 'a owner_scheme \<Rightarrow> i32 list \<times> 'a owner_scheme" where
  "choose_targets E w preferred item r =
     (let policy = (case tx_src_side item of Some s \<Rightarrow> mget default_policy (source_policy r) s | None \<Rightarrow> local_policy r);
          (targets, policy') = select_destinations E (sides r) (discovery_routes r) (route_overrides r)
            (typed_route_overrides r) policy (tx_pkt item) (tx_src_side item) (tx_dst_side item) preferred (now_ms w r)
      in (targets, case tx_src_side item of
            Some s \<Rightarrow> r\<lparr>source_policy := mput s policy' (source_policy r)\<rparr>
          | None \<Rightarrow> r\<lparr>local_policy := policy'\<rparr>))"

definition report_tx_error :: "env \<Rightarrow> world \<Rightarrow> packet \<Rightarrow> side \<Rightarrow> seds_result \<Rightarrow> router \<Rightarrow> router" where
  "report_tx_error E w pkt s rc r =
     (if ty pkt \<noteq> SEDS_DT_TELEMETRY_ERROR then
        dispatch_local_from_packet E w
          (make_router_error_packet E (local_endpoints_for_error E (locals r)) (tx_error_message s rc)) (locals r) r
      else r)"

fun transmit_to :: "env \<Rightarrow> world \<Rightarrow> packet \<Rightarrow> i32 list \<Rightarrow> bool \<Rightarrow> router \<Rightarrow> seds_result \<times> router" where
  "transmit_to E w pkt [] failed r = (if failed then SEDS_HANDLER_ERROR else SEDS_OK, r)"
| "transmit_to E w pkt (side_id # rest) failed r =
     (if \<not> in_range side_id (sides r) \<or> \<not> egress_enabled (sides r ! nat side_id) then transmit_to E w pkt rest failed r
      else let s = sides r ! nat side_id in
        case serialized_tx s of
          Some _ \<Rightarrow>
            let (rc, r1) = send_serialized_with_reliable E w side_id pkt r in
            if rc \<noteq> SEDS_OK then
              if rc = SEDS_IO \<and> side_tx_deferred r1 then (SEDS_IO, r1\<lparr>side_tx_deferred := False\<rparr>)
              else transmit_to E w pkt rest True (report_tx_error E w pkt s rc r1)
            else transmit_to E w pkt rest failed r1
        | None \<Rightarrow>
            (case packet_tx s of
               None \<Rightarrow> transmit_to E w pkt rest failed r
             | Some f \<Rightarrow>
                 let (rc, r1) = call_back w (PacketTx f pkt) r in
                 if rc \<noteq> SEDS_OK then transmit_to E w pkt rest True (report_tx_error E w pkt s rc r1)
                 else transmit_to E w pkt rest failed r1))"

definition transmit_item_router :: "env \<Rightarrow> world \<Rightarrow> tx_item \<Rightarrow> router \<Rightarrow> (seds_result \<times> router) option" where
  "transmit_item_router E w item r =
     (let pkt = tx_pkt item;
          (rc, r1) = (if deliver_local item then dispatch_local_packet_handlers E w pkt (locals r) r else (SEDS_OK, r))
      in if rc \<noteq> SEDS_OK then Some (SEDS_HANDLER_ERROR, r1)
         else
           let r2 = (if deliver_local item then
                       dispatch_local_serialized_handlers w (endpoints pkt) (serialize_packet E pkt) (locals r1) r1
                     else r1);
               preferred = (if ty pkt = SEDS_DT_TIME_SYNC_REQUEST \<and> current_source (timesync r2) \<noteq> []
                            then Some (current_source (timesync r2)) else None);
               (targets, r3) = choose_targets E w preferred item r2
           in do {
             r4 \<leftarrow> track_end_to_end E w pkt targets r3;
             Some (transmit_to E w pkt targets False r4)
           })"

section \<open>Managed variables\<close>

definition managed_request_type :: "env \<Rightarrow> u32" where
  "managed_request_type E = (case local_type_from_wire_id E 13 of Some t \<Rightarrow> t | None \<Rightarrow> 1013)"

definition local_type_or_wire :: "env \<Rightarrow> u32 \<Rightarrow> u32" where
  "local_type_or_wire E t = (case local_type_from_wire_id E t of Some l \<Rightarrow> l | None \<Rightarrow> t)"

definition decode_managed_request_type :: "env \<Rightarrow> packet \<Rightarrow> u32 option" where
  "decode_managed_request_type E pkt =
     (if length (payload pkt) \<noteq> 4 then None else Some (local_type_or_wire E (from_le (payload pkt))))"

definition invoke_managed_callback :: "world \<Rightarrow> packet \<Rightarrow> router \<Rightarrow> router" where
  "invoke_managed_callback w pkt r =
     (case map_of (managed_callbacks r) (ty pkt) of
        Some (Some f) \<Rightarrow> snd (call_back w (ManagedCallback f pkt) r)
      | _ \<Rightarrow> r)"

definition store_managed :: "env \<Rightarrow> world \<Rightarrow> packet \<Rightarrow> router \<Rightarrow> router" where
  "store_managed E w pkt r =
     r\<lparr>managed_latest := mput (ty pkt)
         \<lparr>mv_pkt = pkt, mv_packed = serialize_packet E pkt, mv_updated_ms = now_ms w r\<rparr> (managed_latest r)\<rparr>"

definition remember_managed_variable_packet :: "env \<Rightarrow> world \<Rightarrow> packet \<Rightarrow> router \<Rightarrow> router" where
  "remember_managed_variable_packet E w pkt r =
     (case map_of (managed_policy r) (ty pkt) of
        None \<Rightarrow> r
      | Some p \<Rightarrow> if \<not> mv_enabled p then r else invoke_managed_callback w pkt (store_managed E w pkt r))"

definition handle_managed_variable_request ::
    "env \<Rightarrow> packet \<Rightarrow> i32 option \<Rightarrow> router \<Rightarrow> bool \<times> router" where
  "handle_managed_variable_request E pkt src r =
     (if ty pkt \<noteq> managed_request_type E then (False, r)
      else case decode_managed_request_type E pkt of
          None \<Rightarrow> (True, r)
        | Some t \<Rightarrow>
            (case map_of (managed_latest r) t of
               None \<Rightarrow> (True, r)
             | Some latest \<Rightarrow>
                 (True, push_tx \<lparr>tx_pkt = mv_pkt latest, tx_src_side = None, tx_dst_side = src, deliver_local = False\<rparr> r)))"

section \<open>Reception\<close>

definition has_local_handler :: "packet \<Rightarrow> router \<Rightarrow> bool" where
  "has_local_handler pkt r \<longleftrightarrow>
     list_ex (\<lambda>l. le_endpoint l \<in> set (endpoints pkt) \<and> (packet_handler l \<noteq> None \<or> serialized_handler l \<noteq> None)) (locals r)"

definition wants_end_to_end :: "env \<Rightarrow> packet \<Rightarrow> bool" where
  "wants_end_to_end E pkt \<longleftrightarrow> is_reliable_type E (ty pkt) \<and> \<not> is_internal_control_type (ty pkt)"

definition note_return_routes :: "env \<Rightarrow> packet \<Rightarrow> i32 option \<Rightarrow> u64 \<Rightarrow> 'a owner_scheme \<Rightarrow> 'a owner_scheme option" where
  "note_return_routes E pkt src pid r =
     (case src of
        None \<Rightarrow> Some r
      | Some s \<Rightarrow>
          if \<not> wants_end_to_end E pkt then Some r
          else do {
            source_id \<leftarrow> source_packet_id E pkt;
            let r1 = note_reliable_return_route E s pid r;
            Some (if source_id \<noteq> pid then note_reliable_return_route E s source_id r1 else r1)
          })"

text \<open>Link-level control packets: the acknowledged type and sequence number.\<close>

definition handle_link_control :: "env \<Rightarrow> world \<Rightarrow> packet \<Rightarrow> i32 option \<Rightarrow> 'a owner_scheme \<Rightarrow> 'a owner_scheme" where
  "handle_link_control E w pkt src r =
     (case src of
        None \<Rightarrow> r
      | Some s \<Rightarrow>
          if length (payload pkt) \<noteq> 8 then r
          else
            let t = local_type_or_wire E (from_le (take 4 (payload pkt)));
                sq = from_le (drop 4 (payload pkt))
            in if ty pkt = SEDS_DT_RELIABLE_ACK then handle_ack_impl E s t sq r
               else if ty pkt = SEDS_DT_RELIABLE_PARTIAL_ACK then handle_partial_ack_impl s t sq r
               else handle_packet_request_impl w s t sq r)"

definition is_end_to_end_ack :: "packet \<Rightarrow> bool" where
  "is_end_to_end_ack pkt \<longleftrightarrow>
     ty pkt = SEDS_DT_RELIABLE_ACK \<and> is_end_to_end_ack_sender (sender pkt) \<and> length (payload pkt) = 8"

text \<open>What happens to a packet that is not a duplicate.\<close>

definition receive_fresh :: "env \<Rightarrow> world \<Rightarrow> packet \<Rightarrow> i32 option \<Rightarrow> router \<Rightarrow> router option" where
  "receive_fresh E w pkt src r =
     (if is_internal_control_type (ty pkt) then
        Some (if is_end_to_end_ack pkt then end_to_end_acked (from_le (payload pkt)) (sender pkt) r
              else handle_link_control E w pkt src r)
      else
        let (handled, r1) = handle_managed_variable_request E pkt src r in
        if handled then Some r1
        else if ty pkt = p2p_type_id E then Some (snd (dispatch_p2p_packet E w pkt r1))
        else if is_discovery_control_type (ty pkt) then Some (handle_discovery_packet_router E w pkt src r1)
        else if ty pkt = SEDS_DT_TIME_SYNC_ANNOUNCE \<or> ty pkt = SEDS_DT_TIME_SYNC_REQUEST \<or>
                ty pkt = SEDS_DT_TIME_SYNC_RESPONSE
        then Some (handle_timesync_packet E w pkt src r1)
        else
          let (_, r2) = dispatch_local_packet_handlers E w pkt (locals r1) r1;
              r3 = remember_managed_variable_packet E w pkt r2
          in do {
            r4 \<leftarrow> (if src \<noteq> None \<and> has_local_handler pkt r1 \<and> is_reliable_type E (ty pkt)
                   then queue_end_to_end_ack E w pkt src r3 else Some r3);
            Some (if src \<noteq> None \<and> mode r4 = Seds_RM_Relay
                  then push_tx \<lparr>tx_pkt = pkt, tx_src_side = src, tx_dst_side = None, deliver_local = False\<rparr> r4
                  else r4)
          })"

definition router_receive_impl :: "env \<Rightarrow> world \<Rightarrow> packet \<Rightarrow> i32 option \<Rightarrow> router \<Rightarrow> router option" where
  "router_receive_impl E w pkt src r = do {
     pid \<leftarrow> packet_id E pkt;
     if pid \<in> set (recent_set r) then
       (if src \<noteq> None \<and> wants_end_to_end E pkt \<and> has_local_handler pkt r then queue_end_to_end_ack E w pkt src r
        else Some r)
     else do {
       (ids, st) \<leftarrow> push_recent (max_recent_rx_ids (memory r)) (recent_ids r, recent_set r) pid;
       r1 \<leftarrow> note_return_routes E pkt src pid (r\<lparr>recent_ids := ids, recent_set := st\<rparr>);
       receive_fresh E w pkt src r1
     }
   }"

section \<open>The relay\<close>

fun transmit_to_relay :: "env \<Rightarrow> world \<Rightarrow> packet \<Rightarrow> i32 list \<Rightarrow> relay \<Rightarrow> seds_result \<times> relay" where
  "transmit_to_relay E w pkt [] r = (SEDS_OK, r)"
| "transmit_to_relay E w pkt (side_id # rest) r =
     (if \<not> in_range side_id (sides r) \<or> \<not> egress_enabled (sides r ! nat side_id) then transmit_to_relay E w pkt rest r
      else let s = sides r ! nat side_id in
        case serialized_tx s of
          Some _ \<Rightarrow>
            let (rc, r1) = send_serialized_with_reliable E w side_id pkt r in
            if rc \<noteq> SEDS_OK then
              if rc = SEDS_IO \<and> side_tx_deferred r1 then (SEDS_IO, r1\<lparr>side_tx_deferred := False\<rparr>)
              else (SEDS_HANDLER_ERROR, r1)
            else transmit_to_relay E w pkt rest r1
        | None \<Rightarrow>
            (case packet_tx s of
               None \<Rightarrow> transmit_to_relay E w pkt rest r
             | Some f \<Rightarrow>
                 let (rc, r1) = call_back w (PacketTx f pkt) r in
                 if rc \<noteq> SEDS_OK then (SEDS_HANDLER_ERROR, r1) else transmit_to_relay E w pkt rest r1))"

definition transmit_item_relay :: "env \<Rightarrow> world \<Rightarrow> tx_item \<Rightarrow> relay \<Rightarrow> (seds_result \<times> relay) option" where
  "transmit_item_relay E w item r =
     (let (targets, r1) = choose_targets E w None item r in do {
        kept \<leftarrow> filter_end_to_end_satisfied_sides E (tx_pkt item) targets r1;
        Some (transmit_to_relay E w (tx_pkt item) kept r1)
      })"

definition relay_end_to_end_ack :: "env \<Rightarrow> packet \<Rightarrow> i32 option \<Rightarrow> relay \<Rightarrow> relay" where
  "relay_end_to_end_ack E pkt src r =
     (let acked_id = from_le (payload pkt);
          r1 = (case decode_end_to_end_ack_sender_hash (sender pkt) of
                  Some h \<Rightarrow> note_end_to_end_acked_destination E acked_id h r
                | None \<Rightarrow> r)
      in case map_of (reliable_return_routes r1) acked_id of
           Some s \<Rightarrow> if src \<noteq> None
                     then push_tx \<lparr>tx_pkt = pkt, tx_src_side = src, tx_dst_side = Some s, deliver_local = False\<rparr> r1
                     else r1
         | None \<Rightarrow> r1)"

definition relay_receive_impl :: "env \<Rightarrow> world \<Rightarrow> packet \<Rightarrow> i32 option \<Rightarrow> relay \<Rightarrow> relay option" where
  "relay_receive_impl E w pkt src r = do {
     pid \<leftarrow> packet_id E pkt;
     r1 \<leftarrow> note_return_routes E pkt src pid r;
     Some (if is_internal_control_type (ty pkt) then
             (if is_end_to_end_ack pkt then relay_end_to_end_ack E pkt src r1 else handle_link_control E w pkt src r1)
           else
             let r2 = (if is_discovery_control_type (ty pkt) then handle_discovery_packet_relay E w pkt src r1 else r1)
             in push_tx \<lparr>tx_pkt = pkt, tx_src_side = src, tx_dst_side = None, deliver_local = False\<rparr> r2)
   }"

end
