(* ===== verification/Router_Frame.thy ===== *)
theory Router_Frame
  imports Router
begin

text \<open>
  What the operations of a node leave alone: delivery and transmission change neither the
  queues nor the sides, the memory limits, the routes or the cache of recent identities.
  The queue loops of theory \<open>Interface\<close> terminate because of that.
\<close>

definition untouched :: "'a owner_scheme \<Rightarrow> 'a owner_scheme \<Rightarrow> bool" where
  "untouched r r' \<longleftrightarrow>
     owner_tx r' = owner_tx r \<and> owner_rx r' = owner_rx r \<and> memory r' = memory r \<and> sides r' = sides r \<and>
     recent_ids r' = recent_ids r \<and> recent_set r' = recent_set r \<and> discovery_routes r' = discovery_routes r"

lemma untouched_refl [simp, intro]: "untouched r r"
  by (simp add: untouched_def)

lemma untouched_trans [trans]: "untouched r r' \<Longrightarrow> untouched r' r'' \<Longrightarrow> untouched r r''"
  by (simp add: untouched_def)

lemma untouched_updates [simp]:
  "untouched r (r'\<lparr>trace := t\<rparr>) = untouched r r'" "untouched r (r'\<lparr>side_tx_active := b\<rparr>) = untouched r r'"
  "untouched r (r'\<lparr>side_tx_deferred := b\<rparr>) = untouched r r'" "untouched r (r'\<lparr>reliable_tx := tx\<rparr>) = untouched r r'"
  "untouched (r\<lparr>trace := t\<rparr>) r' = untouched r r'" "untouched (r\<lparr>reliable_tx := tx\<rparr>) r' = untouched r r'"
  "untouched r (r'\<lparr>source_policy := sp\<rparr>) = untouched r r'" "untouched r (r'\<lparr>local_policy := lp\<rparr>) = untouched r r'"
  by (simp_all add: untouched_def owner_tx_def owner_rx_def)

lemma untouched_router_updates [simp]:
  "untouched r (r'\<lparr>end_to_end_reliable_tx := e\<rparr>) = untouched r r'"
  "untouched r (r'\<lparr>end_to_end_reliable_tx_order := ord\<rparr>) = untouched r r'"
  "untouched r (r'\<lparr>managed_latest := ml\<rparr>) = untouched r r'"
  for r r' :: router
  by (simp_all add: untouched_def owner_tx_def owner_rx_def)

lemma untouched_D:
  "untouched r r' \<Longrightarrow> tx_queue r' = tx_queue r" "untouched r r' \<Longrightarrow> rx_queue r' = rx_queue r"
  by (simp_all add: untouched_def owner_tx_def owner_rx_def)

lemma call_back_untouched: "untouched r (snd (call_back w ev r))"
  by (simp add: call_back_def)

lemma attempt_handler_untouched: "untouched r (snd (attempt_handler n w ev rc r))"
proof (induction n w ev rc r rule: attempt_handler.induct)
  case (2 n w ev rc r)
  then show ?case by (auto simp: call_back_def Let_def)
qed simp

lemma deliver_packet_handlers_untouched: "untouched r (snd (deliver_packet_handlers E w pkt ls rest f r))"
proof (induction E w pkt ls rest f r rule: deliver_packet_handlers.induct)
  case (2 E w pkt ls l rest f r)
  show ?case
  proof (cases "le_endpoint l \<in> set (endpoints pkt) \<and> packet_handler l \<noteq> None")
    case False
    then show ?thesis using 2(1,2) by (auto split: option.splits)
  next
    case True
    then obtain h where h: "packet_handler l = Some h" by auto
    obtain rc r' where a: "attempt_handler (max_handler_retries (tuning E)) w (PacketHandler h pkt) SEDS_OK r = (rc, r')"
      by fastforce
    have "untouched r r'" using attempt_handler_untouched [of r "max_handler_retries (tuning E)" w "PacketHandler h pkt" SEDS_OK] a by simp
    from untouched_trans [OF this 2(3) [OF _ h a [symmetric] refl]] True show ?thesis by (simp add: h a Let_def)
  qed
qed simp

lemma notify_handlers_untouched: "untouched r (notify_handlers w pkt ls r)"
proof (induction ls arbitrary: r)
  case (Cons l ls)
  have "untouched r (case packet_handler l of
      Some h \<Rightarrow> if le_endpoint l \<in> set (endpoints pkt) then snd (call_back w (PacketHandler h pkt) r) else r
    | None \<Rightarrow> r)" by (simp add: call_back_untouched split: option.split)
  from untouched_trans [OF this Cons] show ?case by simp
qed simp

lemma dispatch_local_packet_handlers_untouched: "untouched r (snd (dispatch_local_packet_handlers E w pkt ls r))"
proof -
  obtain f r1 where d: "deliver_packet_handlers E w pkt ls ls no_failure r = (f, r1)" by fastforce
  have "untouched r r1" using deliver_packet_handlers_untouched [of r E w pkt ls ls no_failure] d by simp
  then show ?thesis using untouched_trans [OF _ notify_handlers_untouched]
    by (auto simp: dispatch_local_packet_handlers_def d Let_def)
qed

lemma dispatch_local_serialized_handlers_untouched:
  "untouched r (dispatch_local_serialized_handlers w eps bs ls r)"
proof (induction ls arbitrary: r)
  case (Cons l ls)
  have "untouched r (case serialized_handler l of
      Some h \<Rightarrow> if le_endpoint l \<in> set eps then snd (call_back w (SerializedHandler h bs) r) else r
    | None \<Rightarrow> r)" by (simp add: call_back_untouched split: option.split)
  from untouched_trans [OF this Cons] show ?case by simp
qed simp

lemma dispatch_local_from_packet_untouched: "untouched r (dispatch_local_from_packet E w pkt ls r)"
  using untouched_trans [OF dispatch_local_packet_handlers_untouched dispatch_local_serialized_handlers_untouched]
  by (simp add: dispatch_local_from_packet_def case_prod_unfold Let_def)

lemma choose_targets_untouched: "untouched r (snd (choose_targets E w preferred item r))"
  by (simp add: choose_targets_def Let_def case_prod_unfold split: option.splits)

lemma call_serialized_tx_untouched: "untouched r (snd (call_serialized_tx w f bs r))"
  by (simp add: call_serialized_tx_def call_back_def Let_def)

lemma send_serialized_untouched: "untouched r (snd (send_serialized_with_reliable E w side_id pkt r))"
proof -
  have c: "untouched r r1" if "call_serialized_tx w f bs (r\<lparr>reliable_tx := tx\<rparr>) = (rc, r1)" for f bs tx rc r1
    using call_serialized_tx_untouched [of "r\<lparr>reliable_tx := tx\<rparr>" w f bs] that by (simp add: untouched_def owner_tx_def owner_rx_def)
  have c0: "untouched r (snd (call_serialized_tx w f bs r))" for f bs by (rule call_serialized_tx_untouched)
  show ?thesis
    by (auto simp: send_serialized_with_reliable_def Let_def c0 split: option.splits prod.splits dest: c)
qed

lemma track_end_to_end_untouched: "track_end_to_end E w pkt targets r = Some r' \<Longrightarrow> untouched r r'"
  by (auto simp: track_end_to_end_def remember_end_to_end_reliable_tx_def Let_def bind_eq_Some_conv
      case_prod_unfold split: if_splits)

lemma report_tx_error_untouched: "untouched r (report_tx_error E w pkt s rc r)"
  by (simp add: report_tx_error_def dispatch_local_from_packet_untouched)

lemma transmit_to_untouched: "untouched r (snd (transmit_to E w pkt ts failed r))"
proof (induction ts arbitrary: failed r)
  case (Cons t ts)
  let ?s = "sides r ! nat t"
  obtain rc r1 where s: "send_serialized_with_reliable E w t pkt r = (rc, r1)" by fastforce
  have u1: "untouched r r1" using send_serialized_untouched [of r E w t pkt] s by simp
  have err: "untouched r (snd (transmit_to E w pkt ts True (report_tx_error E w pkt ?s c x)))" if "untouched r x" for c x
    by (rule untouched_trans [OF untouched_trans [OF that report_tx_error_untouched] Cons.IH])
  have ok: "untouched r (snd (transmit_to E w pkt ts b x))" if "untouched r x" for b x
    by (rule untouched_trans [OF that Cons.IH])
  have cb: "untouched r (snd (call_back w ev r))" for ev by (rule call_back_untouched)
  show ?case
    using Cons.IH u1 err ok cb by (auto simp: s Let_def case_prod_unfold split: option.splits)
qed simp

lemma transmit_item_router_untouched:
  assumes "transmit_item_router E w item r = Some (rc, r')"
  shows "untouched r r'"
proof -
  obtain c1 r1 where d: "(if deliver_local item then dispatch_local_packet_handlers E w (tx_pkt item) (locals r) r
      else (SEDS_OK, r)) = (c1, r1)" by fastforce
  have u1: "untouched r r1"
    using dispatch_local_packet_handlers_untouched [of r E w "tx_pkt item" "locals r"] d by (auto split: if_splits)
  define r2 where "r2 = (if deliver_local item then dispatch_local_serialized_handlers w (endpoints (tx_pkt item))
      (serialize_packet E (tx_pkt item)) (locals r1) r1 else r1)"
  have u2: "untouched r r2"
    using untouched_trans [OF u1 dispatch_local_serialized_handlers_untouched] u1 by (simp add: r2_def)
  show ?thesis
  proof (cases "c1 = SEDS_OK")
    case False
    then show ?thesis using assms u1 by (simp add: transmit_item_router_def d Let_def)
  next
    case True
    obtain preferred targets r3 r4 where t: "choose_targets E w preferred item r2 = (targets, r3)"
      "track_end_to_end E w (tx_pkt item) targets r3 = Some r4" "transmit_to E w (tx_pkt item) targets False r4 = (rc, r')"
      using assms True by (auto simp: transmit_item_router_def d Let_def r2_def [symmetric] bind_eq_Some_conv
          split: prod.splits)
    have "untouched r2 r3" using choose_targets_untouched [of r2 E w preferred item] t(1) by simp
    moreover have "untouched r4 r'" using transmit_to_untouched [of r4 E w "tx_pkt item" targets False] t(3) by simp
    ultimately show ?thesis using u2 track_end_to_end_untouched [OF t(2)] untouched_trans by blast
  qed
qed

lemma transmit_to_relay_untouched: "untouched r (snd (transmit_to_relay E w pkt ts r))"
proof (induction ts arbitrary: r)
  case (Cons t ts)
  obtain rc r1 where s: "send_serialized_with_reliable E w t pkt r = (rc, r1)" by fastforce
  have u1: "untouched r r1" using send_serialized_untouched [of r E w t pkt] s by simp
  have ok: "untouched r (snd (transmit_to_relay E w pkt ts x))" if "untouched r x" for x
    by (rule untouched_trans [OF that Cons.IH])
  have cb: "untouched r (snd (call_back w ev r))" for ev by (rule call_back_untouched)
  show ?case
    using Cons.IH u1 ok cb by (auto simp: s Let_def case_prod_unfold split: option.splits)
qed simp

lemma transmit_item_relay_untouched:
  assumes "transmit_item_relay E w item r = Some (rc, r')"
  shows "untouched r r'"
proof -
  obtain targets r1 kept where t: "choose_targets E w None item r = (targets, r1)"
    "transmit_to_relay E w (tx_pkt item) kept r1 = (rc, r')"
    using assms by (auto simp: transmit_item_relay_def bind_eq_Some_conv split: prod.splits)
  have "untouched r r1" using choose_targets_untouched [of r E w None item] t(1) by simp
  moreover have "untouched r1 r'" using transmit_to_relay_untouched [of r1 E w "tx_pkt item" kept] t(2) by simp
  ultimately show ?thesis by (rule untouched_trans)
qed

end
