(* ===== verification/Sides.thy ===== *)
theory Sides
  imports Router_Frame
begin

text \<open>
  Construction of nodes and management of their sides, routes and policies: the functions
  \<open>seds_router_*\<close> of \<open>src/router_api.cpp\<close> and \<open>seds_relay_*\<close> of \<open>src/relay_api.cpp\<close>. The two
  files have the same code for the two kinds of node, so the bodies are functions on \<open>owner\<close>
  schemes and the functions of the interface are their instances. A null pointer is not
  represented; those calls return an error at once.
\<close>

section \<open>New nodes\<close>

definition valid_router_e2e_mode :: "u8 \<Rightarrow> bool" where
  "valid_router_e2e_mode m \<longleftrightarrow> m = 0 \<or> m = 1 \<or> m = 2 \<or> m = 3"

text \<open>
  \<open>ensure_handler_endpoint\<close> extends the endpoint table of the process. For the largest
  identifier \<open>endpoint + 1u\<close> wraps to 0: the table is emptied and then written out of bounds.
\<close>

definition ensure_handler_endpoint :: "u32 \<Rightarrow> env \<Rightarrow> env option" where
  "ensure_handler_endpoint ep E =
     (if valid_endpoint E ep then Some E
      else if ep = - 1 then None
      else
        let names = grow_set None (unat ep) (Some (''ENDPOINT_'' @ to_string (unat ep))) (kEndpointNames E)
        in Some (E\<lparr>kEndpointNames := names, kEndpointCount := word_of_nat (length names)\<rparr>))"

definition default_timesync :: timesync_runtime where
  "default_timesync = \<lparr>ts_enabled = False, ts_role = 0, ts_priority = 100, source_timeout_ms = 5000,
     announce_interval_ms = 1000, request_interval_ms = 1000, last_announce_ms = 0, last_request_ms = 0,
     has_network_time = False, network_anchor_local_ms = 0, network_anchor_unix_ms = 0, current_source = [],
     current_source_priority = - 1, ts_sources = []\<rparr>"

definition SedsRouter :: "env \<Rightarrow> router_mode \<Rightarrow> router" where
  "SedsRouter E m =
     \<lparr>sides = [], tx_queue = [], rx_queue = [], reliable_released_rx = [], memory = default_runtime_memory_config,
      tx_queue_bytes = 0, rx_queue_bytes = 0, recent_ids = [], recent_set = [], discovery_routes = [],
      discovery_interval_ms = kDiscoveryFastMs, discovery_next_ms = 0, local_policy = default_policy,
      source_policy = [], route_overrides = [], typed_route_overrides = [], reliable_tx = [], reliable_rx = [],
      reliable_return_routes = [], reliable_return_route_order = [], side_tx_active = False,
      side_tx_deferred = False, trace = [],
      mode = m, locals = [], end_to_end_reliable_tx = [], end_to_end_reliable_tx_order = [], managed_policy = [],
      managed_latest = [], managed_callbacks = [], p2p_address = 0, p2p_address_book = [],
      p2p_host_by_address = [], p2p_handlers = [], p2p_stream_handlers = [], p2p_stream_sessions = [],
      p2p_next_stream_id = 1, r_sender = device_identifier E, node_sender = device_identifier E,
      timesync = default_timesync\<rparr>"

text \<open>
  The loop over the handlers: the outer option is a fault, the inner one \<open>nullptr\<close>. Endpoints
  registered before the loop fails stay registered.
\<close>

fun add_handlers :: "local_endpoint list \<Rightarrow> env \<times> local_endpoint list \<Rightarrow> (env \<times> local_endpoint list option) option" where
  "add_handlers [] (E, ls) = Some (E, Some ls)"
| "add_handlers (h # hs) (E, ls) =
     (if le_endpoint h = SEDS_EP_DISCOVERY \<or> le_endpoint h = SEDS_EP_TIME_SYNC then Some (E, None)
      else do {
        E' \<leftarrow> ensure_handler_endpoint (le_endpoint h) E;
        add_handlers hs (E', ls @ [h])
      })"

definition new_router_impl ::
    "env \<Rightarrow> router_mode \<Rightarrow> local_endpoint list \<Rightarrow> u8 \<Rightarrow> memory_config option \<Rightarrow> (env \<times> router option) option" where
  "new_router_impl E m handlers e2e_mode mem =
     (if \<not> valid_router_e2e_mode e2e_mode then Some (E, None)
      else
        let cfg = (case mem of None \<Rightarrow> default_runtime_memory_config | Some c \<Rightarrow> c) in
        if \<not> validate_runtime_memory_config cfg then Some (E, None)
        else map_option (\<lambda>(E', ls). (E', map_option (\<lambda>l. (SedsRouter E m)\<lparr>memory := cfg, locals := l\<rparr>) ls))
               (add_handlers handlers (E, [])))"

definition seds_router_new :: "env \<Rightarrow> router_mode \<Rightarrow> local_endpoint list \<Rightarrow> (env \<times> router option) option" where
  "seds_router_new E m handlers = new_router_impl E m handlers 2 None"

definition seds_router_new_with_memory ::
    "env \<Rightarrow> router_mode \<Rightarrow> local_endpoint list \<Rightarrow> u8 \<Rightarrow> memory_config option \<Rightarrow> (env \<times> router option) option" where
  "seds_router_new_with_memory = new_router_impl"

definition seds_relay_new_with_memory :: "memory_config option \<Rightarrow> relay option" where
  "seds_relay_new_with_memory mem =
     (let cfg = (case mem of None \<Rightarrow> default_runtime_memory_config | Some c \<Rightarrow> c) in
      if \<not> validate_runtime_memory_config cfg then None
      else Some
        \<lparr>sides = [], tx_queue = [], rx_queue = [], reliable_released_rx = [], memory = cfg,
         tx_queue_bytes = 0, rx_queue_bytes = 0, recent_ids = [], recent_set = [], discovery_routes = [],
         discovery_interval_ms = kDiscoveryFastMs, discovery_next_ms = 0, local_policy = default_policy,
         source_policy = [], route_overrides = [], typed_route_overrides = [], reliable_tx = [], reliable_rx = [],
         reliable_return_routes = [], reliable_return_route_order = [], side_tx_active = False,
         side_tx_deferred = False, trace = [],
         end_to_end_acked_destinations = [], end_to_end_acked_destination_order = []\<rparr>)"

definition seds_relay_new :: "relay option" where
  "seds_relay_new = seds_relay_new_with_memory None"

section \<open>Sides\<close>

definition add_side ::
    "string \<Rightarrow> fn option \<Rightarrow> fn option \<Rightarrow> bool \<Rightarrow> 'a owner_scheme \<Rightarrow> i32 \<times> 'a owner_scheme" where
  "add_side name stx ptx rel r =
     (int (length (sides r)),
      r\<lparr>sides := sides r @ [\<lparr>side_name = name, serialized_tx = stx, packet_tx = ptx, reliable_enabled = rel,
                             link_local_enabled = False, ingress_enabled = True, egress_enabled = True,
                             header_template_enabled = False, max_frame_bytes = 0, compact_header_target_bytes = 0,
                             max_side_transport_templates = 64, transport_profile = PROFILE_CANONICAL\<rparr>]\<rparr>)"

definition seds_router_add_side_serialized :: "string \<Rightarrow> fn \<Rightarrow> bool \<Rightarrow> router \<Rightarrow> i32 \<times> router" where
  "seds_router_add_side_serialized name f rel r = add_side name (Some f) None rel r"

definition seds_router_add_side_packet :: "string \<Rightarrow> fn \<Rightarrow> bool \<Rightarrow> router \<Rightarrow> i32 \<times> router" where
  "seds_router_add_side_packet name f rel r = add_side name None (Some f) rel r"

definition seds_relay_add_side_serialized :: "string \<Rightarrow> fn \<Rightarrow> bool \<Rightarrow> relay \<Rightarrow> i32 \<times> relay" where
  "seds_relay_add_side_serialized name f rel r = add_side name (Some f) None rel r"

definition seds_relay_add_side_packet :: "string \<Rightarrow> fn \<Rightarrow> bool \<Rightarrow> relay \<Rightarrow> i32 \<times> relay" where
  "seds_relay_add_side_packet name f rel r = add_side name None (Some f) rel r"

text \<open>The loops that erase queued items while they keep the byte counter.\<close>

fun erase_items :: "('i \<Rightarrow> u64) \<Rightarrow> ('i \<Rightarrow> bool) \<Rightarrow> 'i list \<Rightarrow> u64 \<Rightarrow> 'i list \<times> u64" where
  "erase_items byte_cost gone [] queue_bytes = ([], queue_bytes)"
| "erase_items byte_cost gone (i # queue) queue_bytes =
     (if gone i then erase_items byte_cost gone queue (queue_bytes - byte_cost i)
      else let (queue', queue_bytes') = erase_items byte_cost gone queue queue_bytes in (i # queue', queue_bytes'))"

definition erase_tx_items_for_side_locked :: "i32 \<Rightarrow> 'a owner_scheme \<Rightarrow> 'a owner_scheme" where
  "erase_tx_items_for_side_locked side_id r =
     set_tx (erase_items byte_cost_tx (\<lambda>item. tx_src_side item = Some side_id \<or> tx_dst_side item = Some side_id)
               (tx_queue r) (tx_queue_bytes r)) r"

definition erase_rx_items_for_side_locked :: "i32 \<Rightarrow> 'a owner_scheme \<Rightarrow> 'a owner_scheme" where
  "erase_rx_items_for_side_locked side_id r =
     set_rx (erase_items byte_cost_rx (\<lambda>item. rx_src_side item = Some side_id) (rx_queue r) (rx_queue_bytes r)) r"

definition update_side :: "i32 \<Rightarrow> (side \<Rightarrow> side) \<Rightarrow> 'a owner_scheme \<Rightarrow> 'a owner_scheme" where
  "update_side side_id f r = r\<lparr>sides := (sides r)[nat side_id := f (sides r ! nat side_id)]\<rparr>"

definition forget_side_policy :: "i32 \<Rightarrow> route_policy \<Rightarrow> route_policy" where
  "forget_side_policy side_id p =
     p\<lparr>weights := merase side_id (weights p), priorities := merase side_id (priorities p)\<rparr>"

definition remove_side :: "world \<Rightarrow> i32 \<Rightarrow> 'a owner_scheme \<Rightarrow> seds_result \<times> 'a owner_scheme" where
  "remove_side w side_id r =
     (if \<not> in_range side_id (sides r) then (SEDS_INVALID_LINK_ID, r)
      else
        let r1 = update_side side_id (\<lambda>s. s\<lparr>ingress_enabled := False, egress_enabled := False\<rparr>) r;
            r2 = erase_rx_items_for_side_locked side_id (erase_tx_items_for_side_locked side_id r1);
            r3 = r2\<lparr>route_overrides :=
                     filter (\<lambda>((src, dst), _). \<not> (src = side_id \<or> dst = side_id)) (route_overrides r2),
                   typed_route_overrides :=
                     filter (\<lambda>((src, _, dst), _). \<not> (src = side_id \<or> dst = side_id)) (typed_route_overrides r2),
                   local_policy := forget_side_policy side_id (local_policy r2),
                   source_policy := map (\<lambda>(s, p). (s, forget_side_policy side_id p)) (merase side_id (source_policy r2)),
                   discovery_routes := merase side_id (discovery_routes r2),
                   reliable_tx := filter (\<lambda>(key, _). key_side key \<noteq> side_id) (reliable_tx r2),
                   reliable_rx := filter (\<lambda>(key, _). key_side key \<noteq> side_id) (reliable_rx r2),
                   reliable_return_routes := filter (\<lambda>(_, s). s \<noteq> side_id) (reliable_return_routes r2)\<rparr>
        in (SEDS_OK, note_discovery_topology_change (now_ms w r) r3))"

definition seds_router_remove_side :: "world \<Rightarrow> i32 \<Rightarrow> router \<Rightarrow> seds_result \<times> router" where
  "seds_router_remove_side = remove_side"

definition seds_relay_remove_side :: "world \<Rightarrow> i32 \<Rightarrow> relay \<Rightarrow> seds_result \<times> relay" where
  "seds_relay_remove_side = remove_side"

definition set_side_ingress_enabled :: "world \<Rightarrow> i32 \<Rightarrow> bool \<Rightarrow> 'a owner_scheme \<Rightarrow> seds_result \<times> 'a owner_scheme" where
  "set_side_ingress_enabled w side_id enabled r =
     (if \<not> in_range side_id (sides r) then (SEDS_INVALID_LINK_ID, r)
      else (SEDS_OK, note_discovery_topology_change (now_ms w r)
                       (update_side side_id (\<lambda>s. s\<lparr>ingress_enabled := enabled\<rparr>) r)))"

definition set_side_egress_enabled :: "world \<Rightarrow> i32 \<Rightarrow> bool \<Rightarrow> 'a owner_scheme \<Rightarrow> seds_result \<times> 'a owner_scheme" where
  "set_side_egress_enabled w side_id enabled r =
     (if \<not> in_range side_id (sides r) then (SEDS_INVALID_LINK_ID, r)
      else
        let r1 = update_side side_id (\<lambda>s. s\<lparr>egress_enabled := enabled\<rparr>) r;
            r2 = (if \<not> enabled then erase_tx_items_for_side_locked side_id r1 else r1)
        in (SEDS_OK, note_discovery_topology_change (now_ms w r) r2))"

definition set_side_link_local_enabled :: "world \<Rightarrow> i32 \<Rightarrow> bool \<Rightarrow> 'a owner_scheme \<Rightarrow> seds_result \<times> 'a owner_scheme" where
  "set_side_link_local_enabled w side_id enabled r =
     (if \<not> in_range side_id (sides r) then (SEDS_INVALID_LINK_ID, r)
      else (SEDS_OK, note_discovery_topology_change (now_ms w r)
                       (update_side side_id (\<lambda>s. s\<lparr>link_local_enabled := enabled\<rparr>) r)))"

definition seds_router_set_side_ingress_enabled :: "world \<Rightarrow> i32 \<Rightarrow> bool \<Rightarrow> router \<Rightarrow> seds_result \<times> router" where
  "seds_router_set_side_ingress_enabled = set_side_ingress_enabled"

definition seds_router_set_side_egress_enabled :: "world \<Rightarrow> i32 \<Rightarrow> bool \<Rightarrow> router \<Rightarrow> seds_result \<times> router" where
  "seds_router_set_side_egress_enabled = set_side_egress_enabled"

definition seds_router_set_side_link_local_enabled :: "world \<Rightarrow> i32 \<Rightarrow> bool \<Rightarrow> router \<Rightarrow> seds_result \<times> router" where
  "seds_router_set_side_link_local_enabled = set_side_link_local_enabled"

definition seds_relay_set_side_ingress_enabled :: "world \<Rightarrow> i32 \<Rightarrow> bool \<Rightarrow> relay \<Rightarrow> seds_result \<times> relay" where
  "seds_relay_set_side_ingress_enabled = set_side_ingress_enabled"

definition seds_relay_set_side_egress_enabled :: "world \<Rightarrow> i32 \<Rightarrow> bool \<Rightarrow> relay \<Rightarrow> seds_result \<times> relay" where
  "seds_relay_set_side_egress_enabled = set_side_egress_enabled"

definition seds_relay_set_side_link_local_enabled :: "world \<Rightarrow> i32 \<Rightarrow> bool \<Rightarrow> relay \<Rightarrow> seds_result \<times> relay" where
  "seds_relay_set_side_link_local_enabled = set_side_link_local_enabled"

section \<open>Routes and policies\<close>

text \<open>\<open>policy_for\<close> with the update made through the returned reference.\<close>

definition policy_for :: "i32 \<Rightarrow> (route_policy \<Rightarrow> route_policy) \<Rightarrow> 'a owner_scheme \<Rightarrow> 'a owner_scheme" where
  "policy_for src f r =
     (if src < 0 then r\<lparr>local_policy := f (local_policy r)\<rparr>
      else r\<lparr>source_policy := mput src (f (mget default_policy (source_policy r) src)) (source_policy r)\<rparr>)"

definition set_route :: "i32 \<Rightarrow> i32 \<Rightarrow> bool \<Rightarrow> 'a owner_scheme \<Rightarrow> 'a owner_scheme" where
  "set_route src dst enabled r = r\<lparr>route_overrides := mput (src, dst) enabled (route_overrides r)\<rparr>"

definition clear_route :: "i32 \<Rightarrow> i32 \<Rightarrow> 'a owner_scheme \<Rightarrow> 'a owner_scheme" where
  "clear_route src dst r = r\<lparr>route_overrides := merase (src, dst) (route_overrides r)\<rparr>"

definition set_typed_route ::
    "env \<Rightarrow> i32 \<Rightarrow> u32 \<Rightarrow> i32 \<Rightarrow> bool \<Rightarrow> 'a owner_scheme \<Rightarrow> seds_result \<times> 'a owner_scheme" where
  "set_typed_route E src t dst enabled r =
     (if \<not> valid_type E t then (SEDS_BAD_ARG, r)
      else (SEDS_OK, r\<lparr>typed_route_overrides := mput (src, t, dst) enabled (typed_route_overrides r)\<rparr>))"

definition clear_typed_route :: "i32 \<Rightarrow> u32 \<Rightarrow> i32 \<Rightarrow> 'a owner_scheme \<Rightarrow> 'a owner_scheme" where
  "clear_typed_route src t dst r = r\<lparr>typed_route_overrides := merase (src, t, dst) (typed_route_overrides r)\<rparr>"

definition set_source_route_mode :: "i32 \<Rightarrow> route_selection_mode \<Rightarrow> 'a owner_scheme \<Rightarrow> 'a owner_scheme" where
  "set_source_route_mode src m = policy_for src (\<lambda>p. p\<lparr>policy_mode := m\<rparr>)"

definition clear_source_route_mode :: "i32 \<Rightarrow> 'a owner_scheme \<Rightarrow> 'a owner_scheme" where
  "clear_source_route_mode src = set_source_route_mode src Seds_RSM_Fanout"

definition set_route_weight :: "i32 \<Rightarrow> i32 \<Rightarrow> u32 \<Rightarrow> 'a owner_scheme \<Rightarrow> 'a owner_scheme" where
  "set_route_weight src dst weight = policy_for src (\<lambda>p. p\<lparr>weights := mput dst weight (weights p)\<rparr>)"

definition clear_route_weight :: "i32 \<Rightarrow> i32 \<Rightarrow> 'a owner_scheme \<Rightarrow> 'a owner_scheme" where
  "clear_route_weight src dst = policy_for src (\<lambda>p. p\<lparr>weights := merase dst (weights p)\<rparr>)"

definition set_route_priority :: "i32 \<Rightarrow> i32 \<Rightarrow> u32 \<Rightarrow> 'a owner_scheme \<Rightarrow> 'a owner_scheme" where
  "set_route_priority src dst priority = policy_for src (\<lambda>p. p\<lparr>priorities := mput dst priority (priorities p)\<rparr>)"

definition clear_route_priority :: "i32 \<Rightarrow> i32 \<Rightarrow> 'a owner_scheme \<Rightarrow> 'a owner_scheme" where
  "clear_route_priority src dst = policy_for src (\<lambda>p. p\<lparr>priorities := merase dst (priorities p)\<rparr>)"

text \<open>The functions of the interface, which return \<open>SEDS_OK\<close> where no result is given.\<close>

definition seds_router_set_route :: "i32 \<Rightarrow> i32 \<Rightarrow> bool \<Rightarrow> router \<Rightarrow> router" where
  "seds_router_set_route = set_route"

definition seds_router_clear_route :: "i32 \<Rightarrow> i32 \<Rightarrow> router \<Rightarrow> router" where
  "seds_router_clear_route = clear_route"

definition seds_router_set_typed_route :: "env \<Rightarrow> i32 \<Rightarrow> u32 \<Rightarrow> i32 \<Rightarrow> bool \<Rightarrow> router \<Rightarrow> seds_result \<times> router" where
  "seds_router_set_typed_route = set_typed_route"

definition seds_router_clear_typed_route :: "i32 \<Rightarrow> u32 \<Rightarrow> i32 \<Rightarrow> router \<Rightarrow> router" where
  "seds_router_clear_typed_route = clear_typed_route"

definition seds_router_set_source_route_mode :: "i32 \<Rightarrow> route_selection_mode \<Rightarrow> router \<Rightarrow> router" where
  "seds_router_set_source_route_mode = set_source_route_mode"

definition seds_router_clear_source_route_mode :: "i32 \<Rightarrow> router \<Rightarrow> router" where
  "seds_router_clear_source_route_mode = clear_source_route_mode"

definition seds_router_set_route_weight :: "i32 \<Rightarrow> i32 \<Rightarrow> u32 \<Rightarrow> router \<Rightarrow> router" where
  "seds_router_set_route_weight = set_route_weight"

definition seds_router_clear_route_weight :: "i32 \<Rightarrow> i32 \<Rightarrow> router \<Rightarrow> router" where
  "seds_router_clear_route_weight = clear_route_weight"

definition seds_router_set_route_priority :: "i32 \<Rightarrow> i32 \<Rightarrow> u32 \<Rightarrow> router \<Rightarrow> router" where
  "seds_router_set_route_priority = set_route_priority"

definition seds_router_clear_route_priority :: "i32 \<Rightarrow> i32 \<Rightarrow> router \<Rightarrow> router" where
  "seds_router_clear_route_priority = clear_route_priority"

definition seds_relay_set_route :: "i32 \<Rightarrow> i32 \<Rightarrow> bool \<Rightarrow> relay \<Rightarrow> relay" where
  "seds_relay_set_route = set_route"

definition seds_relay_clear_route :: "i32 \<Rightarrow> i32 \<Rightarrow> relay \<Rightarrow> relay" where
  "seds_relay_clear_route = clear_route"

definition seds_relay_set_typed_route :: "env \<Rightarrow> i32 \<Rightarrow> u32 \<Rightarrow> i32 \<Rightarrow> bool \<Rightarrow> relay \<Rightarrow> seds_result \<times> relay" where
  "seds_relay_set_typed_route = set_typed_route"

definition seds_relay_clear_typed_route :: "i32 \<Rightarrow> u32 \<Rightarrow> i32 \<Rightarrow> relay \<Rightarrow> relay" where
  "seds_relay_clear_typed_route = clear_typed_route"

definition seds_relay_set_source_route_mode :: "i32 \<Rightarrow> route_selection_mode \<Rightarrow> relay \<Rightarrow> relay" where
  "seds_relay_set_source_route_mode = set_source_route_mode"

definition seds_relay_clear_source_route_mode :: "i32 \<Rightarrow> relay \<Rightarrow> relay" where
  "seds_relay_clear_source_route_mode = clear_source_route_mode"

definition seds_relay_set_route_weight :: "i32 \<Rightarrow> i32 \<Rightarrow> u32 \<Rightarrow> relay \<Rightarrow> relay" where
  "seds_relay_set_route_weight = set_route_weight"

definition seds_relay_clear_route_weight :: "i32 \<Rightarrow> i32 \<Rightarrow> relay \<Rightarrow> relay" where
  "seds_relay_clear_route_weight = clear_route_weight"

definition seds_relay_set_route_priority :: "i32 \<Rightarrow> i32 \<Rightarrow> u32 \<Rightarrow> relay \<Rightarrow> relay" where
  "seds_relay_set_route_priority = set_route_priority"

definition seds_relay_clear_route_priority :: "i32 \<Rightarrow> i32 \<Rightarrow> relay \<Rightarrow> relay" where
  "seds_relay_clear_route_priority = clear_route_priority"

end
