(* ===== verification/Sides_Facts.thy ===== *)
theory Sides_Facts
  imports Sides
begin

text \<open>
  Removing a side leaves no trace of it in the queues, the routes, the policies and the reliable
  state, keeps the accounting of both queues exact, and keeps the side out of every later
  routing decision. Disabling a route takes effect on the very next decision.
\<close>

section \<open>Erasing queued items\<close>

lemma erase_items_spec:
  assumes "unat b = total_cost c q + k"
  shows "fst (erase_items c gone q b) = filter (\<lambda>i. \<not> gone i) q \<and>
    unat (snd (erase_items c gone q b)) = total_cost c (filter (\<lambda>i. \<not> gone i) q) + k"
  using assms
proof (induction q arbitrary: b k)
  case (Cons i q)
  show ?case
  proof (cases "gone i")
    case True
    have "unat (b - c i) = total_cost c q + k" using Cons.prems by (subst unat_sub_small) auto
    then show ?thesis using Cons.IH True by simp
  next
    case False
    have "unat b = total_cost c q + (unat (c i) + k)" using Cons.prems by simp
    then show ?thesis using Cons.IH False by (simp add: case_prod_unfold Let_def add.left_commute)
  qed
qed simp

lemma total_cost_filter: "total_cost c (filter p q) \<le> total_cost c q"
  by (induction q) auto

lemma erase_items_inv:
  assumes "queue_inv c budget Q"
  shows "queue_inv c budget (erase_items c gone (fst Q) (snd Q)) \<and>
    fst (erase_items c gone (fst Q) (snd Q)) = filter (\<lambda>i. \<not> gone i) (fst Q)"
  using erase_items_spec [of "snd Q" c "fst Q" 0 gone] total_cost_filter [of c "\<lambda>i. \<not> gone i" "fst Q"] assms
  by (simp add: queue_inv_def)

lemma owner_queues_note [simp]: "owner_queues_inv (note_discovery_topology_change now r) = owner_queues_inv r"
  by (simp add: owner_queues_inv_def note_discovery_topology_change_def owner_tx_def owner_rx_def)

lemma choose_targets_egress:
  assumes "s \<in> set (fst (choose_targets E w preferred item r))" "tx_dst_side item = None"
  shows "in_range s (sides r) \<and> egress_enabled (sides r ! nat s) \<and> tx_src_side item \<noteq> Some s \<and>
    map_of (route_overrides r) (case tx_src_side item of Some i \<Rightarrow> i | None \<Rightarrow> -1, s) \<noteq> Some False"
proof -
  have "s \<in> set (fst (select_destinations E (sides r) (discovery_routes r) (route_overrides r)
      (typed_route_overrides r) (case tx_src_side item of Some s \<Rightarrow> mget default_policy (source_policy r) s
        | None \<Rightarrow> local_policy r) (tx_pkt item) (tx_src_side item) None preferred (now_ms w r)))"
    using assms by (simp add: choose_targets_def Let_def case_prod_unfold)
  then have "s \<in> set (filter (destination_allowed E (sides r) (route_overrides r) (typed_route_overrides r) (tx_pkt item)
      (case tx_src_side item of Some i \<Rightarrow> i | None \<Rightarrow> -1))
      (default_candidates E (sides r) (discovery_routes r) (tx_pkt item) (tx_src_side item) preferred (now_ms w r)))"
    using set_apply_policy by (fastforce simp: select_destinations_def Let_def)
  then show ?thesis
    using default_candidates_not_source destination_allowed_side by fastforce
qed

section \<open>Removing a side\<close>

lemma sides_update_side [simp]:
  "sides (update_side s f r) = (sides r)[nat s := f (sides r ! nat s)]"
  "owner_tx (update_side s f r) = owner_tx r" "owner_rx (update_side s f r) = owner_rx r"
  "memory (update_side s f r) = memory r"
  by (simp_all add: update_side_def owner_tx_def owner_rx_def)

lemma erase_queues [simp]:
  "owner_tx (erase_tx_items_for_side_locked s r) =
     erase_items byte_cost_tx (\<lambda>i. tx_src_side i = Some s \<or> tx_dst_side i = Some s) (tx_queue r) (tx_queue_bytes r)"
  "owner_rx (erase_tx_items_for_side_locked s r) = owner_rx r"
  "owner_rx (erase_rx_items_for_side_locked s r) =
     erase_items byte_cost_rx (\<lambda>i. rx_src_side i = Some s) (rx_queue r) (rx_queue_bytes r)"
  "owner_tx (erase_rx_items_for_side_locked s r) = owner_tx r"
  "memory (erase_tx_items_for_side_locked s r) = memory r" "memory (erase_rx_items_for_side_locked s r) = memory r"
  "sides (erase_tx_items_for_side_locked s r) = sides r" "sides (erase_rx_items_for_side_locked s r) = sides r"
  by (simp_all add: erase_tx_items_for_side_locked_def erase_rx_items_for_side_locked_def set_tx_def set_rx_def
      owner_tx_def owner_rx_def)

lemma remove_side_queues:
  assumes "remove_side w s r = (SEDS_OK, r')"
  shows "owner_tx r' = erase_items byte_cost_tx (\<lambda>i. tx_src_side i = Some s \<or> tx_dst_side i = Some s)
        (fst (owner_tx r)) (snd (owner_tx r)) \<and>
    owner_rx r' = erase_items byte_cost_rx (\<lambda>i. rx_src_side i = Some s) (fst (owner_rx r)) (snd (owner_rx r)) \<and>
    memory r' = memory r"
  using assms
  by (auto simp: remove_side_def Let_def note_discovery_topology_change_def update_side_def
      erase_tx_items_for_side_locked_def erase_rx_items_for_side_locked_def set_tx_def set_rx_def
      owner_tx_def owner_rx_def split: if_splits)

lemma remove_side_tables:
  assumes "remove_side w s r = (SEDS_OK, r')"
  shows "in_range s (sides r) \<and> discovery_routes r' = merase s (discovery_routes r) \<and>
    route_overrides r' = filter (\<lambda>(key, _). fst key \<noteq> s \<and> snd key \<noteq> s) (route_overrides r) \<and>
    typed_route_overrides r' = filter (\<lambda>(key, _). fst key \<noteq> s \<and> snd (snd key) \<noteq> s) (typed_route_overrides r) \<and>
    local_policy r' = forget_side_policy s (local_policy r) \<and>
    source_policy r' = map (\<lambda>(k, p). (k, forget_side_policy s p)) (merase s (source_policy r)) \<and>
    reliable_tx r' = filter (\<lambda>(key, _). key_side key \<noteq> s) (reliable_tx r) \<and>
    reliable_rx r' = filter (\<lambda>(key, _). key_side key \<noteq> s) (reliable_rx r) \<and>
    reliable_return_routes r' = filter (\<lambda>(_, side). side \<noteq> s) (reliable_return_routes r) \<and>
    sides r' = (sides r)[nat s := (sides r ! nat s)\<lparr>ingress_enabled := False, egress_enabled := False\<rparr>]"
  using assms
  by (auto simp: remove_side_def Let_def note_discovery_topology_change_def update_side_def
      erase_tx_items_for_side_locked_def erase_rx_items_for_side_locked_def set_tx_def set_rx_def
      split: if_splits intro!: filter_cong)

lemma fst_owner_tx: "fst (owner_tx r) = tx_queue r" and fst_owner_rx: "fst (owner_rx r) = rx_queue r"
  by (simp_all add: owner_tx_def owner_rx_def)

lemma merase_mput [simp]: "merase k (mput k v m) = merase k m"
  by (induction m) (auto simp: AList.delete_eq)

lemma map_of_filter_key: "map_of (filter (\<lambda>(k, _). P k) m) k = (if P k then map_of m k else None)"
  by (induction m) auto

lemma map_of_forgotten:
  "map_of (map (\<lambda>(k, p). (k, f p)) m) k = map_option f (map_of m k)"
  by (induction m) auto

text \<open>
  (C18) A removed side is forgotten, and nothing else is. Both queues keep exactly the items of other
  sides and their exact byte counters. No route override, typed route override, discovery route,
  return route or reliable state of the side remains, no policy has a weight or priority for it, and
  it has no policy of its own, while the entries of other sides are all kept. Packets are no longer
  accepted from it, and no packet without an explicit destination is sent to it again.
\<close>

theorem removed_side_forgotten:
  assumes "remove_side w s r = (SEDS_OK, r')" "s < 2 ^ 31" "owner_queues_inv r"
  shows "owner_queues_inv r' \<and>
    tx_queue r' = filter (\<lambda>i. tx_src_side i \<noteq> Some s \<and> tx_dst_side i \<noteq> Some s) (tx_queue r) \<and>
    rx_queue r' = filter (\<lambda>i. rx_src_side i \<noteq> Some s) (rx_queue r) \<and>
    map_of (route_overrides r') (src, dst) =
      (if src = s \<or> dst = s then None else map_of (route_overrides r) (src, dst)) \<and>
    map_of (typed_route_overrides r') (src, t, dst) =
      (if src = s \<or> dst = s then None else map_of (typed_route_overrides r) (src, t, dst)) \<and>
    map_of (weights (local_policy r')) = (map_of (weights (local_policy r)))(s := None) \<and>
    map_of (priorities (local_policy r')) = (map_of (priorities (local_policy r)))(s := None) \<and>
    map_of (source_policy r') s = None \<and>
    (\<forall>p. k \<noteq> s \<and> map_of (source_policy r) k = Some p \<longrightarrow>
       (\<exists>p'. map_of (source_policy r') k = Some p' \<and> policy_mode p' = policy_mode p \<and>
          map_of (weights p') = (map_of (weights p))(s := None) \<and>
          map_of (priorities p') = (map_of (priorities p))(s := None))) \<and>
    map_of (discovery_routes r') = (map_of (discovery_routes r))(s := None) \<and>
    reliable_return_routes r' = filter (\<lambda>(_, side). side \<noteq> s) (reliable_return_routes r) \<and>
    map_of (reliable_tx r') (reliable_key s t) = None \<and> map_of (reliable_rx r') (reliable_key s t) = None \<and>
    (key_side key \<noteq> s \<longrightarrow> map_of (reliable_tx r') key = map_of (reliable_tx r) key \<and>
       map_of (reliable_rx r') key = map_of (reliable_rx r) key) \<and>
    \<not> ingress_enabled (sides r' ! nat s) \<and> (i \<noteq> nat s \<longrightarrow> sides r' ! i = sides r ! i) \<and>
    (tx_dst_side item = None \<longrightarrow> s \<notin> set (fst (choose_targets E w preferred item r')))"
proof -
  note q = remove_side_queues [OF assms(1)] and tb = remove_side_tables [OF assms(1)]
  have rng: "0 \<le> s" "nat s < length (sides r)" using tb by (auto simp: in_range_def)
  have side: "key_side (reliable_key s t) = s" using rng assms(2) by (intro key_side_reliable_key) simp_all
  have inv: "queue_inv byte_cost_tx (max_queue_budget (memory r)) (owner_tx r)"
    "queue_inv byte_cost_rx (max_queue_budget (memory r)) (owner_rx r)"
    using assms(3) by (simp_all add: owner_queues_inv_def)
  have "owner_queues_inv r'" using q erase_items_inv [OF inv(1)] erase_items_inv [OF inv(2)]
    by (simp add: owner_queues_inv_def)
  moreover have "tx_queue r' = filter (\<lambda>i. tx_src_side i \<noteq> Some s \<and> tx_dst_side i \<noteq> Some s) (tx_queue r)"
    "rx_queue r' = filter (\<lambda>i. rx_src_side i \<noteq> Some s) (rx_queue r)"
    unfolding fst_owner_tx [symmetric] fst_owner_rx [symmetric]
    using q erase_items_inv [OF inv(1)] erase_items_inv [OF inv(2)] by simp_all
  moreover have off: "\<not> ingress_enabled (sides r' ! nat s)" "\<not> egress_enabled (sides r' ! nat s)"
    using tb rng by simp_all
  moreover have "s \<notin> set (fst (choose_targets E w preferred item r'))" if "tx_dst_side item = None"
    using choose_targets_egress [OF _ that] off(2) by blast
  ultimately show ?thesis
    using tb side by (simp add: map_of_filter_key map_of_forgotten forget_side_policy_def)
qed

definition crowded_owner :: owner where
  "crowded_owner = sample_owner\<lparr>tx_queue := [control_item gps_packet 1, control_item command_packet 0],
     tx_queue_bytes := byte_cost_tx (control_item gps_packet 1) + byte_cost_tx (control_item command_packet 0),
     route_overrides := [((0, 1), True), ((2, 0), False)]\<rparr>"

theorem removed_side_forgotten_witness:
  "tx_queue (snd (remove_side sample_world 1 crowded_owner)) = [control_item command_packet 0] \<and>
   map_of (route_overrides (snd (remove_side sample_world 1 crowded_owner))) (0, 1) = None \<and>
   map_of (route_overrides (snd (remove_side sample_world 1 crowded_owner))) (2, 0) = Some False \<and>
   1 \<notin> set (fst (choose_targets sample_env sample_world None
     \<lparr>tx_pkt = gps_packet, tx_src_side = Some 0, tx_dst_side = None, deliver_local = False\<rparr>
     (snd (remove_side sample_world 1 crowded_owner))))"
proof -
  obtain r' where r': "remove_side sample_world 1 crowded_owner = (SEDS_OK, r')"
    by (simp add: remove_side_def crowded_owner_def sample_owner_def in_range_def Let_def)
  have inv: "owner_queues_inv crowded_owner"
    by (simp add: owner_queues_inv_def queue_inv_def owner_tx_def owner_rx_def crowded_owner_def sample_owner_def
        byte_cost_tx_def byte_cost_packet_def control_item_def gps_packet_def command_packet_def
        default_runtime_memory_config_def)
  have small: "(1 :: i32) < 2 ^ 31" by simp
  note forgotten = removed_side_forgotten [OF r' small inv, where E = sample_env and preferred = None and t = GPS and
    item = "\<lparr>tx_pkt = gps_packet, tx_src_side = Some 0, tx_dst_side = None, deliver_local = False\<rparr>"]
  from forgotten [where src = 0 and dst = 1] forgotten [where src = 2 and dst = 0]
  show ?thesis unfolding r' by (simp add: crowded_owner_def control_item_def)
qed

text \<open>
  A disabled route is not used. After \<open>set_route\<close> disables the way from one side to another, no
  packet that came from the first and has no explicit destination is sent to the second,
  whatever policy, typed routes and discovery say; clearing the route restores what the other
  tables allow.
\<close>

theorem disabled_route_not_used:
  assumes "tx_src_side item = (if src < 0 then None else Some src)" "- 1 \<le> src" "tx_dst_side item = None"
  shows "dst \<notin> set (fst (choose_targets E w preferred item (set_route src dst False r))) \<and>
    clear_route src dst (set_route src dst False r) = clear_route src dst r"
proof
  have "src < 0 \<Longrightarrow> src = - 1" using assms(2) by simp
  then have "(case tx_src_side item of Some i \<Rightarrow> i | None \<Rightarrow> - 1) = src" using assms(1) by simp
  moreover have "map_of (route_overrides (set_route src dst False r)) (src, dst) = Some False"
    by (simp add: set_route_def map_of_mput)
  ultimately show "dst \<notin> set (fst (choose_targets E w preferred item (set_route src dst False r)))"
    using choose_targets_egress [OF _ assms(3)] by metis
  show "clear_route src dst (set_route src dst False r) = clear_route src dst r"
    by (simp add: clear_route_def set_route_def)
qed

theorem disabled_route_not_used_witness:
  "1 \<notin> set (fst (choose_targets sample_env sample_world None
     \<lparr>tx_pkt = gps_packet, tx_src_side = Some 0, tx_dst_side = None, deliver_local = False\<rparr>
     (set_route 0 1 False sample_owner)))"
  using disabled_route_not_used [where src = 0 and dst = 1 and E = sample_env and w = sample_world and
      preferred = None and r = sample_owner and
      item = "\<lparr>tx_pkt = gps_packet, tx_src_side = Some 0, tx_dst_side = None, deliver_local = False\<rparr>"] by simp

end
