(* ===== verification/Receive_Frame.thy ===== *)
theory Receive_Frame
  imports Sides_Facts
begin

text \<open>
  What reception leaves alone. Handling a packet may call the application, learn routes and
  queue transmissions, but it never touches the receive queue, the sides, the memory limits or,
  past the duplicate check, the cache of recent identities; and it keeps the accounting of both
  queues. The receive loops of theory \<open>Interface\<close> terminate because of that.
\<close>

definition kept :: "'a owner_scheme \<Rightarrow> 'a owner_scheme \<Rightarrow> bool" where
  "kept r r' \<longleftrightarrow>
     owner_rx r' = owner_rx r \<and> memory r' = memory r \<and> sides r' = sides r \<and>
     recent_ids r' = recent_ids r \<and> recent_set r' = recent_set r \<and>
     (owner_queues_inv r \<and> unat (max_queue_budget (memory r)) < 2 ^ 63 \<longrightarrow> owner_queues_inv r')"

named_theorems keeps

lemma kept_refl [simp, intro]: "kept r r"
  by (simp add: kept_def)

lemma kept_trans [trans]: "kept r r' \<Longrightarrow> kept r' r'' \<Longrightarrow> kept r r''"
  by (simp add: kept_def)

lemma kept_untouched: "untouched r r' \<Longrightarrow> kept r r'"
  by (simp add: kept_def untouched_def owner_queues_inv_def)

lemma kept_eq:
  assumes "owner_tx r' = owner_tx r" "owner_rx r' = owner_rx r" "memory r' = memory r" "sides r' = sides r"
    "recent_ids r' = recent_ids r" "recent_set r' = recent_set r"
  shows "kept r r'"
  using assms by (simp add: kept_def owner_queues_inv_def)

lemma kept_push_tx [keeps]: "kept r (push_tx item r)"
  using push_tx_inv(1) [of r item] by (simp add: kept_def push_tx_def set_tx_def owner_rx_def)

lemma kept_push_tx_front [keeps]: "kept r (push_tx_front item r)"
  using push_tx_inv(2) [of r item] by (simp add: kept_def push_tx_front_def set_tx_def owner_rx_def)

lemma kept_updates [simp]:
  "kept r (r'\<lparr>trace := t\<rparr>) = kept r r'" "kept r (r'\<lparr>reliable_tx := tx\<rparr>) = kept r r'"
  "kept r (r'\<lparr>reliable_rx := rx\<rparr>) = kept r r'" "kept r (r'\<lparr>reliable_released_rx := rel\<rparr>) = kept r r'"
  "kept r (r'\<lparr>discovery_routes := dr\<rparr>) = kept r r'" "kept r (r'\<lparr>discovery_next_ms := n\<rparr>) = kept r r'"
  "kept r (r'\<lparr>discovery_interval_ms := i\<rparr>) = kept r r'" "kept r (r'\<lparr>side_tx_deferred := b\<rparr>) = kept r r'"
  "kept r (r'\<lparr>reliable_return_routes := rr\<rparr>) = kept r r'" "kept r (r'\<lparr>reliable_return_route_order := ro\<rparr>) = kept r r'"
  by (simp_all add: kept_def owner_rx_def owner_tx_def owner_queues_inv_def)

lemma kept_router_updates [simp]:
  "kept r (r'\<lparr>end_to_end_reliable_tx := e\<rparr>) = kept r r'" "kept r (r'\<lparr>end_to_end_reliable_tx_order := eo\<rparr>) = kept r r'"
  "kept r (r'\<lparr>managed_latest := ml\<rparr>) = kept r r'" "kept r (r'\<lparr>managed_policy := mp\<rparr>) = kept r r'"
  "kept r (r'\<lparr>p2p_address := a\<rparr>) = kept r r'" "kept r (r'\<lparr>p2p_address_book := b\<rparr>) = kept r r'"
  "kept r (r'\<lparr>p2p_host_by_address := h\<rparr>) = kept r r'" "kept r (r'\<lparr>p2p_handlers := ph\<rparr>) = kept r r'"
  "kept r (r'\<lparr>p2p_stream_handlers := sh\<rparr>) = kept r r'" "kept r (r'\<lparr>p2p_stream_sessions := ss\<rparr>) = kept r r'"
  "kept r (r'\<lparr>p2p_next_stream_id := n\<rparr>) = kept r r'" "kept r (r'\<lparr>timesync := ts\<rparr>) = kept r r'"
  for r r' :: router
  by (simp_all add: kept_def owner_rx_def owner_tx_def owner_queues_inv_def)

lemma kept_relay_updates [simp]:
  "kept r (r'\<lparr>end_to_end_acked_destinations := d\<rparr>) = kept r r'"
  "kept r (r'\<lparr>end_to_end_acked_destination_order := ord\<rparr>) = kept r r'"
  for r r' :: relay
  by (simp_all add: kept_def owner_rx_def owner_tx_def owner_queues_inv_def)

section \<open>Link-level reliability\<close>

lemma kept_call_serialized [keeps]: "kept r (snd (call_serialized_tx w f bs r))"
  by (rule kept_untouched [OF call_serialized_tx_untouched])

lemma kept_call_back [keeps]: "kept r (snd (call_back w ev r))"
  by (rule kept_untouched [OF call_back_untouched])

lemma kept_link_control [keeps]: "kept r (handle_link_control E w pkt src r)"
proof -
  have "kept r (handle_ack_impl E s t a r)" for s t a
    by (simp add: handle_ack_impl_def Let_def split: option.split)
  moreover have "kept r (handle_partial_ack_impl s t a r)" for s t a
    by (simp add: handle_partial_ack_impl_def Let_def split: option.split)
  moreover have "kept r (handle_packet_request_impl w s t a r)" for s t a
    using kept_call_serialized [of r w] by (simp add: handle_packet_request_impl_def Let_def case_prod_unfold split: option.split)
  ultimately show ?thesis by (simp add: handle_link_control_def Let_def split: option.split)
qed

lemma kept_return_routes: "note_return_routes E pkt src pid r = Some r' \<Longrightarrow> kept r r'"
  by (auto simp: note_return_routes_def note_reliable_return_route_def Let_def case_prod_unfold bind_eq_Some_conv
      split: option.splits if_splits)

lemma untouched_timeout_seq: "untouched r (snd S) \<Longrightarrow> untouched r (snd (timeout_seq E w now f S sq))"
  using call_serialized_tx_untouched [of "snd S" w f] untouched_trans [of r "snd S"]
  by (auto simp: timeout_seq_def Let_def case_prod_unfold split: option.splits)

lemma untouched_timeout_key: "untouched r (timeout_key E w now r key)"
proof -
  have "untouched r (snd (foldl (timeout_seq E w now f) S sqs))" if "untouched r (snd S)" for f sqs S
    using that by (induction sqs arbitrary: S) (simp_all add: untouched_timeout_seq)
  then show ?thesis
    by (simp add: timeout_key_def Let_def case_prod_unfold split: option.split)
qed

lemma untouched_reliable_timeouts: "untouched r (do_reliable_timeouts E w r)"
proof -
  have "untouched r (foldl (timeout_key E w now) x keys)" if "untouched r x" for now x keys
    using that by (induction keys arbitrary: x) (simp_all add: untouched_trans [OF _ untouched_timeout_key])
  then show ?thesis by (simp add: do_reliable_timeouts_def)
qed

lemma kept_foldl: "(\<And>r x. kept r (f r x)) \<Longrightarrow> kept r (foldl f r xs)"
  by (induction xs arbitrary: r) (auto intro: kept_trans)

lemma kept_reliable_timeouts [keeps]: "kept r (do_reliable_timeouts E w r)"
  by (rule kept_untouched [OF untouched_reliable_timeouts])

section \<open>End-to-end reliability\<close>

lemma kept_end_to_end_acked [keeps]: "kept r (end_to_end_acked acked from r)"
  by (simp add: end_to_end_acked_def Let_def split: option.split)

lemma kept_end_to_end_ack: "queue_end_to_end_ack E w pkt src r = Some r' \<Longrightarrow> kept r r'"
  by (auto simp: queue_end_to_end_ack_def Let_def bind_eq_Some_conv intro: kept_trans keeps split: if_splits)

lemma kept_requeue [keeps]: "kept r (requeue_pending now r pid)"
proof -
  have fold: "kept r (foldl (\<lambda>r s. push_tx_front (item s) r) r ts)" for item :: "i32 \<Rightarrow> tx_item" and ts
    by (rule kept_foldl) (rule kept_push_tx_front)
  have "kept r (push_tx_front i (foldl (\<lambda>r s. push_tx_front (item s) r) r ts))" for i and item :: "i32 \<Rightarrow> tx_item" and ts
    by (rule kept_trans [OF fold kept_push_tx_front])
  with fold show ?thesis
    by (simp add: requeue_pending_def Let_def split: option.split)
qed

lemma kept_end_to_end_timeouts [keeps]: "kept r (process_end_to_end_reliable_timeouts E w r)"
  using kept_trans [OF _ kept_foldl [of "requeue_pending (now_ms w r)", OF kept_requeue]]
  by (simp add: process_end_to_end_reliable_timeouts_def reconcile_end_to_end_reliable_destinations_def Let_def
      case_prod_unfold)

section \<open>Discovery and time\<close>

lemma kept_note_change [simp]: "kept r (note_discovery_topology_change now r') = kept r r'"
  by (simp add: note_discovery_topology_change_def)

lemma kept_discovery [keeps]:
  "kept r (handle_discovery_packet_router E w pkt src r)" "kept q (handle_discovery_packet_relay E w pkt src q)"
  by (simp_all add: handle_discovery_packet_router_def handle_discovery_packet_relay_def handle_discovery_impl_def
      Let_def case_prod_unfold split: option.split)

lemma kept_timesync [keeps]: "kept r (handle_timesync_packet E w pkt src r)"
  by (simp add: handle_timesync_packet_def Let_def case_prod_unfold keeps)

section \<open>Peer-to-peer\<close>

lemma kept_call_handlers [keeps]: "kept r (snd (call_handlers w mk fs r))"
proof -
  obtain rc r' where c: "call_handlers w mk fs r = (rc, r')" by fastforce
  then obtain evs where "r' = r\<lparr>trace := trace r @ evs\<rparr>" using call_handlers_frame by blast
  then show ?thesis by (simp add: c)
qed

lemma kept_enqueue_p2p [keeps]: "kept r (snd (enqueue_p2p_packet E w dp sp body r))"
proof -
  have "kept r (snd (local_p2p_address r))"
    by (simp add: local_p2p_address_def learn_address_def Let_def)
  from kept_trans [OF this kept_push_tx] show ?thesis
    by (simp add: enqueue_p2p_packet_def Let_def case_prod_unfold)
qed

lemma kept_stream_handlers [keeps]: "kept r (snd (call_stream_handlers w port ev r))"
  unfolding call_stream_handlers_def Let_def
  by (rule kept_trans [OF _ kept_call_handlers]) simp

lemma kept_stream_syn [keeps]: "kept r (snd (stream_syn E w msg frame r))"
proof -
  obtain lid r1 where a: "allocate_p2p_stream_id r = (lid, r1)" by fastforce
  have r1: "kept r r1" using allocate_frame [of r] a by auto
  show ?thesis
  proof (cases "find_session msg frame r \<noteq> 0 \<or> lid = 0")
    case True
    then show ?thesis using r1 by (auto simp: stream_syn_def Let_def a keeps)
  next
    case False
    define s where "s = \<lparr>peer_hostname = source_hostname msg, peer_address = source_address msg,
      local_port = destination_port msg, peer_port = source_port msg, peer_stream_id = source_stream_id frame,
      next_sequence = 1, connected = True\<rparr>"
    obtain rc r3 where c: "call_stream_handlers w (destination_port msg) (stream_event_of 1 lid s frame)
        (r1\<lparr>p2p_stream_sessions := mput lid s (p2p_stream_sessions r1)\<rparr>) = (rc, r3)" by fastforce
    have "kept r (r1\<lparr>p2p_stream_sessions := mput lid s (p2p_stream_sessions r1)\<rparr>)" using r1 by simp
    from kept_trans [OF this kept_stream_handlers [of _ w "destination_port msg" "stream_event_of 1 lid s frame"]]
    have "kept r r3" by (simp add: c)
    then show ?thesis using False kept_trans [OF _ kept_enqueue_p2p]
      by (simp add: stream_syn_def Let_def a c s_def [symmetric])
  qed
qed

lemma kept_stream_syn_ack [keeps]: "kept r (snd (stream_syn_ack w frame r))"
  unfolding stream_syn_ack_def Let_def by (auto split: option.split intro!: kept_trans [OF _ kept_stream_handlers])

lemma kept_stream_data [keeps]: "kept r (snd (stream_data w msg frame r))"
  using kept_stream_handlers [of r w] by (auto simp: stream_data_def Let_def case_prod_unfold split: option.split)

lemma kept_dispatch_p2p [keeps]: "kept r (snd (dispatch_p2p_packet E w pkt r))"
proof -
  have learn: "kept r (learn_address h a r)" for h a by (simp add: learn_address_def)
  have stream: "kept x (snd (dispatch_p2p_stream E w d frame x))" for d frame x
    by (simp add: dispatch_p2p_stream_def keeps)
  have learned: "kept r (snd (dispatch_p2p_stream E w d frame (learn_address h a r)))"
    "kept r (snd (call_handlers w mk fs ((learn_address h a r)\<lparr>p2p_handlers := ph\<rparr>)))" for d frame h a mk fs ph
    by (rule kept_trans [OF learn stream], rule kept_trans [OF _ kept_call_handlers]) (simp add: learn)
  have "kept r (snd (call_handlers w mk fs (r\<lparr>p2p_handlers := ph\<rparr>)))" for mk fs ph
    by (rule kept_trans [OF _ kept_call_handlers]) simp
  with learned stream show ?thesis
    by (simp add: dispatch_p2p_packet_def Let_def split: option.split)
qed

section \<open>Reception\<close>

lemma kept_managed_request: "handle_managed_variable_request E pkt src r = (b, r') \<Longrightarrow> kept r r'"
  by (auto simp: handle_managed_variable_request_def keeps split: if_splits option.splits)

lemma kept_remember_managed [keeps]: "kept r (remember_managed_variable_packet E w pkt r)"
proof -
  have "kept r (store_managed E w pkt r)" by (simp add: store_managed_def)
  moreover have "kept x (invoke_managed_callback w pkt x)" for x
    by (simp add: invoke_managed_callback_def keeps split: option.split)
  ultimately show ?thesis
    by (auto simp: remember_managed_variable_packet_def intro: kept_trans split: option.split)
qed

lemma kept_receive_fresh: "receive_fresh E w pkt src r = Some r' \<Longrightarrow> kept r r'"
proof -
  assume rf: "receive_fresh E w pkt src r = Some r'"
  obtain handled r1 where m: "handle_managed_variable_request E pkt src r = (handled, r1)" by fastforce
  note k1 = kept_managed_request [OF m]
  define r3 where "r3 = remember_managed_variable_packet E w pkt (snd (dispatch_local_packet_handlers E w pkt (locals r1) r1))"
  have k3: "kept r r3" unfolding r3_def
    by (rule kept_trans [OF kept_trans [OF k1 kept_untouched [OF dispatch_local_packet_handlers_untouched]]
          kept_remember_managed])
  consider "is_internal_control_type (ty pkt)" | "\<not> is_internal_control_type (ty pkt)"
    "handled \<or> ty pkt = p2p_type_id E \<or> is_discovery_control_type (ty pkt) \<or> ty pkt = SEDS_DT_TIME_SYNC_ANNOUNCE \<or>
      ty pkt = SEDS_DT_TIME_SYNC_REQUEST \<or> ty pkt = SEDS_DT_TIME_SYNC_RESPONSE"
    | r4 where "kept r3 r4" "r' = r4 \<or> (\<exists>item. r' = push_tx item r4)"
  proof (cases "is_internal_control_type (ty pkt) \<or> handled \<or> ty pkt = p2p_type_id E \<or> is_discovery_control_type (ty pkt) \<or>
      ty pkt = SEDS_DT_TIME_SYNC_ANNOUNCE \<or> ty pkt = SEDS_DT_TIME_SYNC_REQUEST \<or> ty pkt = SEDS_DT_TIME_SYNC_RESPONSE")
    case False
    then obtain r4 where "(if src \<noteq> None \<and> has_local_handler pkt r1 \<and> is_reliable_type E (ty pkt)
        then queue_end_to_end_ack E w pkt src r3 else Some r3) = Some r4" "r' = r4 \<or> (\<exists>item. r' = push_tx item r4)"
      using rf by (auto simp: receive_fresh_def m r3_def bind_eq_Some_conv Let_def case_prod_unfold
          split: if_splits)
    then show thesis using that(3) kept_end_to_end_ack by (metis option.inject kept_refl)
  qed (use that in auto)
  then show ?thesis
  proof cases
    case 1
    then show ?thesis using rf by (auto simp: receive_fresh_def keeps)
  next
    case 2
    then show ?thesis using rf k1 kept_trans [OF k1] by (auto simp: receive_fresh_def m keeps split: if_splits)
  next
    case 3
    then show ?thesis using k3 kept_trans kept_push_tx by metis
  qed
qed

text \<open>A duplicate only queues acknowledgements; a fresh packet is first entered into the cache.\<close>

lemma router_receive_cases:
  assumes "router_receive_impl E w pkt src r = Some r'"
  obtains (duplicate) pid where "packet_id E pkt = Some pid" "pid \<in> set (recent_set r)"
      "r' = r \<or> queue_end_to_end_ack E w pkt src r = Some r'"
  | (fresh) pid ids st r1 where "packet_id E pkt = Some pid" "pid \<notin> set (recent_set r)"
      "push_recent (max_recent_rx_ids (memory r)) (recent_ids r, recent_set r) pid = Some (ids, st)"
      "note_return_routes E pkt src pid (r\<lparr>recent_ids := ids, recent_set := st\<rparr>) = Some r1"
      "receive_fresh E w pkt src r1 = Some r'"
proof -
  obtain pid where pid: "packet_id E pkt = Some pid"
    using assms by (auto simp: router_receive_impl_def bind_eq_Some_conv)
  show thesis
  proof (cases "pid \<in> set (recent_set r)")
    case True
    then show thesis using assms pid by (intro duplicate) (auto simp: router_receive_impl_def split: if_splits)
  next
    case False
    then obtain ids st r1 where "push_recent (max_recent_rx_ids (memory r)) (recent_ids r, recent_set r) pid = Some (ids, st)"
      "note_return_routes E pkt src pid (r\<lparr>recent_ids := ids, recent_set := st\<rparr>) = Some r1"
      "receive_fresh E w pkt src r1 = Some r'"
      using assms pid by (auto simp: router_receive_impl_def bind_eq_Some_conv)
    then show thesis using fresh pid False by blast
  qed
qed

lemma router_receive_frame:
  assumes "router_receive_impl E w pkt src r = Some r'"
  shows "owner_rx r' = owner_rx r \<and> memory r' = memory r \<and> sides r' = sides r \<and>
    (owner_queues_inv r \<and> unat (max_queue_budget (memory r)) < 2 ^ 63 \<longrightarrow> owner_queues_inv r')"
  using assms
proof (cases rule: router_receive_cases)
  case (duplicate pid)
  then have "kept r r'" using kept_end_to_end_ack by auto
  then show ?thesis by (simp add: kept_def)
next
  case (fresh pid ids st r1)
  from kept_trans [OF kept_return_routes [OF fresh(4)] kept_receive_fresh [OF fresh(5)]]
  show ?thesis by (auto simp: kept_def owner_rx_def owner_tx_def owner_queues_inv_def)
qed

lemma router_receive_remembers:
  assumes "router_receive_impl E w pkt src r = Some r'" "packet_id E pkt = Some pid"
  shows "pid \<in> set (recent_set r')"
  using assms(1)
proof (cases rule: router_receive_cases)
  case (duplicate pid')
  then have "kept r r'" using kept_end_to_end_ack by auto
  then show ?thesis using duplicate assms(2) by (simp add: kept_def)
next
  case (fresh pid' ids st r1)
  have "pid \<in> set st" using fresh(1,3) assms(2)
    by (auto simp: push_recent_def split: if_splits list.splits)
  moreover have "kept (r\<lparr>recent_ids := ids, recent_set := st\<rparr>) r'"
    by (rule kept_trans [OF kept_return_routes [OF fresh(4)] kept_receive_fresh [OF fresh(5)]])
  ultimately show ?thesis by (simp add: kept_def)
qed

lemma length_evict: "length (fst (evict c cost budget q b)) \<le> length q"
  by (induction q arbitrary: b) (auto intro: le_SucI)

lemma length_push_tx: "length (tx_queue (push_tx item r)) \<le> Suc (length (tx_queue r))"
  using length_evict [of byte_cost_tx "byte_cost_tx item" "max_queue_budget (memory r)" "tx_queue r" "tx_queue_bytes r"]
  by (simp add: push_tx_def set_tx_def enqueue_tx_def enqueue_bounded_def owner_tx_def Let_def case_prod_unfold)

lemma tx_queue_link_control: "tx_queue (handle_link_control E w pkt src r) = tx_queue r"
proof -
  have "tx_queue (handle_packet_request_impl w s t a r) = tx_queue r" for s t a
    using untouched_D(1) [OF call_serialized_tx_untouched [of r w]]
    by (simp add: handle_packet_request_impl_def Let_def case_prod_unfold split: option.split)
  then show ?thesis
    by (simp add: handle_link_control_def handle_ack_impl_def handle_partial_ack_impl_def Let_def split: option.split)
qed

lemma relay_receive_frame:
  assumes "relay_receive_impl E w pkt src r = Some r'"
  shows "kept r r' \<and> length (tx_queue r') \<le> Suc (length (tx_queue r))"
proof -
  obtain pid r1 where r1: "note_return_routes E pkt src pid r = Some r1" and r': "r' =
      (if is_internal_control_type (ty pkt) then
         (if is_end_to_end_ack pkt then relay_end_to_end_ack E pkt src r1 else handle_link_control E w pkt src r1)
       else push_tx \<lparr>tx_pkt = pkt, tx_src_side = src, tx_dst_side = None, deliver_local = False\<rparr>
         (if is_discovery_control_type (ty pkt) then handle_discovery_packet_relay E w pkt src r1 else r1))"
    using assms by (auto simp: relay_receive_impl_def bind_eq_Some_conv Let_def)
  have q1: "tx_queue r1 = tx_queue r" using r1
    by (auto simp: note_return_routes_def note_reliable_return_route_def Let_def case_prod_unfold bind_eq_Some_conv
        split: option.splits if_splits)
  have ack: "kept r1 (relay_end_to_end_ack E pkt src r1) \<and>
      length (tx_queue (relay_end_to_end_ack E pkt src r1)) \<le> Suc (length (tx_queue r1))"
  proof -
    define r2 where "r2 = (case decode_end_to_end_ack_sender_hash (sender pkt) of
      Some h \<Rightarrow> note_end_to_end_acked_destination E (from_le (payload pkt)) h r1 | None \<Rightarrow> r1)"
    have "kept r1 r2" "tx_queue r2 = tx_queue r1"
      by (simp_all add: r2_def note_end_to_end_acked_destination_def Let_def case_prod_unfold split: option.split)
    moreover from kept_trans [OF this(1) kept_push_tx] have "kept r1 (push_tx i r2)" for i .
    ultimately show ?thesis using length_push_tx [of _ r2]
      by (simp add: relay_end_to_end_ack_def Let_def r2_def [symmetric] split: option.split)
  qed
  have disc: "tx_queue (handle_discovery_packet_relay E w pkt src r1) = tx_queue r1"
    by (simp add: handle_discovery_packet_relay_def handle_discovery_impl_def note_discovery_topology_change_def Let_def
        case_prod_unfold split: option.split)
  have "kept r1 r'" "length (tx_queue r') \<le> Suc (length (tx_queue r1))"
    using ack disc length_push_tx [of _ r1] length_push_tx [of _ "handle_discovery_packet_relay E w pkt src r1"]
      kept_push_tx [of r1] kept_trans [OF kept_discovery(2) [of r1 E w pkt src] kept_push_tx]
      kept_link_control [of r1 E w pkt src] tx_queue_link_control [of E w pkt src r1]
    by (simp_all add: r')
  then show ?thesis using kept_trans [OF kept_return_routes [OF r1]] q1 by simp
qed

end
