(* ===== verification/Interface.thy ===== *)
theory Interface
  imports Receive_Frame
begin

text \<open>
  The functions of the C interface that move packets: \<open>seds_router_*\<close> of \<open>src/router_api.cpp\<close>.
  A call returns the result code and the new router; \<open>None\<close> stands for the faults of theory
  \<open>Router\<close> and, in the two loops whose end depends on the clock, for a call that does not
  return. A null router is not represented. A side number arrives as 32-bit unsigned and is cast
  to \<open>int32_t\<close>.
\<close>

section \<open>Queues of a node\<close>

definition push_rx :: "rx_item \<Rightarrow> 'a owner_scheme \<Rightarrow> 'a owner_scheme" where
  "push_rx item r = set_rx (snd (enqueue_rx (owner_rx r) item (max_queue_budget (memory r)))) r"

text \<open>\<open>enqueue_*(\<dots>) ? SEDS_OK : SEDS_PACKET_TOO_LARGE\<close>\<close>

definition offer_tx :: "tx_item \<Rightarrow> 'a owner_scheme \<Rightarrow> seds_result \<times> 'a owner_scheme" where
  "offer_tx item r =
     (let (ok, Q) = enqueue_tx (owner_tx r) item (max_queue_budget (memory r))
      in (if ok then SEDS_OK else SEDS_PACKET_TOO_LARGE, set_tx Q r))"

definition offer_rx :: "rx_item \<Rightarrow> 'a owner_scheme \<Rightarrow> seds_result \<times> 'a owner_scheme" where
  "offer_rx item r =
     (let (ok, Q) = enqueue_rx (owner_rx r) item (max_queue_budget (memory r))
      in (if ok then SEDS_OK else SEDS_PACKET_TOO_LARGE, set_rx Q r))"

definition offer_rx_front :: "rx_item \<Rightarrow> 'a owner_scheme \<Rightarrow> seds_result \<times> 'a owner_scheme" where
  "offer_rx_front item r =
     (let (ok, Q) = enqueue_rx_front (owner_rx r) item (max_queue_budget (memory r))
      in (if ok then SEDS_OK else SEDS_PACKET_TOO_LARGE, set_rx Q r))"

definition enforce_budget :: "'a owner_scheme \<Rightarrow> 'a owner_scheme" where
  "enforce_budget r =
     (let (rx, tx) = enforce_shared_queue_budget (max_queue_budget (memory r)) (owner_rx r) (owner_tx r)
      in set_rx rx (set_tx tx r))"

text \<open>\<open>if (enqueued) enforce_shared_queue_budget(*r);\<close>\<close>

definition then_enforce :: "seds_result \<times> 'a owner_scheme \<Rightarrow> seds_result \<times> 'a owner_scheme" where
  "then_enforce S = (case S of (rc, r) \<Rightarrow> (rc, if rc = SEDS_OK then enforce_budget r else r))"

text \<open>The loop over \<open>reliable_released_rx\<close> and the \<open>clear\<close> after it.\<close>

definition enqueue_released :: "'a owner_scheme \<Rightarrow> 'a owner_scheme" where
  "enqueue_released r = (fold push_rx (reliable_released_rx r) r)\<lparr>reliable_released_rx := []\<rparr>"

section \<open>Discovery and time\<close>

definition seds_router_announce_discovery :: "env \<Rightarrow> world \<Rightarrow> router \<Rightarrow> (seds_result \<times> router) option" where
  "seds_router_announce_discovery E w r = map_option (Pair SEDS_OK) (queue_discovery_packets_router E w r)"

text \<open>The boolean is \<open>*out_did_queue\<close>; the result is always \<open>SEDS_OK\<close>.\<close>

definition seds_router_poll_discovery :: "env \<Rightarrow> world \<Rightarrow> router \<Rightarrow> (bool \<times> router) option" where
  "seds_router_poll_discovery E w r =
     (if discovery_next_ms r \<le> now_ms w r then map_option (Pair True) (queue_discovery_packets_router E w r)
      else Some (False, r))"

text \<open>A field of a calendar time that may be absent: a flag and a value.\<close>

definition given :: "bool \<Rightarrow> int \<Rightarrow> int option" where
  "given has v = (if has then Some v else None)"

definition seds_router_set_local_network_time ::
    "world \<Rightarrow> bool \<Rightarrow> int \<Rightarrow> bool \<Rightarrow> u8 \<Rightarrow> bool \<Rightarrow> u8 \<Rightarrow> bool \<Rightarrow> u8 \<Rightarrow> bool \<Rightarrow> u8 \<Rightarrow> bool \<Rightarrow> u8 \<Rightarrow> bool \<Rightarrow> u32 \<Rightarrow>
     router \<Rightarrow> seds_result \<times> router" where
  "seds_router_set_local_network_time w has_year year has_month month has_day day has_hour hour has_minute minute
     has_second second has_nanosecond nanosecond =
     set_network_time_from_fields w (given has_year year) (given has_month (uint month)) (given has_day (uint day))
       (given has_hour (uint hour)) (given has_minute (uint minute)) (given has_second (uint second))
       (given has_nanosecond (uint nanosecond))"

definition seds_router_set_local_network_date ::
    "world \<Rightarrow> int \<Rightarrow> u8 \<Rightarrow> u8 \<Rightarrow> router \<Rightarrow> seds_result \<times> router" where
  "seds_router_set_local_network_date w year month day =
     seds_router_set_local_network_time w True year True month True day False 0 False 0 False 0 False 0"

definition seds_router_set_local_network_time_hm ::
    "world \<Rightarrow> u8 \<Rightarrow> u8 \<Rightarrow> router \<Rightarrow> seds_result \<times> router" where
  "seds_router_set_local_network_time_hm w hour minute =
     seds_router_set_local_network_time w False 0 False 0 False 0 True hour True minute False 0 False 0"

definition seds_router_set_local_network_time_hms ::
    "world \<Rightarrow> u8 \<Rightarrow> u8 \<Rightarrow> u8 \<Rightarrow> router \<Rightarrow> seds_result \<times> router" where
  "seds_router_set_local_network_time_hms w hour minute second =
     seds_router_set_local_network_time w False 0 False 0 False 0 True hour True minute True second False 0"

text \<open>\<open>static_cast<uint32_t>(millisecond) * 1000000u\<close> wraps at 32 bits.\<close>

definition millis_to_nanos :: "u16 \<Rightarrow> u32" where
  "millis_to_nanos ms = ucast ms * 1000000"

definition seds_router_set_local_network_time_hms_millis ::
    "world \<Rightarrow> u8 \<Rightarrow> u8 \<Rightarrow> u8 \<Rightarrow> u16 \<Rightarrow> router \<Rightarrow> seds_result \<times> router" where
  "seds_router_set_local_network_time_hms_millis w hour minute second millisecond =
     seds_router_set_local_network_time w False 0 False 0 False 0 True hour True minute True second True
       (millis_to_nanos millisecond)"

definition seds_router_set_local_network_time_hms_nanos ::
    "world \<Rightarrow> u8 \<Rightarrow> u8 \<Rightarrow> u8 \<Rightarrow> u32 \<Rightarrow> router \<Rightarrow> seds_result \<times> router" where
  "seds_router_set_local_network_time_hms_nanos w hour minute second nanosecond =
     seds_router_set_local_network_time w False 0 False 0 False 0 True hour True minute True second True nanosecond"

definition seds_router_set_local_network_datetime ::
    "world \<Rightarrow> int \<Rightarrow> u8 \<Rightarrow> u8 \<Rightarrow> u8 \<Rightarrow> u8 \<Rightarrow> u8 \<Rightarrow> router \<Rightarrow> seds_result \<times> router" where
  "seds_router_set_local_network_datetime w year month day hour minute second =
     seds_router_set_local_network_time w True year True month True day True hour True minute True second False 0"

definition seds_router_set_local_network_datetime_millis ::
    "world \<Rightarrow> int \<Rightarrow> u8 \<Rightarrow> u8 \<Rightarrow> u8 \<Rightarrow> u8 \<Rightarrow> u8 \<Rightarrow> u16 \<Rightarrow> router \<Rightarrow> seds_result \<times> router" where
  "seds_router_set_local_network_datetime_millis w year month day hour minute second millisecond =
     seds_router_set_local_network_time w True year True month True day True hour True minute True second True
       (millis_to_nanos millisecond)"

definition seds_router_set_local_network_datetime_nanos ::
    "world \<Rightarrow> int \<Rightarrow> u8 \<Rightarrow> u8 \<Rightarrow> u8 \<Rightarrow> u8 \<Rightarrow> u8 \<Rightarrow> u32 \<Rightarrow> router \<Rightarrow> seds_result \<times> router" where
  "seds_router_set_local_network_datetime_nanos w year month day hour minute second nanosecond =
     seds_router_set_local_network_time w True year True month True day True hour True minute True second True
       nanosecond"

section \<open>Transmitting\<close>

text \<open>The retry timers that run before the transmit queue is worked on.\<close>

definition router_timeouts :: "env \<Rightarrow> world \<Rightarrow> router \<Rightarrow> router" where
  "router_timeouts E w r = process_end_to_end_reliable_timeouts E w (do_reliable_timeouts E w r)"

text \<open>
  The body of \<open>while (auto item = pop_tx(\<dots>))\<close>. The first component is the value returned from
  inside the loop, if any; a deferred item goes back to the front of the queue.
\<close>

definition tx_result :: "tx_item \<Rightarrow> seds_result \<times> 'a owner_scheme \<Rightarrow> seds_result option \<times> 'a owner_scheme" where
  "tx_result item S =
     (case S of (rc, r) \<Rightarrow>
        if rc = SEDS_OK then (None, r)
        else if rc = SEDS_IO then (Some SEDS_OK, push_tx_front item r)
        else (Some rc, r))"

definition router_send :: "env \<Rightarrow> world \<Rightarrow> tx_item \<Rightarrow> tx_item list \<times> u64 \<Rightarrow> router \<Rightarrow> (seds_result option \<times> router) option" where
  "router_send E w item Q r = map_option (tx_result item) (transmit_item_router E w item (set_tx Q r))"

lemma set_tx_queue [simp]: "tx_queue (set_tx Q r) = fst Q" "rx_queue (set_tx Q r) = rx_queue r"
  "tx_queue (set_rx P r) = tx_queue r" "rx_queue (set_rx P r) = fst P"
  by (simp_all add: set_tx_def set_rx_def)

lemma router_send_goes_on:
  assumes "router_send E w item Q r = Some (None, r')"
  shows "untouched (set_tx Q r) r'"
  using assms transmit_item_router_untouched
  by (auto simp: router_send_def tx_result_def split: if_splits)

lemma pop_tx_Some: "(Some item, Q') = pop_tx Q \<Longrightarrow> length (fst Q') < length (fst Q)"
  by (auto simp: pop_tx_def pop_queue_def split: list.splits)

lemma pop_rx_Some: "(Some item, Q') = pop_rx Q \<Longrightarrow> length (fst Q') < length (fst Q)"
  by (auto simp: pop_rx_def pop_queue_def split: list.splits)

function drain_tx :: "env \<Rightarrow> world \<Rightarrow> router \<Rightarrow> (seds_result \<times> router) option" where
  "drain_tx E w r =
     (case pop_tx (owner_tx r) of
        (None, _) \<Rightarrow> Some (SEDS_OK, r)
      | (Some item, Q) \<Rightarrow>
          (case router_send E w item Q r of
             None \<Rightarrow> None
           | Some (Some rc, r') \<Rightarrow> Some (rc, r')
           | Some (None, r') \<Rightarrow> drain_tx E w r'))"
  by pat_completeness auto

termination
  by (relation "measure (\<lambda>(_, _, r). length (tx_queue r))")
    (auto dest!: router_send_goes_on untouched_D(1) dest: pop_tx_Some simp: owner_tx_def)

declare drain_tx.simps [simp del]

definition seds_router_process_tx_queue :: "env \<Rightarrow> world \<Rightarrow> router \<Rightarrow> (seds_result \<times> router) option" where
  "seds_router_process_tx_queue E w r = drain_tx E w (router_timeouts E w r)"

section \<open>Logging\<close>

text \<open>
  The transmit loop inside \<open>seds_router_log_bytes_ex\<close>. It puts a deferred item back only when
  \<open>side_tx_deferred\<close> is still set.
\<close>

definition log_send :: "env \<Rightarrow> world \<Rightarrow> tx_item \<Rightarrow> tx_item list \<times> u64 \<Rightarrow> router \<Rightarrow> (seds_result option \<times> router) option" where
  "log_send E w item Q r =
     map_option (\<lambda>(rc, r').
        if rc = SEDS_OK then (None, r')
        else if rc = SEDS_IO \<and> side_tx_deferred r' then
          (Some SEDS_OK, push_tx_front item (r'\<lparr>side_tx_deferred := False\<rparr>))
        else (Some rc, r'))
      (transmit_item_router E w item (set_tx Q r))"

lemma log_send_goes_on:
  assumes "log_send E w item Q r = Some (None, r')"
  shows "untouched (set_tx Q r) r'"
  using assms transmit_item_router_untouched by (auto simp: log_send_def split: if_splits)

function log_drain :: "env \<Rightarrow> world \<Rightarrow> router \<Rightarrow> (seds_result \<times> router) option" where
  "log_drain E w r =
     (case pop_tx (owner_tx r) of
        (None, _) \<Rightarrow> Some (SEDS_OK, r)
      | (Some item, Q) \<Rightarrow>
          (case log_send E w item Q r of
             None \<Rightarrow> None
           | Some (Some rc, r') \<Rightarrow> Some (rc, r')
           | Some (None, r') \<Rightarrow> log_drain E w r'))"
  by pat_completeness auto

termination
  by (relation "measure (\<lambda>(_, _, r). length (tx_queue r))")
    (auto dest!: log_send_goes_on untouched_D(1) dest: pop_tx_Some simp: owner_tx_def)

declare log_drain.simps [simp del]

definition seds_router_log_bytes_ex ::
    "env \<Rightarrow> world \<Rightarrow> u32 \<Rightarrow> bytes option \<Rightarrow> nat \<Rightarrow> u64 option \<Rightarrow> bool \<Rightarrow> router \<Rightarrow> (seds_result \<times> router) option" where
  "seds_router_log_bytes_ex E w t data len timestamp_opt queue r =
     (if \<not> valid_type E t \<or> data = None \<or> \<not> validate_payload E t len then Some (SEDS_SIZE_MISMATCH, r)
      else do {
        pl \<leftarrow> read_ptr (the data) len;
        let pkt = \<lparr>ty = t, sender = r_sender r, endpoints = ti_endpoints (type_at E t),
                   timestamp = (case timestamp_opt of Some ts \<Rightarrow> ts | None \<Rightarrow> now_ms w r), payload = pl\<rparr>;
        let item = (\<lambda>dl. \<lparr>tx_pkt = pkt, tx_src_side = None, tx_dst_side = None, deliver_local = dl\<rparr>);
        if queue then Some (then_enforce (offer_tx (item True) r))
        else
          let (rc, r1) = offer_tx (item False) (dispatch_local_from_packet E w pkt (locals r) r) in
          if rc \<noteq> SEDS_OK then Some (rc, r1) else log_drain E w r1
      })"

definition seds_router_log_f32_ex ::
    "env \<Rightarrow> world \<Rightarrow> u32 \<Rightarrow> bytes option \<Rightarrow> nat \<Rightarrow> u64 option \<Rightarrow> bool \<Rightarrow> router \<Rightarrow> (seds_result \<times> router) option" where
  "seds_router_log_f32_ex E w t vals n_vals = seds_router_log_bytes_ex E w t vals (size_mul n_vals 4)"

definition seds_router_log_typed_ex ::
    "env \<Rightarrow> world \<Rightarrow> u32 \<Rightarrow> bytes option \<Rightarrow> nat \<Rightarrow> nat \<Rightarrow> u64 option \<Rightarrow> bool \<Rightarrow> router \<Rightarrow> (seds_result \<times> router) option" where
  "seds_router_log_typed_ex E w t data count esize =
     seds_router_log_bytes_ex E w t data (size_mul count esize)"

definition seds_router_log_string_ex ::
    "env \<Rightarrow> world \<Rightarrow> u32 \<Rightarrow> bytes option \<Rightarrow> nat \<Rightarrow> u64 option \<Rightarrow> bool \<Rightarrow> router \<Rightarrow> (seds_result \<times> router) option" where
  "seds_router_log_string_ex = seds_router_log_bytes_ex"

definition seds_router_log_bytes where
  "seds_router_log_bytes E w t data len = seds_router_log_bytes_ex E w t data len None False"

definition seds_router_log_f32 where
  "seds_router_log_f32 E w t vals n_vals = seds_router_log_f32_ex E w t vals n_vals None False"

definition seds_router_log_typed where
  "seds_router_log_typed E w t data count esize = seds_router_log_typed_ex E w t data count esize None False"

definition seds_router_log_queue_typed where
  "seds_router_log_queue_typed E w t data count esize = seds_router_log_typed_ex E w t data count esize None True"

section \<open>Receiving\<close>

text \<open>The types whose frames are shown to the handlers of serialized data.\<close>

definition shown_serialized :: "u32 \<Rightarrow> bool" where
  "shown_serialized t \<longleftrightarrow>
     \<not> is_discovery_control_type t \<and> t \<noteq> SEDS_DT_RELIABLE_ACK \<and> t \<noteq> SEDS_DT_RELIABLE_PARTIAL_ACK \<and>
     t \<noteq> SEDS_DT_RELIABLE_PACKET_REQUEST \<and> t \<noteq> SEDS_DT_TIME_SYNC_ANNOUNCE \<and>
     t \<noteq> SEDS_DT_TIME_SYNC_REQUEST \<and> t \<noteq> SEDS_DT_TIME_SYNC_RESPONSE"

definition show_serialized :: "world \<Rightarrow> frame_info \<Rightarrow> bytes \<Rightarrow> router \<Rightarrow> router" where
  "show_serialized w frame bs r =
     (if shown_serialized (env_ty (envelope frame))
      then dispatch_local_serialized_handlers w (env_endpoints (envelope frame)) bs (locals r) r else r)"

text \<open>The body of \<open>while (auto item = pop_rx(\<dots>))\<close>.\<close>

definition receive_item :: "env \<Rightarrow> world \<Rightarrow> rx_item \<Rightarrow> router \<Rightarrow> router option" where
  "receive_item E w item r = do {
     r1 \<leftarrow> (if wire_bytes item \<noteq> [] then do {
              f \<leftarrow> peek_frame_info E (wire_bytes item) True;
              Some (case f of None \<Rightarrow> r | Some frame \<Rightarrow> show_serialized w frame (wire_bytes item) r)
            } else Some r);
     router_receive_impl E w (rx_pkt item) (rx_src_side item) r1
   }"

lemma show_serialized_untouched: "untouched r (show_serialized w frame bs r)"
  by (simp add: show_serialized_def dispatch_local_serialized_handlers_untouched)

lemma receive_item_cases:
  assumes "receive_item E w item r = Some r'"
  obtains r1 where "untouched r r1" "router_receive_impl E w (rx_pkt item) (rx_src_side item) r1 = Some r'"
proof (cases "wire_bytes item = []")
  case True
  then show thesis using assms that [of r] by (simp add: receive_item_def)
next
  case False
  then obtain f where f: "router_receive_impl E w (rx_pkt item) (rx_src_side item)
      (case f of None \<Rightarrow> r | Some frame \<Rightarrow> show_serialized w frame (wire_bytes item) r) = Some r'"
    using assms by (auto simp: receive_item_def bind_eq_Some_conv)
  show thesis by (rule that [OF _ f]) (simp add: show_serialized_untouched split: option.split)
qed

lemma receive_item_rx: "receive_item E w item r = Some r' \<Longrightarrow> owner_rx r' = owner_rx r"
  by (elim receive_item_cases) (simp add: untouched_def router_receive_frame)

function drain_rx :: "env \<Rightarrow> world \<Rightarrow> router \<Rightarrow> (seds_result \<times> router) option" where
  "drain_rx E w r =
     (case pop_rx (owner_rx r) of
        (None, _) \<Rightarrow> Some (SEDS_OK, r)
      | (Some item, Q) \<Rightarrow>
          (case receive_item E w item (set_rx Q r) of
             None \<Rightarrow> None
           | Some r' \<Rightarrow> drain_rx E w r'))"
  by pat_completeness auto

termination
  by (relation "measure (\<lambda>(_, _, r). length (fst (owner_rx r)))") (auto dest!: receive_item_rx pop_rx_Some)

declare drain_rx.simps [simp del]

definition seds_router_process_rx_queue :: "env \<Rightarrow> world \<Rightarrow> router \<Rightarrow> (seds_result \<times> router) option" where
  "seds_router_process_rx_queue = drain_rx"

text \<open>Here the link-level control types are not excluded from the serialized handlers.\<close>

definition seds_router_receive_serialized :: "env \<Rightarrow> world \<Rightarrow> bytes \<Rightarrow> router \<Rightarrow> (seds_result \<times> router) option" where
  "seds_router_receive_serialized E w bs r = do {
     f \<leftarrow> peek_frame_info E bs True;
     p \<leftarrow> deserialize_packet E bs;
     (case (f, p) of
        (Some frame, Some pkt) \<Rightarrow>
          let t = env_ty (envelope frame);
              r1 = (if \<not> is_discovery_control_type t \<and> t \<noteq> SEDS_DT_TIME_SYNC_ANNOUNCE \<and>
                       t \<noteq> SEDS_DT_TIME_SYNC_REQUEST \<and> t \<noteq> SEDS_DT_TIME_SYNC_RESPONSE
                    then dispatch_local_serialized_handlers w (env_endpoints (envelope frame)) bs (locals r) r else r)
          in map_option (Pair SEDS_OK) (router_receive_impl E w pkt None r1)
      | _ \<Rightarrow> Some (SEDS_DESERIALIZE, r))
   }"

definition seds_router_receive :: "env \<Rightarrow> world \<Rightarrow> packet_view option \<Rightarrow> router \<Rightarrow> (seds_result \<times> router) option" where
  "seds_router_receive E w view r = do {
     p \<leftarrow> packet_from_view E view;
     (case p of
        None \<Rightarrow> Some (SEDS_BAD_ARG, r)
      | Some pkt \<Rightarrow> map_option (Pair SEDS_OK) (router_receive_impl E w pkt None r))
   }"

section \<open>Messages of the application\<close>

definition all_endpoints_local :: "router \<Rightarrow> packet \<Rightarrow> bool" where
  "all_endpoints_local r pkt \<longleftrightarrow>
     endpoints pkt \<noteq> [] \<and>
     list_all (\<lambda>ep. list_ex (\<lambda>l. le_endpoint l = ep \<and> (packet_handler l \<noteq> None \<or> serialized_handler l \<noteq> None)) (locals r))
       (endpoints pkt)"

definition transmit_packet_queue :: "packet \<Rightarrow> router \<Rightarrow> seds_result \<times> router" where
  "transmit_packet_queue pkt r =
     (if all_endpoints_local r pkt then then_enforce (offer_rx \<lparr>rx_pkt = pkt, rx_src_side = None, wire_bytes = []\<rparr> r)
      else then_enforce (offer_tx \<lparr>tx_pkt = pkt, tx_src_side = None, tx_dst_side = None, deliver_local = True\<rparr> r))"

definition seds_router_transmit_message_queue ::
    "env \<Rightarrow> packet_view option \<Rightarrow> router \<Rightarrow> (seds_result \<times> router) option" where
  "seds_router_transmit_message_queue E view r =
     map_option (\<lambda>p. case p of None \<Rightarrow> (SEDS_BAD_ARG, r) | Some pkt \<Rightarrow> transmit_packet_queue pkt r)
       (packet_from_view E view)"

definition seds_router_transmit_message ::
    "env \<Rightarrow> world \<Rightarrow> packet_view option \<Rightarrow> router \<Rightarrow> (seds_result \<times> router) option" where
  "seds_router_transmit_message E w view r = do {
     p \<leftarrow> packet_from_view E view;
     (case p of
        None \<Rightarrow> Some (SEDS_BAD_ARG, r)
      | Some pkt \<Rightarrow>
          if all_endpoints_local r pkt then Some (dispatch_local_packet_handlers E w pkt (locals r) r)
          else do {
            (rc, r1) \<leftarrow> seds_router_transmit_message_queue E view r;
            if rc = SEDS_OK then seds_router_process_tx_queue E w r1 else Some (rc, r1)
          })
   }"

definition seds_router_transmit_serialized_message_queue ::
    "env \<Rightarrow> bytes \<Rightarrow> router \<Rightarrow> (seds_result \<times> router) option" where
  "seds_router_transmit_serialized_message_queue E bs r =
     map_option (\<lambda>p. case p of
         None \<Rightarrow> (SEDS_DESERIALIZE, r)
       | Some pkt \<Rightarrow> offer_tx \<lparr>tx_pkt = pkt, tx_src_side = None, tx_dst_side = None, deliver_local = True\<rparr> r)
       (deserialize_packet E bs)"

definition seds_router_transmit_serialized_message ::
    "env \<Rightarrow> world \<Rightarrow> bytes \<Rightarrow> router \<Rightarrow> (seds_result \<times> router) option" where
  "seds_router_transmit_serialized_message E w bs r = do {
     (rc, r1) \<leftarrow> seds_router_transmit_serialized_message_queue E bs r;
     if rc = SEDS_OK then seds_router_process_tx_queue E w r1 else Some (rc, r1)
   }"

section \<open>Both queues\<close>

definition timeout_expired :: "u64 \<Rightarrow> u64 \<Rightarrow> u32 \<Rightarrow> bool" where
  "timeout_expired start now timeout \<longleftrightarrow> timeout \<noteq> 0 \<and> ucast timeout \<le> now - start"

definition receive_next :: "env \<Rightarrow> world \<Rightarrow> router \<Rightarrow> router option" where
  "receive_next E w r =
     (case pop_rx (owner_rx r) of
        (None, _) \<Rightarrow> Some r
      | (Some item, Q) \<Rightarrow> receive_item E w item (set_rx Q r))"

definition transmit_next :: "env \<Rightarrow> world \<Rightarrow> router \<Rightarrow> (seds_result option \<times> router) option" where
  "transmit_next E w r =
     (case pop_tx (owner_tx r) of
        (None, _) \<Rightarrow> Some (None, r)
      | (Some item, Q) \<Rightarrow> router_send E w item Q r)"

text \<open>The loop without a time limit.\<close>

partial_function (option) alternate :: "env \<Rightarrow> world \<Rightarrow> router \<Rightarrow> (seds_result \<times> router) option" where
  "alternate E w r =
     Option.bind (receive_next E w (router_timeouts E w r)) (\<lambda>r1.
     Option.bind (transmit_next E w r1) (\<lambda>(rc, r2).
       case rc of
         Some c \<Rightarrow> Some (c, r2)
       | None \<Rightarrow> if rx_queue r2 \<noteq> [] \<or> tx_queue r2 \<noteq> [] then alternate E w r2 else Some (SEDS_OK, r2)))"

text \<open>The transmit half of the loop with a time limit; its first component is the value returned from inside it, if any.\<close>

partial_function (option) timed_tx :: "env \<Rightarrow> world \<Rightarrow> u64 \<Rightarrow> u32 \<Rightarrow> router \<Rightarrow> (seds_result option \<times> router) option" where
  "timed_tx E w start budget r =
     (let r0 = router_timeouts E w r in
      case pop_tx (owner_tx r0) of
        (None, _) \<Rightarrow> Some (None, r0)
      | (Some item, Q) \<Rightarrow>
          Option.bind (transmit_item_router E w item (set_tx Q r0)) (\<lambda>(rc, r1).
            if rc = SEDS_OK then
              if timeout_expired start (now_ms w r1) budget then Some (None, r1) else timed_tx E w start budget r1
            else if rc = SEDS_IO then Some (None, push_tx_front item r1)
            else Some (Some rc, r1)))"

function timed_rx :: "env \<Rightarrow> world \<Rightarrow> u64 \<Rightarrow> u32 \<Rightarrow> router \<Rightarrow> router option" where
  "timed_rx E w start budget r =
     (case pop_rx (owner_rx r) of
        (None, _) \<Rightarrow> Some r
      | (Some item, Q) \<Rightarrow>
          (case receive_item E w item (set_rx Q r) of
             None \<Rightarrow> None
           | Some r' \<Rightarrow> if timeout_expired start (now_ms w r') budget then Some r' else timed_rx E w start budget r'))"
  by pat_completeness auto

termination
  by (relation "measure (\<lambda>(_, _, _, _, r). length (fst (owner_rx r)))") (auto dest!: receive_item_rx pop_rx_Some)

declare timed_rx.simps [simp del]

definition seds_router_process_all_queues_with_timeout ::
    "env \<Rightarrow> world \<Rightarrow> u32 \<Rightarrow> router \<Rightarrow> (seds_result \<times> router) option" where
  "seds_router_process_all_queues_with_timeout E w timeout r =
     (if timeout = 0 then alternate E w r
      else
        let tx_budget = timeout div 2; rx_budget = timeout - tx_budget in do {
          (rc, r1) \<leftarrow> timed_tx E w (now_ms w r) tx_budget r;
          (case rc of
             Some c \<Rightarrow> Some (c, r1)
           | None \<Rightarrow> map_option (Pair SEDS_OK) (timed_rx E w (now_ms w r1) rx_budget r1))
        })"

definition seds_router_process_all_queues :: "env \<Rightarrow> world \<Rightarrow> router \<Rightarrow> (seds_result \<times> router) option" where
  "seds_router_process_all_queues E w r = seds_router_process_all_queues_with_timeout E w 0 r"

definition seds_router_periodic_no_timesync :: "env \<Rightarrow> world \<Rightarrow> u32 \<Rightarrow> router \<Rightarrow> (seds_result \<times> router) option" where
  "seds_router_periodic_no_timesync E w timeout r = do {
     (_, r1) \<leftarrow> seds_router_poll_discovery E w r;
     seds_router_process_all_queues_with_timeout E w timeout r1
   }"

definition seds_router_periodic :: "env \<Rightarrow> world \<Rightarrow> u32 \<Rightarrow> router \<Rightarrow> (seds_result \<times> router) option" where
  "seds_router_periodic E w timeout r =
     (let (_, r1) = seds_router_poll_timesync E w r in seds_router_periodic_no_timesync E w timeout r1)"

definition clear_rx_queue :: "'a owner_scheme \<Rightarrow> 'a owner_scheme" where
  "clear_rx_queue r = set_rx (clear_queue (owner_rx r)) r"

definition clear_tx_queue :: "'a owner_scheme \<Rightarrow> 'a owner_scheme" where
  "clear_tx_queue r = set_tx (clear_queue (owner_tx r)) r"

definition seds_router_clear_queues :: "router \<Rightarrow> router" where
  "seds_router_clear_queues r = clear_rx_queue (clear_tx_queue r)"

definition seds_router_clear_rx_queue :: "router \<Rightarrow> router" where
  "seds_router_clear_rx_queue = clear_rx_queue"

definition seds_router_clear_tx_queue :: "router \<Rightarrow> router" where
  "seds_router_clear_tx_queue = clear_tx_queue"

section \<open>Frames and packets from a side\<close>

definition ingress_side :: "u32 \<Rightarrow> 'a owner_scheme \<Rightarrow> bool" where
  "ingress_side side_id r \<longleftrightarrow> unat side_id < length (sides r) \<and> ingress_enabled (sides r ! unat side_id)"

definition ack_packet :: "frame_info \<Rightarrow> packet" where
  "ack_packet frame =
     \<lparr>ty = env_ty (envelope frame), sender = env_sender (envelope frame), endpoints = env_endpoints (envelope frame),
      timestamp = timestamp_ms (envelope frame), payload = []\<rparr>"

definition process_reliable_ingress ::
    "env \<Rightarrow> world \<Rightarrow> u32 \<Rightarrow> frame_info \<Rightarrow> packet \<Rightarrow> bytes \<Rightarrow> router \<Rightarrow> bool \<times> router" where
  "process_reliable_ingress E w side_id frame pkt bs r =
     process_reliable_ingress_impl E w (r_sender r) (sint side_id) frame pkt bs r"

text \<open>
  What the two functions for frames from a side have in common: the guards, acknowledgements
  and the reliable layer. The continuation gets the frame and the packet to be delivered.
\<close>

definition accept_frame ::
    "env \<Rightarrow> world \<Rightarrow> u32 \<Rightarrow> bytes \<Rightarrow> (frame_info \<Rightarrow> packet \<Rightarrow> router \<Rightarrow> (seds_result \<times> router) option) \<Rightarrow>
     router \<Rightarrow> (seds_result \<times> router) option" where
  "accept_frame E w side_id bs deliver r = do {
     f \<leftarrow> peek_frame_info E bs True;
     (case f of
        None \<Rightarrow> Some (SEDS_DESERIALIZE, r)
      | Some frame \<Rightarrow>
          if \<not> ingress_side side_id r then Some (SEDS_INVALID_LINK_ID, r)
          else if ack_only frame then
            Some (SEDS_OK, snd (process_reliable_ingress E w side_id frame (ack_packet frame) bs r))
          else do {
            p \<leftarrow> deserialize_packet E bs;
            (case p of
               None \<Rightarrow> Some (SEDS_DESERIALIZE, r)
             | Some pkt \<Rightarrow>
                 let (pass, r1) = process_reliable_ingress E w side_id frame pkt bs r
                 in if \<not> pass then Some (SEDS_OK, r1) else deliver frame pkt r1)
          })
   }"

definition seds_router_receive_serialized_from_side ::
    "env \<Rightarrow> world \<Rightarrow> u32 \<Rightarrow> bytes \<Rightarrow> router \<Rightarrow> (seds_result \<times> router) option" where
  "seds_router_receive_serialized_from_side E w side_id bs r =
     accept_frame E w side_id bs (\<lambda>frame pkt r1. do {
         r2 \<leftarrow> router_receive_impl E w pkt (Some (sint side_id)) (show_serialized w frame bs r1);
         seds_router_process_rx_queue E w (enqueue_released r2)
       }) r"

definition seds_router_rx_serialized_packet_to_queue_from_side ::
    "env \<Rightarrow> world \<Rightarrow> u32 \<Rightarrow> bytes \<Rightarrow> router \<Rightarrow> (seds_result \<times> router) option" where
  "seds_router_rx_serialized_packet_to_queue_from_side E w side_id bs r =
     accept_frame E w side_id bs (\<lambda>frame pkt r1.
         let current = \<lparr>rx_pkt = pkt, rx_src_side = Some (sint side_id), wire_bytes = bs\<rparr>;
             (rc, r2) = (if reliable_released_rx r1 \<noteq> [] then offer_rx_front current r1 else offer_rx current r1)
         in Some (if rc \<noteq> SEDS_OK then (rc, r2) else (SEDS_OK, enqueue_released r2))) r"

definition with_view_from_side ::
    "env \<Rightarrow> u32 \<Rightarrow> packet_view option \<Rightarrow> (packet \<Rightarrow> 'a owner_scheme \<Rightarrow> (seds_result \<times> 'a owner_scheme) option) \<Rightarrow>
     'a owner_scheme \<Rightarrow> (seds_result \<times> 'a owner_scheme) option" where
  "with_view_from_side E side_id view deliver r = do {
     p \<leftarrow> packet_from_view E view;
     (case p of
        None \<Rightarrow> Some (SEDS_BAD_ARG, r)
      | Some pkt \<Rightarrow> if \<not> ingress_side side_id r then Some (SEDS_INVALID_LINK_ID, r) else deliver pkt r)
   }"

definition seds_router_receive_from_side ::
    "env \<Rightarrow> world \<Rightarrow> u32 \<Rightarrow> packet_view option \<Rightarrow> router \<Rightarrow> (seds_result \<times> router) option" where
  "seds_router_receive_from_side E w side_id view r =
     with_view_from_side E side_id view
       (\<lambda>pkt r. map_option (Pair SEDS_OK) (router_receive_impl E w pkt (Some (sint side_id)) r)) r"

definition seds_router_rx_packet_to_queue_from_side ::
    "env \<Rightarrow> u32 \<Rightarrow> packet_view option \<Rightarrow> router \<Rightarrow> (seds_result \<times> router) option" where
  "seds_router_rx_packet_to_queue_from_side E side_id view r =
     with_view_from_side E side_id view
       (\<lambda>pkt r. Some (then_enforce (offer_rx \<lparr>rx_pkt = pkt, rx_src_side = Some (sint side_id), wire_bytes = []\<rparr> r))) r"

definition seds_router_rx_serialized_packet_to_queue :: "env \<Rightarrow> bytes \<Rightarrow> router \<Rightarrow> (seds_result \<times> router) option" where
  "seds_router_rx_serialized_packet_to_queue E bs r =
     map_option (\<lambda>p. case p of
         None \<Rightarrow> (SEDS_DESERIALIZE, r)
       | Some pkt \<Rightarrow> offer_rx \<lparr>rx_pkt = pkt, rx_src_side = None, wire_bytes = bs\<rparr> r)
       (deserialize_packet E bs)"

definition seds_router_rx_packet_to_queue :: "env \<Rightarrow> packet_view option \<Rightarrow> router \<Rightarrow> (seds_result \<times> router) option" where
  "seds_router_rx_packet_to_queue E view r =
     map_option (\<lambda>p. case p of
         None \<Rightarrow> (SEDS_BAD_ARG, r)
       | Some pkt \<Rightarrow> then_enforce (offer_rx \<lparr>rx_pkt = pkt, rx_src_side = None, wire_bytes = []\<rparr> r))
       (packet_from_view E view)"

end
