(* ===== verification/Relay_Interface.thy ===== *)
theory Relay_Interface
  imports Interface
begin

text \<open>
  The functions of the C interface that move packets through a relay: \<open>seds_relay_*\<close> of
  \<open>src/relay_api.cpp\<close>. Unlike the router's, the relay's loop over both queues always ends:
  handling a received packet queues at most one transmission.
\<close>

section \<open>Discovery\<close>

definition seds_relay_announce_discovery :: "env \<Rightarrow> world \<Rightarrow> relay \<Rightarrow> (seds_result \<times> relay) option" where
  "seds_relay_announce_discovery E w r = map_option (Pair SEDS_OK) (queue_discovery_packets_relay E w r)"

definition seds_relay_poll_discovery :: "env \<Rightarrow> world \<Rightarrow> relay \<Rightarrow> (bool \<times> relay) option" where
  "seds_relay_poll_discovery E w r =
     (if discovery_next_ms r \<le> now_ms w r then map_option (Pair True) (queue_discovery_packets_relay E w r)
      else Some (False, r))"

section \<open>Receiving\<close>

text \<open>
  The duplicate check on unnumbered frames: \<open>None\<close> is a fault, \<open>Some None\<close> a duplicate. The
  key combines the identity of the packet with the side, shifted to the top byte.
\<close>

definition dedupe_id :: "u32 \<Rightarrow> u64 \<Rightarrow> u64" where
  "dedupe_id side_id pid = pid XOR push_bit 56 (ucast side_id)"

definition relay_dedupe :: "env \<Rightarrow> u32 \<Rightarrow> frame_info \<Rightarrow> bytes \<Rightarrow> relay \<Rightarrow> relay option option" where
  "relay_dedupe E side_id frame bs r =
     (if reliable frame \<noteq> None then Some (Some r)
      else do {
        i \<leftarrow> packet_id_from_wire E bs;
        (case i of
           None \<Rightarrow> Some (Some r)
         | Some pid \<Rightarrow>
             if dedupe_id side_id pid \<in> set (recent_set r) then Some None
             else map_option (\<lambda>(ids, st). Some (r\<lparr>recent_ids := ids, recent_set := st\<rparr>))
                    (push_recent (max_recent_rx_ids (memory r)) (recent_ids r, recent_set r) (dedupe_id side_id pid)))
      })"

definition relay_ingress ::
    "env \<Rightarrow> world \<Rightarrow> u32 \<Rightarrow> frame_info \<Rightarrow> packet \<Rightarrow> bytes \<Rightarrow> relay \<Rightarrow> bool \<times> relay" where
  "relay_ingress E w side_id frame pkt bs r =
     process_reliable_ingress_impl E w ''RELAY'' (sint side_id) frame pkt bs r"

definition seds_relay_rx_serialized_from_side ::
    "env \<Rightarrow> world \<Rightarrow> u32 \<Rightarrow> bytes \<Rightarrow> relay \<Rightarrow> (seds_result \<times> relay) option" where
  "seds_relay_rx_serialized_from_side E w side_id bs r = do {
     f \<leftarrow> peek_frame_info E bs True;
     (case f of
        None \<Rightarrow> Some (SEDS_DESERIALIZE, r)
      | Some frame \<Rightarrow>
          if \<not> ingress_side side_id r then Some (SEDS_INVALID_LINK_ID, r)
          else if ack_only frame then Some (SEDS_OK, snd (relay_ingress E w side_id frame (ack_packet frame) bs r))
          else do {
            d \<leftarrow> relay_dedupe E side_id frame bs r;
            (case d of
               None \<Rightarrow> Some (SEDS_OK, r)
             | Some r1 \<Rightarrow> do {
                 p \<leftarrow> deserialize_packet E bs;
                 (case p of
                    None \<Rightarrow> Some (SEDS_DESERIALIZE, r1)
                  | Some pkt \<Rightarrow>
                      let (pass, r2) = relay_ingress E w side_id frame pkt bs r1 in
                      if \<not> pass then Some (SEDS_OK, r2)
                      else
                        let (rc, r3) = offer_rx \<lparr>rx_pkt = pkt, rx_src_side = Some (sint side_id), wire_bytes = []\<rparr> r2
                        in Some (if rc \<noteq> SEDS_OK then (rc, r3) else (SEDS_OK, enqueue_released r3)))
               })
          })
   }"

definition seds_relay_rx_packet_from_side ::
    "env \<Rightarrow> u32 \<Rightarrow> packet_view option \<Rightarrow> relay \<Rightarrow> (seds_result \<times> relay) option" where
  "seds_relay_rx_packet_from_side E side_id view r =
     with_view_from_side E side_id view
       (\<lambda>pkt r. Some (then_enforce (offer_rx \<lparr>rx_pkt = pkt, rx_src_side = Some (sint side_id), wire_bytes = []\<rparr> r))) r"

section \<open>The queue loops\<close>

function relay_drain_rx :: "env \<Rightarrow> world \<Rightarrow> relay \<Rightarrow> (seds_result \<times> relay) option" where
  "relay_drain_rx E w r =
     (case pop_rx (owner_rx r) of
        (None, _) \<Rightarrow> Some (SEDS_OK, r)
      | (Some item, Q) \<Rightarrow>
          (case relay_receive_impl E w (rx_pkt item) (rx_src_side item) (set_rx Q r) of
             None \<Rightarrow> None
           | Some r' \<Rightarrow> relay_drain_rx E w r'))"
  by pat_completeness auto

termination
  by (relation "measure (\<lambda>(_, _, r). length (fst (owner_rx r)))")
    (auto dest!: relay_receive_frame dest: pop_rx_Some simp: kept_def)

declare relay_drain_rx.simps [simp del]

definition seds_relay_process_rx_queue :: "env \<Rightarrow> world \<Rightarrow> relay \<Rightarrow> (seds_result \<times> relay) option" where
  "seds_relay_process_rx_queue = relay_drain_rx"

definition relay_send :: "env \<Rightarrow> world \<Rightarrow> tx_item \<Rightarrow> tx_item list \<times> u64 \<Rightarrow> relay \<Rightarrow> (seds_result option \<times> relay) option" where
  "relay_send E w item Q r = map_option (tx_result item) (transmit_item_relay E w item (set_tx Q r))"

lemma relay_send_goes_on:
  assumes "relay_send E w item Q r = Some (None, r')"
  shows "untouched (set_tx Q r) r'"
  using assms transmit_item_relay_untouched
  by (auto simp: relay_send_def tx_result_def split: if_splits)

function relay_drain_tx :: "env \<Rightarrow> world \<Rightarrow> relay \<Rightarrow> (seds_result \<times> relay) option" where
  "relay_drain_tx E w r =
     (case pop_tx (owner_tx r) of
        (None, _) \<Rightarrow> Some (SEDS_OK, r)
      | (Some item, Q) \<Rightarrow>
          (case relay_send E w item Q r of
             None \<Rightarrow> None
           | Some (Some rc, r') \<Rightarrow> Some (rc, r')
           | Some (None, r') \<Rightarrow> relay_drain_tx E w r'))"
  by pat_completeness auto

termination
  by (relation "measure (\<lambda>(_, _, r). length (tx_queue r))")
    (auto dest!: relay_send_goes_on untouched_D(1) dest: pop_tx_Some simp: owner_tx_def)

declare relay_drain_tx.simps [simp del]

definition seds_relay_process_tx_queue :: "env \<Rightarrow> world \<Rightarrow> relay \<Rightarrow> (seds_result \<times> relay) option" where
  "seds_relay_process_tx_queue E w r = relay_drain_tx E w (do_reliable_timeouts E w r)"

definition relay_receive_next :: "env \<Rightarrow> world \<Rightarrow> relay \<Rightarrow> relay option" where
  "relay_receive_next E w r =
     (case pop_rx (owner_rx r) of
        (None, _) \<Rightarrow> Some r
      | (Some item, Q) \<Rightarrow> relay_receive_impl E w (rx_pkt item) (rx_src_side item) (set_rx Q r))"

definition relay_transmit_next :: "env \<Rightarrow> world \<Rightarrow> bool \<Rightarrow> relay \<Rightarrow> (seds_result option \<times> relay) option" where
  "relay_transmit_next E w expired r =
     (if expired then Some (None, r)
      else case pop_tx (owner_tx r) of
          (None, _) \<Rightarrow> Some (None, r)
        | (Some item, Q) \<Rightarrow> relay_send E w item Q r)"

text \<open>Received items count twice: each may become one transmission.\<close>

definition relay_work :: "relay \<Rightarrow> nat" where
  "relay_work r = 2 * length (rx_queue r) + length (tx_queue r)"

lemma relay_receive_next_work:
  assumes "relay_receive_next E w r = Some r'"
  shows "rx_queue r' = tl (rx_queue r) \<and> length (tx_queue r') \<le> length (tx_queue r) + (if rx_queue r = [] then 0 else 1)"
proof (cases "rx_queue r")
  case Nil
  then show ?thesis using assms by (simp add: relay_receive_next_def pop_rx_def pop_queue_def owner_rx_def)
next
  case (Cons item q)
  then have "relay_receive_impl E w (rx_pkt item) (rx_src_side item) (set_rx (q, rx_queue_bytes r - byte_cost_rx item) r) = Some r'"
    using assms by (simp add: relay_receive_next_def pop_rx_def pop_queue_def owner_rx_def)
  from relay_receive_frame [OF this] show ?thesis
    using Cons by (simp add: kept_def owner_rx_def set_rx_def)
qed

lemma relay_transmit_next_work:
  assumes "relay_transmit_next E w expired r = Some (None, r')"
  shows "rx_queue r' = rx_queue r \<and> tx_queue r' = (if expired then tx_queue r else tl (tx_queue r)) \<and>
    (expired \<longrightarrow> r' = r)"
proof (cases "expired \<or> tx_queue r = []")
  case True
  then show ?thesis using assms by (auto simp: relay_transmit_next_def pop_tx_def pop_queue_def owner_tx_def split: if_splits)
next
  case False
  then obtain item q where q: "tx_queue r = item # q" by (cases "tx_queue r") auto
  then have "relay_send E w item (q, tx_queue_bytes r - byte_cost_tx item) r = Some (None, r')"
    using assms False by (simp add: relay_transmit_next_def pop_tx_def pop_queue_def owner_tx_def)
  from relay_send_goes_on [OF this] show ?thesis
    using False q by (auto dest: untouched_D)
qed

lemma relay_round_work:
  assumes "relay_receive_next E w r0 = Some r1"
    and "relay_transmit_next E w (ex r1) r1 = Some (None, r2)" "\<not> ex r2" "rx_queue r2 \<noteq> [] \<or> tx_queue r2 \<noteq> []"
  shows "relay_work r2 < relay_work r0"
proof -
  note a = relay_receive_next_work [OF assms(1)] and b = relay_transmit_next_work [OF assms(2)]
  have "\<not> ex r1" using b assms(3) by auto
  then show ?thesis using a b assms(4)
    by (cases "rx_queue r0"; cases "tx_queue r1") (auto simp: relay_work_def)
qed

function relay_alternate :: "env \<Rightarrow> world \<Rightarrow> u64 \<Rightarrow> u32 \<Rightarrow> relay \<Rightarrow> (seds_result \<times> relay) option" where
  "relay_alternate E w start timeout r =
     (case relay_receive_next E w (do_reliable_timeouts E w r) of
        None \<Rightarrow> None
      | Some r1 \<Rightarrow>
          (case relay_transmit_next E w (timeout_expired start (now_ms w r1) timeout) r1 of
             None \<Rightarrow> None
           | Some (Some rc, r2) \<Rightarrow> Some (rc, r2)
           | Some (None, r2) \<Rightarrow>
               if (rx_queue r2 \<noteq> [] \<or> tx_queue r2 \<noteq> []) \<and> \<not> timeout_expired start (now_ms w r2) timeout
               then relay_alternate E w start timeout r2 else Some (SEDS_OK, r2)))"
  by pat_completeness auto

termination
proof (relation "measure (\<lambda>(_, _, _, _, r). relay_work r)", goal_cases)
  case (2 E w start timeout r r1 rc r2)
  have "relay_work (do_reliable_timeouts E w r) = relay_work r"
    using untouched_D [OF untouched_reliable_timeouts [of r E w]] by (simp add: relay_work_def)
  with 2 show ?case
    by (auto dest: relay_round_work [where ex = "\<lambda>r. timeout_expired start (now_ms w r) timeout"])
qed simp

declare relay_alternate.simps [simp del]

definition seds_relay_process_all_queues_with_timeout ::
    "env \<Rightarrow> world \<Rightarrow> u32 \<Rightarrow> relay \<Rightarrow> (seds_result \<times> relay) option" where
  "seds_relay_process_all_queues_with_timeout E w timeout r = relay_alternate E w (now_ms w r) timeout r"

definition seds_relay_process_all_queues :: "env \<Rightarrow> world \<Rightarrow> relay \<Rightarrow> (seds_result \<times> relay) option" where
  "seds_relay_process_all_queues E w r = seds_relay_process_all_queues_with_timeout E w 0 r"

definition seds_relay_periodic :: "env \<Rightarrow> world \<Rightarrow> u32 \<Rightarrow> relay \<Rightarrow> (seds_result \<times> relay) option" where
  "seds_relay_periodic E w timeout r = do {
     (_, r1) \<leftarrow> seds_relay_poll_discovery E w r;
     seds_relay_process_all_queues_with_timeout E w timeout r1
   }"

definition seds_relay_clear_queues :: "relay \<Rightarrow> relay" where
  "seds_relay_clear_queues r = clear_rx_queue (clear_tx_queue r)"

end
