(* ===== verification/Managed.thy ===== *)
theory Managed
  imports Relay_Interface
begin

text \<open>
  The managed (network) variables of a router (\<open>src/upstream_api_compat.cpp\<close>): per type a
  policy, the latest packet and an update callback. A node stores what it sets and what it
  receives, and asks the network for values it does not have. An output buffer is described by
  whether its pointer is null and by its length; the bytes written to it are part of the result.
\<close>

definition default_managed_policy :: managed_variable_policy where
  "default_managed_policy = \<lparr>mv_enabled = False, mv_can_read = True, mv_can_write = True\<rparr>"

text \<open>\<open>auto & policy = r.managed_variable_policy[ty]; policy.enabled = true;\<close>\<close>

definition enable_policy :: "u32 \<Rightarrow> router \<Rightarrow> managed_variable_policy \<times> router" where
  "enable_policy t r =
     (let p = (mget default_managed_policy (managed_policy r) t)\<lparr>mv_enabled := True\<rparr>
      in (p, r\<lparr>managed_policy := mput t p (managed_policy r)\<rparr>))"

definition seds_router_enable_network_variable ::
    "env \<Rightarrow> u32 \<Rightarrow> bool \<Rightarrow> bool \<Rightarrow> router \<Rightarrow> seds_result \<times> router" where
  "seds_router_enable_network_variable E t can_read can_write r =
     (if \<not> valid_type E t then (SEDS_INVALID_TYPE, r)
      else (SEDS_OK, r\<lparr>managed_policy := mput t \<lparr>mv_enabled = True, mv_can_read = can_read, mv_can_write = can_write\<rparr>
                          (managed_policy r)\<rparr>))"

definition seds_router_enable_managed_variable :: "env \<Rightarrow> u32 \<Rightarrow> router \<Rightarrow> seds_result \<times> router" where
  "seds_router_enable_managed_variable E t r = seds_router_enable_network_variable E t True True r"

definition seds_router_on_network_variable_update :: "env \<Rightarrow> u32 \<Rightarrow> fn option \<Rightarrow> router \<Rightarrow> seds_result \<times> router" where
  "seds_router_on_network_variable_update E t cb r =
     (if \<not> valid_type E t then (SEDS_INVALID_TYPE, r)
      else (SEDS_OK, r\<lparr>managed_callbacks := mput t cb (managed_callbacks r)\<rparr>))"

definition seds_router_disable_managed_variable :: "u32 \<Rightarrow> router \<Rightarrow> router" where
  "seds_router_disable_managed_variable t r =
     r\<lparr>managed_policy := merase t (managed_policy r), managed_latest := merase t (managed_latest r),
       managed_callbacks := merase t (managed_callbacks r)\<rparr>"

definition remember_managed_packet :: "env \<Rightarrow> world \<Rightarrow> packet \<Rightarrow> bool \<Rightarrow> router \<Rightarrow> seds_result \<times> router" where
  "remember_managed_packet E w pkt invoke r =
     (if \<not> valid_type E (ty pkt) then (SEDS_INVALID_TYPE, r)
      else let r1 = store_managed E w pkt (snd (enable_policy (ty pkt) r))
           in (SEDS_OK, if invoke then invoke_managed_callback w pkt r1 else r1))"

definition queue_managed_request :: "env \<Rightarrow> world \<Rightarrow> u32 \<Rightarrow> router \<Rightarrow> seds_result \<times> router" where
  "queue_managed_request E w t r =
     (if \<not> valid_type E t then (SEDS_INVALID_TYPE, r)
      else
        let pkt = (make_internal_packet E (managed_request_type E) (current_network_ms w r)
                     (le_bytes 4 (wire_type_id E t)))\<lparr>sender := r_sender r\<rparr>
        in (SEDS_OK, push_tx \<lparr>tx_pkt = pkt, tx_src_side = None, tx_dst_side = None, deliver_local = False\<rparr> r))"

definition seds_router_request_managed_variable :: "env \<Rightarrow> world \<Rightarrow> u32 \<Rightarrow> router \<Rightarrow> seds_result \<times> router" where
  "seds_router_request_managed_variable E w t r =
     (if \<not> valid_type E t then (SEDS_INVALID_TYPE, r)
      else let (p, r1) = enable_policy t r
           in if \<not> mv_can_read p then (SEDS_PERMISSION_DENIED, r1) else queue_managed_request E w t r1)"

text \<open>A null \<open>bytes\<close> with a length is an error; a null one without is an empty buffer.\<close>

definition seds_router_set_network_variable_packed ::
    "env \<Rightarrow> world \<Rightarrow> bytes \<Rightarrow> router \<Rightarrow> (seds_result \<times> router) option" where
  "seds_router_set_network_variable_packed E w bs r =
     map_option (\<lambda>p. case p of
         None \<Rightarrow> (SEDS_DESERIALIZE, r)
       | Some pkt \<Rightarrow>
           let (p, r1) = enable_policy (ty pkt) r in
           if \<not> mv_can_write p then (SEDS_PERMISSION_DENIED, r1)
           else
             let (rc, r2) = remember_managed_packet E w pkt True r1 in
             if rc \<noteq> SEDS_OK then (rc, r2)
             else (SEDS_OK, push_tx \<lparr>tx_pkt = pkt, tx_src_side = None, tx_dst_side = None, deliver_local = False\<rparr> r2))
       (deserialize_packet E bs)"

definition seds_router_seed_managed_variable_packed ::
    "env \<Rightarrow> world \<Rightarrow> bytes \<Rightarrow> router \<Rightarrow> (seds_result \<times> router) option" where
  "seds_router_seed_managed_variable_packed E w bs r =
     map_option (\<lambda>p. case p of
         None \<Rightarrow> (SEDS_DESERIALIZE, r)
       | Some pkt \<Rightarrow> remember_managed_packet E w pkt True r)
       (deserialize_packet E bs)"

section \<open>Reading\<close>

text \<open>\<open>static_cast<int32_t>(size)\<close>\<close>

definition int32_size :: "nat \<Rightarrow> i32" where
  "int32_size n = sint (word_of_nat n :: u32)"

definition copy_managed_entry :: "managed_variable_entry \<Rightarrow> bool \<Rightarrow> nat \<Rightarrow> i32 \<times> bytes" where
  "copy_managed_entry entry out_null out_len =
     (if out_null then (int32_size (length (mv_packed entry)), [])
      else if out_len < length (mv_packed entry) then (result_code SEDS_SIZE_MISMATCH, [])
      else (int32_size (length (mv_packed entry)), mv_packed entry))"

definition seds_router_cached_managed_variable_packed_len :: "u32 \<Rightarrow> router \<Rightarrow> i32" where
  "seds_router_cached_managed_variable_packed_len t r =
     (case map_of (managed_latest r) t of None \<Rightarrow> 0 | Some entry \<Rightarrow> int32_size (length (mv_packed entry)))"

definition seds_router_cached_managed_variable_packed :: "u32 \<Rightarrow> bool \<Rightarrow> nat \<Rightarrow> router \<Rightarrow> i32 \<times> bytes" where
  "seds_router_cached_managed_variable_packed t out_null out_len r =
     (if out_null \<and> out_len \<noteq> 0 then (result_code SEDS_BAD_ARG, [])
      else case map_of (managed_latest r) t of
          None \<Rightarrow> (0, [])
        | Some entry \<Rightarrow> copy_managed_entry entry out_null out_len)"

text \<open>
  The part the two \<open>get\<close> functions share: the permission, a request when the value is missing
  or older than \<open>stale_after_ms\<close>, and the entry that is returned.
\<close>

definition lookup_variable ::
    "env \<Rightarrow> world \<Rightarrow> u32 \<Rightarrow> u32 \<Rightarrow> router \<Rightarrow> (seds_result + managed_variable_entry option) \<times> router" where
  "lookup_variable E w t stale_after_ms r =
     (if (case map_of (managed_policy r) t of None \<Rightarrow> False | Some p \<Rightarrow> \<not> mv_can_read p)
      then (Inl SEDS_PERMISSION_DENIED, r)
      else case map_of (managed_latest r) t of
          None \<Rightarrow> (Inr None, snd (queue_managed_request E w t r))
        | Some entry \<Rightarrow>
            (Inr (Some entry),
             if stale_after_ms \<noteq> 0 \<and> ucast stale_after_ms < now_ms w r - mv_updated_ms entry
             then snd (queue_managed_request E w t r) else r))"

definition seds_router_get_network_variable_packed_len :: "env \<Rightarrow> world \<Rightarrow> u32 \<Rightarrow> u32 \<Rightarrow> router \<Rightarrow> i32 \<times> router" where
  "seds_router_get_network_variable_packed_len E w t stale_after_ms r =
     (let (v, r1) = lookup_variable E w t stale_after_ms r in
      (case v of
         Inl rc \<Rightarrow> result_code rc
       | Inr None \<Rightarrow> 0
       | Inr (Some entry) \<Rightarrow> int32_size (length (mv_packed entry)), r1))"

definition seds_router_get_network_variable_packed ::
    "env \<Rightarrow> world \<Rightarrow> u32 \<Rightarrow> u32 \<Rightarrow> bool \<Rightarrow> nat \<Rightarrow> router \<Rightarrow> (i32 \<times> bytes) \<times> router" where
  "seds_router_get_network_variable_packed E w t stale_after_ms out_null out_len r =
     (if out_null \<and> out_len \<noteq> 0 then ((result_code SEDS_BAD_ARG, []), r)
      else let (v, r1) = lookup_variable E w t stale_after_ms r in
        (case v of
           Inl rc \<Rightarrow> (result_code rc, [])
         | Inr None \<Rightarrow> (0, [])
         | Inr (Some entry) \<Rightarrow> copy_managed_entry entry out_null out_len, r1))"

end
