(* ===== verification/Wire_Facts.thy ===== *)
theory Wire_Facts
  imports Samples
begin

text \<open>
  What the frame codec guarantees: the checksum covers every burst of up to four bytes of a
  frame, the decoders invert the encoders, and the two readers agree.
\<close>

section \<open>The checksum of a frame\<close>

text \<open>The register after a whole frame, checksum included, is the same for every valid frame.\<close>

definition crc_residue :: u32 where
  "crc_residue = (crc32_bit ^^ 32) 0xFFFFFFFF"

lemma xor_not_self: "(a :: 'a::len word) XOR NOT a = - 1"
  by (simp add: bit_eq_iff bit_xor_iff bit_not_iff)

lemma crc_matches_residue:
  assumes "4 \<le> length bs"
  shows "crc_matches bs \<longleftrightarrow> foldl crc32_byte 0xFFFFFFFF bs = crc_residue"
proof -
  let ?s = "foldl crc32_byte 0xFFFFFFFF (frame_body bs)"
  let ?c = "from_le (frame_crc bs) :: u32"
  have len: "length (frame_crc bs) = 4" using assms by (simp add: frame_crc_def)
  have "bs = frame_body bs @ frame_crc bs" by (simp add: frame_body_def frame_crc_def)
  then have "foldl crc32_byte 0xFFFFFFFF bs = foldl crc32_byte ?s (frame_crc bs)"
    by (metis foldl_append)
  also have "\<dots> = (crc32_bit ^^ 32) (?s XOR ?c)"
    using crc32_window [of "frame_crc bs" ?s] len by simp
  finally have reg: "foldl crc32_byte 0xFFFFFFFF bs = (crc32_bit ^^ 32) (?s XOR ?c)" .
  have ones: "(0xFFFFFFFF :: u32) = - 1" by simp
  have "crc_matches bs \<longleftrightarrow> ?c = NOT ?s" by (auto simp: crc_matches_def crc32_bytes_def)
  also have "\<dots> \<longleftrightarrow> ?s XOR ?c = 0xFFFFFFFF"
    using xor_not_self [of ?s] ones by (metis word_xor_cancel_left)
  also have "\<dots> \<longleftrightarrow> (crc32_bit ^^ 32) (?s XOR ?c) = crc_residue"
    unfolding crc_residue_def by (rule iffI) (simp only:, erule crc32_bits_inj)
  finally show ?thesis by (simp only: reg)
qed

lemma crc32_register_burst:
  assumes "length us = length vs" "length us \<le> 4" "us \<noteq> vs"
  shows "foldl crc32_byte r (xs @ us @ zs) \<noteq> foldl crc32_byte r (xs @ vs @ zs)"
proof
  let ?s = "foldl crc32_byte r xs"
  assume "foldl crc32_byte r (xs @ us @ zs) = foldl crc32_byte r (xs @ vs @ zs)"
  then have "foldl crc32_byte ?s us = foldl crc32_byte ?s vs"
    using crc32_byte_inj_state by (metis foldl_append)
  then have "(crc32_bit ^^ (8 * length us)) (?s XOR from_le us) =
      (crc32_bit ^^ (8 * length us)) (?s XOR from_le vs)"
    using assms by (simp only: crc32_window)
  then have "?s XOR from_le us = ?s XOR from_le vs" by (rule crc32_bits_inj)
  then have "(from_le us :: u32) = from_le vs" by simp
  then show False using assms from_le_inj [of us vs, where ?'a = 32] by simp
qed

lemma crc_burst_mismatch:
  assumes "crc_matches (xs @ us @ zs)" "4 \<le> length (xs @ us @ zs)"
    and "length us = length vs" "length us \<le> 4" "us \<noteq> vs"
  shows "\<not> crc_matches (xs @ vs @ zs)"
  using assms crc_matches_residue [of "xs @ us @ zs"] crc_matches_residue [of "xs @ vs @ zs"]
    crc32_register_burst [of us vs] by simp metis

lemma crc_matches_frame_of_body [simp]: "crc_matches (frame_of_body body)"
  by (simp add: crc_matches_def frame_of_body_def append_le_def frame_body_def frame_crc_def)

lemma frame_body_of_body [simp]: "frame_body (frame_of_body body) = body"
  by (simp add: frame_of_body_def append_le_def frame_body_def)

lemma length_frame_of_body [simp]: "length (frame_of_body body) = length body + 4"
  by (simp add: frame_of_body_def append_le_def)

lemma hd_frame_of_body [simp]: "body \<noteq> [] \<Longrightarrow> hd (frame_of_body body) = hd body"
  by (simp add: frame_of_body_def append_le_def)

section \<open>Endpoint bitmaps\<close>

lemma bitmap_bit_iff: "bitmap_bit bm i \<longleftrightarrow> bit (bm ! (i div 8)) (i mod 8)"
  using and_exp_eq_0_iff_not_bit [of "bm ! (i div 8)" "i mod 8"]
  by (simp add: bitmap_bit_def push_bit_eq_mult)

lemma length_set_bitmap_bit [simp]: "length (set_bitmap_bit i bm) = length bm"
  by (simp add: set_bitmap_bit_def)

lemma bitmap_bit_set:
  assumes "i < 8 * length bm" "j < 8 * length bm"
  shows "bitmap_bit (set_bitmap_bit i bm) j \<longleftrightarrow> bitmap_bit bm j \<or> i = j"
proof -
  have lt: "i div 8 < length bm" "j div 8 < length bm" using assms by auto
  have eq: "i = j \<longleftrightarrow> i div 8 = j div 8 \<and> i mod 8 = j mod 8" by (metis div_mult_mod_eq)
  have one: "bit (push_bit (i mod 8) 1 :: u8) n \<longleftrightarrow> n = i mod 8" for n
    using bit_exp_iff [where ?'a = u8, of "i mod 8" n] by (auto dest: bit_imp_le_length)
  show ?thesis
  proof (cases "i div 8 = j div 8")
    case True
    then have "set_bitmap_bit i bm ! (j div 8) = bm ! (j div 8) OR push_bit (i mod 8) 1"
      using lt by (simp add: set_bitmap_bit_def)
    then show ?thesis using True unfolding bitmap_bit_iff eq by (simp only: bit_or_iff one) metis
  next
    case False
    then have "set_bitmap_bit i bm ! (j div 8) = bm ! (j div 8)" by (simp add: set_bitmap_bit_def)
    then show ?thesis using False unfolding bitmap_bit_iff eq by simp
  qed
qed

definition wire_bit_of :: "env \<Rightarrow> u32 \<Rightarrow> nat" where
  "wire_bit_of E ep = unat (v4_endpoint_id E ep)"

lemma v4_endpoint_bitmap_fold:
  assumes "length bm = 32" "j < 256"
  shows "length (foldl (\<lambda>bm ep. let wire = unat (v4_endpoint_id E ep) in
            if wire < kV4EndpointBitmapBytes * 8 then set_bitmap_bit wire bm else bm) bm eps) = 32 \<and>
    (bitmap_bit (foldl (\<lambda>bm ep. let wire = unat (v4_endpoint_id E ep) in
            if wire < kV4EndpointBitmapBytes * 8 then set_bitmap_bit wire bm else bm) bm eps) j
      \<longleftrightarrow> bitmap_bit bm j \<or> j \<in> wire_bit_of E ` set eps)"
  using assms
proof (induction eps arbitrary: bm)
  case (Cons ep eps)
  then show ?case
    by (auto simp: Let_def bitmap_bit_set wire_bit_of_def)
qed simp

lemma length_v4_endpoint_bitmap [simp]: "length (v4_endpoint_bitmap E eps) = 32"
  unfolding v4_endpoint_bitmap_def using v4_endpoint_bitmap_fold [of "replicate 32 0" 0 E eps] by simp

lemma bitmap_bit_v4:
  "j < 256 \<Longrightarrow> bitmap_bit (v4_endpoint_bitmap E eps) j \<longleftrightarrow> j \<in> wire_bit_of E ` set eps"
  unfolding v4_endpoint_bitmap_def using v4_endpoint_bitmap_fold [of "replicate 32 0" j E eps]
  by (simp add: bitmap_bit_iff)

lemma parse_v4_bits_local:
  assumes "\<And>i. i \<in> set is \<Longrightarrow> bitmap_bit bm i \<Longrightarrow> local_endpoint_id E (word_of_nat i) = Some (Some (g i))"
  shows "parse_v4_bits E bm is = Some (map g (filter (bitmap_bit bm) is))"
  using assms by (induction "is") auto

text \<open>Endpoints that survive the trip over the wire.\<close>

definition wire_endpoints_ok :: "env \<Rightarrow> u32 list \<Rightarrow> bool" where
  "wire_endpoints_ok E eps \<longleftrightarrow>
     distinct eps \<and>
     list_all (\<lambda>ep. v4_endpoint_id E ep < 256 \<and>
                     local_endpoint_id E (v4_endpoint_id E ep) = Some (Some ep)) eps"

lemma wire_endpoints_inj: "wire_endpoints_ok E eps \<Longrightarrow> inj_on (wire_bit_of E) (set eps)"
  unfolding inj_on_def wire_endpoints_ok_def wire_bit_of_def list_all_iff
  by (metis option.inject word_unat_eq_iff)

lemma wire_endpoints_bits:
  assumes "wire_endpoints_ok E eps"
  shows "filter (bitmap_bit (v4_endpoint_bitmap E eps)) [0..<256] =
    map (wire_bit_of E) (sort_key (wire_bit_of E) eps)"
proof (rule sorted_distinct_set_unique)
  show "sorted (filter (bitmap_bit (v4_endpoint_bitmap E eps)) [0..<256])"
    by (rule sorted_wrt_filter) simp
  show "distinct (map (wire_bit_of E) (sort_key (wire_bit_of E) eps))"
    using assms wire_endpoints_inj [OF assms] by (simp add: distinct_map wire_endpoints_ok_def)
  have "\<forall>ep \<in> set eps. wire_bit_of E ep < 256"
    using assms by (auto simp: wire_endpoints_ok_def list_all_iff wire_bit_of_def word_less_nat_alt)
  then show "set (filter (bitmap_bit (v4_endpoint_bitmap E eps)) [0..<256]) =
      set (map (wire_bit_of E) (sort_key (wire_bit_of E) eps))"
    using bitmap_bit_v4 [of _ E eps] by auto
qed simp_all

lemma parse_v4_endpoint_bitmap:
  assumes ok: "wire_endpoints_ok E eps"
  shows "parse_v4_bitmap E (v4_endpoint_bitmap E eps) = Some (sort_key (wire_bit_of E) eps)"
proof -
  let ?bm = "v4_endpoint_bitmap E eps"
  let ?g = "\<lambda>i. the (the (local_endpoint_id E (word_of_nat i)))"
  have loc: "local_endpoint_id E (word_of_nat (wire_bit_of E ep)) = Some (Some ep)"
    if "ep \<in> set eps" for ep
    using ok that by (auto simp: wire_endpoints_ok_def list_all_iff wire_bit_of_def)
  have "parse_v4_bits E ?bm [0..<256] = Some (map ?g (filter (bitmap_bit ?bm) [0..<256]))"
    by (rule parse_v4_bits_local) (auto simp: bitmap_bit_v4 loc)
  also have "map ?g (filter (bitmap_bit ?bm) [0..<256]) = sort_key (wire_bit_of E) eps"
    using loc by (auto simp: wire_endpoints_bits [OF ok] intro: map_idI)
  finally show ?thesis by (simp add: parse_v4_bitmap_def)
qed

lemma local_endpoint_id_ge:
  assumes "local_endpoint_id E w = Some (Some l)"
  shows "100 \<le> w"
proof (rule ccontr)
  assume "\<not> 100 \<le> w"
  moreover from this have "w \<noteq> 200" "w \<noteq> 201" "w \<noteq> 202" by auto
  ultimately have "local_endpoint_id E w = Some None" by (simp add: local_endpoint_id_def)
  with assms show False by simp
qed

lemma wire_endpoints_short:
  assumes "wire_endpoints_ok E eps"
  shows "length eps < 256"
proof -
  have "wire_bit_of E ` set eps \<subseteq> {100..<256}"
  proof
    fix n assume "n \<in> wire_bit_of E ` set eps"
    then obtain ep where "ep \<in> set eps" "n = wire_bit_of E ep" by blast
    with assms have lt: "v4_endpoint_id E ep < 256" and
      loc: "local_endpoint_id E (v4_endpoint_id E ep) = Some (Some ep)" and n: "n = unat (v4_endpoint_id E ep)"
      by (auto simp: wire_endpoints_ok_def list_all_iff wire_bit_of_def)
    have "100 \<le> v4_endpoint_id E ep" by (rule local_endpoint_id_ge [OF loc])
    with lt n show "n \<in> {100..<256}" by (simp add: word_less_nat_alt word_le_nat_alt)
  qed
  then have "card (wire_bit_of E ` set eps) \<le> 156" using card_mono [of "{100..<256::nat}"] by simp
  then have "card (set eps) \<le> 156" by (simp add: card_image wire_endpoints_inj [OF assms])
  then show ?thesis using assms by (simp add: wire_endpoints_ok_def distinct_card)
qed

section \<open>Frames written by the encoder\<close>

text \<open>What the compression library promises: decompression inverts compression.\<close>

definition zstd_inverts :: "env \<Rightarrow> bool" where
  "zstd_inverts E \<longleftrightarrow>
     (case seds_has_zstd E of
        None \<Rightarrow> True
      | Some z \<Rightarrow> (\<forall>d c. zstd_compress z d = Some c \<longrightarrow> zstd_decompress z c (length d) = Some d))"

lemma maybe_decompress_compress:
  assumes "zstd_inverts E" "length d < 2 ^ 63" "maybe_compress E d = (c, b)"
  shows "maybe_decompress E c (length d) b = Some d"
proof (cases b)
  case False
  then show ?thesis
    using assms(3) by (auto simp: maybe_compress_def maybe_decompress_def split: option.splits if_splits)
next
  case True
  then obtain z where z: "seds_has_zstd E = Some z" "zstd_compress z d = Some c"
    using assms(3) by (auto simp: maybe_compress_def split: option.splits if_splits)
  with assms(1) have "zstd_decompress z c (length d) = Some d" by (simp add: zstd_inverts_def)
  moreover have "\<not> 2 ^ 63 \<le> length d" using assms(2) by (simp only: not_le)
  ultimately show ?thesis using True z unfolding maybe_decompress_def by (simp only: option.case if_True if_False simp_thms)
qed

definition wire_ok :: "env \<Rightarrow> packet \<Rightarrow> bool" where
  "wire_ok E pkt \<longleftrightarrow>
     valid_type E (ty pkt) \<and> local_type_id E (v4_type_id E (ty pkt)) = Some (ty pkt) \<and>
     wire_endpoints_ok E (endpoints pkt) \<and> length (payload pkt) < 2 ^ 63"

text \<open>The packet as its receiver sees it.\<close>

definition wire_image :: "env \<Rightarrow> packet \<Rightarrow> packet" where
  "wire_image E pkt =
     pkt\<lparr>sender := address_sender (ucast (sender_address_u32 (sender pkt))),
         endpoints := sort_key (wire_bit_of E) (endpoints pkt)\<rparr>"

text \<open>The first byte of a frame, by compression and header form.\<close>

definition frame_flags :: "bool \<Rightarrow> bool \<Rightarrow> u8" where
  "frame_flags compressed compact =
     (let f = (if compressed then kV4FlagCompressedPayload else 0) OR kV4FlagEndpointBitmapPresent
      in if compact then f OR kV4FlagCompactReliableHeader else f)"

lemma frame_flags_tests [simp]:
  "frame_flags c r AND 0x20 \<noteq> 0" "frame_flags c r AND 0x08 = 0" "frame_flags c r AND 0x04 = 0"
  "frame_flags c r AND 0x01 = 0 \<longleftrightarrow> \<not> c" "frame_flags c r AND 0x40 = 0 \<longleftrightarrow> \<not> r"
  "is_v4_frame_flags (frame_flags c r)"
  by (cases c; cases r; simp add: frame_flags_def is_v4_frame_flags_def)+

lemma read_v4_envelope_encoded:
  assumes "valid_type E t" "local_type_id E (v4_type_id E t) = Some t" "wire_endpoints_ok E eps"
  shows "read_v4_envelope E
      ([frame_flags c r, word_of_nat (length eps)] @ write_uleb128 (ucast (v4_type_id E t)) @
        write_uleb128 n @ write_uleb128 ts @ write_uleb128 src @ v4_endpoint_bitmap E eps @ rest) =
    Some (Some (\<lparr>h_flags = frame_flags c r, h_nep = word_of_nat (length eps),
                 h_wire_ty = ucast (v4_type_id E t), h_logical_size = n, h_timestamp = ts,
                 h_source_address = src\<rparr>, t, sort_key (wire_bit_of E) eps, rest))"
proof -
  have "unat (word_of_nat (length eps) :: u8) = length eps"
    using wire_endpoints_short [OF assms(3)] by (simp add: unat_of_nat)
  then show ?thesis
    using assms
    by (simp add: read_v4_envelope_def read_v4_head_def wire_simps read_v4_endpoints_def read_ptr_def advance_def
        parse_v4_endpoint_bitmap skip_contract_def)
qed

text \<open>The encoder's body, with its flags in normal form.\<close>

definition encoded_body :: "env \<Rightarrow> packet \<Rightarrow> bool \<Rightarrow> bool \<Rightarrow> bytes \<Rightarrow> bytes" where
  "encoded_body E pkt c r rest =
     [frame_flags c r, word_of_nat (length (endpoints pkt))] @
     write_uleb128 (ucast (v4_type_id E (ty pkt))) @
     write_uleb128 (word_of_nat (length (payload pkt))) @
     write_uleb128 (timestamp pkt) @ write_uleb128 (ucast (sender_address_u32 (sender pkt))) @
     v4_endpoint_bitmap E (endpoints pkt) @ rest"

lemma serialize_with_reliable_body:
  assumes "maybe_compress E (payload pkt) = (c, b)"
  shows "serialize_packet_with_reliable E pkt h =
    frame_of_body (encoded_body E pkt b (should_compact_reliable_header h)
      ((if has_v4_reliable_header E (ty pkt)
        then write_v4_reliable_header h (should_compact_reliable_header h) else []) @ c))"
  using assms by (simp add: serialize_packet_with_reliable_def encoded_body_def frame_flags_def Let_def)

lemma encoded_body_frame [simp]:
  "\<not> length (encoded_body E pkt c r rest) < 2" "hd (encoded_body E pkt c r rest) = frame_flags c r"
  "encoded_body E pkt c r rest \<noteq> []"
  by (simp_all add: encoded_body_def)

lemma read_v4_envelope_body:
  assumes "wire_ok E pkt"
  shows "read_v4_envelope E (encoded_body E pkt c r rest) =
    Some (Some (\<lparr>h_flags = frame_flags c r, h_nep = word_of_nat (length (endpoints pkt)),
                 h_wire_ty = ucast (v4_type_id E (ty pkt)),
                 h_logical_size = word_of_nat (length (payload pkt)), h_timestamp = timestamp pkt,
                 h_source_address = ucast (sender_address_u32 (sender pkt))\<rparr>,
               ty pkt, sort_key (wire_bit_of E) (endpoints pkt), rest))"
  using assms unfolding encoded_body_def wire_ok_def by (intro read_v4_envelope_encoded) simp_all

lemma unat_payload_length: "wire_ok E pkt \<Longrightarrow> unat (word_of_nat (length (payload pkt)) :: u64) = length (payload pkt)"
  by (simp add: wire_ok_def unat_of_nat)

text \<open>A header the writer and the reader agree on: no presence bit, not an acknowledgement.\<close>

definition data_header :: "reliable_header \<Rightarrow> bool" where
  "data_header h \<longleftrightarrow> rh_flags h AND kV4ReliableFlagAckOnly = 0 \<and> \<not> bit (rh_flags h) 2 \<and> \<not> bit (rh_flags h) 3"

lemma deserialize_serialize_with_reliable:
  assumes "wire_ok E pkt" "zstd_inverts E" "data_header h"
  shows "deserialize_packet E (serialize_packet_with_reliable E pkt h) = Some (Some (wire_image E pkt))"
proof -
  obtain c b where cb: "maybe_compress E (payload pkt) = (c, b)" by fastforce
  have dec: "maybe_decompress E c (length (payload pkt)) b = Some (payload pkt)"
    using assms cb by (intro maybe_decompress_compress) (simp_all add: wire_ok_def)
  have hdr: "read_v4_reliable_header (write_v4_reliable_header h k @ c) k = Some (Some (h, c))" for k
    using assms(3) by (intro read_write_v4_reliable_header) (simp add: data_header_def)
  show ?thesis
    using assms
    by (simp add: serialize_with_reliable_body [OF cb] deserialize_packet_def deserialize_v4_def
        read_v4_envelope_body unat_payload_length hdr dec wire_image_def data_header_def)
qed

lemma peek_serialize_with_reliable:
  assumes "wire_ok E pkt" "data_header h"
  shows "peek_frame_info E (serialize_packet_with_reliable E pkt h) verify =
    Some (Some \<lparr>envelope = \<lparr>env_ty = ty pkt, env_endpoints = sort_key (wire_bit_of E) (endpoints pkt),
                            env_sender = address_sender (ucast (sender_address_u32 (sender pkt))),
                            timestamp_ms = timestamp pkt\<rparr>,
                reliable = (if has_v4_reliable_header E (ty pkt) then Some h else None)\<rparr>)"
proof -
  obtain c b where cb: "maybe_compress E (payload pkt) = (c, b)" by fastforce
  have hdr: "read_v4_reliable_header (write_v4_reliable_header h k @ c) k = Some (Some (h, c))" for k
    using assms(2) by (intro read_write_v4_reliable_header) (simp add: data_header_def)
  show ?thesis
    using assms
    by (simp add: serialize_with_reliable_body [OF cb] peek_frame_info_def peek_v4_def
        read_v4_envelope_body hdr)
qed

text \<open>A packet without a reliable header is written as if by the other encoder.\<close>

definition is_link_ack :: "packet \<Rightarrow> bool" where
  "is_link_ack pkt \<longleftrightarrow>
     ty pkt = SEDS_DT_RELIABLE_ACK \<and> length (payload pkt) = 8 \<and> \<not> prefix ''E2EACK:'' (sender pkt)"

lemma serialize_packet_data:
  assumes "\<not> is_link_ack pkt"
  shows "serialize_packet E pkt = serialize_packet_with_reliable E pkt
    (if has_v4_reliable_header E (ty pkt) then \<lparr>rh_flags = kV4ReliableFlagUnsequenced, seq = 0, ack = 0\<rparr>
     else \<lparr>rh_flags = 0, seq = 1, ack = 1\<rparr>)"
  using assms unfolding is_link_ack_def
  by (auto simp: serialize_packet_def serialize_packet_with_reliable_def should_compact_reliable_header_def
      split: prod.splits)

section \<open>Acknowledgement frames\<close>

lemma v4_endpoint_bitmap_Nil [simp]: "v4_endpoint_bitmap E [] = replicate 32 0"
  by (simp add: v4_endpoint_bitmap_def)

lemma wire_endpoints_ok_Nil [simp]: "wire_endpoints_ok E []"
  by (simp add: wire_endpoints_ok_def)

lemma serialize_reliable_ack_envelope:
  assumes "valid_type E t" "local_type_id E (v4_type_id E t) = Some t"
  shows "read_v4_envelope E (frame_body (serialize_reliable_ack E from t ts a)) =
    Some (Some (\<lparr>h_flags = frame_flags False True, h_nep = 0, h_wire_ty = ucast (v4_type_id E t),
                 h_logical_size = 0, h_timestamp = ts,
                 h_source_address = ucast (sender_address_u32 from)\<rparr>, t, [],
               write_v4_reliable_header \<lparr>rh_flags = kV4ReliableFlagAckOnly, seq = 0, ack = a\<rparr> True))"
  using read_v4_envelope_encoded [OF assms wire_endpoints_ok_Nil, of False True 0 ts
      "ucast (sender_address_u32 from)"
      "write_v4_reliable_header \<lparr>rh_flags = kV4ReliableFlagAckOnly, seq = 0, ack = a\<rparr> True"]
  by (simp add: serialize_reliable_ack_def frame_flags_def)

lemma serialize_reliable_ack_frame [simp]:
  "crc_matches (serialize_reliable_ack E from t ts a)"
  "is_v4_frame_flags (hd (serialize_reliable_ack E from t ts a))"
  "\<not> length (serialize_reliable_ack E from t ts a) < 6"
  by (simp_all add: serialize_reliable_ack_def is_v4_frame_flags_def)

lemma read_ack_header:
  "read_v4_reliable_header (write_v4_reliable_header \<lparr>rh_flags = kV4ReliableFlagAckOnly, seq = 0, ack = a\<rparr> True) True =
     Some (Some (\<lparr>rh_flags = kV4ReliableFlagAckOnly, seq = 0, ack = a\<rparr>, []))"
  using read_write_v4_reliable_header [of True "\<lparr>rh_flags = kV4ReliableFlagAckOnly, seq = 0, ack = a\<rparr>" "[]"]
  by (simp add: bit_1_iff)

section \<open>The two readers agree\<close>

definition envelope_of :: "packet \<Rightarrow> telemetry_envelope" where
  "envelope_of pkt = \<lparr>env_ty = ty pkt, env_endpoints = endpoints pkt, env_sender = sender pkt,
                      timestamp_ms = timestamp pkt\<rparr>"

lemma peek_v4_of_deserialize:
  assumes "deserialize_v4 E body = Some (Some pkt)"
  shows "\<exists>info. peek_v4 E body = Some (Some info) \<and> envelope info = envelope_of pkt \<and> \<not> ack_only info"
proof -
  obtain h t eps cur where env: "read_v4_envelope E body = Some (Some (h, t, eps, cur))"
    using assms by (auto simp: deserialize_v4_def reads_eq_Some_Some)
  let ?k = "h_flags h AND kV4FlagCompactReliableHeader \<noteq> 0"
  show ?thesis
  proof (cases "has_v4_reliable_header E t")
    case True
    then obtain rel cur' where "read_v4_reliable_header cur ?k = Some (Some (rel, cur'))"
      "rh_flags rel AND kV4ReliableFlagAckOnly = 0"
      using assms env by (auto simp: deserialize_v4_def reads_eq_Some_Some split: if_splits)
    then show ?thesis
      using assms env True
      by (auto simp: deserialize_v4_def peek_v4_def bind_eq_Some_conv envelope_of_def ack_only_def Let_def
          split: if_splits)
  next
    case False
    then show ?thesis
      using assms env
      by (auto simp: deserialize_v4_def peek_v4_def bind_eq_Some_conv envelope_of_def ack_only_def Let_def
          split: if_splits)
  qed
qed

lemma peek_legacy_of_deserialize:
  assumes "deserialize_legacy E body crc = Some (Some pkt)"
  shows "\<exists>info. peek_legacy E body crc = Some (Some info) \<and> envelope info = envelope_of pkt \<and> \<not> ack_only info"
proof -
  obtain r where r: "read_legacy_envelope E body crc = Some r"
    using assms by (cases "read_legacy_envelope E body crc") (simp_all add: deserialize_legacy_def)
  then obtain h eps sb cur where env: "read_legacy_envelope E body crc = Some (Some (h, eps, sb, cur))"
    using assms by (cases r) (auto simp: deserialize_legacy_def)
  then obtain rel where rel: "legacy_type_reliable E (l_ty h) = Some rel"
    using assms by (cases "legacy_type_reliable E (l_ty h)") (simp_all add: deserialize_legacy_def)
  have ok: "\<not> (rel \<and> (length cur < 9 \<or> hd cur AND 0x01 \<noteq> 0))"
    using assms env rel by (cases "length cur < 9 \<or> hd cur AND 0x01 \<noteq> 0") (auto simp: deserialize_legacy_def)
  then obtain pl where "pkt = \<lparr>ty = ucast (l_ty h), sender = string_of_bytes sb, endpoints = eps,
                             timestamp = l_timestamp h, payload = pl\<rparr>"
    using assms env rel by (auto simp: deserialize_legacy_def bind_eq_Some_conv split: if_splits)
  then show ?thesis
    using ok env rel by (cases rel) (simp_all add: peek_legacy_def envelope_of_def ack_only_def Let_def)
qed

lemma peek_of_deserialize:
  assumes "deserialize_packet E bs = Some (Some pkt)"
  shows "\<exists>info. peek_frame_info E bs verify = Some (Some info) \<and> envelope info = envelope_of pkt \<and> \<not> ack_only info"
  using assms peek_v4_of_deserialize peek_legacy_of_deserialize
  by (auto simp: deserialize_packet_def peek_frame_info_def split: if_splits)

section \<open>Rewriting a reliable header\<close>

lemma skip_contract_encoded [simp]: "skip_contract (frame_flags c r) cur = Some (Some cur)"
  by (simp add: skip_contract_def)

lemma reliable_header_offset_encoded:
  assumes "wire_ok E pkt" "has_v4_reliable_header E (ty pkt)"
  shows "reliable_header_offset E (frame_of_body (encoded_body E pkt c r rest)) =
    Some (Some (length (encoded_body E pkt c r []))) "
  using assms
  by (simp add: reliable_header_offset_def Let_def encoded_body_def read_v4_head_def wire_simps wire_ok_def advance_def)

lemma encoded_body_append: "encoded_body E pkt c r rest = encoded_body E pkt c r [] @ rest"
  by (simp add: encoded_body_def)

lemma rewrite_encoded:
  assumes "wire_ok E pkt" "has_v4_reliable_header E (ty pkt)"
  shows "rewrite_reliable_header E
      (frame_of_body (encoded_body E pkt c False (write_v4_reliable_header h False @ rest))) f s a =
    Some (True, frame_of_body (encoded_body E pkt c False
      (write_v4_reliable_header \<lparr>rh_flags = f, seq = s, ack = a\<rparr> False @ rest)))"
  using assms
  by (simp add: rewrite_reliable_header_def reliable_header_offset_encoded write_v4_reliable_header_def
      append_le_def) (simp add: encoded_body_append [of E pkt c False "_ # _"])

section \<open>Properties of the codec\<close>

lemma wire_ok_samples: "wire_ok sample_env gps_packet" "wire_ok sample_env command_packet"
  by (simp_all add: wire_ok_def wire_endpoints_ok_def gps_packet_def command_packet_def)

lemma zstd_inverts_sample: "zstd_inverts sample_env"
  by (simp add: zstd_inverts_def sample_env_def)

lemma data_header_sample: "data_header data_hdr"
  by (simp add: data_header_def data_hdr_def)

text \<open>
  Round trip. A frame written for a packet with a data header is decoded to the packet's
  wire image: type, timestamp and payload are exact, the endpoint list is the same set in
  wire order, and the sender is the address form of the sender's hash.
\<close>

theorem reliable_frame_roundtrip:
  assumes "wire_ok E pkt" "zstd_inverts E" "data_header h"
  shows "deserialize_packet E (serialize_packet_with_reliable E pkt h) = Some (Some (wire_image E pkt))"
  using assms by (rule deserialize_serialize_with_reliable)

theorem reliable_frame_roundtrip_witness:
  "deserialize_packet sample_env (serialize_packet_with_reliable sample_env command_packet data_hdr) =
     Some (Some (wire_image sample_env command_packet))"
  by (rule reliable_frame_roundtrip [OF wire_ok_samples(2) zstd_inverts_sample data_header_sample])

text \<open>
  (C4) Round trip of \<open>serialize_packet\<close>. A packet that is not a link-level acknowledgement, of a
  reliable type or not, comes back as its wire image if it fits the wire (\<open>wire_ok\<close>): its type is
  valid and the type's wire identifier maps back to it, its endpoints are distinct and have wire
  identifiers below 256 that map back to them, and its payload has fewer than \<open>2\<^sup>6\<^sup>3\<close> bytes. Where
  compression is built in, the library is assumed to decompress what it compressed.
\<close>

theorem serialize_packet_roundtrip:
  assumes "wire_ok E pkt" "zstd_inverts E" "\<not> is_link_ack pkt"
  shows "deserialize_packet E (serialize_packet E pkt) = Some (Some (wire_image E pkt))"
  unfolding serialize_packet_data [OF assms(3)]
  by (rule deserialize_serialize_with_reliable [OF assms(1,2)])
    (simp add: data_header_def bit_80 split: if_split)

theorem serialize_packet_roundtrip_witness:
  "deserialize_packet sample_env (serialize_packet sample_env gps_packet) =
     Some (Some (wire_image sample_env gps_packet))"
  by (rule serialize_packet_roundtrip [OF wire_ok_samples(1) zstd_inverts_sample])
    (simp add: is_link_ack_def gps_packet_def)

text \<open>
  (C10) Error detection. If a frame passes the checksum, then changing up to four consecutive
  bytes anywhere in it, the checksum itself included, makes both readers reject it.
\<close>

theorem corrupt_frame_rejected:
  assumes "crc_matches (xs @ us @ zs)" "2 + kCrcBytes \<le> length (xs @ us @ zs)"
    and "length us = length vs" "length us \<le> 4" "us \<noteq> vs"
  shows "deserialize_packet E (xs @ vs @ zs) = Some None \<and>
    peek_frame_info E (xs @ vs @ zs) True = Some None"
  using crc_burst_mismatch [OF assms(1) _ assms(3-5)] assms(2)
  by (simp add: deserialize_packet_def peek_frame_info_def)

theorem corrupt_frame_rejected_witness:
  "deserialize_packet sample_env ([0x20, 0xFF] @ drop 2 (frame_of_body [0x20, 1, 0])) = Some None"
proof -
  have "frame_of_body [0x20, 1, 0] = [0x20] @ [1] @ drop 2 (frame_of_body [0x20, 1, 0])"
    by (simp add: frame_of_body_def append_le_def)
  then show ?thesis
    using corrupt_frame_rejected [of "[0x20]" "[1]" "drop 2 (frame_of_body [0x20, 1, 0])" "[0xFF]" sample_env]
    by simp
qed

text \<open>
  The routing path peeks at a frame before it decodes it. Whenever the full decoder
  accepts a frame, the peek accepts it too, reports the same type, endpoints, sender and
  timestamp, and does not classify it as a bare acknowledgement.
\<close>

theorem peek_agrees_with_decode:
  assumes "deserialize_packet E bs = Some (Some pkt)"
  shows "\<exists>info. peek_frame_info E bs verify = Some (Some info) \<and>
    envelope info = envelope_of pkt \<and> \<not> ack_only info"
  using assms by (rule peek_of_deserialize)

theorem peek_agrees_with_decode_witness:
  "\<exists>info. peek_frame_info sample_env (serialize_packet_with_reliable sample_env command_packet data_hdr) True =
       Some (Some info) \<and> envelope info = envelope_of (wire_image sample_env command_packet) \<and> \<not> ack_only info"
  by (rule peek_agrees_with_decode,
      rule deserialize_serialize_with_reliable [OF wire_ok_samples(2) zstd_inverts_sample data_header_sample])

text \<open>
  A link-level acknowledgement frame for a sequenced type is peeked as an
  acknowledgement of exactly that type and number, and is never delivered as a packet.
\<close>

theorem ack_frame_peeked_not_delivered:
  assumes "valid_type E t" "local_type_id E (v4_type_id E t) = Some t" "has_v4_reliable_header E t"
  shows "peek_frame_info E (serialize_reliable_ack E from t ts a) verify =
      Some (Some \<lparr>envelope = \<lparr>env_ty = t, env_endpoints = [],
                              env_sender = address_sender (ucast (sender_address_u32 from)), timestamp_ms = ts\<rparr>,
                  reliable = Some \<lparr>rh_flags = kV4ReliableFlagAckOnly, seq = 0, ack = a\<rparr>\<rparr>) \<and>
    deserialize_packet E (serialize_reliable_ack E from t ts a) = Some None"
  using assms
  by (simp add: peek_frame_info_def peek_v4_def deserialize_packet_def deserialize_v4_def
      serialize_reliable_ack_envelope read_ack_header)

theorem ack_frame_peeked_not_delivered_witness:
  "deserialize_packet sample_env (serialize_reliable_ack sample_env ''GROUND'' COMMAND 7 41) = Some None"
  using ack_frame_peeked_not_delivered [of sample_env COMMAND "''GROUND''" 7 41 True] by simp

text \<open>
  Rewriting the header of a full-form frame changes the header and nothing else: the
  rewritten frame passes the checksum and decodes to the same packet under the new header.
\<close>

theorem rewrite_reliable_header_correct:
  assumes "wire_ok E pkt" "zstd_inverts E" "has_v4_reliable_header E (ty pkt)"
    and "\<not> should_compact_reliable_header h" "f AND kV4ReliableFlagAckOnly = 0"
  shows "\<exists>frame. rewrite_reliable_header E (serialize_packet_with_reliable E pkt h) f s a = Some (True, frame) \<and>
    deserialize_packet E frame = Some (Some (wire_image E pkt)) \<and>
    map_option (map_option reliable) (peek_frame_info E frame True) =
      Some (Some (Some \<lparr>rh_flags = f, seq = s, ack = a\<rparr>))"
proof -
  obtain c b where cb: "maybe_compress E (payload pkt) = (c, b)" by fastforce
  have dec: "maybe_decompress E c (length (payload pkt)) b = Some (payload pkt)"
    using assms cb by (intro maybe_decompress_compress) (simp_all add: wire_ok_def)
  let ?h = "\<lparr>rh_flags = f, seq = s, ack = a\<rparr>"
  let ?frame = "frame_of_body (encoded_body E pkt b False (write_v4_reliable_header ?h False @ c))"
  have hdr: "read_v4_reliable_header (write_v4_reliable_header ?h False @ c) False = Some (Some (?h, c))"
    by (rule read_write_v4_reliable_header) simp
  have "rewrite_reliable_header E (serialize_packet_with_reliable E pkt h) f s a = Some (True, ?frame)"
    using assms(3,4) rewrite_encoded [OF assms(1,3)] by (simp add: serialize_with_reliable_body [OF cb])
  moreover have "deserialize_packet E ?frame = Some (Some (wire_image E pkt))"
    using assms
    by (simp add: deserialize_packet_def deserialize_v4_def
        read_v4_envelope_body unat_payload_length hdr dec wire_image_def)
  moreover have "map_option (map_option reliable) (peek_frame_info E ?frame True) = Some (Some (Some ?h))"
    using assms by (simp add: peek_frame_info_def peek_v4_def read_v4_envelope_body hdr Let_def)
  ultimately show ?thesis by blast
qed

theorem rewrite_reliable_header_correct_witness:
  "\<exists>frame. rewrite_reliable_header sample_env
       (serialize_packet_with_reliable sample_env command_packet data_hdr) 0 6 10 = Some (True, frame) \<and>
     deserialize_packet sample_env frame = Some (Some (wire_image sample_env command_packet))"
proof -
  have k: "\<not> should_compact_reliable_header data_hdr"
    by (simp add: should_compact_reliable_header_def data_hdr_def)
  have h: "has_v4_reliable_header sample_env (ty command_packet)" by (simp add: command_packet_def)
  show ?thesis
    using rewrite_reliable_header_correct [OF wire_ok_samples(2) zstd_inverts_sample h k, of 0 6 10] by auto
qed

section \<open>Where the decoder can fault\<close>

lemma read_uleb_loop_total: "read_uleb_loop i shift out cur \<noteq> None"
proof (induction i arbitrary: shift out cur)
  case (Suc i)
  then show ?case by (cases cur) (simp_all add: Let_def del: not_None_eq)
qed simp

lemma read_uleb128_total: "read_uleb128 cur \<noteq> None"
  unfolding read_uleb128_def by (rule read_uleb_loop_total)

lemma read_v4_head_total:
  assumes "2 \<le> length cur"
  shows "read_v4_head cur \<noteq> None"
proof -
  obtain flags nep rest where "cur = flags # nep # rest"
    using assms by (cases cur; cases "tl cur") auto
  then show ?thesis
    using read_uleb128_total by (auto simp: read_v4_head_def reads_eq_None simp del: not_None_eq)
qed

lemma skip_contract_total: "skip_contract flags cur \<noteq> None"
  using read_uleb128_total [of cur]
  by (auto simp: skip_contract_def reads_eq_None advance_def simp del: not_None_eq)

lemma read_field_total: "read_field present cur \<noteq> None"
  using read_uleb128_total [of cur] by (auto simp: read_field_def reads_eq_None simp del: not_None_eq split: if_splits)

lemma read_v4_reliable_header_total: "read_v4_reliable_header cur compact \<noteq> None"
proof (cases cur)
  case (Cons flags cur1)
  then show ?thesis
    using read_field_total
    by (auto simp: read_v4_reliable_header_def reads_eq_None read_ptr_def advance_def simp del: not_None_eq)
qed (simp add: read_v4_reliable_header_def)

lemma local_endpoint_id_total:
  assumes "\<forall>w \<in> {200, 201, 202}. valid_endpoint E w"
  shows "local_endpoint_id E w \<noteq> None"
  using assms by (auto simp: local_endpoint_id_def Let_def)

lemma parse_v4_bits_total:
  assumes "\<forall>w \<in> {200, 201, 202}. valid_endpoint E w"
  shows "parse_v4_bits E bm is \<noteq> None"
proof (induction "is")
  case (Cons i "is")
  then show ?case using local_endpoint_id_total [OF assms, of "word_of_nat i"]
    by (auto simp: bind_eq_None_conv split: option.splits)
qed simp

lemma read_v4_endpoints_total:
  assumes "\<forall>w \<in> {200, 201, 202}. valid_endpoint E w"
  shows "read_v4_endpoints E flags t cur \<noteq> None"
  using parse_v4_bits_total [OF assms]
  by (auto simp: read_v4_endpoints_def parse_v4_bitmap_def read_ptr_def advance_def bind_eq_None_conv
      simp del: not_None_eq)

lemma read_v4_envelope_total:
  assumes "\<forall>w \<in> {200, 201, 202}. valid_endpoint E w" "2 \<le> length body"
  shows "read_v4_envelope E body \<noteq> None"
  using read_v4_head_total [OF assms(2)] read_v4_endpoints_total [OF assms(1)] skip_contract_total
  by (auto simp: read_v4_envelope_def reads_eq_None simp del: not_None_eq split: option.splits if_splits)

lemma read_v4_envelope_head:
  "read_v4_envelope E body = Some (Some (h, t, eps, cur)) \<Longrightarrow> \<exists>rest. read_v4_head body = Some (Some (h, rest))"
  by (auto simp: read_v4_envelope_def reads_eq_Some_Some split: option.splits if_splits)

lemma peek_v4_total:
  assumes "read_v4_envelope E body \<noteq> None"
  shows "peek_v4 E body \<noteq> None"
  using assms read_v4_reliable_header_total
  by (auto simp: peek_v4_def reads_eq_None Let_def simp del: not_None_eq)

lemma maybe_decompress_None:
  "maybe_decompress E data n compressed = None \<longleftrightarrow> compressed \<and> seds_has_zstd E \<noteq> None \<and> 2 ^ 63 \<le> n"
  unfolding maybe_decompress_def by (simp only: split: option.split if_split) auto

lemma deserialize_v4_None:
  assumes "read_v4_envelope E body \<noteq> None" "deserialize_v4 E body = None"
  shows "\<exists>h rest. read_v4_head body = Some (Some (h, rest)) \<and> h_flags h AND kV4FlagCompressedPayload \<noteq> 0 \<and>
    seds_has_zstd E \<noteq> None \<and> 2 ^ 63 \<le> unat (h_logical_size h)"
proof -
  obtain h t eps cur cur2 where env: "read_v4_envelope E body = Some (Some (h, t, eps, cur))"
    and "maybe_decompress E cur2 (unat (h_logical_size h)) (h_flags h AND kV4FlagCompressedPayload \<noteq> 0) = None"
    using assms read_v4_reliable_header_total
    by (auto simp: deserialize_v4_def reads_eq_None bind_eq_None_conv simp del: not_None_eq split: if_splits)
  with read_v4_envelope_head [OF env] show ?thesis by (auto simp only: maybe_decompress_None)
qed

text \<open>
  (C21) Safety of the version 4 readers. Where the schema registers the three built-in
  endpoints, no byte sequence with version 4 flags, of whatever length, makes the peek or the
  search for the reliable header access a byte behind the end of the frame's body or fault
  otherwise. The full decoder can only fault in one place: where compression is built in, the
  frame is marked as compressed and its size field is at least \<open>2\<^sup>6\<^sup>3\<close>, the allocation of the
  decompression buffer throws.
\<close>

theorem v4_readers_never_fault:
  assumes "\<forall>w \<in> {200, 201, 202}. valid_endpoint E w" "is_v4_frame_flags (hd bs)"
  shows "peek_frame_info E bs verify \<noteq> None \<and> reliable_header_offset E bs \<noteq> None \<and>
    (deserialize_packet E bs = None \<longrightarrow>
       (\<exists>h rest. read_v4_head (frame_body bs) = Some (Some (h, rest)) \<and> h_flags h AND kV4FlagCompressedPayload \<noteq> 0 \<and>
          seds_has_zstd E \<noteq> None \<and> 2 ^ 63 \<le> unat (h_logical_size h)))"
proof (cases "length bs < 2 + kCrcBytes")
  case True
  then show ?thesis by (simp add: peek_frame_info_def reliable_header_offset_def deserialize_packet_def)
next
  case False
  then have body: "2 \<le> length (frame_body bs)" by (simp add: frame_body_def)
  note env = read_v4_envelope_total [OF assms(1) body]
  have "peek_frame_info E bs verify \<noteq> None"
    using False assms(2) peek_v4_total [OF env] by (simp add: peek_frame_info_def del: not_None_eq)
  moreover have "reliable_header_offset E bs \<noteq> None"
    using False assms(2) read_v4_head_total [OF body] skip_contract_total
    by (auto simp: reliable_header_offset_def Let_def reads_eq_None advance_def simp del: not_None_eq
        split: option.splits if_splits)
  moreover have "deserialize_v4 E (frame_body bs) = None" if "deserialize_packet E bs = None"
    using that False assms(2) by (simp add: deserialize_packet_def split: if_splits)
  ultimately show ?thesis using deserialize_v4_None [OF env] by blast
qed

theorem v4_readers_never_fault_witness:
  "peek_frame_info (sample_env\<lparr>kEndpointNames := replicate 203 (Some ''X'')\<rparr>) [0x20, 0, 0, 0, 0, 0, 0] True \<noteq> None"
proof -
  have "\<forall>w \<in> {200, 201, 202}. valid_endpoint (sample_env\<lparr>kEndpointNames := replicate 203 (Some ''X'')\<rparr>) w"
    by (simp add: valid_endpoint_def)
  then show ?thesis
    using v4_readers_never_fault [of _ "[0x20, 0, 0, 0, 0, 0, 0]" True] by (simp add: is_v4_frame_flags_def)
qed

text \<open>A legacy frame: payload compressed or not, type, size, time, sender, endpoint bitmap and the rest.\<close>

definition legacy_frame :: "env \<Rightarrow> bool \<Rightarrow> u64 \<Rightarrow> u64 \<Rightarrow> u64 \<Rightarrow> bytes \<Rightarrow> bytes \<Rightarrow> bytes \<Rightarrow> bytes" where
  "legacy_frame E compressed t sz ts bm from rest =
     frame_of_body ([if compressed then kFlagCompressedPayload else 0, word_of_nat (length (parse_bitmap E bm))] @
       write_uleb128 t @ write_uleb128 sz @ write_uleb128 ts @ write_uleb128 (word_of_nat (length from)) @
       bm @ from @ rest)"

lemma legacy_flags:
  "\<not> is_v4_frame_flags (if c then kFlagCompressedPayload else 0)"
  "(if c then kFlagCompressedPayload else 0) AND kFlagCompressedSender = 0"
  by (cases c; simp add: is_v4_frame_flags_def)+

lemma endpoint_bitmap_bytes_less: "endpoint_bitmap_bytes E < 2 ^ 32"
  using unsigned_less [of "(kEndpointCount E + 7) div 8", where ?'a = nat] by (simp add: endpoint_bitmap_bytes_def)

text \<open>
  (C27) The legacy reader checks the type after truncating it to 32 bits and then indexes the
  type table with the 64-bit value. Whatever the schema, every checksummed legacy frame whose type
  field has a valid type in its low half and exceeds the table reads outside the table, in all
  three readers, whatever its time, size, sender, endpoints and payload.
\<close>

theorem legacy_type_index_out_of_bounds:
  assumes "valid_type E (ucast t)" "length (kTypeInfo E) \<le> unat (t :: u64)"
    and "length bm = endpoint_bitmap_bytes E" "length (parse_bitmap E bm) < 256" "length from < 2 ^ 32"
  shows "crc_matches (legacy_frame E c t sz ts bm from rest) \<and>
    deserialize_packet E (legacy_frame E c t sz ts bm from rest) = None \<and>
    peek_frame_info E (legacy_frame E c t sz ts bm from rest) verify = None \<and>
    reliable_header_offset E (legacy_frame E c t sz ts bm from rest) = None"
proof -
  let ?h = "\<lparr>l_flags = (if c then kFlagCompressedPayload else 0), l_nep = word_of_nat (length (parse_bitmap E bm)),
      l_ty = t, l_logical_size = sz, l_timestamp = ts, l_sender_len = word_of_nat (length from),
      l_sender_wire_len = word_of_nat (length from)\<rparr>"
  let ?body = "[if c then kFlagCompressedPayload else 0, word_of_nat (length (parse_bitmap E bm))] @
       write_uleb128 t @ write_uleb128 sz @ write_uleb128 ts @ write_uleb128 (word_of_nat (length from)) @
       bm @ from @ rest"
  have head: "read_legacy_head ?body = Some (Some (?h, bm @ from @ rest))"
    by (simp add: read_legacy_head_def wire_simps legacy_flags)
  have n: "unat (word_of_nat (length from) :: u64) = length from"
    using assms(5) by (simp add: unat_of_nat)
  have "endpoint_bitmap_bytes E + length from < 2 ^ 64" using assms(5) endpoint_bitmap_bytes_less [of E] by simp
  then have "unat (word_of_nat (endpoint_bitmap_bytes E + length from) :: u64) = endpoint_bitmap_bytes E + length from"
    by (simp add: unat_of_nat del: of_nat_add)
  then have pre: "unat (legacy_prefix_len E ?h) = length bm + length from"
    by (simp add: legacy_prefix_len_def assms(3))
  have nep: "unat (word_of_nat (length (parse_bitmap E bm)) :: u8) = length (parse_bitmap E bm)"
    using assms(4) by (simp add: unat_of_nat)
  have rel: "legacy_type_reliable E t = None" using assms(2) by (simp add: legacy_type_reliable_def)
  have env: "read_legacy_envelope E ?body crc = Some (Some (?h, parse_bitmap E bm, from, rest))" for crc
    unfolding read_legacy_envelope_def head reads.simps prod.case legacy_head.simps pre
    using assms(1,3) by (simp add: read_ptr_def n nep maybe_decompress_def legacy_flags Let_def)
  have frame: "\<not> length (frame_of_body ?body) < 6" "hd (frame_of_body ?body) = (if c then kFlagCompressedPayload else 0)"
    by simp_all
  have "deserialize_packet E (frame_of_body ?body) = None"
    unfolding deserialize_packet_def deserialize_legacy_def frame_body_of_body env frame(2)
    using frame(1) by (simp add: legacy_flags rel)
  moreover have "peek_frame_info E (frame_of_body ?body) verify = None"
    unfolding peek_frame_info_def peek_legacy_def frame_body_of_body env frame(2)
    using frame(1) by (simp add: legacy_flags rel)
  moreover have "reliable_header_offset E (frame_of_body ?body) = None"
    unfolding reliable_header_offset_def frame_body_of_body frame(2) Let_def head reads.simps prod.case legacy_head.simps pre
    using frame(1) assms(1) by (simp add: legacy_flags rel)
  ultimately show ?thesis unfolding legacy_frame_def by simp
qed

theorem legacy_type_index_out_of_bounds_witness:
  "deserialize_packet sample_env (legacy_frame sample_env False 0x10000000A 0 0 [0] [] []) = None"
proof -
  have "parse_bitmap sample_env [0] = []" by (simp add: parse_bitmap_def bitmap_bit_def sample_env_def)
  moreover have "endpoint_bitmap_bytes sample_env = 1" by (simp add: endpoint_bitmap_bytes_def sample_env_def)
  moreover have "length (kTypeInfo sample_env) = 13" by (simp add: sample_defs)
  moreover have "(ucast (0x10000000A :: u64) :: u32) = GPS" by simp
  then have "valid_type sample_env (ucast (0x10000000A :: u64))" by (simp only: sample_valid_types)
  ultimately show ?thesis
    using legacy_type_index_out_of_bounds [of sample_env "0x10000000A" "[0]" "[]" False 0 0 "[]" True] by simp
qed

section \<open>The size of a frame\<close>

lemma length_write_uleb128: "unat v < 2 ^ (7 * Suc k) \<Longrightarrow> length (write_uleb128 v) \<le> Suc k"
proof (induction v arbitrary: k rule: write_uleb128.induct)
  case (1 v)
  show ?case
  proof (cases "drop_bit 7 v = 0")
    case False
    have "unat (drop_bit 7 v) = unat v div 128" by (rule unat_drop_bit_7)
    moreover from this False have "unat v div 128 \<noteq> 0" by (metis unat_eq_zero)
    ultimately have "k \<noteq> 0" "unat (drop_bit 7 v) < 2 ^ (7 * k)"
      using "1.prems" by (auto simp: less_mult_imp_div_less power_add mult.commute intro: gr0I)
    then show ?thesis
      using "1.IH" [OF refl refl False, of "k - 1"] False by (simp add: write_uleb128.simps [of v] Let_def)
  qed (simp add: write_uleb128.simps [of v])
qed

lemma length_write_uleb128_u64: "length (write_uleb128 v) \<le> 10"
proof -
  have "unat v < 2 ^ 64" by (rule order.strict_trans2 [OF unsigned_less]) simp
  then have "unat v < 2 ^ (7 * Suc 9)" by (rule order.strict_trans2) simp
  then show ?thesis using length_write_uleb128 [of v 9] by simp
qed

lemma length_write_uleb128_u32: "length (write_uleb128 (ucast (v :: u32))) \<le> 5"
proof -
  have "unat (ucast v :: u64) = unat v" by (simp add: unsigned_ucast_eq take_bit_nat_eq_self)
  moreover have "unat v < 2 ^ 32" by (rule order.strict_trans2 [OF unsigned_less]) simp
  then have "unat v < 2 ^ (7 * Suc 4)" by (rule order.strict_trans2) simp
  ultimately show ?thesis using length_write_uleb128 [of "ucast v" 4] by simp
qed

lemma length_maybe_compress: "length (fst (maybe_compress E data)) \<le> length data"
  by (simp add: maybe_compress_def split: option.split)

lemma length_write_v4_reliable_header: "length (write_v4_reliable_header h c) \<le> 11"
  using length_write_uleb128_u32 [of "seq h"] length_write_uleb128_u32 [of "ack h"]
  by (simp add: write_v4_reliable_header_def append_le_def Let_def)

lemma length_serialize_packet_with_reliable:
  "length (serialize_packet_with_reliable E pkt h) \<le> length (payload pkt) + 79"
proof -
  obtain wire c where m: "maybe_compress E (payload pkt) = (wire, c)" by fastforce
  then have "length wire \<le> length (payload pkt)" using length_maybe_compress [of E "payload pkt"] by simp
  moreover note length_write_uleb128_u32 [of "v4_type_id E (ty pkt)"] length_write_uleb128_u32 [of "sender_address_u32 (sender pkt)"]
    length_write_uleb128_u64 [of "word_of_nat (length (payload pkt))"] length_write_uleb128_u64 [of "timestamp pkt"]
    length_write_v4_reliable_header [of h "should_compact_reliable_header h"]
  ultimately show ?thesis
    by (simp add: serialize_packet_with_reliable_def m frame_of_body_def append_le_def Let_def split del: if_split)
      (simp split: if_split)
qed

text \<open>
  The framing overhead is bounded: whatever the packet, its endpoints and the reliable header,
  a frame is at most 79 bytes longer than the payload, and compression never makes it longer.
\<close>

theorem frame_overhead_bounded:
  "length (serialize_packet_with_reliable E pkt h) \<le> length (payload pkt) + 79"
  by (rule length_serialize_packet_with_reliable)

end
