(* ===== verification/Delivery.thy ===== *)
theory Delivery
  imports Managed Wire_Facts
begin

text \<open>
  What the application sees of a packet. Local delivery calls every handler of a matching
  endpoint, in order, up to its retry limit; a packet received twice is delivered once; and a
  packet sent on a reliable side is decoded, acknowledged and delivered by the receiving router.
\<close>

section \<open>Calls of handlers\<close>

text \<open>The handlers a packet is meant for, in the order they were registered.\<close>

definition packet_handlers :: "u32 list \<Rightarrow> local_endpoint list \<Rightarrow> fn list" where
  "packet_handlers eps ls = List.map_filter (\<lambda>l. if le_endpoint l \<in> set eps then packet_handler l else None) ls"

definition serialized_handlers :: "u32 list \<Rightarrow> local_endpoint list \<Rightarrow> fn list" where
  "serialized_handlers eps ls = List.map_filter (\<lambda>l. if le_endpoint l \<in> set eps then serialized_handler l else None) ls"

lemma packet_handlers_simps [simp]:
  "packet_handlers eps [] = []"
  "packet_handlers eps (l # ls) =
     (case (if le_endpoint l \<in> set eps then packet_handler l else None) of
        None \<Rightarrow> packet_handlers eps ls | Some h \<Rightarrow> h # packet_handlers eps ls)"
  by (simp_all add: packet_handlers_def map_filter_simps split: option.split)

lemma serialized_handlers_simps [simp]:
  "serialized_handlers eps [] = []"
  "serialized_handlers eps (l # ls) =
     (case (if le_endpoint l \<in> set eps then serialized_handler l else None) of
        None \<Rightarrow> serialized_handlers eps ls | Some h \<Rightarrow> h # serialized_handlers eps ls)"
  by (simp_all add: serialized_handlers_def map_filter_simps split: option.split)

text \<open>One handler: the last attempt was accepted, or it was the last one allowed.\<close>

lemma attempt_handler_calls:
  assumes "0 < n" "attempt_handler n w ev rc0 r = (rc, r')"
  obtains k where "1 \<le> k" "k \<le> n" "r' = r\<lparr>trace := trace r @ replicate k ev\<rparr>"
    "rc = respond w (trace r @ replicate (k - 1) ev) ev" "rc = SEDS_OK \<or> k = n"
    "(\<forall>tr. respond w tr ev = SEDS_OK) \<longrightarrow> k = 1"
  using assms
proof (induction n arbitrary: rc0 r thesis)
  case (Suc n)
  let ?rc = "respond w (trace r) ev" and ?r = "r\<lparr>trace := trace r @ [ev]\<rparr>"
  show ?case
  proof (cases "?rc = SEDS_OK \<or> n = 0")
    case True
    then have "(rc, r') = (?rc, ?r)" using Suc.prems(3) by (auto simp: call_back_def Let_def split: if_splits)
    then show ?thesis using True by (intro Suc.prems(1) [of 1]) auto
  next
    case False
    then have a: "attempt_handler n w ev ?rc ?r = (rc, r')" using Suc.prems(3) by (simp add: call_back_def Let_def)
    obtain k where k: "1 \<le> k" "k \<le> n" "r' = ?r\<lparr>trace := trace ?r @ replicate k ev\<rparr>"
      "rc = respond w (trace ?r @ replicate (k - 1) ev) ev" "rc = SEDS_OK \<or> k = n"
      using Suc.IH [OF _ _ a] False by auto
    have rep: "ev # replicate (k - 1) ev = replicate k ev" using k(1) by (cases k) simp_all
    show ?thesis using k rep False by (intro Suc.prems(1) [of "Suc k"]) auto
  qed
qed simp

text \<open>The calls one delivery makes: handler \<open>i\<close> is called \<open>ks ! i\<close> times.\<close>

definition delivery_calls :: "packet \<Rightarrow> nat list \<Rightarrow> fn list \<Rightarrow> event list" where
  "delivery_calls pkt ks hs = concat (map2 (\<lambda>k h. replicate k (PacketHandler h pkt)) ks hs)"

lemma delivery_calls_simps [simp]:
  "delivery_calls pkt [] hs = []" "delivery_calls pkt (k # ks) (h # hs) = replicate k (PacketHandler h pkt) @ delivery_calls pkt ks hs"
  by (simp_all add: delivery_calls_def)

lemma delivery_calls_once: "delivery_calls pkt (replicate (length hs) 1) hs = map (\<lambda>h. PacketHandler h pkt) hs"
  by (induction hs) simp_all

lemma deliver_packet_handlers_calls:
  assumes "0 < max_handler_retries (tuning E)" "deliver_packet_handlers E w pkt ls rest f r = (f', r')"
  shows "\<exists>ks. length ks = length (packet_handlers (endpoints pkt) rest) \<and>
    list_all (\<lambda>k. 1 \<le> k \<and> k \<le> max_handler_retries (tuning E)) ks \<and>
    r' = r\<lparr>trace := trace r @ delivery_calls pkt ks (packet_handlers (endpoints pkt) rest)\<rparr> \<and>
    ((\<forall>h tr. h \<in> set (packet_handlers (endpoints pkt) rest) \<longrightarrow> respond w tr (PacketHandler h pkt) = SEDS_OK) \<longrightarrow>
       f' = f \<and> ks = replicate (length ks) 1)"
  using assms(2)
proof (induction rest arbitrary: f r)
  case Nil
  then show ?case by auto
next
  case (Cons l rest)
  show ?case
  proof (cases "if le_endpoint l \<in> set (endpoints pkt) then packet_handler l else None")
    case None
    then have "deliver_packet_handlers E w pkt ls rest f r = (f', r')" using Cons.prems by (auto split: if_splits option.splits)
    from Cons.IH [OF this] None show ?thesis by simp
  next
    case (Some h)
    then have l: "le_endpoint l \<in> set (endpoints pkt)" "packet_handler l = Some h" by (auto split: if_splits)
    obtain rc r1 where a: "attempt_handler (max_handler_retries (tuning E)) w (PacketHandler h pkt) SEDS_OK r = (rc, r1)"
      by fastforce
    obtain k where k: "1 \<le> k" "k \<le> max_handler_retries (tuning E)"
      "r1 = r\<lparr>trace := trace r @ replicate k (PacketHandler h pkt)\<rparr>"
      "rc = respond w (trace r @ replicate (k - 1) (PacketHandler h pkt)) (PacketHandler h pkt)"
      "rc = SEDS_OK \<or> k = max_handler_retries (tuning E)"
      and first: "(\<forall>tr. respond w tr (PacketHandler h pkt) = SEDS_OK) \<longrightarrow> k = 1"
      using attempt_handler_calls [OF assms(1) a] .
    define g where "g = (if rc \<noteq> SEDS_OK then note_failure ls l rc f else f)"
    have d: "deliver_packet_handlers E w pkt ls rest g r1 = (f', r')"
      using Cons.prems l a by (simp add: g_def Let_def)
    obtain ks where ks: "length ks = length (packet_handlers (endpoints pkt) rest)"
      "list_all (\<lambda>k. 1 \<le> k \<and> k \<le> max_handler_retries (tuning E)) ks"
      "r' = r1\<lparr>trace := trace r1 @ delivery_calls pkt ks (packet_handlers (endpoints pkt) rest)\<rparr>"
      "(\<forall>h tr. h \<in> set (packet_handlers (endpoints pkt) rest) \<longrightarrow> respond w tr (PacketHandler h pkt) = SEDS_OK) \<longrightarrow>
         f' = g \<and> ks = replicate (length ks) 1"
      using Cons.IH [OF d] by blast
    show ?thesis
    proof (intro exI conjI impI)
      show "length (k # ks) = length (packet_handlers (endpoints pkt) (l # rest))" using ks(1) Some by simp
      show "list_all (\<lambda>k. 1 \<le> k \<and> k \<le> max_handler_retries (tuning E)) (k # ks)" using ks(2) k by simp
      show "r' = r\<lparr>trace := trace r @ delivery_calls pkt (k # ks) (packet_handlers (endpoints pkt) (l # rest))\<rparr>"
        using ks(3) k(3) Some by simp
      assume ok: "\<forall>h' tr. h' \<in> set (packet_handlers (endpoints pkt) (l # rest)) \<longrightarrow> respond w tr (PacketHandler h' pkt) = SEDS_OK"
      then have "k = 1" "rc = SEDS_OK" using first k(4) Some by simp_all
      moreover have "f' = g" "ks = replicate (length ks) 1" using ks(4) ok Some by simp_all
      ultimately show "f' = f" "k # ks = replicate (length (k # ks)) 1" by (simp_all add: g_def)
    qed
  qed
qed

lemma notify_handlers_calls:
  "notify_handlers w pkt ls r = r\<lparr>trace := trace r @ map (\<lambda>h. PacketHandler h pkt) (packet_handlers (endpoints pkt) ls)\<rparr>"
  by (induction ls arbitrary: r) (simp_all add: call_back_def split: option.split)

lemma serialized_handlers_calls:
  "dispatch_local_serialized_handlers w eps bs ls r =
     r\<lparr>trace := trace r @ map (\<lambda>h. SerializedHandler h bs) (serialized_handlers eps ls)\<rparr>"
  by (induction ls arbitrary: r) (simp_all add: call_back_def split: option.split)

text \<open>
  Every handler is tried. Local delivery calls each handler of a matching endpoint at least once
  and at most \<open>max_handler_retries\<close> times, in the order of registration and one after the
  other; only when it reports a failure do further calls follow, and those carry the error
  packet. When every handler accepts, each is called exactly once.
\<close>

theorem every_handler_tried:
  assumes "0 < max_handler_retries (tuning E)" "dispatch_local_packet_handlers E w pkt ls r = (rc, r')"
  shows "\<exists>ks errors. length ks = length (packet_handlers (endpoints pkt) ls) \<and>
    list_all (\<lambda>k. 1 \<le> k \<and> k \<le> max_handler_retries (tuning E)) ks \<and>
    r' = r\<lparr>trace := trace r @ delivery_calls pkt ks (packet_handlers (endpoints pkt) ls) @ errors\<rparr> \<and>
    (rc = SEDS_OK \<longrightarrow> errors = []) \<and>
    ((\<forall>h tr. h \<in> set (packet_handlers (endpoints pkt) ls) \<longrightarrow> respond w tr (PacketHandler h pkt) = SEDS_OK) \<longrightarrow>
       rc = SEDS_OK \<and> ks = replicate (length ks) 1)"
proof -
  obtain f r1 where d: "deliver_packet_handlers E w pkt ls ls no_failure r = (f, r1)" by fastforce
  obtain ks where ks: "length ks = length (packet_handlers (endpoints pkt) ls)"
    "list_all (\<lambda>k. 1 \<le> k \<and> k \<le> max_handler_retries (tuning E)) ks"
    "r1 = r\<lparr>trace := trace r @ delivery_calls pkt ks (packet_handlers (endpoints pkt) ls)\<rparr>"
    "(\<forall>h tr. h \<in> set (packet_handlers (endpoints pkt) ls) \<longrightarrow> respond w tr (PacketHandler h pkt) = SEDS_OK) \<longrightarrow>
       f = no_failure \<and> ks = replicate (length ks) 1"
    using deliver_packet_handlers_calls [OF assms(1) d] by blast
  define notify where "notify \<longleftrightarrow> had_failure f \<and> ty pkt \<noteq> SEDS_DT_TELEMETRY_ERROR \<and> error_endpoints f \<noteq> []"
  define err where "err = make_router_error_packet E (error_endpoints f) (local_handler_error_message E (failing_endpoint f) (failing_rc f))"
  define errors where "errors = (if notify then map (\<lambda>h. PacketHandler h err) (packet_handlers (endpoints err) ls) else [])"
  have "dispatch_local_packet_handlers E w pkt ls r =
      (if had_failure f then SEDS_HANDLER_ERROR else SEDS_OK, r1\<lparr>trace := trace r1 @ errors\<rparr>)"
    unfolding dispatch_local_packet_handlers_def d Let_def notify_handlers_calls errors_def
      notify_def err_def by simp
  with assms(2) have r': "rc = (if had_failure f then SEDS_HANDLER_ERROR else SEDS_OK)"
    and e: "r' = r1\<lparr>trace := trace r1 @ errors\<rparr>" by simp_all
  have "rc = SEDS_OK" if "f = no_failure" using r' that by (simp add: no_failure_def)
  moreover have "errors = []" if "rc = SEDS_OK" using r' that by (simp add: errors_def notify_def split: if_splits)
  moreover have "r' = r\<lparr>trace := trace r @ delivery_calls pkt ks (packet_handlers (endpoints pkt) ls) @ errors\<rparr>"
    by (simp add: e ks(3))
  ultimately show ?thesis using ks(1,2,4) by blast
qed

definition sample_locals :: "local_endpoint list" where
  "sample_locals =
     [\<lparr>le_endpoint = 1, packet_handler = Some 7, serialized_handler = Some 8\<rparr>,
      \<lparr>le_endpoint = 3, packet_handler = Some 9, serialized_handler = None\<rparr>,
      \<lparr>le_endpoint = 1, packet_handler = Some 10, serialized_handler = None\<rparr>]"

lemma sample_handlers [simp]:
  "packet_handlers (endpoints command_packet) sample_locals = [7, 10]"
  "serialized_handlers (endpoints command_packet) sample_locals = [8]"
  by (simp_all add: sample_locals_def command_packet_def)

lemma sample_retries [simp]: "0 < max_handler_retries (tuning sample_env)"
  by (simp add: sample_env_def default_tuning_def)

theorem every_handler_tried_witness:
  "\<exists>ks errors. length ks = 2 \<and> list_all (\<lambda>k. 1 \<le> k \<and> k \<le> max_handler_retries (tuning sample_env)) ks \<and>
     trace (snd (dispatch_local_packet_handlers sample_env refusing_world command_packet sample_locals sample_owner)) =
       delivery_calls command_packet ks [7, 10] @ errors"
proof -
  obtain rc r' where r': "dispatch_local_packet_handlers sample_env refusing_world command_packet sample_locals sample_owner = (rc, r')"
    by fastforce
  obtain ks errors where "length ks = length (packet_handlers (endpoints command_packet) sample_locals)"
    "list_all (\<lambda>k. 1 \<le> k \<and> k \<le> max_handler_retries (tuning sample_env)) ks"
    "r' = sample_owner\<lparr>trace := trace sample_owner @
       delivery_calls command_packet ks (packet_handlers (endpoints command_packet) sample_locals) @ errors\<rparr>"
    using every_handler_tried [OF sample_retries r'] by blast
  moreover have "trace sample_owner = []" by (simp add: sample_owner_def)
  ultimately show ?thesis unfolding r' by (intro exI [of _ ks] exI [of _ errors]) simp
qed

section \<open>Duplicates\<close>

lemma queue_end_to_end_ack_tx_only:
  assumes "queue_end_to_end_ack E w pkt src r = Some r'"
  shows "r'\<lparr>tx_queue := tx_queue r, tx_queue_bytes := tx_queue_bytes r\<rparr> = r"
  using assms by (auto simp: queue_end_to_end_ack_def bind_eq_Some_conv Let_def push_tx_front_def set_tx_def)

text \<open>
  (C13) A packet is delivered once. When a packet arrives again, on whatever side, while the cache of
  recent identities still holds it, nothing is called and no state changes except the
  transmit queue, which may gain end-to-end acknowledgements.
\<close>

theorem duplicate_not_redelivered:
  assumes "router_receive_impl E w pkt src r = Some r1" "router_receive_impl E w pkt src' r1 = Some r2"
  shows "r2\<lparr>tx_queue := tx_queue r1, tx_queue_bytes := tx_queue_bytes r1\<rparr> = r1"
proof -
  obtain pid where pid: "packet_id E pkt = Some pid"
    using assms(1) by (auto simp: router_receive_impl_def bind_eq_Some_conv)
  have seen: "pid \<in> set (recent_set r1)" by (rule router_receive_remembers [OF assms(1) pid])
  from assms(2) show ?thesis
  proof (cases rule: router_receive_cases)
    case (duplicate pid')
    then show ?thesis using queue_end_to_end_ack_tx_only by auto
  qed (use pid seen in auto)
qed

definition sample_station :: router where
  "sample_station = sample_router\<lparr>locals := sample_locals\<rparr>"

lemma sample_station_simps [simp]:
  "locals sample_station = sample_locals" "trace sample_station = []" "recent_set sample_station = []"
  "recent_ids sample_station = []" "memory sample_station = default_runtime_memory_config"
  "rx_queue sample_station = []" "reliable_rx sample_station = []" "reliable_released_rx sample_station = []"
  "length (sides sample_station) = 2" "sides sample_station ! 0 = sample_side True"
  by (simp_all add: sample_station_def sample_router_def sample_owner_def owner.defs router.defs)

section \<open>Delivery of an ordinary packet\<close>

text \<open>Packets that are none of the library's own.\<close>

definition ordinary :: "env \<Rightarrow> packet \<Rightarrow> bool" where
  "ordinary E pkt \<longleftrightarrow>
     \<not> is_internal_control_type (ty pkt) \<and> ty pkt \<noteq> managed_request_type E \<and> ty pkt \<noteq> p2p_type_id E \<and>
     \<not> is_discovery_control_type (ty pkt) \<and> ty pkt \<noteq> SEDS_DT_TIME_SYNC_ANNOUNCE \<and>
     ty pkt \<noteq> SEDS_DT_TIME_SYNC_REQUEST \<and> ty pkt \<noteq> SEDS_DT_TIME_SYNC_RESPONSE"

definition named_endpoints :: "env \<Rightarrow> u32 list \<Rightarrow> bool" where
  "named_endpoints E eps \<longleftrightarrow> list_all (\<lambda>ep. endpoint_text E ep \<noteq> None) eps"

lemma packet_id_with_named:
  assumes "named_endpoints E eps"
  shows "packet_id_with_endpoints E pkt eps \<noteq> None"
proof -
  have "hash_endpoints E h eps \<noteq> None" for h
    using assms unfolding named_endpoints_def by (induction eps arbitrary: h) auto
  then show ?thesis by (simp add: packet_id_with_endpoints_def Let_def bind_eq_None_conv del: not_None_eq)
qed

lemma packet_id_named:
  assumes "named_endpoints E (endpoints pkt)"
  shows "packet_id E pkt \<noteq> None" "source_packet_id E pkt \<noteq> None"
proof -
  have "named_endpoints E (source_endpoints E pkt)"
    using assms by (auto simp: named_endpoints_def list_all_iff source_endpoints_def)
  with assms show "packet_id E pkt \<noteq> None" "source_packet_id E pkt \<noteq> None"
    using packet_id_with_named by (simp_all add: packet_id_def source_packet_id_def)
qed

text \<open>The part of a router that delivery leaves alone.\<close>

definition link_state :: "router \<Rightarrow> (u64, reliable_rx_state) amap \<times> rx_item list \<times> rx_item list" where
  "link_state r = (reliable_rx r, reliable_released_rx r, rx_queue r)"

lemma push_frames [simp]:
  "trace (push_tx i r) = trace r" "trace (push_tx_front i r) = trace r"
  "reliable_rx (push_tx i r) = reliable_rx r" "reliable_rx (push_tx_front i r) = reliable_rx r"
  "reliable_released_rx (push_tx i r) = reliable_released_rx r"
  "reliable_released_rx (push_tx_front i r) = reliable_released_rx r"
  "rx_queue (push_tx i r) = rx_queue r" "rx_queue (push_tx_front i r) = rx_queue r"
  by (simp_all add: push_tx_def push_tx_front_def set_tx_def)

lemma link_state_push [simp]: "link_state (push_tx i r) = link_state r" "link_state (push_tx_front i r) = link_state r"
  by (simp_all add: link_state_def)

lemma end_to_end_ack_queued:
  assumes "named_endpoints E (endpoints pkt)"
  obtains r' where "queue_end_to_end_ack E w pkt src r = Some r'" "trace r' = trace r" "link_state r' = link_state r"
    "mode r' = mode r"
proof -
  obtain pid source_id where ids: "packet_id E pkt = Some pid" "source_packet_id E pkt = Some source_id"
    using packet_id_named [OF assms] by auto
  have m: "mode (push_tx_front i x) = mode x" for i and x :: router by (simp add: push_tx_front_def set_tx_def)
  show thesis using that ids m by (auto simp: queue_end_to_end_ack_def Let_def)
qed

lemma remember_managed_calls:
  obtains cbs where "trace (remember_managed_variable_packet E w pkt r) = trace r @ map (\<lambda>f. ManagedCallback f pkt) cbs"
    "link_state (remember_managed_variable_packet E w pkt r) = link_state r"
proof -
  define r1 where "r1 = store_managed E w pkt r"
  have r1: "trace r1 = trace r" "link_state r1 = link_state r" by (simp_all add: r1_def store_managed_def link_state_def)
  have "\<exists>cbs. trace (invoke_managed_callback w pkt r1) = trace r @ map (\<lambda>f. ManagedCallback f pkt) cbs"
    using r1 by (auto simp: invoke_managed_callback_def call_back_def split: option.split
        intro: exI [of _ "[]"] exI [of _ "[x]" for x])
  moreover have "link_state (invoke_managed_callback w pkt r1) = link_state r"
    using r1 by (simp add: invoke_managed_callback_def call_back_def link_state_def split: option.split)
  moreover have "remember_managed_variable_packet E w pkt r = r \<or>
      remember_managed_variable_packet E w pkt r = invoke_managed_callback w pkt r1"
    by (simp add: remember_managed_variable_packet_def r1_def split: option.split)
  ultimately show thesis using that [of "[]"] that by auto
qed

definition accepted :: "world \<Rightarrow> packet \<Rightarrow> fn list \<Rightarrow> bool" where
  "accepted w pkt hs \<longleftrightarrow> (\<forall>h tr. h \<in> set hs \<longrightarrow> respond w tr (PacketHandler h pkt) = SEDS_OK)"

lemma dispatch_accepted:
  assumes "0 < max_handler_retries (tuning E)" "accepted w pkt (packet_handlers (endpoints pkt) ls)"
  shows "dispatch_local_packet_handlers E w pkt ls r =
    (SEDS_OK, r\<lparr>trace := trace r @ map (\<lambda>h. PacketHandler h pkt) (packet_handlers (endpoints pkt) ls)\<rparr>)"
proof -
  obtain f r1 where d: "deliver_packet_handlers E w pkt ls ls no_failure r = (f, r1)" by fastforce
  obtain ks where "length ks = length (packet_handlers (endpoints pkt) ls)" "ks = replicate (length ks) 1" "f = no_failure"
    "r1 = r\<lparr>trace := trace r @ delivery_calls pkt ks (packet_handlers (endpoints pkt) ls)\<rparr>"
    using deliver_packet_handlers_calls [OF assms(1) d] assms(2) unfolding accepted_def by blast
  then have "f = no_failure" "r1 = r\<lparr>trace := trace r @ map (\<lambda>h. PacketHandler h pkt) (packet_handlers (endpoints pkt) ls)\<rparr>"
    using delivery_calls_once by metis+
  then show ?thesis unfolding dispatch_local_packet_handlers_def d by (simp add: no_failure_def)
qed

lemma receive_fresh_ordinary:
  assumes "ordinary E pkt" "named_endpoints E (endpoints pkt)" "0 < max_handler_retries (tuning E)"
    and "accepted w pkt (packet_handlers (endpoints pkt) (locals r))"
  obtains r' cbs where "receive_fresh E w pkt src r = Some r'" "link_state r' = link_state r"
    "trace r' = trace r @ map (\<lambda>h. PacketHandler h pkt) (packet_handlers (endpoints pkt) (locals r)) @
       map (\<lambda>f. ManagedCallback f pkt) cbs"
proof -
  have m: "handle_managed_variable_request E pkt src r = (False, r)"
    using assms(1) by (simp add: handle_managed_variable_request_def ordinary_def)
  define r2 where "r2 = r\<lparr>trace := trace r @ map (\<lambda>h. PacketHandler h pkt) (packet_handlers (endpoints pkt) (locals r))\<rparr>"
  have d: "dispatch_local_packet_handlers E w pkt (locals r) r = (SEDS_OK, r2)"
    unfolding r2_def by (rule dispatch_accepted [OF assms(3,4)])
  define r3 where "r3 = remember_managed_variable_packet E w pkt r2"
  obtain cbs where r3: "trace r3 = trace r2 @ map (\<lambda>f. ManagedCallback f pkt) cbs" "link_state r3 = link_state r2"
    using remember_managed_calls [of E w pkt r2] by (auto simp: r3_def)
  obtain r4 where r4: "(if src \<noteq> None \<and> has_local_handler pkt r \<and> is_reliable_type E (ty pkt)
      then queue_end_to_end_ack E w pkt src r3 else Some r3) = Some r4" "trace r4 = trace r3" "link_state r4 = link_state r3"
  proof (cases "src \<noteq> None \<and> has_local_handler pkt r \<and> is_reliable_type E (ty pkt)")
    case True
    from end_to_end_ack_queued [OF assms(2)] obtain r4 where "queue_end_to_end_ack E w pkt src r3 = Some r4"
      "trace r4 = trace r3" "link_state r4 = link_state r3" by blast
    then show thesis using True by (intro that [of r4]) simp_all
  next
    case False
    show thesis by (rule that [of r3]) (simp_all only: False if_False)
  qed
  have "link_state r2 = link_state r" by (simp add: r2_def link_state_def)
  moreover define r5 where "r5 = (if src \<noteq> None \<and> mode r4 = Seds_RM_Relay
      then push_tx \<lparr>tx_pkt = pkt, tx_src_side = src, tx_dst_side = None, deliver_local = False\<rparr> r4 else r4)"
  ultimately have "link_state r5 = link_state r" "trace r5 = trace r2 @ map (\<lambda>f. ManagedCallback f pkt) cbs"
    using r3 r4(2,3) by simp_all
  moreover have "receive_fresh E w pkt src r = Some r5"
    using assms(1) unfolding ordinary_def
    by (simp only: receive_fresh_def Let_def m d prod.case r3_def [symmetric] r4(1) Option.bind.simps r5_def [symmetric]
        if_False simp_thms)
  ultimately show thesis using that [of r5 cbs] by (simp add: r2_def)
qed

lemma note_return_routes_frame:
  assumes "named_endpoints E (endpoints pkt)"
  obtains r' where "note_return_routes E pkt src pid r = Some r'" "link_state r' = link_state r" "trace r' = trace r"
    "locals r' = locals r"
proof -
  obtain source_id where "source_packet_id E pkt = Some source_id" using packet_id_named(2) [OF assms] by auto
  then have "\<exists>r'. note_return_routes E pkt src pid r = Some r' \<and> link_state r' = link_state r \<and> trace r' = trace r \<and>
      locals r' = locals r"
    by (simp add: note_return_routes_def note_reliable_return_route_def Let_def case_prod_unfold link_state_def
        split: option.split)
  then show thesis using that by blast
qed

lemma receive_ordinary:
  assumes "ordinary E pkt" "named_endpoints E (endpoints pkt)" "0 < max_handler_retries (tuning E)"
    and "accepted w pkt (packet_handlers (endpoints pkt) (locals r))"
    and "max_recent_rx_ids (memory r) \<noteq> 0" "the (packet_id E pkt) \<notin> set (recent_set r)"
  obtains r' cbs where "router_receive_impl E w pkt src r = Some r'" "link_state r' = link_state r"
    "trace r' = trace r @ map (\<lambda>h. PacketHandler h pkt) (packet_handlers (endpoints pkt) (locals r)) @
       map (\<lambda>f. ManagedCallback f pkt) cbs"
proof -
  obtain pid where pid: "packet_id E pkt = Some pid" using packet_id_named(1) [OF assms(2)] by auto
  have "push_recent (max_recent_rx_ids (memory r)) (recent_ids r, recent_set r) pid \<noteq> None"
    using assms(5) by (simp add: push_recent_def split: list.split)
  then obtain ids st where
    push: "push_recent (max_recent_rx_ids (memory r)) (recent_ids r, recent_set r) pid = Some (ids, st)" by auto
  obtain r1 where r1: "note_return_routes E pkt src pid (r\<lparr>recent_ids := ids, recent_set := st\<rparr>) = Some r1"
    "link_state r1 = link_state r" "trace r1 = trace r" "locals r1 = locals r"
    using note_return_routes_frame [OF assms(2), of src pid "r\<lparr>recent_ids := ids, recent_set := st\<rparr>"]
    by (auto simp: link_state_def)
  obtain r' cbs where "receive_fresh E w pkt src r1 = Some r'" "link_state r' = link_state r1"
    "trace r' = trace r1 @ map (\<lambda>h. PacketHandler h pkt) (packet_handlers (endpoints pkt) (locals r1)) @
       map (\<lambda>f. ManagedCallback f pkt) cbs"
    using receive_fresh_ordinary [OF assms(1-3), of w r1 src] assms(4) r1(4) by auto
  then show thesis using that pid push r1 assms(6) by (simp add: router_receive_impl_def)
qed

text \<open>
  A fresh packet reaches its handlers. An ordinary packet whose identity is not in the cache of
  recent ones is accepted, and every handler of a matching endpoint is called with it exactly
  once and in order, followed only by the update callback of a managed variable.
\<close>

theorem fresh_packet_delivered:
  assumes "ordinary E pkt" "named_endpoints E (endpoints pkt)" "0 < max_handler_retries (tuning E)"
    and "accepted w pkt (packet_handlers (endpoints pkt) (locals r))"
    and "max_recent_rx_ids (memory r) \<noteq> 0" "the (packet_id E pkt) \<notin> set (recent_set r)"
  shows "\<exists>r' cbs. router_receive_impl E w pkt src r = Some r' \<and>
    trace r' = trace r @ map (\<lambda>h. PacketHandler h pkt) (packet_handlers (endpoints pkt) (locals r)) @
      map (\<lambda>f. ManagedCallback f pkt) cbs"
  using receive_ordinary [OF assms] by metis

lemma command_ordinary:
  "ordinary sample_env command_packet" "named_endpoints sample_env (endpoints command_packet)"
  "accepted sample_world pkt hs"
  by (simp_all add: ordinary_def named_endpoints_def endpoint_text_def command_packet_def accepted_def sample_world_def
      managed_request_type_def p2p_type_id_def is_internal_control_type_def is_discovery_control_type_def
      local_type_id_def type_by_name_def v4_type_names_def sample_defs type_at_def)


lemma station_fresh: "max_recent_rx_ids (memory sample_station) \<noteq> 0" "pid \<notin> set (recent_set sample_station)"
  by (simp_all add: default_runtime_memory_config_def)

theorem fresh_packet_delivered_witness:
  "\<exists>r' cbs. router_receive_impl sample_env sample_world command_packet (Some 0) sample_station = Some r' \<and>
     trace r' = [PacketHandler 7 command_packet, PacketHandler 10 command_packet] @
       map (\<lambda>f. ManagedCallback f command_packet) cbs"
  using fresh_packet_delivered [OF command_ordinary(1,2) sample_retries command_ordinary(3) station_fresh, of "Some 0"] by simp

theorem duplicate_not_redelivered_witness:
  "\<exists>r1 r2. router_receive_impl sample_env sample_world command_packet (Some 0) sample_station = Some r1 \<and>
     router_receive_impl sample_env sample_world command_packet (Some 1) r1 = Some r2 \<and>
     trace r1 \<noteq> [] \<and> trace r2 = trace r1"
proof -
  obtain r1 cbs where r1: "router_receive_impl sample_env sample_world command_packet (Some 0) sample_station = Some r1"
    and t: "trace r1 = trace sample_station @ map (\<lambda>h. PacketHandler h command_packet)
      (packet_handlers (endpoints command_packet) (locals sample_station)) @ map (\<lambda>f. ManagedCallback f command_packet) cbs"
    using receive_ordinary [OF command_ordinary(1,2) sample_retries command_ordinary(3) station_fresh, of "Some 0"] by blast
  obtain pid where pid: "packet_id sample_env command_packet = Some pid" using packet_id_named(1) [OF command_ordinary(2)] by auto
  have seen: "pid \<in> set (recent_set r1)" by (rule router_receive_remembers [OF r1 pid])
  obtain r where "queue_end_to_end_ack sample_env sample_world command_packet (Some 1) r1 = Some r"
    using end_to_end_ack_queued [OF command_ordinary(2)] by blast
  then have "router_receive_impl sample_env sample_world command_packet (Some 1) r1 \<noteq> None"
    using pid seen by (simp add: router_receive_impl_def)
  then obtain r2 where r2: "router_receive_impl sample_env sample_world command_packet (Some 1) r1 = Some r2" by blast
  from duplicate_not_redelivered [OF r1 r2]
  have "trace (r2\<lparr>tx_queue := tx_queue r1, tx_queue_bytes := tx_queue_bytes r1\<rparr>) = trace r1" by (rule arg_cong)
  then show ?thesis using r1 r2 t by simp
qed

section \<open>Across a reliable link\<close>

lemma handlers_cong:
  assumes "set eps = set eps'"
  shows "packet_handlers eps ls = packet_handlers eps' ls" "serialized_handlers eps ls = serialized_handlers eps' ls"
  using assms by (simp_all add: packet_handlers_def serialized_handlers_def)

lemma queue_control_router_frame [frame_simps]:
  "locals (queue_reliable_control c E w from side_id t sq r) = locals r"
  "recent_set (queue_reliable_control c E w from side_id t sq r) = recent_set r"
  by (simp_all add: queue_reliable_control_def push_tx_front_def set_tx_def Let_def)

lemma ingress_frame:
  assumes "process_reliable_ingress_impl E w from side_id frame pkt wire r = (ok, r')"
  shows "trace r' = trace r \<and> locals r' = locals r \<and> memory r' = memory r \<and> recent_set r' = recent_set r \<and>
    rx_queue r' = rx_queue r"
  using assms
  by (auto simp: process_reliable_ingress_impl_def handle_ack_impl_def Let_def frame_simps queue_control_defs
      split: prod.splits option.splits if_splits)

lemma wire_image_simps [simp]:
  "ty (wire_image E pkt) = ty pkt" "set (endpoints (wire_image E pkt)) = set (endpoints pkt)"
  by (simp_all add: wire_image_def)

lemma wire_image_ordinary:
  "ordinary E pkt \<Longrightarrow> ordinary E (wire_image E pkt)"
  "named_endpoints E (endpoints pkt) \<Longrightarrow> named_endpoints E (endpoints (wire_image E pkt))"
  by (simp_all add: ordinary_def named_endpoints_def list_all_iff)

text \<open>A frame with the expected number passes the receiving side at once when nothing is buffered.\<close>

lemma expected_frame_passes:
  assumes "ordered_frame t sq frame" "rx_state side_id t r = \<lparr>expected_seq = sq, last_ack = la, buffered = []\<rparr>"
    and "reliable_released_rx r = []"
  obtains r' where "process_reliable_ingress_impl E w from side_id frame pkt wire r = (True, r')"
    "rx_state side_id t r' = \<lparr>expected_seq = bump_seq sq, last_ack = sq, buffered = []\<rparr>" "reliable_released_rx r' = []"
proof -
  obtain ok r' where i: "process_reliable_ingress_impl E w from side_id frame pkt wire r = (ok, r')" by fastforce
  have "release_buffered side_id \<lparr>expected_seq = n, last_ack = sq, buffered = []\<rparr> [] =
      (\<lparr>expected_seq = n, last_ack = sq, buffered = []\<rparr>, [])" for n
    by (simp add: release_buffered.simps)
  then have "(ok, rx_state side_id t r', reliable_released_rx r') =
      (True, \<lparr>expected_seq = bump_seq sq, last_ack = sq, buffered = []\<rparr>, [])"
    using ingress_ordered(1) [OF assms(1,3) i] assms(2) by (simp add: ingress_rx_def)
  then show thesis using that i by simp
qed

lemma drain_rx_empty: "rx_queue r = [] \<Longrightarrow> drain_rx E w r = Some (SEDS_OK, r)"
  by (simp add: drain_rx.simps pop_rx_def pop_queue_def owner_rx_def)

lemma shown_ordinary: "ordinary E pkt \<Longrightarrow> shown_serialized (ty pkt)"
  by (simp add: ordinary_def shown_serialized_def is_internal_control_type_def)

lemma reliable_frame_read:
  assumes "wire_ok E pkt" "zstd_inverts E" "ti_reliable_mode (type_at E (ty pkt)) = Ordered"
    and "\<not> is_reliable_control_type E (ty pkt)"
  obtains frame where "peek_frame_info E (reliable_frame E pkt sq) True = Some (Some frame)" "ordered_frame (ty pkt) sq frame"
    "\<not> ack_only frame" "env_ty (envelope frame) = ty pkt" "set (env_endpoints (envelope frame)) = set (endpoints pkt)"
    "deserialize_packet E (reliable_frame E pkt sq) = Some (Some (wire_image E pkt))"
proof -
  define h where "h = \<lparr>rh_flags = (0 :: u8), seq = sq, ack = (0 :: u32)\<rparr>"
  have bs: "reliable_frame E pkt sq = serialize_packet_with_reliable E pkt h" using assms(3) by (simp add: reliable_frame_def h_def)
  have h: "data_header h" by (simp add: data_header_def h_def)
  have "has_v4_reliable_header E (ty pkt)"
    using assms by (simp add: has_v4_reliable_header_def ti_reliable_def wire_ok_def)
  then show thesis
    using that peek_serialize_with_reliable [OF assms(1) h, of True] deserialize_serialize_with_reliable [OF assms(1,2) h]
    by (simp add: bs ordered_frame_def ack_only_def h_def)
qed

text \<open>
  A packet crosses a reliable link. What a node sends on a reliable side for an ordered type is
  a frame that the router at the other end, when it expects that number, accepts: it shows the
  frame to the handlers of serialized data and the decoded packet to the packet handlers of the
  same endpoints, each exactly once, returns success and expects the next number.
\<close>

theorem reliable_packet_crosses_link:
  assumes send: "reliable_side E s pkt f a" "\<not> side_tx_active a"
      "length (sent (tx_state s (ty pkt) a)) < reliable_max_pending (tuning E)"
      "send_serialized_with_reliable E wa s pkt a = (rc, a')"
    and type: "ti_reliable_mode (type_at E (ty pkt)) = Ordered" "\<not> is_reliable_control_type E (ty pkt)" "ordinary E pkt"
      "named_endpoints E (endpoints pkt)" "wire_ok E pkt" "zstd_inverts E" "0 < max_handler_retries (tuning E)"
    and recv: "ingress_side j b" "reliable_released_rx b = []" "rx_queue b = []" "max_recent_rx_ids (memory b) \<noteq> 0"
      "rx_state (sint j) (ty pkt) b = \<lparr>expected_seq = next_seq (tx_state s (ty pkt) a), last_ack = la, buffered = []\<rparr>"
      "the (packet_id E (wire_image E pkt)) \<notin> set (recent_set b)"
      "accepted wb (wire_image E pkt) (packet_handlers (endpoints pkt) (locals b))"
  shows "\<exists>bs b' cbs. last (trace a') = SerializedTx f bs \<and>
    seds_router_receive_serialized_from_side E wb j bs b = Some (SEDS_OK, b') \<and>
    trace b' = trace b @ map (\<lambda>h. SerializedHandler h bs) (serialized_handlers (endpoints pkt) (locals b)) @
      map (\<lambda>h. PacketHandler h (wire_image E pkt)) (packet_handlers (endpoints pkt) (locals b)) @
      map (\<lambda>g. ManagedCallback g (wire_image E pkt)) cbs \<and>
    expected_seq (rx_state (sint j) (ty pkt) b') = bump_seq (next_seq (tx_state s (ty pkt) a))"
proof -
  define sq where "sq = next_seq (tx_state s (ty pkt) a)"
  define bs where "bs = reliable_frame E pkt sq"
  obtain frame where fr: "peek_frame_info E bs True = Some (Some frame)" "ordered_frame (ty pkt) sq frame"
    "\<not> ack_only frame" "env_ty (envelope frame) = ty pkt" "set (env_endpoints (envelope frame)) = set (endpoints pkt)"
    "deserialize_packet E bs = Some (Some (wire_image E pkt))"
    using reliable_frame_read [OF type(5,6,1,2)] unfolding bs_def by blast
  obtain b1 where b1: "process_reliable_ingress_impl E wb (r_sender b) (sint j) frame (wire_image E pkt) bs b = (True, b1)"
    "rx_state (sint j) (ty pkt) b1 = \<lparr>expected_seq = bump_seq sq, last_ack = sq, buffered = []\<rparr>" "reliable_released_rx b1 = []"
    using expected_frame_passes [OF fr(2) recv(5) [folded sq_def] recv(2)] by blast
  note keep = ingress_frame [OF b1(1)]
  define b2 where "b2 = show_serialized wb frame bs b1"
  have b2: "b2 = b1\<lparr>trace := trace b @ map (\<lambda>h. SerializedHandler h bs) (serialized_handlers (endpoints pkt) (locals b))\<rparr>"
    using keep shown_ordinary [OF type(3)] handlers_cong(2) [OF fr(5)]
    by (simp add: b2_def show_serialized_def fr(4) serialized_handlers_calls)
  note hs = handlers_cong(1) [OF wire_image_simps(2) [of E pkt], of "locals b"]
  obtain b3 cbs where b3: "router_receive_impl E wb (wire_image E pkt) (Some (sint j)) b2 = Some b3" "link_state b3 = link_state b2"
    "trace b3 = trace b2 @ map (\<lambda>h. PacketHandler h (wire_image E pkt)) (packet_handlers (endpoints (wire_image E pkt)) (locals b2)) @
       map (\<lambda>g. ManagedCallback g (wire_image E pkt)) cbs"
    by (rule receive_ordinary [OF wire_image_ordinary(1) [OF type(3)] wire_image_ordinary(2) [OF type(4)] type(7),
          where w = wb and r = b2 and src = "Some (sint j)"])
      (use keep recv hs in \<open>simp_all add: b2\<close>)
  have out: "rx_queue b3 = []" "reliable_released_rx b3 = []" "reliable_rx b3 = reliable_rx b1"
    using b3(2) keep recv(3) b1(3) by (simp_all add: link_state_def b2)
  have "seds_router_receive_serialized_from_side E wb j bs b = Some (SEDS_OK, b3\<lparr>reliable_released_rx := []\<rparr>)"
    using fr(1,3,6) recv(1) b1(1) b3(1) out drain_rx_empty [of "b3\<lparr>reliable_released_rx := []\<rparr>" E wb]
    by (simp add: seds_router_receive_serialized_from_side_def accept_frame_def process_reliable_ingress_def b2_def
        enqueue_released_def seds_router_process_rx_queue_def)
  moreover have "last (trace a') = SerializedTx f bs"
    using send_reliable_cases [OF send] by (simp add: bs_def sq_def)
  moreover have "rx_state (sint j) (ty pkt) (b3\<lparr>reliable_released_rx := []\<rparr>) = rx_state (sint j) (ty pkt) b1"
    using out(3) by (simp add: rx_state_def)
  ultimately show ?thesis using b3(3) b1(2) hs keep by (auto simp: b2 sq_def)
qed

theorem reliable_packet_crosses_link_witness:
  "\<exists>bs b' cbs. last (trace (snd (send_serialized_with_reliable sample_env sample_world 0 command_packet sample_owner))) =
      SerializedTx 1 bs \<and>
    seds_router_receive_serialized_from_side sample_env sample_world 0 bs sample_station = Some (SEDS_OK, b') \<and>
    trace b' = SerializedHandler 8 bs # map (\<lambda>h. PacketHandler h (wire_image sample_env command_packet)) [7, 10] @
      map (\<lambda>g. ManagedCallback g (wire_image sample_env command_packet)) cbs"
proof -
  obtain rc a' where a': "send_serialized_with_reliable sample_env sample_world 0 command_packet sample_owner = (rc, a')" by fastforce
  have t: "ty command_packet = COMMAND" by (simp add: command_packet_def)
  have pending: "0 < reliable_max_pending (tuning sample_env)" by (simp add: sample_env_def default_tuning_def)
  have send: "reliable_side sample_env 0 command_packet 1 sample_owner" "\<not> side_tx_active sample_owner"
    "length (sent (tx_state 0 (ty command_packet) sample_owner)) < reliable_max_pending (tuning sample_env)"
    "next_seq (tx_state 0 (ty command_packet) sample_owner) = 1"
    by (simp_all add: reliable_side_def sample_owner_def sample_side_def t is_reliable_type_def ti_reliable_def sample_type_at
        tx_state_def default_tx_state_def mget_def pending)
  have type: "ti_reliable_mode (type_at sample_env (ty command_packet)) = Ordered"
    "\<not> is_reliable_control_type sample_env (ty command_packet)"
    by (simp_all add: t sample_type_at is_reliable_control_type_def)
  have recv: "ingress_side 0 sample_station" "reliable_released_rx sample_station = []" "rx_queue sample_station = []"
    "rx_state (sint (0 :: u32)) (ty command_packet) sample_station =
       \<lparr>expected_seq = next_seq (tx_state 0 (ty command_packet) sample_owner), last_ack = 0, buffered = []\<rparr>"
    by (simp_all add: ingress_side_def sample_side_def rx_state_def default_rx_state_def mget_def send(4))
  show ?thesis unfolding a'
    using reliable_packet_crosses_link [OF send(1-3) a' type command_ordinary(1,2) wire_ok_samples(2) zstd_inverts_sample
        sample_retries recv(1-3) station_fresh(1) recv(4) station_fresh(2) command_ordinary(3)]
    by auto
qed

end
