(* ===== verification/Relay_Facts.thy ===== *)
theory Relay_Facts
  imports Delivery
begin

text \<open>
  What a relay does with the packets it is given: it forwards only on enabled sides and never
  back to the side a packet came from, its loop over both queues ends with both empty, and an
  unnumbered frame repeated on a side is dropped.
\<close>

section \<open>Calls of sides\<close>

definition side_call :: "side list \<Rightarrow> packet \<Rightarrow> i32 \<Rightarrow> event \<Rightarrow> bool" where
  "side_call ss pkt s ev =
     (case ev of
        SerializedTx f _ \<Rightarrow> serialized_tx (ss ! nat s) = Some f
      | PacketTx f p \<Rightarrow> serialized_tx (ss ! nat s) = None \<and> packet_tx (ss ! nat s) = Some f \<and> p = pkt
      | _ \<Rightarrow> False)"

lemma call_serialized_tx_trace:
  obtains evs where "trace (snd (call_serialized_tx w f bs r)) = trace r @ evs" "evs = [] \<or> evs = [SerializedTx f bs]"
  by (cases "side_tx_active r") (auto simp: call_serialized_tx_def call_back_def)

lemma send_serialized_trace:
  assumes "send_serialized_with_reliable E w s pkt r = (rc, r')"
  obtains evs where "trace r' = trace r @ evs" "evs = [] \<or> (\<exists>ev. evs = [ev] \<and> side_call (sides r) pkt s ev)"
proof (cases "serialized_tx (sides r ! nat s)")
  case None
  then show thesis using assms that [of "[]"] by (simp add: send_serialized_with_reliable_def)
next
  case (Some f)
  have ev: "side_call (sides r) pkt s (SerializedTx f bs)" for bs by (simp add: side_call_def Some)
  have call: "\<exists>evs. trace (snd (call_serialized_tx w f bs x)) = trace x @ evs \<and>
      (evs = [] \<or> (\<exists>ev. evs = [ev] \<and> side_call (sides r) pkt s ev))" for bs and x :: "'a owner_scheme"
    using call_serialized_tx_trace [of w f bs x] ev by metis
  have "\<exists>evs. trace r' = trace r @ evs \<and> (evs = [] \<or> (\<exists>ev. evs = [ev] \<and> side_call (sides r) pkt s ev))"
  proof (cases "\<not> reliable_enabled (sides r ! nat s) \<or> \<not> is_reliable_type E (ty pkt)")
    case True
    then show ?thesis using assms Some call [of "serialize_packet E pkt" r]
      by (simp add: send_serialized_with_reliable_def)
  next
    case False
    define tx where "tx = mget default_tx_state (reliable_tx r) (reliable_key s (ty pkt))"
    show ?thesis
    proof (cases "reliable_max_pending (tuning E) \<le> length (sent tx)")
      case True
      then show ?thesis using assms Some False by (auto simp: send_serialized_with_reliable_def tx_def Let_def)
    next
      case room: False
      define x where "x = r\<lparr>reliable_tx := mput (reliable_key s (ty pkt)) (tx\<lparr>next_seq := bump_seq (next_seq tx)\<rparr>) (reliable_tx r)\<rparr>"
      have "trace r' = trace (snd (call_serialized_tx w f (reliable_frame E pkt (next_seq tx)) x))"
        using assms Some False room
        by (auto simp: send_serialized_with_reliable_def tx_def [symmetric] x_def [symmetric] Let_def case_prod_unfold split: if_splits)
      moreover have "trace x = trace r" by (simp add: x_def)
      ultimately show ?thesis using call [of _ x] by simp
    qed
  qed
  then show thesis using that by blast
qed

text \<open>At most one call for every target, in the order of the targets, and only on enabled sides.\<close>

definition calls_on :: "side list \<Rightarrow> packet \<Rightarrow> i32 list \<Rightarrow> event list \<Rightarrow> bool" where
  "calls_on ss pkt ts evs \<longleftrightarrow>
     (\<exists>us. subseq us ts \<and> list_all (\<lambda>s. in_range s ss \<and> egress_enabled (ss ! nat s)) us \<and>
       list_all2 (side_call ss pkt) us evs)"

lemma calls_on_Nil [simp]: "calls_on ss pkt ts []"
  by (auto simp: calls_on_def intro: exI [of _ "[]"])

lemma calls_on_skip: "calls_on ss pkt ts evs \<Longrightarrow> calls_on ss pkt (t # ts) evs"
  unfolding calls_on_def by (meson list_emb_Cons)

lemma calls_on_call:
  assumes "calls_on ss pkt ts evs" "in_range t ss" "egress_enabled (ss ! nat t)" "side_call ss pkt t ev"
  shows "calls_on ss pkt (t # ts) (ev # evs)"
proof -
  obtain us where "subseq us ts" "list_all (\<lambda>s. in_range s ss \<and> egress_enabled (ss ! nat s)) us"
    "list_all2 (side_call ss pkt) us evs" using assms(1) by (auto simp: calls_on_def)
  then show ?thesis using assms(2-4) unfolding calls_on_def by (intro exI [of _ "t # us"]) simp
qed

lemma calls_on_step:
  assumes "calls_on ss pkt ts evs" "in_range t ss" "egress_enabled (ss ! nat t)"
    and "es = [] \<or> (\<exists>ev. es = [ev] \<and> side_call ss pkt t ev)"
  shows "calls_on ss pkt (t # ts) (es @ evs)"
  using assms calls_on_skip calls_on_call by auto

lemma transmit_to_relay_trace:
  assumes "transmit_to_relay E w pkt ts r = (rc, r')"
  shows "\<exists>evs. trace r' = trace r @ evs \<and> calls_on (sides r) pkt ts evs"
  using assms
proof (induction ts arbitrary: r)
  case (Cons t ts)
  let ?s = "sides r ! nat t"
  consider (skip) "transmit_to_relay E w pkt ts r = (rc, r')"
    | (sent) es r1 where "in_range t (sides r)" "egress_enabled ?s" "trace r1 = trace r @ es" "sides r1 = sides r"
        "es = [] \<or> (\<exists>ev. es = [ev] \<and> side_call (sides r) pkt t ev)"
        "r' = r1 \<or> r' = r1\<lparr>side_tx_deferred := False\<rparr> \<or> transmit_to_relay E w pkt ts r1 = (rc, r')"
  proof (cases "\<not> in_range t (sides r) \<or> \<not> egress_enabled ?s \<or> serialized_tx ?s = None \<and> packet_tx ?s = None")
    case True
    then show thesis using Cons.prems skip by (auto simp: Let_def split: if_splits)
  next
    case False
    then have on: "in_range t (sides r)" "egress_enabled ?s" by simp_all
    show thesis
    proof (cases "serialized_tx ?s")
      case None
      then obtain f where f: "packet_tx ?s = Some f" using False by auto
      have "side_call (sides r) pkt t (PacketTx f pkt)" using None f by (simp add: side_call_def)
      then show thesis
        using Cons.prems on None f
        by (intro sent [of "r\<lparr>trace := trace r @ [PacketTx f pkt]\<rparr>" "[PacketTx f pkt]"])
          (auto simp: call_back_def Let_def split: if_splits)
    next
      case (Some f)
      obtain c r1 where s: "send_serialized_with_reliable E w t pkt r = (c, r1)" by fastforce
      obtain es where "trace r1 = trace r @ es" "es = [] \<or> (\<exists>ev. es = [ev] \<and> side_call (sides r) pkt t ev)"
        using send_serialized_trace [OF s] by blast
      moreover have "sides r1 = sides r" using send_serialized_untouched [of r E w t pkt] s by (simp add: untouched_def)
      ultimately show thesis
        using Cons.prems on Some by (intro sent [of r1 es]) (auto simp: s Let_def split: if_splits)
    qed
  qed
  then show ?case
  proof cases
    case skip
    then show ?thesis using Cons.IH calls_on_skip by blast
  next
    case (sent es r1)
    have stop: ?thesis if "trace r' = trace r1"
      using that sent(3) calls_on_step [OF calls_on_Nil sent(1,2,5)] by auto
    have go: ?thesis if tr: "transmit_to_relay E w pkt ts r1 = (rc, r')"
    proof -
      obtain evs where evs: "trace r' = trace r1 @ evs" "calls_on (sides r1) pkt ts evs" using Cons.IH [OF tr] by blast
      then have "calls_on (sides r) pkt (t # ts) (es @ evs)" using calls_on_step sent by metis
      then show ?thesis using evs(1) sent(3) by auto
    qed
    show ?thesis using sent(6) stop go by auto
  qed
qed simp

text \<open>
  (C14) A relay forwards safely. The calls made for an item without an explicit destination are calls
  of transmit functions of sides that exist, have egress enabled, are not the side the packet
  came from and are not disabled by a route override; each chosen target is called at most
  once, in the order chosen.
\<close>

theorem relay_never_echoes:
  assumes "transmit_item_relay E w item r = Some (rc, r')" "tx_dst_side item = None"
  shows "\<exists>us evs. trace r' = trace r @ evs \<and> list_all2 (side_call (sides r) (tx_pkt item)) us evs \<and>
    subseq us (fst (choose_targets E w None item r)) \<and>
    list_all (\<lambda>s. in_range s (sides r) \<and> egress_enabled (sides r ! nat s) \<and> tx_src_side item \<noteq> Some s \<and>
      map_of (route_overrides r) (case tx_src_side item of Some i \<Rightarrow> i | None \<Rightarrow> -1, s) \<noteq> Some False) us"
proof -
  obtain targets r1 where c: "choose_targets E w None item r = (targets, r1)" by fastforce
  obtain ts where ts: "filter_end_to_end_satisfied_sides E (tx_pkt item) targets r1 = Some ts"
    "transmit_to_relay E w (tx_pkt item) ts r1 = (rc, r')"
    using assms(1) by (auto simp: transmit_item_relay_def c bind_eq_Some_conv)
  have sub: "subseq ts targets"
    using ts(1) by (auto simp: filter_end_to_end_satisfied_sides_def bind_eq_Some_conv split: if_splits option.splits)
  have u: "trace r1 = trace r" "sides r1 = sides r"
    using c by (auto simp: choose_targets_def Let_def case_prod_unfold split: option.splits)
  obtain evs us where us: "trace r' = trace r1 @ evs" "subseq us ts" "list_all2 (side_call (sides r1) (tx_pkt item)) us evs"
    using transmit_to_relay_trace [OF ts(2)] by (auto simp: calls_on_def)
  have sub': "subseq us targets" by (rule subseq_order.trans [OF us(2) sub])
  then have "set us \<subseteq> set targets" by (auto elim: list_emb_set)
  then have "list_all (\<lambda>s. in_range s (sides r) \<and> egress_enabled (sides r ! nat s) \<and> tx_src_side item \<noteq> Some s \<and>
      map_of (route_overrides r) (case tx_src_side item of Some i \<Rightarrow> i | None \<Rightarrow> -1, s) \<noteq> Some False) us"
    unfolding list_all_iff using choose_targets_egress [OF _ assms(2), of _ E w None r] c by auto
  then show ?thesis using us u c sub' by auto
qed

definition sample_relay :: relay where
  "sample_relay = owner.extend sample_owner (relay.fields [] [])"

definition sample_item :: "packet \<Rightarrow> tx_item" where
  "sample_item pkt = \<lparr>tx_pkt = pkt, tx_src_side = Some 0, tx_dst_side = None, deliver_local = False\<rparr>"

lemma transmit_item_relay_named:
  assumes "named_endpoints E (endpoints (tx_pkt item))"
  obtains rc r' where "transmit_item_relay E w item r = Some (rc, r')"
proof -
  obtain targets r1 where c: "choose_targets E w None item r = (targets, r1)" by fastforce
  obtain pid where "packet_id E (tx_pkt item) = Some pid" using packet_id_named(1) [OF assms] by auto
  then have "filter_end_to_end_satisfied_sides E (tx_pkt item) targets r1 \<noteq> None"
    by (simp add: filter_end_to_end_satisfied_sides_def)
  then have "transmit_item_relay E w item r \<noteq> None" by (auto simp: transmit_item_relay_def c)
  then show thesis using that by auto
qed

theorem relay_never_echoes_witness:
  "\<exists>rc r' us evs. transmit_item_relay sample_env sample_world (sample_item command_packet) sample_relay = Some (rc, r') \<and>
     trace r' = trace sample_relay @ evs \<and> list_all2 (side_call (sides sample_relay) command_packet) us evs \<and> 0 \<notin> set us"
proof -
  have named: "named_endpoints sample_env (endpoints (tx_pkt (sample_item command_packet)))"
    using command_ordinary(2) by (simp add: sample_item_def)
  obtain rc r' where t: "transmit_item_relay sample_env sample_world (sample_item command_packet) sample_relay = Some (rc, r')"
    using transmit_item_relay_named [OF named] .
  have d: "tx_dst_side (sample_item command_packet) = None" by (simp add: sample_item_def)
  from relay_never_echoes [OF t d] show ?thesis using t by (auto simp: sample_item_def list_all_iff)
qed

section \<open>The loop over both queues\<close>

text \<open>No transmission is under way and none was put off.\<close>

definition idle :: "'a owner_scheme \<Rightarrow> bool" where
  "idle r \<longleftrightarrow> \<not> side_tx_active r \<and> \<not> side_tx_deferred r"

lemma idle_updates [simp]:
  "idle (r\<lparr>trace := t\<rparr>) = idle r" "idle (r\<lparr>reliable_tx := tx\<rparr>) = idle r" "idle (r\<lparr>source_policy := sp\<rparr>) = idle r"
  "idle (r\<lparr>local_policy := lp\<rparr>) = idle r" "idle (set_tx Q r) = idle r" "idle (set_rx P r) = idle r"
  "idle (push_tx i r) = idle r" "idle (push_tx_front i r) = idle r"
  "idle (r\<lparr>reliable_return_route_order := ro\<rparr>) = idle r" "idle (r\<lparr>reliable_return_routes := rr\<rparr>) = idle r"
  "idle (r\<lparr>discovery_routes := dr\<rparr>) = idle r" "idle (note_discovery_topology_change now r) = idle r"
  by (simp_all add: idle_def set_tx_def set_rx_def push_tx_def push_tx_front_def note_discovery_topology_change_def)

lemma idle_call_serialized: "idle r \<Longrightarrow> idle (snd (call_serialized_tx w f bs r))"
  by (simp add: call_serialized_tx_def call_back_def idle_def)

lemma idle_send_serialized: "idle r \<Longrightarrow> idle (snd (send_serialized_with_reliable E w s pkt r))"
  using idle_call_serialized [of r w] idle_call_serialized [of "r\<lparr>reliable_tx := tx\<rparr>" w for tx]
  by (auto simp: send_serialized_with_reliable_def Let_def case_prod_unfold split: option.splits)

lemma idle_choose_targets: "idle (snd (choose_targets E w preferred item r)) = idle r"
  by (simp add: choose_targets_def Let_def case_prod_unfold split: option.split)

lemma idle_transmit_to_relay:
  assumes "idle r" "transmit_to_relay E w pkt ts r = (rc, r')"
  shows "idle r' \<and> (rc = SEDS_OK \<or> rc = SEDS_HANDLER_ERROR)"
  using assms
proof (induction ts arbitrary: r)
  case (Cons t ts)
  obtain c r1 where s: "send_serialized_with_reliable E w t pkt r = (c, r1)" by fastforce
  have i1: "idle r1" using idle_send_serialized [OF Cons.prems(1), of E w t pkt] s by simp
  then have "\<not> side_tx_deferred r1" by (simp add: idle_def)
  moreover have "idle r' \<and> (rc = SEDS_OK \<or> rc = SEDS_HANDLER_ERROR)"
    if "transmit_to_relay E w pkt ts (r\<lparr>trace := tr\<rparr>) = (rc, r')" for tr
    using Cons.IH [OF _ that] Cons.prems(1) by simp
  ultimately show ?case using Cons.prems i1 Cons.IH
    by (auto simp: s Let_def call_back_def split: if_splits option.splits)
qed simp

lemma idle_transmit_item_relay:
  assumes "idle r" "transmit_item_relay E w item r = Some (rc, r')"
  shows "idle r' \<and> (rc = SEDS_OK \<or> rc = SEDS_HANDLER_ERROR)"
proof -
  obtain targets r1 ts where c: "choose_targets E w None item r = (targets, r1)" "transmit_to_relay E w (tx_pkt item) ts r1 = (rc, r')"
    using assms(2) by (auto simp: transmit_item_relay_def bind_eq_Some_conv split: prod.splits)
  then have "idle r1" using idle_choose_targets [of E w None item r] assms(1) by simp
  then show ?thesis by (rule idle_transmit_to_relay [OF _ c(2)])
qed

lemma idle_reliable_timeouts: "idle r \<Longrightarrow> idle (do_reliable_timeouts E w r)"
proof -
  have seq: "idle (snd (timeout_seq E w now f S sq))" if "idle (snd S)" for now f sq and S :: "reliable_tx_state \<times> 'a owner_scheme"
    using that idle_call_serialized [OF that, of w f] by (auto simp: timeout_seq_def Let_def case_prod_unfold split: option.splits)
  have seqs: "idle (snd (foldl (timeout_seq E w now f) S sqs))" if "idle (snd S)" for now f sqs and S :: "reliable_tx_state \<times> 'a owner_scheme"
    using that by (induction sqs arbitrary: S) (simp_all add: seq)
  have key: "idle (timeout_key E w now x key)" if "idle x" for now key and x :: "'a owner_scheme"
    using seqs that by (simp add: timeout_key_def Let_def case_prod_unfold split: option.split)
  have "idle (foldl (timeout_key E w now) x keys)" if "idle x" for now keys and x :: "'a owner_scheme"
    using that by (induction keys arbitrary: x) (simp_all add: key)
  then show "idle r \<Longrightarrow> idle (do_reliable_timeouts E w r)" by (simp add: do_reliable_timeouts_def)
qed

lemma idle_link_control: "idle r \<Longrightarrow> idle (handle_link_control E w pkt src r)"
  using idle_call_serialized [of r w]
  by (auto simp: handle_link_control_def handle_ack_impl_def handle_partial_ack_impl_def handle_packet_request_impl_def
      Let_def case_prod_unfold split: option.split)

lemma idle_discovery: "idle (handle_discovery_packet_relay E w pkt src r) = idle r"
  by (simp add: handle_discovery_packet_relay_def handle_discovery_impl_def Let_def case_prod_unfold split: option.split)

lemma idle_relay_updates [simp]:
  "idle (r\<lparr>end_to_end_acked_destinations := d\<rparr>) = idle r" "idle (r\<lparr>end_to_end_acked_destination_order := od\<rparr>) = idle r"
  for r :: relay
  by (simp_all add: idle_def)

lemma idle_relay_receive:
  assumes "relay_receive_impl E w pkt src r = Some r'" "idle r"
  shows "idle r'"
proof -
  obtain pid r1 where r1: "note_return_routes E pkt src pid r = Some r1" and r': "r' =
      (if is_internal_control_type (ty pkt) then
         (if is_end_to_end_ack pkt then relay_end_to_end_ack E pkt src r1 else handle_link_control E w pkt src r1)
       else push_tx \<lparr>tx_pkt = pkt, tx_src_side = src, tx_dst_side = None, deliver_local = False\<rparr>
         (if is_discovery_control_type (ty pkt) then handle_discovery_packet_relay E w pkt src r1 else r1))"
    using assms(1) by (auto simp: relay_receive_impl_def bind_eq_Some_conv Let_def)
  have i1: "idle r1" using r1 assms(2)
    by (auto simp: note_return_routes_def note_reliable_return_route_def Let_def case_prod_unfold bind_eq_Some_conv
        split: option.splits if_splits)
  have "idle (relay_end_to_end_ack E pkt src r1)"
    using i1 by (simp add: relay_end_to_end_ack_def note_end_to_end_acked_destination_def Let_def case_prod_unfold split: option.split)
  then show ?thesis using idle_link_control [OF i1] idle_discovery [of E w pkt src r1] i1 by (simp add: r')
qed

text \<open>Every packet in the queues has named endpoints; the relay queues only packets it received.\<close>

definition queues_named :: "env \<Rightarrow> relay \<Rightarrow> bool" where
  "queues_named E r \<longleftrightarrow>
     list_all (\<lambda>i. named_endpoints E (endpoints (rx_pkt i))) (rx_queue r) \<and>
     list_all (\<lambda>i. named_endpoints E (endpoints (tx_pkt i))) (tx_queue r)"

lemma push_tx_items: "set (tx_queue (push_tx item r)) \<subseteq> insert item (set (tx_queue r))"
proof -
  have "set (fst (evict c cost budget q b)) \<subseteq> set q" for c :: "tx_item \<Rightarrow> u64" and cost budget q b
    by (induction q arbitrary: b) auto
  from subsetD [OF this] show ?thesis
    by (auto simp: push_tx_def set_tx_def enqueue_tx_def enqueue_bounded_def owner_tx_def Let_def case_prod_unfold)
qed

lemma relay_receive_items:
  assumes "relay_receive_impl E w pkt src r = Some r'"
  shows "\<forall>i \<in> set (tx_queue r'). i \<in> set (tx_queue r) \<or> tx_pkt i = pkt"
proof -
  obtain pid r1 where r1: "note_return_routes E pkt src pid r = Some r1" and r': "r' =
      (if is_internal_control_type (ty pkt) then
         (if is_end_to_end_ack pkt then relay_end_to_end_ack E pkt src r1 else handle_link_control E w pkt src r1)
       else push_tx \<lparr>tx_pkt = pkt, tx_src_side = src, tx_dst_side = None, deliver_local = False\<rparr>
         (if is_discovery_control_type (ty pkt) then handle_discovery_packet_relay E w pkt src r1 else r1))"
    using assms by (auto simp: relay_receive_impl_def bind_eq_Some_conv Let_def)
  have q1: "tx_queue r1 = tx_queue r" using r1
    by (auto simp: note_return_routes_def note_reliable_return_route_def Let_def case_prod_unfold bind_eq_Some_conv
        split: option.splits if_splits)
  have push: "i \<in> set (tx_queue x) \<or> tx_pkt i = pkt" if "i \<in> set (tx_queue (push_tx it x))" "tx_pkt it = pkt" for i it and x :: relay
    using push_tx_items [of it x] that by auto
  have disc: "tx_queue (handle_discovery_packet_relay E w pkt src r1) = tx_queue r1"
    by (simp add: handle_discovery_packet_relay_def handle_discovery_impl_def note_discovery_topology_change_def Let_def
        case_prod_unfold split: option.split)
  define r2 where "r2 = (case decode_end_to_end_ack_sender_hash (sender pkt) of
    Some h \<Rightarrow> note_end_to_end_acked_destination E (from_le (payload pkt)) h r1 | None \<Rightarrow> r1)"
  have "tx_queue r2 = tx_queue r1"
    by (simp add: r2_def note_end_to_end_acked_destination_def Let_def case_prod_unfold split: option.split)
  moreover have "relay_end_to_end_ack E pkt src r1 =
      (case map_of (reliable_return_routes r2) (from_le (payload pkt)) of
         Some s \<Rightarrow> if src \<noteq> None then push_tx \<lparr>tx_pkt = pkt, tx_src_side = src, tx_dst_side = Some s, deliver_local = False\<rparr> r2
                   else r2
       | None \<Rightarrow> r2)"
    by (simp only: relay_end_to_end_ack_def Let_def r2_def)
  ultimately have ack: "i \<in> set (tx_queue r1) \<or> tx_pkt i = pkt" if "i \<in> set (tx_queue (relay_end_to_end_ack E pkt src r1))" for i
    using that push [of i _ r2] by (auto split: option.splits if_splits)
  show ?thesis
    using ack tx_queue_link_control [of E w pkt src r1] disc q1 by (auto simp: r' split: if_splits dest!: push)
qed

lemma relay_receive_named:
  assumes "named_endpoints E (endpoints pkt)"
  shows "relay_receive_impl E w pkt src r \<noteq> None"
proof -
  obtain pid source_id where ids: "packet_id E pkt = Some pid" "source_packet_id E pkt = Some source_id"
    using packet_id_named [OF assms] by auto
  then have "note_return_routes E pkt src pid r \<noteq> None"
    by (simp add: note_return_routes_def Let_def split: option.split)
  then show ?thesis using ids by (auto simp: relay_receive_impl_def)
qed

lemma relay_receive_next_ok:
  assumes "queues_named E r" "idle r"
  obtains r' where "relay_receive_next E w r = Some r'" "queues_named E r'" "idle r'"
proof (cases "rx_queue r")
  case Nil
  then show thesis using that [of r] assms by (simp add: relay_receive_next_def pop_rx_def pop_queue_def owner_rx_def)
next
  case (Cons item q)
  let ?r = "set_rx (q, rx_queue_bytes r - byte_cost_rx item) r"
  have n: "named_endpoints E (endpoints (rx_pkt item))" using assms(1) Cons by (simp add: queues_named_def)
  obtain r' where r': "relay_receive_impl E w (rx_pkt item) (rx_src_side item) ?r = Some r'"
    using relay_receive_named [OF n] by blast
  have "rx_queue r' = q" using relay_receive_frame [OF r'] by (simp add: kept_def owner_rx_def set_rx_def)
  then have "queues_named E r'"
    using relay_receive_items [OF r'] assms(1) Cons n by (auto simp: queues_named_def list_all_iff)
  moreover have "idle r'" using idle_relay_receive [OF r'] assms(2) by simp
  ultimately show thesis using that r' Cons by (simp add: relay_receive_next_def pop_rx_def pop_queue_def owner_rx_def)
qed

lemma relay_transmit_next_ok:
  assumes "queues_named E r" "idle r"
  obtains rc r' where "relay_transmit_next E w expired r = Some (rc, r')" "queues_named E r'" "idle r'"
    "rc = None \<or> rc = Some SEDS_HANDLER_ERROR"
proof (cases "expired \<or> tx_queue r = []")
  case True
  then show thesis using that [of None r] assms
    by (auto simp: relay_transmit_next_def pop_tx_def pop_queue_def owner_tx_def)
next
  case False
  then obtain item q where q: "tx_queue r = item # q" by (cases "tx_queue r") auto
  let ?r = "set_tx (q, tx_queue_bytes r - byte_cost_tx item) r"
  have n: "named_endpoints E (endpoints (tx_pkt item))" using assms(1) q by (simp add: queues_named_def)
  obtain rc r' where r': "transmit_item_relay E w item ?r = Some (rc, r')" using transmit_item_relay_named [OF n] .
  have i: "idle r'" "rc = SEDS_OK \<or> rc = SEDS_HANDLER_ERROR" using idle_transmit_item_relay [OF _ r'] assms(2) by simp_all
  have "tx_queue r' = q" "rx_queue r' = rx_queue r"
    using untouched_D [OF transmit_item_relay_untouched [OF r']] by simp_all
  then have "queues_named E r'" using assms(1) q by (simp add: queues_named_def)
  then show thesis using that i r' q False
    by (auto simp: relay_transmit_next_def pop_tx_def pop_queue_def owner_tx_def relay_send_def tx_result_def)
qed

lemma relay_alternate_completes:
  assumes "queues_named E r" "idle r"
  shows "\<exists>rc r'. relay_alternate E w start timeout r = Some (rc, r') \<and> idle r' \<and> (rc = SEDS_OK \<or> rc = SEDS_HANDLER_ERROR) \<and>
    (rc = SEDS_OK \<and> timeout = 0 \<longrightarrow> rx_queue r' = [] \<and> tx_queue r' = [])"
  using assms
proof (induction E w start timeout r rule: relay_alternate.induct)
  case (1 E w start timeout r)
  let ?r0 = "do_reliable_timeouts E w r"
  have "queues_named E ?r0"
    using "1.prems"(1) untouched_D [OF untouched_reliable_timeouts [of r E w]] by (simp add: queues_named_def)
  then obtain r1 where r1: "relay_receive_next E w ?r0 = Some r1" "queues_named E r1" "idle r1"
    using relay_receive_next_ok idle_reliable_timeouts [OF "1.prems"(2)] by metis
  let ?ex = "timeout_expired start (now_ms w r1) timeout"
  obtain rc r2 where r2: "relay_transmit_next E w ?ex r1 = Some (rc, r2)" "queues_named E r2" "idle r2"
    "rc = None \<or> rc = Some SEDS_HANDLER_ERROR"
    using relay_transmit_next_ok [OF r1(2,3)] by metis
  note unf = relay_alternate.simps [of E w start timeout r]
  show ?case
  proof (cases rc)
    case (Some c)
    then show ?thesis using r1 r2 unf by auto
  next
    case None
    show ?thesis
    proof (cases "(rx_queue r2 \<noteq> [] \<or> tx_queue r2 \<noteq> []) \<and> \<not> timeout_expired start (now_ms w r2) timeout")
      case True
      then show ?thesis using "1.IH" [OF r1(1) r2(1) refl None True r2(2,3)] r1 r2 None unf by simp
    next
      case False
      then show ?thesis using r1 r2 None unf by (auto simp: timeout_expired_def)
    qed
  qed
qed

text \<open>
  (C15) A relay works its queues off. Called while no transmission is under way, with packets whose
  endpoints have names, \<open>seds_relay_process_all_queues\<close> returns; the result is success or a
  handler error, and after success both queues are empty, however many packets the received
  ones made it queue.
\<close>

theorem relay_works_queues_off:
  assumes "queues_named E r" "idle r"
  shows "\<exists>rc r'. seds_relay_process_all_queues E w r = Some (rc, r') \<and> (rc = SEDS_OK \<or> rc = SEDS_HANDLER_ERROR) \<and>
    (rc = SEDS_OK \<longrightarrow> rx_queue r' = [] \<and> tx_queue r' = [])"
  using relay_alternate_completes [OF assms, of w "now_ms w r" 0]
  by (auto simp: seds_relay_process_all_queues_def seds_relay_process_all_queues_with_timeout_def)

theorem relay_works_queues_off_witness:
  "\<exists>rc r'. seds_relay_process_all_queues sample_env sample_world
       (sample_relay\<lparr>rx_queue := [\<lparr>rx_pkt = command_packet, rx_src_side = Some 0, wire_bytes = []\<rparr>]\<rparr>) = Some (rc, r') \<and>
     (rc = SEDS_OK \<or> rc = SEDS_HANDLER_ERROR)"
proof -
  let ?r = "sample_relay\<lparr>rx_queue := [\<lparr>rx_pkt = command_packet, rx_src_side = Some 0, wire_bytes = []\<rparr>]\<rparr>"
  have "queues_named sample_env ?r" "idle ?r"
    using command_ordinary(2)
    by (simp_all add: queues_named_def idle_def sample_relay_def sample_owner_def owner.defs relay.defs)
  from relay_works_queues_off [OF this, of sample_world] show ?thesis by blast
qed

section \<open>Repeated frames\<close>

lemma recent_set_push_rx [simp]: "recent_set (push_rx i r) = recent_set r" "sides (push_rx i r) = sides r"
  by (simp_all add: push_rx_def set_rx_def)

lemma enqueue_released_frame:
  "recent_set (enqueue_released r) = recent_set r" "sides (enqueue_released r) = sides r"
proof -
  have "recent_set (fold push_rx items x) = recent_set x \<and> sides (fold push_rx items x) = sides x"
    for items and x :: "'a owner_scheme" by (induction items arbitrary: x) simp_all
  then show "recent_set (enqueue_released r) = recent_set r" "sides (enqueue_released r) = sides r"
    by (simp_all add: enqueue_released_def)
qed

text \<open>
  A repeated frame is dropped. When a relay has taken an unnumbered frame from a side, the same
  frame arriving again on that side changes nothing and is reported as success.
\<close>

theorem relay_drops_repeated_frame:
  assumes "peek_frame_info E bs True = Some (Some frame)" "reliable frame = None" "ingress_side j r"
    and "packet_id_from_wire E bs = Some (Some pid)"
    and "seds_relay_rx_serialized_from_side E w j bs r = Some (rc, r1)"
  shows "seds_relay_rx_serialized_from_side E w j bs r1 = Some (SEDS_OK, r1)"
proof -
  have na: "\<not> ack_only frame" using assms(2) by (simp add: ack_only_def)
  note unf = seds_relay_rx_serialized_from_side_def relay_dedupe_def
  have "dedupe_id j pid \<in> set (recent_set r1) \<and> sides r1 = sides r"
  proof (cases "dedupe_id j pid \<in> set (recent_set r)")
    case True
    then show ?thesis using assms na by (simp add: unf)
  next
    case False
    then obtain ids st where push:
      "push_recent (max_recent_rx_ids (memory r)) (recent_ids r, recent_set r) (dedupe_id j pid) = Some (ids, st)"
      using assms na by (cases "push_recent (max_recent_rx_ids (memory r)) (recent_ids r, recent_set r) (dedupe_id j pid)")
        (auto simp: unf)
    let ?r = "r\<lparr>recent_ids := ids, recent_set := st\<rparr>"
    have st: "dedupe_id j pid \<in> set st" using push False by (auto simp: push_recent_def split: if_splits list.splits)
    have keep: "recent_set (enqueue_released (snd (offer_rx i ?r))) = st" "sides (enqueue_released (snd (offer_rx i ?r))) = sides r"
      "recent_set (snd (offer_rx i ?r)) = st" "sides (snd (offer_rx i ?r)) = sides r" for i
      by (simp_all add: enqueue_released_frame offer_rx_def set_rx_def Let_def case_prod_unfold)
    obtain pkt where pkt: "deserialize_packet E bs = Some (Some pkt)"
      using assms(4) by (auto simp: packet_id_from_wire_def bind_eq_Some_conv split: option.splits)
    obtain c x where o: "offer_rx \<lparr>rx_pkt = pkt, rx_src_side = Some (sint j), wire_bytes = []\<rparr> ?r = (c, x)" by fastforce
    have "r1 = x \<or> r1 = enqueue_released x"
      using assms na False push pkt
      by (simp add: unf relay_ingress_def process_reliable_ingress_impl_def o split: if_splits)
    then have "recent_set r1 = st \<and> sides r1 = sides r"
      using keep [of "\<lparr>rx_pkt = pkt, rx_src_side = Some (sint j), wire_bytes = []\<rparr>"] by (auto simp: o)
    then show ?thesis using st by simp
  qed
  then show ?thesis using assms na by (simp add: unf ingress_side_def)
qed

theorem relay_drops_repeated_frame_witness:
  "\<exists>rc r1. seds_relay_rx_serialized_from_side sample_env sample_world 0 (serialize_packet sample_env gps_packet) sample_relay =
       Some (rc, r1) \<and>
     seds_relay_rx_serialized_from_side sample_env sample_world 0 (serialize_packet sample_env gps_packet) r1 = Some (SEDS_OK, r1)"
proof -
  define bs where "bs = serialize_packet sample_env gps_packet"
  have nl: "\<not> is_link_ack gps_packet" by (simp add: is_link_ack_def gps_packet_def)
  have d: "deserialize_packet sample_env bs = Some (Some (wire_image sample_env gps_packet))"
    unfolding bs_def serialize_packet_data [OF nl]
    by (rule deserialize_serialize_with_reliable [OF wire_ok_samples(1) zstd_inverts_sample])
      (simp add: data_header_def gps_packet_def)
  have "\<exists>frame. peek_frame_info sample_env bs True = Some (Some frame) \<and> reliable frame = None"
    unfolding bs_def serialize_packet_data [OF nl]
    by (subst peek_serialize_with_reliable [OF wire_ok_samples(1)]) (simp_all add: data_header_def gps_packet_def)
  then obtain frame where p: "peek_frame_info sample_env bs True = Some (Some frame)" "reliable frame = None" by blast
  have "named_endpoints sample_env (endpoints (wire_image sample_env gps_packet))"
    by (rule wire_image_ordinary) (simp add: named_endpoints_def endpoint_text_def gps_packet_def sample_defs)
  then obtain pid where pid: "packet_id_from_wire sample_env bs = Some (Some pid)"
    using packet_id_named(1) d by (fastforce simp: packet_id_from_wire_def)
  have side: "ingress_side 0 sample_relay"
    by (simp add: ingress_side_def sample_relay_def sample_owner_def owner.defs sample_side_def)
  have "\<exists>rc r1. seds_relay_rx_serialized_from_side sample_env sample_world 0 bs sample_relay = Some (rc, r1)"
    using p d pid side
    by (auto simp: seds_relay_rx_serialized_from_side_def ack_only_def relay_dedupe_def push_recent_def sample_relay_def
        sample_owner_def owner.defs default_runtime_memory_config_def relay_ingress_def process_reliable_ingress_impl_def
        Let_def case_prod_unfold)
  then show ?thesis unfolding bs_def [symmetric] using relay_drops_repeated_frame [OF p side pid] by blast
qed

end
