(* ===== verification/Reachable.thy ===== *)
theory Reachable
  imports Relay_Facts
begin

text \<open>
  The invariant of a node over every sequence of interface calls. A step is one call of the
  interface, with any arguments; the invariant says that both byte counters are exact and
  within the budget, that the memory limits are still those of the construction, and that the cache
  of recent identities is bounded and free of repetitions.
\<close>

section \<open>The invariant\<close>

definition sound :: "memory_config \<Rightarrow> 'a owner_scheme \<Rightarrow> bool" where
  "sound m r \<longleftrightarrow>
     memory r = m \<and> owner_queues_inv r \<and> unat (max_queue_budget m) < 2 ^ 63 \<and> 0 < max_recent_rx_ids m \<and>
     recent_inv (max_recent_rx_ids m) (recent_ids r, recent_set r)"

named_theorems sounds

lemma sound_kept: "kept r r' \<Longrightarrow> sound m r \<Longrightarrow> sound m r'"
  by (simp add: sound_def kept_def)

lemma sound_untouched: "untouched r r' \<Longrightarrow> sound m r \<Longrightarrow> sound m r'"
  by (rule sound_kept [OF kept_untouched])

lemma sound_eq:
  assumes "owner_tx r' = owner_tx r" "owner_rx r' = owner_rx r" "memory r' = memory r"
    "recent_ids r' = recent_ids r" "recent_set r' = recent_set r"
  shows "sound m r' = sound m r"
  using assms by (simp add: sound_def owner_queues_inv_def)

lemma sound_updates [simp]:
  "sound m (r\<lparr>sides := ss\<rparr>) = sound m r" "sound m (r\<lparr>route_overrides := ro\<rparr>) = sound m r"
  "sound m (r\<lparr>typed_route_overrides := tr\<rparr>) = sound m r" "sound m (r\<lparr>local_policy := lp\<rparr>) = sound m r"
  "sound m (r\<lparr>source_policy := sp\<rparr>) = sound m r" "sound m (r\<lparr>reliable_released_rx := rr\<rparr>) = sound m r"
  "sound m (r\<lparr>reliable_tx := tx\<rparr>) = sound m r" "sound m (r\<lparr>reliable_rx := rx\<rparr>) = sound m r"
  "sound m (r\<lparr>reliable_return_routes := rt\<rparr>) = sound m r" "sound m (r\<lparr>discovery_routes := dr\<rparr>) = sound m r"
  "sound m (r\<lparr>discovery_next_ms := dn\<rparr>) = sound m r" "sound m (r\<lparr>discovery_interval_ms := di\<rparr>) = sound m r"
  "sound m (r\<lparr>side_tx_deferred := b\<rparr>) = sound m r" "sound m (r\<lparr>trace := t\<rparr>) = sound m r"
  by (rule sound_eq; simp add: owner_tx_def owner_rx_def)+

lemma sound_router_updates [simp]:
  "sound m (r\<lparr>timesync := ts\<rparr>) = sound m r" "sound m (r\<lparr>r_sender := s\<rparr>) = sound m r" "sound m (r\<lparr>node_sender := s\<rparr>) = sound m r"
  "sound m (r\<lparr>p2p_address := a\<rparr>) = sound m r" "sound m (r\<lparr>p2p_address_book := ab\<rparr>) = sound m r"
  "sound m (r\<lparr>p2p_host_by_address := h\<rparr>) = sound m r" "sound m (r\<lparr>p2p_handlers := ph\<rparr>) = sound m r"
  "sound m (r\<lparr>p2p_stream_handlers := sh\<rparr>) = sound m r" "sound m (r\<lparr>p2p_stream_sessions := ss\<rparr>) = sound m r"
  "sound m (r\<lparr>p2p_next_stream_id := n\<rparr>) = sound m r" "sound m (r\<lparr>managed_policy := mp\<rparr>) = sound m r"
  "sound m (r\<lparr>managed_latest := ml\<rparr>) = sound m r" "sound m (r\<lparr>managed_callbacks := mc\<rparr>) = sound m r"
  by (rule sound_eq; simp add: owner_tx_def owner_rx_def)+

lemma sound_note [simp]: "sound m (note_discovery_topology_change now r) = sound m r"
  by (simp add: note_discovery_topology_change_def)

section \<open>Queues\<close>

lemma sound_set_tx: "sound m r \<Longrightarrow> queue_inv byte_cost_tx (max_queue_budget (memory r)) Q \<Longrightarrow> sound m (set_tx Q r)"
  by (auto simp: sound_def owner_queues_inv_def set_tx_def owner_tx_def owner_rx_def)

lemma sound_set_rx: "sound m r \<Longrightarrow> queue_inv byte_cost_rx (max_queue_budget (memory r)) Q \<Longrightarrow> sound m (set_rx Q r)"
  by (auto simp: sound_def owner_queues_inv_def set_rx_def owner_tx_def owner_rx_def)

lemma sound_queues:
  assumes "sound m r"
  shows "queue_inv byte_cost_tx (max_queue_budget (memory r)) (owner_tx r)"
    "queue_inv byte_cost_rx (max_queue_budget (memory r)) (owner_rx r)" "unat (max_queue_budget (memory r)) < 2 ^ 63"
  using assms by (auto simp: sound_def owner_queues_inv_def)

lemma sound_pop:
  assumes "sound m r"
  shows "sound m (set_tx (snd (pop_tx (owner_tx r))) r)" "sound m (set_rx (snd (pop_rx (owner_rx r))) r)"
  using sound_queues [OF assms]
  by (intro sound_set_tx sound_set_rx assms txq.pop_inv rxq.pop_inv; simp)+

lemma sound_push_tx [sounds]: "sound m r \<Longrightarrow> sound m (push_tx i r)" "sound m r \<Longrightarrow> sound m (push_tx_front i r)"
  using sound_kept [OF kept_push_tx] sound_kept [OF kept_push_tx_front] by blast+

lemma sound_push_rx [sounds]: "sound m r \<Longrightarrow> sound m (push_rx i r)"
  using sound_queues [of m r] unfolding push_rx_def by (intro sound_set_rx rxq.enqueue_inv)

lemma sound_offers [sounds]:
  "sound m r \<Longrightarrow> sound m (snd (offer_tx i r))" "sound m r \<Longrightarrow> sound m (snd (offer_rx j r))" "sound m r \<Longrightarrow> sound m (snd (offer_rx_front j r))"
  using sound_queues [of m r] txq.enqueue_inv rxq.enqueue_inv rxq.enqueue_front_inv
  by (simp_all add: offer_tx_def offer_rx_def offer_rx_front_def Let_def case_prod_unfold sound_set_tx sound_set_rx)

lemma sound_enforce [sounds]:
  assumes "sound m r"
  shows "sound m (enforce_budget r)"
proof -
  obtain rx rxb tx txb where e: "enforce_shared_queue_budget (max_queue_budget (memory r)) (owner_rx r) (owner_tx r) =
      ((rx, rxb), (tx, txb))" by (metis prod.collapse)
  note q = sound_queues [OF assms]
  have "queue_inv byte_cost_rx (max_queue_budget (memory r)) (rx, rxb)" "queue_inv byte_cost_tx (max_queue_budget (memory r)) (tx, txb)"
    using enforce_shared_queue_budget_spec [of "max_queue_budget (memory r)" "fst (owner_rx r)" "snd (owner_rx r)"
        "fst (owner_tx r)" "snd (owner_tx r)"] q e by simp_all
  then show ?thesis using assms by (simp add: enforce_budget_def e sound_set_tx sound_set_rx)
qed

lemma sound_then_enforce [sounds]: "sound m (snd S) \<Longrightarrow> sound m (snd (then_enforce S))"
  by (simp add: then_enforce_def case_prod_unfold sound_enforce)

lemma sound_enqueue_released [sounds]: "sound m r \<Longrightarrow> sound m (enqueue_released r)"
proof -
  have "sound m x \<Longrightarrow> sound m (fold push_rx items x)" for items and x :: "'a owner_scheme"
    by (induction items arbitrary: x) (simp_all add: sound_push_rx)
  then show "sound m r \<Longrightarrow> sound m (enqueue_released r)" by (simp add: enqueue_released_def)
qed

lemma sound_clear [sounds]: "sound m r \<Longrightarrow> sound m (clear_rx_queue r)" "sound m r \<Longrightarrow> sound m (clear_tx_queue r)"
  unfolding clear_rx_queue_def clear_tx_queue_def clear_queue_def
  by (intro sound_set_rx sound_set_tx; simp add: queue_inv_def)+

section \<open>Sides\<close>

lemma sound_update_side [simp]: "sound m (update_side s f r) = sound m r"
  by (simp add: update_side_def)

lemma sound_erase [sounds]:
  assumes "sound m r"
  shows "sound m (erase_tx_items_for_side_locked s r)" "sound m (erase_rx_items_for_side_locked s r)"
  using sound_queues [OF assms] erase_items_inv [of byte_cost_tx _ "owner_tx r"] erase_items_inv [of byte_cost_rx _ "owner_rx r"]
  by (auto simp: erase_tx_items_for_side_locked_def erase_rx_items_for_side_locked_def owner_tx_def owner_rx_def
      intro!: sound_set_tx [OF assms] sound_set_rx [OF assms])

lemma sound_sides [sounds]:
  assumes "sound m r"
  shows "sound m (snd (remove_side w s r))" "sound m (snd (set_side_ingress_enabled w s b r))"
    "sound m (snd (set_side_egress_enabled w s b r))" "sound m (snd (set_side_link_local_enabled w s b r))"
    "sound m (snd (add_side nm f g rel r))"
  using assms by (simp_all add: remove_side_def set_side_ingress_enabled_def set_side_egress_enabled_def
      set_side_link_local_enabled_def add_side_def Let_def sounds)

lemma sound_policies [sounds]:
  assumes "sound m r"
  shows "sound m (policy_for src f r)" "sound m (set_route src dst b r)" "sound m (clear_route src dst r)"
    "sound m (snd (set_typed_route E src t dst b r))" "sound m (clear_typed_route src t dst r)"
  using assms by (simp_all add: policy_for_def set_route_def clear_route_def set_typed_route_def clear_typed_route_def)

section \<open>Discovery and the reliable layer\<close>

lemma kept_announce_on_sides:
  assumes "announce_on_sides E w lb from now is r = Some r'"
  shows "kept r r'"
  using assms
proof (induction "is" arbitrary: r)
  case (Cons i "is")
  then obtain r1 where r1: "announce_on_side E w lb from now i r = Some r1"
    "announce_on_sides E w lb from now is r1 = Some r'" by (auto simp: bind_eq_Some_conv)
  have "kept r r1" using r1(1) kept_trans [OF kept_push_tx_front kept_push_tx_front]
      kept_trans [OF kept_trans [OF kept_push_tx_front kept_push_tx_front] kept_push_tx_front] kept_push_tx_front
    by (auto simp: announce_on_side_def Let_def bind_eq_Some_conv split: if_splits)
  then show ?case using Cons.IH [OF r1(2)] kept_trans by blast
qed simp

lemma sound_discovery:
  assumes "queue_discovery_impl E w board_of from r = Some r'" "sound m r"
  shows "sound m r'"
proof -
  obtain lb now r1 where r1: "announce_on_sides E w lb from now [0..<length (sides (age_routes now r))] (age_routes now r) = Some r1"
    "r' = r1\<lparr>discovery_next_ms := now + discovery_interval_ms r1,
              discovery_interval_ms := min (discovery_interval_ms r1 * 2) kDiscoverySlowMs\<rparr>"
    using assms(1) by (auto simp: queue_discovery_impl_def Let_def bind_eq_Some_conv)
  have "sound m (age_routes now r)" using assms(2) by (simp add: age_routes_def Let_def case_prod_unfold)
  with sound_kept [OF kept_announce_on_sides [OF r1(1)]] r1(2) show ?thesis by simp
qed

lemma kept_ingress: "kept r (snd (process_reliable_ingress_impl E w from side_id frame pkt bs r))"
proof -
  have q: "kept x (queue_reliable_control c E w from side_id t sq x)" for c t sq and x :: "'a owner_scheme"
    by (simp add: queue_reliable_control_def Let_def keeps)
  have q1: "kept r (queue_reliable_control c E w from side_id t sq x)" if "kept r x" for c t sq x
    by (rule kept_trans [OF that q])
  have "kept r (handle_ack_impl E side_id t a r)" for t a by (simp add: handle_ack_impl_def Let_def split: option.split)
  then show ?thesis
    by (simp add: process_reliable_ingress_impl_def Let_def case_prod_unfold queue_control_defs q1 split: option.split)
qed

lemma sound_ingress [sounds]: "sound m r \<Longrightarrow> sound m (snd (process_reliable_ingress_impl E w from side_id frame pkt bs r))"
  by (rule sound_kept [OF kept_ingress])

section \<open>Reception\<close>

lemma sound_receive:
  assumes "router_receive_impl E w pkt src r = Some r'" "sound m r"
  shows "sound m r'"
  using assms(1)
proof (cases rule: router_receive_cases)
  case (duplicate pid)
  then have "kept r r'" using kept_end_to_end_ack by auto
  then show ?thesis using sound_kept assms(2) by blast
next
  case (fresh pid ids st r1)
  have "recent_inv (max_recent_rx_ids (memory r)) (ids, st)"
    using push_recent_spec [of "max_recent_rx_ids (memory r)" "(recent_ids r, recent_set r)" pid] fresh(3) assms(2)
    by (auto simp: sound_def)
  then have "sound m (r\<lparr>recent_ids := ids, recent_set := st\<rparr>)"
    using assms(2) by (auto simp: sound_def owner_queues_inv_def owner_tx_def owner_rx_def)
  then show ?thesis using sound_kept [OF kept_trans [OF kept_return_routes [OF fresh(4)] kept_receive_fresh [OF fresh(5)]]] by blast
qed

lemma sound_relay_receive:
  assumes "relay_receive_impl E w pkt src r = Some r'" "sound m r"
  shows "sound m r'"
  using relay_receive_frame [OF assms(1)] sound_kept assms(2) by blast

lemma sound_receive_item:
  assumes "receive_item E w item r = Some r'" "sound m r"
  shows "sound m r'"
  using assms(1) by (rule receive_item_cases) (use assms(2) sound_untouched sound_receive in blast)

lemma pop_rx_eq: "pop_rx (owner_rx r) = (Some item, Q) \<Longrightarrow> sound m r \<Longrightarrow> sound m (set_rx Q r)"
  using sound_pop(2) [of m r] by simp

lemma pop_tx_eq: "pop_tx (owner_tx r) = (Some item, Q) \<Longrightarrow> sound m r \<Longrightarrow> sound m (set_tx Q r)"
  using sound_pop(1) [of m r] by simp

lemma sound_drain_rx: "drain_rx E w r = Some (rc, r') \<Longrightarrow> sound m r \<Longrightarrow> sound m r'"
proof (induction E w r rule: drain_rx.induct)
  case (1 E w r)
  then show ?case
    by (auto simp: drain_rx.simps [of E w r] pop_rx_eq sound_receive_item split: prod.splits option.splits)
qed

lemma sound_timed_rx: "timed_rx E w start budget r = Some r' \<Longrightarrow> sound m r \<Longrightarrow> sound m r'"
proof (induction E w start budget r rule: timed_rx.induct)
  case (1 E w start budget r)
  then show ?case
    by (auto simp: timed_rx.simps [of E w start budget r] pop_rx_eq sound_receive_item
        split: prod.splits option.splits if_splits)
qed

lemma sound_relay_drain_rx: "relay_drain_rx E w r = Some (rc, r') \<Longrightarrow> sound m r \<Longrightarrow> sound m r'"
proof (induction E w r rule: relay_drain_rx.induct)
  case (1 E w r)
  then show ?case
    by (auto simp: relay_drain_rx.simps [of E w r] pop_rx_eq sound_relay_receive split: prod.splits option.splits)
qed

section \<open>Transmission\<close>

lemma sound_transmit:
  "transmit_item_router E w item r = Some (rc, r') \<Longrightarrow> sound m r \<Longrightarrow> sound m r'"
  "transmit_item_relay E w item q = Some (rc, q') \<Longrightarrow> sound m q \<Longrightarrow> sound m q'"
  using sound_untouched [OF transmit_item_router_untouched] sound_untouched [OF transmit_item_relay_untouched] by blast+

lemma sound_router_send: "router_send E w item Q r = Some (rc, r') \<Longrightarrow> sound m (set_tx Q r) \<Longrightarrow> sound m r'"
  by (auto simp: router_send_def tx_result_def sounds sound_transmit(1) split: if_splits)

lemma sound_log_send: "log_send E w item Q r = Some (rc, r') \<Longrightarrow> sound m (set_tx Q r) \<Longrightarrow> sound m r'"
  by (auto simp: log_send_def sounds sound_transmit(1) split: if_splits)

lemma sound_relay_send: "relay_send E w item Q r = Some (rc, r') \<Longrightarrow> sound m (set_tx Q r) \<Longrightarrow> sound m r'"
  by (auto simp: relay_send_def tx_result_def sounds sound_transmit(2) split: if_splits)

lemma sound_drain_tx: "drain_tx E w r = Some (rc, r') \<Longrightarrow> sound m r \<Longrightarrow> sound m r'"
proof (induction E w r rule: drain_tx.induct)
  case (1 E w r)
  then show ?case
    by (auto simp: drain_tx.simps [of E w r] pop_tx_eq sound_router_send split: prod.splits option.splits)
qed

lemma sound_log_drain: "log_drain E w r = Some (rc, r') \<Longrightarrow> sound m r \<Longrightarrow> sound m r'"
proof (induction E w r rule: log_drain.induct)
  case (1 E w r)
  then show ?case
    by (auto simp: log_drain.simps [of E w r] pop_tx_eq sound_log_send split: prod.splits option.splits)
qed

lemma sound_relay_drain_tx: "relay_drain_tx E w r = Some (rc, r') \<Longrightarrow> sound m r \<Longrightarrow> sound m r'"
proof (induction E w r rule: relay_drain_tx.induct)
  case (1 E w r)
  then show ?case
    by (auto simp: relay_drain_tx.simps [of E w r] pop_tx_eq sound_relay_send split: prod.splits option.splits)
qed

lemma sound_timeouts [sounds]: "sound m r \<Longrightarrow> sound m (do_reliable_timeouts E w r)" "sound m q \<Longrightarrow> sound m (router_timeouts E w q)"
  using sound_kept [OF kept_reliable_timeouts] sound_kept [OF kept_trans [OF kept_reliable_timeouts kept_end_to_end_timeouts]]
  by (blast, simp add: router_timeouts_def)

lemma sound_next:
  "receive_next E w r = Some r' \<Longrightarrow> sound m r \<Longrightarrow> sound m r'" "transmit_next E w r = Some (rc, r') \<Longrightarrow> sound m r \<Longrightarrow> sound m r'"
  "relay_receive_next E w q = Some q' \<Longrightarrow> sound m q \<Longrightarrow> sound m q'"
  "relay_transmit_next E w ex q = Some (rc, q') \<Longrightarrow> sound m q \<Longrightarrow> sound m q'"
  by (auto simp: receive_next_def transmit_next_def relay_receive_next_def relay_transmit_next_def
      split: prod.splits option.splits if_splits
      intro: pop_rx_eq pop_tx_eq sound_receive_item sound_router_send sound_relay_receive sound_relay_send)

lemma sound_relay_alternate: "relay_alternate E w start timeout r = Some (rc, r') \<Longrightarrow> sound m r \<Longrightarrow> sound m r'"
proof (induction E w start timeout r rule: relay_alternate.induct)
  case (1 E w start timeout r)
  then obtain r1 c r2 where a: "relay_receive_next E w (do_reliable_timeouts E w r) = Some r1"
    "relay_transmit_next E w (timeout_expired start (now_ms w r1) timeout) r1 = Some (c, r2)"
    by (auto simp: relay_alternate.simps [of E w start timeout r] split: option.splits)
  have "sound m r2" using a sound_next(3,4) sound_timeouts(1) "1.prems"(2) by blast
  then show ?case using "1.IH" [OF a refl] "1.prems"(1) a
    by (auto simp: relay_alternate.simps [of E w start timeout r] split: option.splits if_splits)
qed

lemma sound_alternate:
  assumes "alternate E w r = Some S" "sound m r"
  shows "sound m (snd S)"
proof -
  have "sound m r \<longrightarrow> sound m (snd S)"
  proof (rule alternate.raw_induct [where P = "\<lambda>E w r S. sound m r \<longrightarrow> sound m (snd S)", OF _ assms(1)], goal_cases)
    case (1 loop E w r S)
    then obtain r1 rc r2 where a: "receive_next E w (router_timeouts E w r) = Some r1" "transmit_next E w r1 = Some (rc, r2)"
      "snd S = r2 \<or> loop E w r2 = Some S"
      by (auto simp: bind_eq_Some_conv split: option.splits if_splits)
    have "sound m r \<Longrightarrow> sound m r2" using a(1,2) sound_next(1,2) sound_timeouts(2) by blast
    then show ?case using 1(1) a(3) by blast
  qed
  with assms(2) show ?thesis by blast
qed

lemma sound_timed_tx:
  assumes "timed_tx E w start budget r = Some S" "sound m r"
  shows "sound m (snd S)"
proof -
  have "sound m r \<longrightarrow> sound m (snd S)"
  proof (rule timed_tx.raw_induct [where P = "\<lambda>E w start budget r S. sound m r \<longrightarrow> sound m (snd S)", OF _ assms(1)], goal_cases)
    case (1 loop E w start budget r S)
    define r0 where "r0 = router_timeouts E w r"
    show ?case
    proof
      assume "sound m r"
      then have s0: "sound m r0" unfolding r0_def by (rule sound_timeouts)
      show "sound m (snd S)"
      proof (cases "pop_tx (owner_tx r0)")
        fix i Q
        assume Pair: "pop_tx (owner_tx r0) = (i, Q)"
        show ?thesis
        proof (cases i)
          case None
          then show ?thesis using 1(2) s0 Pair by (auto simp: r0_def [symmetric] Let_def)
        next
          case (Some item)
          then obtain rc r1 where r1: "transmit_item_router E w item (set_tx Q r0) = Some (rc, r1)"
            "snd S = r1 \<or> snd S = push_tx_front item r1 \<or> loop E w start budget r1 = Some S"
            using 1(2) Pair by (auto simp: r0_def [symmetric] Let_def bind_eq_Some_conv split: if_splits)
          have "sound m r1" using sound_transmit(1) [OF r1(1)] pop_tx_eq [OF Pair [unfolded Some] s0] by blast
          then show ?thesis using r1(2) 1(1) sound_push_tx(2) by metis
        qed
      qed
    qed
  qed
  with assms(2) show ?thesis by blast
qed

section \<open>The functions of the interface\<close>

lemma sound_process_all:
  assumes "seds_router_process_all_queues_with_timeout E w timeout r = Some (rc, r')" "sound m r"
  shows "sound m r'"
proof (cases "timeout = 0")
  case True
  then show ?thesis using sound_alternate assms by (fastforce simp: seds_router_process_all_queues_with_timeout_def)
next
  case False
  then obtain c r1 where r1: "timed_tx E w (now_ms w r) (timeout div 2) r = Some (c, r1)"
    "r' = r1 \<or> (\<exists>start budget. timed_rx E w start budget r1 = Some r')"
    using assms(1) by (auto simp: seds_router_process_all_queues_with_timeout_def Let_def bind_eq_Some_conv split: option.splits)
  then show ?thesis using sound_timed_tx [OF r1(1) assms(2)] sound_timed_rx by auto
qed

lemma sound_poll_discovery:
  "seds_router_poll_discovery E w r = Some (b, r') \<Longrightarrow> sound m r \<Longrightarrow> sound m r'"
  "seds_relay_poll_discovery E w q = Some (b, q') \<Longrightarrow> sound m q \<Longrightarrow> sound m q'"
  by (auto simp: seds_router_poll_discovery_def seds_relay_poll_discovery_def queue_discovery_packets_router_def
      queue_discovery_packets_relay_def split: if_splits dest: sound_discovery)

lemma sound_log:
  assumes "seds_router_log_bytes_ex E w t data len ts queue r = Some (rc, r')" "sound m r"
  shows "sound m r'"
proof -
  have d: "sound m (dispatch_local_from_packet E w pkt (locals r) r)" for pkt
    by (rule sound_untouched [OF dispatch_local_from_packet_untouched assms(2)])
  show ?thesis
    using assms sound_offers(1) [OF d] sound_then_enforce [OF sound_offers(1) [OF assms(2)]] sound_log_drain
    by (auto simp: seds_router_log_bytes_ex_def Let_def bind_eq_Some_conv case_prod_unfold split: if_splits)
      (metis snd_conv)+
qed

lemma accept_frame_cases:
  assumes "accept_frame E w j bs deliver r = Some (rc, r')"
  obtains (refused) "r' = r" | (handled) frame pkt where "r' = snd (process_reliable_ingress E w j frame pkt bs r)"
  | (passed) frame pkt where "deliver frame pkt (snd (process_reliable_ingress E w j frame pkt bs r)) = Some (rc, r')"
proof -
  obtain f where f: "peek_frame_info E bs True = Some f"
    using assms by (auto simp: accept_frame_def bind_eq_Some_conv)
  show thesis
  proof (cases f)
    case None
    then show thesis using assms f refused by (simp add: accept_frame_def)
  next
    case (Some frame)
    show thesis
    proof (cases "\<not> ingress_side j r \<or> ack_only frame")
      case True
      then show thesis using assms f Some refused handled by (auto simp: accept_frame_def split: if_splits)
    next
      case False
      then obtain p where p: "deserialize_packet E bs = Some p"
        using assms f Some by (auto simp: accept_frame_def bind_eq_Some_conv)
      then show thesis using assms f Some False refused handled passed
        by (cases p) (auto simp: accept_frame_def case_prod_unfold Let_def split: if_splits)
    qed
  qed
qed

lemma sound_accept_frame:
  assumes "accept_frame E w j bs deliver r = Some (rc, r')" "sound m r"
    and "\<And>frame pkt x. deliver frame pkt x = Some (rc, r') \<Longrightarrow> sound m x \<Longrightarrow> sound m r'"
  shows "sound m r'"
proof -
  have i: "sound m (snd (process_reliable_ingress E w j frame pkt bs r))" for frame pkt
    using sound_ingress [OF assms(2)] by (simp add: process_reliable_ingress_def)
  from assms(1) show ?thesis by (cases rule: accept_frame_cases) (use i assms(2,3) in auto)
qed

lemma sound_receive_calls:
  assumes "sound m r"
  shows "seds_router_receive E w view r = Some (rc, r') \<Longrightarrow> sound m r'"
    "seds_router_receive_serialized E w bs r = Some (rc, r') \<Longrightarrow> sound m r'"
    "seds_router_receive_from_side E w j view r = Some (rc, r') \<Longrightarrow> sound m r'"
    "seds_router_receive_serialized_from_side E w j bs r = Some (rc, r') \<Longrightarrow> sound m r'"
proof -
  show "seds_router_receive E w view r = Some (rc, r') \<Longrightarrow> sound m r'"
    using assms by (auto simp: seds_router_receive_def bind_eq_Some_conv split: option.splits dest: sound_receive)
  have d: "sound m (dispatch_local_serialized_handlers w eps bs ls r)" for eps ls
    by (rule sound_untouched [OF dispatch_local_serialized_handlers_untouched assms])
  show "sound m r'" if rs: "seds_router_receive_serialized E w bs r = Some (rc, r')"
  proof -
    obtain f q where "peek_frame_info E bs True = Some f" "deserialize_packet E bs = Some q"
      using rs by (auto simp: seds_router_receive_serialized_def bind_eq_Some_conv)
    then show ?thesis using rs assms d
      by (cases f; cases q) (auto simp: seds_router_receive_serialized_def Let_def split: if_splits dest!: sound_receive)
  qed
  show "seds_router_receive_from_side E w j view r = Some (rc, r') \<Longrightarrow> sound m r'"
    using assms by (auto simp: seds_router_receive_from_side_def with_view_from_side_def bind_eq_Some_conv
        split: option.splits if_splits dest: sound_receive)
  assume "seds_router_receive_serialized_from_side E w j bs r = Some (rc, r')"
  then show "sound m r'" unfolding seds_router_receive_serialized_from_side_def
  proof (rule sound_accept_frame [OF _ assms])
    fix frame pkt x
    assume "Option.bind (router_receive_impl E w pkt (Some (sint j)) (show_serialized w frame bs x))
        (\<lambda>r2. seds_router_process_rx_queue E w (enqueue_released r2)) = Some (rc, r')" and x: "sound m x"
    then obtain r2 where r2: "router_receive_impl E w pkt (Some (sint j)) (show_serialized w frame bs x) = Some r2"
      "drain_rx E w (enqueue_released r2) = Some (rc, r')" by (auto simp: bind_eq_Some_conv seds_router_process_rx_queue_def)
    have "sound m r2" by (rule sound_receive [OF r2(1) sound_untouched [OF show_serialized_untouched x]])
    then show "sound m r'" by (rule sound_drain_rx [OF r2(2) sound_enqueue_released])
  qed
qed

lemma sound_queue_calls:
  assumes "sound m r"
  shows "seds_router_rx_packet_to_queue E view r = Some (rc, r') \<Longrightarrow> sound m r'"
    "seds_router_rx_serialized_packet_to_queue E bs r = Some (rc, r') \<Longrightarrow> sound m r'"
    "seds_router_rx_packet_to_queue_from_side E j view r = Some (rc, r') \<Longrightarrow> sound m r'"
    "seds_router_rx_serialized_packet_to_queue_from_side E w j bs r = Some (rc, r') \<Longrightarrow> sound m r'"
    "seds_router_transmit_message_queue E view r = Some (rc, r') \<Longrightarrow> sound m r'"
    "seds_router_transmit_serialized_message_queue E bs r = Some (rc, r') \<Longrightarrow> sound m r'"
proof -
  have snds: "S = (rc, r') \<Longrightarrow> sound m (snd S) \<Longrightarrow> sound m r'" for S :: "seds_result \<times> router" by simp
  note e = sound_then_enforce [OF sound_offers(1) [OF assms]] sound_then_enforce [OF sound_offers(2) [OF assms]]
    sound_offers(1,2) [OF assms]
  show "seds_router_rx_packet_to_queue E view r = Some (rc, r') \<Longrightarrow> sound m r'"
    "seds_router_rx_serialized_packet_to_queue E bs r = Some (rc, r') \<Longrightarrow> sound m r'"
    "seds_router_rx_packet_to_queue_from_side E j view r = Some (rc, r') \<Longrightarrow> sound m r'"
    "seds_router_transmit_message_queue E view r = Some (rc, r') \<Longrightarrow> sound m r'"
    "seds_router_transmit_serialized_message_queue E bs r = Some (rc, r') \<Longrightarrow> sound m r'"
    using assms e
    by (auto simp: seds_router_rx_packet_to_queue_def seds_router_rx_serialized_packet_to_queue_def
        seds_router_rx_packet_to_queue_from_side_def with_view_from_side_def seds_router_transmit_message_queue_def
        seds_router_transmit_serialized_message_queue_def transmit_packet_queue_def bind_eq_Some_conv
        split: option.splits if_splits dest!: snds)
  assume "seds_router_rx_serialized_packet_to_queue_from_side E w j bs r = Some (rc, r')"
  then show "sound m r'" unfolding seds_router_rx_serialized_packet_to_queue_from_side_def
    by (rule sound_accept_frame [OF _ assms])
      (auto simp: Let_def case_prod_unfold sounds split: if_splits dest!: snds)
qed

lemma sound_process_calls:
  assumes "sound m r"
  shows "seds_router_process_tx_queue E w r = Some (rc, r') \<Longrightarrow> sound m r'"
    "seds_router_transmit_message E w view r = Some (rc, r') \<Longrightarrow> sound m r'"
    "seds_router_transmit_serialized_message E w bs r = Some (rc, r') \<Longrightarrow> sound m r'"
    "seds_router_periodic_no_timesync E w timeout r = Some (rc, r') \<Longrightarrow> sound m r'"
proof -
  have tx: "seds_router_process_tx_queue E w x = Some (rc, r') \<Longrightarrow> sound m x \<Longrightarrow> sound m r'" for x
    using sound_drain_tx [OF _ sound_timeouts(2)] by (simp add: seds_router_process_tx_queue_def)
  then show "seds_router_process_tx_queue E w r = Some (rc, r') \<Longrightarrow> sound m r'" using assms by blast
  have d: "sound m (snd (dispatch_local_packet_handlers E w pkt (locals r) r))" for pkt
    by (rule sound_untouched [OF dispatch_local_packet_handlers_untouched assms])
  show "seds_router_transmit_message E w view r = Some (rc, r') \<Longrightarrow> sound m r'"
    using assms d tx sound_queue_calls(5) [OF assms]
    by (auto simp: seds_router_transmit_message_def bind_eq_Some_conv split: option.splits if_splits) (metis snd_conv)
  show "seds_router_transmit_serialized_message E w bs r = Some (rc, r') \<Longrightarrow> sound m r'"
    using tx sound_queue_calls(6) [OF assms]
    by (auto simp: seds_router_transmit_serialized_message_def bind_eq_Some_conv split: if_splits)
  show "seds_router_periodic_no_timesync E w timeout r = Some (rc, r') \<Longrightarrow> sound m r'"
    using assms sound_poll_discovery(1) sound_process_all
    by (auto simp: seds_router_periodic_no_timesync_def bind_eq_Some_conv)
qed

lemma sound_time_calls [sounds]:
  assumes "sound m r"
  shows "sound m (snd (seds_router_poll_timesync E w r))" "sound m (seds_router_configure_timesync w b role prio tmo ai ri r)"
    "sound m (snd (set_network_time_from_fields w y mo d h mi s ns r))" "sound m (snd (seds_router_get_network_time_ms w r))"
  using assms
  by (simp_all add: seds_router_poll_timesync_def seds_router_configure_timesync_def set_network_time_from_fields_def
      seds_router_get_network_time_ms_def Let_def case_prod_unfold sounds split: option.split)

lemma sound_p2p [sounds]:
  assumes "sound m r"
  shows "sound m (learn_address h a r)" "sound m (snd (local_p2p_address r))" "sound m (snd (resolve_p2p_host host r))"
    "sound m (snd (resolve_p2p_address addr r))" "sound m (snd (enqueue_p2p_packet E w dp sp body r))"
    "sound m (snd (allocate_p2p_stream_id r))"
  using assms sound_kept [OF kept_enqueue_p2p assms] allocate_frame [of r]
  by (auto simp: learn_address_def local_p2p_address_def resolve_p2p_host_def resolve_p2p_address_def Let_def
      case_prod_unfold split: option.split)

lemma sound_p2p_calls [sounds]:
  assumes "sound m r"
  shows "sound m (snd (seds_router_send_p2p_to_hostname E w host dp sp body r))"
    "sound m (snd (seds_router_send_p2p_to_address E w addr dp sp body r))"
    "sound m (snd (snd (seds_router_open_p2p_stream_to_hostname E w host dp sp r)))"
    "sound m (snd (snd (seds_router_open_p2p_stream_to_address E w addr dp sp r)))"
    "sound m (snd (send_p2p_stream_control E w sid fl body r))"
proof -
  have op: "sound m x \<Longrightarrow> sound m (snd (snd (open_p2p_stream E w peer dp sp x)))" for peer x
    by (simp add: open_p2p_stream_def Let_def case_prod_unfold sounds)
  show "sound m (snd (seds_router_send_p2p_to_hostname E w host dp sp body r))"
    "sound m (snd (seds_router_send_p2p_to_address E w addr dp sp body r))"
    "sound m (snd (snd (seds_router_open_p2p_stream_to_hostname E w host dp sp r)))"
    "sound m (snd (snd (seds_router_open_p2p_stream_to_address E w addr dp sp r)))"
    "sound m (snd (send_p2p_stream_control E w sid fl body r))"
    using sound_p2p [OF assms] op assms
    by (simp_all add: seds_router_send_p2p_to_hostname_def seds_router_send_p2p_to_address_def
        seds_router_open_p2p_stream_to_hostname_def seds_router_open_p2p_stream_to_address_def
        send_p2p_stream_control_def Let_def case_prod_unfold sounds split: option.split)
qed

lemma sound_managed [sounds]:
  assumes "sound m r"
  shows "sound m (snd (enable_policy t r))" "sound m (snd (queue_managed_request E w t r))"
    "sound m (snd (remember_managed_packet E w pkt b r))" "sound m (snd (lookup_variable E w t age r))"
proof -
  show e: "sound m (snd (enable_policy t r))" for t using assms by (simp add: enable_policy_def Let_def)
  show q: "sound m (snd (queue_managed_request E w t r))" using assms by (simp add: queue_managed_request_def Let_def sounds)
  have cb: "sound m x \<Longrightarrow> sound m (invoke_managed_callback w pkt x)" for x
    by (simp add: invoke_managed_callback_def call_back_def split: option.split)
  show "sound m (snd (remember_managed_packet E w pkt b r))"
    using assms e by (simp add: remember_managed_packet_def Let_def store_managed_def cb)
  show "sound m (snd (lookup_variable E w t age r))"
    using assms q by (simp add: lookup_variable_def split: option.split)
qed

lemma sound_variable_calls [sounds]:
  assumes "sound m r"
  shows "sound m (snd (seds_router_enable_network_variable E t rd wr r))" "sound m (snd (seds_router_on_network_variable_update E t cb r))"
    "sound m (seds_router_disable_managed_variable t r)" "sound m (snd (seds_router_request_managed_variable E w t r))"
    "sound m (snd (seds_router_get_network_variable_packed_len E w t age r))"
    "sound m (snd (seds_router_get_network_variable_packed E w t age null len r))"
  using assms
  by (simp_all add: seds_router_enable_network_variable_def seds_router_on_network_variable_update_def
      seds_router_disable_managed_variable_def seds_router_request_managed_variable_def
      seds_router_get_network_variable_packed_len_def seds_router_get_network_variable_packed_def Let_def
      case_prod_unfold sounds)

lemma sound_set_variable:
  "seds_router_set_network_variable_packed E w bs r = Some (rc, r') \<Longrightarrow> sound m r \<Longrightarrow> sound m r'"
  "seds_router_seed_managed_variable_packed E w bs r = Some (rc, r') \<Longrightarrow> sound m r \<Longrightarrow> sound m r'"
proof -
  have snds: "S = (rc, r') \<Longrightarrow> sound m (snd S) \<Longrightarrow> sound m r'" for S :: "seds_result \<times> router" by simp
  show "seds_router_set_network_variable_packed E w bs r = Some (rc, r') \<Longrightarrow> sound m r \<Longrightarrow> sound m r'"
    "seds_router_seed_managed_variable_packed E w bs r = Some (rc, r') \<Longrightarrow> sound m r \<Longrightarrow> sound m r'"
    by (auto simp: seds_router_set_network_variable_packed_def seds_router_seed_managed_variable_packed_def Let_def
        case_prod_unfold sounds split: option.splits if_splits dest!: snds)
qed

section \<open>Steps of a router\<close>

inductive router_step :: "env \<Rightarrow> world \<Rightarrow> router \<Rightarrow> router \<Rightarrow> bool" for E w where
  log: "seds_router_log_bytes_ex E w t data len ts queue r = Some (rc, r') \<Longrightarrow> router_step E w r r'"
| receive: "seds_router_receive E w view r = Some (rc, r') \<Longrightarrow> router_step E w r r'"
| receive_serialized: "seds_router_receive_serialized E w bs r = Some (rc, r') \<Longrightarrow> router_step E w r r'"
| receive_from_side: "seds_router_receive_from_side E w j view r = Some (rc, r') \<Longrightarrow> router_step E w r r'"
| receive_serialized_from_side:
    "seds_router_receive_serialized_from_side E w j bs r = Some (rc, r') \<Longrightarrow> router_step E w r r'"
| rx_packet: "seds_router_rx_packet_to_queue E view r = Some (rc, r') \<Longrightarrow> router_step E w r r'"
| rx_serialized: "seds_router_rx_serialized_packet_to_queue E bs r = Some (rc, r') \<Longrightarrow> router_step E w r r'"
| rx_packet_from_side: "seds_router_rx_packet_to_queue_from_side E j view r = Some (rc, r') \<Longrightarrow> router_step E w r r'"
| rx_serialized_from_side:
    "seds_router_rx_serialized_packet_to_queue_from_side E w j bs r = Some (rc, r') \<Longrightarrow> router_step E w r r'"
| transmit: "seds_router_transmit_message E w view r = Some (rc, r') \<Longrightarrow> router_step E w r r'"
| transmit_queue: "seds_router_transmit_message_queue E view r = Some (rc, r') \<Longrightarrow> router_step E w r r'"
| transmit_serialized: "seds_router_transmit_serialized_message E w bs r = Some (rc, r') \<Longrightarrow> router_step E w r r'"
| transmit_serialized_queue:
    "seds_router_transmit_serialized_message_queue E bs r = Some (rc, r') \<Longrightarrow> router_step E w r r'"
| process_tx: "seds_router_process_tx_queue E w r = Some (rc, r') \<Longrightarrow> router_step E w r r'"
| process_rx: "seds_router_process_rx_queue E w r = Some (rc, r') \<Longrightarrow> router_step E w r r'"
| process_all: "seds_router_process_all_queues_with_timeout E w timeout r = Some (rc, r') \<Longrightarrow> router_step E w r r'"
| periodic: "seds_router_periodic E w timeout r = Some (rc, r') \<Longrightarrow> router_step E w r r'"
| periodic_no_timesync: "seds_router_periodic_no_timesync E w timeout r = Some (rc, r') \<Longrightarrow> router_step E w r r'"
| clear_both: "router_step E w r (seds_router_clear_queues r)"
| clear_rx: "router_step E w r (seds_router_clear_rx_queue r)"
| clear_tx: "router_step E w r (seds_router_clear_tx_queue r)"
| announce: "seds_router_announce_discovery E w r = Some (rc, r') \<Longrightarrow> router_step E w r r'"
| poll_discovery: "seds_router_poll_discovery E w r = Some (b, r') \<Longrightarrow> router_step E w r r'"
| poll_timesync: "router_step E w r (snd (seds_router_poll_timesync E w r))"
| configure_timesync: "router_step E w r (seds_router_configure_timesync w b role prio tmo ai ri r)"
| set_time: "router_step E w r (snd (set_network_time_from_fields w y mo d h mi s ns r))"
| get_time: "router_step E w r (snd (seds_router_get_network_time_ms w r))"
| add_serialized: "router_step E w r (snd (seds_router_add_side_serialized nm f rel r))"
| add_packet: "router_step E w r (snd (seds_router_add_side_packet nm f rel r))"
| remove: "router_step E w r (snd (seds_router_remove_side w i r))"
| ingress: "router_step E w r (snd (seds_router_set_side_ingress_enabled w i b r))"
| egress: "router_step E w r (snd (seds_router_set_side_egress_enabled w i b r))"
| link_local: "router_step E w r (snd (seds_router_set_side_link_local_enabled w i b r))"
| set_route: "router_step E w r (seds_router_set_route src dst b r)"
| clear_route: "router_step E w r (seds_router_clear_route src dst r)"
| set_typed_route: "router_step E w r (snd (seds_router_set_typed_route E src t dst b r))"
| clear_typed_route: "router_step E w r (seds_router_clear_typed_route src t dst r)"
| set_mode: "router_step E w r (seds_router_set_source_route_mode src m r)"
| clear_mode: "router_step E w r (seds_router_clear_source_route_mode src r)"
| set_weight: "router_step E w r (seds_router_set_route_weight src dst wt r)"
| clear_weight: "router_step E w r (seds_router_clear_route_weight src dst r)"
| set_priority: "router_step E w r (seds_router_set_route_priority src dst pr r)"
| clear_priority: "router_step E w r (seds_router_clear_route_priority src dst r)"
| set_sender: "router_step E w r (seds_router_set_sender nm r)"
| set_sender_id: "router_step E w r (seds_router_set_sender_id nm r)"
| configure_address: "router_step E w r (snd (seds_router_configure_address am req r))"
| bind_port: "router_step E w r (snd (seds_router_bind_p2p_port port f r))"
| clear_port: "router_step E w r (seds_router_clear_p2p_port port r)"
| bind_stream_port: "router_step E w r (snd (seds_router_bind_p2p_stream_port port f r))"
| clear_stream_port: "router_step E w r (seds_router_clear_p2p_stream_port port r)"
| send_p2p: "router_step E w r (snd (seds_router_send_p2p_to_hostname E w host dp sp body r))"
| send_p2p_address: "router_step E w r (snd (seds_router_send_p2p_to_address E w addr dp sp body r))"
| open_stream: "router_step E w r (snd (snd (seds_router_open_p2p_stream_to_hostname E w host dp sp r)))"
| open_stream_address: "router_step E w r (snd (snd (seds_router_open_p2p_stream_to_address E w addr dp sp r)))"
| stream_send: "router_step E w r (snd (seds_router_send_p2p_stream E w sid body r))"
| stream_close: "router_step E w r (snd (seds_router_close_p2p_stream E w sid r))"
| stream_reset: "router_step E w r (snd (seds_router_reset_p2p_stream E w sid r))"
| enable_variable: "router_step E w r (snd (seds_router_enable_network_variable E t rd wr r))"
| variable_callback: "router_step E w r (snd (seds_router_on_network_variable_update E t cb r))"
| disable_variable: "router_step E w r (seds_router_disable_managed_variable t r)"
| request_variable: "router_step E w r (snd (seds_router_request_managed_variable E w t r))"
| set_variable: "seds_router_set_network_variable_packed E w bs r = Some (rc, r') \<Longrightarrow> router_step E w r r'"
| seed_variable: "seds_router_seed_managed_variable_packed E w bs r = Some (rc, r') \<Longrightarrow> router_step E w r r'"
| variable_length: "router_step E w r (snd (seds_router_get_network_variable_packed_len E w t age r))"
| get_variable: "router_step E w r (snd (seds_router_get_network_variable_packed E w t age null len r))"

lemmas interface_instances =
  seds_router_add_side_serialized_def seds_router_add_side_packet_def seds_router_remove_side_def
  seds_router_set_side_ingress_enabled_def seds_router_set_side_egress_enabled_def
  seds_router_set_side_link_local_enabled_def seds_router_set_route_def seds_router_clear_route_def
  seds_router_set_typed_route_def seds_router_clear_typed_route_def seds_router_set_source_route_mode_def
  seds_router_clear_source_route_mode_def seds_router_set_route_weight_def seds_router_clear_route_weight_def
  seds_router_set_route_priority_def seds_router_clear_route_priority_def set_source_route_mode_def
  clear_source_route_mode_def set_route_weight_def clear_route_weight_def set_route_priority_def
  clear_route_priority_def seds_router_clear_queues_def seds_router_clear_rx_queue_def
  seds_router_clear_tx_queue_def seds_router_set_sender_def seds_router_set_sender_id_def
  seds_router_configure_address_def seds_router_bind_p2p_port_def seds_router_clear_p2p_port_def
  seds_router_bind_p2p_stream_port_def seds_router_clear_p2p_stream_port_def seds_router_send_p2p_stream_def
  seds_router_close_p2p_stream_def seds_router_reset_p2p_stream_def

lemma router_step_sound:
  assumes "router_step E w r r'" "sound m r"
  shows "sound m r'"
proof -
  note steps = sound_log [OF _ assms(2)] sound_receive_calls [OF assms(2)] sound_queue_calls [OF assms(2)]
    sound_process_calls [OF assms(2)] sound_process_all [OF _ assms(2)] sound_poll_discovery(1) [OF _ assms(2)]
    sound_set_variable [OF _ assms(2)]
  from assms(1) show ?thesis
  proof cases
    case announce
    then show ?thesis using assms(2)
      by (auto simp: seds_router_announce_discovery_def queue_discovery_packets_router_def dest: sound_discovery)
  next
    case periodic
    then show ?thesis using sound_process_calls(4) [OF sound_time_calls(1) [OF assms(2)]]
      by (auto simp: seds_router_periodic_def case_prod_unfold Let_def)
  next
    case process_rx
    then show ?thesis using assms(2) by (auto simp: seds_router_process_rx_queue_def dest: sound_drain_rx)
  qed (((erule steps)+)?, simp_all add: interface_instances sounds Let_def assms(2), (erule steps)+)
qed

interpretation routers: step_invariant "router_step E w" "sound m" for E w m
  by unfold_locales (rule router_step_sound)

section \<open>Steps of a relay\<close>

inductive relay_step :: "env \<Rightarrow> world \<Rightarrow> relay \<Rightarrow> relay \<Rightarrow> bool" for E w where
  rx_serialized: "seds_relay_rx_serialized_from_side E w j bs r = Some (rc, r') \<Longrightarrow> relay_step E w r r'"
| rx_packet: "seds_relay_rx_packet_from_side E j view r = Some (rc, r') \<Longrightarrow> relay_step E w r r'"
| process_rx: "seds_relay_process_rx_queue E w r = Some (rc, r') \<Longrightarrow> relay_step E w r r'"
| process_tx: "seds_relay_process_tx_queue E w r = Some (rc, r') \<Longrightarrow> relay_step E w r r'"
| process_all: "seds_relay_process_all_queues_with_timeout E w timeout r = Some (rc, r') \<Longrightarrow> relay_step E w r r'"
| periodic: "seds_relay_periodic E w timeout r = Some (rc, r') \<Longrightarrow> relay_step E w r r'"
| announce: "seds_relay_announce_discovery E w r = Some (rc, r') \<Longrightarrow> relay_step E w r r'"
| poll_discovery: "seds_relay_poll_discovery E w r = Some (b, r') \<Longrightarrow> relay_step E w r r'"
| clear_both: "relay_step E w r (seds_relay_clear_queues r)"
| add_serialized: "relay_step E w r (snd (seds_relay_add_side_serialized nm f rel r))"
| add_packet: "relay_step E w r (snd (seds_relay_add_side_packet nm f rel r))"
| remove: "relay_step E w r (snd (seds_relay_remove_side w i r))"
| ingress: "relay_step E w r (snd (seds_relay_set_side_ingress_enabled w i b r))"
| egress: "relay_step E w r (snd (seds_relay_set_side_egress_enabled w i b r))"
| link_local: "relay_step E w r (snd (seds_relay_set_side_link_local_enabled w i b r))"
| set_route: "relay_step E w r (seds_relay_set_route src dst b r)"
| clear_route: "relay_step E w r (seds_relay_clear_route src dst r)"
| set_typed_route: "relay_step E w r (snd (seds_relay_set_typed_route E src t dst b r))"
| clear_typed_route: "relay_step E w r (seds_relay_clear_typed_route src t dst r)"
| set_mode: "relay_step E w r (seds_relay_set_source_route_mode src m r)"
| clear_mode: "relay_step E w r (seds_relay_clear_source_route_mode src r)"
| set_weight: "relay_step E w r (seds_relay_set_route_weight src dst wt r)"
| clear_weight: "relay_step E w r (seds_relay_clear_route_weight src dst r)"
| set_priority: "relay_step E w r (seds_relay_set_route_priority src dst pr r)"
| clear_priority: "relay_step E w r (seds_relay_clear_route_priority src dst r)"

lemmas relay_interface_instances =
  seds_relay_add_side_serialized_def seds_relay_add_side_packet_def seds_relay_remove_side_def
  seds_relay_set_side_ingress_enabled_def seds_relay_set_side_egress_enabled_def
  seds_relay_set_side_link_local_enabled_def seds_relay_set_route_def seds_relay_clear_route_def
  seds_relay_set_typed_route_def seds_relay_clear_typed_route_def seds_relay_set_source_route_mode_def
  seds_relay_clear_source_route_mode_def seds_relay_set_route_weight_def seds_relay_clear_route_weight_def
  seds_relay_set_route_priority_def seds_relay_clear_route_priority_def set_source_route_mode_def
  clear_source_route_mode_def set_route_weight_def clear_route_weight_def set_route_priority_def
  clear_route_priority_def seds_relay_clear_queues_def

lemma sound_relay_dedupe:
  assumes "relay_dedupe E j frame bs r = Some (Some r')" "sound m r"
  shows "sound m r'"
proof -
  have push: "sound m (r\<lparr>recent_ids := ids, recent_set := st\<rparr>)"
    if "push_recent (max_recent_rx_ids (memory r)) (recent_ids r, recent_set r) pid = Some (ids, st)" for pid ids st
    using push_recent_spec [of "max_recent_rx_ids (memory r)" "(recent_ids r, recent_set r)" pid] that assms(2)
    by (auto simp: sound_def owner_queues_inv_def owner_tx_def owner_rx_def)
  show ?thesis using assms push
    by (auto simp: relay_dedupe_def bind_eq_Some_conv split: if_splits option.splits)
qed

lemma relay_rx_cases:
  assumes "seds_relay_rx_serialized_from_side E w j bs r = Some (rc, r')"
  obtains (refused) "r' = r" | (handled) frame pkt where "r' = snd (relay_ingress E w j frame pkt bs r)"
  | (fresh) frame r1 where "relay_dedupe E j frame bs r = Some (Some r1)"
      "r' = r1 \<or> (\<exists>pkt. r' = snd (relay_ingress E w j frame pkt bs r1) \<or>
        (\<exists>i. r' = snd (offer_rx i (snd (relay_ingress E w j frame pkt bs r1))) \<or>
             r' = enqueue_released (snd (offer_rx i (snd (relay_ingress E w j frame pkt bs r1))))))"
proof -
  obtain f where f: "peek_frame_info E bs True = Some f"
    using assms by (auto simp: seds_relay_rx_serialized_from_side_def bind_eq_Some_conv)
  show thesis
  proof (cases "\<exists>frame. f = Some frame \<and> ingress_side j r \<and> \<not> ack_only frame")
    case False
    then show thesis using assms f refused handled
      by (auto simp: seds_relay_rx_serialized_from_side_def split: option.splits if_splits)
  next
    case True
    then obtain frame where fr: "f = Some frame" "ingress_side j r" "\<not> ack_only frame" by blast
    then obtain d where d: "relay_dedupe E j frame bs r = Some d"
      using assms f by (auto simp: seds_relay_rx_serialized_from_side_def bind_eq_Some_conv)
    show thesis
    proof (cases d)
      case None
      then show thesis using assms f fr d refused by (simp add: seds_relay_rx_serialized_from_side_def)
    next
      case (Some r1)
      then obtain p where p: "deserialize_packet E bs = Some p"
        using assms f fr d by (auto simp: seds_relay_rx_serialized_from_side_def bind_eq_Some_conv)
      have "r' = r1 \<or> (\<exists>pkt. r' = snd (relay_ingress E w j frame pkt bs r1) \<or>
        (\<exists>i. r' = snd (offer_rx i (snd (relay_ingress E w j frame pkt bs r1))) \<or>
             r' = enqueue_released (snd (offer_rx i (snd (relay_ingress E w j frame pkt bs r1))))))"
        using assms f fr d Some p
        by (cases p) (auto simp: seds_relay_rx_serialized_from_side_def Let_def case_prod_unfold split: if_splits, metis snd_conv)
      then show thesis using fresh d Some by blast
    qed
  qed
qed

lemma sound_relay_rx:
  assumes "seds_relay_rx_serialized_from_side E w j bs r = Some (rc, r')" "sound m r"
  shows "sound m r'"
proof -
  have i: "sound m x \<Longrightarrow> sound m (snd (relay_ingress E w j frame pkt bs x))" for frame pkt x
    using sound_ingress by (simp add: relay_ingress_def)
  from assms(1) show ?thesis
    by (cases rule: relay_rx_cases) (use assms(2) i sound_relay_dedupe sound_offers(2) sound_enqueue_released in blast)+
qed

lemma relay_step_sound:
  assumes "relay_step E w r r'" "sound m r"
  shows "sound m r'"
proof -
  have rx: "sound m r'" if "seds_relay_rx_packet_from_side E j view r = Some (rc, r')" for j view rc
    using that assms(2) sound_then_enforce [OF sound_offers(2) [OF assms(2)]]
    by (auto simp: seds_relay_rx_packet_from_side_def with_view_from_side_def bind_eq_Some_conv split: option.splits if_splits)
      (metis snd_conv)
  have all: "sound m r'" if "seds_relay_process_all_queues_with_timeout E w timeout x = Some (rc, r')" "sound m x" for timeout rc x
    using that by (auto simp: seds_relay_process_all_queues_with_timeout_def dest: sound_relay_alternate)
  have rest: "sound m r'" if "seds_relay_process_rx_queue E w r = Some (rc, r') \<or> seds_relay_process_tx_queue E w r = Some (rc, r') \<or>
      seds_relay_periodic E w timeout r = Some (rc, r') \<or> seds_relay_announce_discovery E w r = Some (rc, r')" for timeout rc
    using that assms(2) all sound_poll_discovery(2) sound_relay_drain_rx sound_relay_drain_tx [OF _ sound_timeouts(1)] sound_discovery
    by (auto simp: seds_relay_process_rx_queue_def seds_relay_process_tx_queue_def seds_relay_periodic_def
        seds_relay_announce_discovery_def queue_discovery_packets_relay_def bind_eq_Some_conv)
  from assms(1) show ?thesis
    by cases (use rx all rest assms(2) sound_relay_rx sound_poll_discovery(2) in
        \<open>blast | simp add: relay_interface_instances sounds\<close>)+
qed

interpretation relays: step_invariant "relay_step E w" "sound m" for E w m
  by unfold_locales (rule relay_step_sound)

section \<open>The invariant of every node\<close>

lemma validate_memory:
  "validate_runtime_memory_config cfg \<Longrightarrow> 0 < max_recent_rx_ids cfg"
  by (simp add: validate_runtime_memory_config_def)

lemma new_router_sound:
  assumes "new_router_impl E md handlers e2e mem = Some (E', Some r)"
    and "unat (max_queue_budget (case mem of None \<Rightarrow> default_runtime_memory_config | Some c \<Rightarrow> c)) < 2 ^ 63"
  shows "sound (case mem of None \<Rightarrow> default_runtime_memory_config | Some c \<Rightarrow> c) r"
  using assms validate_memory
  by (auto simp: new_router_impl_def SedsRouter_def sound_def owner_queues_inv_def owner_tx_def owner_rx_def queue_inv_def
      recent_inv_def Let_def split: if_splits)

lemma new_relay_sound:
  assumes "seds_relay_new_with_memory mem = Some r"
    and "unat (max_queue_budget (case mem of None \<Rightarrow> default_runtime_memory_config | Some c \<Rightarrow> c)) < 2 ^ 63"
  shows "sound (case mem of None \<Rightarrow> default_runtime_memory_config | Some c \<Rightarrow> c) r"
  using assms validate_memory
  by (auto simp: seds_relay_new_with_memory_def sound_def owner_queues_inv_def owner_tx_def owner_rx_def queue_inv_def
      recent_inv_def Let_def split: if_splits)

text \<open>What the invariant says of the fields.\<close>

lemma sound_fields:
  assumes "sound m r"
  shows "unat (tx_queue_bytes r) = total_cost byte_cost_tx (tx_queue r) \<and>
    unat (rx_queue_bytes r) = total_cost byte_cost_rx (rx_queue r) \<and>
    tx_queue_bytes r \<le> max_queue_budget m \<and> rx_queue_bytes r \<le> max_queue_budget m \<and>
    distinct (recent_ids r) \<and> set (recent_set r) = set (recent_ids r) \<and> length (recent_ids r) \<le> max_recent_rx_ids m"
  using assms
  by (auto simp: sound_def owner_queues_inv_def owner_tx_def owner_rx_def queue_inv_def recent_inv_def word_le_nat_alt)

text \<open>
  (C5) The invariant of a router. After any sequence of calls of the interface on a new router, with
  any arguments, any clock and any answers of the application, both queue counters are exactly
  the cost of the queued items and within the configured budget, and the cache of recent
  identities holds at most the configured number, without repetition. The budget is assumed to be
  below \<open>2\<^sup>6\<^sup>3\<close> bytes.
\<close>

theorem router_invariant:
  assumes "new_router_impl E md handlers e2e mem = Some (E', Some r0)" "rtranclp (router_step E' w) r0 r"
    and "m = (case mem of None \<Rightarrow> default_runtime_memory_config | Some c \<Rightarrow> c)" "unat (max_queue_budget m) < 2 ^ 63"
  shows "unat (tx_queue_bytes r) = total_cost byte_cost_tx (tx_queue r) \<and>
    unat (rx_queue_bytes r) = total_cost byte_cost_rx (rx_queue r) \<and>
    tx_queue_bytes r \<le> max_queue_budget m \<and> rx_queue_bytes r \<le> max_queue_budget m \<and>
    distinct (recent_ids r) \<and> set (recent_set r) = set (recent_ids r) \<and> length (recent_ids r) \<le> max_recent_rx_ids m"
proof -
  have "sound m r0" using new_router_sound [OF assms(1)] assms(3,4) by simp
  with assms(2) have "sound m r" by (rule routers.inv_steps)
  then show ?thesis by (rule sound_fields)
qed

lemma get_network_time_node: "snd (seds_router_get_network_time w r) = snd (seds_router_get_network_time_ms w r)"
  by (simp add: seds_router_get_network_time_def split: prod.splits sum.splits)

lemma new_router_sample:
  obtains r0 where "new_router_impl sample_env Seds_RM_Sink [] 2 None = Some (sample_env, Some r0)"
  by (simp add: new_router_impl_def valid_router_e2e_mode_def validate_runtime_memory_config_def
      default_runtime_memory_config_def)

lemma default_budget: "unat (max_queue_budget default_runtime_memory_config) < 2 ^ 63"
  by (simp add: default_runtime_memory_config_def)

theorem router_invariant_witness:
  "\<exists>r0 rc r. new_router_impl sample_env Seds_RM_Sink [] 2 None = Some (sample_env, Some r0) \<and>
     seds_router_log_bytes_ex sample_env sample_world COMMAND (Some [1, 2, 3]) 3 None True r0 = Some (rc, r) \<and>
     unat (tx_queue_bytes r) = total_cost byte_cost_tx (tx_queue r)"
proof -
  obtain r0 where r0: "new_router_impl sample_env Seds_RM_Sink [] 2 None = Some (sample_env, Some r0)"
    using new_router_sample .
  have "\<exists>rc r. seds_router_log_bytes_ex sample_env sample_world COMMAND (Some [1, 2, 3]) 3 None True r0 = Some (rc, r)"
    by (simp add: seds_router_log_bytes_ex_def read_ptr_def Let_def)
  then obtain rc r where l: "seds_router_log_bytes_ex sample_env sample_world COMMAND (Some [1, 2, 3]) 3 None True r0 = Some (rc, r)"
    by blast
  have "rtranclp (router_step sample_env sample_world) r0 r" by (rule r_into_rtranclp) (rule router_step.log [OF l])
  from router_invariant [OF r0 this refl] show ?thesis using r0 l default_budget by auto
qed

text \<open>
  The invariant of a relay. After any sequence of calls of its interface on a new relay both
  queue counters are exact and within the budget, and the cache of recent identities is
  bounded and free of repetitions.
\<close>

theorem relay_invariant:
  assumes "seds_relay_new_with_memory mem = Some r0" "rtranclp (relay_step E w) r0 r"
    and "m = (case mem of None \<Rightarrow> default_runtime_memory_config | Some c \<Rightarrow> c)" "unat (max_queue_budget m) < 2 ^ 63"
  shows "unat (tx_queue_bytes r) = total_cost byte_cost_tx (tx_queue r) \<and>
    unat (rx_queue_bytes r) = total_cost byte_cost_rx (rx_queue r) \<and>
    tx_queue_bytes r \<le> max_queue_budget m \<and> rx_queue_bytes r \<le> max_queue_budget m \<and>
    distinct (recent_ids r) \<and> set (recent_set r) = set (recent_ids r) \<and> length (recent_ids r) \<le> max_recent_rx_ids m"
proof -
  have "sound m r0" using new_relay_sound [OF assms(1)] assms(3,4) by simp
  with assms(2) have "sound m r" by (rule relays.inv_steps)
  then show ?thesis by (rule sound_fields)
qed

theorem relay_invariant_witness:
  "\<exists>r0. seds_relay_new_with_memory None = Some r0 \<and>
     (let r = snd (seds_relay_add_side_serialized ''UART'' 1 True r0) in
      unat (tx_queue_bytes r) = total_cost byte_cost_tx (tx_queue r) \<and> length (recent_ids r) \<le> 128)"
proof -
  obtain r0 where r0: "seds_relay_new_with_memory None = Some r0"
    by (simp add: seds_relay_new_with_memory_def validate_runtime_memory_config_def default_runtime_memory_config_def)
  let ?r = "snd (seds_relay_add_side_serialized ''UART'' 1 True r0)"
  have "rtranclp (relay_step sample_env sample_world) r0 ?r" by (rule r_into_rtranclp) (rule relay_step.add_serialized)
  from relay_invariant [OF r0 this refl] have "unat (tx_queue_bytes ?r) = total_cost byte_cost_tx (tx_queue ?r)"
    "length (recent_ids ?r) \<le> 128"
    using default_budget by (simp_all add: default_runtime_memory_config_def)
  then show ?thesis using r0 by (simp add: Let_def)
qed

end
