(* ===== verification/Interface_Facts.thy ===== *)
theory Interface_Facts
  imports Reachable
begin

text \<open>
  Single calls of the router's interface: the transmit queue is worked off, packets logged
  while a transmission is under way, packets dropped by the shared budget, and the values of
  managed variables.
\<close>

section \<open>Working off the transmit queue\<close>

lemma idle_router_updates [simp]:
  "idle (r\<lparr>end_to_end_reliable_tx := e\<rparr>) = idle r" "idle (r\<lparr>end_to_end_reliable_tx_order := ord\<rparr>) = idle r"
  for r :: router
  by (simp_all add: idle_def)

lemma idle_dispatch:
  "idle (snd (dispatch_local_packet_handlers E w pkt ls r)) = idle r"
  "idle (dispatch_local_serialized_handlers w eps bs ls r) = idle r"
proof -
  have att: "idle (snd (attempt_handler n w ev rc x)) = idle x" for n ev rc and x :: "'a owner_scheme"
    by (induction n arbitrary: rc x) (simp_all add: call_back_def Let_def)
  have "idle (snd (deliver_packet_handlers E w pkt ls rest f x)) = idle x" for rest f and x :: "'a owner_scheme"
  proof (induction rest arbitrary: f x)
    case (Cons l rest)
    then show ?case using att by (simp add: Let_def case_prod_unfold split: option.split)
  qed simp
  then show "idle (snd (dispatch_local_packet_handlers E w pkt ls r)) = idle r"
    by (simp add: dispatch_local_packet_handlers_def Let_def case_prod_unfold notify_handlers_calls)
  show "idle (dispatch_local_serialized_handlers w eps bs ls r) = idle r" by (simp add: serialized_handlers_calls)
qed

lemma idle_report: "idle (report_tx_error E w pkt s rc r) = idle r"
  by (simp add: report_tx_error_def dispatch_local_from_packet_def case_prod_unfold Let_def idle_dispatch)

text \<open>A deferral is reported with its flag already cleared.\<close>

lemma transmit_to_deferred:
  assumes "transmit_to E w pkt ts failed r = (SEDS_IO, r')"
  shows "\<not> side_tx_deferred r'"
  using assms
proof (induction ts arbitrary: failed r)
  case (Cons t ts)
  then show ?case by (auto simp: Let_def case_prod_unfold split: if_splits option.splits)
qed (simp split: if_splits)

lemma transmit_item_deferred:
  assumes "transmit_item_router E w item r = Some (SEDS_IO, r')"
  shows "\<not> side_tx_deferred r'"
  using assms transmit_to_deferred
  by (auto simp: transmit_item_router_def Let_def case_prod_unfold bind_eq_Some_conv split: if_splits)

lemma idle_transmit_to:
  assumes "idle r" "transmit_to E w pkt ts failed r = (rc, r')"
  shows "idle r' \<and> (rc = SEDS_OK \<or> rc = SEDS_HANDLER_ERROR)"
  using assms
proof (induction ts arbitrary: failed r)
  case (Cons t ts)
  obtain c r1 where s: "send_serialized_with_reliable E w t pkt r = (c, r1)" by fastforce
  have i1: "idle r1" using idle_send_serialized [OF Cons.prems(1), of E w t pkt] s by simp
  then have "\<not> side_tx_deferred r1" by (simp add: idle_def)
  moreover have "idle r' \<and> (rc = SEDS_OK \<or> rc = SEDS_HANDLER_ERROR)"
    if "transmit_to E w pkt ts b x = (rc, r')" "idle x" for b x
    using Cons.IH [OF that(2,1)] .
  ultimately show ?case using Cons.prems i1
    by (auto simp: s Let_def call_back_def idle_report split: if_splits option.splits)
qed (auto split: if_splits)

lemma idle_transmit_item_router:
  assumes "idle r" "transmit_item_router E w item r = Some (rc, r')"
  shows "idle r' \<and> (rc = SEDS_OK \<or> rc = SEDS_HANDLER_ERROR)"
proof -
  obtain c r1 where d: "(if deliver_local item then dispatch_local_packet_handlers E w (tx_pkt item) (locals r) r
      else (SEDS_OK, r)) = (c, r1)" by fastforce
  have i1: "idle r1" using idle_dispatch(1) [of E w "tx_pkt item" "locals r" r] assms(1) d by (auto split: if_splits)
  show ?thesis
  proof (cases "c = SEDS_OK")
    case False
    then show ?thesis using assms(2) i1 d by (simp add: transmit_item_router_def)
  next
    case True
    define r2 where "r2 = (if deliver_local item then dispatch_local_serialized_handlers w (endpoints (tx_pkt item))
      (serialize_packet E (tx_pkt item)) (locals r1) r1 else r1)"
    have i2: "idle r2" using i1 by (simp add: r2_def idle_dispatch)
    obtain preferred targets r3 r4 where t: "choose_targets E w preferred item r2 = (targets, r3)"
      "track_end_to_end E w (tx_pkt item) targets r3 = Some r4" "transmit_to E w (tx_pkt item) targets False r4 = (rc, r')"
      using assms True by (auto simp: transmit_item_router_def d Let_def r2_def [symmetric] bind_eq_Some_conv split: prod.splits)
    have "idle r3" using idle_choose_targets [of E w preferred item r2] t(1) i2 by simp
    then have "idle r4" using t(2)
      by (auto simp: track_end_to_end_def remember_end_to_end_reliable_tx_def Let_def bind_eq_Some_conv case_prod_unfold
          split: if_splits)
    then show ?thesis by (rule idle_transmit_to [OF _ t(3)])
  qed
qed

lemma drain_tx_idle:
  "idle r \<Longrightarrow> drain_tx E w r = Some (rc, r') \<Longrightarrow> (rc = SEDS_OK \<and> tx_queue r' = []) \<or> rc = SEDS_HANDLER_ERROR"
proof (induction E w r rule: drain_tx.induct)
  case (1 E w r)
  show ?case
  proof (cases "tx_queue r")
    case Nil
    then show ?thesis using "1.prems"(2) by (auto simp: drain_tx.simps [of E w r] pop_tx_def pop_queue_def owner_tx_def)
  next
    case (Cons item q)
    let ?Q = "(q, tx_queue_bytes r - byte_cost_tx item)"
    have p: "pop_tx (owner_tx r) = (Some item, ?Q)" using Cons by (simp add: pop_tx_def pop_queue_def owner_tx_def)
    then obtain c r1 where t: "transmit_item_router E w item (set_tx ?Q r) = Some (c, r1)"
      using "1.prems"(2) by (auto simp: drain_tx.simps [of E w r] router_send_def split: option.splits)
    have i: "idle r1" "c = SEDS_OK \<or> c = SEDS_HANDLER_ERROR" using idle_transmit_item_router [OF _ t] "1.prems"(1) by simp_all
    then show ?thesis
      using "1.IH" [OF p [symmetric] refl, of "(None, r1)" None r1] "1.prems"(2) t
      by (auto simp: drain_tx.simps [of E w r] p router_send_def tx_result_def)
  qed
qed

text \<open>Every packet that may be sent has named endpoints: the queued ones and those awaiting acknowledgement.\<close>

definition pending_named :: "env \<Rightarrow> router \<Rightarrow> bool" where
  "pending_named E r \<longleftrightarrow>
     list_all (\<lambda>i. named_endpoints E (endpoints (tx_pkt i))) (tx_queue r) \<and>
     list_all (\<lambda>(_, e). named_endpoints E (endpoints (e2e_pkt e))) (end_to_end_reliable_tx r)"

lemma push_tx_front_items: "set (tx_queue (push_tx_front item r)) \<subseteq> insert item (set (tx_queue r))"
proof -
  have "set (fst (evict c cost budget q b)) \<subseteq> set q" for c :: "tx_item \<Rightarrow> u64" and cost budget q b
    by (induction q arbitrary: b) auto
  from subsetD [OF this] show ?thesis
    by (auto simp: push_tx_front_def set_tx_def enqueue_tx_front_def enqueue_bounded_def owner_tx_def Let_def case_prod_unfold)
qed

lemma list_all_mput: "list_all P m \<Longrightarrow> P (k, v) \<Longrightarrow> list_all P (mput k v m)"
  by (induction m) auto

lemma pending_named_push:
  assumes "pending_named E r" "named_endpoints E (endpoints (tx_pkt i))"
  shows "pending_named E (push_tx_front i r)"
  using assms subsetD [OF push_tx_front_items [of i r]]
  by (auto simp: pending_named_def list_all_iff push_tx_front_def set_tx_def)

lemma pending_named_requeue:
  assumes "pending_named E r"
  shows "pending_named E (requeue_pending now r pid)"
proof (cases "map_of (end_to_end_reliable_tx r) pid")
  case None
  then show ?thesis using assms by (simp add: requeue_pending_def)
next
  case (Some e)
  have n: "named_endpoints E (endpoints (e2e_pkt e))"
    using map_of_SomeD [OF Some] assms by (auto simp: pending_named_def list_all_iff)
  have fold: "pending_named E (foldl (\<lambda>r s. push_tx_front (item s) r) x ts)" if "pending_named E x" "\<And>s. tx_pkt (item s) = e2e_pkt e"
    for item :: "i32 \<Rightarrow> tx_item" and ts x
    using that by (induction ts arbitrary: x) (simp_all add: pending_named_push n)
  have put: "pending_named E (x\<lparr>end_to_end_reliable_tx := mput pid (e\<lparr>e2e_last_send_ms := now, e2e_queued := False\<rparr>) (end_to_end_reliable_tx x)\<rparr>)"
    if "pending_named E x" for x using that n by (auto simp: pending_named_def intro: list_all_mput)
  have er: "pending_named E (r\<lparr>end_to_end_reliable_tx := merase pid (end_to_end_reliable_tx r)\<rparr>)"
    using assms by (auto simp: pending_named_def list_all_iff AList.delete_eq)
  show ?thesis using Some er put fold [OF assms] pending_named_push n
    by (simp add: requeue_pending_def Let_def)
qed

lemma pending_named_timeouts:
  assumes "pending_named E r"
  shows "pending_named E (router_timeouts E w r)"
proof -
  define r0 where "r0 = do_reliable_timeouts E w r"
  have seq: "end_to_end_reliable_tx (snd (timeout_seq E w now f S sq)) = end_to_end_reliable_tx (snd S)" for now f sq S
    by (simp add: timeout_seq_def call_serialized_tx_def call_back_def Let_def case_prod_unfold split: option.split)
  have seqs: "end_to_end_reliable_tx (snd (foldl (timeout_seq E w now f) S sqs)) = end_to_end_reliable_tx (snd S)" for now f sqs S
    by (induction sqs arbitrary: S) (simp_all add: seq)
  have key: "end_to_end_reliable_tx (timeout_key E w now x k) = end_to_end_reliable_tx x" for now x k
    by (simp add: timeout_key_def seqs Let_def case_prod_unfold split: option.split)
  have "end_to_end_reliable_tx (foldl (timeout_key E w now) x ks) = end_to_end_reliable_tx x" for now x ks
    by (induction ks arbitrary: x) (simp_all add: key)
  then have "end_to_end_reliable_tx r0 = end_to_end_reliable_tx r" by (simp add: r0_def do_reliable_timeouts_def)
  then have n0: "pending_named E r0"
    using assms untouched_D(1) [OF untouched_reliable_timeouts [of r E w]] by (simp add: pending_named_def r0_def)
  define r1 where "r1 = reconcile_end_to_end_reliable_destinations E w r0"
  have n1: "pending_named E (r1\<lparr>end_to_end_reliable_tx := snd (mark_due now (end_to_end_reliable_tx r1))\<rparr>)" for now
    using n0 by (auto simp: pending_named_def list_all_iff r1_def reconcile_end_to_end_reliable_destinations_def mark_due_def)
  have "pending_named E (foldl (requeue_pending now) x pids)" if "pending_named E x" for now x pids
    using that by (induction pids arbitrary: x) (simp_all add: pending_named_requeue)
  then show ?thesis using n1 [of "now_ms w r0"]
    by (simp add: router_timeouts_def process_end_to_end_reliable_timeouts_def Let_def case_prod_unfold r0_def [symmetric]
        r1_def [symmetric])
qed

lemma idle_router_timeouts: "idle r \<Longrightarrow> idle (router_timeouts E w r)"
proof -
  have rq: "idle (requeue_pending now x pid) = idle x" for now x pid
  proof -
    have "idle (foldl (\<lambda>r s. push_tx_front (item s) r) y ts) = idle y" for item :: "i32 \<Rightarrow> tx_item" and ts and y :: router
      by (induction ts arbitrary: y) simp_all
    then show ?thesis by (simp add: requeue_pending_def Let_def split: option.split)
  qed
  have "idle (foldl (requeue_pending now) x pids) = idle x" for now x pids
    by (induction pids arbitrary: x) (simp_all add: rq)
  then show "idle r \<Longrightarrow> idle (router_timeouts E w r)"
    using idle_reliable_timeouts [of r E w]
    by (simp add: router_timeouts_def process_end_to_end_reliable_timeouts_def reconcile_end_to_end_reliable_destinations_def
        Let_def case_prod_unfold)
qed

lemma transmit_item_router_named:
  assumes "named_endpoints E (endpoints (tx_pkt item))"
  shows "transmit_item_router E w item r \<noteq> None"
proof -
  obtain pid where "packet_id E (tx_pkt item) = Some pid" using packet_id_named(1) [OF assms] by auto
  then have "track_end_to_end E w (tx_pkt item) targets x \<noteq> None" for targets x by (simp add: track_end_to_end_def Let_def)
  moreover define g where "g = (\<lambda>targets x. the (track_end_to_end E w (tx_pkt item) targets x))"
  ultimately have "track_end_to_end E w (tx_pkt item) targets x = Some (g targets x)" for targets x by simp
  then show ?thesis by (simp add: transmit_item_router_def Let_def case_prod_unfold)
qed

lemma drain_tx_returns:
  "list_all (\<lambda>i. named_endpoints E (endpoints (tx_pkt i))) (tx_queue r) \<Longrightarrow> drain_tx E w r \<noteq> None"
proof (induction E w r rule: drain_tx.induct)
  case (1 E w r)
  show ?case
  proof (cases "tx_queue r")
    case Nil
    then show ?thesis by (simp add: drain_tx.simps [of E w r] pop_tx_def pop_queue_def owner_tx_def)
  next
    case (Cons item q)
    let ?Q = "(q, tx_queue_bytes r - byte_cost_tx item)"
    have p: "pop_tx (owner_tx r) = (Some item, ?Q)" using Cons by (simp add: pop_tx_def pop_queue_def owner_tx_def)
    obtain c r1 where t: "transmit_item_router E w item (set_tx ?Q r) = Some (c, r1)"
      using transmit_item_router_named [of E item w "set_tx ?Q r"] "1.prems" Cons by auto
    have "tx_queue r1 = q" using untouched_D(1) [OF transmit_item_router_untouched [OF t]] by simp
    then show ?thesis
      using "1.IH" [OF p [symmetric] refl, of "(None, r1)" None r1] "1.prems" t Cons
      by (auto simp: drain_tx.simps [of E w r] p router_send_def tx_result_def)
  qed
qed

text \<open>
  (C16) The transmit queue is worked off. Called while no transmission is under way, with packets
  whose endpoints have names, \<open>seds_router_process_tx_queue\<close> returns: with success and an empty
  transmit queue, or with a handler error of a side or local handler.
\<close>

theorem transmit_queue_worked_off:
  assumes "idle r" "pending_named E r"
  shows "\<exists>rc r'. seds_router_process_tx_queue E w r = Some (rc, r') \<and>
    ((rc = SEDS_OK \<and> tx_queue r' = []) \<or> rc = SEDS_HANDLER_ERROR)"
proof -
  let ?r = "router_timeouts E w r"
  have "drain_tx E w ?r \<noteq> None"
    using pending_named_timeouts [OF assms(2)] by (intro drain_tx_returns) (simp add: pending_named_def)
  then obtain rc r' where d: "drain_tx E w ?r = Some (rc, r')" by auto
  from drain_tx_idle [OF idle_router_timeouts [OF assms(1)] d] d show ?thesis
    by (simp add: seds_router_process_tx_queue_def)
qed

theorem transmit_queue_worked_off_witness:
  "\<exists>rc r'. seds_router_process_tx_queue sample_env sample_world
       (sample_station\<lparr>tx_queue := [sample_item command_packet]\<rparr>) = Some (rc, r') \<and>
     ((rc = SEDS_OK \<and> tx_queue r' = []) \<or> rc = SEDS_HANDLER_ERROR)"
proof -
  let ?r = "sample_station\<lparr>tx_queue := [sample_item command_packet]\<rparr>"
  have "idle ?r" "pending_named sample_env ?r"
    using command_ordinary(2)
    by (simp_all add: idle_def pending_named_def sample_item_def sample_station_def sample_router_def sample_owner_def
        owner.defs router.defs)
  then show ?thesis by (rule transmit_queue_worked_off)
qed

section \<open>Deferred transmissions\<close>

text \<open>
  (C31) A packet logged during a transmission is lost. When a side cannot transmit because another
  transmission is under way, \<open>seds_router_process_tx_queue\<close> puts the item back at the front of
  the queue and reports success; the loop of \<open>seds_router_log_bytes_ex\<close> finds the flag it
  tests already cleared, reports \<open>SEDS_IO\<close> and drops the item.
\<close>

theorem deferred_log_lost:
  assumes "transmit_item_router E w item (set_tx Q r) = Some (SEDS_IO, r')"
  shows "router_send E w item Q r = Some (Some SEDS_OK, push_tx_front item r') \<and>
    log_send E w item Q r = Some (Some SEDS_IO, r') \<and> tx_queue r' = fst Q"
  using assms transmit_item_deferred [OF assms] untouched_D(1) [OF transmit_item_router_untouched [OF assms]]
  by (simp add: router_send_def log_send_def tx_result_def)

theorem deferred_log_lost_witness:
  "\<exists>r'. log_send sample_env sample_world (control_item gps_packet 0) ([], 0) (sample_station\<lparr>side_tx_active := True\<rparr>) =
     Some (Some SEDS_IO, r') \<and> tx_queue r' = []"
proof -
  let ?r = "sample_station\<lparr>side_tx_active := True\<rparr>"
  have "sides sample_station \<noteq> []" by (simp add: sample_station_def sample_router_def sample_owner_def owner.defs)
  then have "\<exists>r'. transmit_item_router sample_env sample_world (control_item gps_packet 0) (set_tx ([], 0) ?r) = Some (SEDS_IO, r')"
    by (simp add: transmit_item_router_def control_item_def gps_packet_def choose_targets_def select_destinations_def
        track_end_to_end_def is_reliable_type_def ti_reliable_def sample_type_at in_range_def set_tx_def sample_side_def
        send_serialized_with_reliable_def call_serialized_tx_def Let_def)
  then obtain r' where t: "transmit_item_router sample_env sample_world (control_item gps_packet 0) (set_tx ([], 0) ?r) =
      Some (SEDS_IO, r')" ..
  from deferred_log_lost [OF t] show ?thesis by simp
qed

section \<open>The shared budget\<close>

text \<open>
  A packet reported as queued may be gone. The shared budget drops from the fronts of the two
  queues, taking the receive queue only while it is at least as big: a packet logged into an
  empty transmit queue that is bigger than everything in the receive queue, and does not fit
  beside it, is reported as \<open>SEDS_OK\<close> and dropped by the same call.
\<close>

theorem accepted_log_dropped:
  assumes "valid_type E t" "validate_payload E t (length pl)" "tx_queue r = []" "tx_queue_bytes r = 0"
    and "i = \<lparr>tx_pkt = \<lparr>ty = t, sender = r_sender r, endpoints = ti_endpoints (type_at E t), timestamp = ts, payload = pl\<rparr>,
              tx_src_side = None, tx_dst_side = None, deliver_local = True\<rparr>"
    and "byte_cost_tx i \<le> max_queue_budget (memory r)" "rx_queue_bytes r < byte_cost_tx i"
    and "max_queue_budget (memory r) < rx_queue_bytes r + byte_cost_tx i" "rx_queue_bytes r \<le> max_queue_budget (memory r)"
  shows "\<exists>r'. seds_router_log_bytes_ex E w t (Some pl) (length pl) (Some ts) True r = Some (SEDS_OK, r') \<and>
    tx_queue r' = [] \<and> rx_queue r' = rx_queue r"
proof -
  let ?b = "max_queue_budget (memory r)"
  have o: "offer_tx i r = (SEDS_OK, set_tx ([i], byte_cost_tx i) r)"
    using assms(3,4,6) by (simp add: offer_tx_def enqueue_tx_def enqueue_bounded_def owner_tx_def Let_def not_less)
  have "enforce_shared_queue_budget ?b (rx_queue r, rx_queue_bytes r) ([i], byte_cost_tx i) =
      ((rx_queue r, rx_queue_bytes r), ([], 0))"
    using assms(7,8,9) enforce_shared_queue_budget.simps [of ?b "rx_queue r" "rx_queue_bytes r" "[i]" "byte_cost_tx i"]
      enforce_shared_queue_budget.simps [of ?b "rx_queue r" "rx_queue_bytes r" "[]" 0]
    by (simp add: not_less [symmetric])
  then have "enforce_budget (set_tx ([i], byte_cost_tx i) r) = set_rx (rx_queue r, rx_queue_bytes r) (set_tx ([], 0) (set_tx ([i], byte_cost_tx i) r))"
    by (simp add: enforce_budget_def owner_rx_def owner_tx_def set_tx_def)
  then have "seds_router_log_bytes_ex E w t (Some pl) (length pl) (Some ts) True r =
      Some (SEDS_OK, set_rx (rx_queue r, rx_queue_bytes r) (set_tx ([], 0) (set_tx ([i], byte_cost_tx i) r)))"
    using assms(1,2) o by (simp add: seds_router_log_bytes_ex_def read_ptr_def then_enforce_def assms(5) [symmetric])
  then show ?thesis by simp
qed

definition crowded_station :: router where
  "crowded_station = sample_station\<lparr>memory := default_runtime_memory_config\<lparr>max_queue_budget := 100\<rparr>,
     rx_queue := [\<lparr>rx_pkt = command_packet, rx_src_side = None, wire_bytes = replicate 33 0\<rparr>], rx_queue_bytes := 60\<rparr>"

theorem accepted_log_dropped_witness:
  "\<exists>r'. seds_router_log_bytes_ex sample_env sample_world COMMAND (Some (replicate 42 7)) 42 (Some 5) True crowded_station =
       Some (SEDS_OK, r') \<and> tx_queue r' = [] \<and> rx_queue r' = rx_queue crowded_station"
proof -
  have "dynamic (type_at sample_env COMMAND)" "data_type (type_at sample_env COMMAND) = UInt8"
    "elem_size (type_at sample_env COMMAND) = 1"
    by (simp_all add: type_at_def sample_defs)
  then have "validate_payload sample_env COMMAND (length (replicate 42 (7 :: u8)))"
    by (simp add: validate_payload_def Let_def)
  note v = sample_valid_types(2) this
  have q: "tx_queue crowded_station = []" "tx_queue_bytes crowded_station = 0" "r_sender crowded_station = ''CPP''"
    "rx_queue_bytes crowded_station = 60" "max_queue_budget (memory crowded_station) = 100"
    "ti_endpoints (type_at sample_env COMMAND) = [1]"
    by (simp_all add: type_at_def sample_defs crowded_station_def sample_station_def
        sample_router_def sample_owner_def owner.defs router.defs)
  have c: "byte_cost_tx \<lparr>tx_pkt = \<lparr>ty = COMMAND, sender = r_sender crowded_station,
      endpoints = ti_endpoints (type_at sample_env COMMAND), timestamp = 5, payload = replicate 42 7\<rparr>,
      tx_src_side = None, tx_dst_side = None, deliver_local = True\<rparr> = 70"
    by (simp add: byte_cost_tx_def byte_cost_packet_def q)
  from accepted_log_dropped [OF v q(1,2) refl, where w = sample_world and ts = 5] show ?thesis
    by (simp add: c [unfolded q] q)
qed

section \<open>Managed variables\<close>

lemma int32_size_small: "n < 2 ^ 31 \<Longrightarrow> int32_size n = int n"
  by (simp add: int32_size_def signed_of_nat signed_take_bit_int_eq_self)

lemma enable_policy_frame:
  "managed_policy (snd (enable_policy t r)) = mput t (fst (enable_policy t r)) (managed_policy r)"
  "mv_can_read (fst (enable_policy t r)) = mv_can_read (mget default_managed_policy (managed_policy r) t)"
  "mv_can_write (fst (enable_policy t r)) = mv_can_write (mget default_managed_policy (managed_policy r) t)"
  "managed_latest (snd (enable_policy t r)) = managed_latest r"
  by (simp_all add: enable_policy_def Let_def)

lemma push_tx_managed:
  "managed_policy (push_tx i r) = managed_policy r" "managed_latest (push_tx i r) = managed_latest r"
  by (simp_all add: push_tx_def set_tx_def)

lemma remember_managed_packet_frame:
  assumes "valid_type E (ty pkt)" "remember_managed_packet E w pkt invoke r = (rc, r')"
  shows "rc = SEDS_OK" "map_of (managed_latest r') (ty pkt) =
      Some \<lparr>mv_pkt = pkt, mv_packed = serialize_packet E pkt, mv_updated_ms = now_ms w r\<rparr>"
    "managed_policy r' = managed_policy (snd (enable_policy (ty pkt) r))"
proof -
  have cb: "managed_latest (invoke_managed_callback w pkt x) = managed_latest x"
    "managed_policy (invoke_managed_callback w pkt x) = managed_policy x" for x
    by (simp_all add: invoke_managed_callback_def call_back_def split: option.split)
  have n: "now_ms w (snd (enable_policy t r)) = now_ms w r" for t by (simp add: enable_policy_def Let_def now_ms_def)
  show "rc = SEDS_OK" "map_of (managed_latest r') (ty pkt) =
      Some \<lparr>mv_pkt = pkt, mv_packed = serialize_packet E pkt, mv_updated_ms = now_ms w r\<rparr>"
    "managed_policy r' = managed_policy (snd (enable_policy (ty pkt) r))"
    using assms by (auto simp: remember_managed_packet_def Let_def store_managed_def cb n split: if_splits)
qed

text \<open>
  (C17) A variable that was set can be read and is answered. After a permitted
  \<open>seds_router_set_network_variable_packed\<close> the call succeeds, reading the variable returns the
  packed form of the packet that was set, its age notwithstanding, and a request for the
  variable from another node is answered to its side with that packet.
\<close>

theorem variable_set_then_read:
  assumes "deserialize_packet E bs = Some (Some pkt)" "valid_type E (ty pkt)"
    and "mv_can_read (mget default_managed_policy (managed_policy r) (ty pkt))"
    and "mv_can_write (mget default_managed_policy (managed_policy r) (ty pkt))"
    and "length (serialize_packet E pkt) \<le> out_len" "length (serialize_packet E pkt) < 2 ^ 31"
    and "ty req = managed_request_type E" "payload req = le_bytes 4 (wire_type_id E (ty pkt))"
    and "local_type_from_wire_id E (wire_type_id E (ty pkt)) = Some (ty pkt)"
  shows "\<exists>r'. seds_router_set_network_variable_packed E w bs r = Some (SEDS_OK, r') \<and>
    fst (seds_router_get_network_variable_packed E w' (ty pkt) age False out_len r') =
      (int (length (serialize_packet E pkt)), serialize_packet E pkt) \<and>
    handle_managed_variable_request E req src r' =
      (True, push_tx \<lparr>tx_pkt = pkt, tx_src_side = None, tx_dst_side = src, deliver_local = False\<rparr> r')"
proof -
  obtain p r1 where e: "enable_policy (ty pkt) r = (p, r1)" by fastforce
  obtain rc r2 where m: "remember_managed_packet E w pkt True r1 = (rc, r2)" by fastforce
  note f = remember_managed_packet_frame [OF assms(2) m]
  have p: "mv_can_read p" "mv_can_write p" "managed_policy r1 = mput (ty pkt) p (managed_policy r)"
    using enable_policy_frame(1-3) [of "ty pkt" r] assms(3,4) by (simp_all add: e)
  define r' where "r' = push_tx \<lparr>tx_pkt = pkt, tx_src_side = None, tx_dst_side = None, deliver_local = False\<rparr> r2"
  have latest: "map_of (managed_latest r') (ty pkt) =
      Some \<lparr>mv_pkt = pkt, mv_packed = serialize_packet E pkt, mv_updated_ms = now_ms w r1\<rparr>"
    using f(2) by (simp add: r'_def push_tx_managed)
  have pol: "\<exists>q. map_of (managed_policy r') (ty pkt) = Some q \<and> mv_can_read q"
    using f(3) p by (simp add: r'_def push_tx_managed enable_policy_def Let_def map_of_mput mget_def)
  have "seds_router_set_network_variable_packed E w bs r = Some (SEDS_OK, r')"
    using assms(1) p f(1) by (simp add: seds_router_set_network_variable_packed_def e m r'_def)
  moreover have "int32_size (length (serialize_packet E pkt)) = int (length (serialize_packet E pkt))"
    using assms(6) by (rule int32_size_small)
  then have "fst (seds_router_get_network_variable_packed E w' (ty pkt) age False out_len r') =
      (int (length (serialize_packet E pkt)), serialize_packet E pkt)"
    using pol latest assms(5)
    by (auto simp: seds_router_get_network_variable_packed_def lookup_variable_def copy_managed_entry_def)
  moreover have "decode_managed_request_type E req = Some (ty pkt)"
    using assms(8,9) by (simp add: decode_managed_request_type_def local_type_or_wire_def)
  then have "handle_managed_variable_request E req src r' =
      (True, push_tx \<lparr>tx_pkt = pkt, tx_src_side = None, tx_dst_side = src, deliver_local = False\<rparr> r')"
    using assms(7) latest by (simp add: handle_managed_variable_request_def)
  ultimately show ?thesis by blast
qed

theorem variable_set_then_read_witness:
  "\<exists>r'. seds_router_set_network_variable_packed sample_env sample_world (serialize_packet sample_env gps_packet) sample_station =
       Some (SEDS_OK, r') \<and>
     fst (seds_router_get_network_variable_packed sample_env sample_world GPS 250 False 128 r') =
       (int (length (serialize_packet sample_env (wire_image sample_env gps_packet))),
        serialize_packet sample_env (wire_image sample_env gps_packet)) \<and>
     handle_managed_variable_request sample_env
         \<lparr>ty = managed_request_type sample_env, sender = ''GROUND'', endpoints = [3], timestamp = 9, payload = le_bytes 4 (110 :: u32)\<rparr>
         (Some 1) r' =
       (True, push_tx \<lparr>tx_pkt = wire_image sample_env gps_packet, tx_src_side = None, tx_dst_side = Some 1,
                       deliver_local = False\<rparr> r')"
proof -
  let ?p = "wire_image sample_env gps_packet"
  have p: "ty ?p = GPS" "payload ?p = [1, 2, 3]" by (simp_all add: wire_image_def gps_packet_def)
  have nl: "\<not> is_link_ack gps_packet" "\<not> is_link_ack ?p" by (simp_all add: is_link_ack_def gps_packet_def p)
  have d: "deserialize_packet sample_env (serialize_packet sample_env gps_packet) = Some (Some ?p)"
    unfolding serialize_packet_data [OF nl(1)]
    by (rule deserialize_serialize_with_reliable [OF wire_ok_samples(1) zstd_inverts_sample])
      (simp add: data_header_def gps_packet_def)
  have len: "length (serialize_packet sample_env ?p) \<le> 82"
    unfolding serialize_packet_data [OF nl(2)]
    by (rule order.trans [OF length_serialize_packet_with_reliable]) (simp add: p)
  have "map_of (managed_policy sample_station) GPS = None"
    by (simp add: sample_station_def sample_router_def sample_owner_def owner.defs router.defs)
  then have pol: "mget default_managed_policy (managed_policy sample_station) GPS = default_managed_policy"
    by (simp add: mget_def)
  show ?thesis
    by (rule variable_set_then_read [OF d, unfolded p])
      (use len pol in \<open>simp_all add: p default_managed_policy_def\<close>)
qed

end
