(* ===== verification/Sha256.thy ===== *)
theory Sha256
  imports Prelude
begin

text \<open>
  The class \<open>Sha256\<close> of \<open>src/upstream_api_compat.cpp\<close>: a streaming hash with a block buffer, its
  reference definition (FIPS 180-4), and the proof that however the input is cut into chunks the
  class computes the hash of the whole.
\<close>

section \<open>The class\<close>

type_synonym sha_words = "u32 \<times> u32 \<times> u32 \<times> u32 \<times> u32 \<times> u32 \<times> u32 \<times> u32"

record sha256 =
  sha_state :: sha_words
  sha_buffer :: bytes
  buffer_len :: nat
  len_bits :: u64

definition Sha256_init :: sha256 where
  "Sha256_init =
     \<lparr>sha_state = (0x6a09e667, 0xbb67ae85, 0x3c6ef372, 0xa54ff53a, 0x510e527f, 0x9b05688c, 0x1f83d9ab, 0x5be0cd19),
      sha_buffer = replicate 64 0, buffer_len = 0, len_bits = 0\<rparr>"

definition k_table :: "u32 list" where
  "k_table =
     [0x428a2f98, 0x71374491, 0xb5c0fbcf, 0xe9b5dba5, 0x3956c25b, 0x59f111f1, 0x923f82a4,
      0xab1c5ed5, 0xd807aa98, 0x12835b01, 0x243185be, 0x550c7dc3, 0x72be5d74, 0x80deb1fe,
      0x9bdc06a7, 0xc19bf174, 0xe49b69c1, 0xefbe4786, 0x0fc19dc6, 0x240ca1cc, 0x2de92c6f,
      0x4a7484aa, 0x5cb0a9dc, 0x76f988da, 0x983e5152, 0xa831c66d, 0xb00327c8, 0xbf597fc7,
      0xc6e00bf3, 0xd5a79147, 0x06ca6351, 0x14292967, 0x27b70a85, 0x2e1b2138, 0x4d2c6dfc,
      0x53380d13, 0x650a7354, 0x766a0abb, 0x81c2c92e, 0x92722c85, 0xa2bfe8a1, 0xa81a664b,
      0xc24b8b70, 0xc76c51a3, 0xd192e819, 0xd6990624, 0xf40e3585, 0x106aa070, 0x19a4c116,
      0x1e376c08, 0x2748774c, 0x34b0bcb5, 0x391c0cb3, 0x4ed8aa4a, 0x5b9cca4f, 0x682e6ff3,
      0x748f82ee, 0x78a5636f, 0x84c87814, 0x8cc70208, 0x90befffa, 0xa4506ceb, 0xbef9a3f7,
      0xc67178f2]"

text \<open>The words of a block, most significant byte first.\<close>

definition be_word :: "bytes \<Rightarrow> nat \<Rightarrow> u32" where
  "be_word block i =
     push_bit 24 (ucast (block ! (i * 4))) OR push_bit 16 (ucast (block ! (i * 4 + 1))) OR
     push_bit 8 (ucast (block ! (i * 4 + 2))) OR ucast (block ! (i * 4 + 3))"

text \<open>The array \<open>w\<close>: the loop from 16 on writes each word from earlier ones.\<close>

definition next_word :: "u32 list \<Rightarrow> nat \<Rightarrow> u32" where
  "next_word w i =
     (let s0 = word_rotr 7 (w ! (i - 15)) XOR word_rotr 18 (w ! (i - 15)) XOR drop_bit 3 (w ! (i - 15));
          s1 = word_rotr 17 (w ! (i - 2)) XOR word_rotr 19 (w ! (i - 2)) XOR drop_bit 10 (w ! (i - 2))
      in w ! (i - 16) + s0 + w ! (i - 7) + s1)"

definition schedule :: "bytes \<Rightarrow> u32 list" where
  "schedule block =
     foldl (\<lambda>w i. w[i := next_word w i]) (map (be_word block) [0..<16] @ replicate 48 0) [16..<64]"

definition sha_round :: "u32 list \<Rightarrow> sha_words \<Rightarrow> nat \<Rightarrow> sha_words" where
  "sha_round w v i =
     (case v of (a, b, c, d, e, f, g, h) \<Rightarrow>
        let s1 = word_rotr 6 e XOR word_rotr 11 e XOR word_rotr 25 e;
            ch = (e AND f) XOR (NOT e AND g);
            temp1 = h + s1 + ch + k_table ! i + w ! i;
            s0 = word_rotr 2 a XOR word_rotr 13 a XOR word_rotr 22 a;
            maj = (a AND b) XOR (a AND c) XOR (b AND c);
            temp2 = s0 + maj
        in (temp1 + temp2, a, b, c, d + temp1, e, f, g))"

fun add_words :: "sha_words \<Rightarrow> sha_words \<Rightarrow> sha_words" where
  "add_words (a, b, c, d, e, f, g, h) (a', b', c', d', e', f', g', h') =
     (a + a', b + b', c + c', d + d', e + e', f + f', g + g', h + h')"

definition compress_words :: "sha_words \<Rightarrow> bytes \<Rightarrow> sha_words" where
  "compress_words v block = add_words v (foldl (sha_round (schedule block)) v [0..<64])"

definition compress :: "bytes \<Rightarrow> sha256 \<Rightarrow> sha256" where
  "compress block s = s\<lparr>sha_state := compress_words (sha_state s) block\<rparr>"

text \<open>\<open>std::copy_n\<close> and \<open>std::fill\<close> into an array.\<close>

definition overwrite :: "nat \<Rightarrow> bytes \<Rightarrow> bytes \<Rightarrow> bytes" where
  "overwrite off data buf = take off buf @ data @ drop (off + length data) buf"

function compress_blocks :: "bytes \<Rightarrow> sha256 \<Rightarrow> bytes \<times> sha256" where
  "compress_blocks input s =
     (if 64 \<le> length input then compress_blocks (drop 64 input) (compress (take 64 input) s) else (input, s))"
  by pat_completeness auto

termination
  by (relation "measure (length \<circ> fst)") auto

declare compress_blocks.simps [simp del]

definition fill_buffer :: "bytes \<Rightarrow> sha256 \<Rightarrow> bytes \<times> sha256" where
  "fill_buffer input s =
     (if 0 < buffer_len s then
        let n = min (64 - buffer_len s) (length input);
            s1 = s\<lparr>sha_buffer := overwrite (buffer_len s) (take n input) (sha_buffer s), buffer_len := buffer_len s + n\<rparr>
        in (drop n input, if buffer_len s1 = 64 then (compress (sha_buffer s1) s1)\<lparr>buffer_len := 0\<rparr> else s1)
      else (input, s))"

definition sha_update :: "bytes \<Rightarrow> sha256 \<Rightarrow> sha256" where
  "sha_update input s =
     (let (input1, s1) = fill_buffer input (s\<lparr>len_bits := len_bits s + word_of_nat (length input) * 8\<rparr>);
          (input2, s2) = compress_blocks input1 s1
      in if input2 \<noteq> [] then s2\<lparr>sha_buffer := overwrite 0 input2 (sha_buffer s2), buffer_len := length input2\<rparr> else s2)"

definition be_bytes :: "nat \<Rightarrow> 'a::len word \<Rightarrow> bytes" where
  "be_bytes n v = map (\<lambda>i. ucast (drop_bit (8 * (n - 1 - i)) v)) [0..<n]"

fun words_out :: "sha_words \<Rightarrow> bytes" where
  "words_out (a, b, c, d, e, f, g, h) = concat (map (be_bytes 4) [a, b, c, d, e, f, g, h])"

text \<open>\<open>finalize\<close>: the end mark, a block of its own when the length does not fit behind it, the length.\<close>

definition mark_end :: "sha256 \<Rightarrow> sha256" where
  "mark_end s = s\<lparr>sha_buffer := (sha_buffer s)[buffer_len s := 0x80], buffer_len := buffer_len s + 1\<rparr>"

definition spill :: "sha256 \<Rightarrow> sha256" where
  "spill s =
     (if 56 < buffer_len s then
        let block = overwrite (buffer_len s) (replicate (64 - buffer_len s) 0) (sha_buffer s)
        in (compress block (s\<lparr>sha_buffer := block\<rparr>))\<lparr>buffer_len := 0\<rparr>
      else s)"

definition length_block :: "sha256 \<Rightarrow> bytes" where
  "length_block s =
     overwrite 56 (be_bytes 8 (len_bits s)) (overwrite (buffer_len s) (replicate (56 - buffer_len s) 0) (sha_buffer s))"

definition sha_finalize :: "sha256 \<Rightarrow> bytes" where
  "sha_finalize s = (let s1 = spill (mark_end s) in words_out (sha_state (compress (length_block s1) s1)))"

definition sha_digest :: "bytes \<Rightarrow> bytes" where
  "sha_digest input = sha_finalize (sha_update input Sha256_init)"

section \<open>The reference\<close>

text \<open>The message schedule and the working variables as the recursions of FIPS 180-4.\<close>

definition \<sigma>0 :: "u32 \<Rightarrow> u32" where "\<sigma>0 x = word_rotr 7 x XOR word_rotr 18 x XOR drop_bit 3 x"
definition \<sigma>1 :: "u32 \<Rightarrow> u32" where "\<sigma>1 x = word_rotr 17 x XOR word_rotr 19 x XOR drop_bit 10 x"
definition \<Sigma>0 :: "u32 \<Rightarrow> u32" where "\<Sigma>0 x = word_rotr 2 x XOR word_rotr 13 x XOR word_rotr 22 x"
definition \<Sigma>1 :: "u32 \<Rightarrow> u32" where "\<Sigma>1 x = word_rotr 6 x XOR word_rotr 11 x XOR word_rotr 25 x"
definition Ch :: "u32 \<Rightarrow> u32 \<Rightarrow> u32 \<Rightarrow> u32" where "Ch x y z = (x AND y) XOR (NOT x AND z)"
definition Maj :: "u32 \<Rightarrow> u32 \<Rightarrow> u32 \<Rightarrow> u32" where "Maj x y z = (x AND y) XOR (x AND z) XOR (y AND z)"

fun W :: "bytes \<Rightarrow> nat \<Rightarrow> u32" where
  "W block t =
     (if t < 16 then be_word block t
      else \<sigma>1 (W block (t - 2)) + W block (t - 7) + \<sigma>0 (W block (t - 15)) + W block (t - 16))"

declare W.simps [simp del]

fun working :: "bytes \<Rightarrow> sha_words \<Rightarrow> nat \<Rightarrow> sha_words" where
  "working block v 0 = v"
| "working block v (Suc t) =
     (case working block v t of (a, b, c, d, e, f, g, h) \<Rightarrow>
        let T1 = h + \<Sigma>1 e + Ch e f g + k_table ! t + W block t; T2 = \<Sigma>0 a + Maj a b c
        in (T1 + T2, a, b, c, d + T1, e, f, g))"

text \<open>The message is padded to whole blocks with a one bit, zeros and its length in bits.\<close>

definition pad :: "bytes \<Rightarrow> bytes" where
  "pad m = m @ [0x80] @ replicate ((119 - length m mod 64) mod 64) 0 @ be_bytes 8 (word_of_nat (length m) * 8 :: u64)"

function hash_blocks :: "sha_words \<Rightarrow> bytes \<Rightarrow> sha_words" where
  "hash_blocks v m =
     (if length m < 64 then v else hash_blocks (add_words v (working (take 64 m) v 64)) (drop 64 m))"
  by pat_completeness auto

termination
  by (relation "measure (length \<circ> snd)") auto

declare hash_blocks.simps [simp del]

definition fips_sha256 :: "bytes \<Rightarrow> bytes" where
  "fips_sha256 m = words_out (hash_blocks (sha_state Sha256_init) (pad m))"

section \<open>One block\<close>

lemma schedule_prefix:
  assumes "n \<le> 48" "w = foldl (\<lambda>w i. w[i := next_word w i]) (map (be_word block) [0..<16] @ replicate 48 0) [16..<16 + n]"
  shows "length w = 64 \<and> (\<forall>t < 16 + n. w ! t = W block t)"
  using assms
proof (induction n arbitrary: w)
  case 0
  then show ?case by (simp add: nth_append W.simps)
next
  case (Suc n)
  define w' where "w' = foldl (\<lambda>w i. w[i := next_word w i]) (map (be_word block) [0..<16] @ replicate 48 0) [16..<16 + n]"
  have IH: "length w' = 64" "\<And>t. t < 16 + n \<Longrightarrow> w' ! t = W block t"
    using Suc.IH [OF _ w'_def] Suc.prems(1) by auto
  have u: "[16..<16 + Suc n] = [16..<16 + n] @ [16 + n]" by (simp only: add_Suc_right upt_Suc) simp
  have w: "w = w'[16 + n := next_word w' (16 + n)]" using Suc.prems(2) unfolding u by (simp add: w'_def)
  have "W block (16 + n) = \<sigma>1 (W block (14 + n)) + W block (9 + n) + \<sigma>0 (W block (1 + n)) + W block n"
    by (subst W.simps) simp
  then have "next_word w' (16 + n) = W block (16 + n)"
    by (simp add: next_word_def Let_def IH \<sigma>0_def \<sigma>1_def ac_simps)
  then show ?case using IH Suc.prems(1) by (auto simp: w nth_list_update less_Suc_eq)
qed

lemma schedule_nth: "t < 64 \<Longrightarrow> schedule block ! t = W block t"
proof -
  have e: "(64 :: nat) = 16 + 48" by simp
  have "schedule block = foldl (\<lambda>w i. w[i := next_word w i]) (map (be_word block) [0..<16] @ replicate 48 0) [16..<16 + 48]"
    unfolding schedule_def e by (rule refl)
  from schedule_prefix [OF order.refl this] show "t < 64 \<Longrightarrow> schedule block ! t = W block t" by simp
qed

lemma rounds_working: "n \<le> 64 \<Longrightarrow> foldl (sha_round (schedule block)) v [0..<n] = working block v n"
  by (induction n)
    (simp_all add: sha_round_def schedule_nth \<Sigma>0_def \<Sigma>1_def Ch_def Maj_def Let_def split: prod.split)

lemma compress_words_working: "compress_words v block = add_words v (working block v 64)"
  by (simp add: compress_words_def rounds_working)

section \<open>Hashing in blocks\<close>

lemma hash_blocks_short [simp]: "length m < 64 \<Longrightarrow> hash_blocks v m = v"
  by (simp add: hash_blocks.simps)

lemma hash_blocks_block: "length b = 64 \<Longrightarrow> hash_blocks v (b @ m) = hash_blocks (compress_words v b) m"
  by (subst hash_blocks.simps) (simp add: compress_words_working)

lemma hash_blocks_append: "64 dvd length a \<Longrightarrow> hash_blocks v (a @ b) = hash_blocks (hash_blocks v a) b"
proof (induction v a rule: hash_blocks.induct)
  case (1 v a)
  show ?case
  proof (cases "length a < 64")
    case True
    then have "a = []" using "1.prems" by (auto simp: dvd_def)
    then show ?thesis by simp
  next
    case False
    obtain h t where a: "a = h @ t" "length h = 64"
      using False by (metis append_take_drop_id length_take min.absorb2 not_less)
    then have "64 dvd length t" using "1.prems" by (simp add: dvd_add_right_iff)
    with "1.IH" [OF False] a show ?thesis
      by (simp add: hash_blocks_block compress_words_working)
  qed
qed

definition remainder :: "bytes \<Rightarrow> bytes" where
  "remainder m = drop (64 * (length m div 64)) m"

lemma length_remainder [simp]: "length (remainder m) = length m mod 64"
  by (simp add: remainder_def minus_mult_div_eq_mod)

lemma remainder_split: obtains a where "64 dvd length a" "m = a @ remainder m"
proof (rule that)
  show "m = take (64 * (length m div 64)) m @ remainder m" by (simp add: remainder_def)
  have "64 * (length m div 64) \<le> length m" by simp
  then show "64 dvd length (take (64 * (length m div 64)) m)" by (simp add: min.absorb2)
qed

lemma remainder_append: "length m mod 64 + length x < 64 \<Longrightarrow> remainder (m @ x) = remainder m @ x"
proof -
  assume a: "length m mod 64 + length x < 64"
  then have "(length m + length x) div 64 = length m div 64"
    by (simp add: div_add1_eq [of "length m"])
  then show ?thesis by (simp add: remainder_def)
qed

lemma hash_blocks_less: "length m mod 64 + length x < 64 \<Longrightarrow> hash_blocks v (m @ x) = hash_blocks v m"
proof -
  assume l: "length m mod 64 + length x < 64"
  obtain a where a: "64 dvd length a" "m = a @ remainder m" by (rule remainder_split)
  have "hash_blocks v (m @ x) = hash_blocks (hash_blocks v a) (remainder m @ x)"
    using hash_blocks_append [OF a(1), of v "remainder m @ x"] a(2) by (metis append.assoc)
  also have "\<dots> = hash_blocks v m"
    using hash_blocks_append [OF a(1), of v "remainder m"] a(2) l by simp
  finally show ?thesis .
qed

lemma hash_blocks_full:
  assumes "length m mod 64 + length x = 64"
  shows "hash_blocks v (m @ x) = compress_words (hash_blocks v m) (remainder m @ x)"
    and "64 dvd length (m @ x)" and "remainder (m @ x) = []"
proof -
  obtain a where a: "64 dvd length a" "m = a @ remainder m" by (rule remainder_split)
  have "hash_blocks v (m @ x) = hash_blocks (hash_blocks v a) ((remainder m @ x) @ [])"
    using hash_blocks_append [OF a(1), of v "remainder m @ x"] a(2) by (metis append.assoc append_Nil2)
  also have "\<dots> = compress_words (hash_blocks v a) (remainder m @ x)"
    using assms by (subst hash_blocks_block) simp_all
  also have "hash_blocks v a = hash_blocks v m"
    using hash_blocks_append [OF a(1), of v "remainder m"] a(2) by simp
  finally show "hash_blocks v (m @ x) = compress_words (hash_blocks v m) (remainder m @ x)" .
  show d: "64 dvd length (m @ x)"
    using a assms by (metis append.assoc dvd_add_right_iff dvd_refl length_append length_remainder)
  then have "length (remainder (m @ x)) = 0" unfolding length_remainder by (simp only: dvd_eq_mod_eq_0)
  then show "remainder (m @ x) = []" by (simp only: length_0_conv)
qed

section \<open>The buffer\<close>

text \<open>What the object holds after the bytes \<open>m\<close>, its length counter aside.\<close>

definition held :: "bytes \<Rightarrow> sha256 \<Rightarrow> bool" where
  "held m s \<longleftrightarrow> length (sha_buffer s) = 64 \<and> buffer_len s = length m mod 64 \<and>
     take (length m mod 64) (sha_buffer s) = remainder m \<and> sha_state s = hash_blocks (sha_state Sha256_init) m"

lemma length_overwrite: "off + length data \<le> length buf \<Longrightarrow> length (overwrite off data buf) = length buf"
  by (simp add: overwrite_def)

lemma take_overwrite: "off + length data \<le> length buf \<Longrightarrow> take (off + length data) (overwrite off data buf) = take off buf @ data"
  by (simp add: overwrite_def)

lemma held_init: "held [] Sha256_init"
  by (simp add: held_def Sha256_init_def remainder_def)

lemma held_more:
  assumes "held m s" "buffer_len s + length x < 64"
  shows "held (m @ x) (s\<lparr>sha_buffer := overwrite (buffer_len s) x (sha_buffer s), buffer_len := buffer_len s + length x\<rparr>)"
proof -
  have l: "length m mod 64 + length x < 64" using assms by (simp add: held_def)
  then have "(length m + length x) mod 64 = length m mod 64 + length x" by (metis mod_add_left_eq mod_less)
  moreover have "take (buffer_len s + length x) (overwrite (buffer_len s) x (sha_buffer s)) = remainder m @ x"
    using assms by (subst take_overwrite) (simp_all add: held_def)
  ultimately show ?thesis
    using l assms by (simp add: held_def length_overwrite remainder_append hash_blocks_less)
qed

lemma held_block:
  assumes "held m s" "length m mod 64 + length x = 64" "block = remainder m @ x" "length buf = 64"
  shows "held (m @ x) ((compress block (s\<lparr>sha_buffer := buf\<rparr>))\<lparr>buffer_len := 0\<rparr>)"
  using assms(1,3,4) hash_blocks_full [OF assms(2)]
  by (simp add: held_def compress_def dvd_eq_mod_eq_0 del: length_append)

lemma held_len_bits [simp]: "held m (s\<lparr>len_bits := b\<rparr>) = held m s"
  by (simp add: held_def)

lemma fill_buffer_held:
  assumes "held m s" "fill_buffer x s = (x', s')"
  shows "\<exists>p. x = p @ x' \<and> held (m @ p) s' \<and> (x' \<noteq> [] \<longrightarrow> buffer_len s' = 0) \<and> len_bits s' = len_bits s"
proof (cases "0 < buffer_len s")
  case False
  then show ?thesis using assms by (auto simp: fill_buffer_def)
next
  case True
  define n where "n = min (64 - buffer_len s) (length x)"
  define s1 where "s1 = s\<lparr>sha_buffer := overwrite (buffer_len s) (take n x) (sha_buffer s), buffer_len := buffer_len s + n\<rparr>"
  have x': "x' = drop n x" and s': "s' = (if buffer_len s1 = 64 then (compress (sha_buffer s1) s1)\<lparr>buffer_len := 0\<rparr> else s1)"
    using assms(2) True unfolding fill_buffer_def Let_def n_def [symmetric] s1_def [symmetric] by simp_all
  have bl: "buffer_len s = length m mod 64" "buffer_len s < 64" "length (take n x) = n"
    using assms(1) by (simp_all add: held_def n_def)
  have "held (m @ take n x) s' \<and> (x' \<noteq> [] \<longrightarrow> buffer_len s' = 0)"
  proof (cases "buffer_len s + n = 64")
    case True
    have l: "length m mod 64 + length (take n x) = 64" using True bl by simp
    have b: "sha_buffer s1 = remainder m @ take n x"
      using take_overwrite [of "buffer_len s" "take n x" "sha_buffer s"] True bl assms(1)
      by (simp add: s1_def held_def length_overwrite)
    have "s' = (compress (sha_buffer s1) (s\<lparr>sha_buffer := sha_buffer s1\<rparr>))\<lparr>buffer_len := 0\<rparr>"
      using s' True by (simp add: s1_def compress_def)
    then show ?thesis using held_block [OF assms(1) l b, of "sha_buffer s1"] l b by simp
  next
    case False
    then have "buffer_len s + length (take n x) < 64" "n = length x" using bl by (simp_all add: n_def min_def split: if_splits)
    then show ?thesis using held_more [OF assms(1), of "take n x"] s' x' False by (simp add: s1_def)
  qed
  moreover have "len_bits s' = len_bits s" by (simp add: s' s1_def compress_def)
  ultimately show ?thesis using x' by (metis append_take_drop_id)
qed

lemma compress_blocks_held:
  assumes "held m s" "buffer_len s = 0" "compress_blocks x s = (x', s')"
  shows "\<exists>p. x = p @ x' \<and> held (m @ p) s' \<and> buffer_len s' = 0 \<and> length x' < 64 \<and> len_bits s' = len_bits s"
  using assms
proof (induction x s arbitrary: m rule: compress_blocks.induct)
  case (1 x s)
  show ?case
  proof (cases "64 \<le> length x")
    case False
    then show ?thesis using "1.prems" by (simp add: compress_blocks.simps)
  next
    case True
    have m0: "length m mod 64 = 0" "remainder m = []"
      using "1.prems"(1,2) by (auto simp: held_def)
    have "(compress (take 64 x) (s\<lparr>sha_buffer := sha_buffer s\<rparr>))\<lparr>buffer_len := 0\<rparr> = compress (take 64 x) s"
      using "1.prems"(2) by (simp add: compress_def)
    then have h: "held (m @ take 64 x) (compress (take 64 x) s)"
      using held_block [OF "1.prems"(1), of "take 64 x" "take 64 x" "sha_buffer s"] m0 True "1.prems"(1)
      by (simp add: held_def)
    have "compress_blocks (drop 64 x) (compress (take 64 x) s) = (x', s')"
      using "1.prems"(3) True by (simp add: compress_blocks.simps [of x])
    from "1.IH" [OF True h _ this] obtain p where
      "drop 64 x = p @ x'" "held ((m @ take 64 x) @ p) s'" "buffer_len s' = 0" "length x' < 64" "len_bits s' = len_bits s"
      using "1.prems"(2) by (auto simp: compress_def)
    then show ?thesis by (metis append.assoc append_take_drop_id)
  qed
qed

lemma compress_blocks_Nil [simp]: "compress_blocks [] s = ([], s)"
  by (simp add: compress_blocks.simps)

lemma sha_update_held:
  assumes "held m s"
  shows "held (m @ x) (sha_update x s) \<and> len_bits (sha_update x s) = len_bits s + word_of_nat (length x) * 8"
proof -
  let ?s = "s\<lparr>len_bits := len_bits s + word_of_nat (length x) * 8\<rparr>"
  obtain x1 s1 where f: "fill_buffer x ?s = (x1, s1)" by fastforce
  obtain x2 s2 where c: "compress_blocks x1 s1 = (x2, s2)" by fastforce
  obtain p where p: "x = p @ x1" "held (m @ p) s1" "x1 \<noteq> [] \<longrightarrow> buffer_len s1 = 0" "len_bits s1 = len_bits ?s"
    using fill_buffer_held [OF _ f, of m] assms by auto
  show ?thesis
  proof (cases "x1 = []")
    case True
    then show ?thesis using p f c by (simp add: sha_update_def)
  next
    case False
    then obtain q where q: "x1 = q @ x2" "held (m @ p @ q) s2" "buffer_len s2 = 0" "length x2 < 64" "len_bits s2 = len_bits s1"
      using compress_blocks_held [OF p(2) _ c] p(3) by auto
    have "held ((m @ p @ q) @ x2) (s2\<lparr>sha_buffer := overwrite 0 x2 (sha_buffer s2), buffer_len := length x2\<rparr>)"
      using held_more [OF q(2), of x2] q(3,4) by simp
    then show ?thesis using p q f c by (cases "x2 = []") (simp_all add: sha_update_def)
  qed
qed

section \<open>The hash\<close>

definition absorbed :: "bytes \<Rightarrow> sha256 \<Rightarrow> bool" where
  "absorbed m s \<longleftrightarrow> held m s \<and> len_bits s = word_of_nat (length m) * 8"

lemma absorbed_update: "absorbed m s \<Longrightarrow> absorbed (m @ x) (sha_update x s)"
  using sha_update_held [of m s x] by (simp add: absorbed_def distrib_right)

lemma absorbed_chunks: "absorbed m s \<Longrightarrow> absorbed (m @ concat xs) (foldl (\<lambda>s x. sha_update x s) s xs)"
  by (induction xs arbitrary: m s) (simp_all, metis absorbed_update append.assoc)

lemma absorbed_init: "absorbed [] Sha256_init"
  by (simp add: absorbed_def held_init) (simp add: Sha256_init_def)


lemma length_be_bytes [simp]: "length (be_bytes n v) = n"
  by (simp add: be_bytes_def)

lemma overwrite_tail:
  assumes "off + length data = length buf"
  shows "overwrite off data buf = take off buf @ data"
  using assms by (simp add: overwrite_def)

lemma take_list_update_last: "i < length b \<Longrightarrow> take (Suc i) (b[i := v]) = take i b @ [v]"
  by (simp add: take_Suc_conv_app_nth)

lemma zero_fill:
  assumes "length b = 64" "n \<le> 56"
  shows "overwrite 56 (be_bytes 8 l) (overwrite n (replicate (56 - n) 0) b) = take n b @ replicate (56 - n) 0 @ be_bytes 8 l"
  using assms by (subst overwrite_tail) (simp_all add: overwrite_def)

lemma length_block_alt:
  "length (sha_buffer s) = 64 \<Longrightarrow> buffer_len s \<le> 56 \<Longrightarrow>
   length_block s = take (buffer_len s) (sha_buffer s) @ replicate (56 - buffer_len s) 0 @ be_bytes 8 (len_bits s)"
  by (simp add: length_block_def zero_fill)

lemma finalize_absorbed:
  assumes "absorbed m s"
  shows "sha_finalize s = fips_sha256 m"
proof -
  let ?IV = "sha_state Sha256_init" and ?n = "length m mod 64" and ?l = "be_bytes 8 (word_of_nat (length m) * 8 :: u64)"
  define s1 where "s1 = mark_end s"
  have s: "length (sha_buffer s) = 64" "buffer_len s = ?n" "take ?n (sha_buffer s) = remainder m"
    using assms by (simp_all add: absorbed_def held_def)
  have s1: "take (Suc ?n) (sha_buffer s1) = remainder m @ [0x80]" "length (sha_buffer s1) = 64" "buffer_len s1 = Suc ?n"
    "sha_state s1 = hash_blocks ?IV m" "len_bits s1 = word_of_nat (length m) * 8"
    using s assms by (simp_all add: s1_def mark_end_def take_list_update_last absorbed_def held_def)
  have f: "sha_finalize s = words_out (compress_words (sha_state (spill s1)) (length_block (spill s1)))"
    by (simp add: sha_finalize_def s1_def compress_def Let_def)
  show ?thesis
  proof (cases "?n \<le> 55")
    case True
    let ?x = "[0x80] @ replicate (55 - ?n) 0 @ ?l"
    have "119 - ?n = 55 - ?n + 64" using True by simp
    then have "(119 - ?n) mod 64 = 55 - ?n" using True by (simp only: mod_add_self2) simp
    then have pad: "pad m = m @ ?x" by (simp add: pad_def)
    have "spill s1 = s1" using True s1(3) by (simp add: spill_def)
    moreover have "length_block s1 = remainder m @ ?x" using True s1 by (simp add: length_block_alt)
    ultimately show ?thesis
      unfolding f fips_sha256_def pad using True s1(4) by (subst hash_blocks_full(1)) simp_all
  next
    case False
    let ?x = "[0x80] @ replicate (63 - ?n) 0"
    have n: "?n < 64" by simp
    then have x: "?n + length ?x = 64" by simp
    have "119 - ?n < 64" "119 - ?n = (63 - ?n) + 56" using False n by simp_all
    then have "(119 - ?n) mod 64 = (63 - ?n) + 56" by (metis mod_less)
    then have pad: "pad m = (m @ ?x) @ (replicate 56 0 @ ?l)"
      unfolding pad_def by (simp only: replicate_add append.assoc append_Cons append_Nil)
    have b: "overwrite (Suc ?n) (replicate (64 - Suc ?n) 0) (sha_buffer s1) = remainder m @ ?x"
      using s1(1,2) n by (subst overwrite_tail) simp_all
    have sp: "spill s1 = (compress (remainder m @ ?x) (s1\<lparr>sha_buffer := remainder m @ ?x\<rparr>))\<lparr>buffer_len := 0\<rparr>"
      unfolding spill_def s1(3) b Let_def using False by simp
    have "length_block (spill s1) = replicate 56 0 @ ?l"
      using n s1(5) by (subst length_block_alt) (simp_all add: sp compress_def)
    moreover have "sha_state (spill s1) = hash_blocks ?IV (m @ ?x)"
      using hash_blocks_full(1) [OF x] by (simp add: sp compress_def s1(4))
    moreover have "hash_blocks ?IV ((m @ ?x) @ replicate 56 0 @ ?l) =
        compress_words (hash_blocks ?IV (m @ ?x)) (remainder (m @ ?x) @ replicate 56 0 @ ?l)"
      by (rule hash_blocks_full(1)) (use hash_blocks_full(2) [OF x] in \<open>simp add: dvd_eq_mod_eq_0\<close>)
    ultimately show ?thesis
      unfolding f fips_sha256_def pad using hash_blocks_full(3) [OF x] by simp
  qed
qed

lemma finalize_chunks: "sha_finalize (foldl (\<lambda>s x. sha_update x s) Sha256_init chunks) = fips_sha256 (concat chunks)"
  using finalize_absorbed [OF absorbed_chunks [OF absorbed_init]] by simp

text \<open>
  (C34) The streaming hash is SHA-256. However the input is cut into chunks for \<open>update\<close>, \<open>finalize\<close>
  returns the hash that FIPS 180-4 defines for their concatenation.
\<close>

theorem sha256_streaming:
  "sha_finalize (foldl (\<lambda>s x. sha_update x s) Sha256_init chunks) = fips_sha256 (concat chunks)"
  by (rule finalize_chunks)

text \<open>The test vector of the standard, which also checks the table of constants.\<close>

lemma sha256_abc:
  "sha_digest [0x61, 0x62, 0x63] =
     [0xba, 0x78, 0x16, 0xbf, 0x8f, 0x01, 0xcf, 0xea, 0x41, 0x41, 0x40, 0xde, 0x5d, 0xae, 0x22, 0x23,
      0xb0, 0x03, 0x61, 0xa3, 0x96, 0x17, 0x7a, 0x9c, 0xb4, 0x10, 0xff, 0x61, 0xf2, 0x00, 0x15, 0xad]"
  by code_simp

lemma length_words_out [simp]: "length (words_out v) = 32"
  by (cases v rule: words_out.cases) simp

lemma length_sha_finalize [simp]: "length (sha_finalize s) = 32"
  by (simp add: sha_finalize_def Let_def)

end
