(* ===== verification/Crypto.thy ===== *)
theory Crypto
  imports Sha256
begin

text \<open>
  The cryptographic helpers of \<open>src/upstream_api_compat.cpp\<close>: HMAC over the streaming hash, the
  software cipher (a keystream of HMAC blocks with a truncated tag), the optional provider of the
  application, and managed credentials.
\<close>

section \<open>Keyed hashing\<close>

definition normalize_software_key :: "bytes \<Rightarrow> bytes" where
  "normalize_software_key key = (if length key = 32 then key else sha_digest key)"

definition key_pad :: "u8 \<Rightarrow> bytes \<Rightarrow> bytes" where
  "key_pad c key = map (\<lambda>i. if i < length key then c XOR key ! i else c) [0..<64]"

definition hmac_sha256 :: "bytes \<Rightarrow> bytes list \<Rightarrow> bytes" where
  "hmac_sha256 key chunks =
     (let inner = foldl (\<lambda>s chunk. sha_update chunk s) (sha_update (key_pad 0x36 key) Sha256_init) chunks;
          inner_hash = sha_finalize inner
      in sha_finalize (sha_update inner_hash (sha_update (key_pad 0x5c key) Sha256_init)))"

definition constant_time_eq :: "bytes \<Rightarrow> bytes \<Rightarrow> bool" where
  "constant_time_eq a b \<longleftrightarrow>
     length a = length b \<and> foldl (\<lambda>diff (x, y). diff OR (x XOR y)) 0 (zip a b) = 0"

definition software_tag :: "bytes \<Rightarrow> u32 \<Rightarrow> bytes \<Rightarrow> bytes \<Rightarrow> bytes \<Rightarrow> bytes" where
  "software_tag key key_id nonce aad ciphertext =
     hmac_sha256 key [bytes_of_string ''SEDS-HMAC-TAG'', le_bytes 4 key_id, nonce, aad, ciphertext]"

definition managed_credential_tag :: "bytes \<Rightarrow> bytes \<Rightarrow> bytes" where
  "managed_credential_tag key body = hmac_sha256 key [bytes_of_string ''SEDS-MASTER-CREDENTIAL'', body]"

definition stream_block :: "bytes \<Rightarrow> u32 \<Rightarrow> bytes \<Rightarrow> bytes \<Rightarrow> u64 \<Rightarrow> bytes" where
  "stream_block key key_id nonce aad counter =
     hmac_sha256 key [bytes_of_string ''SEDS-HMAC-STREAM'', le_bytes 4 key_id, nonce, aad, le_bytes 8 counter]"

function hmac_stream :: "bytes \<Rightarrow> u32 \<Rightarrow> bytes \<Rightarrow> bytes \<Rightarrow> u64 \<Rightarrow> bytes \<Rightarrow> bytes" where
  "hmac_stream key key_id nonce aad counter input =
     (if input = [] then []
      else
        let block = stream_block key key_id nonce aad counter; n = min 32 (length input)
        in map2 (\<lambda>x y. x XOR y) (take n input) block @
             hmac_stream key key_id nonce aad (counter + 1) (drop n input))"
  by pat_completeness auto

termination
  by (relation "measure (\<lambda>(_, _, _, _, _, input). length input)") auto

declare hmac_stream.simps [simp del]

definition apply_hmac_stream :: "bytes \<Rightarrow> u32 \<Rightarrow> bytes \<Rightarrow> bytes \<Rightarrow> bytes \<Rightarrow> bytes" where
  "apply_hmac_stream key key_id nonce aad input = hmac_stream key key_id nonce aad 0 input"

section \<open>Keys and providers\<close>

text \<open>A pointer with a length: a null pointer, which has none of the bytes, or a buffer.\<close>

datatype in_buf = Null nat | Buf bytes

fun missing :: "in_buf \<Rightarrow> bool" where
  "missing (Null n) = (n \<noteq> 0)"
| "missing (Buf _) = False"

fun contents :: "in_buf \<Rightarrow> bytes" where
  "contents (Null _) = []"
| "contents (Buf bs) = bs"

text \<open>An output pointer with a capacity, and whether it is null.\<close>

record out_buf =
  is_null :: bool
  cap :: nat

definition bad_out :: "out_buf \<Rightarrow> bool" where
  "bad_out b \<longleftrightarrow> is_null b \<and> cap b \<noteq> 0"

text \<open>
  The outputs of a call: \<open>None\<close> when nothing is written, else what is written and counted in the
  output lengths. The functions of a provider are the application's.
\<close>

type_synonym seal_fn = "u32 \<Rightarrow> in_buf \<Rightarrow> in_buf \<Rightarrow> in_buf \<Rightarrow> out_buf \<Rightarrow> out_buf \<Rightarrow> seds_result \<times> (bytes \<times> bytes) option"
type_synonym open_fn = "u32 \<Rightarrow> in_buf \<Rightarrow> in_buf \<Rightarrow> in_buf \<Rightarrow> in_buf \<Rightarrow> out_buf \<Rightarrow> seds_result \<times> bytes option"

record crypto =
  g_crypto_seal :: "seal_fn option"
  g_crypto_open :: "open_fn option"
  g_software_keys :: "(u32, bytes) amap"

definition seds_crypto_register_provider :: "seal_fn option \<Rightarrow> open_fn option \<Rightarrow> crypto \<Rightarrow> seds_result \<times> crypto" where
  "seds_crypto_register_provider sf opf C =
     (if sf = None \<or> opf = None then (SEDS_BAD_ARG, C)
      else (SEDS_OK, C\<lparr>g_crypto_seal := sf, g_crypto_open := opf\<rparr>))"

definition seds_crypto_clear_provider :: "crypto \<Rightarrow> crypto" where
  "seds_crypto_clear_provider C = C\<lparr>g_crypto_seal := None, g_crypto_open := None\<rparr>"

definition seds_crypto_register_software_key :: "u32 \<Rightarrow> bytes option \<Rightarrow> crypto \<Rightarrow> seds_result \<times> crypto" where
  "seds_crypto_register_software_key key_id key C =
     (case key of
        None \<Rightarrow> (SEDS_BAD_ARG, C)
      | Some k \<Rightarrow>
          if length k < 16 then (SEDS_BAD_ARG, C)
          else (SEDS_OK, C\<lparr>g_software_keys := mput key_id (normalize_software_key k) (g_software_keys C)\<rparr>))"

definition seds_crypto_clear_software_keys :: "crypto \<Rightarrow> crypto" where
  "seds_crypto_clear_software_keys C = C\<lparr>g_software_keys := []\<rparr>"

section \<open>Sealing and opening\<close>

definition seds_crypto_seal ::
    "crypto \<Rightarrow> u32 \<Rightarrow> in_buf \<Rightarrow> in_buf \<Rightarrow> in_buf \<Rightarrow> out_buf \<Rightarrow> out_buf \<Rightarrow> bool \<Rightarrow> seds_result \<times> (bytes \<times> bytes) option" where
  "seds_crypto_seal C key_id nonce aad plaintext ciphertext_out tag_out lengths_null =
     (if missing nonce \<or> missing aad \<or> missing plaintext \<or> bad_out ciphertext_out \<or> bad_out tag_out \<or> lengths_null
      then (SEDS_BAD_ARG, None)
      else case g_crypto_seal C of
          Some f \<Rightarrow> f key_id nonce aad plaintext ciphertext_out tag_out
        | None \<Rightarrow>
            (case map_of (g_software_keys C) key_id of
               None \<Rightarrow> (SEDS_BAD_ARG, None)
             | Some key \<Rightarrow>
                 if is_null ciphertext_out \<or> is_null tag_out \<or> cap ciphertext_out < length (contents plaintext) \<or> cap tag_out < 16
                 then (SEDS_SIZE_MISMATCH, Some ([], []))
                 else
                   let ciphertext = apply_hmac_stream key key_id (contents nonce) (contents aad) (contents plaintext);
                       tag = software_tag key key_id (contents nonce) (contents aad) ciphertext
                   in (SEDS_OK, Some (ciphertext, take 16 tag))))"

definition seds_crypto_open ::
    "crypto \<Rightarrow> u32 \<Rightarrow> in_buf \<Rightarrow> in_buf \<Rightarrow> in_buf \<Rightarrow> in_buf \<Rightarrow> out_buf \<Rightarrow> bool \<Rightarrow> seds_result \<times> bytes option" where
  "seds_crypto_open C key_id nonce aad ciphertext tag plaintext_out length_null =
     (if missing nonce \<or> missing aad \<or> missing ciphertext \<or> missing tag \<or> bad_out plaintext_out \<or> length_null
      then (SEDS_BAD_ARG, None)
      else case g_crypto_open C of
          Some f \<Rightarrow> f key_id nonce aad ciphertext tag plaintext_out
        | None \<Rightarrow>
            (case map_of (g_software_keys C) key_id of
               None \<Rightarrow> (SEDS_BAD_ARG, None)
             | Some key \<Rightarrow>
                 if length (contents tag) \<noteq> 16 then (SEDS_BAD_ARG, None)
                 else if is_null plaintext_out \<or> cap plaintext_out < length (contents ciphertext)
                 then (SEDS_SIZE_MISMATCH, Some [])
                 else
                   let expected = software_tag key key_id (contents nonce) (contents aad) (contents ciphertext) in
                   if \<not> constant_time_eq (take 16 expected) (contents tag) then (SEDS_HANDLER_ERROR, Some [])
                   else (SEDS_OK, Some (apply_hmac_stream key key_id (contents nonce) (contents aad) (contents ciphertext)))))"

section \<open>Managed credentials\<close>

record credential_info =
  subject_id :: u64
  ci_key_id :: u32
  epoch :: u64
  not_before_ms :: u64
  not_after_ms :: u64
  permissions :: u32

definition kManagedCredentialMagic :: bytes where
  "kManagedCredentialMagic = bytes_of_string ''SEDSCR1'' @ [0]"

definition credential_body :: "credential_info \<Rightarrow> bytes" where
  "credential_body i =
     kManagedCredentialMagic @ le_bytes 8 (subject_id i) @ le_bytes 4 (ci_key_id i) @ le_bytes 8 (epoch i) @
     le_bytes 8 (not_before_ms i) @ le_bytes 8 (not_after_ms i) @ le_bytes 4 (permissions i)"

text \<open>The second component is \<open>None\<close> when nothing is written and else the bytes counted by \<open>out_len\<close>.\<close>

definition seds_crypto_issue_managed_credential ::
    "bytes option \<Rightarrow> credential_info \<Rightarrow> bool \<Rightarrow> nat \<Rightarrow> seds_result \<times> bytes option" where
  "seds_crypto_issue_managed_credential root_key info out_null out_cap =
     (case root_key of
        None \<Rightarrow> (SEDS_BAD_ARG, None)
      | Some root \<Rightarrow>
          if length root < 16 \<or> out_null then (SEDS_BAD_ARG, None)
          else if out_cap < 80 then (SEDS_SIZE_MISMATCH, Some [])
          else
            let body = credential_body info; key = normalize_software_key root
            in (SEDS_OK, Some (body @ managed_credential_tag key body)))"

definition read_u64_le :: "bytes \<Rightarrow> nat \<Rightarrow> u64" where
  "read_u64_le bs i = from_le (take 8 (drop i bs))"

definition read_u32_le :: "bytes \<Rightarrow> nat \<Rightarrow> u32" where
  "read_u32_le bs i = from_le (take 4 (drop i bs))"

definition empty_info :: credential_info where
  "empty_info = \<lparr>subject_id = 0, ci_key_id = 0, epoch = 0, not_before_ms = 0, not_after_ms = 0, permissions = 0\<rparr>"

definition seds_crypto_verify_managed_credential ::
    "bytes option \<Rightarrow> bytes option \<Rightarrow> u64 \<Rightarrow> bool \<Rightarrow> seds_result \<times> credential_info option" where
  "seds_crypto_verify_managed_credential root_key credential now info_null =
     (case (root_key, credential) of
        (Some root, Some cred) \<Rightarrow>
          if length root < 16 \<or> info_null \<or> length cred \<noteq> 80 then (SEDS_BAD_ARG, None)
          else if take 8 cred \<noteq> kManagedCredentialMagic then (SEDS_BAD_ARG, Some empty_info)
          else
            let tag = managed_credential_tag (normalize_software_key root) (take 48 cred) in
            if \<not> constant_time_eq tag (drop 48 cred) then (SEDS_HANDLER_ERROR, Some empty_info)
            else if now < read_u64_le cred 28 \<or> read_u64_le cred 36 < now then (SEDS_HANDLER_ERROR, Some empty_info)
            else (SEDS_OK, Some
              \<lparr>subject_id = read_u64_le cred 8, ci_key_id = read_u32_le cred 16, epoch = read_u64_le cred 20,
               not_before_ms = read_u64_le cred 28, not_after_ms = read_u64_le cred 36,
               permissions = read_u32_le cred 44\<rparr>)
      | _ \<Rightarrow> (SEDS_BAD_ARG, None))"

end
