(* ===== verification/Crypto_Facts.thy ===== *)
theory Crypto_Facts
  imports Crypto
begin

text \<open>
  Correctness of the cryptographic helpers: HMAC against its definition, sealing and opening as
  inverses, what a credential that verifies is, and an ambiguity of the tag.
\<close>

section \<open>HMAC\<close>

text \<open>The definition of RFC 2104 over the reference hash.\<close>

definition hmac_reference :: "bytes \<Rightarrow> bytes \<Rightarrow> bytes" where
  "hmac_reference key m = fips_sha256 (key_pad 0x5c key @ fips_sha256 (key_pad 0x36 key @ m))"

lemma hmac_sha256_reference: "hmac_sha256 key chunks = hmac_reference key (concat chunks)"
  using finalize_chunks [of "key_pad 0x36 key # chunks"]
    finalize_chunks [of "[key_pad 0x5c key, fips_sha256 (key_pad 0x36 key @ concat chunks)]"]
  by (simp add: hmac_sha256_def hmac_reference_def)

lemma length_hmac_sha256 [simp]: "length (hmac_sha256 key chunks) = 32"
  by (simp add: hmac_sha256_def Let_def)

lemma foldl_or_zero:
  "foldl (\<lambda>diff (x, y). diff OR (x XOR y)) d (zip a b) = 0 \<longleftrightarrow> d = 0 \<and> list_all2 (=) (take (length b) a) (take (length a) b)"
  for d :: u8
proof (induction a b arbitrary: d rule: list_induct2')
  case (4 x a y b)
  have "d OR (x XOR y) = 0 \<longleftrightarrow> d = 0 \<and> x = y"
    by (auto simp: bit_eq_iff bit_or_iff bit_xor_iff)
  with 4 show ?case by simp
qed simp_all

lemma constant_time_eq_iff [simp]: "constant_time_eq a b \<longleftrightarrow> a = b"
  by (auto simp: constant_time_eq_def foldl_or_zero list.rel_eq)

section \<open>The stream\<close>

lemma length_stream_block [simp]: "length (stream_block key key_id nonce aad c) = 32"
  by (simp add: stream_block_def)

lemma length_hmac_stream [simp]: "length (hmac_stream key key_id nonce aad c input) = length input"
  by (induction key key_id nonce aad c input rule: hmac_stream.induct)
    (subst hmac_stream.simps, simp add: Let_def min_def)

lemma map2_xor_twice:
  "length a \<le> length b \<Longrightarrow> map2 (\<lambda>x y. x XOR y) (map2 (\<lambda>x y. x XOR y) a b) b = (a :: u8 list)"
  by (induction a b rule: list_induct2') (simp_all add: xor.assoc)

lemma hmac_stream_inverse:
  "hmac_stream key key_id nonce aad c (hmac_stream key key_id nonce aad c input) = input"
proof (induction key key_id nonce aad c input rule: hmac_stream.induct)
  case (1 key key_id nonce aad c input)
  show ?case
  proof (cases "input = []")
    case True
    then show ?thesis by (simp add: hmac_stream.simps)
  next
    case False
    let ?n = "min 32 (length input)" and ?b = "stream_block key key_id nonce aad c"
    let ?out = "map2 (\<lambda>x y. x XOR y) (take ?n input) ?b"
    let ?rest = "hmac_stream key key_id nonce aad (c + 1) (drop ?n input)"
    have e: "hmac_stream key key_id nonce aad c input = ?out @ ?rest"
      using False by (subst hmac_stream.simps) (simp add: Let_def)
    have l: "length ?out = ?n" "length (?out @ ?rest) = length input" by simp_all
    then have n: "min 32 (length (?out @ ?rest)) = ?n" "?out @ ?rest \<noteq> []"
      using False by (simp only:, metis length_0_conv)
    have "hmac_stream key key_id nonce aad c (?out @ ?rest) =
        map2 (\<lambda>x y. x XOR y) ?out ?b @ hmac_stream key key_id nonce aad (c + 1) ?rest"
      by (subst hmac_stream.simps) (simp only: Let_def n l if_False take_append drop_append, simp)
    also have "map2 (\<lambda>x y. x XOR y) ?out ?b = take ?n input" by (rule map2_xor_twice) simp
    also have "hmac_stream key key_id nonce aad (c + 1) ?rest = drop ?n input" by (rule "1.IH" [OF False refl refl])
    finally show ?thesis by (simp add: e)
  qed
qed

section \<open>Sealing\<close>

text \<open>
  (C35) What was sealed can be opened. With no provider, a registered software key and large enough buffers sealing
  succeeds, the ciphertext is as long as the plaintext, and opening it with the same key,
  nonce and associated data returns the plaintext.
\<close>

theorem seal_then_open:
  assumes "g_crypto_seal C = None" "g_crypto_open C = None" "map_of (g_software_keys C) key_id = Some key"
    and "\<not> missing nonce" "\<not> missing aad" "\<not> missing plaintext"
    and "\<not> is_null cout" "length (contents plaintext) \<le> cap cout" "\<not> is_null tout" "16 \<le> cap tout"
    and "\<not> is_null pout" "length (contents plaintext) \<le> cap pout"
  shows "\<exists>ct tag. seds_crypto_seal C key_id nonce aad plaintext cout tout False = (SEDS_OK, Some (ct, tag)) \<and>
    length ct = length (contents plaintext) \<and> length tag = 16 \<and>
    seds_crypto_open C key_id nonce aad (Buf ct) (Buf tag) pout False = (SEDS_OK, Some (contents plaintext))"
  using assms
  by (simp add: seds_crypto_seal_def seds_crypto_open_def bad_out_def apply_hmac_stream_def Let_def hmac_stream_inverse
      software_tag_def not_less)

definition sample_keys :: crypto where
  "sample_keys = \<lparr>g_crypto_seal = None, g_crypto_open = None, g_software_keys = [(7, replicate 32 1)]\<rparr>"

definition room :: out_buf where
  "room = \<lparr>is_null = False, cap = 64\<rparr>"

lemmas sample_keys_simps = sample_keys_def room_def

theorem seal_then_open_witness:
  "\<exists>ct tag. seds_crypto_seal sample_keys 7 (Buf [1, 2]) (Null 0) (Buf [10, 20, 30]) room room False = (SEDS_OK, Some (ct, tag)) \<and>
     length ct = 3 \<and> length tag = 16 \<and>
     seds_crypto_open sample_keys 7 (Buf [1, 2]) (Null 0) (Buf ct) (Buf tag) room False = (SEDS_OK, Some [10, 20, 30])"
  using seal_then_open [of sample_keys 7 "replicate 32 1" "Buf [1, 2]" "Null 0" "Buf [10, 20, 30]" room room room]
  by (simp add: sample_keys_simps numeral_3_eq_3)

text \<open>
  (C36) Opening checks the tag. With no provider, a registered software key, a tag of 16 bytes and a large enough
  buffer, opening succeeds exactly when the tag is the truncated HMAC over key identifier,
  nonce, associated data and ciphertext; otherwise it reports an error and writes no plaintext.
\<close>

theorem open_checks_tag:
  assumes "g_crypto_open C = None" "map_of (g_software_keys C) key_id = Some key" "length tag = 16"
    and "\<not> missing nonce" "\<not> missing aad" "\<not> missing ct" "\<not> is_null pout" "length (contents ct) \<le> cap pout"
  shows "seds_crypto_open C key_id nonce aad ct (Buf tag) pout False =
    (if tag = take 16 (hmac_reference key
           (bytes_of_string ''SEDS-HMAC-TAG'' @ le_bytes 4 key_id @ contents nonce @ contents aad @ contents ct))
     then (SEDS_OK, Some (apply_hmac_stream key key_id (contents nonce) (contents aad) (contents ct)))
     else (SEDS_HANDLER_ERROR, Some []))"
  using assms
  by (auto simp: seds_crypto_open_def bad_out_def Let_def software_tag_def hmac_sha256_reference not_less)

theorem open_checks_tag_witness:
  "seds_crypto_open sample_keys 7 (Buf [1]) (Buf [2]) (Buf [3]) (Buf (replicate 16 0)) room False =
    (if replicate 16 0 = take 16 (hmac_reference (replicate 32 1)
           (bytes_of_string ''SEDS-HMAC-TAG'' @ le_bytes 4 (7 :: u32) @ [1] @ [2] @ [3]))
     then (SEDS_OK, Some (apply_hmac_stream (replicate 32 1) 7 [1] [2] [3]))
     else (SEDS_HANDLER_ERROR, Some []))"
  using open_checks_tag [of sample_keys 7 "replicate 32 1" "replicate 16 0" "Buf [1]" "Buf [2]" "Buf [3]" room]
  by (simp only: contents.simps) (simp add: sample_keys_simps)

text \<open>
  (C40) The tag does not fix where the associated data begin and end. Whatever opens with associated data
  \<open>b @ a @ c\<close> under the nonce \<open>n\<close> is opened, to the same plaintext, with associated data \<open>a @ c\<close>
  under the nonce \<open>n @ b\<close>; and with the end \<open>c\<close> of the associated data moved to the front of the
  ciphertext the same tag is accepted too, for a longer plaintext.
\<close>

theorem tag_ambiguous:
  assumes "g_crypto_open C = None" "map_of (g_software_keys C) key_id = Some key"
    and "\<not> is_null pout" "length ct + length c \<le> cap pout"
    and "fst (seds_crypto_open C key_id (Buf n) (Buf (b @ a @ c)) (Buf ct) (Buf tag) pout False) = SEDS_OK"
  shows "seds_crypto_open C key_id (Buf (n @ b)) (Buf (a @ c)) (Buf ct) (Buf tag) pout False =
      seds_crypto_open C key_id (Buf n) (Buf (b @ a @ c)) (Buf ct) (Buf tag) pout False \<and>
    (\<exists>plain. seds_crypto_open C key_id (Buf n) (Buf (b @ a)) (Buf (c @ ct)) (Buf tag) pout False = (SEDS_OK, Some plain) \<and>
      length plain = length c + length ct)"
proof
  have s: "stream_block key key_id (n @ b) (a @ c) i = stream_block key key_id n (b @ a @ c) i" for i
    by (simp add: stream_block_def hmac_sha256_reference)
  have "hmac_stream key key_id (n @ b) (a @ c) i x = hmac_stream key key_id n (b @ a @ c) i x" for i x
  proof (induction x arbitrary: i rule: length_induct)
    case (1 x)
    then show ?case
      by (subst (1 2) hmac_stream.simps) (auto simp: s Let_def)
  qed
  then show "seds_crypto_open C key_id (Buf (n @ b)) (Buf (a @ c)) (Buf ct) (Buf tag) pout False =
      seds_crypto_open C key_id (Buf n) (Buf (b @ a @ c)) (Buf ct) (Buf tag) pout False"
    using assms by (simp add: seds_crypto_open_def software_tag_def hmac_sha256_reference apply_hmac_stream_def)
  show "\<exists>plain. seds_crypto_open C key_id (Buf n) (Buf (b @ a)) (Buf (c @ ct)) (Buf tag) pout False = (SEDS_OK, Some plain) \<and>
      length plain = length c + length ct"
    using assms
    by (auto simp: seds_crypto_open_def software_tag_def hmac_sha256_reference apply_hmac_stream_def bad_out_def Let_def
        split: if_splits)
qed

theorem tag_ambiguous_witness:
  "let tag = take 16 (software_tag (replicate 32 1) 7 [9] [1, 2, 3] [4, 5]) in
   seds_crypto_open sample_keys 7 (Buf [9, 1]) (Buf [2, 3]) (Buf [4, 5]) (Buf tag) room False =
     seds_crypto_open sample_keys 7 (Buf [9]) (Buf [1, 2, 3]) (Buf [4, 5]) (Buf tag) room False \<and>
   (\<exists>plain. seds_crypto_open sample_keys 7 (Buf [9]) (Buf [1, 2]) (Buf [3, 4, 5]) (Buf tag) room False = (SEDS_OK, Some plain) \<and>
     length plain = 3)"
proof -
  let ?tag = "take 16 (software_tag (replicate 32 1) 7 [9] [1, 2, 3] [4, 5])"
  have "fst (seds_crypto_open sample_keys 7 (Buf [9]) (Buf ([1] @ [2] @ [3])) (Buf [4, 5]) (Buf ?tag) room False) = SEDS_OK"
    by (simp add: seds_crypto_open_def sample_keys_simps bad_out_def Let_def software_tag_def)
  from tag_ambiguous [OF _ _ _ _ this, of "replicate 32 1"] show ?thesis
    by (simp add: sample_keys_simps numeral_3_eq_3)
qed

section \<open>Credentials\<close>

lemma length_credential_body [simp]: "length (credential_body i) = 48"
  by (simp add: credential_body_def kManagedCredentialMagic_def)

lemma length_managed_credential_tag [simp]: "length (managed_credential_tag key body) = 32"
  by (simp add: managed_credential_tag_def)


lemma read_le_bytes:
  "i + 8 \<le> length bs \<Longrightarrow> le_bytes 8 (read_u64_le bs i) = take 8 (drop i bs)"
  "i + 4 \<le> length bs \<Longrightarrow> le_bytes 4 (read_u32_le bs i) = take 4 (drop i bs)"
  using le_bytes_from_le [of "take 8 (drop i bs)", where 'a = 64] le_bytes_from_le [of "take 4 (drop i bs)", where 'a = 32]
  by (simp_all add: read_u64_le_def read_u32_le_def)

lemma drop_split: "drop i b = take n (drop i b) @ drop (i + n) b"
  by (metis append_take_drop_id drop_drop add.commute)

definition credential_read :: "bytes \<Rightarrow> credential_info" where
  "credential_read cred =
     \<lparr>subject_id = read_u64_le cred 8, ci_key_id = read_u32_le cred 16, epoch = read_u64_le cred 20,
      not_before_ms = read_u64_le cred 28, not_after_ms = read_u64_le cred 36, permissions = read_u32_le cred 44\<rparr>"

lemma credential_body_read:
  assumes "length cred = 80" "take 8 cred = kManagedCredentialMagic"
  shows "credential_body (credential_read cred) = take 48 cred"
proof -
  have "cred = take 8 cred @ drop 8 cred" by simp
  also have "drop 8 cred = take 8 (drop 8 cred) @ drop 16 cred" using drop_split [of 8 cred 8] by simp
  also have "drop 16 cred = take 4 (drop 16 cred) @ drop 20 cred" using drop_split [of 16 cred 4] by simp
  also have "drop 20 cred = take 8 (drop 20 cred) @ drop 28 cred" using drop_split [of 20 cred 8] by simp
  also have "drop 28 cred = take 8 (drop 28 cred) @ drop 36 cred" using drop_split [of 28 cred 8] by simp
  also have "drop 36 cred = take 8 (drop 36 cred) @ drop 44 cred" using drop_split [of 36 cred 8] by simp
  also have "drop 44 cred = take 4 (drop 44 cred) @ drop 48 cred" using drop_split [of 44 cred 4] by simp
  finally have "cred = credential_body (credential_read cred) @ drop 48 cred"
    using assms by (simp add: credential_body_def credential_read_def read_le_bytes)
  then show ?thesis by (metis append_take_drop_id append_same_eq)
qed

lemma credential_read_body: "credential_read (credential_body i @ tag) = i"
  by (simp add: credential_read_def credential_body_def kManagedCredentialMagic_def read_u64_le_def read_u32_le_def
      bytes_of_string_def)

text \<open>
  (C37) A credential verifies exactly when it was issued. Under a root key of at least 16 bytes, verification
  succeeds with some contents if and only if the credential is what issuing those contents
  under that key yields and the time lies in its period of validity.
\<close>

theorem credential_valid_iff:
  assumes "16 \<le> length root"
  shows "seds_crypto_verify_managed_credential (Some root) (Some cred) now False = (SEDS_OK, Some info) \<longleftrightarrow>
    seds_crypto_issue_managed_credential (Some root) info False 80 = (SEDS_OK, Some cred) \<and>
    not_before_ms info \<le> now \<and> now \<le> not_after_ms info"
proof -
  let ?key = "normalize_software_key root"
  have v: "seds_crypto_verify_managed_credential (Some root) (Some cred) now False = (SEDS_OK, Some info) \<longleftrightarrow>
      length cred = 80 \<and> take 8 cred = kManagedCredentialMagic \<and>
      drop 48 cred = managed_credential_tag ?key (take 48 cred) \<and>
      info = credential_read cred \<and> not_before_ms info \<le> now \<and> now \<le> not_after_ms info"
    using assms
    by (auto simp: seds_crypto_verify_managed_credential_def credential_read_def Let_def not_less split: if_splits)
  have i: "seds_crypto_issue_managed_credential (Some root) info False 80 = (SEDS_OK, Some cred) \<longleftrightarrow>
      cred = credential_body info @ managed_credential_tag ?key (credential_body info)"
    using assms by (auto simp: seds_crypto_issue_managed_credential_def Let_def)
  have "cred = credential_body info @ managed_credential_tag ?key (credential_body info)"
    if "length cred = 80" "take 8 cred = kManagedCredentialMagic"
      "drop 48 cred = managed_credential_tag ?key (take 48 cred)" "info = credential_read cred"
    using that credential_body_read [of cred] by (metis append_take_drop_id)
  moreover have "length cred = 80 \<and> take 8 cred = kManagedCredentialMagic \<and>
      drop 48 cred = managed_credential_tag ?key (take 48 cred) \<and> info = credential_read cred"
    if "cred = credential_body info @ managed_credential_tag ?key (credential_body info)"
  proof -
    have "take 8 (credential_body info) = kManagedCredentialMagic"
      by (simp add: credential_body_def kManagedCredentialMagic_def)
    then show ?thesis using credential_read_body [of info] by (simp add: that)
  qed
  ultimately show ?thesis unfolding v i by blast
qed


definition sample_credential :: credential_info where
  "sample_credential = \<lparr>subject_id = 42, ci_key_id = 7, epoch = 3, not_before_ms = 1000, not_after_ms = 2000, permissions = 5\<rparr>"

theorem credential_valid_iff_witness:
  "seds_crypto_verify_managed_credential (Some (replicate 32 9)) (Some (credential_body sample_credential @
       managed_credential_tag (replicate 32 9) (credential_body sample_credential))) 1500 False = (SEDS_OK, Some sample_credential)"
  by (subst credential_valid_iff)
    (simp_all add: seds_crypto_issue_managed_credential_def normalize_software_key_def Let_def sample_credential_def)

end
