(* ===== verification/Registry.thy ===== *)
theory Registry
  imports Schema
begin

text \<open>
  Registration of endpoints and types at run time: \<open>seds_endpoint_*\<close>, \<open>seds_dtype_*\<close> and their
  helpers in \<open>src/upstream_api_compat.cpp\<close>. The process-wide tables are the \<open>env\<close> of the other
  theories and the maps of descriptions, priorities and policies beside it. A null name with a
  length is not represented; those calls return \<open>SEDS_BAD_ARG\<close> at once. \<open>None\<close> is a fault: for
  the largest identifier \<open>resize(id + 1u)\<close> empties the table that is then written.
\<close>

record registry =
  tables :: env
  endpoint_descriptions :: "(u32, string) amap"
  endpoint_link_local :: "(u32, bool) amap"
  type_descriptions :: "(u32, string) amap"
  type_priorities :: "(u32, u8) amap"
  type_e2e_policies :: "(u32, u8) amap"

section \<open>Identifiers\<close>

definition c_api_type_id :: "env \<Rightarrow> u32 \<Rightarrow> u32" where
  "c_api_type_id E ty =
     (if valid_type E ty then ty
      else if ty < 19 then (case type_by_name E (v4_type_names ! unat ty) of Some i \<Rightarrow> i | None \<Rightarrow> ty)
      else ty)"

definition is_internal_endpoint_id :: "u32 \<Rightarrow> bool" where
  "is_internal_endpoint_id ep \<longleftrightarrow> ep = SEDS_EP_TIME_SYNC \<or> ep = SEDS_EP_DISCOVERY \<or> ep = SEDS_EP_TELEMETRY_ERROR"

definition is_internal_type_id :: "env \<Rightarrow> u32 \<Rightarrow> bool" where
  "is_internal_type_id E ty =
     (let ty' = c_api_type_id E ty in valid_type E ty' \<and> ti_name (type_at E ty') \<in> set v4_type_names)"

definition endpoint_description :: "registry \<Rightarrow> u32 \<Rightarrow> string" where
  "endpoint_description R ep = mget '''' (endpoint_descriptions R) ep"

definition type_description :: "registry \<Rightarrow> u32 \<Rightarrow> string" where
  "type_description R ty = mget '''' (type_descriptions R) ty"

definition endpoint_is_link_local :: "registry \<Rightarrow> u32 \<Rightarrow> bool" where
  "endpoint_is_link_local R ep = mget False (endpoint_link_local R) ep"

definition type_priority :: "registry \<Rightarrow> u32 \<Rightarrow> u8" where
  "type_priority R ty = mget 0 (type_priorities R) ty"

abbreviation SEDS_E2E_PREFER_OFF :: u8 where "SEDS_E2E_PREFER_OFF \<equiv> 0"

definition type_e2e_policy :: "registry \<Rightarrow> u32 \<Rightarrow> u8" where
  "type_e2e_policy R ty = mget SEDS_E2E_PREFER_OFF (type_e2e_policies R) ty"

section \<open>Codes\<close>

definition element_types :: "element_data_type list" where
  "element_types = [NoData, Bool, UInt8, UInt16, UInt32, UInt64, UInt128, Int8, Int16, Int32, Int64, Int128,
     Float32, Float64, String, Binary]"

definition message_classes :: "message_class list" where
  "message_classes = [Data, Error, Warning]"

definition reliable_modes :: "reliable_mode list" where
  "reliable_modes = [RM_None, Ordered, Unordered]"

text \<open>The position of an enumerator in its declaration is its value.\<close>

definition code_of :: "'a list \<Rightarrow> 'a \<Rightarrow> u8" where
  "code_of xs x = word_of_nat (length (takeWhile (\<lambda>y. y \<noteq> x) xs))"

definition message_data_type_code :: "element_data_type \<Rightarrow> u8" where
  "message_data_type_code t = code_of element_types t"

definition message_class_code :: "message_class \<Rightarrow> u8" where
  "message_class_code c = code_of message_classes c"

definition reliable_code :: "reliable_mode \<Rightarrow> u8" where
  "reliable_code m = code_of reliable_modes m"

definition element_type_from_code :: "u8 \<Rightarrow> element_data_type" where
  "element_type_from_code c = (if unat c < length element_types then element_types ! unat c else UInt8)"

definition message_class_from_code :: "u8 \<Rightarrow> message_class" where
  "message_class_from_code c = (if unat c < length message_classes then message_classes ! unat c else Data)"

definition reliable_from_code :: "u8 \<Rightarrow> reliable_mode" where
  "reliable_from_code c = (if unat c < length reliable_modes then reliable_modes ! unat c else RM_None)"

fun elem_size_from_type :: "element_data_type \<Rightarrow> nat" where
  "elem_size_from_type Bool = 1"
| "elem_size_from_type UInt8 = 1"
| "elem_size_from_type Int8 = 1"
| "elem_size_from_type String = 1"
| "elem_size_from_type Binary = 1"
| "elem_size_from_type UInt16 = 2"
| "elem_size_from_type Int16 = 2"
| "elem_size_from_type UInt32 = 4"
| "elem_size_from_type Int32 = 4"
| "elem_size_from_type Float32 = 4"
| "elem_size_from_type UInt64 = 8"
| "elem_size_from_type Int64 = 8"
| "elem_size_from_type Float64 = 8"
| "elem_size_from_type UInt128 = 16"
| "elem_size_from_type Int128 = 16"
| "elem_size_from_type NoData = 0"

section \<open>Queries\<close>

record endpoint_info =
  ei_id :: u32
  ei_exists :: bool
  ei_name :: string
  ei_link_local_only :: bool
  ei_description :: string

definition no_endpoint :: "u32 \<Rightarrow> endpoint_info" where
  "no_endpoint ep = \<lparr>ei_id = ep, ei_exists = False, ei_name = '''', ei_link_local_only = False, ei_description = ''''\<rparr>"

record data_type_info =
  di_id :: u32
  di_exists :: bool
  is_static :: bool
  element_count :: nat
  message_data_type :: u8
  di_message_class :: u8
  di_reliable :: u8
  priority :: u8
  e2e_encryption :: u8
  fixed_size :: nat
  di_endpoints :: "u32 list"
  di_name :: string
  di_description :: string

definition no_type :: "u32 \<Rightarrow> data_type_info" where
  "no_type ty = \<lparr>di_id = ty, di_exists = False, is_static = False, element_count = 0, message_data_type = 0,
     di_message_class = 0, di_reliable = 0, priority = 0, e2e_encryption = 0, fixed_size = 0, di_endpoints = [],
     di_name = '''', di_description = ''''\<rparr>"

definition seds_endpoint_exists :: "registry \<Rightarrow> u32 \<Rightarrow> bool" where
  "seds_endpoint_exists R ep = valid_endpoint (tables R) ep"

definition seds_dtype_exists :: "registry \<Rightarrow> u32 \<Rightarrow> bool" where
  "seds_dtype_exists R ty = valid_type (tables R) (c_api_type_id (tables R) ty)"

definition seds_endpoint_get_info :: "registry \<Rightarrow> u32 \<Rightarrow> endpoint_info" where
  "seds_endpoint_get_info R ep =
     (case endpoint_at (tables R) ep of
        None \<Rightarrow> no_endpoint ep
      | Some name \<Rightarrow>
          \<lparr>ei_id = ep, ei_exists = True, ei_name = name,
           ei_link_local_only = (endpoint_is_link_local R ep \<or> endpoint_link_local_only (tables R) ep),
           ei_description = endpoint_description R ep\<rparr>)"

definition seds_dtype_get_info :: "registry \<Rightarrow> u32 \<Rightarrow> data_type_info" where
  "seds_dtype_get_info R ty0 =
     (let E = tables R; ty = c_api_type_id E ty0 in
      if \<not> valid_type E ty then no_type ty
      else let info = type_at E ty in
        \<lparr>di_id = ty, di_exists = True, is_static = \<not> dynamic info,
         element_count = (if dynamic info then 0 else static_count info),
         message_data_type = message_data_type_code (data_type info),
         di_message_class = message_class_code (ti_message_class info),
         di_reliable = reliable_code (ti_reliable_mode info), priority = type_priority R ty,
         e2e_encryption = type_e2e_policy R ty,
         fixed_size = (if dynamic info then 0 else size_mul (elem_size info) (static_count info)),
         di_endpoints = ti_endpoints info, di_name = ti_name info, di_description = type_description R ty\<rparr>)"

text \<open>What is copied to \<open>endpoints_out\<close>, when it is given with a capacity.\<close>

definition dtype_endpoints_out :: "registry \<Rightarrow> u32 \<Rightarrow> nat option \<Rightarrow> u32 list" where
  "dtype_endpoints_out R ty endpoints_cap =
     (case endpoints_cap of None \<Rightarrow> [] | Some n \<Rightarrow> take n (di_endpoints (seds_dtype_get_info R ty)))"

text \<open>Searches by name begin with the identifiers from 100 on.\<close>

definition search_order :: "nat \<Rightarrow> nat list" where
  "search_order n = [100..<n] @ [0..<n]"

definition find_endpoint :: "env \<Rightarrow> string \<Rightarrow> nat list \<Rightarrow> u32 option" where
  "find_endpoint E name is = map_option word_of_nat (find (\<lambda>i. kEndpointNames E ! i = Some name) is)"

definition find_type :: "env \<Rightarrow> string \<Rightarrow> nat list \<Rightarrow> u32 option" where
  "find_type E name is =
     map_option word_of_nat (find (\<lambda>i. ti_name (kTypeInfo E ! i) \<noteq> '''' \<and> ti_name (kTypeInfo E ! i) = name) is)"

definition seds_endpoint_get_info_by_name :: "registry \<Rightarrow> string \<Rightarrow> endpoint_info" where
  "seds_endpoint_get_info_by_name R name =
     (case find_endpoint (tables R) name (search_order (length (kEndpointNames (tables R)))) of
        Some i \<Rightarrow> seds_endpoint_get_info R i
      | None \<Rightarrow> no_endpoint 0)"

definition seds_dtype_get_info_by_name :: "registry \<Rightarrow> string \<Rightarrow> data_type_info" where
  "seds_dtype_get_info_by_name R name =
     (case find_type (tables R) name (search_order (length (kTypeInfo (tables R)))) of
        Some i \<Rightarrow> seds_dtype_get_info R i
      | None \<Rightarrow> no_type 0)"

section \<open>Registration\<close>

text \<open>A name is kept as a C string: it ends at the first null character.\<close>

definition c_str :: "string \<Rightarrow> string" where
  "c_str s = takeWhile (\<lambda>c. c \<noteq> CHR 0x00) s"

definition seds_endpoint_register_ex ::
    "u32 \<Rightarrow> string \<Rightarrow> string \<Rightarrow> bool \<Rightarrow> registry \<Rightarrow> (seds_result \<times> registry) option" where
  "seds_endpoint_register_ex ep name desc ll R =
     (let E = tables R in
      case endpoint_at E ep of
        Some old \<Rightarrow>
          Some (if name = old \<and> desc = endpoint_description R ep \<and> ll = endpoint_is_link_local R ep
                then SEDS_OK else SEDS_BAD_ARG, R)
      | None \<Rightarrow>
          if Some name \<in> set (kEndpointNames E) then Some (SEDS_BAD_ARG, R)
          else if ep = - 1 then None
          else
            let names = grow_set None (unat ep) (Some (c_str name)) (kEndpointNames E)
            in Some (SEDS_OK,
                 R\<lparr>tables := E\<lparr>kEndpointNames := names, kEndpointCount := word_of_nat (length names)\<rparr>,
                   endpoint_descriptions := mput ep desc (endpoint_descriptions R),
                   endpoint_link_local := mput ep ll (endpoint_link_local R)\<rparr>))"

definition seds_endpoint_register :: "u32 \<Rightarrow> string \<Rightarrow> bool \<Rightarrow> registry \<Rightarrow> (seds_result \<times> registry) option" where
  "seds_endpoint_register ep name ll R = seds_endpoint_register_ex ep name '''' ll R"

text \<open>The arguments of a type's registration that describe it.\<close>

record type_spec =
  ts_static :: bool
  ts_count :: nat
  ts_data_type :: u8
  ts_class :: u8
  ts_reliable :: u8
  ts_priority_code :: u8
  ts_endpoints :: "u32 list"

definition same_type :: "registry \<Rightarrow> u32 \<Rightarrow> string \<Rightarrow> type_spec \<Rightarrow> bool" where
  "same_type R ty name s \<longleftrightarrow>
     (let old = type_at (tables R) ty in
      name = ti_name old \<and> dynamic old = (\<not> ts_static s) \<and>
      static_count old = (if ts_static s then ts_count s else 0) \<and>
      data_type old = element_type_from_code (ts_data_type s) \<and>
      ti_message_class old = message_class_from_code (ts_class s) \<and>
      ti_reliable_mode old = reliable_from_code (ts_reliable s) \<and> ti_endpoints old = ts_endpoints s \<and>
      type_priority R ty = ts_priority_code s \<and> type_description R ty = '''')"

definition new_type_info :: "string \<Rightarrow> type_spec \<Rightarrow> type_info" where
  "new_type_info name s =
     (let t = element_type_from_code (ts_data_type s) in
      \<lparr>ti_name = c_str name, elem_size = elem_size_from_type t, static_count = (if ts_static s then ts_count s else 0),
       dynamic = \<not> ts_static s, ti_reliable_mode = reliable_from_code (ts_reliable s), data_type = t,
       ti_message_class = message_class_from_code (ts_class s), link_local_only = False, ti_endpoints = ts_endpoints s\<rparr>)"

definition seds_dtype_register :: "u32 \<Rightarrow> string \<Rightarrow> type_spec \<Rightarrow> registry \<Rightarrow> (seds_result \<times> registry) option" where
  "seds_dtype_register ty0 name s R =
     (let E = tables R; ty = c_api_type_id E ty0 in
      if \<not> list_all (valid_endpoint E) (ts_endpoints s) then Some (SEDS_BAD_ARG, R)
      else if valid_type E ty then Some (if same_type R ty name s then SEDS_OK else SEDS_BAD_ARG, R)
      else if name \<noteq> '''' \<and> name \<in> ti_name ` set (kTypeInfo E) then Some (SEDS_BAD_ARG, R)
      else if ty = - 1 then None
      else Some (SEDS_OK,
        R\<lparr>tables := E\<lparr>kTypeInfo := grow_set empty_type_info (unat ty) (new_type_info name s) (kTypeInfo E)\<rparr>,
          type_descriptions := mput ty '''' (type_descriptions R),
          type_priorities := mput ty (ts_priority_code s) (type_priorities R),
          type_e2e_policies := mput ty SEDS_E2E_PREFER_OFF (type_e2e_policies R)\<rparr>))"

definition seds_dtype_register_ex ::
    "u32 \<Rightarrow> string \<Rightarrow> string \<Rightarrow> type_spec \<Rightarrow> registry \<Rightarrow> (seds_result \<times> registry) option" where
  "seds_dtype_register_ex ty name desc s R =
     (let local_ty = c_api_type_id (tables R) ty; existed = valid_type (tables R) local_ty in
      map_option (\<lambda>(rc, R').
        if rc \<noteq> SEDS_OK then (rc, R')
        else if existed then (if type_description R' local_ty = desc then SEDS_OK else SEDS_BAD_ARG, R')
        else (SEDS_OK, R'\<lparr>type_descriptions := mput local_ty desc (type_descriptions R')\<rparr>))
      (seds_dtype_register ty name s R))"

definition seds_dtype_set_e2e_encryption_policy :: "u32 \<Rightarrow> u8 \<Rightarrow> registry \<Rightarrow> seds_result \<times> registry" where
  "seds_dtype_set_e2e_encryption_policy ty0 policy R =
     (let ty = c_api_type_id (tables R) ty0 in
      if \<not> valid_type (tables R) ty then (SEDS_INVALID_TYPE, R)
      else (SEDS_OK, R\<lparr>type_e2e_policies := mput ty policy (type_e2e_policies R)\<rparr>))"

section \<open>Removal\<close>

definition erase_type :: "nat \<Rightarrow> registry \<Rightarrow> registry" where
  "erase_type i R =
     R\<lparr>tables := (tables R)\<lparr>kTypeInfo := (kTypeInfo (tables R))[i := empty_type_info]\<rparr>,
       type_descriptions := merase (word_of_nat i) (type_descriptions R),
       type_priorities := merase (word_of_nat i) (type_priorities R),
       type_e2e_policies := merase (word_of_nat i) (type_e2e_policies R)\<rparr>"

definition seds_endpoint_remove :: "u32 \<Rightarrow> registry \<Rightarrow> seds_result \<times> registry" where
  "seds_endpoint_remove ep R =
     (if \<not> valid_endpoint (tables R) ep then (SEDS_OK, R)
      else if is_internal_endpoint_id ep then (SEDS_BAD_ARG, R)
      else
        let R1 = R\<lparr>tables := (tables R)\<lparr>kEndpointNames := (kEndpointNames (tables R))[unat ep := None]\<rparr>,
                   endpoint_descriptions := merase ep (endpoint_descriptions R),
                   endpoint_link_local := merase ep (endpoint_link_local R)\<rparr>
        in (SEDS_OK, foldl (\<lambda>Q i. if ep \<in> set (ti_endpoints (kTypeInfo (tables Q) ! i)) then erase_type i Q else Q)
              R1 [0..<length (kTypeInfo (tables R))]))"

definition seds_endpoint_remove_by_name :: "string \<Rightarrow> registry \<Rightarrow> seds_result \<times> registry" where
  "seds_endpoint_remove_by_name name R =
     (case find_endpoint (tables R) name [0..<length (kEndpointNames (tables R))] of
        Some i \<Rightarrow> seds_endpoint_remove i R
      | None \<Rightarrow> (SEDS_OK, R))"

definition seds_dtype_remove :: "u32 \<Rightarrow> registry \<Rightarrow> seds_result \<times> registry" where
  "seds_dtype_remove ty0 R =
     (let ty = c_api_type_id (tables R) ty0 in
      if \<not> valid_type (tables R) ty then (SEDS_OK, R)
      else if is_internal_type_id (tables R) ty then (SEDS_BAD_ARG, R)
      else (SEDS_OK, erase_type (unat ty) R))"

definition seds_dtype_remove_by_name :: "string \<Rightarrow> registry \<Rightarrow> seds_result \<times> registry" where
  "seds_dtype_remove_by_name name R =
     (case find_type (tables R) name [0..<length (kTypeInfo (tables R))] of
        Some i \<Rightarrow> seds_dtype_remove i R
      | None \<Rightarrow> (SEDS_OK, R))"

section \<open>Tuning and identity\<close>

definition seds_set_runtime_device_identifier :: "string \<Rightarrow> registry \<Rightarrow> seds_result \<times> registry" where
  "seds_set_runtime_device_identifier name R =
     (if name = '''' then (SEDS_BAD_ARG, R)
      else (SEDS_OK, R\<lparr>tables := (tables R)\<lparr>device_identifier := name\<rparr>\<rparr>))"

definition seds_get_runtime_tuning_config :: "registry \<Rightarrow> tuning_config" where
  "seds_get_runtime_tuning_config R = tuning (tables R)"

definition seds_set_runtime_tuning_config :: "tuning_config \<Rightarrow> registry \<Rightarrow> seds_result \<times> registry" where
  "seds_set_runtime_tuning_config cfg R =
     (if \<not> valid_runtime_tuning_config cfg then (SEDS_BAD_ARG, R)
      else (SEDS_OK, R\<lparr>tables := (tables R)\<lparr>tuning := cfg\<rparr>\<rparr>))"

end
