(* ===== verification/Schema_Json.thy ===== *)
theory Schema_Json
  imports Registry
begin

text \<open>
  The reader of JSON schema files in \<open>src/upstream_api_compat.cpp\<close>. It does not parse JSON: it
  searches the text for quoted keys and scans from there. Positions are indices into the text, as
  in the code. In \<open>json_size_value\<close> the outer \<open>None\<close> is the exception \<open>std::stoull\<close> throws for a
  number that does not fit; \<open>split_string_array\<close> is a loop that need not end, and \<open>None\<close> is
  not returning.
\<close>

section \<open>Strings\<close>

abbreviation quote :: char where "quote \<equiv> CHR 0x22"
abbreviation backslash :: char where "backslash \<equiv> CHR 0x5C"

definition unescape_char :: "char \<Rightarrow> char" where
  "unescape_char c =
     (if c = CHR ''n'' then CHR 0x0A else if c = CHR ''r'' then CHR 0x0D else if c = CHR ''t'' then CHR 0x09 else c)"

fun unescape_json_string :: "string \<Rightarrow> string" where
  "unescape_json_string [] = []"
| "unescape_json_string [c] = [c]"
| "unescape_json_string (c # d # cs) =
     (if c = backslash then unescape_char d # unescape_json_string cs else c # unescape_json_string (d # cs))"

text \<open>\<open>std::string_view::find\<close> from a position.\<close>

definition find_from :: "string \<Rightarrow> nat \<Rightarrow> string \<Rightarrow> nat option" where
  "find_from needle pos s = List.find (\<lambda>i. take (length needle) (drop i s) = needle) [pos..<Suc (length s) - length needle]"

definition quoted :: "string \<Rightarrow> string" where
  "quoted key = [quote] @ key @ [quote]"

text \<open>The position of the quote that ends a string, relative to its start.\<close>

fun closing_quote :: "bool \<Rightarrow> string \<Rightarrow> nat option" where
  "closing_quote escaped [] = None"
| "closing_quote escaped (c # cs) =
     (if escaped then map_option Suc (closing_quote False cs)
      else if c = backslash then map_option Suc (closing_quote True cs)
      else if c = quote then Some 0
      else map_option Suc (closing_quote False cs))"

definition json_string_value :: "string \<Rightarrow> string \<Rightarrow> string option" where
  "json_string_value obj key = do {
     p \<leftarrow> find_from (quoted key) 0 obj;
     q \<leftarrow> find_from '':'' (p + length (quoted key)) obj;
     r \<leftarrow> find_from [quote] (q + 1) obj;
     n \<leftarrow> closing_quote False (drop (r + 1) obj);
     Some (unescape_json_string (take n (drop (r + 1) obj)))
   }"

text \<open>\<open>std::isspace\<close> and \<open>std::isdigit\<close> in the C locale.\<close>

definition is_space :: "char \<Rightarrow> bool" where
  "is_space c \<longleftrightarrow> c \<in> {CHR '' '', CHR 0x09, CHR 0x0A, CHR 0x0B, CHR 0x0C, CHR 0x0D}"

definition is_digit :: "char \<Rightarrow> bool" where
  "is_digit c \<longleftrightarrow> CHR ''0'' \<le> c \<and> c \<le> CHR ''9''"

definition after_key :: "string \<Rightarrow> string \<Rightarrow> string option" where
  "after_key obj key = do {
     p \<leftarrow> find_from (quoted key) 0 obj;
     q \<leftarrow> find_from '':'' (p + length (quoted key)) obj;
     Some (dropWhile is_space (drop (q + 1) obj))
   }"

definition decimal :: "string \<Rightarrow> nat" where
  "decimal ds = foldl (\<lambda>n c. 10 * n + (of_char c - 48)) 0 ds"

definition json_size_value :: "string \<Rightarrow> string \<Rightarrow> nat option option" where
  "json_size_value obj key =
     (case after_key obj key of
        None \<Rightarrow> Some None
      | Some rest \<Rightarrow>
          let ds = takeWhile is_digit rest in
          if ds = [] then Some None
          else if 2 ^ 64 \<le> decimal ds then None
          else Some (Some (decimal ds)))"

definition json_bool_value :: "string \<Rightarrow> string \<Rightarrow> bool option" where
  "json_bool_value obj key = do {
     rest \<leftarrow> after_key obj key;
     if take 4 rest = ''true'' then Some True
     else if take 5 rest = ''false'' then Some False
     else None
   }"

section \<open>Arrays and objects\<close>

text \<open>The scan for the closing bracket: depth, inside a string, after a backslash.\<close>

fun closing_bracket :: "int \<Rightarrow> bool \<Rightarrow> bool \<Rightarrow> string \<Rightarrow> nat option" where
  "closing_bracket depth in_string escaped [] = None"
| "closing_bracket depth in_string escaped (c # cs) =
     (if in_string then
        map_option Suc
          (if escaped then closing_bracket depth True False cs
           else if c = backslash then closing_bracket depth True True cs
           else if c = quote then closing_bracket depth False False cs
           else closing_bracket depth True False cs)
      else if c = quote then map_option Suc (closing_bracket depth True escaped cs)
      else if c = CHR ''['' then map_option Suc (closing_bracket (depth + 1) False escaped cs)
      else if c = CHR '']'' then
        (if depth - 1 = 0 then Some 0 else map_option Suc (closing_bracket (depth - 1) False escaped cs))
      else map_option Suc (closing_bracket depth False escaped cs))"

definition json_array_value :: "string \<Rightarrow> string \<Rightarrow> string option" where
  "json_array_value obj key = do {
     p \<leftarrow> find_from (quoted key) 0 obj;
     q \<leftarrow> find_from ''['' (p + length (quoted key)) obj;
     n \<leftarrow> closing_bracket 0 False False (drop q obj);
     Some (take (n - 1) (drop (q + 1) obj))
   }"

fun scan_objects :: "string \<Rightarrow> nat \<Rightarrow> int \<Rightarrow> bool \<Rightarrow> bool \<Rightarrow> nat option \<Rightarrow> string \<Rightarrow> string list" where
  "scan_objects array i depth in_string escaped start [] = []"
| "scan_objects array i depth in_string escaped start (c # cs) =
     (if in_string then
        (if escaped then scan_objects array (Suc i) depth True False start cs
         else if c = backslash then scan_objects array (Suc i) depth True True start cs
         else if c = quote then scan_objects array (Suc i) depth False False start cs
         else scan_objects array (Suc i) depth True False start cs)
      else if c = quote then scan_objects array (Suc i) depth True escaped start cs
      else if c = CHR ''{'' then
        scan_objects array (Suc i) (depth + 1) False escaped (if depth = 0 then Some i else start) cs
      else if c = CHR ''}'' then
        (case start of
           Some b \<Rightarrow>
             if depth - 1 = 0
             then take (i - b + 1) (drop b array) # scan_objects array (Suc i) (depth - 1) False escaped None cs
             else scan_objects array (Suc i) (depth - 1) False escaped start cs
         | None \<Rightarrow> scan_objects array (Suc i) (depth - 1) False escaped start cs)
      else scan_objects array (Suc i) depth False escaped start cs)"

definition split_top_level_objects :: "string \<Rightarrow> string list" where
  "split_top_level_objects array = scan_objects array 0 0 False False None array"

text \<open>
  When a string does not end, the inner loop leaves \<open>pos\<close> where it is and the outer loop finds the
  same quote again.
\<close>

partial_function (option) split_strings :: "string \<Rightarrow> nat \<Rightarrow> string list option" where
  "split_strings array pos =
     (case find_from [quote] pos array of
        None \<Rightarrow> Some []
      | Some p \<Rightarrow>
          (case closing_quote False (drop (p + 1) array) of
             None \<Rightarrow> split_strings array p
           | Some n \<Rightarrow>
               Option.bind (split_strings array (p + 1 + n + 1)) (\<lambda>rest.
               Some (unescape_json_string (take n (drop (p + 1) array)) # rest))))"

declare split_strings.simps [code]

definition split_string_array :: "string \<Rightarrow> string list option" where
  "split_string_array array = split_strings array 0"

section \<open>Names of codes\<close>

definition element_code_from_name :: "string \<Rightarrow> u8" where
  "element_code_from_name name = message_data_type_code
     (if name = ''NoData'' then NoData else if name = ''Bool'' then Bool else if name = ''UInt8'' then UInt8
      else if name = ''UInt16'' then UInt16 else if name = ''UInt32'' then UInt32 else if name = ''UInt64'' then UInt64
      else if name = ''Int8'' then Int8 else if name = ''Int16'' then Int16 else if name = ''Int32'' then Int32
      else if name = ''Int64'' then Int64 else if name = ''Float32'' then Float32 else if name = ''Float64'' then Float64
      else if name = ''String'' then String else if name = ''Binary'' then Binary else UInt8)"

definition reliable_code_from_name :: "string \<Rightarrow> u8" where
  "reliable_code_from_name name = reliable_code
     (if name = ''Ordered'' then Ordered else if name = ''Unordered'' then Unordered else RM_None)"

definition message_class_code_from_name :: "string \<Rightarrow> u8" where
  "message_class_code_from_name name = message_class_code
     (if name = ''Error'' then Error else if name = ''Warning'' then Warning else Data)"

section \<open>Loading a schema\<close>

text \<open>
  The search for the next free identifier, from a start on. Identifiers are kept as natural
  numbers: the tables have fewer than \<open>2\<^sup>3\<^sup>2\<close> entries.
\<close>

definition next_free :: "(nat \<Rightarrow> bool) \<Rightarrow> nat \<Rightarrow> nat \<Rightarrow> nat" where
  "next_free used len start = (case List.find (\<lambda>i. \<not> used i) [start..<len] of Some i \<Rightarrow> i | None \<Rightarrow> max start len)"

definition next_endpoint :: "registry \<Rightarrow> nat \<Rightarrow> nat" where
  "next_endpoint R start =
     next_free (\<lambda>i. kEndpointNames (tables R) ! i \<noteq> None) (length (kEndpointNames (tables R))) start"

definition next_type :: "registry \<Rightarrow> nat \<Rightarrow> nat" where
  "next_type R start =
     next_free (\<lambda>i. ti_name (kTypeInfo (tables R) ! i) \<noteq> '''') (length (kTypeInfo (tables R))) start"

definition json_description :: "string \<Rightarrow> string" where
  "json_description obj =
     (case json_string_value obj ''description'' of
        Some d \<Rightarrow> d
      | None \<Rightarrow> (case json_string_value obj ''doc'' of Some d \<Rightarrow> d | None \<Rightarrow> ''''))"

definition json_or :: "string \<Rightarrow> string option \<Rightarrow> string" where
  "json_or d v = (case v of Some x \<Rightarrow> x | None \<Rightarrow> d)"

text \<open>The loop over the endpoints: the identifiers by Rust name, the next free identifier.\<close>

fun load_endpoints ::
    "string list \<Rightarrow> (string, u32) amap \<Rightarrow> nat \<Rightarrow> registry \<Rightarrow> (seds_result \<times> (string, u32) amap \<times> registry) option" where
  "load_endpoints [] ids nxt R = Some (SEDS_OK, ids, R)"
| "load_endpoints (obj # objs) ids nxt R =
     (case (json_string_value obj ''rust'', json_string_value obj ''name'') of
        (Some rust, Some name) \<Rightarrow>
          let ll = (json_bool_value obj ''link_local_only'' = Some True \<or>
                    json_or '''' (json_string_value obj ''broadcast_mode'') = ''Never'')
          in do {
            (rc, R1) \<leftarrow> seds_endpoint_register_ex (word_of_nat nxt) name (json_description obj) ll R;
            if rc \<noteq> SEDS_OK then Some (rc, ids, R1)
            else load_endpoints objs (mput rust (word_of_nat nxt) ids) (next_endpoint R (Suc nxt)) R1
          }
      | _ \<Rightarrow> Some (SEDS_DESERIALIZE, ids, R))"

definition named_ids :: "(string, u32) amap \<Rightarrow> string list \<Rightarrow> u32 list" where
  "named_ids ids names = List.map_filter (map_of ids) names"

fun load_types ::
    "string list \<Rightarrow> (string, u32) amap \<Rightarrow> nat \<Rightarrow> registry \<Rightarrow> (seds_result \<times> registry) option" where
  "load_types [] ids nxt R = Some (SEDS_OK, R)"
| "load_types (obj # objs) ids nxt R =
     (case json_string_value obj ''name'' of
        None \<Rightarrow> Some (SEDS_DESERIALIZE, R)
      | Some name \<Rightarrow> do {
          prio \<leftarrow> json_size_value obj ''priority'';
          (case json_array_value obj ''endpoints'' of
             None \<Rightarrow> Some (SEDS_DESERIALIZE, R)
           | Some array \<Rightarrow> do {
               names \<leftarrow> split_string_array array;
               let eps = named_ids ids names;
               let static = (json_or ''Static'' (json_string_value obj ''kind'') \<noteq> ''Dynamic'');
               if eps = [] then Some (SEDS_BAD_ARG, R)
               else do {
                 count \<leftarrow> (if static then json_size_value obj ''count'' else Some None);
                 (rc, R1) \<leftarrow> seds_dtype_register_ex (word_of_nat nxt) name (json_description obj)
                   \<lparr>ts_static = static, ts_count = (case count of Some n \<Rightarrow> n | None \<Rightarrow> 0),
                    ts_data_type = element_code_from_name (json_or ''UInt8'' (json_string_value obj ''data_type'')),
                    ts_class = message_class_code_from_name (json_or ''Data'' (json_string_value obj ''class'')),
                    ts_reliable = (if json_bool_value obj ''reliable'' = Some True then reliable_code Ordered
                                   else reliable_code_from_name (json_or ''None'' (json_string_value obj ''reliable_mode''))),
                    ts_priority_code = word_of_nat (case prio of Some n \<Rightarrow> n | None \<Rightarrow> 0), ts_endpoints = eps\<rparr> R;
                 if rc \<noteq> SEDS_OK then Some (rc, R1)
                 else load_types objs ids (next_type R (Suc nxt)) R1
               }
             })
        })"

definition register_schema_json_text :: "string \<Rightarrow> registry \<Rightarrow> (seds_result \<times> registry) option" where
  "register_schema_json_text json R =
     (case (json_array_value json ''endpoints'', json_array_value json ''types'') of
        (Some endpoint_array, Some type_array) \<Rightarrow> do {
          (rc, ids, R1) \<leftarrow> load_endpoints (split_top_level_objects endpoint_array) [] (next_endpoint R 100) R;
          if rc \<noteq> SEDS_OK then Some (rc, R1)
          else load_types (split_top_level_objects type_array) ids (next_type R1 100) R1
        }
      | _ \<Rightarrow> Some (SEDS_DESERIALIZE, R))"

text \<open>
  The interface functions; \<open>Inl n\<close> is a null pointer with the length \<open>n\<close>. The file variant reads
  the path with \<open>read\<close>, which has no result when the file cannot be opened.
\<close>

definition seds_schema_register_json_bytes :: "nat + string \<Rightarrow> registry \<Rightarrow> (seds_result \<times> registry) option" where
  "seds_schema_register_json_bytes json R =
     (case json of
        Inl n \<Rightarrow> if n \<noteq> 0 then Some (SEDS_BAD_ARG, R) else register_schema_json_text '''' R
      | Inr text \<Rightarrow> register_schema_json_text text R)"

definition seds_schema_register_json_file ::
    "(string \<Rightarrow> string option) \<Rightarrow> nat + string \<Rightarrow> registry \<Rightarrow> (seds_result \<times> registry) option" where
  "seds_schema_register_json_file read path R =
     (if (case path of Inl n \<Rightarrow> n \<noteq> 0 | Inr _ \<Rightarrow> False) then Some (SEDS_BAD_ARG, R)
      else case read (case path of Inl _ \<Rightarrow> '''' | Inr p \<Rightarrow> p) of
          None \<Rightarrow> Some (SEDS_IO, R)
        | Some text \<Rightarrow> register_schema_json_text text R)"

text \<open>
  The schema named by environment variables, loaded once: \<open>getenv\<close> and \<open>read\<close> are the environment
  and the file system, and \<open>once\<close> says whether the load has been done (\<open>g_runtime_schema_once\<close>). An
  exception of the number reader leaves the flag unset.
\<close>

definition load_path ::
    "(string \<Rightarrow> string option) \<Rightarrow> (string \<Rightarrow> string option) \<Rightarrow> string \<Rightarrow> string \<Rightarrow> registry \<Rightarrow> registry option" where
  "load_path getenv read primary legacy R =
     (let path = (if getenv primary = None \<or> getenv primary = Some '''' then getenv legacy else getenv primary) in
      if path = None \<or> path = Some '''' then Some R
      else case read (the path) of
          None \<Rightarrow> Some R
        | Some text \<Rightarrow> map_option snd (register_schema_json_text text R))"

definition ensure_runtime_schema_loaded ::
    "(string \<Rightarrow> string option) \<Rightarrow> (string \<Rightarrow> string option) \<Rightarrow> bool \<times> registry \<Rightarrow> (bool \<times> registry) option" where
  "ensure_runtime_schema_loaded getenv read oR =
     (case oR of (once, R) \<Rightarrow>
        if once then Some (once, R)
        else do {
          R1 \<leftarrow> load_path getenv read ''SEDSNET_STATIC_SCHEMA_PATH'' ''SEDSPRINTF_RS_SCHEMA_PATH'' R;
          R2 \<leftarrow> load_path getenv read ''SEDSNET_STATIC_IPC_SCHEMA_PATH'' ''SEDSPRINTF_RS_IPC_SCHEMA_PATH'' R1;
          Some (True, R2)
        })"

section \<open>Writing strings\<close>

text \<open>\<open>json_push_escaped\<close> without the surrounding quotes, which the caller of the model adds.\<close>

definition hex_digit :: "nat \<Rightarrow> char" where
  "hex_digit n = ''0123456789abcdef'' ! n"

definition escape_char :: "char \<Rightarrow> string" where
  "escape_char c =
     (if c = quote then [backslash, quote]
      else if c = backslash then [backslash, backslash]
      else if c = CHR 0x08 then [backslash, CHR ''b'']
      else if c = CHR 0x0C then [backslash, CHR ''f'']
      else if c = CHR 0x0A then [backslash, CHR ''n'']
      else if c = CHR 0x0D then [backslash, CHR ''r'']
      else if c = CHR 0x09 then [backslash, CHR ''t'']
      else if (of_char c :: nat) < 32 then
        [backslash, CHR ''u'', CHR ''0'', CHR ''0'', hex_digit (of_char c div 16), hex_digit (of_char c mod 16)]
      else [c])"

definition json_push_escaped :: "string \<Rightarrow> string \<Rightarrow> string" where
  "json_push_escaped out s = out @ [quote] @ concat (map escape_char s) @ [quote]"

fun json_items :: "string list \<Rightarrow> string" where
  "json_items [] = ''''"
| "json_items [x] = json_push_escaped '''' x"
| "json_items (x # xs) = json_push_escaped '''' x @ '','' @ json_items xs"

definition json_push_string_array :: "string \<Rightarrow> string list \<Rightarrow> string" where
  "json_push_string_array out xs = out @ ''['' @ json_items xs @ '']''"

end
