(* ===== verification/Packet_Text.thy ===== *)
theory Packet_Text
  imports Wire Schema_Json "HOL-Library.Signed_Division"
begin

text \<open>
  Rendering of packets as text, \<open>src/packet_api.cpp\<close>: times, numbers of all element types, hexadecimal
  dumps, headers and whole packets, with the interface functions that copy the text into a buffer.
  \<open>None\<close> is a read outside the memory a view describes.
\<close>

section \<open>Numbers\<close>

text \<open>A field of fixed width filled with zeros, and separated lists, as the output streams write them.\<close>

definition setw :: "nat \<Rightarrow> string \<Rightarrow> string" where
  "setw n s = replicate (n - length s) (CHR ''0'') @ s"

fun separated :: "string \<Rightarrow> string list \<Rightarrow> string" where
  "separated sep [] = ''''"
| "separated sep [x] = x"
| "separated sep (x # y # ys) = x @ sep @ separated sep (y # ys)"

definition int_text :: "int \<Rightarrow> string" where
  "int_text i = (if i < 0 then CHR ''-'' # to_string (nat (- i)) else to_string (nat i))"

text \<open>\<open>read_le_value\<close> at an unsigned and at a signed type of \<open>w\<close> bytes.\<close>

definition unsigned_value :: "bytes \<Rightarrow> nat" where
  "unsigned_value bs = unat (from_le bs :: u64)"

definition signed_value :: "nat \<Rightarrow> bytes \<Rightarrow> int" where
  "signed_value w bs =
     (let n = int (unsigned_value bs) in if n < 2 ^ (8 * w - 1) then n else n - 2 ^ (8 * w))"

text \<open>
  A floating-point number in fixed notation: the decoded number is a multiple of a power of two,
  which is rounded to the given number of decimals, ties to even.
\<close>

definition round_half_even :: "nat \<Rightarrow> nat \<Rightarrow> nat" where
  "round_half_even a b =
     (let q = a div b; r = a mod b in if 2 * r < b \<or> 2 * r = b \<and> even q then q else q + 1)"

definition decimals :: "nat \<Rightarrow> nat \<Rightarrow> string" where
  "decimals prec n =
     to_string (n div 10 ^ prec) @ (if prec = 0 then '''' else CHR ''.'' # setw prec (to_string (n mod 10 ^ prec)))"

definition float_text :: "nat \<Rightarrow> nat \<Rightarrow> nat \<Rightarrow> nat \<Rightarrow> string" where
  "float_text prec ebits mbits n =
     (let sign = (if odd (n div 2 ^ (ebits + mbits)) then ''-'' else '''');
          e = n div 2 ^ mbits mod 2 ^ ebits;
          m = n mod 2 ^ mbits;
          mant = (if e = 0 then m else 2 ^ mbits + m);
          ex = int (max 1 e) - (2 ^ (ebits - 1) - 1) - int mbits
      in if e = 2 ^ ebits - 1 then sign @ (if m = 0 then ''inf'' else ''nan'')
         else sign @ decimals prec
           (if 0 \<le> ex then mant * 10 ^ prec * 2 ^ nat ex
            else round_half_even (mant * 10 ^ prec) (2 ^ nat (- ex))))"

text \<open>The loop of \<open>append_numbers\<close>: the complete elements of \<open>w\<close> bytes.\<close>

function chunks :: "nat \<Rightarrow> bytes \<Rightarrow> bytes list" where
  "chunks w bs = (if w = 0 \<or> length bs < w then [] else take w bs # chunks w (drop w bs))"
  by pat_completeness auto
termination by (relation "measure (\<lambda>(w, bs). length bs)") auto

declare chunks.simps [simp del]

definition append_numbers :: "nat \<Rightarrow> (bytes \<Rightarrow> string) \<Rightarrow> bytes \<Rightarrow> string" where
  "append_numbers w render bs = separated '', '' (map render (chunks w bs))"

definition unsigned_text :: "bytes \<Rightarrow> string" where
  "unsigned_text bs = to_string (unsigned_value bs)"

definition signed_text :: "nat \<Rightarrow> bytes \<Rightarrow> string" where
  "signed_text w bs = int_text (signed_value w bs)"

section \<open>Times\<close>

definition kEpochMsThreshold :: u64 where
  "kEpochMsThreshold = 1000000000000"

definition civil_from_days :: "int \<Rightarrow> int \<times> int \<times> int" where
  "civil_from_days z0 =
     (let z = z0 + 719468;
          era = (if 0 \<le> z then z else z - 146096) sdiv 146097;
          doe = z - era * 146097;
          yoe = (doe - doe div 1460 + doe div 36524 - doe div 146096) div 365;
          y = yoe + era * 400;
          doy = doe - (365 * yoe + yoe div 4 - yoe div 100);
          mp = (5 * doy + 2) div 153;
          d = doy - (153 * mp + 2) div 5 + 1;
          m = mp + (if mp < 10 then 3 else -9)
      in (y + (if m \<le> 2 then 1 else 0), m, d))"

definition format_epoch_ms :: "u64 \<Rightarrow> string" where
  "format_epoch_ms total_ms =
     (let secs = total_ms div 1000; sub_ms = total_ms mod 1000;
          days = uint (secs div 86400);
          sod = uint (secs mod 86400);
          (year, month, day) = civil_from_days days
      in setw 4 (int_text year) @ ''-'' @ setw 2 (int_text month) @ ''-'' @ setw 2 (int_text day) @ '' '' @
         setw 2 (int_text (sod div 3600)) @ '':'' @ setw 2 (int_text (sod mod 3600 div 60)) @ '':'' @
         setw 2 (int_text (sod mod 60)) @ ''.'' @ setw 3 (to_string (unat sub_ms)) @ ''Z'')"

definition human_time :: "u64 \<Rightarrow> string" where
  "human_time total_ms =
     (if kEpochMsThreshold \<le> total_ms then format_epoch_ms total_ms
      else
        let hours = total_ms div 3600000; minutes = total_ms mod 3600000 div 60000;
            seconds = total_ms mod 60000 div 1000; milliseconds = total_ms mod 1000;
            ms = setw 3 (to_string (unat milliseconds)) @ ''ms''
        in if 0 < hours then
             to_string (unat hours) @ ''h '' @ setw 2 (to_string (unat minutes)) @ ''m '' @
             setw 2 (to_string (unat seconds)) @ ''s '' @ ms
           else if 0 < minutes then
             to_string (unat minutes) @ ''m '' @ setw 2 (to_string (unat seconds)) @ ''s '' @ ms
           else to_string (unat seconds) @ ''s '' @ ms)"

section \<open>Payload and packet\<close>

definition endpoint_name :: "env \<Rightarrow> u32 \<Rightarrow> string" where
  "endpoint_name E ep =
     (if valid_endpoint E ep then the (kEndpointNames E ! unat ep) else ''EP_'' @ to_string (unat ep))"

definition hex_dump :: "bytes \<Rightarrow> string" where
  "hex_dump bs = separated '' '' (map (\<lambda>b. ''0x'' @ [hex_digit (unat b div 16), hex_digit (unat b mod 16)]) bs)"

definition trimmed_utf8 :: "bytes \<Rightarrow> string" where
  "trimmed_utf8 bs = string_of_bytes (rev (dropWhile (\<lambda>b. b = 0) (rev bs)))"

text \<open>The payload a view points to.\<close>

definition view_payload :: "packet_view \<Rightarrow> bytes option" where
  "view_payload v =
     (if v_payload_len v = 0 then Some []
      else Option.bind (v_payload v) (\<lambda>p. read_ptr p (v_payload_len v)))"

definition bool_text :: "u8 \<Rightarrow> string" where
  "bool_text b = (if b \<noteq> 0 then ''true'' else ''false'')"

definition payload_text :: "env \<Rightarrow> element_data_type \<Rightarrow> bytes \<Rightarrow> string" where
  "payload_text E et bs =
     (if bs = [] then ''<NoData>''
      else case et of
          String \<Rightarrow> [quote] @ trimmed_utf8 bs @ [quote]
        | Binary \<Rightarrow> ''Data (hex): '' @ hex_dump bs
        | Bool \<Rightarrow> separated '', '' (map bool_text bs)
        | UInt8 \<Rightarrow> append_numbers 1 unsigned_text bs
        | UInt16 \<Rightarrow> append_numbers 2 unsigned_text bs
        | UInt32 \<Rightarrow> append_numbers 4 unsigned_text bs
        | UInt64 \<Rightarrow> append_numbers 8 unsigned_text bs
        | Int8 \<Rightarrow> append_numbers 1 (signed_text 1) bs
        | Int16 \<Rightarrow> append_numbers 2 (signed_text 2) bs
        | Int32 \<Rightarrow> append_numbers 4 (signed_text 4) bs
        | Int64 \<Rightarrow> append_numbers 8 (signed_text 8) bs
        | Float32 \<Rightarrow> append_numbers 4 (float_text (string_precision (tuning E)) 8 23 \<circ> unsigned_value) bs
        | Float64 \<Rightarrow> append_numbers 8 (float_text (string_precision (tuning E)) 11 52 \<circ> unsigned_value) bs
        | NoData \<Rightarrow> ''<NoData>''
        | UInt128 \<Rightarrow> hex_dump bs
        | Int128 \<Rightarrow> hex_dump bs)"

definition payload_to_string :: "env \<Rightarrow> packet_view \<Rightarrow> string option" where
  "payload_to_string E v = map_option (payload_text E (data_type (kTypeInfo E ! unat (v_ty v)))) (view_payload v)"

definition packet_header_string :: "env \<Rightarrow> packet_view \<Rightarrow> string option" where
  "packet_header_string E v = do {
     snd \<leftarrow> read_ptr (case v_sender v of Some s \<Rightarrow> s | None \<Rightarrow> [CHR 0x00]) (v_sender_len v);
     eps \<leftarrow> (if v_num_endpoints v = 0 then Some []
            else Option.bind (v_endpoints v) (\<lambda>p. read_ptr p (v_num_endpoints v)));
     Some (''Type: '' @ ti_name (kTypeInfo E ! unat (v_ty v)) @ '', Data Size: '' @ to_string (v_payload_len v) @
       '', Sender: '' @ snd @ '', Endpoints: ['' @ separated '', '' (map (endpoint_name E) eps) @
       ''], Timestamp: '' @ to_string (unat (v_timestamp v)) @ '' ('' @ human_time (v_timestamp v) @ '')'')
   }"

definition class_label :: "message_class \<Rightarrow> string" where
  "class_label c = (case c of Data \<Rightarrow> ''Data: ('' | Error \<Rightarrow> ''Error: ('' | Warning \<Rightarrow> ''Warning: ('')"

definition packet_to_string :: "env \<Rightarrow> packet_view \<Rightarrow> string option" where
  "packet_to_string E v =
     (let info = kTypeInfo E ! unat (v_ty v) in
      do {
        header \<leftarrow> packet_header_string E v;
        body \<leftarrow> payload_to_string E v;
        Some (if data_type info = Binary \<and> v_payload_len v \<noteq> 0 then header @ '', '' @ body
              else ''{'' @ header @ '', '' @ class_label (ti_message_class info) @ body @ '')}'')
      })"

section \<open>Interface\<close>

text \<open>
  The buffer is \<open>None\<close> when it is null. The result is the returned code and the buffer afterwards.
\<close>

definition copy_rendered ::
    "(env \<Rightarrow> packet_view \<Rightarrow> string option) \<Rightarrow> env \<Rightarrow> packet_view option \<Rightarrow> string option \<Rightarrow> nat \<Rightarrow>
     (seds_result \<times> string option) option" where
  "copy_rendered render E pkt buf buf_len =
     (case pkt of
        None \<Rightarrow> Some (SEDS_BAD_ARG, buf)
      | Some v \<Rightarrow>
          if buf = None \<or> \<not> valid_type E (v_ty v) then Some (SEDS_BAD_ARG, buf)
          else map_option (\<lambda>text. copy_text text buf buf_len) (render E v))"

definition rendered_len ::
    "(env \<Rightarrow> packet_view \<Rightarrow> string option) \<Rightarrow> env \<Rightarrow> packet_view option \<Rightarrow> i32 option" where
  "rendered_len render E pkt =
     (case pkt of
        None \<Rightarrow> Some (result_code SEDS_BAD_ARG)
      | Some v \<Rightarrow>
          if \<not> valid_type E (v_ty v) then Some (result_code SEDS_BAD_ARG)
          else map_option (\<lambda>text. sint (word_of_nat (length text + 1) :: u32)) (render E v))"

definition seds_pkt_to_string ::
    "env \<Rightarrow> packet_view option \<Rightarrow> string option \<Rightarrow> nat \<Rightarrow> (seds_result \<times> string option) option" where
  "seds_pkt_to_string = copy_rendered packet_to_string"

definition seds_pkt_to_string_len :: "env \<Rightarrow> packet_view option \<Rightarrow> i32 option" where
  "seds_pkt_to_string_len = rendered_len packet_to_string"

definition seds_pkt_header_string ::
    "env \<Rightarrow> packet_view option \<Rightarrow> string option \<Rightarrow> nat \<Rightarrow> (seds_result \<times> string option) option" where
  "seds_pkt_header_string = copy_rendered packet_header_string"

definition seds_pkt_header_string_len :: "env \<Rightarrow> packet_view option \<Rightarrow> i32 option" where
  "seds_pkt_header_string_len = rendered_len packet_header_string"

definition seds_error_to_string_len :: "i32 \<Rightarrow> i32" where
  "seds_error_to_string_len code = sint (word_of_nat (length (error_string code) + 1) :: u32)"

definition seds_error_to_string :: "i32 \<Rightarrow> string option \<Rightarrow> nat \<Rightarrow> seds_result \<times> string option" where
  "seds_error_to_string code buf buf_len = copy_text (error_string code) buf buf_len"

end
