(* ===== verification/Export.thy ===== *)
theory Export
  imports Packet_Text Discovery
begin

text \<open>
  Exported texts: the topology snapshot (\<open>src/router.cpp\<close>, \<open>src/relay.cpp\<close>) and its JSON text
  (\<open>src/packet_api.cpp\<close>), and the JSON texts of client statistics, runtime statistics and memory
  layout (\<open>src/upstream_api_compat.cpp\<close>). Texts are built by appending, as in the code.
\<close>

section \<open>The topology snapshot\<close>

record announcer_route =
  ar_sender_id :: string
  ar_endpoints :: "u32 list"
  ar_timesync_sources :: "string list"
  ar_routers :: "topology_board_node list"
  ar_last_seen_ms :: u64
  ar_age_ms :: u64

record side_route =
  sr_side_id :: nat
  sr_side_name :: string
  sr_endpoints :: "u32 list"
  sr_timesync_sources :: "string list"
  sr_announcers :: "announcer_route list"
  sr_last_seen_ms :: u64
  sr_age_ms :: u64

record topology_snapshot =
  advertised_endpoints :: "u32 list"
  advertised_timesync_sources :: "string list"
  ts_routers :: "topology_board_node list"
  ts_routes :: "side_route list"
  current_announce_interval_ms :: u64
  next_announce_ms :: u64

text \<open>\<open>static_cast<size_t>\<close> of a side identifier.\<close>

definition side_size :: "i32 \<Rightarrow> nat" where
  "side_size i = unat (word_of_int i :: u64)"

definition export_announcer :: "u64 \<Rightarrow> string \<times> sender_state \<Rightarrow> announcer_route" where
  "export_announcer now a =
     (case a of (from, s) \<Rightarrow>
        \<lparr>ar_sender_id = from, ar_endpoints = ss_endpoints s, ar_timesync_sources = ss_timesync_sources s,
         ar_routers = topology_boards s, ar_last_seen_ms = ss_last_seen_ms s, ar_age_ms = now - ss_last_seen_ms s\<rparr>)"

definition side_name_of :: "side list \<Rightarrow> i32 \<Rightarrow> string" where
  "side_name_of ss side_id = (if in_range side_id ss then side_name (ss ! nat side_id) else '''')"

definition export_route :: "u64 \<Rightarrow> side list \<Rightarrow> i32 \<times> discovery_route \<Rightarrow> side_route" where
  "export_route now ss e =
     (case e of (side_id, route) \<Rightarrow>
        \<lparr>sr_side_id = side_size side_id, sr_side_name = side_name_of ss side_id, sr_endpoints = rt_endpoints route,
         sr_timesync_sources = rt_timesync_sources route, sr_announcers = map (export_announcer now) (announcers route),
         sr_last_seen_ms = rt_last_seen_ms route, sr_age_ms = now - rt_last_seen_ms route\<rparr>)"

definition export_topology_snapshot ::
    "env \<Rightarrow> world \<Rightarrow> (bool \<Rightarrow> topology_board_node) \<Rightarrow> string \<Rightarrow> 'a owner_scheme \<Rightarrow> topology_snapshot" where
  "export_topology_snapshot E w local_board local_sender r =
     (let now = now_ms w r;
          boards = advertised_discovery_topology E w local_board local_sender (-1) r;
          (eps, sources) = summarize_topology_boards boards
      in \<lparr>advertised_endpoints = eps, advertised_timesync_sources = sources, ts_routers = boards,
          ts_routes = map (export_route now (sides r))
            (filter (\<lambda>(_, route). \<not> stale now (rt_last_seen_ms route)) (discovery_routes r)),
          current_announce_interval_ms = discovery_interval_ms r, next_announce_ms = discovery_next_ms r\<rparr>)"

section \<open>The text of a snapshot\<close>

definition json_push_number_array :: "string \<Rightarrow> nat list \<Rightarrow> string" where
  "json_push_number_array out vals = out @ ''['' @ separated '','' (map to_string vals) @ '']''"

text \<open>A key of an object behind a separator, as the code spells it.\<close>

abbreviation key :: "string \<Rightarrow> string \<Rightarrow> string" where
  "key sep k \<equiv> sep @ quoted k @ '':''"

definition push_board :: "string \<Rightarrow> topology_board_node \<Rightarrow> string" where
  "push_board out b =
     (let out = json_push_escaped (out @ key ''{'' ''sender_id'') (sender_id b);
          out = json_push_number_array (out @ key '','' ''reachable_endpoints'') (map unat (reachable_endpoints b));
          out = json_push_string_array (out @ key '','' ''reachable_timesync_sources'') (reachable_timesync_sources b);
          out = json_push_string_array (out @ key '','' ''connections'') (connections b)
      in out @ ''}'')"

text \<open>The loops that append items with commas between them.\<close>

fun push_more :: "(string \<Rightarrow> 'x \<Rightarrow> string) \<Rightarrow> string \<Rightarrow> 'x list \<Rightarrow> string" where
  "push_more push out [] = out"
| "push_more push out (x # xs) = push_more push (push (out @ '','') x) xs"

fun push_all :: "(string \<Rightarrow> 'x \<Rightarrow> string) \<Rightarrow> string \<Rightarrow> 'x list \<Rightarrow> string" where
  "push_all push out [] = out"
| "push_all push out (x # xs) = push_more push (push out x) xs"

definition push_announcer :: "string \<Rightarrow> announcer_route \<Rightarrow> string" where
  "push_announcer out a =
     (let out = json_push_escaped (out @ key ''{'' ''sender_id'') (ar_sender_id a);
          out = json_push_number_array (out @ key '','' ''reachable_endpoints'') (map unat (ar_endpoints a));
          out = json_push_string_array (out @ key '','' ''reachable_timesync_sources'') (ar_timesync_sources a);
          out = push_all push_board (out @ key '','' ''routers'' @ ''['') (ar_routers a);
          out = out @ '']'' @ key '','' ''last_seen_ms'' @ to_string (unat (ar_last_seen_ms a));
          out = out @ key '','' ''age_ms'' @ to_string (unat (ar_age_ms a))
      in out @ ''}'')"

definition push_route :: "string \<Rightarrow> side_route \<Rightarrow> string" where
  "push_route out s =
     (let out = out @ key ''{'' ''side_id'' @ to_string (sr_side_id s);
          out = json_push_escaped (out @ key '','' ''side_name'') (sr_side_name s);
          out = json_push_number_array (out @ key '','' ''reachable_endpoints'') (map unat (sr_endpoints s));
          out = json_push_string_array (out @ key '','' ''reachable_timesync_sources'') (sr_timesync_sources s);
          out = push_all push_announcer (out @ key '','' ''announcers'' @ ''['') (sr_announcers s);
          out = out @ '']'' @ key '','' ''last_seen_ms'' @ to_string (unat (sr_last_seen_ms s));
          out = out @ key '','' ''age_ms'' @ to_string (unat (sr_age_ms s))
      in out @ ''}'')"

definition topology_snapshot_to_json :: "topology_snapshot \<Rightarrow> string" where
  "topology_snapshot_to_json snap =
     (let out = json_push_number_array (key ''{'' ''advertised_endpoints'') (map unat (advertised_endpoints snap));
          out = json_push_string_array (out @ key '','' ''advertised_timesync_sources'') (advertised_timesync_sources snap);
          out = push_all push_board (out @ key '','' ''routers'' @ ''['') (ts_routers snap);
          out = push_all push_route (out @ '']'' @ key '','' ''routes'' @ ''['') (ts_routes snap);
          out = out @ '']'' @ key '','' ''current_announce_interval_ms'' @ to_string (unat (current_announce_interval_ms snap));
          out = out @ key '','' ''next_announce_ms'' @ to_string (unat (next_announce_ms snap))
      in out @ ''}'')"

section \<open>Client statistics\<close>

definition is_stats_control_endpoint :: "u32 \<Rightarrow> bool" where
  "is_stats_control_endpoint ep \<longleftrightarrow> ep = SEDS_EP_DISCOVERY \<or> ep = SEDS_EP_TIME_SYNC \<or> ep = SEDS_EP_TELEMETRY_ERROR"

definition endpoint_stats_name :: "env \<Rightarrow> u32 \<Rightarrow> string" where
  "endpoint_stats_name E ep =
     (if valid_endpoint E ep then the (kEndpointNames E ! unat ep) else ''endpoint_'' @ to_string (unat ep))"

record client_stats =
  cs_side_ids :: "nat list"
  cs_side_names :: "string list"
  cs_endpoints :: "u32 list"
  cs_sources :: "string list"
  cs_last_seen_ms :: "u64 option"

text \<open>The loop over the routes that collects what is known of a sender.\<close>

definition collect_client :: "side list \<Rightarrow> string \<Rightarrow> client_stats \<Rightarrow> i32 \<times> discovery_route \<Rightarrow> client_stats" where
  "collect_client ss from c e =
     (case e of (side_id, route) \<Rightarrow>
        (case map_of (announcers route) from of
           None \<Rightarrow> c
         | Some s \<Rightarrow>
             \<lparr>cs_side_ids = cs_side_ids c @ [side_size side_id],
              cs_side_names = cs_side_names c @ (if in_range side_id ss then [side_name (ss ! nat side_id)] else []),
              cs_endpoints = cs_endpoints c @ ss_endpoints s,
              cs_sources = cs_sources c @ ss_timesync_sources s,
              cs_last_seen_ms = Some (max (case cs_last_seen_ms c of Some t \<Rightarrow> t | None \<Rightarrow> 0) (ss_last_seen_ms s))\<rparr>))"

definition client_stats_of :: "string \<Rightarrow> 'a owner_scheme \<Rightarrow> client_stats" where
  "client_stats_of from r =
     foldl (collect_client (sides r) from)
       \<lparr>cs_side_ids = [], cs_side_names = [], cs_endpoints = [], cs_sources = [], cs_last_seen_ms = None\<rparr>
       (discovery_routes r)"

definition bool_json :: "bool \<Rightarrow> string" where
  "bool_json b = (if b then ''true'' else ''false'')"

definition client_stats_json :: "env \<Rightarrow> world \<Rightarrow> string \<Rightarrow> 'a owner_scheme \<Rightarrow> string" where
  "client_stats_json E w from r =
     (let now = now_ms w r; c = client_stats_of from r in
      if cs_side_ids c = [] then ''null''
      else
        let eps = sort_dedup (filter (\<lambda>ep. \<not> is_stats_control_endpoint ep) (cs_endpoints c));
            side_ids = sort_dedup (cs_side_ids c);
            side_names = sort_dedup_strings (cs_side_names c);
            names = map (endpoint_stats_name E) eps;
            sources = sort_dedup_strings (cs_sources c);
            age_ms = (case cs_last_seen_ms c of Some t \<Rightarrow> now - t | None \<Rightarrow> 0);
            out = json_push_escaped (key ''{'' ''sender_id'') from;
            out = out @ key '','' ''connected'' @ bool_json (age_ms \<le> kDiscoveryTtlMs);
            out = json_push_number_array (out @ key '','' ''side_ids'') side_ids;
            out = json_push_string_array (out @ key '','' ''side_names'') side_names;
            out = out @ key '','' ''last_seen_ms'' @
              (case cs_last_seen_ms c of Some t \<Rightarrow> to_string (unat t) | None \<Rightarrow> ''null'');
            out = out @ key '','' ''age_ms'' @
              (case cs_last_seen_ms c of Some _ \<Rightarrow> to_string (unat age_ms) | None \<Rightarrow> ''null'');
            out = json_push_string_array (out @ key '','' ''reachable_endpoints'') names;
            out = json_push_number_array (out @ key '','' ''reachable_endpoint_ids'') (map unat eps);
            out = json_push_string_array (out @ key '','' ''reachable_timesync_sources'') sources
        in out @ key '','' ''packets_sent'' @ ''0'' @ key '','' ''packets_received'' @ ''0'' @
           key '','' ''bytes_sent'' @ ''0'' @ key '','' ''bytes_received'' @ ''0}'')"

section \<open>Runtime statistics\<close>

definition route_mode_name :: "route_selection_mode \<Rightarrow> string" where
  "route_mode_name m =
     (case m of Seds_RSM_Weighted \<Rightarrow> ''Weighted'' | Seds_RSM_Failover \<Rightarrow> ''Failover'' | Seds_RSM_Fanout \<Rightarrow> ''Fanout'')"

definition side_transport_profile_name :: "side_transport_profile \<Rightarrow> string" where
  "side_transport_profile_name p =
     (case p of
        PROFILE_TEMPLATE \<Rightarrow> ''template'' | PROFILE_IPV6_LIKE \<Rightarrow> ''ipv6_like'' | PROFILE_IPV4_LIKE \<Rightarrow> ''ipv4_like''
      | _ \<Rightarrow> ''canonical'')"

text \<open>Counters that the code always writes as 0.\<close>

definition zeros :: "string list \<Rightarrow> string" where
  "zeros ks = concat (map (\<lambda>k. key '','' k @ ''0'') ks)"

definition side_counters :: string where
  "side_counters =
     zeros [''tx_packets'', ''tx_bytes'', ''rx_packets'', ''rx_bytes'', ''relayed_tx_packets'', ''relayed_tx_bytes'',
       ''relayed_rx_packets'', ''relayed_rx_bytes'', ''local_delivery_packets'', ''tx_retries'', ''tx_handler_failures'',
       ''local_handler_failures'', ''total_handler_retries'', ''side_transport_full_frames'',
       ''side_transport_compact_frames'', ''side_transport_compact_delta_frames'',
       ''side_transport_compact_omitted_timestamp_frames'', ''side_transport_chunk_frames'', ''side_transport_raw_bytes'',
       ''side_transport_wire_bytes'', ''side_transport_bytes_saved'', ''side_transport_compact_target_misses'',
       ''side_transport_template_evictions'', ''side_transport_tx_template_count'', ''side_transport_rx_template_count''] @
     key '','' ''side_transport_min_compact_overhead_bytes'' @ ''null'' @
     key '','' ''side_transport_max_compact_overhead_bytes'' @ ''null'' @
     key '','' ''adaptive'' @ key ''{'' ''auto_balancing_enabled'' @ ''false'' @
     zeros [''estimated_capacity_bps'', ''peak_capacity_bps'', ''current_usage_bps'', ''peak_usage_bps'',
       ''available_headroom_bps''] @ key '','' ''effective_weight'' @ ''1'' @ zeros [''last_observed_ms'', ''sample_count''] @
     ''}'' @ key '','' ''data_types'' @ ''[]''"

definition push_side :: "string \<Rightarrow> nat \<times> side \<Rightarrow> string" where
  "push_side out e =
     (case e of (i, s) \<Rightarrow>
        let out = out @ key ''{'' ''side_id'' @ to_string i;
            out = json_push_escaped (out @ key '','' ''side_name'') (side_name s);
            out = out @ key '','' ''reliable_enabled'' @ bool_json (reliable_enabled s);
            out = out @ key '','' ''link_local_enabled'' @ bool_json (link_local_enabled s);
            out = out @ key '','' ''header_template_enabled'' @ bool_json (header_template_enabled s);
            out = out @ key '','' ''max_frame_bytes'' @ to_string (max_frame_bytes s);
            out = out @ key '','' ''compact_header_target_bytes'' @ to_string (compact_header_target_bytes s);
            out = out @ key '','' ''max_side_transport_templates'' @ to_string (max_side_transport_templates s);
            out = json_push_escaped (out @ key '','' ''side_transport_profile'')
              (side_transport_profile_name (transport_profile s));
            out = out @ key '','' ''ingress_enabled'' @ bool_json (ingress_enabled s);
            out = out @ key '','' ''egress_enabled'' @ bool_json (egress_enabled s)
        in out @ side_counters @ ''}'')"

definition side_id_json :: "i32 option \<Rightarrow> string" where
  "side_id_json src = (case src of Some i \<Rightarrow> int_text i | None \<Rightarrow> ''null'')"

definition push_route_mode :: "string \<Rightarrow> i32 option \<times> route_policy \<Rightarrow> string" where
  "push_route_mode out e =
     (case e of (src, policy) \<Rightarrow>
        let out = out @ key ''{'' ''src_side_id'' @ side_id_json src;
            out = json_push_escaped (out @ key '','' ''selection_mode'') (route_mode_name (policy_mode policy));
            out = out @ key '','' ''cursor'' @ to_string (unat (rr_counter policy))
        in out @ ''}'')"

definition override_source :: "i32 \<Rightarrow> string" where
  "override_source src = (if 0 \<le> src then int_text src else ''null'')"

definition push_override :: "string \<Rightarrow> (i32 \<times> i32) \<times> bool \<Rightarrow> string" where
  "push_override out e =
     (case e of ((src, dst), enabled) \<Rightarrow>
        out @ key ''{'' ''src_side_id'' @ override_source src @ key '','' ''dst_side_id'' @ int_text dst @
        key '','' ''enabled'' @ bool_json enabled @ ''}'')"

definition push_typed_override :: "env \<Rightarrow> string \<Rightarrow> (i32 \<times> u32 \<times> i32) \<times> bool \<Rightarrow> string" where
  "push_typed_override E out e =
     (case e of ((src, t, dst), enabled) \<Rightarrow>
        out @ key ''{'' ''src_side_id'' @ override_source src @ key '','' ''data_type'' @ to_string (unat (wire_type_id E t)) @
        key '','' ''dst_side_id'' @ int_text dst @ key '','' ''enabled'' @ bool_json enabled @ ''}'')"

definition push_policy_value :: "bool \<Rightarrow> string \<Rightarrow> i32 option \<times> i32 \<times> u32 \<Rightarrow> string" where
  "push_policy_value prio out e =
     (case e of (src, dst, v) \<Rightarrow>
        out @ key ''{'' ''src_side_id'' @ side_id_json src @ key '','' ''dst_side_id'' @ int_text dst @
        key '','' (if prio then ''priority'' else ''weight'') @ to_string (unat v) @ ''}'')"

definition policies :: "'a owner_scheme \<Rightarrow> (i32 option \<times> route_policy) list" where
  "policies r = (None, local_policy r) # map (\<lambda>(src, p). (Some src, p)) (source_policy r)"

definition push_route_policy_values :: "string \<Rightarrow> bool \<Rightarrow> 'a owner_scheme \<Rightarrow> string \<Rightarrow> string" where
  "push_route_policy_values field prio r out =
     push_all (push_policy_value prio) (out @ key '','' field @ ''['')
       (concat (map (\<lambda>(src, p). map (Pair src) (if prio then priorities p else weights p)) (policies r))) @ '']''"

definition shown_policies :: "'a owner_scheme \<Rightarrow> (i32 option \<times> route_policy) list" where
  "shown_policies r =
     (if policy_mode (local_policy r) \<noteq> Seds_RSM_Fanout \<or> weights (local_policy r) \<noteq> [] \<or> priorities (local_policy r) \<noteq> []
      then policies r else tl (policies r))"

definition runtime_queues :: "'a owner_scheme \<Rightarrow> string" where
  "runtime_queues r =
     key '','' ''queues'' @ key ''{'' ''rx_len'' @ to_string (length (rx_queue r)) @
     key '','' ''rx_bytes'' @ to_string (unat (rx_queue_bytes r)) @
     key '','' ''tx_len'' @ to_string (length (tx_queue r)) @
     key '','' ''tx_bytes'' @ to_string (unat (tx_queue_bytes r)) @
     key '','' ''replay_len'' @ to_string (length (reliable_released_rx r)) @ zeros [''replay_bytes''] @
     key '','' ''recent_rx_len'' @ to_string (length (recent_ids r)) @
     key '','' ''recent_rx_bytes'' @ to_string (length (recent_ids r) * 8) @
     zeros [''reliable_rx_buffered_len'', ''reliable_rx_buffered_bytes''] @
     key '','' ''shared_queue_bytes_used'' @ to_string (unat (rx_queue_bytes r + tx_queue_bytes r)) @ ''}''"

definition runtime_reliable :: "'a owner_scheme \<Rightarrow> string" where
  "runtime_reliable r =
     key '','' ''reliable'' @ key ''{'' ''reliable_return_route_count'' @ to_string (length (reliable_return_routes r)) @
     zeros [''end_to_end_pending_count'', ''end_to_end_pending_destination_count'', ''end_to_end_acked_cache_count''] @ ''}''"

definition runtime_discovery :: "'a owner_scheme \<Rightarrow> string" where
  "runtime_discovery r =
     key '','' ''discovery'' @ key ''{'' ''route_count'' @ to_string (length (discovery_routes r)) @
     key '','' ''announcer_count'' @ to_string (sum_list (map (\<lambda>(_, route). length (announcers route)) (discovery_routes r))) @
     key '','' ''current_announce_interval_ms'' @ to_string (unat (discovery_interval_ms r)) @
     key '','' ''next_announce_ms'' @ to_string (unat (discovery_next_ms r)) @ ''}''"

definition runtime_stats_json :: "env \<Rightarrow> 'a owner_scheme \<Rightarrow> string" where
  "runtime_stats_json E r =
     (let out = push_all push_side (''{'' @ key '''' ''sides'' @ ''['') (enumerate 0 (sides r));
          out = push_all push_route_mode (out @ '']'' @ key '','' ''route_modes'' @ ''['') (shown_policies r);
          out = push_all push_override (out @ '']'' @ key '','' ''route_overrides'' @ ''['') (route_overrides r);
          out = push_all (push_typed_override E) (out @ '']'' @ key '','' ''typed_route_overrides'' @ ''['')
            (typed_route_overrides r);
          out = push_route_policy_values ''route_weights'' False r out;
          out = push_route_policy_values ''route_priorities'' True r out
      in out @ runtime_queues r @ runtime_reliable r @ runtime_discovery r @
         zeros [''total_handler_failures'', ''total_handler_retries''] @ ''}'')"

section \<open>Memory layout\<close>

definition recent_rx_queue_bytes :: "memory_config \<Rightarrow> u64" where
  "recent_rx_queue_bytes cfg =
     (let requested = (if (2 ^ 64 - 1) div 8 < max_recent_rx_ids cfg then 2 ^ 64 - 1 else max_recent_rx_ids cfg * 8);
          capped = min requested (unat (max_queue_budget cfg))
      in if capped = 0 then 1 else word_of_nat capped)"

definition memory_layout_json :: "string \<Rightarrow> 'a owner_scheme \<Rightarrow> string" where
  "memory_layout_json kind r =
     (let budget = to_string (unat (max_queue_budget (memory r)));
          out = json_push_escaped (key ''{'' ''kind'') kind;
          out = out @ key '','' ''side_count'' @ to_string (length (sides r));
          out = out @ key '','' ''shared_queue_bytes_allocated'' @ budget;
          out = out @ key '','' ''shared_queue_bytes_used'' @ to_string (unat (rx_queue_bytes r + tx_queue_bytes r));
          out = out @ key '','' ''rx_queue_len'' @ to_string (length (rx_queue r));
          out = out @ key '','' ''rx_queue_bytes_used'' @ to_string (unat (rx_queue_bytes r));
          out = out @ key '','' ''rx_queue_bytes_allocated'' @ budget;
          out = out @ key '','' ''tx_queue_len'' @ to_string (length (tx_queue r));
          out = out @ key '','' ''tx_queue_bytes_used'' @ to_string (unat (tx_queue_bytes r));
          out = out @ key '','' ''tx_queue_bytes_allocated'' @ budget;
          out = out @ key '','' ''replay_queue_len'' @ to_string (length (reliable_released_rx r));
          out = out @ zeros [''replay_queue_bytes_used''] @ key '','' ''replay_queue_bytes_allocated'' @ budget;
          out = out @ key '','' ''recent_rx_len'' @ to_string (length (recent_ids r));
          out = out @ key '','' ''recent_rx_bytes_used'' @ to_string (length (recent_ids r) * 8);
          out = out @ key '','' ''recent_rx_bytes_allocated'' @ to_string (unat (recent_rx_queue_bytes (memory r)));
          out = out @ key '','' ''reliable_return_route_count'' @ to_string (length (reliable_return_routes r))
      in out @ zeros [''network_variable_cache_bytes_used''] @ ''}'')"

section \<open>Interface\<close>

text \<open>
  Each text has a function for the size of the buffer it needs and one that copies it; \<open>Inl n\<close> is a
  null pointer with the length \<open>n\<close>.
\<close>

definition export_len :: "string \<Rightarrow> i32" where
  "export_len json = sint (word_of_nat (length json + 1) :: u32)"

definition copy_json :: "string \<Rightarrow> string option \<Rightarrow> nat \<Rightarrow> seds_result \<times> string option" where
  "copy_json json buf buf_len = copy_text json buf buf_len"

definition sv_from :: "nat + string \<Rightarrow> string" where
  "sv_from s = (case s of Inl _ \<Rightarrow> '''' | Inr t \<Rightarrow> t)"

definition export_client_stats_len :: "env \<Rightarrow> world \<Rightarrow> nat + string \<Rightarrow> 'a owner_scheme \<Rightarrow> i32" where
  "export_client_stats_len E w from r =
     (if (case from of Inl n \<Rightarrow> n \<noteq> 0 | Inr _ \<Rightarrow> False) then result_code SEDS_BAD_ARG
      else export_len (client_stats_json E w (sv_from from) r))"

definition export_client_stats ::
    "env \<Rightarrow> world \<Rightarrow> nat + string \<Rightarrow> string option \<Rightarrow> nat \<Rightarrow> 'a owner_scheme \<Rightarrow> seds_result \<times> string option" where
  "export_client_stats E w from buf buf_len r =
     (if (case from of Inl n \<Rightarrow> n \<noteq> 0 | Inr _ \<Rightarrow> False) then (SEDS_BAD_ARG, buf)
      else copy_json (client_stats_json E w (sv_from from) r) buf buf_len)"

definition export_runtime_stats_len :: "env \<Rightarrow> 'a owner_scheme \<Rightarrow> i32" where
  "export_runtime_stats_len E r = export_len (runtime_stats_json E r)"

definition export_runtime_stats ::
    "env \<Rightarrow> string option \<Rightarrow> nat \<Rightarrow> 'a owner_scheme \<Rightarrow> seds_result \<times> string option" where
  "export_runtime_stats E buf buf_len r = copy_json (runtime_stats_json E r) buf buf_len"

definition seds_router_export_memory_layout_len :: "router \<Rightarrow> i32" where
  "seds_router_export_memory_layout_len r = export_len (memory_layout_json ''router'' r)"

definition seds_router_export_memory_layout :: "string option \<Rightarrow> nat \<Rightarrow> router \<Rightarrow> seds_result \<times> string option" where
  "seds_router_export_memory_layout buf buf_len r = copy_json (memory_layout_json ''router'' r) buf buf_len"

definition seds_relay_export_memory_layout_len :: "relay \<Rightarrow> i32" where
  "seds_relay_export_memory_layout_len r = export_len (memory_layout_json ''relay'' r)"

definition seds_relay_export_memory_layout :: "string option \<Rightarrow> nat \<Rightarrow> relay \<Rightarrow> seds_result \<times> string option" where
  "seds_relay_export_memory_layout buf buf_len r = copy_json (memory_layout_json ''relay'' r) buf buf_len"

definition router_topology_json :: "env \<Rightarrow> world \<Rightarrow> router \<Rightarrow> string" where
  "router_topology_json E w r =
     topology_snapshot_to_json (export_topology_snapshot E w (local_router_topology_board E (now_ms w r) r) (r_sender r) r)"

definition seds_router_export_topology_len :: "env \<Rightarrow> world \<Rightarrow> router \<Rightarrow> i32" where
  "seds_router_export_topology_len E w r = export_len (router_topology_json E w r)"

definition seds_router_export_topology ::
    "env \<Rightarrow> world \<Rightarrow> string option \<Rightarrow> nat \<Rightarrow> router \<Rightarrow> seds_result \<times> string option" where
  "seds_router_export_topology E w buf buf_len r = copy_text (router_topology_json E w r) buf buf_len"

definition seds_router_export_client_stats_len :: "env \<Rightarrow> world \<Rightarrow> nat + string \<Rightarrow> router \<Rightarrow> i32" where
  "seds_router_export_client_stats_len = export_client_stats_len"

definition seds_router_export_client_stats ::
    "env \<Rightarrow> world \<Rightarrow> nat + string \<Rightarrow> string option \<Rightarrow> nat \<Rightarrow> router \<Rightarrow> seds_result \<times> string option" where
  "seds_router_export_client_stats = export_client_stats"

definition seds_router_export_runtime_stats_len :: "env \<Rightarrow> router \<Rightarrow> i32" where
  "seds_router_export_runtime_stats_len = export_runtime_stats_len"

definition seds_router_export_runtime_stats ::
    "env \<Rightarrow> string option \<Rightarrow> nat \<Rightarrow> router \<Rightarrow> seds_result \<times> string option" where
  "seds_router_export_runtime_stats = export_runtime_stats"

definition relay_topology_json :: "env \<Rightarrow> world \<Rightarrow> relay \<Rightarrow> string" where
  "relay_topology_json E w r =
     topology_snapshot_to_json (export_topology_snapshot E w (\<lambda>_. local_relay_topology_board (now_ms w r) r) ''RELAY'' r)"

definition seds_relay_export_topology_len :: "env \<Rightarrow> world \<Rightarrow> relay \<Rightarrow> i32" where
  "seds_relay_export_topology_len E w r = export_len (relay_topology_json E w r)"

definition seds_relay_export_topology ::
    "env \<Rightarrow> world \<Rightarrow> string option \<Rightarrow> nat \<Rightarrow> relay \<Rightarrow> seds_result \<times> string option" where
  "seds_relay_export_topology E w buf buf_len r = copy_text (relay_topology_json E w r) buf buf_len"

definition seds_relay_export_client_stats_len :: "env \<Rightarrow> world \<Rightarrow> nat + string \<Rightarrow> relay \<Rightarrow> i32" where
  "seds_relay_export_client_stats_len = export_client_stats_len"

definition seds_relay_export_client_stats ::
    "env \<Rightarrow> world \<Rightarrow> nat + string \<Rightarrow> string option \<Rightarrow> nat \<Rightarrow> relay \<Rightarrow> seds_result \<times> string option" where
  "seds_relay_export_client_stats = export_client_stats"

definition seds_relay_export_runtime_stats_len :: "env \<Rightarrow> relay \<Rightarrow> i32" where
  "seds_relay_export_runtime_stats_len = export_runtime_stats_len"

definition seds_relay_export_runtime_stats ::
    "env \<Rightarrow> string option \<Rightarrow> nat \<Rightarrow> relay \<Rightarrow> seds_result \<times> string option" where
  "seds_relay_export_runtime_stats = export_runtime_stats"

end
