(* ===== verification/Registry_Facts.thy ===== *)
theory Registry_Facts
  imports Registry Samples
begin

text \<open>
  Registration as a step relation: types only name registered endpoints, the built-in types
  survive, what was registered is found again, and one thing that cannot be registered twice.
\<close>

section \<open>Consistency\<close>

definition consistent :: "env \<Rightarrow> bool" where
  "consistent E \<longleftrightarrow> list_all (\<lambda>info. list_all (valid_endpoint E) (ti_endpoints info)) (kTypeInfo E)"

text \<open>A built-in type that is confined to the three built-in endpoints.\<close>

definition built_in :: "env \<Rightarrow> u32 \<Rightarrow> bool" where
  "built_in E t \<longleftrightarrow>
     valid_type E t \<and> ti_name (type_at E t) \<in> set v4_type_names \<and>
     list_all is_internal_endpoint_id (ti_endpoints (type_at E t))"

inductive registry_step :: "registry \<Rightarrow> registry \<Rightarrow> bool" where
  endpoint_registered: "seds_endpoint_register_ex ep name desc ll R = Some (rc, R') \<Longrightarrow> registry_step R R'"
| type_registered: "seds_dtype_register dt name s R = Some (rc, R') \<Longrightarrow> registry_step R R'"
| described_type_registered: "seds_dtype_register_ex dt name desc s R = Some (rc, R') \<Longrightarrow> registry_step R R'"
| policy_set: "seds_dtype_set_e2e_encryption_policy dt policy R = (rc, R') \<Longrightarrow> registry_step R R'"
| endpoint_removed: "seds_endpoint_remove ep R = (rc, R') \<Longrightarrow> registry_step R R'"
| endpoint_removed_by_name: "seds_endpoint_remove_by_name name R = (rc, R') \<Longrightarrow> registry_step R R'"
| type_removed: "seds_dtype_remove dt R = (rc, R') \<Longrightarrow> registry_step R R'"
| type_removed_by_name: "seds_dtype_remove_by_name name R = (rc, R') \<Longrightarrow> registry_step R R'"

lemma set_grow_set: "set (grow_set fill i x xs) \<subseteq> insert x (insert fill (set xs))"
proof -
  have "set (grow_set fill i x xs) \<subseteq> insert x (set (xs @ replicate (Suc i - length xs) fill))"
    unfolding grow_set_def by (rule set_update_subset_insert)
  also have "\<dots> \<subseteq> insert x (insert fill (set xs))" by auto
  finally show ?thesis .
qed

lemma type_at_grown:
  "type_at (E\<lparr>kTypeInfo := grow_set empty_type_info (unat i) x (kTypeInfo E)\<rparr>) t = (if t = i then x else type_at E t)"
  by (auto simp: type_at_def grow_set_def nth_append nth_list_update word_unat_eq_iff)

lemma endpoint_at_grown:
  "endpoint_at (E\<lparr>kEndpointNames := grow_set None (unat i) x (kEndpointNames E), kEndpointCount := n\<rparr>) t =
     (if t = i then x else endpoint_at E t)"
  by (auto simp: endpoint_at_def grow_set_def nth_append nth_list_update word_unat_eq_iff)

definition keeps :: "registry \<Rightarrow> registry \<Rightarrow> bool" where
  "keeps R R' \<longleftrightarrow>
     (consistent (tables R) \<longrightarrow> consistent (tables R')) \<and>
     (\<forall>t. built_in (tables R) t \<longrightarrow> type_at (tables R') t = type_at (tables R) t)"

lemma keeps_same_tables: "tables R' = tables R \<Longrightarrow> keeps R R'"
  by (simp add: keeps_def)

lemma keeps_endpoint_registered:
  assumes "seds_endpoint_register_ex ep name desc ll R = Some (rc, R')"
  shows "keeps R R'"
proof (cases "tables R' = tables R")
  case False
  then have e: "endpoint_at (tables R) ep = None"
    "tables R' = (tables R)\<lparr>kEndpointNames := grow_set None (unat ep) (Some (c_str name)) (kEndpointNames (tables R)),
       kEndpointCount := word_of_nat (length (grow_set None (unat ep) (Some (c_str name)) (kEndpointNames (tables R))))\<rparr>"
    using assms by (auto simp: seds_endpoint_register_ex_def Let_def split: option.splits if_splits)
  have "valid_endpoint (tables R') x" if "valid_endpoint (tables R) x" for x
    using that e by (auto simp: valid_endpoint_iff endpoint_at_grown)
  moreover have "kTypeInfo (tables R') = kTypeInfo (tables R)" by (simp add: e)
  ultimately show ?thesis by (auto simp: keeps_def consistent_def list_all_iff type_at_def)
qed (rule keeps_same_tables)

lemma dtype_register_cases:
  assumes "seds_dtype_register dt name s R = Some (rc, R')"
  obtains "R' = R"
  | "list_all (valid_endpoint (tables R)) (ts_endpoints s)" "\<not> valid_type (tables R) (c_api_type_id (tables R) dt)"
    "tables R' = (tables R)\<lparr>kTypeInfo := grow_set empty_type_info (unat (c_api_type_id (tables R) dt))
       (new_type_info name s) (kTypeInfo (tables R))\<rparr>" "rc = SEDS_OK"
  using assms by (auto simp: seds_dtype_register_def Let_def split: if_splits)

lemma keeps_type_registered:
  assumes "seds_dtype_register dt name s R = Some (rc, R')"
  shows "keeps R R'"
  using assms
proof (cases rule: dtype_register_cases)
  case 1
  then show ?thesis by (simp add: keeps_same_tables)
next
  case 2
  have v: "valid_endpoint (tables R') = valid_endpoint (tables R)" by (simp add: 2(3) valid_endpoint_def fun_eq_iff)
  have "set (kTypeInfo (tables R')) \<subseteq> insert (new_type_info name s) (insert empty_type_info (set (kTypeInfo (tables R))))"
    using set_grow_set by (simp add: 2(3))
  then have "consistent (tables R')" if "consistent (tables R)"
    using that 2(1) unfolding consistent_def v
    by (auto simp: list_all_iff new_type_info_def empty_type_info_def Let_def)
  then show ?thesis using 2(2) by (auto simp: keeps_def 2(3) type_at_grown built_in_def)
qed

lemma keeps_described_type_registered:
  assumes "seds_dtype_register_ex dt name desc s R = Some (rc, R')"
  shows "keeps R R'"
proof -
  obtain rc1 R1 where r: "seds_dtype_register dt name s R = Some (rc1, R1)" "tables R' = tables R1"
    using assms by (auto simp: seds_dtype_register_ex_def Let_def split: if_splits)
  show ?thesis using keeps_type_registered [OF r(1)] by (simp add: keeps_def r(2))
qed

lemma type_at_erased:
  "unat t < length (kTypeInfo E) \<Longrightarrow>
   type_at (E\<lparr>kTypeInfo := (kTypeInfo E)[i := empty_type_info]\<rparr>) t = (if unat t = i then empty_type_info else type_at E t)"
  by (simp add: type_at_def nth_list_update)

lemma foldl_erase_types:
  "kTypeInfo (tables (foldl (\<lambda>Q i. if ep \<in> set (ti_endpoints (kTypeInfo (tables Q) ! i)) then erase_type i Q else Q) R
     [0..<n])) = map (\<lambda>i. if i < n \<and> ep \<in> set (ti_endpoints (kTypeInfo (tables R) ! i)) then empty_type_info else kTypeInfo (tables R) ! i)
     [0..<length (kTypeInfo (tables R))] \<and>
   kEndpointNames (tables (foldl (\<lambda>Q i. if ep \<in> set (ti_endpoints (kTypeInfo (tables Q) ! i)) then erase_type i Q else Q) R
     [0..<n])) = kEndpointNames (tables R)"
  if "n \<le> length (kTypeInfo (tables R))"
  using that
proof (induction n)
  case 0
  then show ?case by (simp add: map_nth)
next
  case (Suc n)
  then show ?case
    by (auto simp: erase_type_def nth_list_update less_Suc_eq intro!: nth_equalityI)
qed

lemma keeps_endpoint_removed:
  assumes "seds_endpoint_remove ep R = (rc, R')"
  shows "keeps R R'"
proof (cases "R' = R")
  case False
  let ?T = "kTypeInfo (tables R)"
  have i: "\<not> is_internal_endpoint_id ep" using assms False by (auto simp: seds_endpoint_remove_def split: if_splits)
  have t: "kTypeInfo (tables R') = map (\<lambda>info. if ep \<in> set (ti_endpoints info) then empty_type_info else info) ?T"
    "kEndpointNames (tables R') = (kEndpointNames (tables R))[unat ep := None]"
    using assms False foldl_erase_types [of "length ?T" "R\<lparr>tables := (tables R)\<lparr>kEndpointNames := (kEndpointNames (tables R))[unat ep := None]\<rparr>,
        endpoint_descriptions := merase ep (endpoint_descriptions R), endpoint_link_local := merase ep (endpoint_link_local R)\<rparr>" ep]
    by (auto simp: seds_endpoint_remove_def Let_def intro!: nth_equalityI split: if_splits)
  have "valid_endpoint (tables R') x \<longleftrightarrow> x \<noteq> ep \<and> valid_endpoint (tables R) x" for x
    by (cases "x = ep") (auto simp: valid_endpoint_def t nth_list_update word_unat_eq_iff)
  then have "consistent (tables R) \<longrightarrow> consistent (tables R')"
    by (auto simp: consistent_def t list_all_iff empty_type_info_def)
  moreover have "type_at (tables R') x = type_at (tables R) x" if "built_in (tables R) x" for x
    using that i by (auto simp: type_at_def t built_in_def list_all_iff split: if_splits)
  ultimately show ?thesis by (simp add: keeps_def)
qed (simp add: keeps_same_tables)

lemma keeps_type_removed:
  assumes "seds_dtype_remove dt R = (rc, R')"
  shows "keeps R R'"
proof (cases "R' = R")
  case False
  let ?t = "c_api_type_id (tables R) dt"
  have t: "valid_type (tables R) ?t" "\<not> is_internal_type_id (tables R) ?t" "R' = erase_type (unat ?t) R"
    using assms False by (auto simp: seds_dtype_remove_def Let_def split: if_splits)
  have n: "ti_name (type_at (tables R) ?t) \<notin> set v4_type_names"
    using t(1,2) by (simp add: is_internal_type_id_def c_api_type_id_def)
  have v: "valid_endpoint (tables R') = valid_endpoint (tables R)" by (simp add: t(3) erase_type_def valid_endpoint_def fun_eq_iff)
  have "set (kTypeInfo (tables R')) \<subseteq> insert empty_type_info (set (kTypeInfo (tables R)))"
    by (simp add: t(3) erase_type_def set_update_subset_insert)
  then have "consistent (tables R) \<longrightarrow> consistent (tables R')"
    unfolding consistent_def v by (auto simp: list_all_iff empty_type_info_def)
  moreover have "type_at (tables R') x = type_at (tables R) x" if "built_in (tables R) x" for x
  proof -
    have "x \<noteq> ?t" using that n by (auto simp: built_in_def)
    then show ?thesis using that by (auto simp: t(3) erase_type_def type_at_erased built_in_def valid_type_def word_unat_eq_iff)
  qed
  ultimately show ?thesis by (simp add: keeps_def)
qed (simp add: keeps_same_tables)

lemma keeps_step: "registry_step R R' \<Longrightarrow> keeps R R'"
proof (induction rule: registry_step.induct)
  case (policy_set dt policy R rc R')
  then show ?case
    by (intro keeps_same_tables) (auto simp: seds_dtype_set_e2e_encryption_policy_def Let_def split: if_splits)
next
  case (endpoint_removed_by_name name R rc R')
  then show ?case
    by (auto simp: seds_endpoint_remove_by_name_def keeps_same_tables intro: keeps_endpoint_removed split: option.splits)
next
  case (type_removed_by_name name R rc R')
  then show ?case
    by (auto simp: seds_dtype_remove_by_name_def keeps_same_tables intro: keeps_type_removed split: option.splits)
qed (fact keeps_endpoint_registered keeps_type_registered keeps_described_type_registered keeps_endpoint_removed keeps_type_removed)+

lemma keeps_built_in: "keeps R R' \<Longrightarrow> built_in (tables R) t \<Longrightarrow> built_in (tables R') t"
  by (simp add: keeps_def built_in_def valid_type_iff)

interpretation registries: step_frame registry_step keeps
proof
  show "keeps R R'' " if "keeps R R'" "keeps R' R''" for R R' R''
    using that keeps_built_in [OF that(1)] by (simp add: keeps_def)
qed (auto intro: keeps_same_tables keeps_step)

text \<open>
  (C38) The schema stays consistent. After any sequence of registrations and removals every type names
  only registered endpoints, if that was so before, and the built-in types on the built-in
  endpoints are as they were.
\<close>

theorem schema_consistent:
  assumes "rtranclp registry_step R0 R" "consistent (tables R0)" "built_in (tables R0) t"
  shows "consistent (tables R) \<and> type_at (tables R) t = type_at (tables R0) t \<and> valid_type (tables R) t"
  using registries.keeps_steps [OF assms(1)] keeps_built_in [OF registries.keeps_steps [OF assms(1)] assms(3)] assms(2,3)
  by (simp add: keeps_def built_in_def)

definition base_registry :: registry where
  "base_registry =
     \<lparr>tables = sample_env\<lparr>kTypeInfo := [(builtin_sample ''RELIABLE_ACK'')\<lparr>ti_endpoints := [201]\<rparr>],
        kEndpointNames := replicate 201 None @ [Some ''DISCOVERY''], kEndpointCount := 202\<rparr>,
      endpoint_descriptions = [], endpoint_link_local = [], type_descriptions = [], type_priorities = [], type_e2e_policies = []\<rparr>"

lemma base_registry_tables:
  "kTypeInfo (tables base_registry) = [(builtin_sample ''RELIABLE_ACK'')\<lparr>ti_endpoints := [201]\<rparr>]"
  "kEndpointNames (tables base_registry) = replicate 201 None @ [Some ''DISCOVERY'']"
  by (simp_all add: base_registry_def)

lemma base_endpoints: "valid_endpoint (tables base_registry) ep \<longleftrightarrow> ep = 201"
  by (auto simp: valid_endpoint_def base_registry_tables nth_append word_unat_eq_iff)

lemma base_registry_consistent: "consistent (tables base_registry)" "built_in (tables base_registry) 0"
  by (simp_all add: consistent_def built_in_def valid_type_def type_at_def base_registry_tables base_endpoints
      builtin_sample_def v4_type_names_def is_internal_endpoint_id_def)

theorem schema_consistent_witness:
  "\<exists>R1 R2. seds_endpoint_register_ex 100 ''CAMERA'' ''front'' False base_registry = Some (SEDS_OK, R1) \<and>
     seds_endpoint_remove 100 R1 = (SEDS_OK, R2) \<and>
     consistent (tables R2) \<and> type_at (tables R2) 0 = type_at (tables base_registry) 0 \<and> valid_type (tables R2) 0"
proof -
  have e: "endpoint_at (tables base_registry) 100 = None" "Some ''CAMERA'' \<notin> set (kEndpointNames (tables base_registry))"
    using base_endpoints [of 100] by (auto simp: valid_endpoint_iff base_registry_tables)
  then obtain R1 where 1: "seds_endpoint_register_ex 100 ''CAMERA'' ''front'' False base_registry = Some (SEDS_OK, R1)"
    "valid_endpoint (tables R1) 100"
    by (simp add: seds_endpoint_register_ex_def Let_def valid_endpoint_iff endpoint_at_grown [of _ 100, simplified])
  then obtain R2 where 2: "seds_endpoint_remove 100 R1 = (SEDS_OK, R2)"
    by (simp add: seds_endpoint_remove_def is_internal_endpoint_id_def Let_def)
  have "rtranclp registry_step base_registry R2"
    by (rule rtranclp.rtrancl_into_rtrancl [OF r_into_rtranclp [of registry_step, OF endpoint_registered [OF 1(1)]] endpoint_removed [OF 2]])
  with schema_consistent base_registry_consistent 1(1) 2 show ?thesis by blast
qed

section \<open>Lookup\<close>

lemma code_of_nth: "distinct xs \<Longrightarrow> n < length xs \<Longrightarrow> code_of xs (xs ! n) = word_of_nat n"
  by (simp add: code_of_def takeWhile_eq_take_P_nth [of n] nth_eq_iff_index_eq)

lemma code_roundtrips:
  "message_data_type_code (element_type_from_code c) = (if c < 16 then c else 2)"
  "message_class_code (message_class_from_code c) = (if c < 3 then c else 0)"
  "reliable_code (reliable_from_code c) = (if c < 3 then c else 0)"
proof -
  have d: "distinct element_types" "distinct message_classes" "distinct reliable_modes"
    by (simp_all add: element_types_def message_classes_def reliable_modes_def)
  have l: "length element_types = 16" "length message_classes = 3" "length reliable_modes = 3"
    by (simp_all add: element_types_def message_classes_def reliable_modes_def)
  have u: "code_of element_types UInt8 = 2" "code_of message_classes Data = 0" "code_of reliable_modes RM_None = 0"
    by (simp_all add: code_of_def element_types_def message_classes_def reliable_modes_def)
  show "message_data_type_code (element_type_from_code c) = (if c < 16 then c else 2)"
    using code_of_nth [OF d(1), of "unat c"] u(1)
    by (cases "unat c < 16") (simp_all add: message_data_type_code_def element_type_from_code_def l word_less_nat_alt)
  show "message_class_code (message_class_from_code c) = (if c < 3 then c else 0)"
    using code_of_nth [OF d(2), of "unat c"] u(2)
    by (cases "unat c < 3") (simp_all add: message_class_code_def message_class_from_code_def l word_less_nat_alt)
  show "reliable_code (reliable_from_code c) = (if c < 3 then c else 0)"
    using code_of_nth [OF d(3), of "unat c"] u(3)
    by (cases "unat c < 3") (simp_all add: reliable_code_def reliable_from_code_def l word_less_nat_alt)
qed

lemma find_unique:
  assumes "j \<in> set xs" "P j" "\<And>x. x \<in> set xs \<Longrightarrow> P x \<Longrightarrow> x = j"
  shows "find P xs = Some j"
proof (cases "find P xs")
  case None
  then show ?thesis using assms(1,2) by (simp add: find_None_iff)
next
  case (Some x)
  then have "x \<in> set xs" "P x" by (auto simp: find_Some_iff)
  then show ?thesis using Some assms(3) by blast
qed

lemma register_fresh:
  assumes "seds_dtype_register_ex dt name desc s R = Some (SEDS_OK, R')" "\<not> valid_type (tables R) (c_api_type_id (tables R) dt)"
  shows "R' = R\<lparr>tables := (tables R)\<lparr>kTypeInfo := grow_set empty_type_info (unat (c_api_type_id (tables R) dt))
          (new_type_info name s) (kTypeInfo (tables R))\<rparr>,
        type_descriptions := mput (c_api_type_id (tables R) dt) desc
          (mput (c_api_type_id (tables R) dt) '''' (type_descriptions R)),
        type_priorities := mput (c_api_type_id (tables R) dt) (ts_priority_code s) (type_priorities R),
        type_e2e_policies := mput (c_api_type_id (tables R) dt) SEDS_E2E_PREFER_OFF (type_e2e_policies R)\<rparr>"
    and "list_all (valid_endpoint (tables R)) (ts_endpoints s)" "name = '''' \<or> name \<notin> ti_name ` set (kTypeInfo (tables R))"
  using assms by (auto simp: seds_dtype_register_ex_def seds_dtype_register_def Let_def split: if_splits)

lemma new_type_info_simps [simp]:
  "ti_name (new_type_info name s) = c_str name" "ti_endpoints (new_type_info name s) = ts_endpoints s"
  "dynamic (new_type_info name s) = (\<not> ts_static s)"
  by (simp_all add: new_type_info_def Let_def)

text \<open>
  A registered type is found. After a new type was registered under a name without null
  characters, its information is what was registered, with unknown codes replaced by their
  defaults; it is found by its name; and the information about other existing types is unchanged.
\<close>

theorem registered_type_found:
  assumes "seds_dtype_register_ex dt name desc s R = Some (SEDS_OK, R')"
    and "i = c_api_type_id (tables R) dt" "\<not> valid_type (tables R) i" "name \<noteq> ''''" "c_str name = name"
    and "valid_type (tables R) t"
  shows "seds_dtype_get_info R' i =
      \<lparr>di_id = i, di_exists = True, is_static = ts_static s, element_count = (if ts_static s then ts_count s else 0),
       message_data_type = (if ts_data_type s < 16 then ts_data_type s else 2),
       di_message_class = (if ts_class s < 3 then ts_class s else 0),
       di_reliable = (if ts_reliable s < 3 then ts_reliable s else 0), priority = ts_priority_code s,
       e2e_encryption = SEDS_E2E_PREFER_OFF,
       fixed_size = (if ts_static s then size_mul (elem_size_from_type (element_type_from_code (ts_data_type s))) (ts_count s) else 0),
       di_endpoints = ts_endpoints s, di_name = name, di_description = desc\<rparr> \<and>
    seds_dtype_get_info_by_name R' name = seds_dtype_get_info R' i \<and>
    seds_dtype_get_info R' t = seds_dtype_get_info R t"
proof -
  note f = register_fresh [OF assms(1), folded assms(2), OF assms(3)]
  let ?T = "kTypeInfo (tables R')"
  have tab: "tables R' = (tables R)\<lparr>kTypeInfo := grow_set empty_type_info (unat i) (new_type_info name s) (kTypeInfo (tables R))\<rparr>"
    by (simp add: f(1))
  have at: "type_at (tables R') x = (if x = i then new_type_info name s else type_at (tables R) x)" for x
    by (simp add: tab type_at_grown)
  have vi: "valid_type (tables R') i" "c_api_type_id (tables R') i = i"
    using assms(4,5) by (simp_all add: valid_type_iff at c_api_type_id_def)
  have ti: "t \<noteq> i" using assms(3,6) by auto
  then have vt: "valid_type (tables R') t" "c_api_type_id (tables R') t = t" "c_api_type_id (tables R) t = t"
    using assms(6) by (simp_all add: valid_type_iff at c_api_type_id_def)
  have "seds_dtype_get_info R' i =
      \<lparr>di_id = i, di_exists = True, is_static = ts_static s, element_count = (if ts_static s then ts_count s else 0),
       message_data_type = (if ts_data_type s < 16 then ts_data_type s else 2),
       di_message_class = (if ts_class s < 3 then ts_class s else 0),
       di_reliable = (if ts_reliable s < 3 then ts_reliable s else 0), priority = ts_priority_code s,
       e2e_encryption = SEDS_E2E_PREFER_OFF,
       fixed_size = (if ts_static s then size_mul (elem_size_from_type (element_type_from_code (ts_data_type s))) (ts_count s) else 0),
       di_endpoints = ts_endpoints s, di_name = name, di_description = desc\<rparr>"
    unfolding seds_dtype_get_info_def Let_def vi(2) using vi(1)
    by (simp add: at) (simp add: f(1) type_priority_def type_e2e_policy_def type_description_def new_type_info_def Let_def
        assms(5) code_roundtrips)
  moreover have "find_type (tables R') name (search_order (length ?T)) = Some i"
  proof -
    have n: "ti_name (?T ! j) = name \<longleftrightarrow> j = unat i" if "j < length ?T" for j
    proof (cases "j = unat i")
      case True
      then show ?thesis by (simp add: tab assms(5))
    next
      case False
      then have "?T ! j = (if j < length (kTypeInfo (tables R)) then kTypeInfo (tables R) ! j else empty_type_info)"
        using that by (simp add: tab nth_grow_set_other)
      moreover have "ti_name (kTypeInfo (tables R) ! j) \<noteq> name" if "j < length (kTypeInfo (tables R))"
        using f(3) assms(4) nth_mem [OF that] by (metis image_eqI)
      ultimately show ?thesis using assms(4) False by (simp add: empty_type_info_def)
    qed
    have "unat i < length ?T" by (simp add: tab)
    then have "find (\<lambda>j. ti_name (?T ! j) \<noteq> '''' \<and> ti_name (?T ! j) = name) (search_order (length ?T)) = Some (unat i)"
      using n assms(4) by (intro find_unique) (simp_all add: search_order_def, blast+)
    then show ?thesis by (simp add: find_type_def)
  qed
  moreover have "seds_dtype_get_info R' t = seds_dtype_get_info R t"
    unfolding seds_dtype_get_info_def Let_def vt using vt(1) assms(6) ti
    by (simp add: at) (simp add: f(1) type_priority_def type_e2e_policy_def type_description_def mget_def)
  ultimately show ?thesis by (simp add: seds_dtype_get_info_by_name_def)
qed

definition temp_spec :: type_spec where
  "temp_spec = \<lparr>ts_static = True, ts_count = 3, ts_data_type = 12, ts_class = 0, ts_reliable = 9, ts_priority_code = 5,
     ts_endpoints = [201]\<rparr>"

lemma base_types:
  "valid_type (tables base_registry) t \<longleftrightarrow> t = 0" "c_api_type_id (tables base_registry) 100 = 100"
  by (auto simp: valid_type_def base_registry_tables builtin_sample_def c_api_type_id_def unat_eq_zero)

lemma temp_registered:
  "\<exists>R. seds_dtype_register_ex 100 ''TEMP'' ''degrees'' temp_spec base_registry = Some (SEDS_OK, R)"
  by (simp add: seds_dtype_register_ex_def seds_dtype_register_def Let_def base_types base_endpoints temp_spec_def
      base_registry_tables builtin_sample_def)

theorem registered_type_found_witness:
  "\<exists>R. seds_dtype_register_ex 100 ''TEMP'' ''degrees'' temp_spec base_registry = Some (SEDS_OK, R) \<and>
     seds_dtype_get_info R 100 =
       \<lparr>di_id = 100, di_exists = True, is_static = True, element_count = 3, message_data_type = 12, di_message_class = 0,
        di_reliable = 0, priority = 5, e2e_encryption = 0, fixed_size = 12, di_endpoints = [201], di_name = ''TEMP'',
        di_description = ''degrees''\<rparr> \<and>
     seds_dtype_get_info_by_name R ''TEMP'' = seds_dtype_get_info R 100 \<and>
     seds_dtype_get_info R 0 = seds_dtype_get_info base_registry 0"
proof -
  obtain R where r: "seds_dtype_register_ex 100 ''TEMP'' ''degrees'' temp_spec base_registry = Some (SEDS_OK, R)"
    using temp_registered by blast
  have "elem_size_from_type (element_type_from_code 12) = 4" by (simp add: element_type_from_code_def element_types_def)
  with registered_type_found [OF r, of 100 0] r show ?thesis
    by (simp add: base_types c_str_def temp_spec_def)
qed

section \<open>Registering again\<close>

text \<open>
  A described type cannot be registered again. Registering a new type with a description succeeds, but
  repeating the very same call is rejected, although the function means to accept an identical
  registration: it compares the stored description with the empty one first. Repeating the
  registration of an endpoint is accepted.
\<close>

theorem described_type_not_repeatable:
  assumes "seds_dtype_register_ex dt name desc s R = Some (SEDS_OK, R')"
    and "c_api_type_id (tables R) dt = dt" "\<not> valid_type (tables R) dt" "name \<noteq> ''''" "c_str name = name" "desc \<noteq> ''''"
    and "seds_endpoint_register_ex ep name' desc' ll Q = Some (SEDS_OK, Q')" "c_str name' = name'"
  shows "seds_dtype_register_ex dt name desc s R' = Some (SEDS_BAD_ARG, R') \<and>
    seds_endpoint_register_ex ep name' desc' ll Q' = Some (SEDS_OK, Q')"
proof
  note f = register_fresh [OF assms(1), unfolded assms(2), OF assms(3)]
  have tab: "tables R' = (tables R)\<lparr>kTypeInfo := grow_set empty_type_info (unat dt) (new_type_info name s) (kTypeInfo (tables R))\<rparr>"
    by (simp add: f(1))
  have v: "valid_type (tables R') dt" "c_api_type_id (tables R') dt = dt"
    using assms(4,5) by (simp_all add: valid_type_iff tab type_at_grown c_api_type_id_def)
  have "valid_endpoint (tables R') = valid_endpoint (tables R)" by (simp add: tab valid_endpoint_def fun_eq_iff)
  moreover have "\<not> same_type R' dt name s" using assms(6) by (simp add: same_type_def Let_def f(1) type_description_def)
  ultimately show "seds_dtype_register_ex dt name desc s R' = Some (SEDS_BAD_ARG, R')"
    using v f(2) by (simp add: seds_dtype_register_ex_def seds_dtype_register_def Let_def)
  show "seds_endpoint_register_ex ep name' desc' ll Q' = Some (SEDS_OK, Q')"
  proof (cases "Q' = Q")
    case True
    then show ?thesis using assms(7) by simp
  next
    case False
    then have q: "tables Q' = (tables Q)\<lparr>kEndpointNames := grow_set None (unat ep) (Some (c_str name')) (kEndpointNames (tables Q)),
         kEndpointCount := word_of_nat (length (grow_set None (unat ep) (Some (c_str name')) (kEndpointNames (tables Q))))\<rparr>"
      "endpoint_descriptions Q' = mput ep desc' (endpoint_descriptions Q)" "endpoint_link_local Q' = mput ep ll (endpoint_link_local Q)"
      using assms(7) by (auto simp: seds_endpoint_register_ex_def Let_def split: option.splits if_splits)
    have "endpoint_at (tables Q') ep = Some name'" by (simp add: q(1) endpoint_at_grown assms(8))
    then show ?thesis
      by (simp add: seds_endpoint_register_ex_def Let_def endpoint_description_def endpoint_is_link_local_def q(2,3))
  qed
qed

theorem described_type_not_repeatable_witness:
  "\<exists>R Q. seds_dtype_register_ex 100 ''TEMP'' ''degrees'' temp_spec base_registry = Some (SEDS_OK, R) \<and>
     seds_dtype_register_ex 100 ''TEMP'' ''degrees'' temp_spec R = Some (SEDS_BAD_ARG, R) \<and>
     seds_endpoint_register_ex 100 ''CAMERA'' ''front'' False base_registry = Some (SEDS_OK, Q) \<and>
     seds_endpoint_register_ex 100 ''CAMERA'' ''front'' False Q = Some (SEDS_OK, Q)"
proof -
  obtain R where r: "seds_dtype_register_ex 100 ''TEMP'' ''degrees'' temp_spec base_registry = Some (SEDS_OK, R)"
    using temp_registered by blast
  have "endpoint_at (tables base_registry) 100 = None" "Some ''CAMERA'' \<notin> set (kEndpointNames (tables base_registry))"
    using base_endpoints [of 100] by (auto simp: valid_endpoint_iff base_registry_tables)
  then obtain Q where q: "seds_endpoint_register_ex 100 ''CAMERA'' ''front'' False base_registry = Some (SEDS_OK, Q)"
    by (simp add: seds_endpoint_register_ex_def Let_def)
  have "seds_dtype_register_ex 100 ''TEMP'' ''degrees'' temp_spec R = Some (SEDS_BAD_ARG, R) \<and>
      seds_endpoint_register_ex 100 ''CAMERA'' ''front'' False Q = Some (SEDS_OK, Q)"
    by (rule described_type_not_repeatable [OF r _ _ _ _ _ q]) (simp_all add: base_types c_str_def)
  with r q show ?thesis by blast
qed

end
