(* ===== verification/Schema_Json_Facts.thy ===== *)
theory Schema_Json_Facts
  imports Schema_Json Registry_Facts
begin

text \<open>
  The JSON reader: the loop over quoted strings ends on every array it is given and not on an
  unterminated string, what the library writes it reads back, an accepted schema is registered
  entry by entry, and the order of members matters.
\<close>

section \<open>Scanning\<close>

lemma find_from_char:
  "find_from [c] pos s = Some p \<longleftrightarrow> pos \<le> p \<and> p < length s \<and> s ! p = c \<and> (\<forall>i. pos \<le> i \<and> i < p \<longrightarrow> s ! i \<noteq> c)"
proof -
  have t: "take (length [c]) (drop i s) = [c] \<longleftrightarrow> s ! i = c" if "i < length s" for i
    using that by (simp add: take_Suc_conv_app_nth hd_drop_conv_nth take_Suc)
  show ?thesis (is "_ \<longleftrightarrow> ?R")
  proof
    assume "find_from [c] pos s = Some p"
    then obtain i where i: "i < length [pos..<length s]" "take (length [c]) (drop p s) = [c]" "p = [pos..<length s] ! i"
      "\<forall>j<i. take (length [c]) (drop ([pos..<length s] ! j) s) \<noteq> [c]"
      unfolding find_from_def by (auto simp: find_Some_iff)
    then have p: "p = pos + i" "p < length s" by auto
    have "s ! j \<noteq> c" if "pos \<le> j" "j < p" for j
      using i(4) [rule_format, of "j - pos"] that p t [of j] by auto
    then show ?R using p i(2) t [of p] by auto
  next
    assume R: ?R
    have "List.find (\<lambda>i. take (length [c]) (drop i s) = [c]) [pos..<Suc (length s) - length [c]] = Some p"
      unfolding find_Some_iff using R t by (intro exI [of _ "p - pos"]) auto
    then show "find_from [c] pos s = Some p" by (simp add: find_from_def)
  qed
qed

text \<open>Whether every string in a text is terminated.\<close>

fun strings_closed :: "bool \<Rightarrow> bool \<Rightarrow> string \<Rightarrow> bool" where
  "strings_closed in_string escaped [] = (\<not> in_string)"
| "strings_closed in_string escaped (c # cs) =
     (if in_string then
        (if escaped then strings_closed True False cs
         else if c = backslash then strings_closed True True cs
         else if c = quote then strings_closed False False cs
         else strings_closed True False cs)
      else if c = quote then strings_closed True False cs
      else strings_closed False False cs)"

lemma closing_bracket_closed:
  "closing_bracket depth in_string escaped s = Some n \<Longrightarrow> (escaped \<longrightarrow> in_string) \<Longrightarrow>
   strings_closed in_string escaped (take n s)"
  by (induction s arbitrary: depth in_string escaped n) (auto split: if_splits)

lemma closing_quote_exists:
  "strings_closed True escaped s \<Longrightarrow>
   \<exists>n. closing_quote escaped s = Some n \<and> n < length s \<and> strings_closed False False (drop (Suc n) s)"
proof (induction s arbitrary: escaped)
  case (Cons c cs)
  show ?case
  proof (cases "escaped \<or> c \<noteq> quote")
    case True
    then obtain e where "strings_closed True e cs" "closing_quote escaped (c # cs) = map_option Suc (closing_quote e cs)"
      using Cons.prems by (auto split: if_splits)
    with Cons.IH [of e] show ?thesis by auto
  next
    case False
    then show ?thesis using Cons.prems by simp
  qed
qed simp

lemma strings_closed_skip:
  assumes "strings_closed False False (drop pos s)" "pos \<le> p" "p \<le> length s" "\<forall>i. pos \<le> i \<and> i < p \<longrightarrow> s ! i \<noteq> quote"
  shows "strings_closed False False (drop p s)"
  using assms(2-4,1)
proof (induction p rule: dec_induct)
  case (step n)
  then have "drop n s = s ! n # drop (Suc n) s" by (simp add: Cons_nth_drop_Suc)
  with step show ?case by auto
qed

lemma split_strings_returns:
  assumes "strings_closed False False (drop pos s)"
  shows "\<exists>xs. split_strings s pos = Some xs"
  using assms
proof (induction "length s - pos" arbitrary: pos rule: less_induct)
  case less
  show ?case
  proof (cases "find_from [quote] pos s")
    case None
    then show ?thesis by (simp add: split_strings.simps)
  next
    case (Some p)
    then have p: "pos \<le> p" "p < length s" "s ! p = quote" "\<forall>i. pos \<le> i \<and> i < p \<longrightarrow> s ! i \<noteq> quote"
      by (auto simp: find_from_char)
    have "strings_closed False False (drop p s)" using strings_closed_skip [OF less.prems p(1) _ p(4)] p(2) by simp
    then have "strings_closed True False (drop (Suc p) s)" using p by (simp add: Cons_nth_drop_Suc [symmetric])
    then obtain n where n: "closing_quote False (drop (Suc p) s) = Some n" "strings_closed False False (drop (Suc n) (drop (Suc p) s))"
      using closing_quote_exists by blast
    have "\<exists>xs. split_strings s (p + 1 + n + 1) = Some xs"
      using n(2) p by (intro less.hyps) (simp_all add: add.commute)
    then show ?thesis using Some n(1) by (subst split_strings.simps) auto
  qed
qed

lemma split_strings_diverges:
  assumes "find_from [quote] pos s = Some p" "closing_quote False (drop (p + 1) s) = None"
  shows "split_strings s pos = None"
proof -
  have "find_from [quote] pos s = Some p \<longrightarrow> closing_quote False (drop (p + 1) s) \<noteq> None" if "split_strings s pos = Some xs" for xs
  proof (rule split_strings.raw_induct [OF _ that, where P = "\<lambda>s pos xs. \<forall>p. find_from [quote] pos s = Some p \<longrightarrow> closing_quote False (drop (p + 1) s) \<noteq> None", THEN spec])
    fix f :: "string \<Rightarrow> nat \<Rightarrow> string list option" and s pos xs
    assume IH: "\<And>s pos xs. f s pos = Some xs \<Longrightarrow> \<forall>p. find_from [quote] pos s = Some p \<longrightarrow> closing_quote False (drop (p + 1) s) \<noteq> None"
      and step: "(case find_from [quote] pos s of None \<Rightarrow> Some []
        | Some p \<Rightarrow> (case closing_quote False (drop (p + 1) s) of None \<Rightarrow> f s p
           | Some n \<Rightarrow> Option.bind (f s (p + 1 + n + 1)) (\<lambda>rest. Some (unescape_json_string (take n (drop (p + 1) s)) # rest)))) = Some xs"
    show "\<forall>p. find_from [quote] pos s = Some p \<longrightarrow> closing_quote False (drop (p + 1) s) \<noteq> None"
    proof (intro allI impI notI)
      fix p assume p: "find_from [quote] pos s = Some p" "closing_quote False (drop (p + 1) s) = None"
      then have "f s p = Some xs" using step by simp
      moreover have "find_from [quote] p s = Some p" using p(1) by (simp add: find_from_char)
      ultimately show False using IH p(2) by blast
    qed
  qed
  then show ?thesis using assms by (cases "split_strings s pos") auto
qed

text \<open>
  The loop over the strings of an array ends. \<open>split_string_array\<close> returns on every array that
  \<open>json_array_value\<close> finds in any text; on a text with a string that is not terminated, which
  \<open>json_array_value\<close> never yields, it would not return.
\<close>

theorem string_array_loop_ends:
  assumes "json_array_value obj key = Some array"
  shows "(\<exists>xs. split_string_array array = Some xs) \<and> split_string_array (CHR '' '' # quote # ''abc'') = None"
proof
  obtain q n where q: "find_from ''['' (length (quoted key) + the (find_from (quoted key) 0 obj)) obj = Some q"
    "closing_bracket 0 False False (drop q obj) = Some n" "array = take (n - 1) (drop (q + 1) obj)"
    using assms by (auto simp: json_array_value_def add.commute bind_eq_Some_conv)
  then have "q < length obj" "obj ! q = CHR ''[''" by (simp_all add: find_from_char)
  then have "drop q obj = CHR ''['' # drop (Suc q) obj" by (metis Cons_nth_drop_Suc)
  moreover from this obtain m where "n = Suc m" using q(2) by auto
  ultimately have "take n (drop q obj) = CHR ''['' # array" using q(3) by simp
  then have "strings_closed False False array"
    using closing_bracket_closed [OF q(2)] by simp
  then show "\<exists>xs. split_string_array array = Some xs"
    using split_strings_returns [of 0 array] by (simp add: split_string_array_def)
  show "split_string_array (CHR '' '' # quote # ''abc'') = None"
    unfolding split_string_array_def by (rule split_strings_diverges [of _ _ 1]) (simp_all add: find_from_char)
qed

theorem string_array_loop_ends_witness:
  "(\<exists>xs. split_string_array (quoted ''a'' @ '','' @ quoted ''b'') = Some xs) \<and>
   split_string_array (CHR '' '' # quote # ''abc'') = None"
proof -
  have "json_array_value (quoted ''k'' @ '':['' @ quoted ''a'' @ '','' @ quoted ''b'' @ '']'') ''k'' =
      Some (quoted ''a'' @ '','' @ quoted ''b'')"
    by code_simp
  from string_array_loop_ends [OF this] show ?thesis .
qed

section \<open>Reading what was written\<close>

text \<open>The characters the writer and the reader agree on: all but the other control characters.\<close>

definition readable :: "char \<Rightarrow> bool" where
  "readable c \<longleftrightarrow> 32 \<le> (of_char c :: nat) \<or> c \<in> {CHR 0x0A, CHR 0x0D, CHR 0x09}"

abbreviation escaped_text :: "string \<Rightarrow> string" where
  "escaped_text s \<equiv> concat (map escape_char s)"

lemma hex_digit_plain:
  assumes "n < 16"
  shows "hex_digit n \<noteq> quote" "hex_digit n \<noteq> backslash"
proof -
  have "list_all (\<lambda>n. hex_digit n \<noteq> quote \<and> hex_digit n \<noteq> backslash) [0..<16]" by code_simp
  then show "hex_digit n \<noteq> quote" "hex_digit n \<noteq> backslash" using assms by (auto simp: list_all_iff)
qed

lemma escape_char_cases:
  obtains (plain) "escape_char c = [c]" "c \<noteq> quote" "c \<noteq> backslash"
  | (short) d where "escape_char c = [backslash, d]" "readable c \<Longrightarrow> unescape_char d = c"
  | (long) a b where "escape_char c = [backslash, CHR ''u'', CHR ''0'', CHR ''0'', a, b]" "\<not> readable c"
      "a \<noteq> quote" "a \<noteq> backslash" "b \<noteq> quote" "b \<noteq> backslash"
proof (cases "(of_char c :: nat) < 32")
  case False
  then have "escape_char c = [c] \<and> c \<noteq> quote \<and> c \<noteq> backslash \<or> c = quote \<or> c = backslash"
    by (auto simp: escape_char_def)
  then show thesis using plain short [of quote] short [of backslash] by (auto simp: escape_char_def unescape_char_def)
next
  case True
  then have h: "(of_char c :: nat) div 16 < 16" "(of_char c :: nat) mod 16 < 16" by simp_all
  show thesis
  proof (cases "c \<in> {CHR 0x08, CHR 0x0C, CHR 0x0A, CHR 0x0D, CHR 0x09}")
    case True
    then show thesis
      using short [of "CHR ''b''"] short [of "CHR ''f''"] short [of "CHR ''n''"] short [of "CHR ''r''"] short [of "CHR ''t''"]
      by (auto simp: escape_char_def unescape_char_def readable_def)
  next
    case False
    have "c \<noteq> quote" "c \<noteq> backslash" using True by auto
    then show thesis
      using True False long [OF _ _ hex_digit_plain [OF h(1)] hex_digit_plain [OF h(2)]]
      by (auto simp: escape_char_def readable_def)
  qed
qed

lemma closing_quote_escaped:
  "closing_quote False (escaped_text s @ rest) = map_option ((+) (length (escaped_text s))) (closing_quote False rest)"
proof (induction s)
  case (Cons c s)
  show ?case
    by (cases c rule: escape_char_cases; simp add: Cons option.map_comp comp_def)
qed (cases "closing_quote False rest"; simp)

lemma closing_bracket_escaped:
  "closing_bracket depth True False (escaped_text s @ rest) =
     map_option ((+) (length (escaped_text s))) (closing_bracket depth True False rest)"
proof (induction s)
  case (Cons c s)
  show ?case
    by (cases c rule: escape_char_cases; simp add: Cons option.map_comp comp_def)
qed (cases "closing_bracket depth True False rest"; simp)

lemma unescape_plain: "c \<noteq> backslash \<Longrightarrow> unescape_json_string (c # cs) = c # unescape_json_string cs"
  by (cases cs) simp_all

lemma unescape_escaped: "list_all readable s \<Longrightarrow> unescape_json_string (escaped_text s) = s"
proof (induction s)
  case (Cons c s)
  then show ?case by (cases c rule: escape_char_cases; simp add: unescape_plain)
qed simp

lemma json_push_escaped_Nil: "json_push_escaped [] x = quote # escaped_text x @ [quote]"
  by (simp add: json_push_escaped_def)

lemma closing_bracket_items:
  "closing_bracket 1 False False (json_items xs @ CHR '']'' # rest) = Some (length (json_items xs))"
  by (induction xs rule: json_items.induct)
    (simp_all add: json_push_escaped_Nil closing_bracket_escaped option.map_comp comp_def)

lemma split_strings_end: "split_strings s (length s) = Some []"
  by (subst split_strings.simps) (simp add: find_from_def)

lemma split_strings_skip:
  assumes "pos < length s" "s ! pos \<noteq> quote"
  shows "split_strings s pos = split_strings s (Suc pos)"
proof -
  have "take 1 (drop pos s) \<noteq> [quote]" using assms by (simp add: take_Suc_conv_app_nth hd_drop_conv_nth take_Suc)
  then have "find_from [quote] pos s = find_from [quote] (Suc pos) s"
    using assms(1) by (simp add: find_from_def upt_rec [of pos])
  then show ?thesis by (subst (1 2) split_strings.simps) simp
qed

lemma split_strings_string:
  assumes "s = pre @ quote # escaped_text x @ quote # rest" "list_all readable x"
  shows "split_strings s (length pre) = map_option ((#) x) (split_strings s (length pre + length (escaped_text x) + 2))"
proof -
  have "find_from [quote] (length pre) s = Some (length pre)" using assms(1) by (auto simp: find_from_char)
  moreover have "closing_quote False (drop (length pre + 1) s) = Some (length (escaped_text x))"
    by (simp add: assms(1) closing_quote_escaped)
  moreover have "take (length (escaped_text x)) (drop (length pre + 1) s) = escaped_text x" by (simp add: assms(1))
  ultimately show ?thesis
    using unescape_escaped [OF assms(2)]
    by (subst split_strings.simps) (simp add: add.assoc, cases "split_strings s (length pre + (2 + length (escaped_text x)))"; simp add: add.commute)
qed

lemma split_strings_items:
  assumes "list_all (list_all readable) xs"
  shows "split_strings (pre @ json_items xs) (length pre) = Some xs"
  using assms
proof (induction xs arbitrary: pre rule: json_items.induct)
  case 1
  then show ?case using split_strings_end [of pre] by simp
next
  case (2 x)
  let ?s = "pre @ quote # escaped_text x @ [quote]"
  have "split_strings ?s (length pre + length (escaped_text x) + 2) = Some []" using split_strings_end [of ?s] by (simp add: add.commute)
  with split_strings_string [of ?s pre x "[]"] 2 show ?case by (simp add: json_push_escaped_Nil)
next
  case (3 x y ys)
  let ?p = "pre @ quote # escaped_text x @ [quote, CHR '','']"
  let ?s = "?p @ json_items (y # ys)" and ?n = "length pre + length (escaped_text x) + 2"
  have s: "pre @ json_items (x # y # ys) = ?s" by (simp add: json_push_escaped_Nil)
  have "?s ! ?n = CHR '',''" by (simp add: nth_append)
  then have "split_strings ?s ?n = split_strings ?s (Suc ?n)" by (intro split_strings_skip) simp_all
  also have "Suc ?n = length ?p" by simp
  also have "split_strings ?s (length ?p) = Some (y # ys)" using 3 by (intro "3.IH") simp
  finally show ?case unfolding s using 3
    by (subst split_strings_string [where pre = pre and x = x and rest = "CHR '','' # json_items (y # ys)"]) simp_all
qed

text \<open>
  String arrays are read back. An array that \<open>json_push_string_array\<close> writes behind a key is
  found by \<open>json_array_value\<close> under that key, and \<open>split_string_array\<close> returns the strings, if
  they contain no control characters other than newline, carriage return and tab.
\<close>

theorem string_array_roundtrip:
  assumes "list_all (list_all readable) xs"
  shows "\<exists>array. json_array_value (''{'' @ quoted key @ '':'' @ json_push_string_array [] xs @ ''}'') key = Some array \<and>
    split_string_array array = Some xs"
proof -
  let ?a = "json_items xs @ '']}''" and ?n = "length (quoted key)"
  let ?obj = "CHR ''{'' # quoted key @ '':['' @ ?a"
  have k: "find_from (quoted key) 0 ?obj = Some 1"
  proof -
    have "[0..<Suc (length ?obj) - ?n] = 0 # 1 # [2..<Suc (length ?obj) - ?n]" by (simp add: upt_rec [of 0] upt_rec [of 1] upt_rec [of "Suc 0"] numeral_2_eq_2)
    then show ?thesis by (simp add: find_from_def) (simp add: quoted_def)
  qed
  have b: "find_from ''['' (1 + ?n) ?obj = Some (2 + ?n)"
    by (simp add: find_from_char nth_append nth_Cons split: nat.split)
  have "drop (2 + ?n) ?obj = CHR ''['' # ?a" by simp
  then have "closing_bracket 0 False False (drop (2 + ?n) ?obj) = Some (Suc (length (json_items xs)))"
    using closing_bracket_items [of xs "''}''"] by simp
  with k b have "json_array_value ?obj key = Some (json_items xs)" by (simp add: json_array_value_def)
  then show ?thesis
    using split_strings_items [OF assms, of "[]"]
    by (simp add: split_string_array_def json_push_string_array_def)
qed

theorem string_array_roundtrip_witness:
  "\<exists>array. json_array_value (''{'' @ quoted ''endpoints'' @ '':'' @
       json_push_string_array [] [''SD Card'', [quote, backslash, CHR 0x0A]] @ ''}'') ''endpoints'' = Some array \<and>
     split_string_array array = Some [''SD Card'', [quote, backslash, CHR 0x0A]]"
  by (rule string_array_roundtrip) (simp add: readable_def)

section \<open>What an accepted schema registers\<close>

lemma next_free_bounds:
  "start \<le> next_free used len start" "next_free used len start \<le> max start len"
  "next_free used len start < len \<Longrightarrow> \<not> used (next_free used len start)"
proof -
  have "start \<le> i \<and> i < len \<and> \<not> used i" if "List.find (\<lambda>i. \<not> used i) [start..<len] = Some i" for i
    using that by (auto simp: find_Some_iff)
  then show "start \<le> next_free used len start" "next_free used len start \<le> max start len"
    "next_free used len start < len \<Longrightarrow> \<not> used (next_free used len start)"
    by (auto simp: next_free_def max_def split: option.splits)
qed

lemma unat_small: "n < 2 ^ 32 \<Longrightarrow> unat (word_of_nat n :: u32) = n"
  by (simp add: unat_of_nat)

lemma next_endpoint_free: "next_endpoint R start < 2 ^ 32 \<Longrightarrow> endpoint_at (tables R) (word_of_nat (next_endpoint R start)) = None"
  using next_free_bounds(3) [of "\<lambda>i. kEndpointNames (tables R) ! i \<noteq> None" "length (kEndpointNames (tables R))" start]
  by (simp add: endpoint_at_def unat_small next_endpoint_def del: not_None_eq)

lemma next_type_free: "next_type R start < 2 ^ 32 \<Longrightarrow> \<not> valid_type (tables R) (word_of_nat (next_type R start))"
  using next_free_bounds(3) [of "\<lambda>i. ti_name (kTypeInfo (tables R) ! i) \<noteq> []" "length (kTypeInfo (tables R))" start]
  by (simp add: valid_type_def unat_small next_type_def)

text \<open>An entry of the endpoints, as the schema describes it, at the identifier it was given.\<close>

definition loaded_endpoint :: "registry \<Rightarrow> string \<Rightarrow> u32 \<Rightarrow> bool" where
  "loaded_endpoint R obj e \<longleftrightarrow>
     (\<exists>rust name. json_string_value obj ''rust'' = Some rust \<and> json_string_value obj ''name'' = Some name \<and>
        endpoint_at (tables R) e = Some (c_str name)) \<and>
     endpoint_description R e = json_description obj \<and>
     (endpoint_is_link_local R e \<longleftrightarrow>
        json_bool_value obj ''link_local_only'' = Some True \<or> json_string_value obj ''broadcast_mode'' = Some ''Never'')"

definition rust_name :: "string \<Rightarrow> string" where
  "rust_name obj = the (json_string_value obj ''rust'')"

text \<open>An entry of the types; \<open>ids\<close> gives the identifiers of the endpoints of the schema by name.\<close>

definition element_names :: "(string \<times> element_data_type) list" where
  "element_names =
     [(''NoData'', NoData), (''Bool'', Bool), (''UInt8'', UInt8), (''UInt16'', UInt16), (''UInt32'', UInt32),
      (''UInt64'', UInt64), (''Int8'', Int8), (''Int16'', Int16), (''Int32'', Int32), (''Int64'', Int64),
      (''Float32'', Float32), (''Float64'', Float64), (''String'', String), (''Binary'', Binary)]"

definition named :: "(string \<times> 'a) list \<Rightarrow> 'a \<Rightarrow> string option \<Rightarrow> 'a" where
  "named table d n = (case n of None \<Rightarrow> d | Some x \<Rightarrow> (case map_of table x of None \<Rightarrow> d | Some v \<Rightarrow> v))"

definition loaded_type :: "registry \<Rightarrow> (string \<rightharpoonup> u32) \<Rightarrow> string \<Rightarrow> u32 \<Rightarrow> bool" where
  "loaded_type R ids obj t \<longleftrightarrow>
     (\<exists>name array names count prio info. info = type_at (tables R) t \<and>
        json_string_value obj ''name'' = Some name \<and> ti_name info = c_str name \<and>
        json_array_value obj ''endpoints'' = Some array \<and> split_string_array array = Some names \<and>
        ti_endpoints info = List.map_filter ids names \<and> ti_endpoints info \<noteq> [] \<and>
        (dynamic info \<longleftrightarrow> json_string_value obj ''kind'' = Some ''Dynamic'') \<and>
        (dynamic info \<or> json_size_value obj ''count'' = Some count) \<and>
        static_count info = (if dynamic info then 0 else case count of Some n \<Rightarrow> n | None \<Rightarrow> 0) \<and>
        data_type info = named element_names UInt8 (json_string_value obj ''data_type'') \<and>
        ti_message_class info = named [(''Error'', Error), (''Warning'', Warning)] Data (json_string_value obj ''class'') \<and>
        ti_reliable_mode info =
          (if json_bool_value obj ''reliable'' = Some True then Ordered
           else named [(''Ordered'', Ordered), (''Unordered'', Unordered)] RM_None (json_string_value obj ''reliable_mode'')) \<and>
        json_size_value obj ''priority'' = Some prio \<and>
        type_priority R t = word_of_nat (case prio of Some n \<Rightarrow> n | None \<Rightarrow> 0) \<and>
        type_description R t = json_description obj)"

lemma element_code_read_back: "element_type_from_code (message_data_type_code d) = d"
  by (cases d) (simp_all add: element_type_from_code_def message_data_type_code_def code_of_def element_types_def)

lemma class_code_read_back: "message_class_from_code (message_class_code c) = c"
  by (cases c) (simp_all add: message_class_from_code_def message_class_code_def code_of_def message_classes_def)

lemma reliable_code_read_back: "reliable_from_code (reliable_code m) = m"
  by (cases m) (simp_all add: reliable_from_code_def reliable_code_def code_of_def reliable_modes_def)

lemma named_Some: "named [] d (Some x) = d" "named ((y, v) # table) d (Some x) = (if x = y then v else named table d (Some x))"
  by (simp_all add: named_def)

lemma element_name: "element_type_from_code (element_code_from_name (json_or ''UInt8'' n)) = named element_names UInt8 n"
proof (cases n)
  case (Some x)
  then show ?thesis
    unfolding element_code_from_name_def element_code_read_back element_names_def by (simp only: named_Some json_or_def option.case)
qed (simp add: element_code_from_name_def element_code_read_back json_or_def named_def)

lemma class_name:
  "message_class_from_code (message_class_code_from_name (json_or ''Data'' n)) =
     named [(''Error'', Error), (''Warning'', Warning)] Data n"
  by (cases n) (simp_all add: message_class_code_from_name_def class_code_read_back json_or_def named_def)

lemma reliable_name:
  "reliable_from_code (reliable_code_from_name (json_or ''None'' n)) =
     named [(''Ordered'', Ordered), (''Unordered'', Unordered)] RM_None n"
  by (cases n) (simp_all add: reliable_code_from_name_def reliable_code_read_back json_or_def named_def)

lemmas code_names = element_name class_name reliable_name

lemma endpoint_register_fresh:
  assumes "seds_endpoint_register_ex e name desc ll R = Some (SEDS_OK, R1)" "endpoint_at (tables R) e = None"
  shows "endpoint_at (tables R1) x = (if x = e then Some (c_str name) else endpoint_at (tables R) x)"
    and "kTypeInfo (tables R1) = kTypeInfo (tables R)"
    and "endpoint_description R1 x = (if x = e then desc else endpoint_description R x)"
    and "endpoint_is_link_local R1 x = (if x = e then ll else endpoint_is_link_local R x)"
    and "length (kEndpointNames (tables R1)) = max (length (kEndpointNames (tables R))) (Suc (unat e))"
    and "type_description R1 = type_description R" "type_priority R1 = type_priority R"
  using assms
  by (auto simp: seds_endpoint_register_ex_def Let_def endpoint_at_grown endpoint_description_def
      endpoint_is_link_local_def type_description_def type_priority_def fun_eq_iff mget_def split: if_splits)

text \<open>What a run of the loader leaves alone.\<close>

definition endpoints_kept :: "u32 set \<Rightarrow> registry \<Rightarrow> registry \<Rightarrow> bool" where
  "endpoints_kept S R R' \<longleftrightarrow>
     (\<forall>e. e \<notin> S \<longrightarrow> endpoint_at (tables R') e = endpoint_at (tables R) e \<and>
        endpoint_description R' e = endpoint_description R e \<and> endpoint_is_link_local R' e = endpoint_is_link_local R e)"

definition types_kept :: "u32 set \<Rightarrow> registry \<Rightarrow> registry \<Rightarrow> bool" where
  "types_kept S R R' \<longleftrightarrow>
     (\<forall>t. t \<notin> S \<longrightarrow> type_at (tables R') t = type_at (tables R) t \<and> type_description R' t = type_description R t \<and>
        type_priority R' t = type_priority R t)"

lemma loaded_endpoint_kept:
  "endpoints_kept S R R' \<Longrightarrow> e \<notin> S \<Longrightarrow> loaded_endpoint R obj e \<Longrightarrow> loaded_endpoint R' obj e"
  by (simp add: endpoints_kept_def loaded_endpoint_def)

lemma loaded_type_kept: "types_kept S R R' \<Longrightarrow> t \<notin> S \<Longrightarrow> loaded_type R ids obj t \<Longrightarrow> loaded_type R' ids obj t"
  by (simp add: types_kept_def loaded_type_def)

lemma load_endpoints_spec:
  assumes "load_endpoints objs ids nxt R = Some (SEDS_OK, ids', R')"
    and "max nxt (length (kEndpointNames (tables R))) + length objs < 2 ^ 32"
    and "endpoint_at (tables R) (word_of_nat nxt) = None"
  shows "\<exists>eids. sorted_wrt (<) eids \<and> list_all (\<lambda>e. nxt \<le> unat e \<and> endpoint_at (tables R) e = None) eids \<and>
    list_all2 (loaded_endpoint R') objs eids \<and>
    map_of ids' = map_of ids ++ map_of (rev (zip (map rust_name objs) eids)) \<and>
    endpoints_kept (set eids) R R' \<and> kTypeInfo (tables R') = kTypeInfo (tables R) \<and> types_kept {} R R'"
  using assms
proof (induction objs arbitrary: ids nxt R)
  case Nil
  then show ?case by (intro exI [of _ "[]"]) (simp add: endpoints_kept_def types_kept_def)
next
  case (Cons obj objs)
  let ?e = "word_of_nat nxt :: u32" and ?nxt' = "next_endpoint R (Suc nxt)"
  let ?ll = "json_bool_value obj ''link_local_only'' = Some True \<or>
      json_or [] (json_string_value obj ''broadcast_mode'') = ''Never''"
  obtain rust name R1 where v: "json_string_value obj ''rust'' = Some rust" "json_string_value obj ''name'' = Some name"
    and reg: "seds_endpoint_register_ex ?e name (json_description obj) ?ll R = Some (SEDS_OK, R1)"
    and rest: "load_endpoints objs (mput rust ?e ids) ?nxt' R1 = Some (SEDS_OK, ids', R')"
    using Cons.prems(1) by (auto simp: Let_def bind_eq_Some_conv split: option.splits if_splits)
  note f = endpoint_register_fresh [OF reg Cons.prems(3)]
  have n: "unat ?e = nxt" using Cons.prems(2) by (intro unat_small) simp
  have nb: "Suc nxt \<le> ?nxt'" "?nxt' \<le> max (Suc nxt) (length (kEndpointNames (tables R)))"
    unfolding next_endpoint_def by (rule next_free_bounds)+
  then have small: "?nxt' < 2 ^ 32" using Cons.prems(2) by simp
  have "word_of_nat ?nxt' \<noteq> ?e"
    using nb(1) unat_small [OF small] n by (metis Suc_n_not_le_n)
  then have free: "endpoint_at (tables R1) (word_of_nat ?nxt') = None"
    using next_endpoint_free [OF small] by (simp add: f(1))
  have "max ?nxt' (length (kEndpointNames (tables R1))) + length objs < 2 ^ 32"
    using nb(2) Cons.prems(2) by (simp add: f(5) n)
  from Cons.IH [OF rest this free] obtain eids where IH:
    "sorted_wrt (<) eids" "list_all (\<lambda>e. ?nxt' \<le> unat e \<and> endpoint_at (tables R1) e = None) eids"
    "list_all2 (loaded_endpoint R') objs eids"
    "map_of ids' = map_of (mput rust ?e ids) ++ map_of (rev (zip (map rust_name objs) eids))"
    "endpoints_kept (set eids) R1 R'" "kTypeInfo (tables R') = kTypeInfo (tables R1)" "types_kept {} R1 R'" by blast
  have above: "nxt < unat e" if "e \<in> set eids" for e using IH(2) nb(1) that by (auto simp: list_all_iff)
  then have lt: "\<forall>e \<in> set eids. ?e < e" by (simp add: word_less_nat_alt n)
  then have new: "?e \<notin> set eids" by blast
  have "loaded_endpoint R1 obj ?e"
    by (simp add: loaded_endpoint_def f v json_or_def split: option.split)
  then have "loaded_endpoint R' obj ?e" by (rule loaded_endpoint_kept [OF IH(5) new])
  moreover have "endpoint_at (tables R) e = None" if "e \<in> set eids" for e
    using IH(2) new that by (auto simp: list_all_iff f(1) split: if_splits)
  moreover have "endpoints_kept (insert ?e (set eids)) R R'" using IH(5) by (simp add: endpoints_kept_def f)
  moreover have "map_of ids' = map_of ids ++ map_of (rev (zip (map rust_name (obj # objs)) (?e # eids)))"
    by (simp add: IH(4) rust_name_def v(1) fun_eq_iff map_add_def split: option.split)
  moreover have "types_kept {} R R'" using IH(7) f(2,6,7) by (simp add: types_kept_def type_at_def)
  ultimately show ?case
    using IH(1,3,6) above lt n Cons.prems(3) f(2)
    by (intro exI [of _ "?e # eids"]) (auto simp: list_all_iff less_imp_le)
qed

definition entry_spec :: "(string, u32) amap \<Rightarrow> string \<Rightarrow> string list \<Rightarrow> nat option \<Rightarrow> nat option \<Rightarrow> type_spec" where
  "entry_spec ids obj names count prio =
     (let dyn = json_string_value obj ''kind'' = Some ''Dynamic''
      in \<lparr>ts_static = \<not> dyn, ts_count = (if dyn then 0 else case count of Some n \<Rightarrow> n | None \<Rightarrow> 0),
          ts_data_type = element_code_from_name (json_or ''UInt8'' (json_string_value obj ''data_type'')),
          ts_class = message_class_code_from_name (json_or ''Data'' (json_string_value obj ''class'')),
          ts_reliable = (if json_bool_value obj ''reliable'' = Some True then reliable_code Ordered
                         else reliable_code_from_name (json_or ''None'' (json_string_value obj ''reliable_mode''))),
          ts_priority_code = word_of_nat (case prio of Some n \<Rightarrow> n | None \<Rightarrow> 0), ts_endpoints = named_ids ids names\<rparr>)"

lemma json_or_eq: "d \<noteq> x \<Longrightarrow> json_or d v = x \<longleftrightarrow> v = Some x"
  by (cases v) (simp_all add: json_or_def)

lemma load_types_ConsE:
  assumes "load_types (obj # objs) ids nxt R = Some (SEDS_OK, R')"
  obtains name prio array names count R1 where "json_string_value obj ''name'' = Some name"
    "json_size_value obj ''priority'' = Some prio" "json_array_value obj ''endpoints'' = Some array"
    "split_string_array array = Some names" "named_ids ids names \<noteq> []"
    "json_string_value obj ''kind'' = Some ''Dynamic'' \<or> json_size_value obj ''count'' = Some count"
    "seds_dtype_register_ex (word_of_nat nxt) name (json_description obj) (entry_spec ids obj names count prio) R = Some (SEDS_OK, R1)"
    "load_types objs ids (next_type R (Suc nxt)) R1 = Some (SEDS_OK, R')"
proof -
  obtain name where name: "json_string_value obj ''name'' = Some name"
    using assms by (cases "json_string_value obj ''name''") simp_all
  obtain prio where prio: "json_size_value obj ''priority'' = Some prio"
    using assms name by (cases "json_size_value obj ''priority''") simp_all
  obtain array where array: "json_array_value obj ''endpoints'' = Some array"
    using assms name prio by (cases "json_array_value obj ''endpoints''") simp_all
  obtain names where names: "split_string_array array = Some names"
    using assms name prio array by (cases "split_string_array array") simp_all
  have eps: "named_ids ids names \<noteq> []" using assms name prio array names by (auto simp: Let_def)
  show thesis
  proof (cases "json_string_value obj ''kind'' = Some ''Dynamic''")
    case True
    then show thesis
      using assms name prio array names eps that [where count = None]
      by (auto simp: Let_def json_or_eq bind_eq_Some_conv entry_spec_def json_or_def split: if_splits)
  next
    case False
    then obtain count where "json_size_value obj ''count'' = Some count"
      using assms name prio array names eps
      by (cases "json_size_value obj ''count''") (simp_all add: Let_def json_or_eq)
    with False show thesis
      using assms name prio array names eps that [where count = count]
      by (auto simp: Let_def json_or_eq bind_eq_Some_conv entry_spec_def split: if_splits)
  qed
qed

lemma loaded_typeI:
  assumes "json_string_value obj ''name'' = Some name" "json_size_value obj ''priority'' = Some prio"
    and "json_array_value obj ''endpoints'' = Some array" "split_string_array array = Some names" "named_ids ids names \<noteq> []"
    and "json_string_value obj ''kind'' = Some ''Dynamic'' \<or> json_size_value obj ''count'' = Some count"
    and "type_at (tables R) t = new_type_info name (entry_spec ids obj names count prio)"
    and "type_priority R t = ts_priority_code (entry_spec ids obj names count prio)" "type_description R t = json_description obj"
  shows "loaded_type R (map_of ids) obj t"
  unfolding loaded_type_def
  using assms(1-6)
  by (intro exI [of _ name] exI [of _ array] exI [of _ names] exI [of _ count] exI [of _ prio]
      exI [of _ "new_type_info name (entry_spec ids obj names count prio)"])
    (simp add: assms(7-9) new_type_info_def entry_spec_def Let_def code_names reliable_code_read_back named_ids_def)

lemma load_types_spec:
  assumes "load_types objs ids nxt R = Some (SEDS_OK, R')" "100 \<le> nxt"
    and "max nxt (length (kTypeInfo (tables R))) + length objs < 2 ^ 32"
    and "\<not> valid_type (tables R) (word_of_nat nxt)"
  shows "\<exists>tids. sorted_wrt (<) tids \<and> list_all (\<lambda>t. nxt \<le> unat t \<and> \<not> valid_type (tables R) t) tids \<and>
    list_all2 (loaded_type R' (map_of ids)) objs tids \<and> types_kept (set tids) R R' \<and> endpoints_kept {} R R'"
  using assms
proof (induction objs arbitrary: nxt R)
  case Nil
  then show ?case by (intro exI [of _ "[]"]) (simp add: endpoints_kept_def types_kept_def)
next
  case (Cons obj objs)
  let ?t = "word_of_nat nxt :: u32" and ?nxt' = "next_type R (Suc nxt)"
  from Cons.prems(1) obtain name prio array names count R1 where v: "json_string_value obj ''name'' = Some name"
      "json_size_value obj ''priority'' = Some prio" "json_array_value obj ''endpoints'' = Some array"
      "split_string_array array = Some names" "named_ids ids names \<noteq> []"
      "json_string_value obj ''kind'' = Some ''Dynamic'' \<or> json_size_value obj ''count'' = Some count"
    and reg: "seds_dtype_register_ex ?t name (json_description obj) (entry_spec ids obj names count prio) R = Some (SEDS_OK, R1)"
    and rest: "load_types objs ids ?nxt' R1 = Some (SEDS_OK, R')"
    by (rule load_types_ConsE)
  have n: "unat ?t = nxt" using Cons.prems(3) by (intro unat_small) simp
  then have id: "c_api_type_id (tables R) ?t = ?t"
    using Cons.prems(2,4) by (simp add: c_api_type_id_def word_less_nat_alt)
  note f = register_fresh [OF reg, unfolded id, OF Cons.prems(4)]
  have at: "type_at (tables R1) x = (if x = ?t then new_type_info name (entry_spec ids obj names count prio) else type_at (tables R) x)" for x
    by (simp add: f(1) type_at_grown del: unat_of_nat)
  have texts: "type_description R1 x = (if x = ?t then json_description obj else type_description R x)"
    "type_priority R1 x = (if x = ?t then ts_priority_code (entry_spec ids obj names count prio) else type_priority R x)" for x
    by (simp_all add: f(1) type_description_def type_priority_def mget_def)
  have nb: "Suc nxt \<le> ?nxt'" "?nxt' \<le> max (Suc nxt) (length (kTypeInfo (tables R)))"
    unfolding next_type_def by (rule next_free_bounds)+
  then have small: "?nxt' < 2 ^ 32" using Cons.prems(3) by simp
  have "word_of_nat ?nxt' \<noteq> ?t"
    using nb(1) unat_small [OF small] n by (metis Suc_n_not_le_n)
  then have free: "\<not> valid_type (tables R1) (word_of_nat ?nxt')"
    using next_type_free [OF small] by (simp add: valid_type_iff at)
  have "max ?nxt' (length (kTypeInfo (tables R1))) + length objs < 2 ^ 32"
    using nb(2) Cons.prems(3) n by (simp add: f(1) del: unat_of_nat)
  from Cons.IH [OF rest _ this free] nb(1) Cons.prems(2) obtain tids where IH:
    "sorted_wrt (<) tids" "list_all (\<lambda>t. ?nxt' \<le> unat t \<and> \<not> valid_type (tables R1) t) tids"
    "list_all2 (loaded_type R' (map_of ids)) objs tids" "types_kept (set tids) R1 R'" "endpoints_kept {} R1 R'" by auto
  have above: "nxt < unat t" if "t \<in> set tids" for t using IH(2) nb(1) that by (auto simp: list_all_iff)
  then have lt: "\<forall>t \<in> set tids. ?t < t" by (simp add: word_less_nat_alt n)
  then have new: "?t \<notin> set tids" by blast
  have "loaded_type R1 (map_of ids) obj ?t"
    by (rule loaded_typeI [OF v]) (simp_all add: at texts)
  then have "loaded_type R' (map_of ids) obj ?t" by (rule loaded_type_kept [OF IH(4) new])
  moreover have "\<not> valid_type (tables R) t" if "t \<in> set tids" for t
    using IH(2) new that by (auto simp: list_all_iff valid_type_iff at split: if_splits)
  moreover have "types_kept (insert ?t (set tids)) R R'"
    using IH(4) by (simp add: types_kept_def at texts)
  moreover have "endpoints_kept {} R R'"
    using IH(5) by (simp add: endpoints_kept_def f(1) endpoint_at_def endpoint_description_def endpoint_is_link_local_def)
  ultimately show ?case
    using IH(1,3) above lt n Cons.prems(4)
    by (intro exI [of _ "?t # tids"]) (auto simp: list_all_iff less_imp_le)
qed

text \<open>
  (C39) An accepted schema is registered. If the loader accepts a text, every entry of its endpoints got a
  free identifier under which its name, description and link-local flag are found, and every entry of
  its types got a free identifier under which its name, kind, count, element type, class, reliability,
  priority and description are found; its endpoints are those the schema declares under the listed
  names, the last one where a name is declared twice, and at least one. Entries get ascending identifiers from 100 on, so that no two
  share one, and everything else in the tables is unchanged. The tables are assumed to stay below \<open>2\<^sup>3\<^sup>2\<close> entries.
\<close>

theorem accepted_schema_registered:
  assumes "register_schema_json_text json R = Some (SEDS_OK, R')"
    and "json_array_value json ''endpoints'' = Some eps" "json_array_value json ''types'' = Some tys"
    and "max 100 (length (kEndpointNames (tables R))) + length (split_top_level_objects eps) < 2 ^ 32"
    and "max 100 (length (kTypeInfo (tables R))) + length (split_top_level_objects tys) < 2 ^ 32"
  shows "\<exists>eids tids. sorted_wrt (<) eids \<and> sorted_wrt (<) tids \<and>
    list_all (\<lambda>e. 100 \<le> unat e \<and> endpoint_at (tables R) e = None) eids \<and>
    list_all (\<lambda>t. 100 \<le> unat t \<and> \<not> valid_type (tables R) t) tids \<and>
    list_all2 (loaded_endpoint R') (split_top_level_objects eps) eids \<and>
    list_all2 (loaded_type R' (map_of (rev (zip (map rust_name (split_top_level_objects eps)) eids))))
      (split_top_level_objects tys) tids \<and>
    endpoints_kept (set eids) R R' \<and> types_kept (set tids) R R'"
proof -
  let ?E = "split_top_level_objects eps" and ?T = "split_top_level_objects tys"
  let ?n = "next_endpoint R 100"
  obtain ids R1 where 1: "load_endpoints ?E [] ?n R = Some (SEDS_OK, ids, R1)"
    and 2: "load_types ?T ids (next_type R1 100) R1 = Some (SEDS_OK, R')"
    using assms(1-3) by (auto simp: register_schema_json_text_def bind_eq_Some_conv split: if_splits)
  have nb: "100 \<le> ?n" "?n \<le> max 100 (length (kEndpointNames (tables R)))"
    unfolding next_endpoint_def by (rule next_free_bounds)+
  then have "?n < 2 ^ 32" "max ?n (length (kEndpointNames (tables R))) + length ?E < 2 ^ 32" using assms(4) by auto
  from load_endpoints_spec [OF 1 this(2) next_endpoint_free [OF this(1)]] obtain eids where e:
    "sorted_wrt (<) eids" "list_all (\<lambda>e. ?n \<le> unat e \<and> endpoint_at (tables R) e = None) eids"
    "list_all2 (loaded_endpoint R1) ?E eids" "map_of ids = map_of (rev (zip (map rust_name ?E) eids))"
    "endpoints_kept (set eids) R R1" "kTypeInfo (tables R1) = kTypeInfo (tables R)"
    "types_kept {} R R1" by auto
  have tb: "100 \<le> next_type R1 100" "next_type R1 100 \<le> max 100 (length (kTypeInfo (tables R1)))"
    unfolding next_type_def by (rule next_free_bounds)+
  then have "next_type R1 100 < 2 ^ 32" "max (next_type R1 100) (length (kTypeInfo (tables R1))) + length ?T < 2 ^ 32"
    using assms(5) e(6) by auto
  from load_types_spec [OF 2 tb(1) this(2) next_type_free [OF this(1)]] obtain tids where t:
    "sorted_wrt (<) tids" "list_all (\<lambda>t. next_type R1 100 \<le> unat t \<and> \<not> valid_type (tables R1) t) tids"
    "list_all2 (loaded_type R' (map_of ids)) ?T tids" "types_kept (set tids) R1 R'" "endpoints_kept {} R1 R'" by blast
  have "list_all2 (loaded_endpoint R') ?E eids"
    using e(3) loaded_endpoint_kept [OF t(5)] by (auto elim: list_all2_mono)
  moreover have "valid_type (tables R1) = valid_type (tables R)" using e(6) by (simp add: valid_type_def fun_eq_iff)
  moreover have "endpoints_kept (set eids) R R'" "types_kept (set tids) R R'"
    using e(5,7) t(4,5) by (simp_all add: endpoints_kept_def types_kept_def)
  ultimately show ?thesis
    using e t(1-3) nb(1) tb(1) by (intro exI [of _ eids] exI [of _ tids]) (auto simp: list_all_iff)
qed

definition camera_entry :: string where
  "camera_entry = ''{'' @ quoted ''rust'' @ '':'' @ quoted ''Cam'' @ '','' @ quoted ''name'' @ '':'' @ quoted ''CAMERA'' @ ''}''"

definition temp_entry :: string where
  "temp_entry = ''{'' @ quoted ''name'' @ '':'' @ quoted ''TEMP'' @ '','' @ quoted ''endpoints'' @ '':['' @ quoted ''Cam'' @ ''],'' @
     quoted ''kind'' @ '':'' @ quoted ''Dynamic'' @ ''}''"

definition endpoints_member :: string where
  "endpoints_member = quoted ''endpoints'' @ '':['' @ camera_entry @ '']''"

definition types_member :: string where
  "types_member = quoted ''types'' @ '':['' @ temp_entry @ '']''"

theorem accepted_schema_registered_witness:
  "\<exists>R' e t. register_schema_json_text (''{'' @ endpoints_member @ '','' @ types_member @ ''}'') base_registry = Some (SEDS_OK, R') \<and>
     endpoint_at (tables R') e = Some ''CAMERA'' \<and> ti_name (type_at (tables R') t) = ''TEMP'' \<and>
     dynamic (type_at (tables R') t) \<and> ti_endpoints (type_at (tables R') t) = [e]"
proof -
  let ?json = "''{'' @ endpoints_member @ '','' @ types_member @ ''}''"
  have "map_option fst (register_schema_json_text ?json base_registry) = Some SEDS_OK" by code_simp
  then obtain R' where 1: "register_schema_json_text ?json base_registry = Some (SEDS_OK, R')" by auto
  have 2: "json_array_value ?json ''endpoints'' = Some camera_entry" "json_array_value ?json ''types'' = Some temp_entry" by code_simp+
  have 3: "split_top_level_objects camera_entry = [camera_entry]" "split_top_level_objects temp_entry = [temp_entry]" by code_simp+
  have 4: "json_string_value camera_entry ''name'' = Some ''CAMERA''" "rust_name camera_entry = ''Cam''" "c_str ''CAMERA'' = ''CAMERA''"
    "json_string_value temp_entry ''name'' = Some ''TEMP''" "c_str ''TEMP'' = ''TEMP''"
    "json_array_value temp_entry ''endpoints'' = Some (quoted ''Cam'')" "split_string_array (quoted ''Cam'') = Some [''Cam'']"
    "json_string_value temp_entry ''kind'' = Some ''Dynamic''"
    by code_simp+
  have "length (kEndpointNames (tables base_registry)) = 202" "length (kTypeInfo (tables base_registry)) = 1"
    by (simp_all add: base_registry_tables)
  with accepted_schema_registered [OF 1 2] obtain e t where
    "loaded_endpoint R' camera_entry e" "loaded_type R' [''Cam'' \<mapsto> e] temp_entry t"
    unfolding 3 by (auto simp: list_all2_Cons1 4(2))
  then show ?thesis
    using 1 4 by (intro exI [of _ R'] exI [of _ e] exI [of _ t]) (simp add: loaded_endpoint_def loaded_type_def List.map_filter_simps)
qed

section \<open>The order of members\<close>

text \<open>
  The order of members matters. In a schema text whose types come before its endpoints, the search for
  the key \<open>endpoints\<close> finds the member of the first type, so that the text is rejected, while the
  same members in the other order are accepted.
\<close>

theorem schema_member_order_matters:
  "map_option fst (register_schema_json_text (''{'' @ endpoints_member @ '','' @ types_member @ ''}'') base_registry) = Some SEDS_OK \<and>
   map_option fst (register_schema_json_text (''{'' @ types_member @ '','' @ endpoints_member @ ''}'') base_registry) = Some SEDS_BAD_ARG"
  by (intro conjI; code_simp)

end
