(* ===== verification/Packet_Access.thy ===== *)
theory Packet_Access
  imports Packet_Text
begin

text \<open>
  Access to packets: the functions \<open>seds_pkt_*\<close> and \<open>seds_owned_*\<close> of \<open>src/packet_api.cpp\<close>, typed reads of
  a payload (\<open>copy_typed_payload\<close> of \<open>internal.hpp\<close>), and the classes \<open>SmallPayload\<close>
  (\<open>small_payload.hpp\<close>) and \<open>Packet\<close> (\<open>src/packet.cpp\<close>).
\<close>

section \<open>Frames\<close>

text \<open>A length as it is returned in a 32-bit result.\<close>

definition length_code :: "nat \<Rightarrow> i32" where
  "length_code n = sint (word_of_nat n :: u32)"

text \<open>
  A destination is its capacity, or \<open>None\<close> when the pointer is null. The result is the returned
  number and what is written.
\<close>

definition seds_pkt_serialize_len :: "env \<Rightarrow> packet_view option \<Rightarrow> i32 option" where
  "seds_pkt_serialize_len E view =
     map_option (\<lambda>p. case p of Some pkt \<Rightarrow> length_code (length (serialize_packet E pkt)) | None \<Rightarrow> result_code SEDS_BAD_ARG)
       (packet_from_view E view)"

definition seds_pkt_serialize :: "env \<Rightarrow> packet_view option \<Rightarrow> nat option \<Rightarrow> (i32 \<times> bytes) option" where
  "seds_pkt_serialize E view out =
     map_option (\<lambda>p. case p of
         None \<Rightarrow> (result_code SEDS_BAD_ARG, [])
       | Some pkt \<Rightarrow>
           let wire = serialize_packet E pkt in
           (length_code (length wire),
            case out of None \<Rightarrow> [] | Some n \<Rightarrow> if n < length wire then [] else wire))
       (packet_from_view E view)"

definition seds_pkt_validate_serialized :: "env \<Rightarrow> bytes \<Rightarrow> seds_result option" where
  "seds_pkt_validate_serialized E bs =
     map_option (\<lambda>p. if p \<noteq> None then SEDS_OK else SEDS_DESERIALIZE) (deserialize_packet E bs)"

definition seds_pkt_deserialize_owned :: "env \<Rightarrow> bytes \<Rightarrow> packet option option" where
  "seds_pkt_deserialize_owned E bs = deserialize_packet E bs"

definition seds_pkt_deserialize_header_owned :: "env \<Rightarrow> bytes \<Rightarrow> packet option option" where
  "seds_pkt_deserialize_header_owned E bs =
     map_option (map_option (\<lambda>frame.
         \<lparr>ty = env_ty (envelope frame), sender = env_sender (envelope frame), endpoints = env_endpoints (envelope frame),
          timestamp = timestamp_ms (envelope frame), payload = []\<rparr>))
       (peek_frame_info E bs True)"

text \<open>\<open>seds_owned_pkt_view\<close> and \<open>seds_owned_header_view\<close>; the flag says that the output is null.\<close>

definition seds_owned_pkt_view :: "packet option \<Rightarrow> bool \<Rightarrow> seds_result \<times> packet_view option" where
  "seds_owned_pkt_view pkt out_null =
     (case pkt of
        None \<Rightarrow> (SEDS_BAD_ARG, None)
      | Some p \<Rightarrow> if out_null then (SEDS_BAD_ARG, None) else (SEDS_OK, Some (fill_view p)))"

section \<open>Payloads\<close>

definition seds_pkt_bytes_ptr :: "packet_view option \<Rightarrow> (nat \<times> bytes option) option" where
  "seds_pkt_bytes_ptr pkt = map_option (\<lambda>v. (v_payload_len v, v_payload v)) pkt"

definition seds_pkt_data_ptr :: "packet_view option \<Rightarrow> nat \<Rightarrow> (nat \<times> bytes option) option" where
  "seds_pkt_data_ptr pkt sz =
     (if sz = 0 then None else map_option (\<lambda>v. (v_payload_len v div sz, v_payload v)) pkt)"

text \<open>\<open>memcpy\<close> of \<open>n\<close> payload bytes; \<open>None\<close> reads outside the payload.\<close>

definition copy_payload :: "packet_view \<Rightarrow> nat \<Rightarrow> bytes option" where
  "copy_payload v n = (if n = 0 then Some [] else Option.bind (v_payload v) (\<lambda>p. read_ptr p n))"

definition seds_pkt_copy_bytes :: "packet_view option \<Rightarrow> nat option \<Rightarrow> (i32 \<times> bytes) option" where
  "seds_pkt_copy_bytes pkt dst =
     (case pkt of
        None \<Rightarrow> Some (result_code SEDS_BAD_ARG, [])
      | Some v \<Rightarrow>
          if dst = None \<or> the dst < v_payload_len v then Some (length_code (v_payload_len v), [])
          else map_option (Pair (length_code (v_payload_len v))) (copy_payload v (v_payload_len v)))"

definition seds_pkt_copy_data :: "packet_view option \<Rightarrow> nat \<Rightarrow> nat option \<Rightarrow> (i32 \<times> bytes) option" where
  "seds_pkt_copy_data pkt sz dst =
     (case pkt of
        None \<Rightarrow> Some (result_code SEDS_BAD_ARG, [])
      | Some v \<Rightarrow>
          if sz = 0 then Some (result_code SEDS_BAD_ARG, [])
          else
            let need = v_payload_len v div sz in
            if dst = None \<or> the dst < need then Some (length_code need, [])
            else map_option (Pair (length_code need)) (copy_payload v (need * sz)))"

definition seds_pkt_get_string_len :: "packet_view option \<Rightarrow> i32" where
  "seds_pkt_get_string_len pkt =
     (case pkt of None \<Rightarrow> result_code SEDS_BAD_ARG | Some v \<Rightarrow> length_code (v_payload_len v + 1))"

definition seds_pkt_get_string :: "packet_view option \<Rightarrow> nat option \<Rightarrow> (i32 \<times> string) option" where
  "seds_pkt_get_string pkt buf =
     (case pkt of
        None \<Rightarrow> Some (result_code SEDS_BAD_ARG, '''')
      | Some v \<Rightarrow>
          if buf = None \<or> the buf \<le> v_payload_len v then Some (length_code (v_payload_len v + 1), '''')
          else map_option (\<lambda>bs. (length_code (v_payload_len v), string_of_bytes bs @ [CHR 0x00]))
                 (copy_payload v (v_payload_len v)))"

section \<open>Typed payloads\<close>

text \<open>The C types of elements, their size and the element type of the schema they stand for.\<close>

datatype c_type = C_f32 | C_f64 | C_u8 | C_u16 | C_u32 | C_u64 | C_i8 | C_i16 | C_i32 | C_i64 | C_bool

definition PayloadElementType :: "c_type \<Rightarrow> element_data_type" where
  "PayloadElementType c =
     (case c of C_f32 \<Rightarrow> Float32 | C_f64 \<Rightarrow> Float64 | C_u8 \<Rightarrow> UInt8 | C_u16 \<Rightarrow> UInt16 | C_u32 \<Rightarrow> UInt32
      | C_u64 \<Rightarrow> UInt64 | C_i8 \<Rightarrow> Int8 | C_i16 \<Rightarrow> Int16 | C_i32 \<Rightarrow> Int32 | C_i64 \<Rightarrow> Int64 | C_bool \<Rightarrow> Bool)"

definition sizeof :: "c_type \<Rightarrow> nat" where
  "sizeof c =
     (case c of C_f32 \<Rightarrow> 4 | C_f64 \<Rightarrow> 8 | C_u8 \<Rightarrow> 1 | C_u16 \<Rightarrow> 2 | C_u32 \<Rightarrow> 4 | C_u64 \<Rightarrow> 8
      | C_i8 \<Rightarrow> 1 | C_i16 \<Rightarrow> 2 | C_i32 \<Rightarrow> 4 | C_i64 \<Rightarrow> 8 | C_bool \<Rightarrow> 1)"

text \<open>The copied bytes; for booleans every non-zero byte becomes \<open>true\<close>.\<close>

definition copied :: "c_type \<Rightarrow> bytes \<Rightarrow> bytes" where
  "copied c bs = (if c = C_bool then map (\<lambda>b. if b \<noteq> 0 then 1 else 0) bs else bs)"

definition copy_typed_payload :: "env \<Rightarrow> c_type \<Rightarrow> packet_view option \<Rightarrow> nat option \<Rightarrow> (i32 \<times> bytes) option" where
  "copy_typed_payload E c pkt dst =
     (case pkt of
        None \<Rightarrow> Some (result_code SEDS_BAD_ARG, [])
      | Some v \<Rightarrow>
          if \<not> valid_type E (v_ty v) \<or> data_type (kTypeInfo E ! unat (v_ty v)) \<noteq> PayloadElementType c
          then Some (result_code SEDS_TYPE_MISMATCH, [])
          else
            let need = v_payload_len v div sizeof c in
            if dst = None \<or> the dst < need then Some (length_code need, [])
            else map_option (\<lambda>bs. (length_code need, copied c bs)) (copy_payload v (need * sizeof c)))"

definition seds_pkt_get :: "env \<Rightarrow> c_type \<Rightarrow> packet_view option \<Rightarrow> nat option \<Rightarrow> (i32 \<times> bytes) option" where
  "seds_pkt_get = copy_typed_payload"

text \<open>The element kind is not used.\<close>

definition seds_pkt_get_typed :: "packet_view option \<Rightarrow> nat option \<Rightarrow> nat \<Rightarrow> (i32 \<times> bytes) option" where
  "seds_pkt_get_typed pkt out sz = seds_pkt_copy_data pkt sz out"

section \<open>The packet class\<close>

definition kInlineBytes :: nat where
  "kInlineBytes = 64"

record small_payload =
  sp_size :: nat
  using_heap :: bool
  inline_bytes :: bytes
  heap_bytes :: bytes

definition SmallPayload_init :: small_payload where
  "SmallPayload_init = \<lparr>sp_size = 0, using_heap = False, inline_bytes = replicate kInlineBytes 0, heap_bytes = []\<rparr>"

definition sp_assign :: "bytes \<Rightarrow> small_payload \<Rightarrow> small_payload" where
  "sp_assign bs s =
     (if length bs \<le> length (inline_bytes s) then
        s\<lparr>sp_size := length bs, inline_bytes := bs @ drop (length bs) (inline_bytes s), heap_bytes := [], using_heap := False\<rparr>
      else s\<lparr>sp_size := length bs, heap_bytes := bs, using_heap := True\<rparr>)"

definition sp_bytes :: "small_payload \<Rightarrow> bytes" where
  "sp_bytes s = (if using_heap s then heap_bytes s else take (sp_size s) (inline_bytes s))"

record packet_object =
  po_ty :: u32
  po_endpoints :: "u32 list"
  po_sender :: string
  po_timestamp :: u64
  po_payload :: small_payload

text \<open>The exceptions: \<open>std::invalid_argument\<close> with either message.\<close>

datatype packet_exception = Invalid_Packet | Invalid_Packet_View

definition new_Packet ::
    "env \<Rightarrow> u32 \<Rightarrow> u32 list \<Rightarrow> string \<Rightarrow> u64 \<Rightarrow> bytes \<Rightarrow> packet_exception + packet_object" where
  "new_Packet E t eps from ts bs =
     (let pl = sp_assign bs SmallPayload_init in
      if \<not> valid_type E t \<or> eps = [] \<or> \<not> validate_payload E t (sp_size pl) then Inl Invalid_Packet
      else Inr \<lparr>po_ty = t, po_endpoints = eps, po_sender = from, po_timestamp = ts, po_payload = pl\<rparr>)"

definition Packet_from_view :: "env \<Rightarrow> packet_view \<Rightarrow> (packet_exception + packet_object) option" where
  "Packet_from_view E view =
     map_option (\<lambda>p. case p of
         None \<Rightarrow> Inl Invalid_Packet_View
       | Some pkt \<Rightarrow> new_Packet E (ty pkt) (endpoints pkt) (sender pkt) (timestamp pkt) (payload pkt))
       (packet_from_view E (Some view))"

definition Packet_deserialize :: "env \<Rightarrow> bytes \<Rightarrow> (packet_exception + packet_object option) option" where
  "Packet_deserialize E bs =
     map_option (\<lambda>p. case p of
         None \<Rightarrow> Inr None
       | Some pkt \<Rightarrow>
           (case new_Packet E (ty pkt) (endpoints pkt) (sender pkt) (timestamp pkt) (payload pkt) of
              Inl e \<Rightarrow> Inl e
            | Inr po \<Rightarrow> Inr (Some po)))
       (deserialize_packet E bs)"

definition Packet_from_f32_slice ::
    "env \<Rightarrow> u32 \<Rightarrow> u32 list \<Rightarrow> u32 list \<Rightarrow> u64 \<Rightarrow> string option \<Rightarrow> packet_exception + packet_object" where
  "Packet_from_f32_slice E t values eps ts from =
     new_Packet E t eps (case from of Some s \<Rightarrow> s | None \<Rightarrow> device_identifier E) ts (concat (map (le_bytes 4) values))"

definition Packet_view :: "packet_object \<Rightarrow> packet_view" where
  "Packet_view po =
     \<lparr>v_ty = po_ty po, v_data_size = sp_size (po_payload po), v_sender = Some (po_sender po @ [CHR 0x00]),
      v_sender_len = length (po_sender po), v_endpoints = Some (po_endpoints po), v_num_endpoints = length (po_endpoints po),
      v_timestamp = po_timestamp po, v_payload = Some (sp_bytes (po_payload po)), v_payload_len = sp_size (po_payload po)\<rparr>"

definition Packet_data :: "packet_object \<Rightarrow> packet" where
  "Packet_data po =
     \<lparr>ty = po_ty po, sender = po_sender po, endpoints = po_endpoints po, timestamp = po_timestamp po,
      payload = sp_bytes (po_payload po)\<rparr>"

definition Packet_serialize :: "env \<Rightarrow> packet_object \<Rightarrow> bytes" where
  "Packet_serialize E po = serialize_packet E (Packet_data po)"

definition Packet_header_string :: "env \<Rightarrow> packet_object \<Rightarrow> string option" where
  "Packet_header_string E po = packet_header_string E (Packet_view po)"

definition Packet_to_string :: "env \<Rightarrow> packet_object \<Rightarrow> string option" where
  "Packet_to_string E po = packet_to_string E (Packet_view po)"

end
