(* ===== verification/Packet_Facts.thy ===== *)
theory Packet_Facts
  imports Packet_Access Wire_Facts Timesync_Facts
begin

text \<open>
  Texts determine the times they show, typed reads return what was stored and refuse other types,
  and the packet class agrees with the C functions except where its decoder throws.
\<close>

section \<open>Digits and fields\<close>

lemma is_digit_digit_char: "d < 10 \<Longrightarrow> is_digit (digit_char d)"
  by (simp add: is_digit_def less_eq_char_def)

lemma digits_to_string: "list_all is_digit (to_string n)"
proof (induction n rule: to_string.induct)
  case (1 n)
  then show ?case
    using is_digit_digit_char [of n] is_digit_digit_char [of "n mod 10"]
    by (subst to_string.simps) (simp del: digit_char.simps)
qed

lemma digits_setw: "list_all is_digit s \<Longrightarrow> list_all is_digit (setw n s)"
  by (auto simp: setw_def list_all_iff is_digit_def)

lemma digits_value_zeros: "digits_value (replicate k (CHR ''0'') @ s) = digits_value s"
  by (induction k) (simp_all add: digits_value_def)

lemma setw_eq [simp]: "setw n (to_string a) = setw n (to_string b) \<longleftrightarrow> a = b"
  unfolding setw_def by (metis digits_value_zeros digits_value_to_string)

text \<open>Fields of digits that end at a character that is none are equal one by one.\<close>

lemma cut_eq:
  "list_all is_digit xs \<Longrightarrow> list_all is_digit ys \<Longrightarrow> \<not> is_digit c \<Longrightarrow> \<not> is_digit d \<Longrightarrow>
   xs @ c # r = ys @ d # r' \<longleftrightarrow> xs = ys \<and> c = d \<and> r = r'"
proof (induction xs arbitrary: ys)
  case Nil
  then show ?case by (cases ys) auto
next
  case (Cons x xs)
  then show ?case by (cases ys) auto
qed

lemma plain_field_eq [simp]:
  assumes "\<not> is_digit c" "\<not> is_digit d"
  shows "to_string a @ c # r = to_string b @ d # r' \<longleftrightarrow> a = b \<and> c = d \<and> r = r'"
  using cut_eq [OF digits_to_string digits_to_string assms] by simp

lemma filled_field_eq [simp]:
  assumes "\<not> is_digit c" "\<not> is_digit d"
  shows "setw n (to_string a) @ c # r = setw n (to_string b) @ d # r' \<longleftrightarrow> a = b \<and> c = d \<and> r = r'"
  using cut_eq [OF digits_setw [OF digits_to_string] digits_setw [OF digits_to_string] assms] by simp

lemma plain_filled_eq [simp]:
  assumes "\<not> is_digit c" "\<not> is_digit d"
  shows "to_string a @ c # r = setw n (to_string b) @ d # r' \<longleftrightarrow> to_string a = setw n (to_string b) \<and> c = d \<and> r = r'"
  by (rule cut_eq [OF digits_to_string digits_setw [OF digits_to_string] assms])

lemma filled_plain_eq [simp]:
  assumes "\<not> is_digit c" "\<not> is_digit d"
  shows "setw n (to_string a) @ c # r = to_string b @ d # r' \<longleftrightarrow> setw n (to_string a) = to_string b \<and> c = d \<and> r = r'"
  by (rule cut_eq [OF digits_setw [OF digits_to_string] digits_to_string assms])

section \<open>Times\<close>

lemma civil_from_days_split: "civil_from_days = split_days"
  by (rule ext) (simp only: civil_from_days_def split_days_def Let_def)

lemma split_days_year:
  assumes "0 \<le> days" "split_days days = (year, month, day)"
  shows "0 \<le> year"
proof -
  define z where "z = days + 719468"
  define doe where "doe = z - z div 146097 * 146097"
  have z: "0 \<le> z" using assms(1) by (simp add: z_def)
  have doe: "0 \<le> doe" by (simp add: doe_def minus_div_mult_eq_mod)
  have "doe div 1460 \<le> doe div 1" "doe div 146096 \<le> doe div 36524"
    using doe by (intro zdiv_mono2; simp)+
  then have "0 \<le> (doe - doe div 1460 + doe div 36524 - doe div 146096) div 365" by simp
  moreover have sd: "(if 0 \<le> z then z else z - 146096) sdiv 146097 = z div 146097" by (rule sdiv_floor) simp_all
  moreover have "0 \<le> z div 146097" using z by simp
  moreover have "year = (doe - doe div 1460 + doe div 36524 - doe div 146096) div 365 + z div 146097 * 400 + (if month \<le> 2 then 1 else 0)"
    using assms(2) unfolding split_days_def Let_def z_def [symmetric] sd doe_def [symmetric] prod.inject by blast
  ultimately show ?thesis by simp
qed

text \<open>The layout of a calendar time.\<close>

definition calendar_text :: "network_time \<Rightarrow> string" where
  "calendar_text t =
     setw 4 (to_string (nat (nt_year t))) @ CHR ''-'' # setw 2 (to_string (nat (nt_month t))) @ CHR ''-'' #
     setw 2 (to_string (nat (nt_day t))) @ CHR '' '' # setw 2 (to_string (nat (nt_hour t))) @ CHR '':'' #
     setw 2 (to_string (nat (nt_minute t))) @ CHR '':'' # setw 2 (to_string (nat (nt_second t))) @ CHR ''.'' #
     setw 3 (to_string (nat (nt_nanosecond t div 1000000))) @ [CHR ''Z'']"

definition time_in_range :: "network_time \<Rightarrow> bool" where
  "time_in_range t \<longleftrightarrow> 0 \<le> nt_year t \<and> 0 \<le> nt_month t \<and> 0 \<le> nt_day t \<and> 0 \<le> nt_hour t \<and> 0 \<le> nt_minute t \<and>
     0 \<le> nt_second t \<and> 0 \<le> nt_nanosecond t \<and> 1000000 dvd nt_nanosecond t"

lemma int_text_nonneg: "0 \<le> i \<Longrightarrow> int_text i = to_string (nat i)"
  by (simp add: int_text_def)

lemma split_in_range: "time_in_range (split_unix_ms ms)"
proof -
  obtain year month day where s: "split_days (uint (ms div 1000 div 86400)) = (year, month, day)"
    by (cases "split_days (uint (ms div 1000 div 86400))")
  show ?thesis
    using split_days_year [OF _ s] split_days_correct [OF _ s]
    by (simp add: split_unix_ms_def Let_def s time_in_range_def pos_imp_zdiv_nonneg_iff)
qed

lemma format_epoch_calendar: "format_epoch_ms ms = calendar_text (split_unix_ms ms)"
proof -
  obtain year month day where s: "split_days (uint (ms div 1000 div 86400)) = (year, month, day)"
    by (cases "split_days (uint (ms div 1000 div 86400))")
  show ?thesis
    using split_in_range [of ms]
    by (simp add: format_epoch_ms_def split_unix_ms_def Let_def civil_from_days_split s calendar_text_def
        time_in_range_def int_text_nonneg)
qed

lemma calendar_text_inj:
  assumes "calendar_text t = calendar_text u" "time_in_range t" "time_in_range u"
  shows "t = u"
  using assms
  by (cases t; cases u) (auto simp: calendar_text_def is_digit_def time_in_range_def eq_nat_nat_iff nat_eq_iff elim!: dvdE)

lemma ms_of_parts:
  fixes n :: nat
  shows "n div 3600000 * 3600000 + n mod 3600000 div 60000 * 60000 + n mod 60000 div 1000 * 1000 + n mod 1000 = n"
proof -
  have "n mod 3600000 mod 60000 = n mod 60000" "n mod 60000 mod 1000 = n mod 1000" by (simp_all add: mod_mod_cancel)
  then show ?thesis
    using div_mult_mod_eq [of n 3600000] div_mult_mod_eq [of "n mod 3600000" 60000] div_mult_mod_eq [of "n mod 60000" 1000]
    by linarith
qed

lemma same_parts:
  fixes a b :: u64
  assumes "a div 3600000 = b div 3600000" "a mod 3600000 div 60000 = b mod 3600000 div 60000"
    "a mod 60000 div 1000 = b mod 60000 div 1000" "a mod 1000 = b mod 1000"
  shows "a = b"
proof -
  have "unat a div 3600000 = unat b div 3600000" "unat a mod 3600000 div 60000 = unat b mod 3600000 div 60000"
    "unat a mod 60000 div 1000 = unat b mod 60000 div 1000" "unat a mod 1000 = unat b mod 1000"
    using assms [THEN arg_cong, of unat] by (simp_all add: unat_div unat_mod)
  then have "unat a = unat b" using ms_of_parts [of "unat a"] ms_of_parts [of "unat b"] by metis
  then show ?thesis by (simp only: word_unat_eq_iff)
qed

text \<open>The four layouts of a time, by the character behind the first number.\<close>

definition time_fields :: "u64 \<Rightarrow> string" where
  "time_fields ms =
     (let rest = setw 3 (to_string (unat (ms mod 1000))) @ ''ms''; s = unat (ms mod 60000 div 1000);
          m = unat (ms mod 3600000 div 60000); h = unat (ms div 3600000)
      in if kEpochMsThreshold \<le> ms then calendar_text (split_unix_ms ms)
         else if 0 < ms div 3600000 then to_string h @ CHR ''h'' # CHR '' '' # setw 2 (to_string m) @ CHR ''m'' # CHR '' '' #
           setw 2 (to_string s) @ CHR ''s'' # CHR '' '' # rest
         else if 0 < ms mod 3600000 div 60000 then to_string m @ CHR ''m'' # CHR '' '' # setw 2 (to_string s) @ CHR ''s'' # CHR '' '' # rest
         else to_string s @ CHR ''s'' # CHR '' '' # rest)"

lemma human_time_fields: "human_time ms = time_fields ms"
  by (simp add: human_time_def time_fields_def Let_def format_epoch_calendar)

text \<open>
  A time text determines the time: two packets are rendered with the same time text only if their
  time stamps are equal, whether they count from the start of the system or of the epoch.
\<close>

theorem human_time_unique: "human_time a = human_time b \<longleftrightarrow> a = b"
proof
  assume eq: "human_time a = human_time b"
  show "a = b"
  proof (cases "kEpochMsThreshold \<le> a \<and> kEpochMsThreshold \<le> b")
    case True
    with eq have "calendar_text (split_unix_ms a) = calendar_text (split_unix_ms b)"
      by (simp add: human_time_fields time_fields_def)
    then have "split_unix_ms a = split_unix_ms b" by (rule calendar_text_inj [OF _ split_in_range split_in_range])
    with network_time_of_split [of a] network_time_of_split [of b] show ?thesis by (metis option.inject)
  next
    case False
    note eq' = eq [unfolded human_time_fields time_fields_def Let_def calendar_text_def]
    have "a div 3600000 = b div 3600000 \<and> a mod 3600000 div 60000 = b mod 3600000 div 60000 \<and>
        a mod 60000 div 1000 = b mod 60000 div 1000 \<and> a mod 1000 = b mod 1000"
      using False eq' by (simp add: is_digit_def word_gt_0 word_unat_eq_iff [symmetric] split: if_splits)
    then show ?thesis by (blast intro: same_parts)
  qed
qed simp

section \<open>Typed reads\<close>

lemma PayloadElementType_inj: "PayloadElementType c = PayloadElementType d \<longleftrightarrow> c = d"
  by (cases c; cases d; simp add: PayloadElementType_def)

lemma sizeof_pos: "0 < sizeof c"
  by (cases c) (simp_all add: sizeof_def)

lemma length_code_small: "n < 2 ^ 31 \<Longrightarrow> length_code n = int n"
  by (simp add: length_code_def signed_of_nat signed_take_bit_int_eq_self)

lemma length_code_nonneg:
  assumes "len = length_code n" "0 \<le> len" "n < 2 ^ 32"
  shows "len = int n"
proof (cases "n < 2 ^ 31")
  case False
  have "int n div 2147483648 = 1" using False assms(3) by (intro int_div_pos_eq [where r = "int n - 2147483648"]) simp_all
  then have "signed_take_bit 31 (int n) = int n - 2 ^ 32"
    using False assms(3) by (simp add: signed_take_bit_eq_take_bit_minus take_bit_int_eq_self bit_iff_odd)
  then show ?thesis using assms by (simp add: length_code_def signed_of_nat)
qed (simp add: assms(1) length_code_small)

lemma chunks_concat:
  assumes "0 < w" "list_all (\<lambda>b. length b = w) bss"
  shows "chunks w (concat bss) = bss"
  using assms(2) by (induction bss) (simp_all add: chunks.simps [of w] assms(1))

lemma length_concat_same: "list_all (\<lambda>b. length b = w) bss \<Longrightarrow> length (concat bss) = length bss * w"
  by (induction bss) simp_all

lemma copy_payload_fill: "n \<le> length (payload pkt) \<Longrightarrow> copy_payload (fill_view pkt) n = Some (take n (payload pkt))"
  by (simp add: copy_payload_def fill_view_def read_ptr_def)

text \<open>An element of a payload as its reader gets it: a boolean is 1 unless its byte is 0.\<close>

definition element_read :: "c_type \<Rightarrow> bytes \<Rightarrow> bytes" where
  "element_read c b = (if c = C_bool then (if b = [0] then [0] else [1]) else b)"

lemma copied_concat: "list_all (\<lambda>b. length b = sizeof c) elems \<Longrightarrow> copied c (concat elems) = concat (map (element_read c) elems)"
proof (induction elems)
  case (Cons b elems)
  have "copied c b = element_read c b" if "c = C_bool"
  proof -
    from that have "sizeof c = 1" by (simp add: sizeof_def)
    then obtain x where "b = [x]" using Cons.prems by (cases b) auto
    then show ?thesis using that by (simp add: copied_def element_read_def)
  qed
  then show ?case using Cons by (cases "c = C_bool") (simp_all add: copied_def element_read_def)
qed (simp add: copied_def)

lemma length_element_read: "length b = sizeof c \<Longrightarrow> length (element_read c b) = sizeof c"
  by (simp add: element_read_def sizeof_def)

text \<open>
  (C19) Typed reads. A packet whose payload holds elements of its declared type, booleans included, is read
  back by the access function of that type: the count and all elements, where every boolean byte
  other than 0 becomes 1. A buffer that is too small is told the count and is not written. The
  access function of every other C type reports a type mismatch and copies nothing.
\<close>

theorem typed_read:
  assumes "valid_type E (ty pkt)" "data_type (kTypeInfo E ! unat (ty pkt)) = PayloadElementType c"
    and "payload pkt = concat elems" "list_all (\<lambda>b. length b = sizeof c) elems"
    and "length elems < 2 ^ 31" "d \<noteq> c"
  shows "seds_pkt_get E c (Some (fill_view pkt)) (Some n) =
      Some (int (length elems), if length elems \<le> n then concat (map (element_read c) elems) else []) \<and>
    chunks (sizeof c) (concat (map (element_read c) elems)) = map (element_read c) elems \<and>
    seds_pkt_get E d (Some (fill_view pkt)) (Some n) = Some (result_code SEDS_TYPE_MISMATCH, [])"
proof (intro conjI)
  have l: "length (payload pkt) = length elems * sizeof c" using assms(3,4) by (simp add: length_concat_same)
  then have d: "length (payload pkt) div sizeof c = length elems" using sizeof_pos [of c] by simp
  show "seds_pkt_get E c (Some (fill_view pkt)) (Some n) =
      Some (int (length elems), if length elems \<le> n then concat (map (element_read c) elems) else [])"
    using assms(1-5) d l copy_payload_fill [of "length elems * sizeof c" pkt] copied_concat [OF assms(4)]
    by (simp add: seds_pkt_get_def copy_typed_payload_def Let_def length_code_small fill_view_def [of pkt])
  show "chunks (sizeof c) (concat (map (element_read c) elems)) = map (element_read c) elems"
    using assms(4) by (intro chunks_concat sizeof_pos) (auto simp: list_all_iff length_element_read)
  have "data_type (kTypeInfo E ! unat (ty pkt)) \<noteq> PayloadElementType d" using assms(2,6) by (simp add: PayloadElementType_inj)
  then show "seds_pkt_get E d (Some (fill_view pkt)) (Some n) = Some (result_code SEDS_TYPE_MISMATCH, [])"
    by (simp add: seds_pkt_get_def copy_typed_payload_def fill_view_def)
qed

text \<open>The sample schema with a sensor type of booleans.\<close>

definition bool_env :: env where
  "bool_env = sample_env\<lparr>kTypeInfo := (kTypeInfo sample_env)[unat GPS := (type_at sample_env GPS)\<lparr>data_type := Bool\<rparr>]\<rparr>"

theorem typed_read_witness:
  "seds_pkt_get sample_env C_u8 (Some (fill_view gps_packet)) (Some 4) = Some (3, [1, 2, 3]) \<and>
   seds_pkt_get sample_env C_i8 (Some (fill_view gps_packet)) (Some 4) = Some (result_code SEDS_TYPE_MISMATCH, []) \<and>
   seds_pkt_get bool_env C_bool (Some (fill_view gps_packet)) (Some 4) = Some (3, [1, 1, 1]) \<and>
   seds_pkt_get bool_env C_bool (Some (fill_view gps_packet)) (Some 2) = Some (3, [])"
proof -
  have 1: "data_type (kTypeInfo sample_env ! unat (ty gps_packet)) = PayloadElementType C_u8"
    by (simp add: sample_defs gps_packet_def PayloadElementType_def)
  have 2: "valid_type sample_env (ty gps_packet)" "payload gps_packet = concat [[1], [2], [3]]" by (simp_all add: gps_packet_def)
  have 3: "data_type (kTypeInfo bool_env ! unat (ty gps_packet)) = PayloadElementType C_bool"
    by (simp add: bool_env_def sample_defs gps_packet_def PayloadElementType_def)
  have 4: "valid_type bool_env (ty gps_packet)"
    by (simp add: bool_env_def sample_defs gps_packet_def valid_type_def type_at_def)
  from typed_read [OF 2(1) 1 2(2), of C_i8 4] typed_read [OF 4 3 2(2), of C_i8 4] typed_read [OF 4 3 2(2), of C_i8 2]
  show ?thesis by (simp add: sizeof_def element_read_def)
qed

section \<open>Text buffers\<close>

lemma packet_text_total: "\<exists>text. packet_to_string E (fill_view pkt) = Some text"
  by (simp add: packet_to_string_def packet_header_string_def payload_to_string_def view_payload_def fill_view_def
      read_ptr_def Let_def)

text \<open>
  (C23) Text buffers. Rendering a packet never reads outside its memory, and for a registered type
  \<open>seds_pkt_to_string_len\<close> is exactly the size from which on \<open>seds_pkt_to_string\<close> accepts a buffer: it then
  holds the text and a terminating zero, and is untouched otherwise.
\<close>

theorem text_buffer_exact:
  assumes "valid_type E (ty pkt)"
    and "seds_pkt_to_string_len E (Some (fill_view pkt)) = Some len" "0 \<le> len" "length (the (packet_to_string E (fill_view pkt))) < 2 ^ 32 - 1"
  shows "\<exists>text. packet_to_string E (fill_view pkt) = Some text \<and> int (length text) + 1 = len \<and>
    seds_pkt_to_string E (Some (fill_view pkt)) (Some buf) n =
      Some (if len \<le> int n then (SEDS_OK, Some (text @ CHR 0x00 # drop (nat len) buf)) else (SEDS_ERR, Some buf))"
proof -
  from packet_text_total obtain out where t: "packet_to_string E (fill_view pkt) = Some out" by blast
  have v: "v_ty (fill_view pkt) = ty pkt" by (simp add: fill_view_def)
  have small: "length out + 1 < 2 ^ 32" using assms(4) t by simp
  have "len = length_code (length out + 1)"
    using assms(1,2) by (simp add: seds_pkt_to_string_len_def rendered_len_def v t length_code_def)
  then have "len = int (length out + 1)" using assms(3) small by (rule length_code_nonneg)
  then show ?thesis
    using assms(1) t by (auto simp: seds_pkt_to_string_def copy_rendered_def v copy_text_def nat_add_distrib)
qed

theorem text_buffer_exact_witness:
  "\<exists>out len. packet_to_string sample_env (fill_view gps_packet) = Some out \<and>
     seds_pkt_to_string_len sample_env (Some (fill_view gps_packet)) = Some len \<and> int (length out) + 1 = len \<and>
     seds_pkt_to_string sample_env (Some (fill_view gps_packet)) (Some []) 0 = Some (SEDS_ERR, Some [])"
proof -
  have "map_option length (packet_to_string sample_env (fill_view gps_packet)) = Some 115" by code_simp
  then obtain out where o: "packet_to_string sample_env (fill_view gps_packet) = Some out" "length out = 115" by auto
  have v: "valid_type sample_env (ty gps_packet)" "v_ty (fill_view gps_packet) = ty gps_packet"
    by (simp_all add: gps_packet_def fill_view_def)
  have l: "seds_pkt_to_string_len sample_env (Some (fill_view gps_packet)) = Some 116"
    using v o length_code_small [of 116] by (simp add: seds_pkt_to_string_len_def rendered_len_def length_code_def)
  from text_buffer_exact [OF v(1) l, of "[]" 0] l o show ?thesis by simp
qed

section \<open>The packet class\<close>

text \<open>The contents of a small payload are what was assigned last, inline or on the heap.\<close>

lemma sp_bytes_assign: "sp_bytes (sp_assign bs s) = bs"
  by (auto simp: sp_bytes_def sp_assign_def)

lemma sp_size_assign: "sp_size (sp_assign bs s) = length bs"
  by (simp add: sp_assign_def)

lemma new_Packet_cases:
  "new_Packet E t eps from ts bs =
     (if \<not> valid_type E t \<or> eps = [] \<or> \<not> validate_payload E t (length bs) then Inl Invalid_Packet
      else Inr \<lparr>po_ty = t, po_endpoints = eps, po_sender = from, po_timestamp = ts,
                po_payload = sp_assign bs SmallPayload_init\<rparr>)"
  by (simp add: new_Packet_def Let_def sp_size_assign)

lemma Packet_data_new:
  "new_Packet E t eps from ts bs = Inr po \<Longrightarrow>
     Packet_data po = \<lparr>ty = t, sender = from, endpoints = eps, timestamp = ts, payload = bs\<rparr> \<and>
     valid_type E t \<and> eps \<noteq> [] \<and> validate_payload E t (length bs)"
  by (auto simp: new_Packet_cases Packet_data_def sp_bytes_assign split: if_splits)

lemma Packet_view_new:
  "new_Packet E t eps from ts bs = Inr po \<Longrightarrow> Packet_view po = fill_view (Packet_data po)"
  by (auto simp: new_Packet_cases Packet_data_def Packet_view_def fill_view_def sp_bytes_assign sp_size_assign split: if_splits)

lemma deserialize_serialize:
  assumes "wire_ok E pkt" "zstd_inverts E" "\<not> is_link_ack pkt"
  shows "deserialize_packet E (serialize_packet E pkt) = Some (Some (wire_image E pkt))"
  unfolding serialize_packet_data [OF assms(3)]
  by (rule deserialize_serialize_with_reliable [OF assms(1,2)]) (simp add: data_header_def)

text \<open>
  A packet object survives its own encoding: an object that could be constructed is decoded by the
  class without an exception, to an object with the contents the receiver of its frame sees.
\<close>

theorem packet_object_roundtrip:
  assumes "new_Packet E t eps from ts bs = Inr po"
    and "wire_ok E (Packet_data po)" "zstd_inverts E" "\<not> is_link_ack (Packet_data po)"
  shows "\<exists>po'. Packet_deserialize E (Packet_serialize E po) = Some (Inr (Some po')) \<and>
    Packet_data po' = wire_image E (Packet_data po)"
proof -
  note d = Packet_data_new [OF assms(1)]
  have "sort_key (wire_bit_of E) eps \<noteq> []" using d by (metis length_0_conv length_sort)
  with d have "new_Packet E t (sort_key (wire_bit_of E) eps) (address_sender (ucast (sender_address_u32 from))) ts bs =
      Inr \<lparr>po_ty = t, po_endpoints = sort_key (wire_bit_of E) eps, po_sender = address_sender (ucast (sender_address_u32 from)),
           po_timestamp = ts, po_payload = sp_assign bs SmallPayload_init\<rparr>" (is "_ = Inr ?po'")
    by (simp add: new_Packet_cases)
  then have "Packet_deserialize E (Packet_serialize E po) = Some (Inr (Some ?po'))"
    unfolding Packet_deserialize_def Packet_serialize_def deserialize_serialize [OF assms(2-4)]
    using d by (simp add: wire_image_def)
  moreover have "Packet_data ?po' = wire_image E (Packet_data po)"
    using d by (simp add: Packet_data_def [of ?po'] sp_bytes_assign wire_image_def)
  ultimately show ?thesis by blast
qed

lemma gps_size: "validate_payload sample_env GPS n \<longleftrightarrow> n = 3"
proof -
  have "\<not> dynamic (type_at sample_env GPS)" "elem_size (type_at sample_env GPS) * static_count (type_at sample_env GPS) = 3"
    by (simp_all add: type_at_def sample_defs)
  then show ?thesis by (simp add: validate_payload_def Let_def)
qed

theorem packet_object_roundtrip_witness:
  "\<exists>po po'. new_Packet sample_env GPS [1, 0] ''ROCKET'' 1000 [1, 2, 3] = Inr po \<and>
     Packet_deserialize sample_env (Packet_serialize sample_env po) = Some (Inr (Some po')) \<and>
     Packet_data po' = wire_image sample_env gps_packet"
proof -
  obtain po where 1: "new_Packet sample_env GPS [1, 0] ''ROCKET'' 1000 [1, 2, 3] = Inr po"
    by (simp add: new_Packet_cases gps_size)
  have 2: "Packet_data po = gps_packet" using Packet_data_new [OF 1] by (simp add: gps_packet_def)
  have "\<not> is_link_ack gps_packet" by (simp add: is_link_ack_def gps_packet_def)
  from packet_object_roundtrip [OF 1, unfolded 2, OF wire_ok_samples(1) zstd_inverts_sample this] 1 show ?thesis by blast
qed

text \<open>
  The decoder of the class throws. A frame whose checksum is right but whose payload has a size that
  its type does not allow is valid for \<open>seds_pkt_validate_serialized\<close>, but \<open>Packet::deserialize\<close>, whose
  result is optional, raises the exception of the constructor.
\<close>

theorem packet_decode_throws:
  assumes "wire_ok E pkt" "zstd_inverts E" "\<not> is_link_ack pkt" "\<not> validate_payload E (ty pkt) (length (payload pkt))"
  shows "Packet_deserialize E (serialize_packet E pkt) = Some (Inl Invalid_Packet) \<and>
    seds_pkt_validate_serialized E (serialize_packet E pkt) = Some SEDS_OK"
  using assms(4)
  by (simp add: Packet_deserialize_def seds_pkt_validate_serialized_def deserialize_serialize [OF assms(1-3)]
      wire_image_def new_Packet_cases)

theorem packet_decode_throws_witness:
  "Packet_deserialize sample_env (serialize_packet sample_env (gps_packet\<lparr>payload := [1, 2]\<rparr>)) = Some (Inl Invalid_Packet) \<and>
   seds_pkt_validate_serialized sample_env (serialize_packet sample_env (gps_packet\<lparr>payload := [1, 2]\<rparr>)) = Some SEDS_OK"
proof (rule packet_decode_throws [OF _ zstd_inverts_sample])
  show "wire_ok sample_env (gps_packet\<lparr>payload := [1, 2]\<rparr>)" using wire_ok_samples(1) by (simp add: wire_ok_def)
  show "\<not> validate_payload sample_env (ty (gps_packet\<lparr>payload := [1, 2]\<rparr>)) (length (payload (gps_packet\<lparr>payload := [1, 2]\<rparr>)))"
    by (simp add: gps_size gps_packet_def)
qed (simp add: is_link_ack_def gps_packet_def)

text \<open>
  (C11) Header and packet agree. Whenever the whole frame is decoded, reading only its header gives the same
  packet without its payload.
\<close>

theorem header_agrees_with_packet:
  assumes "seds_pkt_deserialize_owned E bs = Some (Some pkt)"
  shows "seds_pkt_deserialize_header_owned E bs = Some (Some (pkt\<lparr>payload := []\<rparr>))"
proof -
  from assms obtain info where "peek_frame_info E bs True = Some (Some info)" "envelope info = envelope_of pkt"
    using peek_of_deserialize [of E bs pkt True] by (auto simp: seds_pkt_deserialize_owned_def)
  then show ?thesis by (simp add: seds_pkt_deserialize_header_owned_def envelope_of_def)
qed

theorem header_agrees_with_packet_witness:
  "seds_pkt_deserialize_header_owned sample_env (serialize_packet sample_env gps_packet) =
     Some (Some (wire_image sample_env gps_packet\<lparr>payload := []\<rparr>))"
proof (rule header_agrees_with_packet)
  have "\<not> is_link_ack gps_packet" by (simp add: is_link_ack_def gps_packet_def)
  from deserialize_serialize [OF wire_ok_samples(1) zstd_inverts_sample this]
  show "seds_pkt_deserialize_owned sample_env (serialize_packet sample_env gps_packet) = Some (Some (wire_image sample_env gps_packet))"
    by (simp add: seds_pkt_deserialize_owned_def)
qed

end
