(* ===== verification/Export_Facts.thy ===== *)
theory Export_Facts
  imports Export Schema_Json_Facts Packet_Facts Discovery_Facts
begin

text \<open>
  What the exported texts denote. A document is a tree, and the grammar of JSON (RFC 8259) says which
  texts denote it, with its own rules for strings and numbers. The topology, client and memory
  exports are texts of documents that hold what they report, whatever names contain. The runtime
  statistics are not: they leave an array open.
\<close>

section \<open>Documents\<close>

datatype json = J_null | J_bool bool | J_num int | J_str string | J_arr "json list" | J_obj "(string \<times> json) list"

subsection \<open>The grammar\<close>

definition hex_value :: "char \<Rightarrow> nat option" where
  "hex_value c =
     (if c \<in> set ''0123456789'' then Some (of_char c - 48)
      else if c \<in> set ''abcdef'' then Some (of_char c - 87)
      else if c \<in> set ''ABCDEF'' then Some (of_char c - 55)
      else None)"

text \<open>The letters of the two-character escapes with the characters they stand for.\<close>

definition short_escapes :: "(char \<times> char) list" where
  "short_escapes = [(quote, quote), (backslash, backslash), (CHR ''/'', CHR ''/''), (CHR ''b'', CHR 0x08),
     (CHR ''f'', CHR 0x0C), (CHR ''n'', CHR 0x0A), (CHR ''r'', CHR 0x0D), (CHR ''t'', CHR 0x09)]"

text \<open>
  The spellings of a string between its quotes. Characters are bytes: those from 128 on belong to
  an UTF-8 sequence and stand for themselves, and the four digits of an escape are used for ASCII.
  Quotes, backslashes and characters below 32 are never written as they are.
\<close>

inductive json_chars :: "string \<Rightarrow> string \<Rightarrow> bool" where
  no_chars: "json_chars [] []"
| unescaped: "32 \<le> (of_char c :: nat) \<Longrightarrow> c \<noteq> quote \<Longrightarrow> c \<noteq> backslash \<Longrightarrow> json_chars s t \<Longrightarrow> json_chars (c # s) (c # t)"
| escaped: "(d, c) \<in> set short_escapes \<Longrightarrow> json_chars s t \<Longrightarrow> json_chars (c # s) (backslash # d # t)"
| four_digits: "map hex_value [d1, d2, d3, d4] = map Some [i, j, k, l] \<Longrightarrow> n = ((i * 16 + j) * 16 + k) * 16 + l \<Longrightarrow> n < 128 \<Longrightarrow>
    json_chars s t \<Longrightarrow> json_chars (char_of n # s) (backslash # CHR ''u'' # d1 # d2 # d3 # d4 # t)"

text \<open>The spellings of an integer: digits without leading zeros, and a sign if it is negative.\<close>

definition json_digits :: "nat \<Rightarrow> string \<Rightarrow> bool" where
  "json_digits n ds \<longleftrightarrow>
     ds \<noteq> [] \<and> list_all (\<lambda>c. c \<in> set ''0123456789'') ds \<and> (hd ds = CHR ''0'' \<longrightarrow> ds = ''0'') \<and> digits_value ds = n"

definition json_number :: "int \<Rightarrow> string \<Rightarrow> bool" where
  "json_number i t \<longleftrightarrow> (\<exists>n. json_digits n t \<and> i = int n \<or> (\<exists>ds. t = CHR ''-'' # ds \<and> json_digits n ds \<and> i = - int n))"

inductive json_doc :: "json \<Rightarrow> string \<Rightarrow> bool" where
  null: "json_doc J_null ''null''"
| true: "json_doc (J_bool True) ''true''"
| false: "json_doc (J_bool False) ''false''"
| number: "json_number i t \<Longrightarrow> json_doc (J_num i) t"
| string: "json_chars s t \<Longrightarrow> json_doc (J_str s) ([quote] @ t @ [quote])"
| array: "list_all2 json_doc xs ts \<Longrightarrow> json_doc (J_arr xs) (''['' @ separated '','' ts @ '']'')"
| object: "list_all2 json_chars (map fst ms) ks \<Longrightarrow> list_all2 json_doc (map snd ms) ts \<Longrightarrow>
    json_doc (J_obj ms) (''{'' @ separated '','' (map2 (\<lambda>k t. [quote] @ k @ [quote] @ '':'' @ t) ks ts) @ ''}'')"

subsection \<open>The text the exports choose\<close>

text \<open>Without spaces, with the escapes of the code.\<close>

primrec json_text :: "json \<Rightarrow> string" where
  "json_text J_null = ''null''"
| "json_text (J_bool b) = bool_json b"
| "json_text (J_num i) = int_text i"
| "json_text (J_str s) = json_push_escaped '''' s"
| "json_text (J_arr xs) = ''['' @ separated '','' (map json_text xs) @ '']''"
| "json_text (J_obj ms) =
     ''{'' @ separated '','' (map (\<lambda>(k, t). quoted k @ '':'' @ t) (map (map_prod (\<lambda>k. k) json_text) ms)) @ ''}''"

text \<open>Keys that need no escapes.\<close>

definition plain :: "string \<Rightarrow> bool" where
  "plain s \<longleftrightarrow> list_all (\<lambda>c. c \<noteq> quote \<and> c \<noteq> backslash) s"

primrec all_keys :: "(string \<Rightarrow> bool) \<Rightarrow> json \<Rightarrow> bool" where
  "all_keys P J_null = True"
| "all_keys P (J_bool b) = True"
| "all_keys P (J_num i) = True"
| "all_keys P (J_str s) = True"
| "all_keys P (J_arr xs) = list_all (\<lambda>b. b) (map (all_keys P) xs)"
| "all_keys P (J_obj ms) = list_all (\<lambda>(k, b). P k \<and> b) (map (map_prod (\<lambda>k. k) (all_keys P)) ms)"

abbreviation plain_keys :: "json \<Rightarrow> bool" where
  "plain_keys \<equiv> all_keys plain"

abbreviation nums :: "nat list \<Rightarrow> json" where
  "nums ns \<equiv> J_arr (map (\<lambda>n. J_num (int n)) ns)"

abbreviation strs :: "string list \<Rightarrow> json" where
  "strs ss \<equiv> J_arr (map J_str ss)"

subsection \<open>The chosen text is in the grammar\<close>

lemma json_digits_to_string: "json_digits n (to_string n)"
proof -
  have "to_string n \<noteq> [] \<and> list_all (\<lambda>c. c \<in> set ''0123456789'') (to_string n) \<and>
      (hd (to_string n) = CHR ''0'' \<longrightarrow> to_string n = ''0'')"
  proof (induction n rule: to_string.induct)
    case (1 n)
    have d: "digit_char d \<in> set ''0123456789'' \<and> (digit_char d = CHR ''0'' \<longrightarrow> d = 0)" if "d < 10" for d
    proof -
      have "list_all (\<lambda>d. digit_char d \<in> set ''0123456789'' \<and> (digit_char d = CHR ''0'' \<longrightarrow> d = 0)) [0..<10]" by code_simp
      with that show ?thesis by (simp add: list_all_iff del: digit_char.simps)
    qed
    show ?case
    proof (cases "n < 10")
      case True
      then have "to_string n = [digit_char n]" by (subst to_string.simps) simp
      with d [OF True] show ?thesis by (auto simp del: digit_char.simps)
    next
      case False
      then have t: "to_string n = to_string (n div 10) @ [digit_char (n mod 10)]" by (subst to_string.simps) simp
      have "to_string (n div 10) \<noteq> ''0''"
      proof
        assume "to_string (n div 10) = ''0''"
        then have "digits_value (to_string (n div 10)) = 0" by (simp add: digits_value_def)
        with False show False by simp
      qed
      with "1.IH" [OF False] d [of "n mod 10"] show ?thesis unfolding t by (simp del: digit_char.simps)
    qed
  qed
  then show ?thesis by (simp add: json_digits_def)
qed

lemma json_number_int_text: "json_number i (int_text i)"
proof (cases "i < 0")
  case True
  then show ?thesis
    using json_digits_to_string [of "nat (- i)"] unfolding json_number_def int_text_def by (intro exI [of _ "nat (- i)"]) simp
next
  case False
  then show ?thesis
    using json_digits_to_string [of "nat i"] unfolding json_number_def int_text_def by (intro exI [of _ "nat i"]) simp
qed

lemma hex_value_digit: "n < 16 \<Longrightarrow> hex_value (hex_digit n) = Some n"
proof -
  have "list_all (\<lambda>n. hex_value (hex_digit n) = Some n) [0..<16]" by code_simp
  then show "n < 16 \<Longrightarrow> hex_value (hex_digit n) = Some n" by (simp add: list_all_iff)
qed

lemma json_chars_escape: "json_chars s t \<Longrightarrow> json_chars (c # s) (escape_char c @ t)"
proof (cases "c \<in> {quote, backslash, CHR 0x08, CHR 0x0C, CHR 0x0A, CHR 0x0D, CHR 0x09}")
  case True
  then obtain d where "escape_char c = [backslash, d]" "(d, c) \<in> set short_escapes"
    by (auto simp: escape_char_def short_escapes_def)
  then show "json_chars s t \<Longrightarrow> ?thesis" by (simp add: json_chars.escaped)
next
  case False
  assume t: "json_chars s t"
  show ?thesis
  proof (cases "(of_char c :: nat) < 32")
    case True
    let ?n = "of_char c :: nat"
    have e: "escape_char c = [backslash, CHR ''u'', CHR ''0'', CHR ''0'', hex_digit (?n div 16), hex_digit (?n mod 16)]"
      using False True by (simp add: escape_char_def)
    have "hex_value CHR ''0'' = Some 0" by code_simp
    then have "map hex_value [CHR ''0'', CHR ''0'', hex_digit (?n div 16), hex_digit (?n mod 16)] =
        map Some [0, 0, ?n div 16, ?n mod 16]"
      using True by (simp add: hex_value_digit)
    moreover have "?n = ((0 * 16 + 0) * 16 + ?n div 16) * 16 + ?n mod 16" by simp
    moreover have "?n < 128" using True by simp
    ultimately have "json_chars (char_of ?n # s)
        (backslash # CHR ''u'' # CHR ''0'' # CHR ''0'' # hex_digit (?n div 16) # hex_digit (?n mod 16) # t)"
      using t by (rule json_chars.four_digits)
    then show ?thesis by (simp add: e)
  next
    case ge: False
    then show ?thesis using False t by (simp add: escape_char_def json_chars.unescaped)
  qed
qed

lemma json_chars_escaped: "json_chars s (escaped_text s)"
  by (induction s) (simp_all add: json_chars.no_chars json_chars_escape)

lemma json_chars_plain: "plain s \<and> list_all (\<lambda>c. 32 \<le> (of_char c :: nat)) s \<Longrightarrow> json_chars s s"
  by (induction s) (simp_all add: json_chars.no_chars json_chars.unescaped plain_def)

text \<open>Keys that are spelt as they are.\<close>

abbreviation spelt :: "string \<Rightarrow> bool" where
  "spelt k \<equiv> plain k \<and> list_all (\<lambda>c. 32 \<le> (of_char c :: nat)) k"

lemma json_text_doc: "all_keys spelt j \<Longrightarrow> json_doc j (json_text j)"
proof (induction j)
  case (J_bool b)
  then show ?case by (cases b) (simp_all add: bool_json_def json_doc.intros)
next
  case (J_num i)
  then show ?case by (simp add: json_doc.number json_number_int_text)
next
  case (J_str s)
  show ?case using json_doc.string [OF json_chars_escaped [of s]] by (simp add: json_push_escaped_def)
next
  case (J_arr xs)
  then have "list_all2 json_doc xs (map json_text xs)" by (auto simp: list_all2_conv_all_nth list_all_iff)
  then show ?case by (simp only: json_text.simps json_doc.array)
next
  case (J_obj ms)
  have keys: "list_all2 json_chars (map fst ms) (map fst ms)"
    unfolding list_all2_same using J_obj.prems json_chars_plain by (auto simp: list_all_iff)
  have "json_doc x (json_text x)" if "(k, x) \<in> set ms" for k x
    using J_obj that by (fastforce simp: list_all_iff)
  then have "list_all2 json_doc (map snd ms) (map (json_text \<circ> snd) ms)"
    by (auto simp: list_all2_conv_all_nth) (metis nth_mem prod.collapse)
  from json_doc.object [OF keys this] show ?case
    by (simp add: zip_map_map zip_same_conv_map comp_def case_prod_beta quoted_def)
qed (simp add: json_doc.null)

section \<open>Scanning\<close>

text \<open>The arrays a text opens but does not close, outside strings.\<close>

fun open_arrays :: "bool \<Rightarrow> bool \<Rightarrow> string \<Rightarrow> int" where
  "open_arrays in_string escaped [] = 0"
| "open_arrays in_string escaped (c # cs) =
     (if in_string then
        (if escaped then open_arrays True False cs
         else if c = backslash then open_arrays True True cs
         else if c = quote then open_arrays False False cs
         else open_arrays True False cs)
      else if c = quote then open_arrays True False cs
      else if c = CHR ''['' then open_arrays False False cs + 1
      else if c = CHR '']'' then open_arrays False False cs - 1
      else open_arrays False False cs)"

text \<open>A text that contains neither strings nor brackets.\<close>

definition neutral :: "string \<Rightarrow> bool" where
  "neutral s \<longleftrightarrow> list_all (\<lambda>c. c \<notin> {quote, CHR ''['', CHR '']'', CHR ''{'', CHR ''}''}) s"

lemma digits_neutral: "list_all is_digit s \<Longrightarrow> neutral s"
  by (auto simp: neutral_def list_all_iff is_digit_def)

lemma json_digits_neutral:
  assumes "json_digits n t"
  shows "neutral t"
proof -
  have "c \<notin> {quote, CHR ''['', CHR '']'', CHR ''{'', CHR ''}''}" if "c \<in> set ''0123456789''" for c
    using that by auto
  with assms show ?thesis unfolding json_digits_def neutral_def list_all_iff by blast
qed

lemma json_number_neutral: "json_number i t \<Longrightarrow> neutral t"
  using json_digits_neutral unfolding json_number_def by (elim exE disjE conjE) (simp_all add: neutral_def)

lemma hex_value_char: "hex_value c = Some n \<Longrightarrow> c \<noteq> quote \<and> c \<noteq> backslash"
  by (rule conjI; rule notI) (simp_all add: hex_value_def)

lemma int_text_neutral: "neutral (int_text i)"
  using digits_neutral [OF digits_to_string] by (auto simp: int_text_def neutral_def)

text \<open>
  A scanner reads a text from left to right and keeps apart what is inside and outside of strings;
  outside, it counts open objects and open arrays. What such a scanner computes passes over the text
  of a document.
\<close>

locale json_scanner =
  fixes outside inside :: "nat \<Rightarrow> int \<Rightarrow> int \<Rightarrow> string \<Rightarrow> 'r"
  assumes skip: "c \<notin> {quote, CHR ''['', CHR '']'', CHR ''{'', CHR ''}''} \<Longrightarrow> outside i d a (c # cs) = outside (Suc i) d a cs"
    and open_quote: "outside i d a (quote # cs) = inside (Suc i) d a cs"
    and close_quote: "inside i d a (quote # cs) = outside (Suc i) d a cs"
    and skip_inside: "c \<noteq> quote \<Longrightarrow> c \<noteq> backslash \<Longrightarrow> inside i d a (c # cs) = inside (Suc i) d a cs"
    and skip_escape: "inside i d a (backslash # c # cs) = inside (Suc (Suc i)) d a cs"
    and open_array: "outside i d a (CHR ''['' # cs) = outside (Suc i) d (a + 1) cs"
    and close_array: "outside i d a (CHR '']'' # cs) = outside (Suc i) d (a - 1) cs"
    and open_object: "1 \<le> d \<Longrightarrow> outside i d a (CHR ''{'' # cs) = outside (Suc i) (d + 1) a cs"
    and close_object: "2 \<le> d \<Longrightarrow> outside i d a (CHR ''}'' # cs) = outside (Suc i) (d - 1) a cs"
begin

definition passes :: "string \<Rightarrow> bool" where
  "passes s \<longleftrightarrow> (\<forall>i d a rest. 1 \<le> d \<longrightarrow> outside i d a (s @ rest) = outside (i + length s) d a rest)"

lemma passes_append: "passes s \<Longrightarrow> passes t \<Longrightarrow> passes (s @ t)"
  by (simp add: passes_def add.assoc)

lemma passes_neutral: "neutral s \<Longrightarrow> passes s"
proof (induction s)
  case (Cons c s)
  then show ?case by (simp add: passes_def neutral_def skip)
qed (simp add: passes_def)

lemma passes_separated: "passes sep \<Longrightarrow> list_all passes xs \<Longrightarrow> passes (separated sep xs)"
proof (induction sep xs rule: separated.induct)
  case (1 sep)
  then show ?case by (simp add: passes_def)
next
  case (3 sep x y ys)
  then have "passes (x @ sep @ separated sep (y # ys))" by (intro passes_append) simp_all
  then show ?case by simp
qed simp

lemma inside_escaped: "inside i d a (escaped_text s @ rest) = inside (i + length (escaped_text s)) d a rest"
proof (induction s arbitrary: i)
  case (Cons c s)
  show ?case
    by (cases c rule: escape_char_cases; simp add: Cons skip_inside skip_escape)
qed simp

lemma inside_plain: "plain s \<Longrightarrow> inside i d a (s @ rest) = inside (i + length s) d a rest"
proof (induction s arbitrary: i)
  case (Cons c s)
  then show ?case by (simp add: plain_def skip_inside)
qed simp

lemma passes_string: "passes (json_push_escaped '''' s)"
  by (simp add: passes_def json_push_escaped_Nil open_quote close_quote inside_escaped)

lemma passes_quoted: "plain k \<Longrightarrow> passes (quoted k)"
  by (simp add: passes_def quoted_def open_quote close_quote inside_plain)

lemma passes_array: "passes s \<Longrightarrow> passes (''['' @ s @ '']'')"
  by (simp add: passes_def open_array close_array)

lemma passes_object: "passes s \<Longrightarrow> passes (''{'' @ s @ ''}'')"
  by (simp add: passes_def open_object close_object)

lemma passes_member: "plain k \<Longrightarrow> passes t \<Longrightarrow> passes (quoted k @ '':'' @ t)"
  by (rule passes_append [OF passes_quoted passes_append [OF passes_neutral]]) (simp_all add: neutral_def)

lemma passes_members:
  assumes "list_all (\<lambda>(k, t). plain k \<and> passes t) ms"
  shows "passes (separated '','' (map (\<lambda>(k, t). quoted k @ '':'' @ t) ms))"
proof (rule passes_separated)
  show "list_all passes (map (\<lambda>(k, t). quoted k @ '':'' @ t) ms)"
    using assms passes_member by (fastforce simp: list_all_iff)
qed (simp add: passes_neutral neutral_def)

lemma passes_document: "plain_keys j \<Longrightarrow> passes (json_text j)"
proof (induction j)
  case (J_arr xs)
  have "passes (separated '','' (map json_text xs))"
    using J_arr by (intro passes_separated) (auto simp: list_all_iff passes_neutral neutral_def)
  then show ?case using passes_array by simp
next
  case (J_obj ms)
  have "list_all (\<lambda>(k, t). plain k \<and> passes t) (map (map_prod (\<lambda>k. k) json_text) ms)"
    using J_obj by (fastforce simp: list_all_iff)
  from passes_object [OF passes_members [OF this]] show ?case by simp
next
  case (J_num i)
  then show ?case using passes_neutral [OF int_text_neutral] by simp
next
  case (J_str s)
  then show ?case using passes_string by simp
next
  case J_null
  then show ?case by (simp add: passes_neutral neutral_def)
next
  case (J_bool b)
  then show ?case by (simp add: passes_neutral neutral_def bool_json_def)
qed

lemma inside_chars: "json_chars s t \<Longrightarrow> inside i d a (t @ rest) = inside (i + length t) d a rest"
  by (induction arbitrary: i rule: json_chars.induct) (auto simp: skip_inside skip_escape hex_value_char)

lemma passes_spelling: "json_chars s t \<Longrightarrow> passes ([quote] @ t @ [quote])"
  by (simp add: passes_def open_quote close_quote inside_chars)

lemma passes_doc: "json_doc j t \<Longrightarrow> passes t"
proof (induction rule: json_doc.induct)
  case (array xs ts)
  then have "list_all passes ts" by (auto simp: list_all2_conv_all_nth list_all_length)
  then show ?case by (intro passes_array passes_separated) (simp_all add: passes_neutral neutral_def)
next
  case (object ms ks ts)
  then have "passes ([quote] @ k @ [quote] @ '':'' @ t)" if "(k, t) \<in> set (zip ks ts)" for k t
  proof -
    from that obtain i where i: "i < length ks" "k = ks ! i" "t = ts ! i" by (auto simp: in_set_conv_nth)
    with object have "json_chars (map fst ms ! i) k" "passes t" by (simp_all add: list_all2_conv_all_nth)
    then have "passes (([quote] @ k @ [quote]) @ '':'' @ t)"
      by (intro passes_append passes_spelling) (simp_all add: passes_neutral neutral_def)
    then show ?thesis by simp
  qed
  then have "list_all passes (map2 (\<lambda>k t. [quote] @ k @ [quote] @ '':'' @ t) ks ts)" by (auto simp: list_all_iff)
  then show ?case by (intro passes_object passes_separated) (simp_all add: passes_neutral neutral_def)
next
  case (number i t)
  then show ?case by (intro passes_neutral json_number_neutral)
next
  case (string s t)
  then show ?case by (rule passes_spelling)
qed (simp_all add: passes_neutral neutral_def)

end

interpretation arrays: json_scanner "\<lambda>i d a cs. a + open_arrays False False cs" "\<lambda>i d a cs. a + open_arrays True False cs"
  by unfold_locales auto

interpretation objects: json_scanner
  "\<lambda>i d a cs. scan_objects array i d False False (Some b) cs" "\<lambda>i d a cs. scan_objects array i d True False (Some b) cs"
  for array b
  by unfold_locales auto

lemma open_arrays_document:
  "plain_keys j \<Longrightarrow> open_arrays False False (json_text j @ rest) = open_arrays False False rest"
  using arrays.passes_document [of j] by (auto simp: arrays.passes_def)

text \<open>The text of an object is one complete object for the scanner of the schema reader.\<close>

lemma one_object:
  assumes "plain_keys (J_obj ms)"
  shows "split_top_level_objects (json_text (J_obj ms)) = [json_text (J_obj ms)]"
proof -
  let ?ms = "map (map_prod (\<lambda>k. k) json_text) ms"
  let ?body = "separated '','' (map (\<lambda>(k, t). quoted k @ '':'' @ t) ?ms)"
  have *: "list_all (\<lambda>(k, t). plain k \<and> objects.passes array b t) ?ms" for array b
    using assms objects.passes_document by (fastforce simp: list_all_iff)
  have "scan_objects array (Suc 0) 1 False False (Some 0) (?body @ ''}'') =
      scan_objects array (Suc (length ?body)) 1 False False (Some 0) ''}''" for array
    using objects.passes_members [OF *, of array 0] by (simp add: objects.passes_def)
  then show ?thesis by (simp add: split_top_level_objects_def)
qed

section \<open>Writers\<close>

lemma push_escaped: "json_push_escaped out s = out @ json_text (J_str s)"
  by (simp add: json_push_escaped_def)

lemma json_items_separated: "json_items xs = separated '','' (map (json_push_escaped '''') xs)"
  by (induction xs rule: json_items.induct) simp_all

lemma push_strings: "json_push_string_array out ss = out @ json_text (strs ss)"
  by (simp add: json_push_string_array_def json_items_separated comp_def)

lemma push_numbers: "json_push_number_array out ns = out @ json_text (nums ns)"
  by (simp add: json_push_number_array_def comp_def int_text_def)

lemma push_all_separated:
  assumes "\<And>out x. push out x = out @ f x"
  shows "push_all push out xs = out @ separated '','' (map f xs)"
proof -
  have "push_more push out xs = out @ concat (map (\<lambda>x. '','' @ f x) xs)" for out xs
    by (induction xs arbitrary: out) (simp_all add: assms)
  moreover have "separated '','' (map f (x # xs)) = f x @ concat (map (\<lambda>x. '','' @ f x) xs)" for x xs
    by (induction xs arbitrary: x) simp_all
  ultimately show ?thesis by (cases xs) (simp_all add: assms)
qed

lemma number_text: "to_string n = json_text (J_num (int n))"
  by (simp add: int_text_def)

lemmas writers = push_escaped push_strings push_numbers

definition board_json :: "topology_board_node \<Rightarrow> json" where
  "board_json b = J_obj
     [(''sender_id'', J_str (sender_id b)), (''reachable_endpoints'', nums (map unat (reachable_endpoints b))),
      (''reachable_timesync_sources'', strs (reachable_timesync_sources b)), (''connections'', strs (connections b))]"

definition announcer_json :: "announcer_route \<Rightarrow> json" where
  "announcer_json a = J_obj
     [(''sender_id'', J_str (ar_sender_id a)), (''reachable_endpoints'', nums (map unat (ar_endpoints a))),
      (''reachable_timesync_sources'', strs (ar_timesync_sources a)), (''routers'', J_arr (map board_json (ar_routers a))),
      (''last_seen_ms'', J_num (int (unat (ar_last_seen_ms a)))), (''age_ms'', J_num (int (unat (ar_age_ms a))))]"

definition route_json :: "side_route \<Rightarrow> json" where
  "route_json s = J_obj
     [(''side_id'', J_num (int (sr_side_id s))), (''side_name'', J_str (sr_side_name s)),
      (''reachable_endpoints'', nums (map unat (sr_endpoints s))),
      (''reachable_timesync_sources'', strs (sr_timesync_sources s)),
      (''announcers'', J_arr (map announcer_json (sr_announcers s))),
      (''last_seen_ms'', J_num (int (unat (sr_last_seen_ms s)))), (''age_ms'', J_num (int (unat (sr_age_ms s))))]"

definition topology_json :: "topology_snapshot \<Rightarrow> json" where
  "topology_json snap = J_obj
     [(''advertised_endpoints'', nums (map unat (advertised_endpoints snap))),
      (''advertised_timesync_sources'', strs (advertised_timesync_sources snap)),
      (''routers'', J_arr (map board_json (ts_routers snap))), (''routes'', J_arr (map route_json (ts_routes snap))),
      (''current_announce_interval_ms'', J_num (int (unat (current_announce_interval_ms snap)))),
      (''next_announce_ms'', J_num (int (unat (next_announce_ms snap))))]"

lemma push_board_json: "push_board out b = out @ json_text (board_json b)"
  by (simp only: push_board_def Let_def writers board_json_def json_text.simps(6)) simp

lemma push_announcer_json: "push_announcer out a = out @ json_text (announcer_json a)"
  by (simp only: push_announcer_def Let_def writers push_all_separated [OF push_board_json] announcer_json_def
      json_text.simps(6)) (simp add: number_text comp_def)

lemma push_route_json: "push_route out s = out @ json_text (route_json s)"
  by (simp only: push_route_def Let_def writers push_all_separated [OF push_announcer_json] route_json_def
      json_text.simps(6)) (simp add: number_text comp_def)

lemma topology_text: "topology_snapshot_to_json snap = json_text (topology_json snap)"
  by (simp only: topology_snapshot_to_json_def Let_def writers push_all_separated [OF push_board_json]
      push_all_separated [OF push_route_json] topology_json_def json_text.simps(6)) (simp add: number_text comp_def)

lemma plain_keys_topology: "plain_keys (topology_json snap)"
  by (simp add: topology_json_def route_json_def announcer_json_def board_json_def plain_def list_all_iff)

section \<open>Client statistics and memory layout\<close>

definition client_document :: "env \<Rightarrow> u64 \<Rightarrow> string \<Rightarrow> client_stats \<Rightarrow> json" where
  "client_document E now from c =
     (let eps = sort_dedup (filter (\<lambda>ep. \<not> is_stats_control_endpoint ep) (cs_endpoints c));
          seen = cs_last_seen_ms c; age = (case seen of Some t \<Rightarrow> now - t | None \<Rightarrow> 0)
      in if cs_side_ids c = [] then J_null
         else J_obj
           [(''sender_id'', J_str from), (''connected'', J_bool (age \<le> kDiscoveryTtlMs)),
            (''side_ids'', nums (sort_dedup (cs_side_ids c))), (''side_names'', strs (sort_dedup (cs_side_names c))),
            (''last_seen_ms'', case seen of Some t \<Rightarrow> J_num (int (unat t)) | None \<Rightarrow> J_null),
            (''age_ms'', case seen of Some _ \<Rightarrow> J_num (int (unat age)) | None \<Rightarrow> J_null),
            (''reachable_endpoints'', strs (map (endpoint_stats_name E) eps)),
            (''reachable_endpoint_ids'', nums (map unat eps)),
            (''reachable_timesync_sources'', strs (sort_dedup (cs_sources c))),
            (''packets_sent'', J_num 0), (''packets_received'', J_num 0), (''bytes_sent'', J_num 0), (''bytes_received'', J_num 0)])"

lemma zero_text: "json_text (J_num 0) = ''0''"
  by code_simp

lemma client_text: "client_stats_json E w from r = json_text (client_document E (now_ms w r) from (client_stats_of from r))"
proof (cases "cs_side_ids (client_stats_of from r) = []")
  case True
  then show ?thesis by (simp add: client_stats_json_def client_document_def Let_def)
next
  case False
  then show ?thesis
    by (simp only: client_stats_json_def client_document_def Let_def writers if_False json_text.simps(6))
      (simp add: number_text zero_text del: json_text.simps(3) split: option.split)
qed

definition memory_document :: "string \<Rightarrow> 'a owner_scheme \<Rightarrow> json" where
  "memory_document kind r =
     (let n = (\<lambda>k v. (k, J_num (int v))); budget = unat (max_queue_budget (memory r))
      in J_obj
        [(''kind'', J_str kind), n ''side_count'' (length (sides r)), n ''shared_queue_bytes_allocated'' budget,
         n ''shared_queue_bytes_used'' (unat (rx_queue_bytes r + tx_queue_bytes r)), n ''rx_queue_len'' (length (rx_queue r)),
         n ''rx_queue_bytes_used'' (unat (rx_queue_bytes r)), n ''rx_queue_bytes_allocated'' budget,
         n ''tx_queue_len'' (length (tx_queue r)), n ''tx_queue_bytes_used'' (unat (tx_queue_bytes r)),
         n ''tx_queue_bytes_allocated'' budget, n ''replay_queue_len'' (length (reliable_released_rx r)),
         n ''replay_queue_bytes_used'' 0, n ''replay_queue_bytes_allocated'' budget, n ''recent_rx_len'' (length (recent_ids r)),
         n ''recent_rx_bytes_used'' (length (recent_ids r) * 8),
         n ''recent_rx_bytes_allocated'' (unat (recent_rx_queue_bytes (memory r))),
         n ''reliable_return_route_count'' (length (reliable_return_routes r)), n ''network_variable_cache_bytes_used'' 0])"

lemma memory_text: "memory_layout_json kind r = json_text (memory_document kind r)"
  by (simp only: memory_layout_json_def memory_document_def Let_def writers zeros_def json_text.simps(6))
    (simp add: number_text zero_text del: json_text.simps(3))

section \<open>Runtime statistics\<close>

lemma arrays_passes: "arrays.passes s \<longleftrightarrow> (\<forall>rest. open_arrays False False (s @ rest) = open_arrays False False rest)"
  unfolding arrays.passes_def by (auto intro: order_refl)

lemma passesD: "arrays.passes s \<Longrightarrow> open_arrays False False (s @ rest) = open_arrays False False rest"
  by (simp add: arrays_passes)

lemma passes_braces: "arrays.passes ''{''" "arrays.passes ''}''" "arrays.passes '',''" "arrays.passes '':''" "arrays.passes ''''"
  by (simp_all add: arrays_passes)

lemma passes_key: "arrays.passes sep \<Longrightarrow> plain k \<Longrightarrow> arrays.passes (key sep k)"
  by (intro arrays.passes_append arrays.passes_quoted passes_braces)

lemma passes_values: "arrays.passes (to_string n)" "arrays.passes (int_text i)" "arrays.passes (bool_json b)"
    "arrays.passes ''null''" "arrays.passes ''false''" "arrays.passes ''1''" "arrays.passes ''[]''" "arrays.passes ''0''"
  using arrays.passes_neutral [OF digits_neutral [OF digits_to_string]] arrays.passes_neutral [OF int_text_neutral]
  by (simp_all add: arrays_passes bool_json_def)

lemma passes_zeros: "list_all plain ks \<Longrightarrow> arrays.passes (zeros ks)"
proof (induction ks)
  case (Cons k ks)
  then have "arrays.passes ((key '','' k @ ''0'') @ zeros ks)"
    by (intro arrays.passes_append passes_braces arrays.passes_quoted passes_values) simp_all
  then show ?case by (simp add: zeros_def)
qed (simp add: zeros_def passes_braces)

lemmas passes_intros = arrays.passes_append arrays.passes_quoted arrays.passes_string passes_braces passes_values passes_zeros

lemma push_escaped_append: "json_push_escaped (a @ b) s = a @ b @ json_push_escaped '''' s"
  by (simp add: json_push_escaped_def)

text \<open>The items of the four arrays as texts of their own.\<close>

lemma side_counters_passes: "arrays.passes side_counters"
  unfolding side_counters_def by (intro passes_intros) (simp_all add: plain_def)

lemma push_side_text:
  obtains f where "\<And>out e. push_side out e = out @ f e" "\<And>e. arrays.passes (f e)"
proof
  fix e :: "nat \<times> side"
  show "push_side out e = out @ push_side '''' e" for out
    by (cases e) (simp add: push_side_def Let_def json_push_escaped_def)
  obtain i s where e: "e = (i, s)" by fastforce
  show "arrays.passes (push_side '''' e)"
    unfolding push_side_def e prod.case Let_def push_escaped_append append_assoc append_Nil
    by (intro passes_intros side_counters_passes) (simp_all add: plain_def)
qed

lemma push_route_mode_text:
  obtains f where "\<And>out e. push_route_mode out e = out @ f e" "\<And>e. arrays.passes (f e)"
proof
  fix e :: "i32 option \<times> route_policy"
  show "push_route_mode out e = out @ push_route_mode '''' e" for out
    by (cases e) (simp add: push_route_mode_def Let_def json_push_escaped_def)
  obtain src p where e: "e = (src, p)" by fastforce
  have "arrays.passes (side_id_json src)" by (cases src) (simp_all add: side_id_json_def passes_values)
  then show "arrays.passes (push_route_mode '''' e)"
    unfolding push_route_mode_def e prod.case Let_def push_escaped_append append_assoc append_Nil
    by (intro passes_intros) (simp_all add: plain_def)
qed

lemma override_source_passes: "arrays.passes (override_source src)"
  by (simp add: override_source_def passes_values)

lemma push_override_text:
  obtains f where "\<And>out e. push_override out e = out @ f e" "\<And>e. arrays.passes (f e)"
proof
  fix e :: "(i32 \<times> i32) \<times> bool"
  obtain src dst b where e: "e = ((src, dst), b)" by (metis surj_pair)
  show "push_override out e = out @ push_override '''' e" for out by (simp add: push_override_def e)
  show "arrays.passes (push_override '''' e)"
    unfolding push_override_def e prod.case append_assoc append_Nil
    by (intro passes_intros override_source_passes) (simp_all add: plain_def)
qed

lemma push_typed_override_text:
  obtains f where "\<And>out e. push_typed_override E out e = out @ f e" "\<And>e. arrays.passes (f e)"
proof
  fix e :: "(i32 \<times> u32 \<times> i32) \<times> bool"
  obtain src t dst b where e: "e = ((src, t, dst), b)" by (metis surj_pair)
  show "push_typed_override E out e = out @ push_typed_override E '''' e" for out by (simp add: push_typed_override_def e)
  show "arrays.passes (push_typed_override E '''' e)"
    unfolding push_typed_override_def e prod.case append_assoc append_Nil
    by (intro passes_intros override_source_passes) (simp_all add: plain_def)
qed

lemma push_policy_value_text:
  obtains f where "\<And>out e. push_policy_value prio out e = out @ f e" "\<And>e. arrays.passes (f e)"
proof
  fix e :: "i32 option \<times> i32 \<times> u32"
  obtain src dst v where e: "e = (src, dst, v)" by (metis surj_pair)
  show "push_policy_value prio out e = out @ push_policy_value prio '''' e" for out by (simp add: push_policy_value_def e)
  have "arrays.passes (side_id_json src)" by (cases src) (simp_all add: side_id_json_def passes_values)
  then show "arrays.passes (push_policy_value prio '''' e)"
    unfolding push_policy_value_def e prod.case append_assoc append_Nil
    by (intro passes_intros) (simp_all add: plain_def)
qed

lemma items_pass:
  assumes "\<And>out e. push out e = out @ f e" "\<And>e. arrays.passes (f e)"
  shows "push_all push out es = out @ separated '','' (map f es)" "arrays.passes (separated '','' (map f es))"
  using push_all_separated [OF assms(1)] arrays.passes_separated [OF passes_braces(3), of "map f es"] assms(2)
  by (simp_all add: list_all_iff)

lemma policy_values_pass:
  assumes "plain field"
  obtains t where "\<And>out. push_route_policy_values field prio r out = out @ t" "arrays.passes t"
proof -
  obtain f where f: "\<And>out e. push_policy_value prio out e = out @ f e" "\<And>e. arrays.passes (f e)"
    by (rule push_policy_value_text [of prio]) blast
  let ?es = "concat (map (\<lambda>(src, p). map (Pair src) (if prio then priorities p else weights p)) (policies r))"
  have "push_route_policy_values field prio r out = out @ key '','' field @ ''['' @ separated '','' (map f ?es) @ '']''" for out
    unfolding push_route_policy_values_def items_pass(1) [OF f] by simp
  moreover have "arrays.passes (key '','' field @ ''['' @ separated '','' (map f ?es) @ '']'')"
    using assms items_pass(2) [OF f] passes_braces(3,4)
    by (intro arrays.passes_append arrays.passes_quoted arrays.passes_array) simp_all
  ultimately show thesis using that by blast
qed

lemma runtime_parts_pass: "arrays.passes (runtime_queues r)" "arrays.passes (runtime_reliable r)" "arrays.passes (runtime_discovery r)"
  unfolding runtime_queues_def runtime_reliable_def runtime_discovery_def append_assoc
  by (intro passes_intros; simp add: plain_def)+

text \<open>
  (C32) The runtime statistics are not JSON. The array \<open>typed_route_overrides\<close> is opened and never closed, for
  every node: the text opens one array more than it closes, and neither the grammar of JSON nor the
  canonical form gives it to any document.
\<close>

theorem runtime_stats_not_json:
  "open_arrays False False (runtime_stats_json E r) = 1 \<and> (\<nexists>j. json_doc j (runtime_stats_json E r)) \<and>
   runtime_stats_json E r \<notin> json_text ` Collect plain_keys"
proof -
  obtain f1 where f1: "\<And>out e. push_side out e = out @ f1 e" "\<And>e. arrays.passes (f1 e)" by (rule push_side_text) blast
  obtain f2 where f2: "\<And>out e. push_route_mode out e = out @ f2 e" "\<And>e. arrays.passes (f2 e)" by (rule push_route_mode_text) blast
  obtain f3 where f3: "\<And>out e. push_override out e = out @ f3 e" "\<And>e. arrays.passes (f3 e)" by (rule push_override_text) blast
  obtain f4 where f4: "\<And>out e. push_typed_override E out e = out @ f4 e" "\<And>e. arrays.passes (f4 e)"
    by (rule push_typed_override_text) blast
  obtain t5 where t5: "\<And>out. push_route_policy_values ''route_weights'' False r out = out @ t5" "arrays.passes t5"
    by (rule policy_values_pass [of "''route_weights''" False r]) (auto simp: plain_def)
  obtain t6 where t6: "\<And>out. push_route_policy_values ''route_priorities'' True r out = out @ t6" "arrays.passes t6"
    by (rule policy_values_pass [of "''route_priorities''" True r]) (auto simp: plain_def)
  note items = items_pass [OF f1] items_pass [OF f2] items_pass [OF f3] items_pass [OF f4]
  have z: "arrays.passes (zeros [''total_handler_failures'', ''total_handler_retries''])" by (rule passes_zeros) (simp add: plain_def)
  note parts = items(2,4,6,8) t5(2) t6(2) runtime_parts_pass z
  have one: "open_arrays False False (runtime_stats_json E r) = 1"
    unfolding runtime_stats_json_def Let_def t5(1) t6(1) items(1,3,5,7) append_assoc
    by (simp add: parts [THEN passesD] passesD [OF arrays.passes_quoted] plain_def)
  have "open_arrays False False (json_text j) = 0" if "plain_keys j" for j
    using open_arrays_document [OF that, of "''''"] by simp
  moreover have "open_arrays False False t = 0" if "json_doc j t" for j t
    using passesD [OF arrays.passes_doc [OF that], of "[]"] by simp
  ultimately show ?thesis using one by fastforce
qed

section \<open>The exports\<close>

lemma spelt_keys: "all_keys spelt (topology_json snap)" "all_keys spelt (client_document E now from c)"
    "all_keys spelt (memory_document kind r)"
  by (simp_all add: topology_json_def route_json_def announcer_json_def board_json_def client_document_def
      memory_document_def Let_def plain_def list_all_iff split: option.split)

text \<open>
  (C20) The exports are documents. By the grammar of JSON, the topology text of every router and relay
  and the client and memory texts of every router denote the documents that hold the state they
  report, whatever characters the names of nodes, sides and time sources contain: quotes,
  backslashes and control characters are escaped, and nothing else changes a name. The topology
  text of a router is one complete object for a reader.
\<close>

theorem exports_are_documents:
  "json_doc (topology_json (export_topology_snapshot E w (local_router_topology_board E (now_ms w r) r) (r_sender r) r))
     (router_topology_json E w r) \<and>
   json_doc (topology_json (export_topology_snapshot E w (\<lambda>_. local_relay_topology_board (now_ms w q) q) ''RELAY'' q))
     (relay_topology_json E w q) \<and>
   json_doc (client_document E (now_ms w r) from (client_stats_of from r)) (client_stats_json E w from r) \<and>
   json_doc (memory_document kind r) (memory_layout_json kind r) \<and>
   split_top_level_objects (router_topology_json E w r) = [router_topology_json E w r]"
proof -
  let ?snap = "export_topology_snapshot E w (local_router_topology_board E (now_ms w r) r) (r_sender r) r"
  obtain ms where "topology_json ?snap = J_obj ms" by (simp add: topology_json_def)
  then have "split_top_level_objects (json_text (topology_json ?snap)) = [json_text (topology_json ?snap)]"
    using one_object plain_keys_topology [of ?snap] by simp
  then show ?thesis
    by (simp add: router_topology_json_def relay_topology_json_def topology_text client_text memory_text
        json_text_doc spelt_keys)
qed

lemma collect_client_ids:
  "cs_side_ids (foldl (collect_client ss from) c routes) =
     cs_side_ids c @ map (side_size \<circ> fst) (filter (\<lambda>(_, route). from \<in> set (mkeys (announcers route))) routes)"
proof (induction routes arbitrary: c)
  case (Cons e routes)
  obtain k route where e: "e = (k, route)" by fastforce
  show ?case
  proof (cases "map_of (announcers route) from")
    case None
    then have "from \<notin> set (mkeys (announcers route))" by (simp add: map_of_eq_None_iff)
    then show ?thesis using None Cons by (simp add: collect_client_def e)
  next
    case (Some s)
    then have "from \<in> set (mkeys (announcers route))" by (auto simp: image_iff dest: map_of_SomeD intro: rev_bexI)
    then show ?thesis using Some Cons by (simp add: collect_client_def e)
  qed
qed simp

lemma client_null_iff:
  "client_stats_json E w from r = ''null'' \<longleftrightarrow>
     list_all (\<lambda>(_, route). from \<notin> set (mkeys (announcers route))) (discovery_routes r)"
proof -
  have "json_text (J_obj ms) \<noteq> ''null''" for ms by simp
  then have "client_stats_json E w from r = ''null'' \<longleftrightarrow> cs_side_ids (client_stats_of from r) = []"
    by (simp add: client_text client_document_def Let_def)
  then show ?thesis
    by (simp add: client_stats_of_def collect_client_ids filter_empty_conv list_all_iff case_prod_beta)
qed

text \<open>
  Only announcers are clients. A node reports statistics of a sender exactly if some route still has it
  as an announcer; once its leave announcement was processed the answer is \<open>null\<close>.
\<close>

theorem departed_client_unknown:
  "(client_stats_json E w from r \<noteq> ''null'' \<longleftrightarrow>
      list_ex (\<lambda>(_, route). from \<in> set (mkeys (announcers route))) (discovery_routes r)) \<and>
   client_stats_json E w from
     (r\<lparr>discovery_routes := snd (prune_leaving_discovery_sender from (discovery_routes r))\<rparr>) = ''null''"
proof
  show "client_stats_json E w from r \<noteq> ''null'' \<longleftrightarrow>
      list_ex (\<lambda>(_, route). from \<in> set (mkeys (announcers route))) (discovery_routes r)"
    by (auto simp: client_null_iff list_all_iff list_ex_iff)
  show "client_stats_json E w from
      (r\<lparr>discovery_routes := snd (prune_leaving_discovery_sender from (discovery_routes r))\<rparr>) = ''null''"
    by (auto simp: client_null_iff list_all_iff dest: departed_not_announcer)
qed

end
