(* ===== verification/Packed.thy ===== *)
theory Packed
  imports Interface Relay_Interface Packet_Access
begin

text \<open>
  The remaining interface functions of \<open>src/upstream_api_compat.cpp\<close>: sides with a transport profile, the
  functions named \<open>packed\<close>, which stand for those named \<open>serialized\<close>, link probes, leaving, and queries
  of addresses.
\<close>

section \<open>Transport profiles\<close>

definition apply_side_transport_profile ::
    "side_transport_profile \<Rightarrow> nat \<Rightarrow> nat \<Rightarrow> nat \<Rightarrow> side \<Rightarrow> side" where
  "apply_side_transport_profile profile frame target templates s =
     (let s1 = s\<lparr>transport_profile := profile, max_frame_bytes := frame, max_side_transport_templates := templates,
                 header_template_enabled := False, compact_header_target_bytes := target\<rparr>
      in case profile of
          PROFILE_TEMPLATE \<Rightarrow> s1\<lparr>header_template_enabled := True\<rparr>
        | PROFILE_IPV6_LIKE \<Rightarrow>
            s1\<lparr>header_template_enabled := True, compact_header_target_bytes := (if target = 0 then 40 else target)\<rparr>
        | PROFILE_IPV4_LIKE \<Rightarrow>
            s1\<lparr>header_template_enabled := True, compact_header_target_bytes := (if target = 0 then 20 else target)\<rparr>
        | _ \<Rightarrow> s1)"

definition add_side_packed_small_packets ::
    "string \<Rightarrow> fn \<Rightarrow> bool \<Rightarrow> nat \<Rightarrow> 'a owner_scheme \<Rightarrow> i32 \<times> 'a owner_scheme" where
  "add_side_packed_small_packets name f rel frame r =
     (let (side_id, r1) = add_side name (Some f) None rel r
      in (side_id, if 0 \<le> side_id
            then update_side side_id (apply_side_transport_profile PROFILE_IPV6_LIKE frame 40 64) r1 else r1))"

definition add_side_packed_profile ::
    "string \<Rightarrow> fn \<Rightarrow> bool \<Rightarrow> side_transport_profile \<Rightarrow> nat \<Rightarrow> nat \<Rightarrow> nat \<Rightarrow> 'a owner_scheme \<Rightarrow> i32 \<times> 'a owner_scheme" where
  "add_side_packed_profile name f rel profile frame target templates r =
     (if profile \<notin> {PROFILE_CANONICAL, PROFILE_TEMPLATE, PROFILE_IPV6_LIKE, PROFILE_IPV4_LIKE}
      then (result_code SEDS_BAD_ARG, r)
      else
        let (side_id, r1) = add_side name (Some f) None rel r
        in (side_id, if 0 \<le> side_id
              then update_side side_id (apply_side_transport_profile profile frame target templates) r1 else r1))"

definition note_side_link_probe_sample :: "i32 \<Rightarrow> 'a owner_scheme \<Rightarrow> seds_result" where
  "note_side_link_probe_sample side_id r =
     (if side_id < 0 \<or> length (sides r) \<le> nat side_id then SEDS_INVALID_LINK_ID else SEDS_OK)"

definition seds_router_add_side_packed :: "string \<Rightarrow> fn \<Rightarrow> bool \<Rightarrow> router \<Rightarrow> i32 \<times> router" where
  "seds_router_add_side_packed = seds_router_add_side_serialized"

definition seds_router_add_side_packed_small_packets :: "string \<Rightarrow> fn \<Rightarrow> bool \<Rightarrow> nat \<Rightarrow> router \<Rightarrow> i32 \<times> router" where
  "seds_router_add_side_packed_small_packets = add_side_packed_small_packets"

definition seds_router_add_side_packed_profile ::
    "string \<Rightarrow> fn \<Rightarrow> bool \<Rightarrow> side_transport_profile \<Rightarrow> nat \<Rightarrow> nat \<Rightarrow> nat \<Rightarrow> router \<Rightarrow> i32 \<times> router" where
  "seds_router_add_side_packed_profile = add_side_packed_profile"

definition seds_router_note_side_link_probe_sample :: "i32 \<Rightarrow> router \<Rightarrow> seds_result" where
  "seds_router_note_side_link_probe_sample = note_side_link_probe_sample"

definition seds_relay_add_side_packed :: "string \<Rightarrow> fn \<Rightarrow> bool \<Rightarrow> relay \<Rightarrow> i32 \<times> relay" where
  "seds_relay_add_side_packed = seds_relay_add_side_serialized"

definition seds_relay_add_side_packed_small_packets :: "string \<Rightarrow> fn \<Rightarrow> bool \<Rightarrow> nat \<Rightarrow> relay \<Rightarrow> i32 \<times> relay" where
  "seds_relay_add_side_packed_small_packets = add_side_packed_small_packets"

definition seds_relay_add_side_packed_profile ::
    "string \<Rightarrow> fn \<Rightarrow> bool \<Rightarrow> side_transport_profile \<Rightarrow> nat \<Rightarrow> nat \<Rightarrow> nat \<Rightarrow> relay \<Rightarrow> i32 \<times> relay" where
  "seds_relay_add_side_packed_profile = add_side_packed_profile"

definition seds_relay_note_side_link_probe_sample :: "i32 \<Rightarrow> relay \<Rightarrow> seds_result" where
  "seds_relay_note_side_link_probe_sample = note_side_link_probe_sample"

section \<open>Packed frames\<close>

definition seds_router_receive_packed :: "env \<Rightarrow> world \<Rightarrow> bytes \<Rightarrow> router \<Rightarrow> (seds_result \<times> router) option" where
  "seds_router_receive_packed = seds_router_receive_serialized"

definition seds_router_transmit_packed_message_queue :: "env \<Rightarrow> bytes \<Rightarrow> router \<Rightarrow> (seds_result \<times> router) option" where
  "seds_router_transmit_packed_message_queue = seds_router_transmit_serialized_message_queue"

definition seds_router_transmit_packed_message ::
    "env \<Rightarrow> world \<Rightarrow> bytes \<Rightarrow> router \<Rightarrow> (seds_result \<times> router) option" where
  "seds_router_transmit_packed_message = seds_router_transmit_serialized_message"

definition seds_router_rx_packed_packet_to_queue :: "env \<Rightarrow> bytes \<Rightarrow> router \<Rightarrow> (seds_result \<times> router) option" where
  "seds_router_rx_packed_packet_to_queue = seds_router_rx_serialized_packet_to_queue"

definition seds_router_receive_packed_from_side ::
    "env \<Rightarrow> world \<Rightarrow> u32 \<Rightarrow> bytes \<Rightarrow> router \<Rightarrow> (seds_result \<times> router) option" where
  "seds_router_receive_packed_from_side = seds_router_receive_serialized_from_side"

definition seds_router_rx_packed_packet_to_queue_from_side ::
    "env \<Rightarrow> world \<Rightarrow> u32 \<Rightarrow> bytes \<Rightarrow> router \<Rightarrow> (seds_result \<times> router) option" where
  "seds_router_rx_packed_packet_to_queue_from_side = seds_router_rx_serialized_packet_to_queue_from_side"

definition seds_relay_rx_packed_from_side ::
    "env \<Rightarrow> world \<Rightarrow> u32 \<Rightarrow> bytes \<Rightarrow> relay \<Rightarrow> (seds_result \<times> relay) option" where
  "seds_relay_rx_packed_from_side = seds_relay_rx_serialized_from_side"

definition seds_pkt_pack_len :: "env \<Rightarrow> packet_view option \<Rightarrow> i32 option" where
  "seds_pkt_pack_len = seds_pkt_serialize_len"

definition seds_pkt_pack :: "env \<Rightarrow> packet_view option \<Rightarrow> nat option \<Rightarrow> (i32 \<times> bytes) option" where
  "seds_pkt_pack = seds_pkt_serialize"

definition seds_pkt_unpack_owned :: "env \<Rightarrow> bytes \<Rightarrow> packet option option" where
  "seds_pkt_unpack_owned = seds_pkt_deserialize_owned"

definition seds_pkt_validate_packed :: "env \<Rightarrow> bytes \<Rightarrow> seds_result option" where
  "seds_pkt_validate_packed = seds_pkt_validate_serialized"

definition seds_pkt_unpack_header_owned :: "env \<Rightarrow> bytes \<Rightarrow> packet option option" where
  "seds_pkt_unpack_header_owned = seds_pkt_deserialize_header_owned"

section \<open>Names and addresses\<close>

definition seds_router_new_ex ::
    "env \<Rightarrow> router_mode \<Rightarrow> local_endpoint list \<Rightarrow> u8 \<Rightarrow> (env \<times> router option) option" where
  "seds_router_new_ex E m handlers e2e_mode = seds_router_new_with_memory E m handlers e2e_mode None"

definition seds_relay_set_sender_id :: "nat + string \<Rightarrow> relay \<Rightarrow> seds_result \<times> relay" where
  "seds_relay_set_sender_id s r =
     (case s of Inl n \<Rightarrow> (if n \<noteq> 0 then SEDS_BAD_ARG else SEDS_OK, r) | Inr _ \<Rightarrow> (SEDS_OK, r))"

definition seds_router_current_address :: "router \<Rightarrow> u32 \<times> router" where
  "seds_router_current_address r = local_p2p_address r"

definition seds_router_resolve_hostname_address :: "string \<Rightarrow> router \<Rightarrow> (seds_result \<times> u32 option) \<times> router" where
  "seds_router_resolve_hostname_address host r =
     (case resolve_p2p_host host r of
        (None, r1) \<Rightarrow> ((SEDS_BAD_ARG, None), r1)
      | (Some (_, addr), r1) \<Rightarrow> ((SEDS_OK, Some addr), r1))"

definition seds_router_announce_leave :: "router \<Rightarrow> seds_result \<times> router" where
  "seds_router_announce_leave r = (SEDS_OK, r)"

definition seds_relay_announce_leave :: "relay \<Rightarrow> seds_result \<times> relay" where
  "seds_relay_announce_leave r = (SEDS_OK, r)"

definition seds_dtype_expected_size :: "env \<Rightarrow> u32 \<Rightarrow> i32" where
  "seds_dtype_expected_size E t =
     (if \<not> valid_type E t then result_code SEDS_INVALID_TYPE
      else if dynamic (type_at E t) then -1
      else length_code (elem_size (type_at E t) * static_count (type_at E t)))"

end
