(* ===== verification/Cpp_Nodes.thy ===== *)
theory Cpp_Nodes
  imports Packed Export Managed
begin

text \<open>
  The classes \<open>Router\<close> and \<open>Relay\<close> of \<open>src/router.cpp\<close> and \<open>src/relay.cpp\<close>. An object owns a node of the C
  interface and the callables that were registered with it; a callable is known to the node by the
  address of its copy, here its position in the list of the object. \<open>Inl\<close> is an exception.
\<close>

section \<open>Objects\<close>

datatype node_exception = Failed_To_Create

record 'n node_object =
  node :: 'n
  packet_callables :: "fn list"
  serialized_callables :: "fn list"

record side_options =
  so_reliable :: bool
  so_link_local :: bool

definition new_Router :: "env \<Rightarrow> router_mode \<Rightarrow> (node_exception + env \<times> router node_object) option" where
  "new_Router E m =
     map_option (\<lambda>(E', r). case r of
         None \<Rightarrow> Inl Failed_To_Create
       | Some r \<Rightarrow> Inr (E', \<lparr>node = r, packet_callables = [], serialized_callables = []\<rparr>))
       (seds_router_new E m [])"

definition new_Relay :: "node_exception + relay node_object" where
  "new_Relay =
     (case seds_relay_new of
        None \<Rightarrow> Inl Failed_To_Create
      | Some r \<Rightarrow> Inr \<lparr>node = r, packet_callables = [], serialized_callables = []\<rparr>)"

text \<open>
  The bridge of a packet side: the callable is called with a packet made from the view, which may
  throw. The bridge of a serialized side passes the bytes on.
\<close>

definition packet_bridge ::
    "env \<Rightarrow> (packet_object \<Rightarrow> seds_result) \<Rightarrow> packet_view \<Rightarrow> (packet_exception + seds_result) option" where
  "packet_bridge E f v =
     map_option (\<lambda>p. case p of Inl e \<Rightarrow> Inl e | Inr po \<Rightarrow> Inr (f po)) (Packet_from_view E v)"

definition add_node_side ::
    "(i32 \<Rightarrow> bool \<Rightarrow> 'n \<Rightarrow> seds_result \<times> 'n) \<Rightarrow> bool \<Rightarrow> i32 \<times> 'n \<Rightarrow> i32 \<times> 'n" where
  "add_node_side set_link_local link_local added =
     (let (side_id, n) = added in
      if 0 \<le> side_id \<and> link_local then (side_id, Product_Type.snd (set_link_local side_id True n)) else (side_id, n))"

definition Router_add_side_serialized ::
    "world \<Rightarrow> string \<Rightarrow> fn \<Rightarrow> side_options \<Rightarrow> router node_object \<Rightarrow> i32 \<times> router node_object" where
  "Router_add_side_serialized w name f opts obj =
     (let (side_id, n) = add_node_side (seds_router_set_side_link_local_enabled w) (so_link_local opts)
            (seds_router_add_side_serialized name f (so_reliable opts) (node obj))
      in (side_id, obj\<lparr>node := n, serialized_callables := serialized_callables obj @ [f]\<rparr>))"

definition Router_add_side_packet ::
    "world \<Rightarrow> string \<Rightarrow> fn \<Rightarrow> side_options \<Rightarrow> router node_object \<Rightarrow> i32 \<times> router node_object" where
  "Router_add_side_packet w name f opts obj =
     (let (side_id, n) = add_node_side (seds_router_set_side_link_local_enabled w) (so_link_local opts)
            (seds_router_add_side_packet name f (so_reliable opts) (node obj))
      in (side_id, obj\<lparr>node := n, packet_callables := packet_callables obj @ [f]\<rparr>))"

definition Relay_add_side_serialized ::
    "world \<Rightarrow> string \<Rightarrow> fn \<Rightarrow> side_options \<Rightarrow> relay node_object \<Rightarrow> i32 \<times> relay node_object" where
  "Relay_add_side_serialized w name f opts obj =
     (let (side_id, n) = add_node_side (seds_relay_set_side_link_local_enabled w) (so_link_local opts)
            (seds_relay_add_side_serialized name f (so_reliable opts) (node obj))
      in (side_id, obj\<lparr>node := n, serialized_callables := serialized_callables obj @ [f]\<rparr>))"

definition Relay_add_side_packet ::
    "world \<Rightarrow> string \<Rightarrow> fn \<Rightarrow> side_options \<Rightarrow> relay node_object \<Rightarrow> i32 \<times> relay node_object" where
  "Relay_add_side_packet w name f opts obj =
     (let (side_id, n) = add_node_side (seds_relay_set_side_link_local_enabled w) (so_link_local opts)
            (seds_relay_add_side_packet name f (so_reliable opts) (node obj))
      in (side_id, obj\<lparr>node := n, packet_callables := packet_callables obj @ [f]\<rparr>))"

section \<open>Operations\<close>

text \<open>An operation of the class that calls one of the interface on its node.\<close>

definition on_node :: "('n \<Rightarrow> ('x \<times> 'n) option) \<Rightarrow> 'n node_object \<Rightarrow> ('x \<times> 'n node_object) option" where
  "on_node f obj = map_option (\<lambda>(x, n). (x, obj\<lparr>node := n\<rparr>)) (f (node obj))"

definition Router_log ::
    "env \<Rightarrow> world \<Rightarrow> packet_object \<Rightarrow> bool \<Rightarrow> router node_object \<Rightarrow> (seds_result \<times> router node_object) option" where
  "Router_log E w po queue =
     (let view = Packet_view po in
      on_node (if queue then seds_router_transmit_message_queue E (Some view) else seds_router_transmit_message E w (Some view)))"

definition Router_receive ::
    "env \<Rightarrow> world \<Rightarrow> packet_object \<Rightarrow> router node_object \<Rightarrow> (seds_result \<times> router node_object) option" where
  "Router_receive E w po = on_node (seds_router_receive E w (Some (Packet_view po)))"

definition Router_process_all :: "env \<Rightarrow> world \<Rightarrow> router node_object \<Rightarrow> (seds_result \<times> router node_object) option" where
  "Router_process_all E w = on_node (seds_router_process_all_queues E w)"

definition Router_periodic ::
    "env \<Rightarrow> world \<Rightarrow> u32 \<Rightarrow> router node_object \<Rightarrow> (seds_result \<times> router node_object) option" where
  "Router_periodic E w timeout = on_node (seds_router_periodic E w timeout)"

definition Router_periodic_no_timesync ::
    "env \<Rightarrow> world \<Rightarrow> u32 \<Rightarrow> router node_object \<Rightarrow> (seds_result \<times> router node_object) option" where
  "Router_periodic_no_timesync E w timeout = on_node (seds_router_periodic_no_timesync E w timeout)"

definition Router_announce_discovery ::
    "env \<Rightarrow> world \<Rightarrow> router node_object \<Rightarrow> (seds_result \<times> router node_object) option" where
  "Router_announce_discovery E w = on_node (seds_router_announce_discovery E w)"

definition Router_poll_discovery :: "env \<Rightarrow> world \<Rightarrow> router node_object \<Rightarrow> (bool \<times> router node_object) option" where
  "Router_poll_discovery E w = on_node (seds_router_poll_discovery E w)"

definition Router_set_sender :: "string \<Rightarrow> router node_object \<Rightarrow> router node_object" where
  "Router_set_sender s obj = obj\<lparr>node := seds_router_set_sender s (node obj)\<rparr>"

definition Router_get_network_time_ms :: "world \<Rightarrow> router node_object \<Rightarrow> (seds_result + u64) \<times> router node_object" where
  "Router_get_network_time_ms w obj =
     (let (t, n) = seds_router_get_network_time_ms w (node obj) in (t, obj\<lparr>node := n\<rparr>))"

record time_sync_options =
  to_role :: u32
  to_priority :: u64
  to_source_timeout_ms :: u64
  to_announce_interval_ms :: u64
  to_request_interval_ms :: u64

definition default_time_sync_options :: time_sync_options where
  "default_time_sync_options =
     \<lparr>to_role = 0, to_priority = 100, to_source_timeout_ms = 5000, to_announce_interval_ms = 1000,
      to_request_interval_ms = 1000\<rparr>"

definition Router_configure_timesync ::
    "world \<Rightarrow> bool \<Rightarrow> time_sync_options option \<Rightarrow> router node_object \<Rightarrow> router node_object" where
  "Router_configure_timesync w enabled options obj =
     (let t = (case options of Some t \<Rightarrow> t | None \<Rightarrow> default_time_sync_options)
      in obj\<lparr>node := seds_router_configure_timesync w enabled (to_role t) (to_priority t) (to_source_timeout_ms t)
           (to_announce_interval_ms t) (to_request_interval_ms t) (node obj)\<rparr>)"

text \<open>The functions that set the local clock; each passes its fields on to its counterpart of the C interface.\<close>

definition total_on_node :: "('n \<Rightarrow> 'x \<times> 'n) \<Rightarrow> 'n node_object \<Rightarrow> 'x \<times> 'n node_object" where
  "total_on_node f obj = (let (x, n) = f (node obj) in (x, obj\<lparr>node := n\<rparr>))"

definition Router_get_network_time :: "world \<Rightarrow> router node_object \<Rightarrow> (seds_result + network_time) \<times> router node_object" where
  "Router_get_network_time w = total_on_node (seds_router_get_network_time w)"

record calendar_fields =
  cf_has_unix_time_ms :: bool
  cf_unix_time_ms :: u64
  cf_has_year :: bool
  cf_year :: int
  cf_has_month :: bool
  cf_month :: u8
  cf_has_day :: bool
  cf_day :: u8
  cf_has_hour :: bool
  cf_hour :: u8
  cf_has_minute :: bool
  cf_minute :: u8
  cf_has_second :: bool
  cf_second :: u8
  cf_has_nanosecond :: bool
  cf_nanosecond :: u32

definition Router_set_local_network_time ::
    "world \<Rightarrow> calendar_fields \<Rightarrow> router node_object \<Rightarrow> seds_result \<times> router node_object" where
  "Router_set_local_network_time w time =
     total_on_node (seds_router_set_local_network_time w (cf_has_year time) (cf_year time) (cf_has_month time) (cf_month time)
       (cf_has_day time) (cf_day time) (cf_has_hour time) (cf_hour time) (cf_has_minute time) (cf_minute time)
       (cf_has_second time) (cf_second time) (cf_has_nanosecond time) (cf_nanosecond time))"

definition Router_set_local_network_date ::
    "world \<Rightarrow> int \<Rightarrow> u8 \<Rightarrow> u8 \<Rightarrow> router node_object \<Rightarrow> seds_result \<times> router node_object" where
  "Router_set_local_network_date w year month day = total_on_node (seds_router_set_local_network_date w year month day)"

definition Router_set_local_network_time_hm ::
    "world \<Rightarrow> u8 \<Rightarrow> u8 \<Rightarrow> router node_object \<Rightarrow> seds_result \<times> router node_object" where
  "Router_set_local_network_time_hm w hour minute =
     total_on_node (seds_router_set_local_network_time_hm w hour minute)"

definition Router_set_local_network_time_hms ::
    "world \<Rightarrow> u8 \<Rightarrow> u8 \<Rightarrow> u8 \<Rightarrow> router node_object \<Rightarrow> seds_result \<times> router node_object" where
  "Router_set_local_network_time_hms w hour minute second =
     total_on_node (seds_router_set_local_network_time_hms w hour minute second)"

definition Router_set_local_network_time_hms_millis ::
    "world \<Rightarrow> u8 \<Rightarrow> u8 \<Rightarrow> u8 \<Rightarrow> u16 \<Rightarrow> router node_object \<Rightarrow> seds_result \<times> router node_object" where
  "Router_set_local_network_time_hms_millis w hour minute second millisecond =
     total_on_node (seds_router_set_local_network_time_hms_millis w hour minute second millisecond)"

definition Router_set_local_network_time_hms_nanos ::
    "world \<Rightarrow> u8 \<Rightarrow> u8 \<Rightarrow> u8 \<Rightarrow> u32 \<Rightarrow> router node_object \<Rightarrow> seds_result \<times> router node_object" where
  "Router_set_local_network_time_hms_nanos w hour minute second nanosecond =
     total_on_node (seds_router_set_local_network_time_hms_nanos w hour minute second nanosecond)"

definition Router_set_local_network_datetime ::
    "world \<Rightarrow> int \<Rightarrow> u8 \<Rightarrow> u8 \<Rightarrow> u8 \<Rightarrow> u8 \<Rightarrow> u8 \<Rightarrow> router node_object \<Rightarrow> seds_result \<times> router node_object" where
  "Router_set_local_network_datetime w year month day hour minute second =
     total_on_node (seds_router_set_local_network_datetime w year month day hour minute second)"

definition Router_set_local_network_datetime_millis ::
    "world \<Rightarrow> int \<Rightarrow> u8 \<Rightarrow> u8 \<Rightarrow> u8 \<Rightarrow> u8 \<Rightarrow> u8 \<Rightarrow> u16 \<Rightarrow> router node_object \<Rightarrow> seds_result \<times> router node_object" where
  "Router_set_local_network_datetime_millis w year month day hour minute second millisecond =
     total_on_node (seds_router_set_local_network_datetime_millis w year month day hour minute second millisecond)"

definition Router_set_local_network_datetime_nanos ::
    "world \<Rightarrow> int \<Rightarrow> u8 \<Rightarrow> u8 \<Rightarrow> u8 \<Rightarrow> u8 \<Rightarrow> u8 \<Rightarrow> u32 \<Rightarrow> router node_object \<Rightarrow> seds_result \<times> router node_object" where
  "Router_set_local_network_datetime_nanos w year month day hour minute second nanosecond =
     total_on_node (seds_router_set_local_network_datetime_nanos w year month day hour minute second nanosecond)"

definition Router_poll_timesync :: "env \<Rightarrow> world \<Rightarrow> router node_object \<Rightarrow> bool \<times> router node_object" where
  "Router_poll_timesync E w obj = (let (did, n) = seds_router_poll_timesync E w (node obj) in (did, obj\<lparr>node := n\<rparr>))"

text \<open>Two operations that the C interface does not have.\<close>

definition Router_clear_local_network_time :: "router node_object \<Rightarrow> seds_result \<times> router node_object" where
  "Router_clear_local_network_time obj =
     (let r = node obj in
      (SEDS_OK, obj\<lparr>node := r\<lparr>timesync := (timesync r)
         \<lparr>has_network_time := False, current_source := '''', current_source_priority := - 1\<rparr>\<rparr>\<rparr>))"

definition Router_clear_network_time_source :: "string \<Rightarrow> router node_object \<Rightarrow> seds_result \<times> router node_object" where
  "Router_clear_network_time_source source obj =
     (let r = node obj;
          ts = (timesync r)\<lparr>ts_sources := merase source (ts_sources (timesync r))\<rparr>
      in (SEDS_OK, obj\<lparr>node := r\<lparr>timesync :=
           (if current_source ts = source then ts\<lparr>current_source := '''', current_source_priority := - 1\<rparr> else ts)\<rparr>\<rparr>))"

definition Router_export_topology :: "env \<Rightarrow> world \<Rightarrow> router node_object \<Rightarrow> topology_snapshot" where
  "Router_export_topology E w obj =
     (let r = node obj in export_topology_snapshot E w (local_router_topology_board E (now_ms w r) r) (r_sender r) r)"

definition Relay_receive_from_side ::
    "env \<Rightarrow> u32 \<Rightarrow> packet_object \<Rightarrow> relay node_object \<Rightarrow> (seds_result \<times> relay node_object) option" where
  "Relay_receive_from_side E side_id po = on_node (seds_relay_rx_packet_from_side E side_id (Some (Packet_view po)))"

definition Relay_process_all :: "env \<Rightarrow> world \<Rightarrow> relay node_object \<Rightarrow> (seds_result \<times> relay node_object) option" where
  "Relay_process_all E w = on_node (seds_relay_process_all_queues E w)"

definition Relay_announce_discovery :: "env \<Rightarrow> world \<Rightarrow> relay node_object \<Rightarrow> (seds_result \<times> relay node_object) option" where
  "Relay_announce_discovery E w = on_node (seds_relay_announce_discovery E w)"

definition Relay_poll_discovery :: "env \<Rightarrow> world \<Rightarrow> relay node_object \<Rightarrow> (bool \<times> relay node_object) option" where
  "Relay_poll_discovery E w = on_node (seds_relay_poll_discovery E w)"

definition Relay_periodic ::
    "env \<Rightarrow> world \<Rightarrow> u32 \<Rightarrow> relay node_object \<Rightarrow> (seds_result \<times> relay node_object) option" where
  "Relay_periodic E w timeout = on_node (seds_relay_periodic E w timeout)"

definition Relay_export_topology :: "env \<Rightarrow> world \<Rightarrow> relay node_object \<Rightarrow> topology_snapshot" where
  "Relay_export_topology E w obj =
     (let r = node obj in export_topology_snapshot E w (\<lambda>_. local_relay_topology_board (now_ms w r) r) ''RELAY'' r)"

end
