(* ===== verification/Cpp_Facts.thy ===== *)
theory Cpp_Facts
  imports Cpp_Nodes Packet_Facts Reachable
begin

text \<open>
  The classes refine the interface: what can be done to a node through its object is a sequence of
  interface calls, or leaves the queues alone.
\<close>

section \<open>Steps of an object\<close>

inductive relay_object_step :: "env \<Rightarrow> world \<Rightarrow> relay node_object \<Rightarrow> relay node_object \<Rightarrow> bool" for E w where
  add_serialized: "Relay_add_side_serialized w name f opts obj = (side_id, obj') \<Longrightarrow> relay_object_step E w obj obj'"
| add_packet: "Relay_add_side_packet w name f opts obj = (side_id, obj') \<Longrightarrow> relay_object_step E w obj obj'"
| receive: "Relay_receive_from_side E j po obj = Some (rc, obj') \<Longrightarrow> relay_object_step E w obj obj'"
| process_all: "Relay_process_all E w obj = Some (rc, obj') \<Longrightarrow> relay_object_step E w obj obj'"
| announce: "Relay_announce_discovery E w obj = Some (rc, obj') \<Longrightarrow> relay_object_step E w obj obj'"
| poll: "Relay_poll_discovery E w obj = Some (did, obj') \<Longrightarrow> relay_object_step E w obj obj'"
| periodic: "Relay_periodic E w timeout obj = Some (rc, obj') \<Longrightarrow> relay_object_step E w obj obj'"

inductive router_object_step :: "env \<Rightarrow> world \<Rightarrow> router node_object \<Rightarrow> router node_object \<Rightarrow> bool" for E w where
  add_serialized: "Router_add_side_serialized w name f opts obj = (side_id, obj') \<Longrightarrow> router_object_step E w obj obj'"
| add_packet: "Router_add_side_packet w name f opts obj = (side_id, obj') \<Longrightarrow> router_object_step E w obj obj'"
| log: "Router_log E w po queue obj = Some (rc, obj') \<Longrightarrow> router_object_step E w obj obj'"
| receive: "Router_receive E w po obj = Some (rc, obj') \<Longrightarrow> router_object_step E w obj obj'"
| process_all: "Router_process_all E w obj = Some (rc, obj') \<Longrightarrow> router_object_step E w obj obj'"
| periodic: "Router_periodic E w timeout obj = Some (rc, obj') \<Longrightarrow> router_object_step E w obj obj'"
| periodic_no_timesync: "Router_periodic_no_timesync E w timeout obj = Some (rc, obj') \<Longrightarrow> router_object_step E w obj obj'"
| announce: "Router_announce_discovery E w obj = Some (rc, obj') \<Longrightarrow> router_object_step E w obj obj'"
| poll: "Router_poll_discovery E w obj = Some (did, obj') \<Longrightarrow> router_object_step E w obj obj'"
| set_sender: "router_object_step E w obj (Router_set_sender nm obj)"
| get_time: "router_object_step E w obj (snd (Router_get_network_time_ms w obj))"
| set_time: "router_object_step E w obj (snd (Router_set_local_network_time w time obj))"
| get_split_time: "router_object_step E w obj (snd (Router_get_network_time w obj))"
| set_date: "router_object_step E w obj (snd (Router_set_local_network_date w yr b1 b2 obj))"
| set_hm: "router_object_step E w obj (snd (Router_set_local_network_time_hm w b1 b2 obj))"
| set_hms: "router_object_step E w obj (snd (Router_set_local_network_time_hms w b1 b2 b3 obj))"
| set_hms_millis: "router_object_step E w obj (snd (Router_set_local_network_time_hms_millis w b1 b2 b3 millis obj))"
| set_hms_nanos: "router_object_step E w obj (snd (Router_set_local_network_time_hms_nanos w b1 b2 b3 nanos obj))"
| set_datetime: "router_object_step E w obj (snd (Router_set_local_network_datetime w yr b1 b2 b3 b4 b5 obj))"
| set_datetime_millis: "router_object_step E w obj (snd (Router_set_local_network_datetime_millis w yr b1 b2 b3 b4 b5 millis obj))"
| set_datetime_nanos: "router_object_step E w obj (snd (Router_set_local_network_datetime_nanos w yr b1 b2 b3 b4 b5 nanos obj))"
| configure: "router_object_step E w obj (Router_configure_timesync w enabled options obj)"
| poll_timesync: "router_object_step E w obj (snd (Router_poll_timesync E w obj))"
| clear_time: "router_object_step E w obj (snd (Router_clear_local_network_time obj))"
| clear_source: "router_object_step E w obj (snd (Router_clear_network_time_source source obj))"

lemma on_node_Some: "on_node f obj = Some (x, obj') \<longleftrightarrow> (\<exists>n. f (node obj) = Some (x, n) \<and> obj' = obj\<lparr>node := n\<rparr>)"
  by (auto simp: on_node_def)

text \<open>Adding a side with options is one call, or two when the side is link-local.\<close>

lemma add_node_side_steps:
  assumes "add_node_side f ll added = (side_id, n')" "step n0 (snd added)" "\<And>j b m. step m (snd (f j b m))"
  shows "rtranclp step n0 n'"
  using assms by (cases added) (auto simp: add_node_side_def split: if_splits intro: rtranclp.rtrancl_into_rtrancl [OF r_into_rtranclp])

lemma relay_object_step_refines: "relay_object_step E w obj obj' \<Longrightarrow> rtranclp (relay_step E w) (node obj) (node obj')"
proof (induction rule: relay_object_step.induct)
  case (add_serialized name f opts obj side_id obj')
  then show ?case
    by (auto simp: Relay_add_side_serialized_def split: prod.splits
        intro!: add_node_side_steps relay_step.add_serialized relay_step.link_local)
next
  case (add_packet name f opts obj side_id obj')
  then show ?case
    by (auto simp: Relay_add_side_packet_def split: prod.splits
        intro!: add_node_side_steps relay_step.add_packet relay_step.link_local)
qed (auto simp: Relay_receive_from_side_def Relay_process_all_def Relay_announce_discovery_def Relay_poll_discovery_def
    Relay_periodic_def on_node_Some seds_relay_process_all_queues_def intro!: r_into_rtranclp intro: relay_step.intros)

interpretation relay_objects: step_frame "relay_object_step E w" "\<lambda>obj obj'. rtranclp (relay_step E w) (node obj) (node obj')"
  for E w
  by unfold_locales (auto intro: relay_object_step_refines)

text \<open>
  (C6) The class \<open>Relay\<close> refines the relay interface. Whatever is done with an object, its node could have got
  there by interface calls; so the byte counters of its queues are exact and within the budget.
\<close>

theorem relay_object_refines:
  assumes "new_Relay = Inr obj0" "rtranclp (relay_object_step E w) obj0 obj"
  shows "rtranclp (relay_step E w) (node obj0) (node obj) \<and>
    unat (tx_queue_bytes (node obj)) = total_cost byte_cost_tx (tx_queue (node obj)) \<and>
    unat (rx_queue_bytes (node obj)) = total_cost byte_cost_rx (rx_queue (node obj)) \<and>
    tx_queue_bytes (node obj) \<le> max_queue_budget default_runtime_memory_config \<and>
    rx_queue_bytes (node obj) \<le> max_queue_budget default_runtime_memory_config"
proof -
  have s: "rtranclp (relay_step E w) (node obj0) (node obj)" by (rule relay_objects.keeps_steps [OF assms(2)])
  have "seds_relay_new_with_memory None = Some (node obj0)"
    using assms(1) by (auto simp: new_Relay_def seds_relay_new_def split: option.splits)
  from new_relay_sound [OF this] have "sound default_runtime_memory_config (node obj0)"
    by (simp add: default_runtime_memory_config_def)
  from sound_fields [OF relays.inv_steps [OF s this]] s show ?thesis by blast
qed

theorem relay_object_refines_witness:
  "\<exists>obj0 obj. new_Relay = Inr obj0 \<and>
     Relay_add_side_serialized sample_world ''uplink'' 1 \<lparr>so_reliable = True, so_link_local = True\<rparr> obj0 = (0, obj) \<and>
     rtranclp (relay_step sample_env sample_world) (node obj0) (node obj)"
proof -
  obtain obj0 where 0: "new_Relay = Inr obj0"
    by (simp add: new_Relay_def seds_relay_new_def seds_relay_new_with_memory_def validate_runtime_memory_config_def
        default_runtime_memory_config_def)
  then have "sides (node obj0) = []"
    by (auto simp: new_Relay_def seds_relay_new_def seds_relay_new_with_memory_def Let_def split: option.splits if_splits)
  then obtain obj where 1:
    "Relay_add_side_serialized sample_world ''uplink'' 1 \<lparr>so_reliable = True, so_link_local = True\<rparr> obj0 = (0, obj)"
    by (simp add: Relay_add_side_serialized_def add_node_side_def seds_relay_add_side_serialized_def add_side_def)
  have "rtranclp (relay_object_step sample_env sample_world) obj0 obj"
    by (rule r_into_rtranclp) (rule relay_object_step.add_serialized [OF 1])
  from relay_object_refines [OF 0 this] 0 1 show ?thesis by blast
qed

lemma sound_timesync: "sound m (r\<lparr>timesync := ts\<rparr>) \<longleftrightarrow> sound m r"
  by (simp add: sound_def owner_queues_inv_def owner_tx_def owner_rx_def)

lemmas router_calls_sound =
  router_step.receive [THEN router_step_sound] router_step.transmit [THEN router_step_sound]
  router_step.transmit_queue [THEN router_step_sound] router_step.process_all [THEN router_step_sound]
  router_step.periodic [THEN router_step_sound] router_step.periodic_no_timesync [THEN router_step_sound]
  router_step.announce [THEN router_step_sound] router_step.poll_discovery [THEN router_step_sound]
  router_step.set_sender [THEN router_step_sound] router_step.get_time [THEN router_step_sound]
  router_step.set_time [THEN router_step_sound] router_step.configure_timesync [THEN router_step_sound]
  router_step.poll_timesync [THEN router_step_sound]

text \<open>The setters of the C interface are \<open>set_network_time_from_fields\<close> with some fields absent.\<close>

lemmas clock_setters =
  seds_router_set_local_network_time_def
  seds_router_set_local_network_date_def seds_router_set_local_network_time_hm_def
  seds_router_set_local_network_time_hms_def seds_router_set_local_network_time_hms_millis_def
  seds_router_set_local_network_time_hms_nanos_def seds_router_set_local_network_datetime_def
  seds_router_set_local_network_datetime_millis_def seds_router_set_local_network_datetime_nanos_def

lemma router_object_step_sound:
  assumes "router_object_step E w obj obj'" "sound m (node obj)"
  shows "sound m (node obj')"
  using assms
proof (induction rule: router_object_step.induct)
  case (add_serialized name f opts obj side_id obj')
  have "rtranclp (router_step E w) (node obj) (node obj')" using add_serialized(1)
    by (auto simp: Router_add_side_serialized_def split: prod.splits
        intro!: add_node_side_steps router_step.add_serialized router_step.link_local)
  then show ?case using routers.inv_steps add_serialized(2) by blast
next
  case (add_packet name f opts obj side_id obj')
  have "rtranclp (router_step E w) (node obj) (node obj')" using add_packet(1)
    by (auto simp: Router_add_side_packet_def split: prod.splits
        intro!: add_node_side_steps router_step.add_packet router_step.link_local)
  then show ?case using routers.inv_steps add_packet(2) by blast
next
  case (log po queue obj rc obj')
  then show ?case
    by (auto simp: Router_log_def Let_def on_node_Some split: if_splits
        intro: router_calls_sound)
next
  case (clear_time obj)
  then show ?case by (simp add: Router_clear_local_network_time_def Let_def sound_timesync)
next
  case (clear_source obj source)
  then show ?case by (simp add: Router_clear_network_time_source_def Let_def sound_timesync)
qed (auto simp: Router_receive_def Router_process_all_def Router_periodic_def Router_periodic_no_timesync_def
    Router_announce_discovery_def Router_poll_discovery_def Router_set_sender_def Router_get_network_time_ms_def
    Router_set_local_network_time_def Router_configure_timesync_def Router_get_network_time_def
    Router_set_local_network_date_def Router_set_local_network_time_hm_def Router_set_local_network_time_hms_def
    Router_set_local_network_time_hms_millis_def Router_set_local_network_time_hms_nanos_def
    Router_set_local_network_datetime_def Router_set_local_network_datetime_millis_def
    Router_set_local_network_datetime_nanos_def clock_setters total_on_node_def get_network_time_node Router_poll_timesync_def on_node_Some
    seds_router_process_all_queues_def Let_def case_prod_beta intro: router_calls_sound)

interpretation router_objects: step_invariant "router_object_step E w" "\<lambda>obj. sound m (node obj)" for E w m
  by unfold_locales (rule router_object_step_sound)

text \<open>
  The class \<open>Router\<close> keeps the queues of its node in order: after any sequence of operations on a new
  object the byte counters are exact and within the budget and the duplicate cache is bounded.
\<close>

theorem router_object_invariant:
  assumes "new_Router E md = Some (Inr (E', obj0))" "rtranclp (router_object_step E' w) obj0 obj"
  shows "unat (tx_queue_bytes (node obj)) = total_cost byte_cost_tx (tx_queue (node obj)) \<and>
    unat (rx_queue_bytes (node obj)) = total_cost byte_cost_rx (rx_queue (node obj)) \<and>
    tx_queue_bytes (node obj) \<le> 102400 \<and> rx_queue_bytes (node obj) \<le> 102400 \<and> length (recent_ids (node obj)) \<le> 128"
proof -
  have "new_router_impl E md [] 2 None = Some (E', Some (node obj0))"
    using assms(1) by (auto simp: new_Router_def seds_router_new_def split: option.splits)
  from new_router_sound [OF this] have "sound default_runtime_memory_config (node obj0)"
    by (simp add: default_runtime_memory_config_def)
  from sound_fields [OF router_objects.inv_steps [OF assms(2) this]] show ?thesis
    by (simp add: default_runtime_memory_config_def)
qed

theorem router_object_invariant_witness:
  "\<exists>obj0. new_Router sample_env Seds_RM_Sink = Some (Inr (sample_env, obj0)) \<and>
     unat (tx_queue_bytes (node (Router_set_sender ''ROCKET'' obj0))) =
       total_cost byte_cost_tx (tx_queue (node (Router_set_sender ''ROCKET'' obj0)))"
proof -
  obtain r0 where "new_router_impl sample_env Seds_RM_Sink [] 2 None = Some (sample_env, Some r0)"
    using new_router_sample .
  then obtain obj0 where 0: "new_Router sample_env Seds_RM_Sink = Some (Inr (sample_env, obj0))"
    by (simp add: new_Router_def seds_router_new_def)
  have "rtranclp (router_object_step sample_env sample_world) obj0 (Router_set_sender ''ROCKET'' obj0)"
    by (rule r_into_rtranclp) (rule router_object_step.set_sender)
  from router_object_invariant [OF 0 this] 0 show ?thesis by blast
qed

text \<open>
  Logging an object. The view of an object is accepted by the interface as exactly the packet of the
  object, which is then queued, if its endpoints are registered; the constructor does not check
  this, and logging an object with another endpoint is refused and changes nothing.
\<close>

theorem packet_object_logged:
  assumes "new_Packet E t eps from ts bs = Inr po"
  shows "Router_log E w po True obj =
    (if list_all (valid_endpoint E) eps
     then let (rc, n) = transmit_packet_queue (Packet_data po) (node obj) in Some (rc, obj\<lparr>node := n\<rparr>)
     else Some (SEDS_BAD_ARG, obj))"
proof -
  note d = Packet_data_new [OF assms]
  have "packet_from_view E (Some (Packet_view po)) = Some (if list_all (valid_endpoint E) eps then Some (Packet_data po) else None)"
    using d by (simp add: Packet_view_new [OF assms] packet_from_view_def fill_view_def read_ptr_def)
  then show ?thesis
    by (simp add: Router_log_def on_node_def seds_router_transmit_message_queue_def Let_def case_prod_beta)
qed

theorem packet_object_logged_witness:
  "\<exists>po obj0. new_Router sample_env Seds_RM_Sink = Some (Inr (sample_env, obj0)) \<and>
     new_Packet sample_env GPS [77] ''ROCKET'' 1000 [1, 2, 3] = Inr po \<and>
     Router_log sample_env sample_world po True obj0 = Some (SEDS_BAD_ARG, obj0)"
proof -
  obtain r0 where "new_router_impl sample_env Seds_RM_Sink [] 2 None = Some (sample_env, Some r0)"
    using new_router_sample .
  then obtain obj0 where 0: "new_Router sample_env Seds_RM_Sink = Some (Inr (sample_env, obj0))"
    by (simp add: new_Router_def seds_router_new_def)
  obtain po where 1: "new_Packet sample_env GPS [77] ''ROCKET'' 1000 [1, 2, 3] = Inr po"
    by (simp add: new_Packet_cases gps_size)
  have "\<not> valid_endpoint sample_env 77" by (simp add: valid_endpoint_def find_endpoint_def sample_defs)
  with packet_object_logged [OF 1, of sample_world obj0] 0 1 show ?thesis by simp
qed

end
