(* ===== verification/Wrapper.thy ===== *)
theory Wrapper
  imports Packed Export Managed Relay_Interface
begin

text \<open>
  The C wrapper of \<open>c-wrapper/sedsnet_c_wrapper.c\<close>: a node with its primary side and the error of its
  initialisation, and the two nodes of the program that are kept in static variables. A node that was
  not created is a null pointer, here \<open>None\<close>; pointers to the wrapper records themselves are not null.
\<close>

section \<open>Records\<close>

record 'n wrapper =
  handle :: "'n option"
  created :: u8
  primary_side :: i32
  init_error :: i32

record wrapper_router = "router wrapper" +
  start_time_ms :: u64

type_synonym wrapper_relay = "relay wrapper"

record globals =
  g_router :: wrapper_router
  g_relay :: wrapper_relay

definition SEDS_SIDE_INVALID :: i32 where
  "SEDS_SIDE_INVALID = -1"

definition seds_side_is_valid :: "i32 \<Rightarrow> bool" where
  "seds_side_is_valid side_id \<longleftrightarrow> 0 \<le> side_id"

text \<open>The bytes of the records are 0 after \<open>memset\<close>, and before the program starts.\<close>

definition zero_router :: wrapper_router where
  "zero_router = \<lparr>handle = None, created = 0, primary_side = 0, init_error = 0, start_time_ms = 0\<rparr>"

definition zero_relay :: wrapper_relay where
  "zero_relay = \<lparr>handle = None, created = 0, primary_side = 0, init_error = 0\<rparr>"

definition initial_globals :: globals where
  "initial_globals = \<lparr>g_router = zero_router, g_relay = zero_relay\<rparr>"

text \<open>A sender name is a pointer and a length; \<open>Inl n\<close> is a null pointer with the length \<open>n\<close>.\<close>

record router_config =
  cfg_mode :: router_mode
  cfg_handlers :: "local_endpoint list"
  cfg_sender :: "nat + string"
  cfg_e2e_mode :: u8
  cfg_e2e_key_id :: u32
  cfg_configure_timesync :: bool
  cfg_timesync_role :: u32
  cfg_timesync_priority :: u64
  cfg_timesync_source_timeout_ms :: u64
  cfg_timesync_announce_interval_ms :: u64
  cfg_timesync_request_interval_ms :: u64
  cfg_announce_discovery :: bool

record relay_config =
  rcfg_sender :: "nat + string"
  rcfg_announce_discovery :: bool

text \<open>The build enables cryptography, so that the default mode of encryption is 2, preferred.\<close>

definition seds_wrapper_router_default_config :: router_config where
  "seds_wrapper_router_default_config =
     \<lparr>cfg_mode = Seds_RM_Relay, cfg_handlers = [], cfg_sender = Inl 0, cfg_e2e_mode = 2, cfg_e2e_key_id = 0,
      cfg_configure_timesync = False, cfg_timesync_role = 0, cfg_timesync_priority = 0,
      cfg_timesync_source_timeout_ms = 5000, cfg_timesync_announce_interval_ms = 2000,
      cfg_timesync_request_interval_ms = 2000, cfg_announce_discovery = True\<rparr>"

definition seds_wrapper_relay_default_config :: relay_config where
  "seds_wrapper_relay_default_config = \<lparr>rcfg_sender = Inl 0, rcfg_announce_discovery = True\<rparr>"

section \<open>Initialisation\<close>

definition init_failed :: "seds_result \<Rightarrow> ('n, 'z) wrapper_scheme \<Rightarrow> seds_result \<times> ('n, 'z) wrapper_scheme" where
  "init_failed rc nd = (rc, nd\<lparr>init_error := result_code rc\<rparr>)"

definition announced ::
    "(seds_result \<times> 'n) option \<Rightarrow> ('n, 'z) wrapper_scheme \<Rightarrow> (seds_result \<times> ('n, 'z) wrapper_scheme) option" where
  "announced step nd =
     map_option (\<lambda>(rc, n). let nd' = nd\<lparr>handle := Some n\<rparr> in if rc \<noteq> SEDS_OK then init_failed rc nd' else (SEDS_OK, nd')) step"

text \<open>
  Setting the sender and configuring the clock cannot fail with the arguments they get here. The
  node that was in the record before is not freed.
\<close>

definition seds_wrapper_router_init ::
    "env \<Rightarrow> world \<Rightarrow> router_config option \<Rightarrow> wrapper_router \<Rightarrow> (env \<times> seds_result \<times> wrapper_router) option" where
  "seds_wrapper_router_init E w cfg nd =
     (case cfg of
        None \<Rightarrow> Some (E, SEDS_BAD_ARG, nd)
      | Some c \<Rightarrow>
          let nd = zero_router\<lparr>primary_side := SEDS_SIDE_INVALID, init_error := result_code SEDS_OK\<rparr> in
          (case seds_router_new_ex E (cfg_mode c) (cfg_handlers c) (cfg_e2e_mode c) of
             None \<Rightarrow> None
           | Some (E', None) \<Rightarrow> Some (E', init_failed SEDS_ERR nd)
           | Some (E', Some r) \<Rightarrow>
               let nd = nd\<lparr>created := 1\<rparr>;
                   r = (case cfg_sender c of
                          Inl _ \<Rightarrow> r
                        | Inr s \<Rightarrow> if s \<noteq> [] then seds_router_set_sender_id s r else r);
                   r = (if cfg_configure_timesync c then
                          seds_router_configure_timesync w True (cfg_timesync_role c) (cfg_timesync_priority c)
                            (cfg_timesync_source_timeout_ms c) (cfg_timesync_announce_interval_ms c)
                            (cfg_timesync_request_interval_ms c) r
                        else r)
               in if cfg_announce_discovery c
                  then map_option (Pair E') (announced (seds_router_announce_discovery E' w r) nd)
                  else Some (E', SEDS_OK, nd\<lparr>handle := Some r\<rparr>)))"

definition seds_wrapper_relay_init ::
    "env \<Rightarrow> world \<Rightarrow> relay_config option \<Rightarrow> wrapper_relay \<Rightarrow> (seds_result \<times> wrapper_relay) option" where
  "seds_wrapper_relay_init E w cfg nd =
     (case cfg of
        None \<Rightarrow> Some (SEDS_BAD_ARG, nd)
      | Some c \<Rightarrow>
          let nd = zero_relay\<lparr>primary_side := SEDS_SIDE_INVALID, init_error := result_code SEDS_OK\<rparr> in
          (case seds_relay_new of
             None \<Rightarrow> Some (init_failed SEDS_ERR nd)
           | Some r \<Rightarrow>
               let nd = nd\<lparr>created := 1\<rparr>;
                   (rc, r) = (case rcfg_sender c of
                                Inl _ \<Rightarrow> (SEDS_OK, r)
                              | Inr s \<Rightarrow> if s \<noteq> [] then seds_relay_set_sender_id (Inr s) r else (SEDS_OK, r))
               in if rc \<noteq> SEDS_OK then Some (init_failed rc (nd\<lparr>handle := Some r\<rparr>))
                  else if rcfg_announce_discovery c then announced (seds_relay_announce_discovery E w r) nd
                  else Some (SEDS_OK, nd\<lparr>handle := Some r\<rparr>)))"

definition seds_global_router_init ::
    "env \<Rightarrow> world \<Rightarrow> router_config option \<Rightarrow> globals \<Rightarrow> (env \<times> seds_result \<times> globals) option" where
  "seds_global_router_init E w cfg g =
     map_option (\<lambda>(E', rc, nd). (E', rc, g\<lparr>g_router := nd\<rparr>)) (seds_wrapper_router_init E w cfg (g_router g))"

definition seds_global_relay_init :: "env \<Rightarrow> world \<Rightarrow> relay_config option \<Rightarrow> globals \<Rightarrow> (seds_result \<times> globals) option" where
  "seds_global_relay_init E w cfg g =
     map_option (\<lambda>(rc, nd). (rc, g\<lparr>g_relay := nd\<rparr>)) (seds_wrapper_relay_init E w cfg (g_relay g))"

section \<open>Calls\<close>

text \<open>
  Every other function rejects a node that was not created and otherwise calls a function of the
  interface: one that may not return, one that does, one that cannot fail, one that only reads.
\<close>

definition call_partial ::
    "'x \<Rightarrow> ('n \<Rightarrow> ('x \<times> 'n) option) \<Rightarrow> ('n, 'z) wrapper_scheme \<Rightarrow> ('x \<times> ('n, 'z) wrapper_scheme) option" where
  "call_partial bad f nd =
     (case handle nd of
        None \<Rightarrow> Some (bad, nd)
      | Some n \<Rightarrow> map_option (\<lambda>(x, n'). (x, nd\<lparr>handle := Some n'\<rparr>)) (f n))"

definition call_node :: "'x \<Rightarrow> ('n \<Rightarrow> 'x \<times> 'n) \<Rightarrow> ('n, 'z) wrapper_scheme \<Rightarrow> 'x \<times> ('n, 'z) wrapper_scheme" where
  "call_node bad f nd =
     (case handle nd of
        None \<Rightarrow> (bad, nd)
      | Some n \<Rightarrow> let (x, n') = f n in (x, nd\<lparr>handle := Some n'\<rparr>))"

definition call_setter :: "('n \<Rightarrow> 'n) \<Rightarrow> ('n, 'z) wrapper_scheme \<Rightarrow> seds_result \<times> ('n, 'z) wrapper_scheme" where
  "call_setter f = call_node SEDS_BAD_ARG (\<lambda>n. (SEDS_OK, f n))"

definition call_void :: "('n \<Rightarrow> 'n) \<Rightarrow> ('n, 'z) wrapper_scheme \<Rightarrow> ('n, 'z) wrapper_scheme" where
  "call_void f nd = snd (call_setter f nd)"

definition call_poll :: "('n \<Rightarrow> bool \<times> 'n) \<Rightarrow> ('n, 'z) wrapper_scheme \<Rightarrow> (seds_result + bool) \<times> ('n, 'z) wrapper_scheme" where
  "call_poll f = call_node (Inl SEDS_BAD_ARG) (\<lambda>n. let (did, n') = f n in (Inr did, n'))"

definition call_poll_partial ::
    "('n \<Rightarrow> (bool \<times> 'n) option) \<Rightarrow> ('n, 'z) wrapper_scheme \<Rightarrow> ((seds_result + bool) \<times> ('n, 'z) wrapper_scheme) option" where
  "call_poll_partial f = call_partial (Inl SEDS_BAD_ARG) (\<lambda>n. map_option (\<lambda>(did, n'). (Inr did, n')) (f n))"

definition read_node :: "'x \<Rightarrow> ('n \<Rightarrow> 'x) \<Rightarrow> ('n, 'z) wrapper_scheme \<Rightarrow> 'x" where
  "read_node bad f nd = (case handle nd of None \<Rightarrow> bad | Some n \<Rightarrow> f n)"

text \<open>The first side that is added becomes the primary side.\<close>

definition add_wrapper_side :: "('n \<Rightarrow> i32 \<times> 'n) \<Rightarrow> ('n, 'z) wrapper_scheme \<Rightarrow> i32 \<times> ('n, 'z) wrapper_scheme" where
  "add_wrapper_side add nd =
     (case handle nd of
        None \<Rightarrow> (SEDS_SIDE_INVALID, nd)
      | Some n \<Rightarrow>
          let (side_id, n') = add n; nd' = nd\<lparr>handle := Some n'\<rparr>
          in (side_id, if seds_side_is_valid side_id \<and> \<not> seds_side_is_valid (primary_side nd')
                       then nd'\<lparr>primary_side := side_id\<rparr> else nd'))"

definition free_wrapper :: "('n, 'z) wrapper_scheme \<Rightarrow> ('n, 'z) wrapper_scheme" where
  "free_wrapper nd =
     (case handle nd of
        None \<Rightarrow> nd
      | Some _ \<Rightarrow> nd\<lparr>handle := None, created := 0, primary_side := SEDS_SIDE_INVALID\<rparr>)"

text \<open>The functions on the static variables.\<close>

definition on_g_router :: "(wrapper_router \<Rightarrow> 'x \<times> wrapper_router) \<Rightarrow> globals \<Rightarrow> 'x \<times> globals" where
  "on_g_router f g = (let (x, nd) = f (g_router g) in (x, g\<lparr>g_router := nd\<rparr>))"

definition on_g_router_partial :: "(wrapper_router \<Rightarrow> ('x \<times> wrapper_router) option) \<Rightarrow> globals \<Rightarrow> ('x \<times> globals) option" where
  "on_g_router_partial f g = map_option (\<lambda>(x, nd). (x, g\<lparr>g_router := nd\<rparr>)) (f (g_router g))"

definition void_g_router :: "(wrapper_router \<Rightarrow> wrapper_router) \<Rightarrow> globals \<Rightarrow> globals" where
  "void_g_router f g = g\<lparr>g_router := f (g_router g)\<rparr>"

definition on_g_relay :: "(wrapper_relay \<Rightarrow> 'x \<times> wrapper_relay) \<Rightarrow> globals \<Rightarrow> 'x \<times> globals" where
  "on_g_relay f g = (let (x, nd) = f (g_relay g) in (x, g\<lparr>g_relay := nd\<rparr>))"

definition on_g_relay_partial :: "(wrapper_relay \<Rightarrow> ('x \<times> wrapper_relay) option) \<Rightarrow> globals \<Rightarrow> ('x \<times> globals) option" where
  "on_g_relay_partial f g = map_option (\<lambda>(x, nd). (x, g\<lparr>g_relay := nd\<rparr>)) (f (g_relay g))"

definition void_g_relay :: "(wrapper_relay \<Rightarrow> wrapper_relay) \<Rightarrow> globals \<Rightarrow> globals" where
  "void_g_relay f g = g\<lparr>g_relay := f (g_relay g)\<rparr>"

section \<open>The router\<close>

text \<open>Freeing gives the node back; the record remains, without a node and without a primary side.\<close>

definition seds_wrapper_router_free :: "wrapper_router \<Rightarrow> wrapper_router" where
  "seds_wrapper_router_free = free_wrapper"

definition seds_global_router_free :: "globals \<Rightarrow> globals" where
  "seds_global_router_free = void_g_router seds_wrapper_router_free"

definition seds_wrapper_router_handle :: "wrapper_router \<Rightarrow> router option" where
  "seds_wrapper_router_handle = handle"

definition seds_global_router_handle :: "globals \<Rightarrow> router option" where
  "seds_global_router_handle g = seds_wrapper_router_handle (g_router g)"

definition seds_wrapper_router_init_error :: "wrapper_router \<Rightarrow> i32" where
  "seds_wrapper_router_init_error = init_error"

definition seds_global_router_init_error :: "globals \<Rightarrow> i32" where
  "seds_global_router_init_error g = seds_wrapper_router_init_error (g_router g)"

definition seds_wrapper_router_add_packed_side :: "string \<Rightarrow> fn \<Rightarrow> bool \<Rightarrow> wrapper_router \<Rightarrow> i32 \<times> wrapper_router" where
  "seds_wrapper_router_add_packed_side name tx rel = add_wrapper_side (seds_router_add_side_packed name tx rel)"

definition seds_global_router_add_packed_side :: "string \<Rightarrow> fn \<Rightarrow> bool \<Rightarrow> globals \<Rightarrow> i32 \<times> globals" where
  "seds_global_router_add_packed_side name tx rel = on_g_router (seds_wrapper_router_add_packed_side name tx rel)"

definition seds_wrapper_router_add_packed_small_side ::
    "string \<Rightarrow> fn \<Rightarrow> bool \<Rightarrow> nat \<Rightarrow> wrapper_router \<Rightarrow> i32 \<times> wrapper_router" where
  "seds_wrapper_router_add_packed_small_side name tx rel frame_limit =
     add_wrapper_side (seds_router_add_side_packed_small_packets name tx rel frame_limit)"

definition seds_global_router_add_packed_small_side :: "string \<Rightarrow> fn \<Rightarrow> bool \<Rightarrow> nat \<Rightarrow> globals \<Rightarrow> i32 \<times> globals" where
  "seds_global_router_add_packed_small_side name tx rel frame_limit =
     on_g_router (seds_wrapper_router_add_packed_small_side name tx rel frame_limit)"

definition seds_wrapper_router_add_packet_side :: "string \<Rightarrow> fn \<Rightarrow> bool \<Rightarrow> wrapper_router \<Rightarrow> i32 \<times> wrapper_router" where
  "seds_wrapper_router_add_packet_side name tx rel = add_wrapper_side (seds_router_add_side_packet name tx rel)"

definition seds_global_router_add_packet_side :: "string \<Rightarrow> fn \<Rightarrow> bool \<Rightarrow> globals \<Rightarrow> i32 \<times> globals" where
  "seds_global_router_add_packet_side name tx rel = on_g_router (seds_wrapper_router_add_packet_side name tx rel)"

definition seds_wrapper_router_rx_packed ::
    "env \<Rightarrow> bytes \<Rightarrow> wrapper_router \<Rightarrow> (seds_result \<times> wrapper_router) option" where
  "seds_wrapper_router_rx_packed E bs = call_partial SEDS_BAD_ARG (seds_router_rx_packed_packet_to_queue E bs)"

definition seds_global_router_rx_packed :: "env \<Rightarrow> bytes \<Rightarrow> globals \<Rightarrow> (seds_result \<times> globals) option" where
  "seds_global_router_rx_packed E bs = on_g_router_partial (seds_wrapper_router_rx_packed E bs)"

definition seds_wrapper_router_rx_packed_from_side ::
    "env \<Rightarrow> world \<Rightarrow> i32 \<Rightarrow> bytes \<Rightarrow> wrapper_router \<Rightarrow> (seds_result \<times> wrapper_router) option" where
  "seds_wrapper_router_rx_packed_from_side E w side_id bs nd =
     (if \<not> seds_side_is_valid side_id then Some (SEDS_BAD_ARG, nd)
      else call_partial SEDS_BAD_ARG (seds_router_rx_packed_packet_to_queue_from_side E w (word_of_int side_id) bs) nd)"

definition seds_global_router_rx_packed_from_side ::
    "env \<Rightarrow> world \<Rightarrow> i32 \<Rightarrow> bytes \<Rightarrow> globals \<Rightarrow> (seds_result \<times> globals) option" where
  "seds_global_router_rx_packed_from_side E w side_id bs =
     on_g_router_partial (seds_wrapper_router_rx_packed_from_side E w side_id bs)"

definition seds_wrapper_router_process ::
    "env \<Rightarrow> world \<Rightarrow> u32 \<Rightarrow> wrapper_router \<Rightarrow> (seds_result \<times> wrapper_router) option" where
  "seds_wrapper_router_process E w timeout =
     call_partial SEDS_BAD_ARG (seds_router_process_all_queues_with_timeout E w timeout)"

definition seds_global_router_process :: "env \<Rightarrow> world \<Rightarrow> u32 \<Rightarrow> globals \<Rightarrow> (seds_result \<times> globals) option" where
  "seds_global_router_process E w timeout = on_g_router_partial (seds_wrapper_router_process E w timeout)"

definition seds_wrapper_router_periodic ::
    "env \<Rightarrow> world \<Rightarrow> u32 \<Rightarrow> wrapper_router \<Rightarrow> (seds_result \<times> wrapper_router) option" where
  "seds_wrapper_router_periodic E w timeout = call_partial SEDS_BAD_ARG (seds_router_periodic E w timeout)"

definition seds_global_router_periodic :: "env \<Rightarrow> world \<Rightarrow> u32 \<Rightarrow> globals \<Rightarrow> (seds_result \<times> globals) option" where
  "seds_global_router_periodic E w timeout = on_g_router_partial (seds_wrapper_router_periodic E w timeout)"

definition seds_global_router_periodic_no_timesync ::
    "env \<Rightarrow> world \<Rightarrow> u32 \<Rightarrow> globals \<Rightarrow> (seds_result \<times> globals) option" where
  "seds_global_router_periodic_no_timesync E w timeout =
     on_g_router_partial (call_partial SEDS_BAD_ARG (seds_router_periodic_no_timesync E w timeout))"

definition seds_wrapper_router_poll_timesync ::
    "env \<Rightarrow> world \<Rightarrow> wrapper_router \<Rightarrow> (seds_result + bool) \<times> wrapper_router" where
  "seds_wrapper_router_poll_timesync E w = call_poll (seds_router_poll_timesync E w)"

definition seds_global_router_poll_timesync :: "env \<Rightarrow> world \<Rightarrow> globals \<Rightarrow> (seds_result + bool) \<times> globals" where
  "seds_global_router_poll_timesync E w = on_g_router (seds_wrapper_router_poll_timesync E w)"

definition seds_wrapper_router_announce_discovery ::
    "env \<Rightarrow> world \<Rightarrow> wrapper_router \<Rightarrow> (seds_result \<times> wrapper_router) option" where
  "seds_wrapper_router_announce_discovery E w = call_partial SEDS_BAD_ARG (seds_router_announce_discovery E w)"

definition seds_global_router_announce_discovery :: "env \<Rightarrow> world \<Rightarrow> globals \<Rightarrow> (seds_result \<times> globals) option" where
  "seds_global_router_announce_discovery E w = on_g_router_partial (seds_wrapper_router_announce_discovery E w)"

definition seds_wrapper_router_announce_leave :: "wrapper_router \<Rightarrow> seds_result \<times> wrapper_router" where
  "seds_wrapper_router_announce_leave = call_node SEDS_BAD_ARG seds_router_announce_leave"

definition seds_global_router_announce_leave :: "globals \<Rightarrow> seds_result \<times> globals" where
  "seds_global_router_announce_leave = on_g_router seds_wrapper_router_announce_leave"

definition seds_wrapper_router_poll_discovery ::
    "env \<Rightarrow> world \<Rightarrow> wrapper_router \<Rightarrow> ((seds_result + bool) \<times> wrapper_router) option" where
  "seds_wrapper_router_poll_discovery E w = call_poll_partial (seds_router_poll_discovery E w)"

definition seds_global_router_poll_discovery ::
    "env \<Rightarrow> world \<Rightarrow> globals \<Rightarrow> ((seds_result + bool) \<times> globals) option" where
  "seds_global_router_poll_discovery E w = on_g_router_partial (seds_wrapper_router_poll_discovery E w)"

section \<open>Managed variables of the router\<close>

definition seds_wrapper_router_enable_managed_variable ::
    "env \<Rightarrow> u32 \<Rightarrow> wrapper_router \<Rightarrow> seds_result \<times> wrapper_router" where
  "seds_wrapper_router_enable_managed_variable E t = call_node SEDS_BAD_ARG (seds_router_enable_managed_variable E t)"

definition seds_global_router_enable_managed_variable :: "env \<Rightarrow> u32 \<Rightarrow> globals \<Rightarrow> seds_result \<times> globals" where
  "seds_global_router_enable_managed_variable E t = on_g_router (seds_wrapper_router_enable_managed_variable E t)"

definition seds_wrapper_router_enable_network_variable ::
    "env \<Rightarrow> u32 \<Rightarrow> bool \<Rightarrow> bool \<Rightarrow> wrapper_router \<Rightarrow> seds_result \<times> wrapper_router" where
  "seds_wrapper_router_enable_network_variable E t can_rd can_wr =
     call_node SEDS_BAD_ARG (seds_router_enable_network_variable E t can_rd can_wr)"

definition seds_global_router_enable_network_variable ::
    "env \<Rightarrow> u32 \<Rightarrow> bool \<Rightarrow> bool \<Rightarrow> globals \<Rightarrow> seds_result \<times> globals" where
  "seds_global_router_enable_network_variable E t can_rd can_wr =
     on_g_router (seds_wrapper_router_enable_network_variable E t can_rd can_wr)"

definition seds_wrapper_router_on_network_variable_update ::
    "env \<Rightarrow> u32 \<Rightarrow> fn option \<Rightarrow> wrapper_router \<Rightarrow> seds_result \<times> wrapper_router" where
  "seds_wrapper_router_on_network_variable_update E t cb nd =
     (if cb = None then (SEDS_BAD_ARG, nd) else call_node SEDS_BAD_ARG (seds_router_on_network_variable_update E t cb) nd)"

definition seds_global_router_on_network_variable_update ::
    "env \<Rightarrow> u32 \<Rightarrow> fn option \<Rightarrow> globals \<Rightarrow> seds_result \<times> globals" where
  "seds_global_router_on_network_variable_update E t cb =
     on_g_router (seds_wrapper_router_on_network_variable_update E t cb)"

definition seds_wrapper_router_disable_managed_variable :: "u32 \<Rightarrow> wrapper_router \<Rightarrow> wrapper_router" where
  "seds_wrapper_router_disable_managed_variable t = call_void (seds_router_disable_managed_variable t)"

definition seds_global_router_disable_managed_variable :: "u32 \<Rightarrow> globals \<Rightarrow> globals" where
  "seds_global_router_disable_managed_variable t = void_g_router (seds_wrapper_router_disable_managed_variable t)"

definition seds_wrapper_router_request_managed_variable ::
    "env \<Rightarrow> world \<Rightarrow> u32 \<Rightarrow> wrapper_router \<Rightarrow> seds_result \<times> wrapper_router" where
  "seds_wrapper_router_request_managed_variable E w t =
     call_node SEDS_BAD_ARG (seds_router_request_managed_variable E w t)"

definition seds_global_router_request_managed_variable :: "env \<Rightarrow> world \<Rightarrow> u32 \<Rightarrow> globals \<Rightarrow> seds_result \<times> globals" where
  "seds_global_router_request_managed_variable E w t = on_g_router (seds_wrapper_router_request_managed_variable E w t)"

definition seds_wrapper_router_set_network_variable_packed ::
    "env \<Rightarrow> world \<Rightarrow> bytes \<Rightarrow> wrapper_router \<Rightarrow> (seds_result \<times> wrapper_router) option" where
  "seds_wrapper_router_set_network_variable_packed E w bs =
     call_partial SEDS_BAD_ARG (seds_router_set_network_variable_packed E w bs)"

definition seds_global_router_set_network_variable_packed ::
    "env \<Rightarrow> world \<Rightarrow> bytes \<Rightarrow> globals \<Rightarrow> (seds_result \<times> globals) option" where
  "seds_global_router_set_network_variable_packed E w bs =
     on_g_router_partial (seds_wrapper_router_set_network_variable_packed E w bs)"

definition seds_wrapper_router_seed_managed_variable_packed ::
    "env \<Rightarrow> world \<Rightarrow> bytes \<Rightarrow> wrapper_router \<Rightarrow> (seds_result \<times> wrapper_router) option" where
  "seds_wrapper_router_seed_managed_variable_packed E w bs =
     call_partial SEDS_BAD_ARG (seds_router_seed_managed_variable_packed E w bs)"

definition seds_global_router_seed_managed_variable_packed ::
    "env \<Rightarrow> world \<Rightarrow> bytes \<Rightarrow> globals \<Rightarrow> (seds_result \<times> globals) option" where
  "seds_global_router_seed_managed_variable_packed E w bs =
     on_g_router_partial (seds_wrapper_router_seed_managed_variable_packed E w bs)"

definition seds_wrapper_router_cached_managed_variable_packed_len :: "u32 \<Rightarrow> wrapper_router \<Rightarrow> i32" where
  "seds_wrapper_router_cached_managed_variable_packed_len t =
     read_node (result_code SEDS_BAD_ARG) (seds_router_cached_managed_variable_packed_len t)"

definition seds_global_router_cached_managed_variable_packed_len :: "u32 \<Rightarrow> globals \<Rightarrow> i32" where
  "seds_global_router_cached_managed_variable_packed_len t g =
     seds_wrapper_router_cached_managed_variable_packed_len t (g_router g)"

definition seds_wrapper_router_cached_managed_variable_packed ::
    "u32 \<Rightarrow> bool \<Rightarrow> nat \<Rightarrow> wrapper_router \<Rightarrow> i32 \<times> bytes" where
  "seds_wrapper_router_cached_managed_variable_packed t null cap =
     read_node (result_code SEDS_BAD_ARG, []) (seds_router_cached_managed_variable_packed t null cap)"

definition seds_global_router_cached_managed_variable_packed :: "u32 \<Rightarrow> bool \<Rightarrow> nat \<Rightarrow> globals \<Rightarrow> i32 \<times> bytes" where
  "seds_global_router_cached_managed_variable_packed t null cap g =
     seds_wrapper_router_cached_managed_variable_packed t null cap (g_router g)"

definition seds_wrapper_router_get_network_variable_packed_len ::
    "env \<Rightarrow> world \<Rightarrow> u32 \<Rightarrow> u32 \<Rightarrow> wrapper_router \<Rightarrow> i32 \<times> wrapper_router" where
  "seds_wrapper_router_get_network_variable_packed_len E w t stale_after_ms =
     call_node (result_code SEDS_BAD_ARG) (seds_router_get_network_variable_packed_len E w t stale_after_ms)"

definition seds_global_router_get_network_variable_packed_len ::
    "env \<Rightarrow> world \<Rightarrow> u32 \<Rightarrow> u32 \<Rightarrow> globals \<Rightarrow> i32 \<times> globals" where
  "seds_global_router_get_network_variable_packed_len E w t stale_after_ms =
     on_g_router (seds_wrapper_router_get_network_variable_packed_len E w t stale_after_ms)"

definition seds_wrapper_router_get_network_variable_packed ::
    "env \<Rightarrow> world \<Rightarrow> u32 \<Rightarrow> u32 \<Rightarrow> bool \<Rightarrow> nat \<Rightarrow> wrapper_router \<Rightarrow> (i32 \<times> bytes) \<times> wrapper_router" where
  "seds_wrapper_router_get_network_variable_packed E w t stale_after_ms null cap =
     call_node (result_code SEDS_BAD_ARG, []) (seds_router_get_network_variable_packed E w t stale_after_ms null cap)"

definition seds_global_router_get_network_variable_packed ::
    "env \<Rightarrow> world \<Rightarrow> u32 \<Rightarrow> u32 \<Rightarrow> bool \<Rightarrow> nat \<Rightarrow> globals \<Rightarrow> (i32 \<times> bytes) \<times> globals" where
  "seds_global_router_get_network_variable_packed E w t stale_after_ms null cap =
     on_g_router (seds_wrapper_router_get_network_variable_packed E w t stale_after_ms null cap)"

section \<open>Logging\<close>

definition seds_wrapper_router_log_typed ::
    "env \<Rightarrow> world \<Rightarrow> u32 \<Rightarrow> bytes option \<Rightarrow> nat \<Rightarrow> nat \<Rightarrow> u64 option \<Rightarrow> bool \<Rightarrow> wrapper_router \<Rightarrow> (seds_result \<times> wrapper_router) option" where
  "seds_wrapper_router_log_typed E w t data count esize ts queue =
     call_partial SEDS_BAD_ARG (seds_router_log_typed_ex E w t data count esize ts queue)"

definition seds_global_router_log_typed ::
    "env \<Rightarrow> world \<Rightarrow> u32 \<Rightarrow> bytes option \<Rightarrow> nat \<Rightarrow> nat \<Rightarrow> u64 option \<Rightarrow> bool \<Rightarrow> globals \<Rightarrow> (seds_result \<times> globals) option" where
  "seds_global_router_log_typed E w t data count esize ts queue =
     on_g_router_partial (seds_wrapper_router_log_typed E w t data count esize ts queue)"

text \<open>\<open>strlen\<close> of a pointer that may be null.\<close>

definition strlen :: "bytes option \<Rightarrow> nat" where
  "strlen text = (case text of None \<Rightarrow> 0 | Some bs \<Rightarrow> length (takeWhile (\<lambda>b. b \<noteq> 0) bs))"

definition seds_wrapper_router_log_string ::
    "env \<Rightarrow> world \<Rightarrow> u32 \<Rightarrow> bytes option \<Rightarrow> u64 option \<Rightarrow> bool \<Rightarrow> wrapper_router \<Rightarrow> (seds_result \<times> wrapper_router) option" where
  "seds_wrapper_router_log_string E w t str ts queue =
     call_partial SEDS_BAD_ARG (seds_router_log_string_ex E w t str (strlen str) ts queue)"

definition seds_global_router_log_string ::
    "env \<Rightarrow> world \<Rightarrow> u32 \<Rightarrow> bytes option \<Rightarrow> u64 option \<Rightarrow> bool \<Rightarrow> globals \<Rightarrow> (seds_result \<times> globals) option" where
  "seds_global_router_log_string E w t str ts queue =
     on_g_router_partial (seds_wrapper_router_log_string E w t str ts queue)"

section \<open>Sides, routes, time and exports of the global router\<close>

definition seds_global_router_remove_side :: "world \<Rightarrow> i32 \<Rightarrow> globals \<Rightarrow> seds_result \<times> globals" where
  "seds_global_router_remove_side w side_id = on_g_router (call_node SEDS_BAD_ARG (seds_router_remove_side w side_id))"

definition seds_global_router_set_side_ingress_enabled :: "world \<Rightarrow> i32 \<Rightarrow> bool \<Rightarrow> globals \<Rightarrow> seds_result \<times> globals" where
  "seds_global_router_set_side_ingress_enabled w side_id enabled =
     on_g_router (call_node SEDS_BAD_ARG (seds_router_set_side_ingress_enabled w side_id enabled))"

definition seds_global_router_set_side_egress_enabled :: "world \<Rightarrow> i32 \<Rightarrow> bool \<Rightarrow> globals \<Rightarrow> seds_result \<times> globals" where
  "seds_global_router_set_side_egress_enabled w side_id enabled =
     on_g_router (call_node SEDS_BAD_ARG (seds_router_set_side_egress_enabled w side_id enabled))"

definition seds_global_router_set_route :: "i32 \<Rightarrow> i32 \<Rightarrow> bool \<Rightarrow> globals \<Rightarrow> seds_result \<times> globals" where
  "seds_global_router_set_route src dst enabled = on_g_router (call_setter (seds_router_set_route src dst enabled))"

definition seds_global_router_clear_route :: "i32 \<Rightarrow> i32 \<Rightarrow> globals \<Rightarrow> seds_result \<times> globals" where
  "seds_global_router_clear_route src dst = on_g_router (call_setter (seds_router_clear_route src dst))"

definition seds_global_router_set_typed_route ::
    "env \<Rightarrow> i32 \<Rightarrow> u32 \<Rightarrow> i32 \<Rightarrow> bool \<Rightarrow> globals \<Rightarrow> seds_result \<times> globals" where
  "seds_global_router_set_typed_route E src t dst enabled =
     on_g_router (call_node SEDS_BAD_ARG (seds_router_set_typed_route E src t dst enabled))"

definition seds_global_router_clear_typed_route :: "i32 \<Rightarrow> u32 \<Rightarrow> i32 \<Rightarrow> globals \<Rightarrow> seds_result \<times> globals" where
  "seds_global_router_clear_typed_route src t dst = on_g_router (call_setter (seds_router_clear_typed_route src t dst))"

definition seds_global_router_set_source_route_mode ::
    "i32 \<Rightarrow> route_selection_mode \<Rightarrow> globals \<Rightarrow> seds_result \<times> globals" where
  "seds_global_router_set_source_route_mode src m = on_g_router (call_setter (seds_router_set_source_route_mode src m))"

definition seds_global_router_clear_source_route_mode :: "i32 \<Rightarrow> globals \<Rightarrow> seds_result \<times> globals" where
  "seds_global_router_clear_source_route_mode src = on_g_router (call_setter (seds_router_clear_source_route_mode src))"

definition seds_global_router_set_route_weight :: "i32 \<Rightarrow> i32 \<Rightarrow> u32 \<Rightarrow> globals \<Rightarrow> seds_result \<times> globals" where
  "seds_global_router_set_route_weight src dst v = on_g_router (call_setter (seds_router_set_route_weight src dst v))"

definition seds_global_router_clear_route_weight :: "i32 \<Rightarrow> i32 \<Rightarrow> globals \<Rightarrow> seds_result \<times> globals" where
  "seds_global_router_clear_route_weight src dst = on_g_router (call_setter (seds_router_clear_route_weight src dst))"

definition seds_global_router_set_route_priority :: "i32 \<Rightarrow> i32 \<Rightarrow> u32 \<Rightarrow> globals \<Rightarrow> seds_result \<times> globals" where
  "seds_global_router_set_route_priority src dst v =
     on_g_router (call_setter (seds_router_set_route_priority src dst v))"

definition seds_global_router_clear_route_priority :: "i32 \<Rightarrow> i32 \<Rightarrow> globals \<Rightarrow> seds_result \<times> globals" where
  "seds_global_router_clear_route_priority src dst =
     on_g_router (call_setter (seds_router_clear_route_priority src dst))"

definition seds_global_router_get_network_time_ms :: "world \<Rightarrow> globals \<Rightarrow> (seds_result + u64) \<times> globals" where
  "seds_global_router_get_network_time_ms w =
     on_g_router (call_node (Inl SEDS_BAD_ARG) (seds_router_get_network_time_ms w))"

definition seds_global_router_get_network_time :: "world \<Rightarrow> globals \<Rightarrow> (seds_result + network_time) \<times> globals" where
  "seds_global_router_get_network_time w = on_g_router (call_node (Inl SEDS_BAD_ARG) (seds_router_get_network_time w))"

definition seds_global_router_export_topology_len :: "env \<Rightarrow> world \<Rightarrow> globals \<Rightarrow> i32" where
  "seds_global_router_export_topology_len E w g =
     read_node (result_code SEDS_BAD_ARG) (seds_router_export_topology_len E w) (g_router g)"

definition seds_global_router_export_topology ::
    "env \<Rightarrow> world \<Rightarrow> string option \<Rightarrow> nat \<Rightarrow> globals \<Rightarrow> seds_result \<times> string option" where
  "seds_global_router_export_topology E w buf buf_len g =
     read_node (SEDS_BAD_ARG, buf) (seds_router_export_topology E w buf buf_len) (g_router g)"

definition seds_global_router_export_client_stats_len :: "env \<Rightarrow> world \<Rightarrow> (nat + string) \<Rightarrow> globals \<Rightarrow> i32" where
  "seds_global_router_export_client_stats_len E w from g =
     read_node (result_code SEDS_BAD_ARG) (seds_router_export_client_stats_len E w from) (g_router g)"

definition seds_global_router_export_client_stats ::
    "env \<Rightarrow> world \<Rightarrow> (nat + string) \<Rightarrow> string option \<Rightarrow> nat \<Rightarrow> globals \<Rightarrow> seds_result \<times> string option" where
  "seds_global_router_export_client_stats E w from buf buf_len g =
     read_node (SEDS_BAD_ARG, buf) (seds_router_export_client_stats E w from buf buf_len) (g_router g)"

definition seds_global_router_export_runtime_stats_len :: "env \<Rightarrow> globals \<Rightarrow> i32" where
  "seds_global_router_export_runtime_stats_len E g =
     read_node (result_code SEDS_BAD_ARG) (seds_router_export_runtime_stats_len E) (g_router g)"

definition seds_global_router_export_runtime_stats ::
    "env \<Rightarrow> string option \<Rightarrow> nat \<Rightarrow> globals \<Rightarrow> seds_result \<times> string option" where
  "seds_global_router_export_runtime_stats E buf buf_len g =
     read_node (SEDS_BAD_ARG, buf) (seds_router_export_runtime_stats E buf buf_len) (g_router g)"

definition seds_global_router_export_memory_layout_len :: "globals \<Rightarrow> i32" where
  "seds_global_router_export_memory_layout_len g =
     read_node (result_code SEDS_BAD_ARG) seds_router_export_memory_layout_len (g_router g)"

definition seds_global_router_export_memory_layout ::
    "string option \<Rightarrow> nat \<Rightarrow> globals \<Rightarrow> seds_result \<times> string option" where
  "seds_global_router_export_memory_layout buf buf_len g =
     read_node (SEDS_BAD_ARG, buf) (seds_router_export_memory_layout buf buf_len) (g_router g)"

section \<open>The relay\<close>

text \<open>Freeing gives the node back; the record remains, without a node and without a primary side.\<close>

definition seds_wrapper_relay_free :: "wrapper_relay \<Rightarrow> wrapper_relay" where
  "seds_wrapper_relay_free = free_wrapper"

definition seds_global_relay_free :: "globals \<Rightarrow> globals" where
  "seds_global_relay_free = void_g_relay seds_wrapper_relay_free"

definition seds_wrapper_relay_handle :: "wrapper_relay \<Rightarrow> relay option" where
  "seds_wrapper_relay_handle = handle"

definition seds_global_relay_handle :: "globals \<Rightarrow> relay option" where
  "seds_global_relay_handle g = seds_wrapper_relay_handle (g_relay g)"

definition seds_wrapper_relay_init_error :: "wrapper_relay \<Rightarrow> i32" where
  "seds_wrapper_relay_init_error = init_error"

definition seds_global_relay_init_error :: "globals \<Rightarrow> i32" where
  "seds_global_relay_init_error g = seds_wrapper_relay_init_error (g_relay g)"

definition seds_wrapper_relay_add_packed_side :: "string \<Rightarrow> fn \<Rightarrow> bool \<Rightarrow> wrapper_relay \<Rightarrow> i32 \<times> wrapper_relay" where
  "seds_wrapper_relay_add_packed_side name tx rel = add_wrapper_side (seds_relay_add_side_packed name tx rel)"

definition seds_global_relay_add_packed_side :: "string \<Rightarrow> fn \<Rightarrow> bool \<Rightarrow> globals \<Rightarrow> i32 \<times> globals" where
  "seds_global_relay_add_packed_side name tx rel = on_g_relay (seds_wrapper_relay_add_packed_side name tx rel)"

definition seds_wrapper_relay_add_packed_small_side ::
    "string \<Rightarrow> fn \<Rightarrow> bool \<Rightarrow> nat \<Rightarrow> wrapper_relay \<Rightarrow> i32 \<times> wrapper_relay" where
  "seds_wrapper_relay_add_packed_small_side name tx rel frame_limit =
     add_wrapper_side (seds_relay_add_side_packed_small_packets name tx rel frame_limit)"

definition seds_global_relay_add_packed_small_side :: "string \<Rightarrow> fn \<Rightarrow> bool \<Rightarrow> nat \<Rightarrow> globals \<Rightarrow> i32 \<times> globals" where
  "seds_global_relay_add_packed_small_side name tx rel frame_limit =
     on_g_relay (seds_wrapper_relay_add_packed_small_side name tx rel frame_limit)"

definition seds_wrapper_relay_add_packet_side :: "string \<Rightarrow> fn \<Rightarrow> bool \<Rightarrow> wrapper_relay \<Rightarrow> i32 \<times> wrapper_relay" where
  "seds_wrapper_relay_add_packet_side name tx rel = add_wrapper_side (seds_relay_add_side_packet name tx rel)"

definition seds_global_relay_add_packet_side :: "string \<Rightarrow> fn \<Rightarrow> bool \<Rightarrow> globals \<Rightarrow> i32 \<times> globals" where
  "seds_global_relay_add_packet_side name tx rel = on_g_relay (seds_wrapper_relay_add_packet_side name tx rel)"

definition seds_wrapper_relay_rx_packed_from_side ::
    "env \<Rightarrow> world \<Rightarrow> i32 \<Rightarrow> bytes \<Rightarrow> wrapper_relay \<Rightarrow> (seds_result \<times> wrapper_relay) option" where
  "seds_wrapper_relay_rx_packed_from_side E w side_id bs nd =
     (if \<not> seds_side_is_valid side_id then Some (SEDS_BAD_ARG, nd)
      else call_partial SEDS_BAD_ARG (seds_relay_rx_packed_from_side E w (word_of_int side_id) bs) nd)"

definition seds_global_relay_rx_packed_from_side ::
    "env \<Rightarrow> world \<Rightarrow> i32 \<Rightarrow> bytes \<Rightarrow> globals \<Rightarrow> (seds_result \<times> globals) option" where
  "seds_global_relay_rx_packed_from_side E w side_id bs =
     on_g_relay_partial (seds_wrapper_relay_rx_packed_from_side E w side_id bs)"

definition seds_wrapper_relay_rx_packet_from_side ::
    "env \<Rightarrow> i32 \<Rightarrow> packet_view option \<Rightarrow> wrapper_relay \<Rightarrow> (seds_result \<times> wrapper_relay) option" where
  "seds_wrapper_relay_rx_packet_from_side E side_id view nd =
     (if \<not> seds_side_is_valid side_id then Some (SEDS_BAD_ARG, nd)
      else call_partial SEDS_BAD_ARG (seds_relay_rx_packet_from_side E (word_of_int side_id) view) nd)"

definition seds_global_relay_rx_packet_from_side ::
    "env \<Rightarrow> i32 \<Rightarrow> packet_view option \<Rightarrow> globals \<Rightarrow> (seds_result \<times> globals) option" where
  "seds_global_relay_rx_packet_from_side E side_id view =
     on_g_relay_partial (seds_wrapper_relay_rx_packet_from_side E side_id view)"

definition seds_wrapper_relay_process ::
    "env \<Rightarrow> world \<Rightarrow> u32 \<Rightarrow> wrapper_relay \<Rightarrow> (seds_result \<times> wrapper_relay) option" where
  "seds_wrapper_relay_process E w timeout =
     call_partial SEDS_BAD_ARG (seds_relay_process_all_queues_with_timeout E w timeout)"

definition seds_global_relay_process :: "env \<Rightarrow> world \<Rightarrow> u32 \<Rightarrow> globals \<Rightarrow> (seds_result \<times> globals) option" where
  "seds_global_relay_process E w timeout = on_g_relay_partial (seds_wrapper_relay_process E w timeout)"

definition seds_wrapper_relay_periodic ::
    "env \<Rightarrow> world \<Rightarrow> u32 \<Rightarrow> wrapper_relay \<Rightarrow> (seds_result \<times> wrapper_relay) option" where
  "seds_wrapper_relay_periodic E w timeout = call_partial SEDS_BAD_ARG (seds_relay_periodic E w timeout)"

definition seds_global_relay_periodic :: "env \<Rightarrow> world \<Rightarrow> u32 \<Rightarrow> globals \<Rightarrow> (seds_result \<times> globals) option" where
  "seds_global_relay_periodic E w timeout = on_g_relay_partial (seds_wrapper_relay_periodic E w timeout)"

definition seds_wrapper_relay_announce_discovery ::
    "env \<Rightarrow> world \<Rightarrow> wrapper_relay \<Rightarrow> (seds_result \<times> wrapper_relay) option" where
  "seds_wrapper_relay_announce_discovery E w = call_partial SEDS_BAD_ARG (seds_relay_announce_discovery E w)"

definition seds_global_relay_announce_discovery :: "env \<Rightarrow> world \<Rightarrow> globals \<Rightarrow> (seds_result \<times> globals) option" where
  "seds_global_relay_announce_discovery E w = on_g_relay_partial (seds_wrapper_relay_announce_discovery E w)"

definition seds_wrapper_relay_announce_leave :: "wrapper_relay \<Rightarrow> seds_result \<times> wrapper_relay" where
  "seds_wrapper_relay_announce_leave = call_node SEDS_BAD_ARG seds_relay_announce_leave"

definition seds_global_relay_announce_leave :: "globals \<Rightarrow> seds_result \<times> globals" where
  "seds_global_relay_announce_leave = on_g_relay seds_wrapper_relay_announce_leave"

definition seds_wrapper_relay_poll_discovery ::
    "env \<Rightarrow> world \<Rightarrow> wrapper_relay \<Rightarrow> ((seds_result + bool) \<times> wrapper_relay) option" where
  "seds_wrapper_relay_poll_discovery E w = call_poll_partial (seds_relay_poll_discovery E w)"

definition seds_global_relay_poll_discovery :: "env \<Rightarrow> world \<Rightarrow> globals \<Rightarrow> ((seds_result + bool) \<times> globals) option" where
  "seds_global_relay_poll_discovery E w = on_g_relay_partial (seds_wrapper_relay_poll_discovery E w)"

definition seds_global_relay_export_topology_len :: "env \<Rightarrow> world \<Rightarrow> globals \<Rightarrow> i32" where
  "seds_global_relay_export_topology_len E w g =
     read_node (result_code SEDS_BAD_ARG) (seds_relay_export_topology_len E w) (g_relay g)"

definition seds_global_relay_export_topology ::
    "env \<Rightarrow> world \<Rightarrow> string option \<Rightarrow> nat \<Rightarrow> globals \<Rightarrow> seds_result \<times> string option" where
  "seds_global_relay_export_topology E w buf buf_len g =
     read_node (SEDS_BAD_ARG, buf) (seds_relay_export_topology E w buf buf_len) (g_relay g)"

definition seds_global_relay_export_client_stats_len :: "env \<Rightarrow> world \<Rightarrow> (nat + string) \<Rightarrow> globals \<Rightarrow> i32" where
  "seds_global_relay_export_client_stats_len E w from g =
     read_node (result_code SEDS_BAD_ARG) (seds_relay_export_client_stats_len E w from) (g_relay g)"

definition seds_global_relay_export_client_stats ::
    "env \<Rightarrow> world \<Rightarrow> (nat + string) \<Rightarrow> string option \<Rightarrow> nat \<Rightarrow> globals \<Rightarrow> seds_result \<times> string option" where
  "seds_global_relay_export_client_stats E w from buf buf_len g =
     read_node (SEDS_BAD_ARG, buf) (seds_relay_export_client_stats E w from buf buf_len) (g_relay g)"

definition seds_global_relay_export_runtime_stats_len :: "env \<Rightarrow> globals \<Rightarrow> i32" where
  "seds_global_relay_export_runtime_stats_len E g =
     read_node (result_code SEDS_BAD_ARG) (seds_relay_export_runtime_stats_len E) (g_relay g)"

definition seds_global_relay_export_runtime_stats ::
    "env \<Rightarrow> string option \<Rightarrow> nat \<Rightarrow> globals \<Rightarrow> seds_result \<times> string option" where
  "seds_global_relay_export_runtime_stats E buf buf_len g =
     read_node (SEDS_BAD_ARG, buf) (seds_relay_export_runtime_stats E buf buf_len) (g_relay g)"

definition seds_global_relay_export_memory_layout_len :: "globals \<Rightarrow> i32" where
  "seds_global_relay_export_memory_layout_len g =
     read_node (result_code SEDS_BAD_ARG) seds_relay_export_memory_layout_len (g_relay g)"

definition seds_global_relay_export_memory_layout ::
    "string option \<Rightarrow> nat \<Rightarrow> globals \<Rightarrow> seds_result \<times> string option" where
  "seds_global_relay_export_memory_layout buf buf_len g =
     read_node (SEDS_BAD_ARG, buf) (seds_relay_export_memory_layout buf buf_len) (g_relay g)"

definition seds_global_relay_remove_side :: "world \<Rightarrow> i32 \<Rightarrow> globals \<Rightarrow> seds_result \<times> globals" where
  "seds_global_relay_remove_side w side_id = on_g_relay (call_node SEDS_BAD_ARG (seds_relay_remove_side w side_id))"

definition seds_global_relay_set_side_ingress_enabled :: "world \<Rightarrow> i32 \<Rightarrow> bool \<Rightarrow> globals \<Rightarrow> seds_result \<times> globals" where
  "seds_global_relay_set_side_ingress_enabled w side_id enabled =
     on_g_relay (call_node SEDS_BAD_ARG (seds_relay_set_side_ingress_enabled w side_id enabled))"

definition seds_global_relay_set_side_egress_enabled :: "world \<Rightarrow> i32 \<Rightarrow> bool \<Rightarrow> globals \<Rightarrow> seds_result \<times> globals" where
  "seds_global_relay_set_side_egress_enabled w side_id enabled =
     on_g_relay (call_node SEDS_BAD_ARG (seds_relay_set_side_egress_enabled w side_id enabled))"

definition seds_global_relay_set_route :: "i32 \<Rightarrow> i32 \<Rightarrow> bool \<Rightarrow> globals \<Rightarrow> seds_result \<times> globals" where
  "seds_global_relay_set_route src dst enabled = on_g_relay (call_setter (seds_relay_set_route src dst enabled))"

definition seds_global_relay_clear_route :: "i32 \<Rightarrow> i32 \<Rightarrow> globals \<Rightarrow> seds_result \<times> globals" where
  "seds_global_relay_clear_route src dst = on_g_relay (call_setter (seds_relay_clear_route src dst))"

definition seds_global_relay_set_typed_route :: "env \<Rightarrow> i32 \<Rightarrow> u32 \<Rightarrow> i32 \<Rightarrow> bool \<Rightarrow> globals \<Rightarrow> seds_result \<times> globals" where
  "seds_global_relay_set_typed_route E src t dst enabled =
     on_g_relay (call_node SEDS_BAD_ARG (seds_relay_set_typed_route E src t dst enabled))"

definition seds_global_relay_clear_typed_route :: "i32 \<Rightarrow> u32 \<Rightarrow> i32 \<Rightarrow> globals \<Rightarrow> seds_result \<times> globals" where
  "seds_global_relay_clear_typed_route src t dst = on_g_relay (call_setter (seds_relay_clear_typed_route src t dst))"

definition seds_global_relay_set_source_route_mode ::
    "i32 \<Rightarrow> route_selection_mode \<Rightarrow> globals \<Rightarrow> seds_result \<times> globals" where
  "seds_global_relay_set_source_route_mode src m = on_g_relay (call_setter (seds_relay_set_source_route_mode src m))"

definition seds_global_relay_clear_source_route_mode :: "i32 \<Rightarrow> globals \<Rightarrow> seds_result \<times> globals" where
  "seds_global_relay_clear_source_route_mode src = on_g_relay (call_setter (seds_relay_clear_source_route_mode src))"

definition seds_global_relay_set_route_weight :: "i32 \<Rightarrow> i32 \<Rightarrow> u32 \<Rightarrow> globals \<Rightarrow> seds_result \<times> globals" where
  "seds_global_relay_set_route_weight src dst v = on_g_relay (call_setter (seds_relay_set_route_weight src dst v))"

definition seds_global_relay_clear_route_weight :: "i32 \<Rightarrow> i32 \<Rightarrow> globals \<Rightarrow> seds_result \<times> globals" where
  "seds_global_relay_clear_route_weight src dst = on_g_relay (call_setter (seds_relay_clear_route_weight src dst))"

definition seds_global_relay_set_route_priority :: "i32 \<Rightarrow> i32 \<Rightarrow> u32 \<Rightarrow> globals \<Rightarrow> seds_result \<times> globals" where
  "seds_global_relay_set_route_priority src dst v = on_g_relay (call_setter (seds_relay_set_route_priority src dst v))"

definition seds_global_relay_clear_route_priority :: "i32 \<Rightarrow> i32 \<Rightarrow> globals \<Rightarrow> seds_result \<times> globals" where
  "seds_global_relay_clear_route_priority src dst = on_g_relay (call_setter (seds_relay_clear_route_priority src dst))"

end
