(* ===== verification/Wrapper_Facts.thy ===== *)
theory Wrapper_Facts
  imports Wrapper Reachable Sides_Facts
begin

text \<open>
  The wrapper of the C program: what holds of the two nodes in the static variables after any
  sequence of its functions, and what initialisation leaves behind.
\<close>

section \<open>The invariant of a wrapped node\<close>

text \<open>A record holds a node exactly if it says so, and the node satisfies its own invariant.\<close>

definition wrapper_ok :: "('n \<Rightarrow> bool) \<Rightarrow> ('n, 'z) wrapper_scheme \<Rightarrow> bool" where
  "wrapper_ok P nd \<longleftrightarrow> (case handle nd of None \<Rightarrow> created nd = 0 | Some n \<Rightarrow> created nd = 1 \<and> P n)"

lemma free_wrapper_ok: "wrapper_ok P nd \<Longrightarrow> wrapper_ok P (free_wrapper nd)"
  by (auto simp: wrapper_ok_def free_wrapper_def split: option.splits)

context step_invariant
begin

lemma call_partial_keeps:
  assumes "call_partial bad f nd = Some (x, nd')" "\<And>n y n'. f n = Some (y, n') \<Longrightarrow> step n n'" "wrapper_ok inv nd"
  shows "wrapper_ok inv nd'"
proof -
  have "inv n \<Longrightarrow> f n = Some (y, n') \<Longrightarrow> inv n'" for n y n' using assms(2) inv_step by blast
  with assms(1,3) show ?thesis by (auto simp: call_partial_def wrapper_ok_def split: option.splits)
qed

lemma call_node_keeps:
  assumes "\<And>n. step n (snd (f n))" "wrapper_ok inv nd"
  shows "wrapper_ok inv (snd (call_node bad f nd))"
  using assms by (auto simp: call_node_def wrapper_ok_def case_prod_beta Let_def split: option.splits intro: inv_step)

lemma call_setter_keeps: "(\<And>n. step n (f n)) \<Longrightarrow> wrapper_ok inv nd \<Longrightarrow> wrapper_ok inv (snd (call_setter f nd))"
  unfolding call_setter_def by (rule call_node_keeps) simp_all

lemma call_void_keeps: "(\<And>n. step n (f n)) \<Longrightarrow> wrapper_ok inv nd \<Longrightarrow> wrapper_ok inv (call_void f nd)"
  unfolding call_void_def by (rule call_setter_keeps)

lemma call_poll_keeps: "(\<And>n. step n (snd (f n))) \<Longrightarrow> wrapper_ok inv nd \<Longrightarrow> wrapper_ok inv (snd (call_poll f nd))"
  unfolding call_poll_def by (rule call_node_keeps) (simp_all add: case_prod_beta Let_def)

lemma call_poll_partial_keeps:
  assumes "call_poll_partial f nd = Some (x, nd')" "\<And>n y n'. f n = Some (y, n') \<Longrightarrow> step n n'" "wrapper_ok inv nd"
  shows "wrapper_ok inv nd'"
  using assms(1) unfolding call_poll_partial_def by (rule call_partial_keeps) (use assms(2,3) in auto)

end

section \<open>Steps of the program\<close>

inductive global_step :: "world \<Rightarrow> env \<times> globals \<Rightarrow> env \<times> globals \<Rightarrow> bool" for w where
  router_init: "seds_global_router_init E w cfg g = Some (E', rc, g') \<Longrightarrow> global_step w (E, g) (E', g')"
| relay_init: "seds_global_relay_init E w cfg g = Some (rc, g') \<Longrightarrow> global_step w (E, g) (E, g')"
| router_free: "global_step w (E, g) (E, seds_global_router_free g)"
| router_add_packed_side: "global_step w (E, g) (E, snd (seds_global_router_add_packed_side name tx rel g))"
| router_add_packed_small_side: "global_step w (E, g) (E, snd (seds_global_router_add_packed_small_side name tx rel frame_limit g))"
| router_add_packet_side: "global_step w (E, g) (E, snd (seds_global_router_add_packet_side name tx rel g))"
| router_rx_packed: "seds_global_router_rx_packed E bs g = Some (rc, g') \<Longrightarrow> global_step w (E, g) (E, g')"
| router_rx_packed_from_side: "seds_global_router_rx_packed_from_side E w side_id bs g = Some (rc, g') \<Longrightarrow> global_step w (E, g) (E, g')"
| router_process: "seds_global_router_process E w timeout g = Some (rc, g') \<Longrightarrow> global_step w (E, g) (E, g')"
| router_periodic: "seds_global_router_periodic E w timeout g = Some (rc, g') \<Longrightarrow> global_step w (E, g) (E, g')"
| router_periodic_no_timesync: "seds_global_router_periodic_no_timesync E w timeout g = Some (rc, g') \<Longrightarrow> global_step w (E, g) (E, g')"
| router_poll_timesync: "global_step w (E, g) (E, snd (seds_global_router_poll_timesync E w g))"
| router_announce_discovery: "seds_global_router_announce_discovery E w g = Some (rc, g') \<Longrightarrow> global_step w (E, g) (E, g')"
| router_announce_leave: "global_step w (E, g) (E, snd (seds_global_router_announce_leave g))"
| router_poll_discovery: "seds_global_router_poll_discovery E w g = Some (rc, g') \<Longrightarrow> global_step w (E, g) (E, g')"
| router_enable_managed_variable: "global_step w (E, g) (E, snd (seds_global_router_enable_managed_variable E t g))"
| router_enable_network_variable: "global_step w (E, g) (E, snd (seds_global_router_enable_network_variable E t can_rd can_wr g))"
| router_on_network_variable_update: "global_step w (E, g) (E, snd (seds_global_router_on_network_variable_update E t cb g))"
| router_disable_managed_variable: "global_step w (E, g) (E, seds_global_router_disable_managed_variable t g)"
| router_request_managed_variable: "global_step w (E, g) (E, snd (seds_global_router_request_managed_variable E w t g))"
| router_set_network_variable_packed: "seds_global_router_set_network_variable_packed E w bs g = Some (rc, g') \<Longrightarrow> global_step w (E, g) (E, g')"
| router_seed_managed_variable_packed: "seds_global_router_seed_managed_variable_packed E w bs g = Some (rc, g') \<Longrightarrow> global_step w (E, g) (E, g')"
| router_get_network_variable_packed_len: "global_step w (E, g) (E, snd (seds_global_router_get_network_variable_packed_len E w t stale_after_ms g))"
| router_get_network_variable_packed: "global_step w (E, g) (E, snd (seds_global_router_get_network_variable_packed E w t stale_after_ms null cap g))"
| router_log_typed: "seds_global_router_log_typed E w t data count esize ts queue g = Some (rc, g') \<Longrightarrow> global_step w (E, g) (E, g')"
| router_log_string: "seds_global_router_log_string E w t str ts queue g = Some (rc, g') \<Longrightarrow> global_step w (E, g) (E, g')"
| router_remove_side: "global_step w (E, g) (E, snd (seds_global_router_remove_side w side_id g))"
| router_set_side_ingress_enabled: "global_step w (E, g) (E, snd (seds_global_router_set_side_ingress_enabled w side_id enabled g))"
| router_set_side_egress_enabled: "global_step w (E, g) (E, snd (seds_global_router_set_side_egress_enabled w side_id enabled g))"
| router_set_route: "global_step w (E, g) (E, snd (seds_global_router_set_route src dst enabled g))"
| router_clear_route: "global_step w (E, g) (E, snd (seds_global_router_clear_route src dst g))"
| router_set_typed_route: "global_step w (E, g) (E, snd (seds_global_router_set_typed_route E src t dst enabled g))"
| router_clear_typed_route: "global_step w (E, g) (E, snd (seds_global_router_clear_typed_route src t dst g))"
| router_set_source_route_mode: "global_step w (E, g) (E, snd (seds_global_router_set_source_route_mode src m g))"
| router_clear_source_route_mode: "global_step w (E, g) (E, snd (seds_global_router_clear_source_route_mode src g))"
| router_set_route_weight: "global_step w (E, g) (E, snd (seds_global_router_set_route_weight src dst v g))"
| router_clear_route_weight: "global_step w (E, g) (E, snd (seds_global_router_clear_route_weight src dst g))"
| router_set_route_priority: "global_step w (E, g) (E, snd (seds_global_router_set_route_priority src dst v g))"
| router_clear_route_priority: "global_step w (E, g) (E, snd (seds_global_router_clear_route_priority src dst g))"
| router_get_network_time_ms: "global_step w (E, g) (E, snd (seds_global_router_get_network_time_ms w g))"
| router_get_network_time: "global_step w (E, g) (E, snd (seds_global_router_get_network_time w g))"
| relay_free: "global_step w (E, g) (E, seds_global_relay_free g)"
| relay_add_packed_side: "global_step w (E, g) (E, snd (seds_global_relay_add_packed_side name tx rel g))"
| relay_add_packed_small_side: "global_step w (E, g) (E, snd (seds_global_relay_add_packed_small_side name tx rel frame_limit g))"
| relay_add_packet_side: "global_step w (E, g) (E, snd (seds_global_relay_add_packet_side name tx rel g))"
| relay_rx_packed_from_side: "seds_global_relay_rx_packed_from_side E w side_id bs g = Some (rc, g') \<Longrightarrow> global_step w (E, g) (E, g')"
| relay_rx_packet_from_side: "seds_global_relay_rx_packet_from_side E side_id view g = Some (rc, g') \<Longrightarrow> global_step w (E, g) (E, g')"
| relay_process: "seds_global_relay_process E w timeout g = Some (rc, g') \<Longrightarrow> global_step w (E, g) (E, g')"
| relay_periodic: "seds_global_relay_periodic E w timeout g = Some (rc, g') \<Longrightarrow> global_step w (E, g) (E, g')"
| relay_announce_discovery: "seds_global_relay_announce_discovery E w g = Some (rc, g') \<Longrightarrow> global_step w (E, g) (E, g')"
| relay_announce_leave: "global_step w (E, g) (E, snd (seds_global_relay_announce_leave g))"
| relay_poll_discovery: "seds_global_relay_poll_discovery E w g = Some (rc, g') \<Longrightarrow> global_step w (E, g) (E, g')"
| relay_remove_side: "global_step w (E, g) (E, snd (seds_global_relay_remove_side w side_id g))"
| relay_set_side_ingress_enabled: "global_step w (E, g) (E, snd (seds_global_relay_set_side_ingress_enabled w side_id enabled g))"
| relay_set_side_egress_enabled: "global_step w (E, g) (E, snd (seds_global_relay_set_side_egress_enabled w side_id enabled g))"
| relay_set_route: "global_step w (E, g) (E, snd (seds_global_relay_set_route src dst enabled g))"
| relay_clear_route: "global_step w (E, g) (E, snd (seds_global_relay_clear_route src dst g))"
| relay_set_typed_route: "global_step w (E, g) (E, snd (seds_global_relay_set_typed_route E src t dst enabled g))"
| relay_clear_typed_route: "global_step w (E, g) (E, snd (seds_global_relay_clear_typed_route src t dst g))"
| relay_set_source_route_mode: "global_step w (E, g) (E, snd (seds_global_relay_set_source_route_mode src m g))"
| relay_clear_source_route_mode: "global_step w (E, g) (E, snd (seds_global_relay_clear_source_route_mode src g))"
| relay_set_route_weight: "global_step w (E, g) (E, snd (seds_global_relay_set_route_weight src dst v g))"
| relay_clear_route_weight: "global_step w (E, g) (E, snd (seds_global_relay_clear_route_weight src dst g))"
| relay_set_route_priority: "global_step w (E, g) (E, snd (seds_global_relay_set_route_priority src dst v g))"
| relay_clear_route_priority: "global_step w (E, g) (E, snd (seds_global_relay_clear_route_priority src dst g))"

definition globals_ok :: "env \<times> globals \<Rightarrow> bool" where
  "globals_ok s \<longleftrightarrow>
     wrapper_ok (sound default_runtime_memory_config) (g_router (snd s)) \<and>
     wrapper_ok (sound default_runtime_memory_config) (g_relay (snd s))"

lemma globals_ok_pair [simp]:
  "globals_ok (E, g) \<longleftrightarrow> wrapper_ok (sound default_runtime_memory_config) (g_router g) \<and>
     wrapper_ok (sound default_runtime_memory_config) (g_relay g)"
  by (simp add: globals_ok_def)

lemma on_g_simps [simp]:
  "g_router (snd (on_g_router f g)) = snd (f (g_router g))" "g_relay (snd (on_g_router f g)) = g_relay g"
  "g_router (snd (on_g_relay f' g)) = g_router g" "g_relay (snd (on_g_relay f' g)) = snd (f' (g_relay g))"
  "g_router (void_g_router h g) = h (g_router g)" "g_relay (void_g_router h g) = g_relay g"
  "g_router (void_g_relay h' g) = g_router g" "g_relay (void_g_relay h' g) = h' (g_relay g)"
  by (simp_all add: on_g_router_def on_g_relay_def void_g_router_def void_g_relay_def case_prod_beta Let_def)

lemma on_g_partial_ok:
  "on_g_router_partial f g = Some (x, g') \<longleftrightarrow> (\<exists>nd. f (g_router g) = Some (x, nd) \<and> g' = g\<lparr>g_router := nd\<rparr>)"
  "on_g_relay_partial f' g = Some (x, g') \<longleftrightarrow> (\<exists>nd. f' (g_relay g) = Some (x, nd) \<and> g' = g\<lparr>g_relay := nd\<rparr>)"
  by (auto simp: on_g_router_partial_def on_g_relay_partial_def)

lemma sound_add_side: "sound m r \<Longrightarrow> sound m (snd (add_side nm stx ptx rel r))"
  by (auto simp: add_side_def sound_def owner_queues_inv_def owner_tx_def owner_rx_def)

lemma sound_add_small: "sound m r \<Longrightarrow> sound m (snd (add_side_packed_small_packets nm f rel limit r))"
  by (auto simp: add_side_packed_small_packets_def add_side_def update_side_def sound_def owner_queues_inv_def owner_tx_def
      owner_rx_def)

lemmas add_packed_defs =
  seds_router_add_side_packed_def seds_router_add_side_packed_small_packets_def seds_router_add_side_serialized_def
  seds_router_add_side_packet_def seds_relay_add_side_packed_def seds_relay_add_side_packed_small_packets_def
  seds_relay_add_side_serialized_def seds_relay_add_side_packet_def

lemmas global_defs =
  seds_global_router_free_def seds_global_router_add_packed_side_def
  seds_global_router_add_packed_small_side_def seds_global_router_add_packet_side_def
  seds_global_router_rx_packed_def seds_global_router_rx_packed_from_side_def seds_global_router_process_def
  seds_global_router_periodic_def seds_global_router_periodic_no_timesync_def
  seds_global_router_poll_timesync_def seds_global_router_announce_discovery_def
  seds_global_router_announce_leave_def seds_global_router_poll_discovery_def
  seds_global_router_enable_managed_variable_def seds_global_router_enable_network_variable_def
  seds_global_router_on_network_variable_update_def seds_global_router_disable_managed_variable_def
  seds_global_router_request_managed_variable_def seds_global_router_set_network_variable_packed_def
  seds_global_router_seed_managed_variable_packed_def seds_global_router_get_network_variable_packed_len_def
  seds_global_router_get_network_variable_packed_def seds_global_router_log_typed_def
  seds_global_router_log_string_def seds_global_router_remove_side_def
  seds_global_router_set_side_ingress_enabled_def seds_global_router_set_side_egress_enabled_def
  seds_global_router_set_route_def seds_global_router_clear_route_def seds_global_router_set_typed_route_def
  seds_global_router_clear_typed_route_def seds_global_router_set_source_route_mode_def
  seds_global_router_clear_source_route_mode_def seds_global_router_set_route_weight_def
  seds_global_router_clear_route_weight_def seds_global_router_set_route_priority_def
  seds_global_router_clear_route_priority_def seds_global_router_get_network_time_ms_def
  seds_global_router_get_network_time_def seds_global_relay_free_def seds_global_relay_add_packed_side_def
  seds_global_relay_add_packed_small_side_def seds_global_relay_add_packet_side_def
  seds_global_relay_rx_packed_from_side_def seds_global_relay_rx_packet_from_side_def
  seds_global_relay_process_def seds_global_relay_periodic_def seds_global_relay_announce_discovery_def
  seds_global_relay_announce_leave_def seds_global_relay_poll_discovery_def seds_global_relay_remove_side_def
  seds_global_relay_set_side_ingress_enabled_def seds_global_relay_set_side_egress_enabled_def
  seds_global_relay_set_route_def seds_global_relay_clear_route_def seds_global_relay_set_typed_route_def
  seds_global_relay_clear_typed_route_def seds_global_relay_set_source_route_mode_def
  seds_global_relay_clear_source_route_mode_def seds_global_relay_set_route_weight_def
  seds_global_relay_clear_route_weight_def seds_global_relay_set_route_priority_def
  seds_global_relay_clear_route_priority_def

lemmas wrapper_defs =
  seds_wrapper_router_free_def seds_wrapper_router_add_packed_side_def
  seds_wrapper_router_add_packed_small_side_def seds_wrapper_router_add_packet_side_def
  seds_wrapper_router_rx_packed_def seds_wrapper_router_rx_packed_from_side_def seds_wrapper_router_process_def
  seds_wrapper_router_periodic_def seds_wrapper_router_poll_timesync_def
  seds_wrapper_router_announce_discovery_def seds_wrapper_router_announce_leave_def
  seds_wrapper_router_poll_discovery_def seds_wrapper_router_enable_managed_variable_def
  seds_wrapper_router_enable_network_variable_def seds_wrapper_router_on_network_variable_update_def
  seds_wrapper_router_disable_managed_variable_def seds_wrapper_router_request_managed_variable_def
  seds_wrapper_router_set_network_variable_packed_def seds_wrapper_router_seed_managed_variable_packed_def
  seds_wrapper_router_get_network_variable_packed_len_def seds_wrapper_router_get_network_variable_packed_def
  seds_wrapper_router_log_typed_def seds_wrapper_router_log_string_def seds_wrapper_relay_free_def
  seds_wrapper_relay_add_packed_side_def seds_wrapper_relay_add_packed_small_side_def
  seds_wrapper_relay_add_packet_side_def seds_wrapper_relay_rx_packed_from_side_def
  seds_wrapper_relay_rx_packet_from_side_def seds_wrapper_relay_process_def seds_wrapper_relay_periodic_def
  seds_wrapper_relay_announce_discovery_def seds_wrapper_relay_announce_leave_def
  seds_wrapper_relay_poll_discovery_def

section \<open>Initialisation\<close>

lemma router_init_cases:
  assumes "seds_wrapper_router_init E w (Some c) nd = Some (E', rc, nd')"
  obtains (not_created) "rc = SEDS_ERR" "nd' = zero_router\<lparr>primary_side := -1, init_error := result_code SEDS_ERR\<rparr>"
  | (created) r0 r1 where "new_router_impl E (cfg_mode c) (cfg_handlers c) (cfg_e2e_mode c) None = Some (E', Some r0)"
      "rtranclp (router_step E' w) r0 r1" "rc = SEDS_OK"
      "nd' = zero_router\<lparr>handle := Some r1, created := 1, primary_side := -1, init_error := result_code SEDS_OK\<rparr>"
proof -
  let ?nd = "zero_router\<lparr>primary_side := SEDS_SIDE_INVALID, init_error := result_code SEDS_OK\<rparr>"
  obtain ro where new: "new_router_impl E (cfg_mode c) (cfg_handlers c) (cfg_e2e_mode c) None = Some (E', ro)"
    using assms by (auto simp: seds_wrapper_router_init_def seds_router_new_ex_def seds_router_new_with_memory_def announced_def
        Let_def split: option.splits if_splits)
  show thesis
  proof (cases ro)
    case None
    then show thesis using assms new not_created
      by (simp add: seds_wrapper_router_init_def seds_router_new_ex_def seds_router_new_with_memory_def init_failed_def
          SEDS_SIDE_INVALID_def zero_router_def)
  next
    case (Some r)
    let ?ra = "case cfg_sender c of Inl _ \<Rightarrow> r | Inr s \<Rightarrow> if s \<noteq> [] then seds_router_set_sender_id s r else r"
    let ?rb = "if cfg_configure_timesync c then
        seds_router_configure_timesync w True (cfg_timesync_role c) (cfg_timesync_priority c)
          (cfg_timesync_source_timeout_ms c) (cfg_timesync_announce_interval_ms c) (cfg_timesync_request_interval_ms c) ?ra
        else ?ra"
    have a: "rtranclp (router_step E' w) r ?ra" by (auto split: sum.splits intro: router_step.set_sender_id)
    have "rtranclp (router_step E' w) ?ra ?rb" by (auto intro: router_step.configure_timesync)
    with a have b: "rtranclp (router_step E' w) r ?rb" by (rule rtranclp_trans)
    have *: "seds_wrapper_router_init E w (Some c) nd =
      (if cfg_announce_discovery c
       then map_option (Pair E') (announced (seds_router_announce_discovery E' w ?rb) (?nd\<lparr>created := 1\<rparr>))
       else Some (E', SEDS_OK, ?nd\<lparr>created := 1, handle := Some ?rb\<rparr>))"
      using new Some unfolding seds_wrapper_router_init_def seds_router_new_ex_def seds_router_new_with_memory_def Let_def by simp
    show thesis
    proof (cases "cfg_announce_discovery c")
      case True
      then obtain x where x: "seds_router_announce_discovery E' w ?rb = Some x" "announced (Some x) (?nd\<lparr>created := 1\<rparr>) = Some (rc, nd')"
        using assms unfolding * by (cases "seds_router_announce_discovery E' w ?rb") (auto simp: announced_def)
      obtain r1 where r1: "x = (SEDS_OK, r1)" using x(1) by (auto simp: seds_router_announce_discovery_def)
      have "rtranclp (router_step E' w) r r1"
        using b router_step.announce [OF x(1) [unfolded r1]] by (rule rtranclp.rtrancl_into_rtrancl)
      then show thesis using created new Some x(2) by (simp add: r1 announced_def Let_def SEDS_SIDE_INVALID_def zero_router_def)
    next
      case False
      then show thesis using created new Some b assms unfolding *
        by (simp add: SEDS_SIDE_INVALID_def zero_router_def)
    qed
  qed
qed

lemma relay_init_cases:
  assumes "seds_wrapper_relay_init E w (Some c) nd = Some (rc, nd')"
  obtains r0 r1 where "seds_relay_new_with_memory None = Some r0" "rtranclp (relay_step E w) r0 r1" "rc = SEDS_OK"
    "nd' = zero_relay\<lparr>handle := Some r1, created := 1, primary_side := -1, init_error := result_code SEDS_OK\<rparr>"
proof -
  obtain r0 where r0: "seds_relay_new_with_memory None = Some r0"
    by (simp add: seds_relay_new_with_memory_def validate_runtime_memory_config_def default_runtime_memory_config_def)
  have ann: "relay_step E w r0 b" if "queue_discovery_packets_relay E w r0 = Some b" for b
    using that by (intro relay_step.announce [of E w r0 SEDS_OK]) (simp add: seds_relay_announce_discovery_def)
  from r0 have "rc = SEDS_OK \<and> (\<exists>r1. rtranclp (relay_step E w) r0 r1 \<and>
      nd' = zero_relay\<lparr>handle := Some r1, created := 1, primary_side := -1, init_error := result_code SEDS_OK\<rparr>)"
    using assms
    by (auto simp: seds_wrapper_relay_init_def seds_relay_new_def announced_def seds_relay_set_sender_id_def zero_relay_def
        seds_relay_announce_discovery_def SEDS_SIDE_INVALID_def Let_def split: sum.splits if_splits dest: ann)
  then show thesis using that r0 by blast
qed

lemma router_init_ok:
  assumes "seds_wrapper_router_init E w cfg nd = Some (E', rc, nd')" "wrapper_ok (sound default_runtime_memory_config) nd"
  shows "wrapper_ok (sound default_runtime_memory_config) nd'"
proof (cases cfg)
  case None
  then show ?thesis using assms by (simp add: seds_wrapper_router_init_def)
next
  case (Some c)
  from assms(1) [unfolded Some] show ?thesis
  proof (cases rule: router_init_cases)
    case not_created
    then show ?thesis by (simp add: wrapper_ok_def zero_router_def)
  next
    case (created r0 r1)
    have "sound default_runtime_memory_config r0" using new_router_sound [OF created(1)] default_budget by simp
    from routers.inv_steps [OF created(2) this] created(4) show ?thesis by (simp add: wrapper_ok_def zero_router_def)
  qed
qed

lemma relay_init_ok:
  assumes "seds_wrapper_relay_init E w cfg nd = Some (rc, nd')" "wrapper_ok (sound default_runtime_memory_config) nd"
  shows "wrapper_ok (sound default_runtime_memory_config) nd'"
proof (cases cfg)
  case None
  then show ?thesis using assms by (simp add: seds_wrapper_relay_init_def)
next
  case (Some c)
  from assms(1) [unfolded Some] show ?thesis
  proof (cases rule: relay_init_cases)
    case (1 r0 r1)
    have "sound default_runtime_memory_config r0" using new_relay_sound [OF 1(1)] default_budget by simp
    from relays.inv_steps [OF 1(2) this] 1(4) show ?thesis by (simp add: wrapper_ok_def zero_relay_def)
  qed
qed

text \<open>Functions that are other functions of the interface under another name are steps, too.\<close>

lemma router_alias_steps:
  "seds_router_rx_packed_packet_to_queue E bs r = Some (rc, r') \<Longrightarrow> router_step E w r r'"
  "seds_router_rx_packed_packet_to_queue_from_side E w j bs r = Some (rc, r') \<Longrightarrow> router_step E w r r'"
  "seds_router_log_typed_ex E w t data count esize ts queue r = Some (rc, r') \<Longrightarrow> router_step E w r r'"
  "seds_router_log_string_ex E w t data len ts queue r = Some (rc, r') \<Longrightarrow> router_step E w r r'"
  "router_step E w r (snd (seds_router_enable_managed_variable E t r))"
  "router_step E w r (snd (seds_router_get_network_time w r))"
  by (simp_all add: get_network_time_node seds_router_rx_packed_packet_to_queue_def
      seds_router_rx_packed_packet_to_queue_from_side_def seds_router_log_typed_ex_def seds_router_log_string_ex_def seds_router_enable_managed_variable_def router_step.intros)

lemma relay_alias_steps: "seds_relay_rx_packed_from_side E w j bs r = Some (rc, r') \<Longrightarrow> relay_step E w r r'"
  unfolding seds_relay_rx_packed_from_side_def by (rule relay_step.rx_serialized)

lemmas router_calls_keep =
  routers.call_partial_keeps [OF _ router_alias_steps(1)]
  routers.call_partial_keeps [OF _ router_alias_steps(2)]
  routers.call_partial_keeps [OF _ router_alias_steps(3)]
  routers.call_partial_keeps [OF _ router_alias_steps(4)]
  routers.call_partial_keeps [OF _ router_step.process_all]
  routers.call_partial_keeps [OF _ router_step.periodic]
  routers.call_partial_keeps [OF _ router_step.periodic_no_timesync]
  routers.call_partial_keeps [OF _ router_step.announce]
  routers.call_partial_keeps [OF _ router_step.set_variable]
  routers.call_partial_keeps [OF _ router_step.seed_variable]
  routers.call_poll_partial_keeps [OF _ router_step.poll_discovery]

lemmas router_total_calls_keep =
  routers.call_node_keeps [OF router_alias_steps(5)]
  routers.call_node_keeps [OF router_alias_steps(6)]
  routers.call_node_keeps [OF router_step.enable_variable]
  routers.call_node_keeps [OF router_step.variable_callback]
  routers.call_node_keeps [OF router_step.request_variable]
  routers.call_node_keeps [OF router_step.variable_length]
  routers.call_node_keeps [OF router_step.get_variable]
  routers.call_node_keeps [OF router_step.remove]
  routers.call_node_keeps [OF router_step.ingress]
  routers.call_node_keeps [OF router_step.egress]
  routers.call_node_keeps [OF router_step.set_typed_route]
  routers.call_node_keeps [OF router_step.get_time]
  routers.call_setter_keeps [OF router_step.set_route]
  routers.call_setter_keeps [OF router_step.clear_route]
  routers.call_setter_keeps [OF router_step.clear_typed_route]
  routers.call_setter_keeps [OF router_step.set_mode]
  routers.call_setter_keeps [OF router_step.clear_mode]
  routers.call_setter_keeps [OF router_step.set_weight]
  routers.call_setter_keeps [OF router_step.clear_weight]
  routers.call_setter_keeps [OF router_step.set_priority]
  routers.call_setter_keeps [OF router_step.clear_priority]
  routers.call_void_keeps [OF router_step.disable_variable]
  routers.call_poll_keeps [OF router_step.poll_timesync]

lemmas relay_calls_keep =
  relays.call_partial_keeps [OF _ relay_alias_steps]
  relays.call_partial_keeps [OF _ relay_step.rx_packet]
  relays.call_partial_keeps [OF _ relay_step.process_all]
  relays.call_partial_keeps [OF _ relay_step.periodic]
  relays.call_partial_keeps [OF _ relay_step.announce]
  relays.call_poll_partial_keeps [OF _ relay_step.poll_discovery]

lemmas relay_total_calls_keep =
  relays.call_node_keeps [OF relay_step.remove]
  relays.call_node_keeps [OF relay_step.ingress]
  relays.call_node_keeps [OF relay_step.egress]
  relays.call_node_keeps [OF relay_step.set_typed_route]
  relays.call_setter_keeps [OF relay_step.set_route]
  relays.call_setter_keeps [OF relay_step.clear_route]
  relays.call_setter_keeps [OF relay_step.clear_typed_route]
  relays.call_setter_keeps [OF relay_step.set_mode]
  relays.call_setter_keeps [OF relay_step.clear_mode]
  relays.call_setter_keeps [OF relay_step.set_weight]
  relays.call_setter_keeps [OF relay_step.clear_weight]
  relays.call_setter_keeps [OF relay_step.set_priority]
  relays.call_setter_keeps [OF relay_step.clear_priority]

lemma call_leave_ok:
  "wrapper_ok P nd \<Longrightarrow> wrapper_ok P (snd (call_node bad seds_router_announce_leave nd))"
  "wrapper_ok P' nd' \<Longrightarrow> wrapper_ok P' (snd (call_node bad seds_relay_announce_leave nd'))"
  by (auto simp: wrapper_ok_def call_node_def seds_router_announce_leave_def seds_relay_announce_leave_def split: option.splits)

lemma add_wrapper_side_ok:
  assumes "\<And>n. sound m n \<Longrightarrow> sound m (snd (add n))" "wrapper_ok (sound m) nd"
  shows "wrapper_ok (sound m) (snd (add_wrapper_side add nd))"
  using assms by (auto simp: add_wrapper_side_def wrapper_ok_def case_prod_beta Let_def split: option.splits)

lemma add_sides_ok:
  "wrapper_ok (sound m) nd \<Longrightarrow> wrapper_ok (sound m) (snd (add_wrapper_side (seds_router_add_side_packed nm f rel) nd))"
  "wrapper_ok (sound m) nd \<Longrightarrow>
     wrapper_ok (sound m) (snd (add_wrapper_side (seds_router_add_side_packed_small_packets nm f rel limit) nd))"
  "wrapper_ok (sound m) nd \<Longrightarrow> wrapper_ok (sound m) (snd (add_wrapper_side (seds_router_add_side_packet nm f rel) nd))"
  "wrapper_ok (sound m) nd' \<Longrightarrow> wrapper_ok (sound m) (snd (add_wrapper_side (seds_relay_add_side_packed nm f rel) nd'))"
  "wrapper_ok (sound m) nd' \<Longrightarrow>
     wrapper_ok (sound m) (snd (add_wrapper_side (seds_relay_add_side_packed_small_packets nm f rel limit) nd'))"
  "wrapper_ok (sound m) nd' \<Longrightarrow> wrapper_ok (sound m) (snd (add_wrapper_side (seds_relay_add_side_packet nm f rel) nd'))"
  by (erule add_wrapper_side_ok [rotated], simp add: add_packed_defs sound_add_side sound_add_small)+

lemma global_step_ok: "global_step w s s' \<Longrightarrow> globals_ok s \<Longrightarrow> globals_ok s'"
proof (induction rule: global_step.induct)
  case (router_init E cfg g E' rc g')
  then show ?case by (auto simp: seds_global_router_init_def dest: router_init_ok)
next
  case (relay_init E cfg g rc g')
  then show ?case by (auto simp: seds_global_relay_init_def dest: relay_init_ok)
qed (simp_all add: global_defs wrapper_defs on_g_partial_ok free_wrapper_ok add_sides_ok call_leave_ok
    router_total_calls_keep relay_total_calls_keep del: split_paired_Ex,
    (auto split: if_splits dest: router_calls_keep relay_calls_keep)+)

interpretation programs: step_invariant "global_step w" globals_ok for w
  by unfold_locales (rule global_step_ok)

text \<open>
  (C7) The nodes of the program. However the functions of the wrapper are called, before or after
  initialisation, again after freeing, with the relay and the router mixed: a record says that its
  node was created exactly if it has one, and the queues of the nodes have exact byte counters
  within the budget.
\<close>

theorem program_nodes_sound:
  assumes "rtranclp (global_step w) (E, initial_globals) (E', g)"
  shows "(created (g_router g) = 1 \<longleftrightarrow> handle (g_router g) \<noteq> None) \<and> (created (g_relay g) = 1 \<longleftrightarrow> handle (g_relay g) \<noteq> None) \<and>
    (case handle (g_router g) of
       None \<Rightarrow> True
     | Some r \<Rightarrow> unat (tx_queue_bytes r) = total_cost byte_cost_tx (tx_queue r) \<and> tx_queue_bytes r \<le> 102400 \<and>
         unat (rx_queue_bytes r) = total_cost byte_cost_rx (rx_queue r) \<and> rx_queue_bytes r \<le> 102400) \<and>
    (case handle (g_relay g) of
       None \<Rightarrow> True
     | Some r \<Rightarrow> unat (tx_queue_bytes r) = total_cost byte_cost_tx (tx_queue r) \<and> tx_queue_bytes r \<le> 102400 \<and>
         unat (rx_queue_bytes r) = total_cost byte_cost_rx (rx_queue r) \<and> rx_queue_bytes r \<le> 102400)"
proof -
  have "globals_ok (E, initial_globals)"
    by (simp add: initial_globals_def zero_router_def zero_relay_def wrapper_ok_def)
  from programs.inv_steps [OF assms this] show ?thesis
    by (auto simp: wrapper_ok_def default_runtime_memory_config_def dest!: sound_fields split: option.splits)
qed

definition sample_config :: router_config where
  "sample_config = seds_wrapper_router_default_config\<lparr>cfg_mode := Seds_RM_Sink, cfg_announce_discovery := False\<rparr>"

lemma sample_init:
  obtains r0 where "new_router_impl sample_env Seds_RM_Sink [] 2 None = Some (sample_env, Some r0)"
    "seds_wrapper_router_init sample_env sample_world (Some sample_config) nd = Some (sample_env, SEDS_OK,
       zero_router\<lparr>handle := Some r0, created := 1, primary_side := -1, init_error := 0\<rparr>)"
proof -
  obtain r0 where "new_router_impl sample_env Seds_RM_Sink [] 2 None = Some (sample_env, Some r0)"
    using new_router_sample .
  with that show thesis
    by (simp add: seds_wrapper_router_init_def sample_config_def seds_wrapper_router_default_config_def
        seds_router_new_ex_def seds_router_new_with_memory_def SEDS_SIDE_INVALID_def zero_router_def)
qed

theorem program_nodes_sound_witness:
  "\<exists>g r. seds_global_router_init sample_env sample_world (Some sample_config) initial_globals = Some (sample_env, SEDS_OK, g) \<and>
     handle (g_router g) = Some r \<and> created (g_router g) = 1 \<and> unat (tx_queue_bytes r) = total_cost byte_cost_tx (tx_queue r)"
proof -
  obtain r0 where i: "seds_wrapper_router_init sample_env sample_world (Some sample_config) (g_router initial_globals) =
      Some (sample_env, SEDS_OK, zero_router\<lparr>handle := Some r0, created := 1, primary_side := -1, init_error := 0\<rparr>)"
    by (rule sample_init) blast
  then obtain g where g: "seds_global_router_init sample_env sample_world (Some sample_config) initial_globals =
      Some (sample_env, SEDS_OK, g)" "handle (g_router g) = Some r0" by (simp add: seds_global_router_init_def)
  have "rtranclp (global_step sample_world) (sample_env, initial_globals) (sample_env, g)"
    by (rule r_into_rtranclp) (rule global_step.router_init [OF g(1)])
  from program_nodes_sound [OF this] g show ?thesis by auto
qed

text \<open>
  Initialisation is recorded. With a configuration, the result is kept in \<open>init_error\<close>, the record has a
  node exactly if the result is \<open>SEDS_OK\<close>, no side is primary, and the node is one that was made with
  the handlers and mode of the configuration and then only used through its interface.
\<close>

theorem init_outcome_recorded:
  assumes "seds_wrapper_router_init E w (Some c) nd = Some (E', rc, nd')"
  shows "init_error nd' = result_code rc \<and> (rc = SEDS_OK \<longleftrightarrow> handle nd' \<noteq> None) \<and> \<not> seds_side_is_valid (primary_side nd') \<and>
    created nd' = (if rc = SEDS_OK then 1 else 0) \<and>
    (rc = SEDS_OK \<longrightarrow> (\<exists>r0. new_router_impl E (cfg_mode c) (cfg_handlers c) (cfg_e2e_mode c) None = Some (E', Some r0) \<and>
       rtranclp (router_step E' w) r0 (the (handle nd'))))"
  using assms
proof (cases rule: router_init_cases)
  case not_created
  then show ?thesis by (simp add: zero_router_def seds_side_is_valid_def)
next
  case (created r0 r1)
  then show ?thesis by (auto simp: zero_router_def seds_side_is_valid_def)
qed

theorem init_outcome_recorded_witness:
  "\<exists>nd r0. seds_wrapper_router_init sample_env sample_world (Some sample_config) zero_router = Some (sample_env, SEDS_OK, nd) \<and>
     init_error nd = 0 \<and> new_router_impl sample_env Seds_RM_Sink [] 2 None = Some (sample_env, Some r0) \<and>
     rtranclp (router_step sample_env sample_world) r0 (the (handle nd))"
proof -
  obtain nd where i: "seds_wrapper_router_init sample_env sample_world (Some sample_config) zero_router = Some (sample_env, SEDS_OK, nd)"
    by (rule sample_init) blast
  from init_outcome_recorded [OF i] i show ?thesis
    by (auto simp: sample_config_def seds_wrapper_router_default_config_def)
qed

lemmas add_global_side_defs =
  seds_global_router_add_packed_side_def seds_wrapper_router_add_packed_side_def add_wrapper_side_def on_g_router_def
  seds_router_add_side_packed_def seds_router_add_side_serialized_def add_side_def seds_side_is_valid_def

text \<open>
  The primary side outlives its side. The first side of a new router becomes the primary side, and
  stays it when the side is removed and others are added; every frame that is then said to come
  from the primary side is refused.
\<close>

theorem primary_side_outlives_side:
  assumes "handle (g_router g) = Some r" "sides r = []" "\<not> seds_side_is_valid (primary_side (g_router g))"
    and "seds_global_router_add_packed_side nm f rel g = (side_id, g1)"
    and "seds_global_router_remove_side w side_id g1 = (rc, g2)"
    and "seds_global_router_add_packed_side nm' f' rel' g2 = (side_id', g3)"
    and "peek_frame_info E bs True = Some info"
  shows "primary_side (g_router g1) = side_id \<and> rc = SEDS_OK \<and> primary_side (g_router g3) = side_id \<and> side_id' \<noteq> side_id \<and>
    (\<exists>e \<in> {SEDS_DESERIALIZE, SEDS_INVALID_LINK_ID}. seds_global_router_rx_packed_from_side E w side_id bs g3 = Some (e, g3))"
proof -
  obtain r1 where g1: "handle (g_router g1) = Some r1" "length (sides r1) = 1" "primary_side (g_router g1) = 0" "side_id = 0"
    using assms(1-4) by (auto simp: add_global_side_defs Let_def)
  define r2 where "r2 = snd (remove_side w 0 r1)"
  have rm: "remove_side w 0 r1 = (SEDS_OK, r2)"
    using g1(2) by (simp add: remove_side_def in_range_def Let_def r2_def)
  then have g2: "rc = SEDS_OK" "g2 = g1\<lparr>g_router := (g_router g1)\<lparr>handle := Some r2\<rparr>\<rparr>"
    using assms(5) g1 by (auto simp: seds_global_router_remove_side_def on_g_router_def call_node_def seds_router_remove_side_def)
  have "length (sides r2) = 1" "\<not> ingress_enabled (sides r2 ! 0)"
    using remove_side_tables [OF rm] g1(2) by (simp_all add: in_range_def)
  then obtain r3 where g3: "handle (g_router g3) = Some r3" "\<not> ingress_side 0 r3" "primary_side (g_router g3) = 0" "side_id' = 1"
    using assms(6) g1 g2 by (auto simp: add_global_side_defs Let_def ingress_side_def nth_append)
  have "seds_router_rx_packed_packet_to_queue_from_side E w 0 bs r3 =
      Some (if info = None then SEDS_DESERIALIZE else SEDS_INVALID_LINK_ID, r3)"
    using assms(7) g3(2)
    by (simp add: seds_router_rx_packed_packet_to_queue_from_side_def seds_router_rx_serialized_packet_to_queue_from_side_def
        accept_frame_def split: option.splits)
  then have "seds_global_router_rx_packed_from_side E w 0 bs g3 =
      Some (if info = None then SEDS_DESERIALIZE else SEDS_INVALID_LINK_ID, g3)"
    using g3(1) by (simp add: seds_global_router_rx_packed_from_side_def on_g_router_partial_def
        seds_wrapper_router_rx_packed_from_side_def seds_side_is_valid_def call_partial_def)
  then show ?thesis using g1 g2 g3 by (auto split: if_splits)
qed

theorem primary_side_outlives_side_witness:
  "\<exists>g0 g1 g2 g3. seds_global_router_init sample_env sample_world (Some sample_config) initial_globals =
      Some (sample_env, SEDS_OK, g0) \<and>
     seds_global_router_add_packed_side ''radio'' 1 True g0 = (0, g1) \<and>
     seds_global_router_remove_side sample_world 0 g1 = (SEDS_OK, g2) \<and>
     seds_global_router_add_packed_side ''can'' 2 True g2 = (1, g3) \<and> primary_side (g_router g3) = 0"
proof -
  obtain r0 where r0: "new_router_impl sample_env Seds_RM_Sink [] 2 None = Some (sample_env, Some r0)"
    and i: "seds_wrapper_router_init sample_env sample_world (Some sample_config) (g_router initial_globals) =
      Some (sample_env, SEDS_OK, zero_router\<lparr>handle := Some r0, created := 1, primary_side := -1, init_error := 0\<rparr>)"
    by (rule sample_init)
  then obtain g0 where g0: "seds_global_router_init sample_env sample_world (Some sample_config) initial_globals =
      Some (sample_env, SEDS_OK, g0)" "handle (g_router g0) = Some r0" "primary_side (g_router g0) = -1"
    by (simp add: seds_global_router_init_def)
  have s: "sides r0 = []" using r0 by (auto simp: new_router_impl_def SedsRouter_def Let_def split: if_splits)
  have p: "\<not> seds_side_is_valid (primary_side (g_router g0))" by (simp add: g0 seds_side_is_valid_def)
  obtain g1 where g1: "seds_global_router_add_packed_side ''radio'' 1 True g0 = (0, g1)" using g0 s by (simp add: add_global_side_defs Let_def)
  obtain rc g2 where g2: "seds_global_router_remove_side sample_world 0 g1 = (rc, g2)" by (metis prod.exhaust)
  obtain j g3 where g3: "seds_global_router_add_packed_side ''can'' 2 True g2 = (j, g3)" by (metis prod.exhaust)
  have f: "peek_frame_info sample_env [] True = Some None" by code_simp
  note main = primary_side_outlives_side [OF g0(2) s p g1 g2 g3 f]
  have "length (sides (the (handle (g_router g2)))) = 1" "handle (g_router g2) \<noteq> None"
    using g1 g2 g0 s by (auto simp: add_global_side_defs seds_global_router_remove_side_def call_node_def seds_router_remove_side_def remove_side_def
        in_range_def note_discovery_topology_change_def update_side_def erase_tx_items_for_side_locked_def
        erase_rx_items_for_side_locked_def set_tx_def set_rx_def Let_def case_prod_beta)
  with g3 have "j = 1" by (auto simp: add_global_side_defs case_prod_beta Let_def)
  with main g0 g1 g2 g3 show ?thesis by blast
qed

end
