(* ===== verification/Shortcuts.thy ===== *)
theory Shortcuts
  imports Wrapper Registry Packet_Access
begin

text \<open>
  The inline functions of \<open>C-Headers/sedsnet.h\<close> and of the C++ wrapper \<open>c-wrapper/sedsnet_cpp_wrapper.hpp\<close>:
  references to types and endpoints by name, logging and reading of typed elements and strings, and
  shorter names for functions of the interface. Out-parameters are results.
\<close>

section \<open>References by name\<close>

text \<open>A name that is a null pointer with a length is rejected by the lookup; \<open>Inl n\<close> is a null pointer with the length \<open>n\<close>.\<close>

definition seds_type_ref_by_name :: "registry \<Rightarrow> nat + string \<Rightarrow> seds_result + u32" where
  "seds_type_ref_by_name R nm =
     (case nm of
        Inl (Suc _) \<Rightarrow> Inl SEDS_BAD_ARG
      | _ \<Rightarrow>
          let info = seds_dtype_get_info_by_name R (sv_from nm)
          in if \<not> di_exists info then Inl SEDS_INVALID_TYPE else Inr (di_id info))"

definition seds_endpoint_ref_by_name :: "registry \<Rightarrow> nat + string \<Rightarrow> seds_result + u32" where
  "seds_endpoint_ref_by_name R nm =
     (case nm of
        Inl (Suc _) \<Rightarrow> Inl SEDS_BAD_ARG
      | _ \<Rightarrow>
          let info = seds_endpoint_get_info_by_name R (sv_from nm)
          in if \<not> ei_exists info then Inl SEDS_BAD_ARG else Inr (ei_id info))"

definition seds_type_ref_exists :: "registry \<Rightarrow> u32 \<Rightarrow> bool" where
  "seds_type_ref_exists = seds_dtype_exists"

definition seds_endpoint_ref_exists :: "registry \<Rightarrow> u32 \<Rightarrow> bool" where
  "seds_endpoint_ref_exists = seds_endpoint_exists"

definition seds_type_ref_expected_size :: "env \<Rightarrow> u32 \<Rightarrow> i32" where
  "seds_type_ref_expected_size = seds_dtype_expected_size"

section \<open>Logging and reading typed elements\<close>

text \<open>The element types for which \<open>elem_traits\<close> is specialised; the kind is passed on and ignored by the library.\<close>

datatype elem_type = E_u8 | E_u16 | E_u32 | E_u64 | E_i8 | E_i16 | E_i32 | E_i64 | E_f32 | E_f64

datatype elem_kind = SEDS_EK_UNSIGNED | SEDS_EK_SIGNED | SEDS_EK_FLOAT

fun elem_traits :: "elem_type \<Rightarrow> elem_kind \<times> nat" where
  "elem_traits E_u8 = (SEDS_EK_UNSIGNED, 1)"
| "elem_traits E_u16 = (SEDS_EK_UNSIGNED, 2)"
| "elem_traits E_u32 = (SEDS_EK_UNSIGNED, 4)"
| "elem_traits E_u64 = (SEDS_EK_UNSIGNED, 8)"
| "elem_traits E_i8 = (SEDS_EK_SIGNED, 1)"
| "elem_traits E_i16 = (SEDS_EK_SIGNED, 2)"
| "elem_traits E_i32 = (SEDS_EK_SIGNED, 4)"
| "elem_traits E_i64 = (SEDS_EK_SIGNED, 8)"
| "elem_traits E_f32 = (SEDS_EK_FLOAT, 4)"
| "elem_traits E_f64 = (SEDS_EK_FLOAT, 8)"

definition seds_router_log ::
    "env \<Rightarrow> world \<Rightarrow> u32 \<Rightarrow> elem_type \<Rightarrow> bytes option \<Rightarrow> nat \<Rightarrow> router \<Rightarrow> (seds_result \<times> router) option" where
  "seds_router_log E w t el data count = seds_router_log_typed_ex E w t data count (snd (elem_traits el)) None False"

definition seds_router_log_queue ::
    "env \<Rightarrow> world \<Rightarrow> u32 \<Rightarrow> elem_type \<Rightarrow> bytes option \<Rightarrow> nat \<Rightarrow> router \<Rightarrow> (seds_result \<times> router) option" where
  "seds_router_log_queue E w t el data count =
     seds_router_log_typed_ex E w t data count (snd (elem_traits el)) None True"

definition seds_router_log_ts ::
    "env \<Rightarrow> world \<Rightarrow> u32 \<Rightarrow> u64 \<Rightarrow> elem_type \<Rightarrow> bytes option \<Rightarrow> nat \<Rightarrow> router \<Rightarrow> (seds_result \<times> router) option" where
  "seds_router_log_ts E w t ts el data count =
     seds_router_log_typed_ex E w t data count (snd (elem_traits el)) (Some ts) False"

definition seds_router_log_queue_ts ::
    "env \<Rightarrow> world \<Rightarrow> u32 \<Rightarrow> u64 \<Rightarrow> elem_type \<Rightarrow> bytes option \<Rightarrow> nat \<Rightarrow> router \<Rightarrow> (seds_result \<times> router) option" where
  "seds_router_log_queue_ts E w t ts el data count =
     seds_router_log_typed_ex E w t data count (snd (elem_traits el)) (Some ts) True"

definition seds_router_log_cstr :: "env \<Rightarrow> world \<Rightarrow> u32 \<Rightarrow> bytes option \<Rightarrow> router \<Rightarrow> (seds_result \<times> router) option" where
  "seds_router_log_cstr E w t str = seds_router_log_string_ex E w t str (strlen str) None False"

definition seds_router_log_cstr_queue ::
    "env \<Rightarrow> world \<Rightarrow> u32 \<Rightarrow> bytes option \<Rightarrow> router \<Rightarrow> (seds_result \<times> router) option" where
  "seds_router_log_cstr_queue E w t str = seds_router_log_string_ex E w t str (strlen str) None True"

definition seds_router_log_cstr_ts ::
    "env \<Rightarrow> world \<Rightarrow> u32 \<Rightarrow> u64 \<Rightarrow> bytes option \<Rightarrow> router \<Rightarrow> (seds_result \<times> router) option" where
  "seds_router_log_cstr_ts E w t ts str = seds_router_log_string_ex E w t str (strlen str) (Some ts) False"

definition seds_router_log_cstr_queue_ts ::
    "env \<Rightarrow> world \<Rightarrow> u32 \<Rightarrow> u64 \<Rightarrow> bytes option \<Rightarrow> router \<Rightarrow> (seds_result \<times> router) option" where
  "seds_router_log_cstr_queue_ts E w t ts str = seds_router_log_string_ex E w t str (strlen str) (Some ts) True"

definition seds_pkt_get_elements :: "elem_type \<Rightarrow> packet_view option \<Rightarrow> nat option \<Rightarrow> (i32 \<times> bytes) option" where
  "seds_pkt_get_elements el pkt out = seds_pkt_get_typed pkt out (snd (elem_traits el))"

section \<open>The C++ wrapper\<close>

text \<open>The functions of \<open>c-wrapper/sedsnet_cpp_wrapper.hpp\<close> in the namespace \<open>seds\<close>.\<close>

definition type_ref_by_name :: "registry \<Rightarrow> nat + string \<Rightarrow> seds_result + u32" where
  "type_ref_by_name R nm =
     (case nm of
        Inl (Suc _) \<Rightarrow> Inl SEDS_BAD_ARG
      | _ \<Rightarrow>
          let info = seds_dtype_get_info_by_name R (sv_from nm)
          in if \<not> di_exists info then Inl SEDS_INVALID_TYPE else Inr (di_id info))"

definition endpoint_ref_by_name :: "registry \<Rightarrow> nat + string \<Rightarrow> seds_result + u32" where
  "endpoint_ref_by_name R nm =
     (case nm of
        Inl (Suc _) \<Rightarrow> Inl SEDS_BAD_ARG
      | _ \<Rightarrow>
          let info = seds_endpoint_get_info_by_name R (sv_from nm)
          in if \<not> ei_exists info then Inl SEDS_BAD_ARG else Inr (ei_id info))"

definition type_exists :: "registry \<Rightarrow> u32 \<Rightarrow> bool" where
  "type_exists R t = seds_dtype_exists R t"

definition endpoint_exists :: "registry \<Rightarrow> u32 \<Rightarrow> bool" where
  "endpoint_exists R ep = seds_endpoint_exists R ep"

definition set_e2e_encryption_policy :: "u32 \<Rightarrow> u8 \<Rightarrow> registry \<Rightarrow> seds_result \<times> registry" where
  "set_e2e_encryption_policy t policy = seds_dtype_set_e2e_encryption_policy t policy"

definition router_new :: "env \<Rightarrow> router_mode \<Rightarrow> local_endpoint list \<Rightarrow> u8 \<Rightarrow> (env \<times> router option) option" where
  "router_new E m handlers e2e_mode = seds_router_new_ex E m handlers e2e_mode"

definition expected_size :: "env \<Rightarrow> u32 \<Rightarrow> i32" where
  "expected_size E t = seds_dtype_expected_size E t"

definition router_log ::
    "env \<Rightarrow> world \<Rightarrow> u32 \<Rightarrow> elem_type \<Rightarrow> bytes option \<Rightarrow> nat \<Rightarrow> router \<Rightarrow> (seds_result \<times> router) option" where
  "router_log E w t el data count = seds_router_log_typed_ex E w t data count (snd (elem_traits el)) None False"

definition router_log_queue ::
    "env \<Rightarrow> world \<Rightarrow> u32 \<Rightarrow> elem_type \<Rightarrow> bytes option \<Rightarrow> nat \<Rightarrow> router \<Rightarrow> (seds_result \<times> router) option" where
  "router_log_queue E w t el data count = seds_router_log_typed_ex E w t data count (snd (elem_traits el)) None True"

definition router_log_ts ::
    "env \<Rightarrow> world \<Rightarrow> u32 \<Rightarrow> u64 \<Rightarrow> elem_type \<Rightarrow> bytes option \<Rightarrow> nat \<Rightarrow> router \<Rightarrow> (seds_result \<times> router) option" where
  "router_log_ts E w t ts el data count =
     seds_router_log_typed_ex E w t data count (snd (elem_traits el)) (Some ts) False"

definition router_log_cstr :: "env \<Rightarrow> world \<Rightarrow> u32 \<Rightarrow> bytes option \<Rightarrow> router \<Rightarrow> (seds_result \<times> router) option" where
  "router_log_cstr E w t str = seds_router_log_string_ex E w t str (strlen str) None False"

definition enable_managed_variable :: "env \<Rightarrow> u32 \<Rightarrow> router \<Rightarrow> seds_result \<times> router" where
  "enable_managed_variable E t = seds_router_enable_managed_variable E t"

definition enable_network_variable :: "env \<Rightarrow> u32 \<Rightarrow> bool \<Rightarrow> bool \<Rightarrow> router \<Rightarrow> seds_result \<times> router" where
  "enable_network_variable E t can_rd can_wr = seds_router_enable_network_variable E t can_rd can_wr"

definition on_network_variable_update :: "env \<Rightarrow> u32 \<Rightarrow> fn option \<Rightarrow> router \<Rightarrow> seds_result \<times> router" where
  "on_network_variable_update E t cb = seds_router_on_network_variable_update E t cb"

definition disable_managed_variable :: "u32 \<Rightarrow> router \<Rightarrow> router" where
  "disable_managed_variable t = seds_router_disable_managed_variable t"

definition request_managed_variable :: "env \<Rightarrow> world \<Rightarrow> u32 \<Rightarrow> router \<Rightarrow> seds_result \<times> router" where
  "request_managed_variable E w t = seds_router_request_managed_variable E w t"

definition seed_managed_variable_packed :: "env \<Rightarrow> world \<Rightarrow> bytes \<Rightarrow> router \<Rightarrow> (seds_result \<times> router) option" where
  "seed_managed_variable_packed E w bs = seds_router_seed_managed_variable_packed E w bs"

definition set_network_variable_packed :: "env \<Rightarrow> world \<Rightarrow> bytes \<Rightarrow> router \<Rightarrow> (seds_result \<times> router) option" where
  "set_network_variable_packed E w bs = seds_router_set_network_variable_packed E w bs"

definition cached_managed_variable_packed_len :: "u32 \<Rightarrow> router \<Rightarrow> i32" where
  "cached_managed_variable_packed_len t = seds_router_cached_managed_variable_packed_len t"

definition cached_managed_variable_packed :: "u32 \<Rightarrow> bool \<Rightarrow> nat \<Rightarrow> router \<Rightarrow> i32 \<times> bytes" where
  "cached_managed_variable_packed t null cap = seds_router_cached_managed_variable_packed t null cap"

definition get_network_variable_packed_len :: "env \<Rightarrow> world \<Rightarrow> u32 \<Rightarrow> u32 \<Rightarrow> router \<Rightarrow> i32 \<times> router" where
  "get_network_variable_packed_len E w t stale_after_ms =
     seds_router_get_network_variable_packed_len E w t stale_after_ms"

definition get_network_variable_packed ::
    "env \<Rightarrow> world \<Rightarrow> u32 \<Rightarrow> u32 \<Rightarrow> bool \<Rightarrow> nat \<Rightarrow> router \<Rightarrow> (i32 \<times> bytes) \<times> router" where
  "get_network_variable_packed E w t stale_after_ms null cap =
     seds_router_get_network_variable_packed E w t stale_after_ms null cap"

definition router_memory_layout_len :: "router \<Rightarrow> i32" where
  "router_memory_layout_len = seds_router_export_memory_layout_len"

definition router_memory_layout :: "string option \<Rightarrow> nat \<Rightarrow> router \<Rightarrow> seds_result \<times> string option" where
  "router_memory_layout out out_len = seds_router_export_memory_layout out out_len"

definition router_client_stats_len :: "env \<Rightarrow> world \<Rightarrow> nat + string \<Rightarrow> router \<Rightarrow> i32" where
  "router_client_stats_len E w from = seds_router_export_client_stats_len E w from"

definition router_client_stats ::
    "env \<Rightarrow> world \<Rightarrow> nat + string \<Rightarrow> string option \<Rightarrow> nat \<Rightarrow> router \<Rightarrow> seds_result \<times> string option" where
  "router_client_stats E w from out out_len = seds_router_export_client_stats E w from out out_len"

definition router_announce_leave :: "router \<Rightarrow> seds_result \<times> router" where
  "router_announce_leave = seds_router_announce_leave"

definition relay_memory_layout_len :: "relay \<Rightarrow> i32" where
  "relay_memory_layout_len = seds_relay_export_memory_layout_len"

definition relay_memory_layout :: "string option \<Rightarrow> nat \<Rightarrow> relay \<Rightarrow> seds_result \<times> string option" where
  "relay_memory_layout out out_len = seds_relay_export_memory_layout out out_len"

definition relay_client_stats_len :: "env \<Rightarrow> world \<Rightarrow> nat + string \<Rightarrow> relay \<Rightarrow> i32" where
  "relay_client_stats_len E w from = seds_relay_export_client_stats_len E w from"

definition relay_client_stats ::
    "env \<Rightarrow> world \<Rightarrow> nat + string \<Rightarrow> string option \<Rightarrow> nat \<Rightarrow> relay \<Rightarrow> seds_result \<times> string option" where
  "relay_client_stats E w from out out_len = seds_relay_export_client_stats E w from out out_len"

definition relay_announce_leave :: "relay \<Rightarrow> seds_result \<times> relay" where
  "relay_announce_leave = seds_relay_announce_leave"

definition pkt_get :: "elem_type \<Rightarrow> packet_view option \<Rightarrow> nat option \<Rightarrow> (i32 \<times> bytes) option" where
  "pkt_get el pkt out = seds_pkt_get_typed pkt out (snd (elem_traits el))"

section \<open>Tables and enumerations\<close>

text \<open>
  \<open>Cpp-Headers/config.hpp\<close>: the entry of a type, and the search for an endpoint. The search compares the name with
  the entries of the table, which may be null pointers; \<open>None\<close> is such a comparison.
\<close>

definition find_type_info :: "env \<Rightarrow> u32 \<Rightarrow> type_info option" where
  "find_type_info E t = (if valid_type E t then Some (kTypeInfo E ! unat t) else None)"

fun scan_names :: "string \<Rightarrow> (nat \<times> string option) list \<Rightarrow> u32 option option" where
  "scan_names nm [] = Some None"
| "scan_names nm ((i, None) # es) = None"
| "scan_names nm ((i, Some s) # es) = (if nm = s then Some (Some (word_of_nat i)) else scan_names nm es)"

definition endpoint_by_name :: "env \<Rightarrow> string \<Rightarrow> u32 option option" where
  "endpoint_by_name E nm =
     (let es = enumerate 0 (kEndpointNames E) in
      case scan_names nm (drop 100 es) of
        None \<Rightarrow> None
      | Some (Some i) \<Rightarrow> Some (Some i)
      | Some None \<Rightarrow> scan_names nm es)"

text \<open>\<open>Cpp-Headers/macros.hpp\<close>: an enumerator from its value, if it lies between the bounds.\<close>

definition enum_from_underlying :: "'a :: len word \<Rightarrow> 'a word \<Rightarrow> 'a word \<Rightarrow> 'a word option" where
  "enum_from_underlying v min_value max_value = (if v < min_value \<or> max_value < v then None else Some v)"

end
