(* ===== verification/Shortcut_Facts.thy ===== *)
theory Shortcut_Facts
  imports Shortcuts Registry_Facts Packet_Facts Delivery
begin

text \<open>
  The inline functions: references obtained by name are references to what has that name, logged
  elements are the elements that are read, and where the functions for strings differ from their
  documentation.
\<close>

lemma find_in: "find P xs = Some x \<Longrightarrow> x \<in> set xs \<and> P x"
  by (induction xs) (auto split: if_splits)

lemma find_type_sound:
  assumes "find_type E nm (search_order (length (kTypeInfo E))) = Some t" "length (kTypeInfo E) < 2 ^ 32"
  shows "valid_type E t \<and> ti_name (type_at E t) = nm"
proof -
  obtain i where i: "find (\<lambda>i. ti_name (kTypeInfo E ! i) \<noteq> '''' \<and> ti_name (kTypeInfo E ! i) = nm)
      (search_order (length (kTypeInfo E))) = Some i" "t = word_of_nat i"
    using assms(1) by (auto simp: find_type_def)
  from find_in [OF i(1)] have "i < length (kTypeInfo E)" "ti_name (kTypeInfo E ! i) \<noteq> ''''" "ti_name (kTypeInfo E ! i) = nm"
    by (auto simp: search_order_def)
  moreover from this assms(2) have "unat t = i" by (simp add: i(2) unat_of_nat take_bit_nat_eq_self)
  ultimately show ?thesis by (simp add: valid_type_def type_at_def)
qed

lemma find_endpoint_sound:
  assumes "find_endpoint E nm (search_order (length (kEndpointNames E))) = Some ep" "length (kEndpointNames E) < 2 ^ 32"
  shows "endpoint_at E ep = Some nm"
proof -
  obtain i where i: "find (\<lambda>i. kEndpointNames E ! i = Some nm) (search_order (length (kEndpointNames E))) = Some i"
      "ep = word_of_nat i"
    using assms(1) by (auto simp: find_endpoint_def)
  from find_in [OF i(1)] have "i < length (kEndpointNames E)" "kEndpointNames E ! i = Some nm"
    by (auto simp: search_order_def)
  moreover from this assms(2) have "unat ep = i" by (simp add: i(2) unat_of_nat take_bit_nat_eq_self)
  ultimately show ?thesis by (simp add: endpoint_at_def)
qed

lemma find_type_complete:
  assumes "valid_type E t"
  shows "find_type E (ti_name (type_at E t)) (search_order (length (kTypeInfo E))) \<noteq> None"
  using assms by (auto simp: find_type_def find_None_iff search_order_def valid_type_def type_at_def)

lemma find_endpoint_complete:
  assumes "endpoint_at E ep = Some nm"
  shows "find_endpoint E nm (search_order (length (kEndpointNames E))) \<noteq> None"
  using assms by (auto simp: find_endpoint_def find_None_iff search_order_def endpoint_at_def split: if_splits)

lemma c_api_type_id_valid: "valid_type E t \<Longrightarrow> c_api_type_id E t = t"
  by (simp add: c_api_type_id_def)

lemma type_ref_sound:
  assumes "seds_type_ref_by_name R (Inr nm) = Inr t" "length (kTypeInfo (tables R)) < 2 ^ 32"
  shows "seds_type_ref_exists R t \<and> di_name (seds_dtype_get_info R t) = nm"
proof -
  let ?E = "tables R"
  obtain i where i: "find_type ?E nm (search_order (length (kTypeInfo ?E))) = Some i" "t = di_id (seds_dtype_get_info R i)"
    using assms(1) by (cases "find_type ?E nm (search_order (length (kTypeInfo ?E)))")
      (auto simp: seds_type_ref_by_name_def seds_dtype_get_info_by_name_def sv_from_def no_type_def Let_def split: if_splits)
  note v = find_type_sound [OF i(1) assms(2)]
  then have "t = i" using i(2) by (simp add: seds_dtype_get_info_def Let_def c_api_type_id_valid)
  with v show ?thesis
    by (simp add: seds_type_ref_exists_def seds_dtype_exists_def seds_dtype_get_info_def Let_def c_api_type_id_valid)
qed

lemma type_ref_complete:
  assumes "valid_type (tables R) t" "length (kTypeInfo (tables R)) < 2 ^ 32"
  shows "\<exists>t'. seds_type_ref_by_name R (Inr (ti_name (type_at (tables R) t))) = Inr t'"
proof -
  let ?E = "tables R"
  obtain i where i: "find_type ?E (ti_name (type_at ?E t)) (search_order (length (kTypeInfo ?E))) = Some i"
    using find_type_complete [OF assms(1)] by blast
  from find_type_sound [OF i assms(2)] have "di_exists (seds_dtype_get_info R i)"
    by (simp add: seds_dtype_get_info_def Let_def c_api_type_id_valid)
  then show ?thesis using i by (simp add: seds_type_ref_by_name_def seds_dtype_get_info_by_name_def sv_from_def Let_def)
qed

lemma endpoint_ref_sound:
  assumes "seds_endpoint_ref_by_name R (Inr nm) = Inr ep" "length (kEndpointNames (tables R)) < 2 ^ 32"
  shows "seds_endpoint_ref_exists R ep \<and> ei_name (seds_endpoint_get_info R ep) = nm"
proof -
  let ?E = "tables R"
  obtain i where i: "find_endpoint ?E nm (search_order (length (kEndpointNames ?E))) = Some i"
      "ep = ei_id (seds_endpoint_get_info R i)"
    using assms(1) by (auto simp: seds_endpoint_ref_by_name_def seds_endpoint_get_info_by_name_def sv_from_def no_endpoint_def
        Let_def split: if_splits option.splits)
  note v = find_endpoint_sound [OF i(1) assms(2)]
  then have "ep = i" using i(2) by (simp add: seds_endpoint_get_info_def)
  with v show ?thesis
    by (auto simp: seds_endpoint_ref_exists_def seds_endpoint_exists_def seds_endpoint_get_info_def valid_endpoint_def
        endpoint_at_def split: if_splits)
qed

lemma endpoint_ref_complete:
  assumes "endpoint_at (tables R) ep = Some nm" "length (kEndpointNames (tables R)) < 2 ^ 32"
  shows "\<exists>ep'. seds_endpoint_ref_by_name R (Inr nm) = Inr ep'"
proof -
  obtain i where i: "find_endpoint (tables R) nm (search_order (length (kEndpointNames (tables R)))) = Some i"
    using find_endpoint_complete [OF assms(1)] by blast
  from find_endpoint_sound [OF i assms(2)] have "ei_exists (seds_endpoint_get_info R i)"
    by (simp add: seds_endpoint_get_info_def)
  then show ?thesis using i by (simp add: seds_endpoint_ref_by_name_def seds_endpoint_get_info_by_name_def sv_from_def Let_def)
qed

text \<open>
  References by name. What \<open>seds_type_ref_by_name\<close> and \<open>seds_endpoint_ref_by_name\<close> return exists and has the
  name that was asked for, and they return something for the name of every existing type and
  endpoint.
\<close>

theorem refs_by_name_resolve:
  assumes "length (kTypeInfo (tables R)) < 2 ^ 32" "length (kEndpointNames (tables R)) < 2 ^ 32"
  shows "(seds_type_ref_by_name R (Inr nm) = Inr t \<longrightarrow>
       seds_type_ref_exists R t \<and> di_name (seds_dtype_get_info R t) = nm) \<and>
    (valid_type (tables R) t' \<longrightarrow> (\<exists>t. seds_type_ref_by_name R (Inr (ti_name (type_at (tables R) t'))) = Inr t)) \<and>
    (seds_endpoint_ref_by_name R (Inr nm) = Inr ep \<longrightarrow>
       seds_endpoint_ref_exists R ep \<and> ei_name (seds_endpoint_get_info R ep) = nm) \<and>
    (endpoint_at (tables R) ep' = Some nm' \<longrightarrow> (\<exists>ep. seds_endpoint_ref_by_name R (Inr nm') = Inr ep))"
  using type_ref_sound [OF _ assms(1)] type_ref_complete [OF _ assms(1)] endpoint_ref_sound [OF _ assms(2)]
    endpoint_ref_complete [OF _ assms(2)]
  by blast

theorem refs_by_name_resolve_witness:
  "seds_type_ref_exists base_registry 0 \<and> di_name (seds_dtype_get_info base_registry 0) = ''RELIABLE_ACK'' \<and>
   (\<exists>ep. seds_endpoint_ref_by_name base_registry (Inr ''DISCOVERY'') = Inr ep)"
proof -
  have 1: "length (kTypeInfo (tables base_registry)) < 2 ^ 32" "length (kEndpointNames (tables base_registry)) < 2 ^ 32"
    by (simp_all add: base_registry_def)
  have 2: "seds_type_ref_by_name base_registry (Inr ''RELIABLE_ACK'') = Inr 0"
    by (simp add: seds_type_ref_by_name_def seds_dtype_get_info_by_name_def find_type_def search_order_def sv_from_def
        seds_dtype_get_info_def c_api_type_id_def valid_type_def base_registry_def builtin_sample_def Let_def)
  have 3: "endpoint_at (tables base_registry) 201 = Some ''DISCOVERY''" by (simp add: endpoint_at_def base_registry_def nth_append)
  from refs_by_name_resolve [OF 1, of "''RELIABLE_ACK''" 0 0 0 201 "''DISCOVERY''"] 2 3 show ?thesis by blast
qed

text \<open>
  Logged elements are read back. The elements of an array that is accepted for queueing are the
  payload of the packet that is offered to the transmit queue, and reading that packet with the
  same element type gives their number and the elements.
\<close>

theorem logged_elements_read_back:
  assumes "valid_type E t" "validate_payload E t (length (concat elems))"
    and "list_all (\<lambda>b. length b = snd (elem_traits el)) elems" "length (concat elems) < 2 ^ 31" "length elems \<le> cap"
  shows "\<exists>pkt. payload pkt = concat elems \<and> ty pkt = t \<and>
    seds_router_log_queue E w t el (Some (concat elems)) (length elems) r =
      Some (then_enforce (offer_tx \<lparr>tx_pkt = pkt, tx_src_side = None, tx_dst_side = None, deliver_local = True\<rparr> r)) \<and>
    seds_pkt_get_elements el (Some (fill_view pkt)) (Some cap) = Some (int (length elems), concat elems)"
proof -
  let ?sz = "snd (elem_traits el)"
  have pos: "0 < ?sz" by (cases el) simp_all
  have l: "length (concat elems) = length elems * ?sz" using length_concat_same [OF assms(3)] .
  then have small: "length elems < 2 ^ 31" using assms(4) pos by (metis le_less_trans mult.commute mult_le_mono1 nat_mult_1 Suc_leI One_nat_def)
  have sz: "size_mul (length elems) ?sz = length (concat elems)" using assms(4) l by (simp add: size_mul_def)
  let ?pkt = "\<lparr>ty = t, sender = r_sender r, endpoints = ti_endpoints (type_at E t), timestamp = now_ms w r, payload = concat elems\<rparr>"
  have "seds_router_log_queue E w t el (Some (concat elems)) (length elems) r =
      Some (then_enforce (offer_tx \<lparr>tx_pkt = ?pkt, tx_src_side = None, tx_dst_side = None, deliver_local = True\<rparr> r))"
    using assms(1,2) sz
    by (simp add: seds_router_log_queue_def seds_router_log_typed_ex_def seds_router_log_bytes_ex_def read_ptr_def)
  moreover have "seds_pkt_get_elements el (Some (fill_view ?pkt)) (Some cap) = Some (int (length elems), concat elems)"
    using pos assms(5) l small copy_payload_fill [of "length elems * ?sz" ?pkt]
    by (simp add: seds_pkt_get_elements_def seds_pkt_get_typed_def seds_pkt_copy_data_def fill_view_def [of ?pkt]
        length_code_small Let_def)
  ultimately show ?thesis by (intro exI [of _ ?pkt]) simp
qed

theorem logged_elements_read_back_witness:
  "\<exists>pkt. payload pkt = [1, 2, 3] \<and> ty pkt = GPS \<and>
     seds_pkt_get_elements E_u8 (Some (fill_view pkt)) (Some 8) = Some (3, [1, 2, 3])"
proof -
  have "validate_payload sample_env GPS (length (concat [[1], [2], [3 :: u8]]))" by (simp add: gps_size)
  from logged_elements_read_back [OF _ this, of E_u8 8 sample_world sample_station] show ?thesis by auto
qed

text \<open>
  (C33) The functions for strings differ from their documentation. A string shorter or longer than the fixed size of its
  type is neither padded nor truncated but rejected, and reading a string payload returns its
  length where 0 is documented, and copies nothing into a buffer that is too small, where as much
  as fits is documented.
\<close>

theorem strings_not_as_documented:
  assumes "valid_type E t" "\<not> dynamic (type_at E t)" "len \<noteq> size_mul (elem_size (type_at E t)) (static_count (type_at E t))"
    and "length (payload pkt) + 1 < 2 ^ 31"
  shows "seds_router_log_string_ex E w t (Some bs) len ts queue r = Some (SEDS_SIZE_MISMATCH, r) \<and>
    seds_pkt_get_string (Some (fill_view pkt)) (Some n) =
      Some (if length (payload pkt) < n
            then (int (length (payload pkt)), string_of_bytes (payload pkt) @ [CHR 0x00])
            else (int (length (payload pkt)) + 1, ''''))"
proof
  show "seds_router_log_string_ex E w t (Some bs) len ts queue r = Some (SEDS_SIZE_MISMATCH, r)"
    using assms(1-3) by (simp add: seds_router_log_string_ex_def seds_router_log_bytes_ex_def validate_payload_def Let_def)
  show "seds_pkt_get_string (Some (fill_view pkt)) (Some n) =
      Some (if length (payload pkt) < n
            then (int (length (payload pkt)), string_of_bytes (payload pkt) @ [CHR 0x00])
            else (int (length (payload pkt)) + 1, ''''))"
    using assms(4) copy_payload_fill [of "length (payload pkt)" pkt]
    by (simp add: seds_pkt_get_string_def fill_view_def [of pkt] length_code_small)
qed

theorem strings_not_as_documented_witness:
  "seds_router_log_string_ex sample_env sample_world GPS (Some [72, 105]) 2 None True sample_station =
     Some (SEDS_SIZE_MISMATCH, sample_station) \<and>
   seds_pkt_get_string (Some (fill_view gps_packet)) (Some 2) = Some (4, '''')"
proof -
  have "\<not> dynamic (type_at sample_env GPS)" "2 \<noteq> size_mul (elem_size (type_at sample_env GPS)) (static_count (type_at sample_env GPS))"
    "length (payload gps_packet) + 1 < 2 ^ 31"
    by (simp_all add: type_at_def sample_defs gps_packet_def)
  from strings_not_as_documented [OF _ this, of sample_world "[72, 105]" None True sample_station 2] show ?thesis
    by (simp add: gps_packet_def)
qed

section \<open>Searching the endpoint table\<close>

lemma find_append: "find P (xs @ ys) = (case find P xs of None \<Rightarrow> find P ys | Some x \<Rightarrow> Some x)"
  by (induction xs) simp_all

lemma find_pairs: "find (\<lambda>(_, s). Q s) (map (\<lambda>i. (i, f i)) xs) = map_option (\<lambda>i. (i, f i)) (find (\<lambda>i. Q (f i)) xs)"
  by (induction xs) simp_all

lemma scan_names_find:
  "\<forall>e \<in> set es. snd e \<noteq> None \<Longrightarrow>
     scan_names nm es = Some (map_option (\<lambda>e. word_of_nat (fst e)) (find (\<lambda>(_, s). s = Some nm) es))"
  by (induction nm es rule: scan_names.induct) auto

lemma scan_names_null:
  "\<forall>e \<in> set es. snd e \<noteq> Some nm \<Longrightarrow> scan_names nm (es @ (i, None) # es') = None"
  by (induction nm es rule: scan_names.induct) auto

lemma enumerate_map: "drop k (enumerate 0 xs) = map (\<lambda>i. (i, xs ! i)) [k..<length xs]"
  by (rule nth_equalityI) (simp_all add: nth_enumerate_eq)

text \<open>
  The two searches for an endpoint. If no entry of the table is a null pointer, \<open>endpoint_by_name\<close> finds what the C
  interface finds; it compares with a null pointer, which is undefined, if it meets an unused entry
  from 100 on before the name.
\<close>

theorem endpoint_search:
  "(None \<notin> set (kEndpointNames E) \<longrightarrow>
      endpoint_by_name E nm = Some (find_endpoint E nm (search_order (length (kEndpointNames E))))) \<and>
   (100 \<le> i \<and> i < length (kEndpointNames E) \<and> kEndpointNames E ! i = None \<and>
      (\<forall>j. 100 \<le> j \<and> j < i \<longrightarrow> kEndpointNames E ! j \<noteq> Some nm) \<longrightarrow> endpoint_by_name E nm = None)"
proof (intro conjI impI)
  let ?ns = "kEndpointNames E"
  assume "None \<notin> set ?ns"
  then have all: "?ns ! j \<noteq> None" if "j < length ?ns" for j using that by (metis nth_mem)
  have scan: "scan_names nm (drop k (enumerate 0 ?ns)) =
      Some (map_option word_of_nat (find (\<lambda>i. ?ns ! i = Some nm) [k..<length ?ns]))" for k
    unfolding enumerate_map using all
    by (subst scan_names_find) (auto simp: find_pairs option.map_comp comp_def)
  show "endpoint_by_name E nm = Some (find_endpoint E nm (search_order (length ?ns)))"
    using scan [of 100] scan [of 0]
    by (simp add: endpoint_by_name_def Let_def find_endpoint_def search_order_def find_append split: option.splits)
next
  let ?ns = "kEndpointNames E"
  assume i: "100 \<le> i \<and> i < length ?ns \<and> ?ns ! i = None \<and> (\<forall>j. 100 \<le> j \<and> j < i \<longrightarrow> ?ns ! j \<noteq> Some nm)"
  then have "[100..<length ?ns] = [100..<i] @ i # [Suc i..<length ?ns]"
    using upt_add_eq_append [of 100 i "length ?ns - i"] upt_conv_Cons [of i "length ?ns"] by simp
  with i have "scan_names nm (drop 100 (enumerate 0 ?ns)) = None"
    unfolding enumerate_map by (simp add: scan_names_null)
  then show "endpoint_by_name E nm = None" by (simp add: endpoint_by_name_def)
qed

theorem endpoint_search_witness: "endpoint_by_name (tables base_registry) ''DISCOVERY'' = None"
proof -
  have "100 \<le> (100 :: nat) \<and> 100 < length (kEndpointNames (tables base_registry)) \<and>
      kEndpointNames (tables base_registry) ! 100 = None \<and>
      (\<forall>j. 100 \<le> j \<and> j < 100 \<longrightarrow> kEndpointNames (tables base_registry) ! j \<noteq> Some ''DISCOVERY'')"
    by (simp add: base_registry_def nth_append)
  with endpoint_search [of "tables base_registry" "''DISCOVERY''" 100] show ?thesis by blast
qed

end
