(* ===== verification/Network.thy ===== *)
theory Network
  imports Relay_Facts
begin

text \<open>
  Relays and routers joined by links. A frame that a relay receives and works off is sent once to
  every chosen side; a packet crosses any path of relays and reaches the handlers of the router at
  its end. What arrives is the packet's wire image, taken once for every link: the decoder replaces
  the sender by the text of its address and the next encoder hashes that text, so that the identity
  of a packet depends on the number of links it crossed.
\<close>

section \<open>One relay\<close>

text \<open>
  The application of a relay: hand a frame from a side over, then work off both queues.
\<close>

definition relay_forward :: "env \<Rightarrow> world \<Rightarrow> u32 \<Rightarrow> bytes \<Rightarrow> relay \<Rightarrow> (seds_result \<times> relay) option" where
  "relay_forward E w side_id bs r = do {
     (rc, r1) \<leftarrow> seds_relay_rx_serialized_from_side E w side_id bs r;
     if rc \<noteq> SEDS_OK then Some (rc, r1) else seds_relay_process_all_queues E w r1
   }"

text \<open>The item a relay makes of a packet from a side, and the frames it sends for it.\<close>

definition forwarded :: "u32 \<Rightarrow> packet \<Rightarrow> tx_item" where
  "forwarded side_id pkt = \<lparr>tx_pkt = pkt, tx_src_side = Some (sint side_id), tx_dst_side = None, deliver_local = False\<rparr>"

definition fan_out :: "side list \<Rightarrow> i32 list \<Rightarrow> bytes \<Rightarrow> event list" where
  "fan_out ss ts bs = map (\<lambda>s. SerializedTx (the (serialized_tx (ss ! nat s))) bs) ts"

text \<open>
  A relay at rest, with nothing to retransmit, that has not had the packet from this side and has
  room for it; and the sides it chooses, which take frames and accept this one.
\<close>

definition relay_ready :: "env \<Rightarrow> u32 \<Rightarrow> packet \<Rightarrow> relay \<Rightarrow> bool" where
  "relay_ready E side_id pkt r \<longleftrightarrow>
     ingress_side side_id r \<and> idle r \<and> owner_rx r = ([], 0) \<and> owner_tx r = ([], 0) \<and>
     reliable_released_rx r = [] \<and> reliable_tx r = [] \<and> max_recent_rx_ids (memory r) \<noteq> 0 \<and>
     dedupe_id side_id (the (packet_id E pkt)) \<notin> set (recent_set r) \<and>
     byte_cost_rx \<lparr>rx_pkt = pkt, rx_src_side = Some (sint side_id), wire_bytes = []\<rparr> \<le> max_queue_budget (memory r) \<and>
     byte_cost_tx (forwarded side_id pkt) \<le> max_queue_budget (memory r)"

definition sides_accept :: "env \<Rightarrow> world \<Rightarrow> packet \<Rightarrow> i32 list \<Rightarrow> 'a owner_scheme \<Rightarrow> bool" where
  "sides_accept E w pkt ts r \<longleftrightarrow>
     list_all (\<lambda>s. serialized_tx (sides r ! nat s) \<noteq> None) ts \<and>
     (\<forall>f tr. respond w tr (SerializedTx f (serialize_packet E pkt)) = SEDS_OK)"

text \<open>Packets an application sends without reliability.\<close>

definition plain :: "env \<Rightarrow> packet \<Rightarrow> bool" where
  "plain E pkt \<longleftrightarrow>
     ordinary E pkt \<and> named_endpoints E (endpoints pkt) \<and> wire_ok E pkt \<and> \<not> is_reliable_type E (ty pkt)"

lemma wire_image_payload [simp]:
  "payload (wire_image E pkt) = payload pkt" "timestamp (wire_image E pkt) = timestamp pkt"
  by (simp_all add: wire_image_def)

lemma wire_ok_image: "wire_ok E pkt \<Longrightarrow> wire_ok E (wire_image E pkt)"
  by (auto simp: wire_ok_def wire_endpoints_ok_def wire_image_def list_all_iff)

lemma plain_image: "plain E pkt \<Longrightarrow> plain E (wire_image E pkt)"
  by (simp add: plain_def wire_image_ordinary wire_ok_image)

lemma plain_frame:
  assumes "plain E pkt" "zstd_inverts E"
  obtains frame where "peek_frame_info E (serialize_packet E pkt) True = Some (Some frame)" "reliable frame = None"
    "\<not> ack_only frame" "env_ty (envelope frame) = ty pkt" "set (env_endpoints (envelope frame)) = set (endpoints pkt)"
    "deserialize_packet E (serialize_packet E pkt) = Some (Some (wire_image E pkt))"
proof -
  have nl: "\<not> is_link_ack pkt" using assms(1) by (auto simp: plain_def ordinary_def is_internal_control_type_def is_link_ack_def)
  have nv: "\<not> has_v4_reliable_header E (ty pkt)"
    using assms(1) by (auto simp: plain_def has_v4_reliable_header_def is_reliable_type_def)
  have ok: "wire_ok E pkt" using assms(1) by (simp add: plain_def)
  have h: "data_header \<lparr>rh_flags = 0, seq = 1, ack = 1\<rparr>" by (simp add: data_header_def)
  show thesis
    using that peek_serialize_with_reliable [OF ok h, of True] deserialize_serialize_with_reliable [OF ok assms(2) h] nv
    unfolding serialize_packet_data [OF nl] by (simp add: ack_only_def)
qed

lemma send_plain:
  assumes "idle r" "serialized_tx (sides r ! nat s) = Some f" "\<not> is_reliable_type E (ty pkt)"
    and "\<forall>f tr. respond w tr (SerializedTx f (serialize_packet E pkt)) = SEDS_OK"
  shows "send_serialized_with_reliable E w s pkt r = (SEDS_OK, r\<lparr>trace := trace r @ [SerializedTx f (serialize_packet E pkt)]\<rparr>)"
  using assms by (cases r) (simp add: send_serialized_with_reliable_def call_serialized_tx_def call_back_def idle_def)

lemma transmit_to_relay_accepted:
  assumes "idle r" "sides_accept E w pkt ts r" "\<not> is_reliable_type E (ty pkt)"
    and "list_all (\<lambda>s. in_range s (sides r) \<and> egress_enabled (sides r ! nat s)) ts"
  shows "transmit_to_relay E w pkt ts r =
    (SEDS_OK, r\<lparr>trace := trace r @ fan_out (sides r) ts (serialize_packet E pkt)\<rparr>)"
  using assms
proof (induction ts arbitrary: r)
  case Nil
  then show ?case by (simp add: fan_out_def)
next
  case (Cons s ts)
  then obtain f where f: "serialized_tx (sides r ! nat s) = Some f" by (auto simp: sides_accept_def)
  let ?r = "r\<lparr>trace := trace r @ [SerializedTx f (serialize_packet E pkt)]\<rparr>"
  have "send_serialized_with_reliable E w s pkt r = (SEDS_OK, ?r)"
    by (rule send_plain) (use Cons.prems f in \<open>simp_all add: sides_accept_def\<close>)
  moreover have "transmit_to_relay E w pkt ts ?r = (SEDS_OK, ?r\<lparr>trace := trace ?r @ fan_out (sides ?r) ts (serialize_packet E pkt)\<rparr>)"
    by (rule Cons.IH) (use Cons.prems in \<open>simp_all add: sides_accept_def\<close>)
  ultimately show ?case using Cons.prems(4) f by (simp add: fan_out_def)
qed

lemma choose_targets_cong:
  assumes "sides r' = sides r" "discovery_routes r' = discovery_routes r" "route_overrides r' = route_overrides r"
    and "typed_route_overrides r' = typed_route_overrides r" "source_policy r' = source_policy r"
    and "local_policy r' = local_policy r" "trace r' = trace r"
  shows "fst (choose_targets E w preferred item r') = fst (choose_targets E w preferred item r)"
  using assms by (simp add: choose_targets_def Let_def case_prod_unfold now_ms_def split: option.split)

lemma enqueue_bounded_empty:
  "cost item \<le> budget \<Longrightarrow> enqueue_bounded cost ([], 0) item front budget = (True, ([item], cost item))"
  by (simp add: enqueue_bounded_def Let_def leD)

lemma timeouts_none: "reliable_tx r = [] \<Longrightarrow> do_reliable_timeouts E w r = r"
  by (simp add: do_reliable_timeouts_def)

lemma set_own_queues [simp]:
  "owner_rx r = ([], 0) \<Longrightarrow> set_rx ([], 0) r = r" "owner_tx r = ([], 0) \<Longrightarrow> set_tx ([], 0) r = r"
  by (simp_all add: owner_rx_def owner_tx_def set_rx_def set_tx_def)

lemma enqueue_released_nothing: "reliable_released_rx r = [] \<Longrightarrow> enqueue_released r = r"
  by (simp add: enqueue_released_def)

text \<open>A frame of an unseen packet goes to the receive queue.\<close>

lemma relay_takes_frame:
  assumes "plain E pkt" "zstd_inverts E" "relay_ready E side_id (wire_image E pkt) r"
  obtains ids st where "seds_relay_rx_serialized_from_side E w side_id (serialize_packet E pkt) r =
    Some (SEDS_OK, set_rx ([\<lparr>rx_pkt = wire_image E pkt, rx_src_side = Some (sint side_id), wire_bytes = []\<rparr>],
        byte_cost_rx \<lparr>rx_pkt = wire_image E pkt, rx_src_side = Some (sint side_id), wire_bytes = []\<rparr>)
      (r\<lparr>recent_ids := ids, recent_set := st\<rparr>))"
proof -
  let ?item = "\<lparr>rx_pkt = wire_image E pkt, rx_src_side = Some (sint side_id), wire_bytes = []\<rparr>"
  obtain frame where fr: "peek_frame_info E (serialize_packet E pkt) True = Some (Some frame)" "reliable frame = None"
    "\<not> ack_only frame" "deserialize_packet E (serialize_packet E pkt) = Some (Some (wire_image E pkt))"
    using plain_frame [OF assms(1,2)] by metis
  note ready = assms(3) [unfolded relay_ready_def]
  have named: "named_endpoints E (endpoints (wire_image E pkt))"
    using assms(1) wire_image_ordinary(2) by (simp add: plain_def)
  obtain pid where pid: "packet_id E (wire_image E pkt) = Some pid" using packet_id_named(1) [OF named] by auto
  have "push_recent (max_recent_rx_ids (memory r)) (recent_ids r, recent_set r) (dedupe_id side_id pid) \<noteq> None"
    using ready by (simp add: push_recent_def split: list.split)
  then obtain ids st where push:
    "push_recent (max_recent_rx_ids (memory r)) (recent_ids r, recent_set r) (dedupe_id side_id pid) = Some (ids, st)" by auto
  let ?r = "r\<lparr>recent_ids := ids, recent_set := st\<rparr>"
  have d: "relay_dedupe E side_id frame (serialize_packet E pkt) r = Some (Some ?r)"
    using fr(2,4) pid push ready by (simp add: relay_dedupe_def packet_id_from_wire_def)
  have o: "offer_rx ?item ?r = (SEDS_OK, set_rx ([?item], byte_cost_rx ?item) ?r)"
    using ready enqueue_bounded_empty [of byte_cost_rx ?item "max_queue_budget (memory r)" False]
    by (simp add: offer_rx_def enqueue_rx_def owner_rx_def)
  have "reliable_released_rx (set_rx Q ?r) = []" for Q using ready by (simp add: set_rx_def)
  note enqueue_released_nothing [OF this]
  then show thesis
    using fr d o ready
    by (intro that [where ids = ids and st = st])
      (simp add: seds_relay_rx_serialized_from_side_def relay_ingress_def process_reliable_ingress_impl_def)
qed

text \<open>An item alone in the receive queue is sent to every chosen side in one round.\<close>

lemma relay_works_off_one:
  assumes "plain E pkt" "idle r" "reliable_tx r = []" "owner_tx r = ([], 0)"
    and "owner_rx r = ([item], byte_cost_rx item)" "rx_pkt item = pkt" "rx_src_side item = Some (sint side_id)"
    and "byte_cost_tx (forwarded side_id pkt) \<le> max_queue_budget (memory r)"
    and "fst (choose_targets E w None (forwarded side_id pkt) r) = ts" "sides_accept E w pkt ts r"
  obtains r' where "seds_relay_process_all_queues E w r = Some (SEDS_OK, r')"
    "trace r' = trace r @ fan_out (sides r) ts (serialize_packet E pkt)" "rx_queue r' = []" "tx_queue r' = []"
proof -
  let ?fwd = "forwarded side_id pkt"
  define r1 where "r1 = set_rx ([], 0) r"
  define r2 where "r2 = push_tx ?fwd r1"
  have named: "named_endpoints E (endpoints pkt)" and o: "ordinary E pkt" and nr: "\<not> is_reliable_type E (ty pkt)"
    using assms(1) by (simp_all add: plain_def)
  obtain pid where pid: "packet_id E pkt = Some pid" using packet_id_named(1) [OF named] by auto
  have "relay_receive_impl E w pkt (Some (sint side_id)) r1 = Some r2"
    using pid o nr by (simp add: relay_receive_impl_def note_return_routes_def wants_end_to_end_def ordinary_def r2_def
        forwarded_def)
  then have rcv: "relay_receive_next E w r = Some r2"
    using assms(5-7) by (simp add: relay_receive_next_def pop_rx_def pop_queue_def r1_def)
  have tx1: "owner_tx r1 = ([], 0)" "max_queue_budget (memory r1) = max_queue_budget (memory r)"
    using assms(4) by (simp_all add: r1_def set_rx_def owner_tx_def)
  have r2': "r2 = set_tx ([?fwd], byte_cost_tx ?fwd) r1"
    using enqueue_bounded_empty [of byte_cost_tx ?fwd "max_queue_budget (memory r1)" False] assms(8)
    by (simp add: r2_def push_tx_def enqueue_tx_def tx1)
  have emptied: "set_tx ([], 0) r2 = r1" using set_own_queues(2) [OF tx1(1)] by (simp add: r2' set_tx_def)
  have keep: "sides r1 = sides r" "trace r1 = trace r" "idle r1" using assms(2) by (simp_all add: r1_def set_rx_def idle_def)
  obtain r3 where c: "choose_targets E w None ?fwd r1 = (ts, r3)"
    using assms(9) choose_targets_cong [of r1 r E w None ?fwd]
    by (cases "choose_targets E w None ?fwd r1") (simp add: r1_def set_rx_def)
  then have r3: "sides r3 = sides r" "trace r3 = trace r" "idle r3" "rx_queue r3 = []" "tx_queue r3 = []"
    using keep idle_choose_targets [of E w None ?fwd r1] tx1
    by (auto simp: choose_targets_def Let_def case_prod_unfold r1_def set_rx_def owner_tx_def split: option.splits)
  define r4 where "r4 = r3\<lparr>trace := trace r3 @ fan_out (sides r3) ts (serialize_packet E pkt)\<rparr>"
  have on: "list_all (\<lambda>s. in_range s (sides r3) \<and> egress_enabled (sides r3 ! nat s)) ts"
    unfolding list_all_iff using choose_targets_egress [of _ E w None ?fwd r1] c keep(1) r3(1) by (auto simp: forwarded_def)
  have "transmit_to_relay E w pkt ts r3 = (SEDS_OK, r4)"
    unfolding r4_def
    by (rule transmit_to_relay_accepted [OF r3(3) _ nr on]) (use assms(10) r3(1) in \<open>simp add: sides_accept_def\<close>)
  then have "transmit_item_relay E w ?fwd r1 = Some (SEDS_OK, r4)"
    using nr c by (simp add: transmit_item_relay_def filter_end_to_end_satisfied_sides_def forwarded_def)
  then have snd: "relay_transmit_next E w False r2 = Some (None, r4)"
    using emptied by (simp add: relay_transmit_next_def pop_tx_def pop_queue_def relay_send_def tx_result_def r2')
  have "seds_relay_process_all_queues E w r = Some (SEDS_OK, r4)"
    using rcv snd r3 timeouts_none [OF assms(3)] relay_alternate.simps [of E w "now_ms w r" 0 r]
    by (simp add: seds_relay_process_all_queues_def seds_relay_process_all_queues_with_timeout_def timeout_expired_def r4_def)
  then show thesis using that r3 by (simp add: r4_def)
qed

lemma relay_forwards:
  assumes "plain E pkt" "zstd_inverts E" "relay_ready E side_id (wire_image E pkt) r"
    and "fst (choose_targets E w None (forwarded side_id (wire_image E pkt)) r) = ts"
    and "sides_accept E w (wire_image E pkt) ts r"
  obtains r' where "relay_forward E w side_id (serialize_packet E pkt) r = Some (SEDS_OK, r')"
    "trace r' = trace r @ fan_out (sides r) ts (serialize_packet E (wire_image E pkt))" "rx_queue r' = []" "tx_queue r' = []"
proof -
  let ?p = "wire_image E pkt" and ?item = "\<lparr>rx_pkt = wire_image E pkt, rx_src_side = Some (sint side_id), wire_bytes = []\<rparr>"
  obtain ids st where rx: "seds_relay_rx_serialized_from_side E w side_id (serialize_packet E pkt) r =
      Some (SEDS_OK, set_rx ([?item], byte_cost_rx ?item) (r\<lparr>recent_ids := ids, recent_set := st\<rparr>))"
    using relay_takes_frame [OF assms(1-3)] by blast
  define r1 where "r1 = set_rx ([?item], byte_cost_rx ?item) (r\<lparr>recent_ids := ids, recent_set := st\<rparr>)"
  have c: "fst (choose_targets E w None (forwarded side_id ?p) r1) = ts"
    using assms(4) choose_targets_cong [of r1 r E w None "forwarded side_id ?p"] by (simp add: r1_def set_rx_def)
  obtain r' where "seds_relay_process_all_queues E w r1 = Some (SEDS_OK, r')"
    "trace r' = trace r1 @ fan_out (sides r1) ts (serialize_packet E ?p)" "rx_queue r' = []" "tx_queue r' = []"
    by (rule relay_works_off_one [OF plain_image [OF assms(1)] _ _ _ _ _ _ _ c])
      (use assms(3,5) in \<open>auto simp: relay_ready_def r1_def set_rx_def owner_rx_def owner_tx_def idle_def sides_accept_def\<close>)
  then show thesis using that rx by (simp add: relay_forward_def r1_def set_rx_def)
qed

section \<open>The router at the end\<close>

definition router_ready :: "u32 \<Rightarrow> router \<Rightarrow> bool" where
  "router_ready side_id r \<longleftrightarrow>
     ingress_side side_id r \<and> reliable_released_rx r = [] \<and> rx_queue r = [] \<and> max_recent_rx_ids (memory r) \<noteq> 0"

text \<open>The calls a router makes for a frame and for the packet in it.\<close>

definition frame_calls :: "packet \<Rightarrow> bytes \<Rightarrow> router \<Rightarrow> event list" where
  "frame_calls pkt bs r = map (\<lambda>h. SerializedHandler h bs) (serialized_handlers (endpoints pkt) (locals r))"

definition packet_calls :: "packet \<Rightarrow> router \<Rightarrow> event list" where
  "packet_calls pkt r = map (\<lambda>h. PacketHandler h pkt) (packet_handlers (endpoints pkt) (locals r))"

text \<open>
  Reception of an unseen plain packet, exactly: the caches and the trace, the value of a managed
  variable, and in relay mode the packet in the transmit queue.
\<close>

lemma remember_managed_exact:
  obtains cbs m where "remember_managed_variable_packet E w pkt r =
    r\<lparr>trace := trace r @ map (\<lambda>g. ManagedCallback g pkt) cbs, managed_latest := m\<rparr>"
proof -
  define r1 where "r1 = store_managed E w pkt r"
  have invoke: "invoke_managed_callback w pkt r1 = r1 \<or>
      (\<exists>g. invoke_managed_callback w pkt r1 = r1\<lparr>trace := trace r1 @ [ManagedCallback g pkt]\<rparr>)"
  proof (cases "\<exists>g. map_of (managed_callbacks r1) (ty pkt) = Some (Some g)")
    case True
    then show ?thesis by (intro disjI2) (auto simp: invoke_managed_callback_def call_back_def)
  next
    case False
    then show ?thesis by (intro disjI1) (auto simp: invoke_managed_callback_def split: option.split)
  qed
  have "remember_managed_variable_packet E w pkt r = r \<or> remember_managed_variable_packet E w pkt r = invoke_managed_callback w pkt r1"
    by (simp add: remember_managed_variable_packet_def r1_def split: option.split)
  then consider (same) "remember_managed_variable_packet E w pkt r = r"
    | (stored) "remember_managed_variable_packet E w pkt r = r1"
    | (called) g where "remember_managed_variable_packet E w pkt r = r1\<lparr>trace := trace r1 @ [ManagedCallback g pkt]\<rparr>"
    using invoke by metis
  then show thesis
  proof cases
    case same
    then show ?thesis by (intro that [where cbs = "[]" and m = "managed_latest r"]) simp
  next
    case stored
    then show ?thesis by (intro that [where cbs = "[]" and m = "managed_latest r1"]) (simp add: r1_def store_managed_def)
  next
    case (called g)
    then show ?thesis by (intro that [where cbs = "[g]" and m = "managed_latest r1"]) (simp add: r1_def store_managed_def)
  qed
qed

lemma receive_plain:
  assumes "plain E pkt" "0 < max_handler_retries (tuning E)" "max_recent_rx_ids (memory r) \<noteq> 0"
    and "accepted w pkt (packet_handlers (endpoints pkt) (locals r))" "the (packet_id E pkt) \<notin> set (recent_set r)"
  obtains ids st cbs m where
    "push_recent (max_recent_rx_ids (memory r)) (recent_ids r, recent_set r) (the (packet_id E pkt)) = Some (ids, st)"
    "router_receive_impl E w pkt (Some s) r =
      (let r' = r\<lparr>recent_ids := ids, recent_set := st,
                  trace := trace r @ packet_calls pkt r @ map (\<lambda>g. ManagedCallback g pkt) cbs, managed_latest := m\<rparr>
       in Some (if mode r = Seds_RM_Relay
                then push_tx \<lparr>tx_pkt = pkt, tx_src_side = Some s, tx_dst_side = None, deliver_local = False\<rparr> r' else r'))"
proof -
  note pl = assms(1) [unfolded plain_def]
  obtain pid where pid: "packet_id E pkt = Some pid" using packet_id_named(1) pl by auto
  have "push_recent (max_recent_rx_ids (memory r)) (recent_ids r, recent_set r) pid \<noteq> None"
    using assms(3) by (simp add: push_recent_def split: list.split)
  then obtain ids st where
    push: "push_recent (max_recent_rx_ids (memory r)) (recent_ids r, recent_set r) pid = Some (ids, st)" by auto
  define r1 where "r1 = r\<lparr>recent_ids := ids, recent_set := st\<rparr>"
  define r2 where "r2 = r1\<lparr>trace := trace r @ packet_calls pkt r\<rparr>"
  have d: "dispatch_local_packet_handlers E w pkt (locals r1) r1 = (SEDS_OK, r2)"
    using dispatch_accepted [OF assms(2,4), of r1] by (simp add: r2_def r1_def packet_calls_def)
  obtain cbs m where m: "remember_managed_variable_packet E w pkt r2 =
      r2\<lparr>trace := trace r2 @ map (\<lambda>g. ManagedCallback g pkt) cbs, managed_latest := m\<rparr>"
    using remember_managed_exact [of E w pkt r2] by blast
  have keep: "mode r2 = mode r" by (simp add: r2_def r1_def)
  have "receive_fresh E w pkt (Some s) r1 = (let r' = r2\<lparr>trace := trace r2 @ map (\<lambda>g. ManagedCallback g pkt) cbs, managed_latest := m\<rparr>
      in Some (if mode r = Seds_RM_Relay
           then push_tx \<lparr>tx_pkt = pkt, tx_src_side = Some s, tx_dst_side = None, deliver_local = False\<rparr> r' else r'))"
    using pl keep by (simp add: receive_fresh_def ordinary_def handle_managed_variable_request_def d m Let_def)
  moreover have "note_return_routes E pkt (Some s) pid r1 = Some r1"
    using pl by (simp add: note_return_routes_def wants_end_to_end_def)
  ultimately show thesis
    using that [where ids = ids and st = st and cbs = cbs and m = m] push pid assms(5) by (simp add: router_receive_impl_def r1_def r2_def Let_def)
qed

text \<open>A frame of a plain packet reaches the router's reception unchanged, whatever the packet.\<close>

lemma router_gets_packet:
  assumes "plain E pkt" "zstd_inverts E" "router_ready side_id b"
    and "router_receive_impl E w (wire_image E pkt) (Some (sint side_id))
      (b\<lparr>trace := trace b @ frame_calls pkt (serialize_packet E pkt) b\<rparr>) = Some b'" "link_state b' = link_state b"
  shows "seds_router_receive_serialized_from_side E w side_id (serialize_packet E pkt) b = Some (SEDS_OK, b')"
proof -
  let ?bs = "serialize_packet E pkt"
  obtain frame where fr: "peek_frame_info E ?bs True = Some (Some frame)" "reliable frame = None"
    "\<not> ack_only frame" "env_ty (envelope frame) = ty pkt" "set (env_endpoints (envelope frame)) = set (endpoints pkt)"
    "deserialize_packet E ?bs = Some (Some (wire_image E pkt))"
    using plain_frame [OF assms(1,2)] .
  have "shown_serialized (ty pkt)" using shown_ordinary [of E pkt] assms(1) by (simp add: plain_def)
  then have "show_serialized w frame ?bs b = b\<lparr>trace := trace b @ frame_calls pkt ?bs b\<rparr>"
    using handlers_cong(2) [OF fr(5)] by (simp add: show_serialized_def fr(4) serialized_handlers_calls frame_calls_def)
  moreover have "enqueue_released b' = b'" "rx_queue b' = []"
    using assms(3,5) by (simp_all add: enqueue_released_nothing router_ready_def link_state_def)
  ultimately show ?thesis
    using fr assms(3,4) drain_rx_empty [of b' E w]
    by (simp add: seds_router_receive_serialized_from_side_def accept_frame_def process_reliable_ingress_def
        process_reliable_ingress_impl_def router_ready_def seds_router_process_rx_queue_def)
qed

text \<open>What a router looks like after a frame: ready for the next, with the same handlers.\<close>

definition after_frame :: "router \<Rightarrow> router \<Rightarrow> bool" where
  "after_frame b b' \<longleftrightarrow>
     locals b' = locals b \<and> sides b' = sides b \<and> memory b' = memory b \<and> link_state b' = link_state b"

lemma after_frame_ready: "after_frame b b' \<Longrightarrow> router_ready side_id b' = router_ready side_id b"
  by (simp add: after_frame_def router_ready_def ingress_side_def link_state_def)

lemma after_frame_calls:
  "after_frame b b' \<Longrightarrow> frame_calls pkt bs b' = frame_calls pkt bs b"
  "after_frame b b' \<Longrightarrow> packet_calls pkt b' = packet_calls pkt b"
  by (simp_all add: after_frame_def frame_calls_def packet_calls_def)

lemma push_recent_new:
  assumes "push_recent cap (ids, st) pid = Some (ids', st')"
  shows "set st' \<subseteq> insert pid (set st)"
  using assms by (auto simp: push_recent_def split: if_splits list.splits)

lemma router_takes_frame:
  assumes "plain E pkt" "zstd_inverts E" "0 < max_handler_retries (tuning E)" "router_ready side_id b"
    and "the (packet_id E (wire_image E pkt)) \<notin> set (recent_set b)"
    and "accepted w (wire_image E pkt) (packet_handlers (endpoints pkt) (locals b))"
  obtains b' cbs where "seds_router_receive_serialized_from_side E w side_id (serialize_packet E pkt) b = Some (SEDS_OK, b')"
    "trace b' = trace b @ frame_calls pkt (serialize_packet E pkt) b @ packet_calls (wire_image E pkt) b @
       map (\<lambda>g. ManagedCallback g (wire_image E pkt)) cbs"
    "after_frame b b'" "the (packet_id E (wire_image E pkt)) \<in> set (recent_set b')"
    "set (recent_set b') \<subseteq> insert (the (packet_id E (wire_image E pkt))) (set (recent_set b))"
proof -
  let ?p = "wire_image E pkt" and ?b = "b\<lparr>trace := trace b @ frame_calls pkt (serialize_packet E pkt) b\<rparr>"
  have hs: "packet_handlers (endpoints ?p) (locals ?b) = packet_handlers (endpoints pkt) (locals b)"
    using handlers_cong(1) [of "endpoints ?p" "endpoints pkt"] by simp
  have acc: "max_recent_rx_ids (memory ?b) \<noteq> 0" "accepted w ?p (packet_handlers (endpoints ?p) (locals ?b))"
    "the (packet_id E ?p) \<notin> set (recent_set ?b)"
    using assms(4-6) hs by (simp_all add: router_ready_def)
  obtain ids st cbs m where push:
    "push_recent (max_recent_rx_ids (memory ?b)) (recent_ids ?b, recent_set ?b) (the (packet_id E ?p)) = Some (ids, st)"
    and rcv: "router_receive_impl E w ?p (Some (sint side_id)) ?b =
      (let r' = ?b\<lparr>recent_ids := ids, recent_set := st,
                  trace := trace ?b @ packet_calls ?p ?b @ map (\<lambda>g. ManagedCallback g ?p) cbs, managed_latest := m\<rparr>
       in Some (if mode ?b = Seds_RM_Relay
                then push_tx \<lparr>tx_pkt = ?p, tx_src_side = Some (sint side_id), tx_dst_side = None, deliver_local = False\<rparr> r' else r'))"
    by (rule receive_plain [OF plain_image [OF assms(1)] assms(3) acc])
  obtain b' where b': "router_receive_impl E w ?p (Some (sint side_id)) ?b = Some b'" using rcv by (simp add: Let_def)
  have calls: "packet_calls ?p ?b = packet_calls ?p b" by (simp add: packet_calls_def)
  have out: "trace b' = trace b @ frame_calls pkt (serialize_packet E pkt) b @ packet_calls ?p b @ map (\<lambda>g. ManagedCallback g ?p) cbs"
    "recent_set b' = st" "after_frame b b'"
    using b' rcv calls by (auto simp: Let_def after_frame_def link_state_def push_tx_def set_tx_def)
  have "the (packet_id E ?p) \<in> set st" using push by (auto simp: push_recent_def split: if_splits list.splits)
  moreover have "seds_router_receive_serialized_from_side E w side_id (serialize_packet E pkt) b = Some (SEDS_OK, b')"
    using router_gets_packet [OF assms(1,2,4) b'] out(3) by (simp add: after_frame_def)
  ultimately show thesis using that out push_recent_new [OF push] by simp
qed

lemma router_ignores_copy:
  assumes "plain E pkt" "zstd_inverts E" "router_ready side_id b"
    and "the (packet_id E (wire_image E pkt)) \<in> set (recent_set b)"
  shows "seds_router_receive_serialized_from_side E w side_id (serialize_packet E pkt) b =
    Some (SEDS_OK, b\<lparr>trace := trace b @ frame_calls pkt (serialize_packet E pkt) b\<rparr>)"
proof -
  have o: "named_endpoints E (endpoints (wire_image E pkt))" "\<not> is_reliable_type E (ty pkt)"
    using plain_image [OF assms(1)] by (simp_all add: plain_def)
  obtain pid where pid: "packet_id E (wire_image E pkt) = Some pid" using packet_id_named(1) [OF o(1)] by auto
  show ?thesis
    by (rule router_gets_packet [OF assms(1-3)])
      (use pid o(2) assms(4) in \<open>simp_all add: router_receive_impl_def wants_end_to_end_def link_state_def\<close>)
qed

section \<open>A router that relays\<close>

text \<open>
  A router in relay mode shows the packet to its own handlers and then sends it on. Its clock may
  depend on what the handlers did, so that the choice of sides has to be the same after any calls.
\<close>

definition router_forward :: "env \<Rightarrow> world \<Rightarrow> u32 \<Rightarrow> bytes \<Rightarrow> router \<Rightarrow> (seds_result \<times> router) option" where
  "router_forward E w side_id bs r = do {
     (rc, r1) \<leftarrow> seds_router_receive_serialized_from_side E w side_id bs r;
     if rc \<noteq> SEDS_OK then Some (rc, r1) else seds_router_process_all_queues E w r1
   }"

definition router_relays :: "env \<Rightarrow> world \<Rightarrow> u32 \<Rightarrow> packet \<Rightarrow> router \<Rightarrow> bool" where
  "router_relays E w side_id pkt r \<longleftrightarrow>
     router_ready side_id r \<and> mode r = Seds_RM_Relay \<and> idle r \<and> owner_rx r = ([], 0) \<and> owner_tx r = ([], 0) \<and>
     reliable_tx r = [] \<and> end_to_end_reliable_tx r = [] \<and>
     the (packet_id E pkt) \<notin> set (recent_set r) \<and> accepted w pkt (packet_handlers (endpoints pkt) (locals r)) \<and>
     byte_cost_tx (forwarded side_id pkt) \<le> max_queue_budget (memory r)"

definition always_chosen :: "env \<Rightarrow> world \<Rightarrow> u32 \<Rightarrow> packet \<Rightarrow> i32 list \<Rightarrow> router \<Rightarrow> bool" where
  "always_chosen E w side_id pkt ts r \<longleftrightarrow>
     (\<forall>tr. fst (choose_targets E w None (forwarded side_id pkt) (r\<lparr>trace := tr\<rparr>)) = ts)"

lemma transmit_to_accepted:
  assumes "idle r" "sides_accept E w pkt ts r" "\<not> is_reliable_type E (ty pkt)"
    and "list_all (\<lambda>s. in_range s (sides r) \<and> egress_enabled (sides r ! nat s)) ts"
  shows "transmit_to E w pkt ts False r =
    (SEDS_OK, r\<lparr>trace := trace r @ fan_out (sides r) ts (serialize_packet E pkt)\<rparr>)"
  using assms
proof (induction ts arbitrary: r)
  case Nil
  then show ?case by (simp add: fan_out_def)
next
  case (Cons s ts)
  then obtain f where f: "serialized_tx (sides r ! nat s) = Some f" by (auto simp: sides_accept_def)
  let ?r = "r\<lparr>trace := trace r @ [SerializedTx f (serialize_packet E pkt)]\<rparr>"
  have "send_serialized_with_reliable E w s pkt r = (SEDS_OK, ?r)"
    by (rule send_plain) (use Cons.prems f in \<open>simp_all add: sides_accept_def\<close>)
  moreover have "transmit_to E w pkt ts False ?r =
      (SEDS_OK, ?r\<lparr>trace := trace ?r @ fan_out (sides ?r) ts (serialize_packet E pkt)\<rparr>)"
    by (rule Cons.IH) (use Cons.prems in \<open>simp_all add: sides_accept_def\<close>)
  ultimately show ?case using Cons.prems(4) f by (simp add: fan_out_def)
qed

lemma router_timeouts_none:
  assumes "reliable_tx r = []" "end_to_end_reliable_tx r = []"
  shows "router_timeouts E w r = r"
  using assms
  by (simp add: router_timeouts_def timeouts_none process_end_to_end_reliable_timeouts_def
      reconcile_end_to_end_reliable_destinations_def mark_due_def)

text \<open>A packet alone in the transmit queue goes to every chosen side in one round.\<close>

lemma router_works_off_one:
  assumes "plain E pkt" "idle r" "reliable_tx r = []" "end_to_end_reliable_tx r = []" "rx_queue r = []"
    and "owner_tx r = ([forwarded side_id pkt], byte_cost_tx (forwarded side_id pkt))"
    and "fst (choose_targets E w None (forwarded side_id pkt) r) = ts" "sides_accept E w pkt ts r"
  obtains r' where "seds_router_process_all_queues E w r = Some (SEDS_OK, r')"
    "trace r' = trace r @ fan_out (sides r) ts (serialize_packet E pkt)" "rx_queue r' = []" "tx_queue r' = []"
proof -
  let ?fwd = "forwarded side_id pkt"
  define r1 where "r1 = set_tx ([], 0) r"
  have o: "ordinary E pkt" and nr: "\<not> is_reliable_type E (ty pkt)" using assms(1) by (simp_all add: plain_def)
  have keep: "sides r1 = sides r" "trace r1 = trace r" "idle r1" "rx_queue r1 = []" "tx_queue r1 = []"
    using assms(2,5) by (simp_all add: r1_def set_tx_def idle_def)
  obtain r2 where c: "choose_targets E w None ?fwd r1 = (ts, r2)"
    using assms(7) choose_targets_cong [of r1 r E w None ?fwd]
    by (cases "choose_targets E w None ?fwd r1") (simp add: r1_def set_tx_def)
  then have r2: "sides r2 = sides r" "trace r2 = trace r" "idle r2" "rx_queue r2 = []" "tx_queue r2 = []"
    using keep idle_choose_targets [of E w None ?fwd r1]
    by (auto simp: choose_targets_def Let_def case_prod_unfold split: option.splits)
  define r3 where "r3 = r2\<lparr>trace := trace r2 @ fan_out (sides r2) ts (serialize_packet E pkt)\<rparr>"
  have on: "list_all (\<lambda>s. in_range s (sides r2) \<and> egress_enabled (sides r2 ! nat s)) ts"
    unfolding list_all_iff using choose_targets_egress [of _ E w None ?fwd r1] c keep(1) r2(1) by (auto simp: forwarded_def)
  have "transmit_to E w pkt ts False r2 = (SEDS_OK, r3)"
    unfolding r3_def
    by (rule transmit_to_accepted [OF r2(3) _ nr on]) (use assms(8) r2(1) in \<open>simp add: sides_accept_def\<close>)
  moreover have "track_end_to_end E w pkt ts r2 = Some r2" using nr by (simp add: track_end_to_end_def)
  ultimately have "transmit_item_router E w ?fwd r1 = Some (SEDS_OK, r3)"
    using c o by (simp add: transmit_item_router_def forwarded_def ordinary_def)
  then have "transmit_next E w r = Some (None, r3)"
    using assms(6) by (simp add: transmit_next_def pop_tx_def pop_queue_def router_send_def tx_result_def r1_def)
  moreover have "receive_next E w r = Some r"
    using assms(5) by (simp add: receive_next_def pop_rx_def pop_queue_def owner_rx_def)
  ultimately have "seds_router_process_all_queues E w r = Some (SEDS_OK, r3)"
    using r2 router_timeouts_none [OF assms(3,4)]
    by (simp add: seds_router_process_all_queues_def seds_router_process_all_queues_with_timeout_def alternate.simps [of E w r] r3_def)
  then show thesis using that r2 by (simp add: r3_def)
qed

lemma router_forwards:
  assumes "plain E pkt" "zstd_inverts E" "0 < max_handler_retries (tuning E)"
    and "router_relays E w side_id (wire_image E pkt) r" "always_chosen E w side_id (wire_image E pkt) ts r"
    and "sides_accept E w (wire_image E pkt) ts r"
  obtains r' cbs where "router_forward E w side_id (serialize_packet E pkt) r = Some (SEDS_OK, r')"
    "trace r' = trace r @ frame_calls pkt (serialize_packet E pkt) r @ packet_calls (wire_image E pkt) r @
       map (\<lambda>g. ManagedCallback g (wire_image E pkt)) cbs @ fan_out (sides r) ts (serialize_packet E (wire_image E pkt))"
    "rx_queue r' = []" "tx_queue r' = []"
proof -
  let ?p = "wire_image E pkt" and ?fwd = "forwarded side_id (wire_image E pkt)"
  let ?b = "r\<lparr>trace := trace r @ frame_calls pkt (serialize_packet E pkt) r\<rparr>"
  note rel = assms(4) [unfolded router_relays_def]
  have acc: "max_recent_rx_ids (memory ?b) \<noteq> 0" "accepted w ?p (packet_handlers (endpoints ?p) (locals ?b))"
    "the (packet_id E ?p) \<notin> set (recent_set ?b)"
    using rel by (simp_all add: router_ready_def)
  obtain ids st cbs m where rcv: "router_receive_impl E w ?p (Some (sint side_id)) ?b =
      (let r' = ?b\<lparr>recent_ids := ids, recent_set := st,
                  trace := trace ?b @ packet_calls ?p ?b @ map (\<lambda>g. ManagedCallback g ?p) cbs, managed_latest := m\<rparr>
       in Some (if mode ?b = Seds_RM_Relay
                then push_tx \<lparr>tx_pkt = ?p, tx_src_side = Some (sint side_id), tx_dst_side = None, deliver_local = False\<rparr> r' else r'))"
    by (rule receive_plain [OF plain_image [OF assms(1)] assms(3) acc])
  define tr where "tr = trace r @ frame_calls pkt (serialize_packet E pkt) r @ packet_calls ?p r @ map (\<lambda>g. ManagedCallback g ?p) cbs"
  define r1 where "r1 = set_tx ([?fwd], byte_cost_tx ?fwd) (r\<lparr>recent_ids := ids, recent_set := st, trace := tr, managed_latest := m\<rparr>)"
  have "packet_calls ?p ?b = packet_calls ?p r" by (simp add: packet_calls_def)
  then have rcv1: "router_receive_impl E w ?p (Some (sint side_id)) ?b = Some r1"
    using rcv rel enqueue_bounded_empty [of byte_cost_tx ?fwd "max_queue_budget (memory r)" False]
    by (simp add: Let_def push_tx_def enqueue_tx_def owner_tx_def r1_def tr_def forwarded_def set_tx_def)
  have got: "seds_router_receive_serialized_from_side E w side_id (serialize_packet E pkt) r = Some (SEDS_OK, r1)"
    by (rule router_gets_packet [OF assms(1,2) _ rcv1]) (use rel in \<open>simp_all add: r1_def set_tx_def link_state_def\<close>)
  have c: "fst (choose_targets E w None ?fwd r1) = ts"
    using assms(5) choose_targets_cong [of r1 "r\<lparr>trace := tr\<rparr>" E w None ?fwd] by (simp add: always_chosen_def r1_def set_tx_def)
  obtain r' where "seds_router_process_all_queues E w r1 = Some (SEDS_OK, r')"
    "trace r' = trace r1 @ fan_out (sides r1) ts (serialize_packet E ?p)" "rx_queue r' = []" "tx_queue r' = []"
    by (rule router_works_off_one [OF plain_image [OF assms(1)] _ _ _ _ _ c])
      (use rel assms(6) in \<open>auto simp: r1_def set_tx_def owner_tx_def owner_rx_def idle_def sides_accept_def\<close>)
  then show thesis using that got by (simp add: router_forward_def r1_def set_tx_def tr_def)
qed

end
