(* ===== verification/Network_Facts.thy ===== *)
theory Network_Facts
  imports Network
begin

text \<open>
  Paths through a network of relays and of routers in relay mode. The interface of a forwarding
  node is a locale: handed the frame of a packet, it sends one frame of the packet's wire image on
  the link the path takes. A path of such nodes, of any length and mixed in any way, carries a
  packet to the router at its end; and copies of a packet that took paths of different lengths are
  told apart by the duplicate check.
\<close>

section \<open>Forwarding nodes\<close>

text \<open>
  A hop of a path: a node with its world, the side a frame comes in on and the transmit function
  of the link the path takes from there.
\<close>

record 'n hop =
  hop_world :: world
  hop_side :: u32
  hop_node :: 'n
  hop_link :: fn

definition link_frames :: "fn \<Rightarrow> event list \<Rightarrow> bytes list" where
  "link_frames f evs = List.map_filter (\<lambda>ev. case ev of SerializedTx g bs \<Rightarrow> if g = f then Some bs else None | _ \<Rightarrow> None) evs"

lemma link_frames_append [simp]: "link_frames f (xs @ ys) = link_frames f xs @ link_frames f ys"
  by (simp add: link_frames_def List.map_filter_def)

lemma link_frames_calls [simp]:
  "link_frames f (frame_calls pkt bs r) = []" "link_frames f (packet_calls pkt r) = []"
  "link_frames f (map (\<lambda>g. ManagedCallback g pkt) cbs) = []"
  by (simp_all add: link_frames_def List.map_filter_def frame_calls_def packet_calls_def)

lemma link_frames_fan_out:
  assumes "list_all (\<lambda>s. serialized_tx (ss ! nat s) \<noteq> None) ts"
  shows "link_frames f (fan_out ss ts bs) = replicate (length (filter (\<lambda>s. serialized_tx (ss ! nat s) = Some f) ts)) bs"
  using assms by (induction ts) (auto simp: link_frames_def fan_out_def map_filter_simps)

text \<open>The frames a node sends on the link of the path when it is handed one.\<close>

definition relay_pass :: "env \<Rightarrow> relay hop \<Rightarrow> bytes \<Rightarrow> bytes list option" where
  "relay_pass E h bs =
     map_option (\<lambda>(rc, r). link_frames (hop_link h) (drop (length (trace (hop_node h))) (trace r)))
       (relay_forward E (hop_world h) (hop_side h) bs (hop_node h))"

definition router_pass :: "env \<Rightarrow> router hop \<Rightarrow> bytes \<Rightarrow> bytes list option" where
  "router_pass E h bs =
     map_option (\<lambda>(rc, r). link_frames (hop_link h) (drop (length (trace (hop_node h))) (trace r)))
       (router_forward E (hop_world h) (hop_side h) bs (hop_node h))"

text \<open>The chosen sides take frames, and exactly one of them is the link of the path.\<close>

definition one_way :: "env \<Rightarrow> packet \<Rightarrow> i32 list \<Rightarrow> ('a owner_scheme) hop \<Rightarrow> bool" where
  "one_way E pkt ts h \<longleftrightarrow>
     sides_accept E (hop_world h) pkt ts (hop_node h) \<and>
     length (filter (\<lambda>s. serialized_tx (sides (hop_node h) ! nat s) = Some (hop_link h)) ts) = 1"

definition relay_hop_ready :: "env \<Rightarrow> packet \<Rightarrow> relay hop \<Rightarrow> bool" where
  "relay_hop_ready E pkt h \<longleftrightarrow>
     relay_ready E (hop_side h) pkt (hop_node h) \<and>
     one_way E pkt (fst (choose_targets E (hop_world h) None (forwarded (hop_side h) pkt) (hop_node h))) h"

definition router_hop_ready :: "env \<Rightarrow> packet \<Rightarrow> router hop \<Rightarrow> bool" where
  "router_hop_ready E pkt h \<longleftrightarrow>
     router_relays E (hop_world h) (hop_side h) pkt (hop_node h) \<and>
     (\<exists>ts. always_chosen E (hop_world h) (hop_side h) pkt ts (hop_node h) \<and> one_way E pkt ts h)"

lemma one_way_frames:
  assumes "one_way E pkt ts h"
  shows "link_frames (hop_link h) (fan_out (sides (hop_node h)) ts bs) = [bs]"
  using assms link_frames_fan_out [of "sides (hop_node h)" ts "hop_link h" bs] by (simp add: one_way_def sides_accept_def)

text \<open>The packet after some number of links.\<close>

definition image_after :: "env \<Rightarrow> nat \<Rightarrow> packet \<Rightarrow> packet" where
  "image_after E n pkt = (wire_image E ^^ n) pkt"

lemma image_after_simps [simp]:
  "image_after E 0 pkt = pkt" "image_after E (Suc 0) pkt = wire_image E pkt"
  "image_after E n (wire_image E pkt) = image_after E (Suc n) pkt"
  "wire_image E (image_after E n pkt) = image_after E (Suc n) pkt"
  by (simp_all add: image_after_def funpow_swap1)

lemma image_after_same:
  "ty (image_after E n pkt) = ty pkt" "timestamp (image_after E n pkt) = timestamp pkt"
  "payload (image_after E n pkt) = payload pkt" "set (endpoints (image_after E n pkt)) = set (endpoints pkt)"
  unfolding image_after_def by (induction n) simp_all

lemma image_after_endpoints:
  "endpoints (image_after E (Suc n) pkt) = sort_key (wire_bit_of E) (endpoints pkt)"
proof (induction n)
  case (Suc n)
  have "endpoints (wire_image E q) = sort_key (wire_bit_of E) (endpoints q)" for q by (simp add: wire_image_def)
  from this [of "image_after E (Suc n) pkt"] show ?case by (simp add: Suc sort_key_id_if_sorted)
qed (simp add: wire_image_def)

lemma plain_image_after: "plain E pkt \<Longrightarrow> plain E (image_after E n pkt)"
  unfolding image_after_def by (induction n) (simp_all add: plain_image)

section \<open>Paths\<close>

text \<open>
  The frame that leaves the last node of a path, if every node sends exactly one on its link, and
  the readiness of every node for the packet as it arrives there.
\<close>

fun carry :: "(env \<Rightarrow> 'n \<Rightarrow> bytes \<Rightarrow> bytes list option) \<Rightarrow> env \<Rightarrow> 'n list \<Rightarrow> bytes \<Rightarrow> bytes option" where
  "carry pass E [] bs = Some bs"
| "carry pass E (n # ns) bs = (case pass E n bs of Some [out] \<Rightarrow> carry pass E ns out | _ \<Rightarrow> None)"

fun path_ready :: "(env \<Rightarrow> packet \<Rightarrow> 'n \<Rightarrow> bool) \<Rightarrow> env \<Rightarrow> packet \<Rightarrow> 'n list \<Rightarrow> bool" where
  "path_ready ready E pkt [] \<longleftrightarrow> True"
| "path_ready ready E pkt (n # ns) \<longleftrightarrow>
     ready E (wire_image E pkt) n \<and> path_ready ready E (wire_image E pkt) ns"

text \<open>What a path asks of its nodes.\<close>

locale forwarder =
  fixes pass :: "env \<Rightarrow> 'n \<Rightarrow> bytes \<Rightarrow> bytes list option"
    and ready :: "env \<Rightarrow> packet \<Rightarrow> 'n \<Rightarrow> bool"
  assumes passes_on: "\<lbrakk>zstd_inverts E; 0 < max_handler_retries (tuning E); plain E pkt; ready E (wire_image E pkt) n\<rbrakk>
      \<Longrightarrow> pass E n (serialize_packet E pkt) = Some [serialize_packet E (wire_image E pkt)]"
begin

lemma carry_ready:
  assumes "zstd_inverts E" "0 < max_handler_retries (tuning E)" "plain E pkt" "path_ready ready E pkt ns"
  shows "carry pass E ns (serialize_packet E pkt) = Some (serialize_packet E (image_after E (length ns) pkt))"
  using assms(3,4)
proof (induction ns arbitrary: pkt)
  case (Cons n ns)
  then have "pass E n (serialize_packet E pkt) = Some [serialize_packet E (wire_image E pkt)]"
    using passes_on [OF assms(1,2)] by simp
  then show ?case using Cons.IH [OF plain_image [OF Cons.prems(1)]] Cons.prems(2) by simp
qed simp

end

text \<open>Two kinds of forwarding nodes on one path.\<close>

definition either_pass ::
    "(env \<Rightarrow> 'm \<Rightarrow> bytes \<Rightarrow> bytes list option) \<Rightarrow> (env \<Rightarrow> 'n \<Rightarrow> bytes \<Rightarrow> bytes list option) \<Rightarrow>
     env \<Rightarrow> 'm + 'n \<Rightarrow> bytes \<Rightarrow> bytes list option" where
  "either_pass p q E n = (case n of Inl m \<Rightarrow> p E m | Inr m \<Rightarrow> q E m)"

definition either_ready ::
    "(env \<Rightarrow> packet \<Rightarrow> 'm \<Rightarrow> bool) \<Rightarrow> (env \<Rightarrow> packet \<Rightarrow> 'n \<Rightarrow> bool) \<Rightarrow> env \<Rightarrow> packet \<Rightarrow> 'm + 'n \<Rightarrow> bool" where
  "either_ready p q E pkt n = (case n of Inl m \<Rightarrow> p E pkt m | Inr m \<Rightarrow> q E pkt m)"

locale two_forwarders = one: forwarder pass ready + other: forwarder pass' ready'
  for pass :: "env \<Rightarrow> 'm \<Rightarrow> bytes \<Rightarrow> bytes list option" and ready :: "env \<Rightarrow> packet \<Rightarrow> 'm \<Rightarrow> bool"
    and pass' :: "env \<Rightarrow> 'n \<Rightarrow> bytes \<Rightarrow> bytes list option" and ready' :: "env \<Rightarrow> packet \<Rightarrow> 'n \<Rightarrow> bool"

sublocale two_forwarders \<subseteq> either: forwarder "either_pass pass pass'" "either_ready ready ready'"
  by unfold_locales (auto simp: either_pass_def either_ready_def one.passes_on other.passes_on split: sum.splits)

interpretation relays: forwarder relay_pass relay_hop_ready
proof unfold_locales
  fix E pkt and h :: "relay hop"
  assume a: "zstd_inverts E" "plain E pkt" "relay_hop_ready E (wire_image E pkt) h"
  define ts where "ts = fst (choose_targets E (hop_world h) None (forwarded (hop_side h) (wire_image E pkt)) (hop_node h))"
  have h: "relay_ready E (hop_side h) (wire_image E pkt) (hop_node h)" "one_way E (wire_image E pkt) ts h"
    using a(3) by (simp_all add: relay_hop_ready_def ts_def)
  obtain r where "relay_forward E (hop_world h) (hop_side h) (serialize_packet E pkt) (hop_node h) = Some (SEDS_OK, r)"
    "trace r = trace (hop_node h) @ fan_out (sides (hop_node h)) ts (serialize_packet E (wire_image E pkt))"
    using relay_forwards [OF a(2,1) h(1) ts_def [symmetric]] h(2) unfolding one_way_def by metis
  then show "relay_pass E h (serialize_packet E pkt) = Some [serialize_packet E (wire_image E pkt)]"
    using one_way_frames [OF h(2)] by (simp add: relay_pass_def)
qed

interpretation routers: forwarder router_pass router_hop_ready
proof unfold_locales
  fix E pkt and h :: "router hop"
  assume a: "zstd_inverts E" "0 < max_handler_retries (tuning E)" "plain E pkt" "router_hop_ready E (wire_image E pkt) h"
  obtain ts where h: "router_relays E (hop_world h) (hop_side h) (wire_image E pkt) (hop_node h)"
    "always_chosen E (hop_world h) (hop_side h) (wire_image E pkt) ts (hop_node h)" "one_way E (wire_image E pkt) ts h"
    using a(4) by (auto simp: router_hop_ready_def)
  obtain r cbs where "router_forward E (hop_world h) (hop_side h) (serialize_packet E pkt) (hop_node h) = Some (SEDS_OK, r)"
    "trace r = trace (hop_node h) @ frame_calls pkt (serialize_packet E pkt) (hop_node h) @
       packet_calls (wire_image E pkt) (hop_node h) @ map (\<lambda>g. ManagedCallback g (wire_image E pkt)) cbs @
       fan_out (sides (hop_node h)) ts (serialize_packet E (wire_image E pkt))"
    using router_forwards [OF a(3,1,2) h(1,2)] h(3) unfolding one_way_def by metis
  then show "router_pass E h (serialize_packet E pkt) = Some [serialize_packet E (wire_image E pkt)]"
    using one_way_frames [OF h(3)] by (simp add: router_pass_def)
qed

interpretation nodes: two_forwarders relay_pass relay_hop_ready router_pass router_hop_ready
  by unfold_locales

abbreviation carry_nodes :: "env \<Rightarrow> (relay hop + router hop) list \<Rightarrow> bytes \<Rightarrow> bytes option" where
  "carry_nodes \<equiv> carry (either_pass relay_pass router_pass)"

abbreviation nodes_ready :: "env \<Rightarrow> packet \<Rightarrow> (relay hop + router hop) list \<Rightarrow> bool" where
  "nodes_ready \<equiv> path_ready (either_ready relay_hop_ready router_hop_ready)"

text \<open>
  (C2) A packet crosses a network. A frame of an unreliable packet entered into a path of relays and
  relaying routers, of any length, leaves it exactly once, and the router at the end shows it to
  the handlers of the packet's endpoints, each called exactly once, in order. The packet they see has
  the type, the timestamp, the payload and the set of endpoints it was sent with; its sender is the
  address text that results from taking the wire image once for every link.
\<close>

theorem packet_crosses_path:
  assumes "plain E pkt" "zstd_inverts E" "0 < max_handler_retries (tuning E)" "nodes_ready E pkt hs" "router_ready j b"
    and "the (packet_id E (image_after E (Suc (length hs)) pkt)) \<notin> set (recent_set b)"
    and "accepted w (image_after E (Suc (length hs)) pkt) (packet_handlers (endpoints pkt) (locals b))"
  shows "\<exists>bs b' cbs p. carry_nodes E hs (serialize_packet E pkt) = Some bs \<and>
    seds_router_receive_serialized_from_side E w j bs b = Some (SEDS_OK, b') \<and>
    trace b' = trace b @ frame_calls pkt bs b @ packet_calls p b @ map (\<lambda>g. ManagedCallback g p) cbs \<and>
    p = image_after E (Suc (length hs)) pkt \<and> ty p = ty pkt \<and> timestamp p = timestamp pkt \<and>
    payload p = payload pkt \<and> set (endpoints p) = set (endpoints pkt)"
proof -
  let ?q = "image_after E (length hs) pkt"
  have eps: "packet_handlers (endpoints ?q) (locals b) = packet_handlers (endpoints pkt) (locals b)"
    "frame_calls ?q bs b = frame_calls pkt bs b" for bs
    using handlers_cong [OF image_after_same(4) [of E "length hs" pkt]] by (simp_all add: frame_calls_def)
  obtain b' cbs where "seds_router_receive_serialized_from_side E w j (serialize_packet E ?q) b = Some (SEDS_OK, b')"
    "trace b' = trace b @ frame_calls ?q (serialize_packet E ?q) b @ packet_calls (wire_image E ?q) b @
       map (\<lambda>g. ManagedCallback g (wire_image E ?q)) cbs"
    by (rule router_takes_frame [OF plain_image_after [OF assms(1)] assms(2,3,5), where n1 = "length hs" and w = w])
      (use assms(6,7) eps in simp_all)
  then show ?thesis
    using nodes.either.carry_ready [OF assms(2,3,1,4)] image_after_same [of E "Suc (length hs)" pkt] eps by auto
qed

section \<open>Copies on different paths\<close>

text \<open>The first stage of \<open>packet_id\<close>: the hash of the sender.\<close>

definition sender_mix :: "string \<Rightarrow> u64" where
  "sender_mix s = hash_string 0x9E3779B97F4A7C15 s"

lemma packet_id_by_sender:
  assumes "named_endpoints E (endpoints p)" "ty q = ty p" "endpoints q = endpoints p" "timestamp q = timestamp p"
    and "payload q = payload p"
  shows "the (packet_id E q) = the (packet_id E p) \<longleftrightarrow> sender_mix (sender q) = sender_mix (sender p)"
proof -
  define h where "h s = hash_string (sender_mix s) (type_text E (ty p))" for s
  have named: "hash_endpoints E x (endpoints p) \<noteq> None" for x
    using assms(1) by (simp add: hash_endpoints_total named_endpoints_def list_all_iff)
  obtain u v where u: "hash_endpoints E (h (sender p)) (endpoints p) = Some u"
    and v: "hash_endpoints E (h (sender q)) (endpoints p) = Some v" using named by blast
  define rest where "rest x = hash_bytes_u64 (hash_bytes_u64 (hash_bytes_u64 x (le_bytes 8 (timestamp p)))
      (le_bytes 8 (word_of_nat (length (payload p)) :: u64))) (payload p)" for x
  have "packet_id E p = Some (rest u)" "packet_id E q = Some (rest v)"
    using u v assms(2-5) by (simp_all add: packet_id_def packet_id_with_endpoints_def Let_def h_def sender_mix_def rest_def)
  moreover have "rest v = rest u \<longleftrightarrow> v = u" by (simp add: rest_def hash_bytes_inj_state)
  moreover have "v = u \<longleftrightarrow> h (sender q) = h (sender p)"
    using u v hash_endpoints_inj_state by (metis option.inject)
  moreover have "h (sender q) = h (sender p) \<longleftrightarrow> sender_mix (sender q) = sender_mix (sender p)"
    by (simp add: h_def hash_string_def hash_bytes_inj_state)
  ultimately show ?thesis by simp
qed

text \<open>
  (C28) Copies on paths of different lengths. When a router has received a packet over a direct link and
  the same packet arrives again over a path of forwarding nodes, its handlers are called a second time,
  unless the hash of the sender's address text happens to be the same after both numbers of links:
  the duplicate check compares identities that include the sender, and every link replaces the
  sender by the text of the hash of the one before.
\<close>

theorem relayed_copy_delivered_again:
  assumes "plain E pkt" "zstd_inverts E" "0 < max_handler_retries (tuning E)" "nodes_ready E pkt hs"
    and "router_ready i b" "router_ready j b"
    and "the (packet_id E (wire_image E pkt)) \<notin> set (recent_set b)"
    and "the (packet_id E (image_after E (Suc (length hs)) pkt)) \<notin> set (recent_set b)"
    and "\<And>p. accepted w p (packet_handlers (endpoints pkt) (locals b))"
  shows "\<exists>b1 bs b2 c1 c2.
    seds_router_receive_serialized_from_side E w i (serialize_packet E pkt) b = Some (SEDS_OK, b1) \<and>
    trace b1 = trace b @ frame_calls pkt (serialize_packet E pkt) b @ packet_calls (wire_image E pkt) b @
      map (\<lambda>g. ManagedCallback g (wire_image E pkt)) c1 \<and>
    carry_nodes E hs (serialize_packet E pkt) = Some bs \<and>
    seds_router_receive_serialized_from_side E w j bs b1 = Some (SEDS_OK, b2) \<and>
    trace b2 = trace b1 @ frame_calls pkt bs b @
      (if sender_mix (sender (image_after E (Suc (length hs)) pkt)) = sender_mix (sender (wire_image E pkt)) then []
       else packet_calls (image_after E (Suc (length hs)) pkt) b @
         map (\<lambda>g. ManagedCallback g (image_after E (Suc (length hs)) pkt)) c2)"
proof -
  let ?q = "image_after E (length hs) pkt"
  let ?p1 = "wire_image E pkt" and ?p2 = "image_after E (Suc (length hs)) pkt"
  let ?bs = "serialize_packet E ?q"
  have q: "plain E ?q" by (rule plain_image_after [OF assms(1)])
  have eps: "packet_handlers (endpoints ?q) (locals b) = packet_handlers (endpoints pkt) (locals b)"
    "frame_calls ?q bs b = frame_calls pkt bs b" for bs
    using handlers_cong [OF image_after_same(4) [of E "length hs" pkt]] by (simp_all add: frame_calls_def)
  have same: "the (packet_id E ?p2) = the (packet_id E ?p1) \<longleftrightarrow> sender_mix (sender ?p2) = sender_mix (sender ?p1)"
    using plain_image [OF assms(1)] image_after_same [of E "Suc (length hs)" pkt] image_after_endpoints [of E "length hs" pkt]
      image_after_endpoints [of E 0 pkt]
    by (intro packet_id_by_sender) (simp_all add: plain_def)
  obtain b1 c1 where b1: "seds_router_receive_serialized_from_side E w i (serialize_packet E pkt) b = Some (SEDS_OK, b1)"
    "trace b1 = trace b @ frame_calls pkt (serialize_packet E pkt) b @ packet_calls ?p1 b @ map (\<lambda>g. ManagedCallback g ?p1) c1"
    "after_frame b b1" "the (packet_id E ?p1) \<in> set (recent_set b1)"
    "set (recent_set b1) \<subseteq> insert (the (packet_id E ?p1)) (set (recent_set b))"
    by (rule router_takes_frame [OF assms(1-3,5,7,9)])
  note b1_calls = after_frame_calls [OF b1(3)]
  have ready: "router_ready j b1" using assms(6) after_frame_ready [OF b1(3)] by simp
  have "\<exists>b2 c2. seds_router_receive_serialized_from_side E w j ?bs b1 = Some (SEDS_OK, b2) \<and>
      trace b2 = trace b1 @ frame_calls pkt ?bs b @
        (if sender_mix (sender ?p2) = sender_mix (sender ?p1) then []
         else packet_calls ?p2 b @ map (\<lambda>g. ManagedCallback g ?p2) c2)"
  proof (cases "sender_mix (sender ?p2) = sender_mix (sender ?p1)")
    case True
    then show ?thesis using router_ignores_copy [OF q assms(2) ready, of w] same b1(4) b1_calls eps by simp
  next
    case False
    then have new: "the (packet_id E (wire_image E ?q)) \<notin> set (recent_set b1)" using same b1(5) assms(8) by auto
    have acc: "accepted w (wire_image E ?q) (packet_handlers (endpoints ?q) (locals b1))"
      using assms(9) eps b1(3) by (simp add: after_frame_def)
    obtain b2 c2 where "seds_router_receive_serialized_from_side E w j ?bs b1 = Some (SEDS_OK, b2)"
      "trace b2 = trace b1 @ frame_calls ?q ?bs b1 @ packet_calls (wire_image E ?q) b1 @
         map (\<lambda>g. ManagedCallback g (wire_image E ?q)) c2"
      using router_takes_frame [OF q assms(2,3) ready new acc] by metis
    then show ?thesis using False b1_calls eps by auto
  qed
  then show ?thesis using b1 nodes.either.carry_ready [OF assms(2,3,1,4)] by auto
qed

section \<open>A sample network\<close>

text \<open>The wire images of a packet of \<open>ROCKET\<close> after one link and after two.\<close>

lemma sample_addresses:
  "sender_address_u32 ''ROCKET'' = 3813014895" "sender_address_u32 ''@addr:3813014895'' = 1012610562"
  "address_sender 3813014895 = ''@addr:3813014895''" "address_sender 1012610562 = ''@addr:1012610562''"
  by (simp_all add: sender_address_u32_def hash_string_def hash_bytes_u64_def hash_step_def bytes_of_string_def of_char_def
      address_sender_def to_string.simps char_of_def bit_0)

lemma sample_images:
  "wire_image sample_env gps_packet = gps_packet\<lparr>sender := ''@addr:3813014895'', endpoints := [0, 1]\<rparr>"
  "wire_image sample_env (gps_packet\<lparr>sender := ''@addr:3813014895'', endpoints := [0, 1]\<rparr>) =
     gps_packet\<lparr>sender := ''@addr:1012610562'', endpoints := [0, 1]\<rparr>"
  by (simp_all add: wire_image_def gps_packet_def sample_addresses wire_bit_of_def)

lemma sample_mix:
  "sender_mix ''@addr:1012610562'' = 15689597131349348652" "sender_mix ''@addr:3813014895'' = 689313531747571052"
  by (simp_all add: sender_mix_def hash_string_def hash_bytes_u64_def hash_step_def bytes_of_string_def of_char_def)

lemma gps_plain: "plain sample_env gps_packet"
  using wire_ok_samples(1)
  by (simp add: plain_def ordinary_def named_endpoints_def endpoint_text_def gps_packet_def
      managed_request_type_def p2p_type_id_def is_internal_control_type_def is_discovery_control_type_def
      local_type_id_def type_by_name_def v4_type_names_def sample_defs type_at_def is_reliable_type_def ti_reliable_def)

definition sample_relay_hop :: "relay hop" where
  "sample_relay_hop = \<lparr>hop_world = sample_world, hop_side = 0, hop_node = sample_relay, hop_link = 1\<rparr>"

definition sample_router_hop :: "router hop" where
  "sample_router_hop =
     \<lparr>hop_world = sample_world, hop_side = 0, hop_node = sample_station\<lparr>mode := Seds_RM_Relay\<rparr>, hop_link = 1\<rparr>"

abbreviation relayed_gps :: "string \<Rightarrow> packet" where
  "relayed_gps s \<equiv> gps_packet\<lparr>sender := s, endpoints := [0, 1]\<rparr>"

lemma sample_targets:
  "fst (select_destinations sample_env [sample_side True, sample_side True] [] [] [] default_policy (relayed_gps s)
     (Some 0) None None 1000) = [1]"
proof -
  let ?ss = "[sample_side True, sample_side True]"
  have ll: "\<not> packet_requires_link_local sample_env (relayed_gps s)"
    by (simp add: packet_requires_link_local_def gps_packet_def endpoint_link_local_only_def sample_defs
        valid_endpoint_def)
  then have "default_candidates sample_env ?ss [] (relayed_gps s) (Some 0) None 1000 = [1]"
    by (simp add: default_candidates_def sample_side_def upt_rec sort_dedup_def)
  then show ?thesis
    using ll by (simp add: select_destinations_def destination_allowed_def in_range_def sample_side_def
        side_accepts_packet_def apply_policy_def default_policy_def typed_override_present_def)
qed

lemma sample_choice:
  "fst (choose_targets sample_env sample_world None (forwarded 0 (relayed_gps s)) sample_relay) = [1]"
  "always_chosen sample_env sample_world 0 (relayed_gps s) [1] (sample_station\<lparr>mode := Seds_RM_Relay\<rparr>)"
  using sample_targets
  by (simp_all add: always_chosen_def choose_targets_def case_prod_unfold forwarded_def sample_relay_def sample_station_def
      sample_router_def sample_owner_def owner.defs relay.defs router.defs mget_def now_ms_def sample_world_def)

lemma sample_nodes [simp]:
  "sides sample_relay = [sample_side True, sample_side True]" "owner_rx sample_relay = ([], 0)" "owner_tx sample_relay = ([], 0)"
  "idle sample_relay" "reliable_released_rx sample_relay = []" "reliable_tx sample_relay = []" "recent_set sample_relay = []"
  "memory sample_relay = default_runtime_memory_config" "trace sample_relay = []"
  "sides sample_station = [sample_side True, sample_side True]" "owner_rx sample_station = ([], 0)"
  "owner_tx sample_station = ([], 0)" "idle sample_station" "reliable_tx sample_station = []"
  "end_to_end_reliable_tx sample_station = []"
  by (simp_all add: sample_relay_def sample_station_def sample_router_def sample_owner_def owner.defs relay.defs router.defs
      idle_def owner_rx_def owner_tx_def)

lemma station_ready: "router_ready 0 sample_station" "router_ready 1 sample_station"
  by (simp_all add: router_ready_def ingress_side_def default_runtime_memory_config_def sample_side_def)

lemma sample_costs:
  assumes "length s = 16"
  shows "byte_cost_tx (forwarded 0 (relayed_gps s)) \<le> max_queue_budget default_runtime_memory_config"
    "byte_cost_rx \<lparr>rx_pkt = relayed_gps s, rx_src_side = Some 0, wire_bytes = []\<rparr> \<le> max_queue_budget default_runtime_memory_config"
  using assms
  by (simp_all add: default_runtime_memory_config_def byte_cost_rx_def byte_cost_tx_def byte_cost_packet_def forwarded_def
      gps_packet_def)

lemma sample_hops_ready:
  assumes "length s = 16"
  shows "relay_hop_ready sample_env (relayed_gps s) sample_relay_hop"
    "router_hop_ready sample_env (relayed_gps s) sample_router_hop"
proof -
  have way: "one_way sample_env (relayed_gps s) [1] sample_relay_hop" "one_way sample_env (relayed_gps s) [1] sample_router_hop"
    by (simp_all add: one_way_def sides_accept_def sample_side_def sample_world_def sample_relay_hop_def sample_router_hop_def)
  have "relay_ready sample_env 0 (relayed_gps s) sample_relay"
    using sample_costs [OF assms] by (simp add: relay_ready_def ingress_side_def sample_side_def default_runtime_memory_config_def)
  then show "relay_hop_ready sample_env (relayed_gps s) sample_relay_hop"
    using way(1) sample_choice(1) [of s] by (simp add: relay_hop_ready_def sample_relay_hop_def)
  have "idle (sample_station\<lparr>mode := Seds_RM_Relay\<rparr>)" "owner_rx (sample_station\<lparr>mode := Seds_RM_Relay\<rparr>) = ([], 0)"
    "owner_tx (sample_station\<lparr>mode := Seds_RM_Relay\<rparr>) = ([], 0)" "router_ready 0 (sample_station\<lparr>mode := Seds_RM_Relay\<rparr>)"
    using sample_nodes(11-13) station_ready(1) by (simp_all add: idle_def owner_rx_def owner_tx_def router_ready_def ingress_side_def)
  then have "router_relays sample_env sample_world 0 (relayed_gps s) (sample_station\<lparr>mode := Seds_RM_Relay\<rparr>)"
    using sample_costs(1) [OF assms] command_ordinary(3) by (simp add: router_relays_def)
  then show "router_hop_ready sample_env (relayed_gps s) sample_router_hop"
    using way(2) sample_choice(2) [of s] by (auto simp: router_hop_ready_def sample_router_hop_def)
qed

lemma sample_path_ready:
  "nodes_ready sample_env gps_packet [Inl sample_relay_hop, Inr sample_router_hop]" "nodes_ready sample_env gps_packet [Inl sample_relay_hop]"
  using sample_hops_ready [of "''@addr:3813014895''"] sample_hops_ready [of "''@addr:1012610562''"] sample_images
  by (simp_all add: either_ready_def)

theorem packet_crosses_path_witness:
  "\<exists>bs b' cbs p. carry_nodes sample_env [Inl sample_relay_hop, Inr sample_router_hop] (serialize_packet sample_env gps_packet) = Some bs \<and>
     seds_router_receive_serialized_from_side sample_env sample_world 0 bs sample_station = Some (SEDS_OK, b') \<and>
     trace b' = [SerializedHandler 8 bs, PacketHandler 7 p, PacketHandler 10 p] @ map (\<lambda>g. ManagedCallback g p) cbs \<and>
     payload p = [1, 2, 3]"
proof -
  have calls: "frame_calls gps_packet bs sample_station = [SerializedHandler 8 bs]"
    "set (endpoints p) = set (endpoints gps_packet) \<Longrightarrow> packet_calls p sample_station = [PacketHandler 7 p, PacketHandler 10 p]" for bs p
    by (simp_all add: frame_calls_def packet_calls_def sample_locals_def gps_packet_def)
  then show ?thesis
    using packet_crosses_path [OF gps_plain zstd_inverts_sample sample_retries sample_path_ready(1) station_ready(1)
        station_fresh(2) command_ordinary(3)]
    by (fastforce simp: gps_packet_def)
qed

theorem relayed_copy_delivered_again_witness:
  "\<exists>b1 bs b2 p q c1 c2.
     seds_router_receive_serialized_from_side sample_env sample_world 0 (serialize_packet sample_env gps_packet) sample_station =
       Some (SEDS_OK, b1) \<and>
     carry_nodes sample_env [Inl sample_relay_hop] (serialize_packet sample_env gps_packet) = Some bs \<and>
     seds_router_receive_serialized_from_side sample_env sample_world 1 bs b1 = Some (SEDS_OK, b2) \<and>
     trace b2 = [SerializedHandler 8 (serialize_packet sample_env gps_packet), PacketHandler 7 p, PacketHandler 10 p] @ c1 @
       [SerializedHandler 8 bs, PacketHandler 7 q, PacketHandler 10 q] @ c2 \<and>
     payload p = [1, 2, 3] \<and> payload q = [1, 2, 3]"
proof -
  let ?hs = "[Inl sample_relay_hop] :: (relay hop + router hop) list"
  let ?p = "wire_image sample_env gps_packet" and ?q = "image_after sample_env (Suc (Suc 0)) gps_packet"
  have imgs: "payload ?p = [1, 2, 3]" "payload ?q = [1, 2, 3]" "sender_mix (sender ?q) \<noteq> sender_mix (sender ?p)"
    by (simp_all add: image_after_def sample_images sample_mix) (simp_all add: gps_packet_def)
  have calls: "frame_calls gps_packet bs sample_station = [SerializedHandler 8 bs]"
    "packet_calls ?p sample_station = [PacketHandler 7 ?p, PacketHandler 10 ?p]"
    "packet_calls ?q sample_station = [PacketHandler 7 ?q, PacketHandler 10 ?q]" for bs
    by (simp_all add: frame_calls_def packet_calls_def sample_locals_def image_after_def sample_images)
      (simp_all add: gps_packet_def)
  obtain b1 bs b2 c1 c2 where
    "seds_router_receive_serialized_from_side sample_env sample_world 0 (serialize_packet sample_env gps_packet) sample_station =
       Some (SEDS_OK, b1)" "carry_nodes sample_env ?hs (serialize_packet sample_env gps_packet) = Some bs"
    "seds_router_receive_serialized_from_side sample_env sample_world 1 bs b1 = Some (SEDS_OK, b2)"
    "trace b1 = trace sample_station @ frame_calls gps_packet (serialize_packet sample_env gps_packet) sample_station @
       packet_calls ?p sample_station @ map (\<lambda>g. ManagedCallback g ?p) c1"
    "trace b2 = trace b1 @ frame_calls gps_packet bs sample_station @
       (if sender_mix (sender (image_after sample_env (Suc (length ?hs)) gps_packet)) = sender_mix (sender ?p) then []
        else packet_calls (image_after sample_env (Suc (length ?hs)) gps_packet) sample_station @
          map (\<lambda>g. ManagedCallback g (image_after sample_env (Suc (length ?hs)) gps_packet)) c2)"
    using relayed_copy_delivered_again [OF gps_plain zstd_inverts_sample sample_retries sample_path_ready(2) station_ready
        station_fresh(2) station_fresh(2) command_ordinary(3)] by blast
  with imgs calls show ?thesis
    by (intro exI [of _ b1] exI [of _ bs] exI [of _ b2] exI [of _ ?p] exI [of _ ?q]
        exI [of _ "map (\<lambda>g. ManagedCallback g ?p) c1"] exI [of _ "map (\<lambda>g. ManagedCallback g ?q) c2"]) simp
qed

end
