(* ===== verification/Exchange.thy ===== *)
theory Exchange
  imports Network
begin

text \<open>
  A whole exchange on a reliable link: a router sends a frame of an ordered type, the router at the
  other end delivers the packet and works its transmit queue off, and the acknowledgement among the
  frames it sends empties the window of the first router.
\<close>

section \<open>Acknowledgements in the transmit queue\<close>

text \<open>Acknowledgements on their way back to a side.\<close>

definition directed :: "i32 \<Rightarrow> tx_item \<Rightarrow> bool" where
  "directed s item \<longleftrightarrow>
     ty (tx_pkt item) = SEDS_DT_RELIABLE_ACK \<and> tx_src_side item = None \<and> tx_dst_side item = Some s \<and> \<not> deliver_local item"

definition return_side :: "i32 \<Rightarrow> fn \<Rightarrow> 'a owner_scheme \<Rightarrow> bool" where
  "return_side s f r \<longleftrightarrow>
     in_range s (sides r) \<and> egress_enabled (sides r ! nat s) \<and> reliable_enabled (sides r ! nat s) \<and>
     serialized_tx (sides r ! nat s) = Some f"

definition frames_accepted :: "world \<Rightarrow> bool" where
  "frames_accepted w \<longleftrightarrow> (\<forall>f bs tr. respond w tr (SerializedTx f bs) = SEDS_OK)"

lemma transmit_directed:
  assumes "directed s item" "idle r" "return_side s f r" "frames_accepted w" "\<not> is_reliable_type E SEDS_DT_RELIABLE_ACK"
  shows "transmit_item_router E w item r =
    Some (SEDS_OK, r\<lparr>trace := trace r @ [SerializedTx f (serialize_packet E (tx_pkt item))]\<rparr>)"
proof -
  have "choose_targets E w preferred item r = ([s], r)" for preferred
    using assms(1) by (simp add: choose_targets_def select_destinations_def directed_def)
  moreover have "track_end_to_end E w (tx_pkt item) [s] r = Some r"
    using assms(1,5) by (simp add: track_end_to_end_def directed_def)
  moreover have "send_serialized_with_reliable E w s (tx_pkt item) r =
      (SEDS_OK, r\<lparr>trace := trace r @ [SerializedTx f (serialize_packet E (tx_pkt item))]\<rparr>)"
    by (rule send_plain) (use assms in \<open>simp_all add: directed_def return_side_def frames_accepted_def\<close>)
  ultimately show ?thesis
    using assms(1,3) by (simp add: transmit_item_router_def directed_def return_side_def)
qed

lemma drain_directed:
  assumes "list_all (directed s) (tx_queue r)" "idle r" "return_side s f r" "frames_accepted w"
    and "\<not> is_reliable_type E SEDS_DT_RELIABLE_ACK"
  shows "drain_tx E w r = Some (SEDS_OK, (set_tx ([], tx_queue_bytes r - sum_list (map byte_cost_tx (tx_queue r))) r)
    \<lparr>trace := trace r @ map (\<lambda>i. SerializedTx f (serialize_packet E (tx_pkt i))) (tx_queue r)\<rparr>)"
  using assms(1-3)
proof (induction "tx_queue r" arbitrary: r)
  case Nil
  then show ?case by (simp add: drain_tx.simps [of E w r] pop_tx_def pop_queue_def owner_tx_def set_tx_def)
next
  case (Cons item q)
  let ?Q = "(q, tx_queue_bytes r - byte_cost_tx item)"
  define r1 where "r1 = (set_tx ?Q r)\<lparr>trace := trace r @ [SerializedTx f (serialize_packet E (tx_pkt item))]\<rparr>"
  note q = Cons.hyps(2) [symmetric]
  have i: "directed s item" "list_all (directed s) q" using Cons.prems(1) by (simp_all add: q)
  have "transmit_item_router E w item (set_tx ?Q r) = Some (SEDS_OK, r1)"
    using transmit_directed [OF i(1), of "set_tx ?Q r" f w E] Cons.prems(2,3) assms(4,5)
    by (simp add: r1_def return_side_def set_tx_def idle_def)
  then have step: "drain_tx E w r = drain_tx E w r1"
    by (simp add: drain_tx.simps [of E w r] pop_tx_def pop_queue_def owner_tx_def q router_send_def tx_result_def)
  have "drain_tx E w r1 = Some (SEDS_OK, (set_tx ([], tx_queue_bytes r1 - sum_list (map byte_cost_tx (tx_queue r1))) r1)
      \<lparr>trace := trace r1 @ map (\<lambda>i. SerializedTx f (serialize_packet E (tx_pkt i))) (tx_queue r1)\<rparr>)"
    by (rule Cons.hyps(1)) (use i Cons.prems in \<open>simp_all add: r1_def set_tx_def idle_def return_side_def\<close>)
  then show ?case by (simp add: step r1_def set_tx_def q algebra_simps)
qed

text \<open>Room for acknowledgements: an upper bound of the cost of one.\<close>

definition ack_cost :: "env \<Rightarrow> router \<Rightarrow> nat" where
  "ack_cost E r =
     36 + length (r_sender r) +
     4 * (length (telemetry_error_endpoint E SEDS_DT_RELIABLE_ACK) + length (ti_endpoints (type_at E SEDS_DT_RELIABLE_ACK)))"

lemma push_front_fits:
  assumes "unat (tx_queue_bytes r) + n \<le> unat (max_queue_budget (memory r))" "unat (byte_cost_tx i) \<le> n"
  shows "push_tx_front i r = set_tx (i # tx_queue r, tx_queue_bytes r + byte_cost_tx i) r"
    "unat (tx_queue_bytes r + byte_cost_tx i) \<le> unat (tx_queue_bytes r) + n"
proof -
  have "unat (tx_queue_bytes r) + unat (byte_cost_tx i) < 2 ^ 64"
    using assms unsigned_less [of "max_queue_budget (memory r)", where ?'a = nat] by simp
  then have u: "unat (tx_queue_bytes r + byte_cost_tx i) = unat (tx_queue_bytes r) + unat (byte_cost_tx i)"
    by (intro unat_add_small)
  then have "\<not> max_queue_budget (memory r) < tx_queue_bytes r + byte_cost_tx i" "\<not> max_queue_budget (memory r) < byte_cost_tx i"
    using assms by (simp_all add: word_less_nat_alt)
  then show "push_tx_front i r = set_tx (i # tx_queue r, tx_queue_bytes r + byte_cost_tx i) r"
    by (simp add: push_tx_front_def enqueue_tx_front_def enqueue_bounded_def owner_tx_def evict_fits)
  show "unat (tx_queue_bytes r + byte_cost_tx i) \<le> unat (tx_queue_bytes r) + n" using u assms(2) by simp
qed

lemma unat_of_nat_le: "unat (word_of_nat n :: 'a::len word) \<le> n"
  by (simp add: unat_of_nat)

lemma ack_item_cost:
  assumes "tx_pkt item = make_reliable_control_packet E SEDS_DT_RELIABLE_ACK t sq ts (r_sender r) \<or>
    tx_pkt item = make_e2e_reliable_ack_packet E pid ts (encode_end_to_end_ack_sender r)"
  shows "unat (byte_cost_tx item) \<le> ack_cost E r"
proof -
  have "byte_cost_packet (tx_pkt item) + 1 + 4 * 2 \<le> ack_cost E r"
    using assms by (auto simp: byte_cost_packet_def make_reliable_control_packet_def make_e2e_reliable_ack_packet_def ack_cost_def
        encode_end_to_end_ack_sender_def kEndToEndAckPrefix_def append_le_def)
  then show ?thesis unfolding byte_cost_tx_def by (rule order.trans [OF unat_of_nat_le])
qed

section \<open>The receiving router\<close>

text \<open>The frame with the expected number: its acknowledgement is in front of the transmit queue.\<close>

definition link_ack :: "env \<Rightarrow> world \<Rightarrow> i32 \<Rightarrow> u32 \<Rightarrow> u32 \<Rightarrow> router \<Rightarrow> tx_item" where
  "link_ack E w s t sq r =
     \<lparr>tx_pkt = make_reliable_control_packet E SEDS_DT_RELIABLE_ACK t sq (now_ms w r) (r_sender r), tx_src_side = None,
      tx_dst_side = Some s, deliver_local = False\<rparr>"

lemma expected_frame_acknowledged:
  assumes "ordered_frame t sq frame" "rx_state s t r = \<lparr>expected_seq = sq, last_ack = la, buffered = []\<rparr>"
    and "reliable_released_rx r = []" "return_side s f r"
  shows "process_reliable_ingress_impl E w (r_sender r) s frame pkt wire r =
    (True, push_tx_front (link_ack E w s t sq r)
       (r\<lparr>reliable_released_rx := [],
           reliable_rx := mput (reliable_key s t) \<lparr>expected_seq = bump_seq sq, last_ack = sq, buffered = []\<rparr> (reliable_rx r)\<rparr>))"
proof -
  have "release_buffered s \<lparr>expected_seq = n, last_ack = sq, buffered = []\<rparr> [] =
      (\<lparr>expected_seq = n, last_ack = sq, buffered = []\<rparr>, [])" for n
    by (simp add: release_buffered.simps)
  moreover obtain a where "env_ty (envelope frame) = t" "reliable frame = Some \<lparr>rh_flags = 0, seq = sq, ack = a\<rparr>"
    using assms(1) by (auto simp: ordered_frame_def)
  ultimately show ?thesis
    using assms(2-4)
    by (simp add: process_reliable_ingress_impl_def rx_state_def return_side_def link_ack_def
        queue_reliable_ack_def queue_reliable_control_def now_ms_def Let_def)
qed

text \<open>Reception of an unseen packet of a reliable type by a router that does not relay.\<close>

lemma return_route_exact:
  obtains ro rr where "note_reliable_return_route E s i r = r\<lparr>reliable_return_route_order := ro, reliable_return_routes := rr\<rparr>"
  unfolding note_reliable_return_route_def Let_def case_prod_unfold by blast

lemma return_routes_exact:
  assumes "named_endpoints E (endpoints pkt)"
  obtains ro rr where "note_return_routes E pkt (Some s) pid r =
    Some (r\<lparr>reliable_return_route_order := ro, reliable_return_routes := rr\<rparr>)"
proof -
  obtain source_id where id: "source_packet_id E pkt = Some source_id" using packet_id_named(2) [OF assms] by auto
  obtain ro rr where one: "note_reliable_return_route E s pid r =
      r\<lparr>reliable_return_route_order := ro, reliable_return_routes := rr\<rparr>" using return_route_exact .
  obtain ro' rr' where two: "note_reliable_return_route E s source_id (note_reliable_return_route E s pid r) =
      (note_reliable_return_route E s pid r)\<lparr>reliable_return_route_order := ro', reliable_return_routes := rr'\<rparr>"
    using return_route_exact .
  show thesis
  proof (cases "wants_end_to_end E pkt")
    case False
    then show ?thesis
      by (intro that [where ro = "reliable_return_route_order r" and rr = "reliable_return_routes r"])
        (simp add: note_return_routes_def)
  next
    case wants: True
    show ?thesis
    proof (cases "source_id = pid")
      case True
      then show ?thesis using wants id one by (intro that [where ro = ro and rr = rr]) (simp add: note_return_routes_def)
    next
      case False
      then have "note_return_routes E pkt (Some s) pid r =
          Some (note_reliable_return_route E s source_id (note_reliable_return_route E s pid r))"
        using wants id by (simp add: note_return_routes_def)
      then show ?thesis using two by (intro that [where ro = ro' and rr = rr']) (simp add: one)
    qed
  qed
qed

lemma receive_sequenced:
  assumes "ordinary E pkt" "named_endpoints E (endpoints pkt)" "0 < max_handler_retries (tuning E)"
    and "max_recent_rx_ids (memory r) \<noteq> 0" "accepted w pkt (packet_handlers (endpoints pkt) (locals r))"
    and "the (packet_id E pkt) \<notin> set (recent_set r)" "mode r \<noteq> Seds_RM_Relay"
  obtains ids st ro rr cbs m where "set st \<subseteq> insert (the (packet_id E pkt)) (set (recent_set r))"
    "router_receive_impl E w pkt (Some s) r =
      (let r' = r\<lparr>recent_ids := ids, recent_set := st, reliable_return_route_order := ro, reliable_return_routes := rr,
                  trace := trace r @ packet_calls pkt r @ map (\<lambda>g. ManagedCallback g pkt) cbs, managed_latest := m\<rparr>
       in if has_local_handler pkt r \<and> is_reliable_type E (ty pkt) then queue_end_to_end_ack E w pkt (Some s) r' else Some r')"
proof -
  obtain pid where pid: "packet_id E pkt = Some pid" using packet_id_named(1) [OF assms(2)] by auto
  have "push_recent (max_recent_rx_ids (memory r)) (recent_ids r, recent_set r) pid \<noteq> None"
    using assms(4) by (simp add: push_recent_def split: list.split)
  then obtain ids st where
    push: "push_recent (max_recent_rx_ids (memory r)) (recent_ids r, recent_set r) pid = Some (ids, st)" by auto
  obtain ro rr where ret: "note_return_routes E pkt (Some s) pid (r\<lparr>recent_ids := ids, recent_set := st\<rparr>) =
      Some (r\<lparr>recent_ids := ids, recent_set := st, reliable_return_route_order := ro, reliable_return_routes := rr\<rparr>)"
    using return_routes_exact [OF assms(2), of s pid "r\<lparr>recent_ids := ids, recent_set := st\<rparr>"] by blast
  define r1 where "r1 = r\<lparr>recent_ids := ids, recent_set := st, reliable_return_route_order := ro, reliable_return_routes := rr\<rparr>"
  define r2 where "r2 = r1\<lparr>trace := trace r @ packet_calls pkt r\<rparr>"
  have d: "dispatch_local_packet_handlers E w pkt (locals r1) r1 = (SEDS_OK, r2)"
    using dispatch_accepted [OF assms(3,5), of r1] by (simp add: r2_def r1_def packet_calls_def)
  obtain cbs m where m: "remember_managed_variable_packet E w pkt r2 =
      r2\<lparr>trace := trace r2 @ map (\<lambda>g. ManagedCallback g pkt) cbs, managed_latest := m\<rparr>"
    using remember_managed_exact [of E w pkt r2] by blast
  define r3 where "r3 = r2\<lparr>trace := trace r2 @ map (\<lambda>g. ManagedCallback g pkt) cbs, managed_latest := m\<rparr>"
  have keep: "mode r3 \<noteq> Seds_RM_Relay" "has_local_handler pkt r1 = has_local_handler pkt r"
    using assms(7) by (simp_all add: r3_def r2_def r1_def has_local_handler_def)
  have modes: "mode x = mode r3" if "queue_end_to_end_ack E w pkt (Some s) r3 = Some x" for x
    using arg_cong [OF queue_end_to_end_ack_tx_only [OF that], of mode] by simp
  have "receive_fresh E w pkt (Some s) r1 =
      (if has_local_handler pkt r \<and> is_reliable_type E (ty pkt) then queue_end_to_end_ack E w pkt (Some s) r3 else Some r3)"
    using assms(1) keep modes unfolding ordinary_def
    by (cases "queue_end_to_end_ack E w pkt (Some s) r3")
      (simp_all add: receive_fresh_def handle_managed_variable_request_def d m r3_def [symmetric])
  moreover have "set st \<subseteq> insert (the (packet_id E pkt)) (set (recent_set r))" using push_recent_new [OF push] pid by simp
  ultimately show thesis
    using pid push ret assms(6)
    by (intro that [where ids = ids and st = st and ro = ro and rr = rr and cbs = cbs and m = m])
      (simp, simp add: router_receive_impl_def r1_def [symmetric], simp add: r3_def r2_def r1_def Let_def)
qed

lemma end_to_end_acks_queued:
  assumes "named_endpoints E (endpoints pkt)"
    and "unat (tx_queue_bytes r) + 2 * ack_cost E r \<le> unat (max_queue_budget (memory r))"
  obtains xs where "queue_end_to_end_ack E w pkt (Some s) r =
      Some (set_tx (xs @ tx_queue r, tx_queue_bytes r + sum_list (map byte_cost_tx xs)) r)" "list_all (directed s) xs"
proof -
  define item where "item pid x = \<lparr>tx_pkt = make_e2e_reliable_ack_packet E pid (now_ms w x) (encode_end_to_end_ack_sender x),
      tx_src_side = None, tx_dst_side = Some s, deliver_local = False\<rparr>" for pid and x :: router
  obtain pid source_id where ids: "packet_id E pkt = Some pid" "source_packet_id E pkt = Some source_id"
    using packet_id_named [OF assms(1)] by auto
  have cost: "unat (byte_cost_tx (item i r)) \<le> ack_cost E r" for i
    by (rule ack_item_cost [OF disjI2]) (simp add: item_def)
  have dir: "directed s (item i x)" for i x by (simp add: item_def directed_def make_e2e_reliable_ack_packet_def)
  define r1 where "r1 = set_tx (item pid r # tx_queue r, tx_queue_bytes r + byte_cost_tx (item pid r)) r"
  have r1: "push_tx_front (item pid r) r = r1" "unat (tx_queue_bytes r1) \<le> unat (tx_queue_bytes r) + ack_cost E r"
    using push_front_fits [OF _ cost, of r pid] assms(2) by (simp_all add: r1_def set_tx_def)
  have same: "item source_id r1 = item source_id r"
    by (simp add: item_def r1_def set_tx_def now_ms_def encode_end_to_end_ack_sender_def)
  have r2: "push_tx_front (item source_id r1) r1 =
      set_tx (item source_id r # item pid r # tx_queue r, tx_queue_bytes r1 + byte_cost_tx (item source_id r)) r"
    unfolding same
    using push_front_fits(1) [of r1 "ack_cost E r" "item source_id r"] cost r1(2) assms(2) by (simp add: r1_def set_tx_def)
  show thesis
  proof (cases "source_id = pid")
    case True
    then show ?thesis using ids r1(1) dir
      by (intro that [of "[item pid r]"])
        (simp_all add: queue_end_to_end_ack_def item_def [symmetric] r1_def)
  next
    case False
    then show ?thesis using ids r1(1) r2 dir
      by (intro that [of "[item source_id r, item pid r]"])
        (simp_all add: queue_end_to_end_ack_def item_def [symmetric] r1_def set_tx_def algebra_simps)
  qed
qed

text \<open>
  A router that expects number \<open>sq\<close> of a type on a side over which it can acknowledge, and a packet
  that is new to it and that its handlers accept.
\<close>

definition receiver_ready :: "env \<Rightarrow> world \<Rightarrow> u32 \<Rightarrow> u32 \<Rightarrow> u32 \<Rightarrow> fn \<Rightarrow> router \<Rightarrow> bool" where
  "receiver_ready E w j t sq g b \<longleftrightarrow>
     router_ready j b \<and> mode b \<noteq> Seds_RM_Relay \<and> idle b \<and> owner_tx b = ([], 0) \<and> reliable_tx b = [] \<and>
     end_to_end_reliable_tx b = [] \<and> return_side (sint j) g b \<and> frames_accepted w \<and>
     \<not> prefix ''E2EACK:'' (r_sender b) \<and> 3 * ack_cost E b \<le> unat (max_queue_budget (memory b)) \<and>
     (\<exists>la. rx_state (sint j) t b = \<lparr>expected_seq = sq, last_ack = la, buffered = []\<rparr>)"

definition novel :: "env \<Rightarrow> world \<Rightarrow> packet \<Rightarrow> router \<Rightarrow> bool" where
  "novel E w pkt b \<longleftrightarrow>
     the (packet_id E (wire_image E pkt)) \<notin> set (recent_set b) \<and>
     accepted w (wire_image E pkt) (packet_handlers (endpoints pkt) (locals b))"

definition sequenced :: "env \<Rightarrow> packet \<Rightarrow> bool" where
  "sequenced E pkt \<longleftrightarrow>
     ti_reliable_mode (type_at E (ty pkt)) = Ordered \<and> \<not> is_reliable_control_type E (ty pkt) \<and> ordinary E pkt \<and>
     named_endpoints E (endpoints pkt) \<and> wire_ok E pkt \<and> \<not> is_reliable_type E SEDS_DT_RELIABLE_ACK"

text \<open>What an exchange leaves as it was at the receiver.\<close>

definition same_receiver :: "router \<Rightarrow> router \<Rightarrow> bool" where
  "same_receiver b b' \<longleftrightarrow>
     sides b' = sides b \<and> memory b' = memory b \<and> mode b' = mode b \<and> locals b' = locals b \<and> r_sender b' = r_sender b \<and>
     rx_queue b' = rx_queue b \<and> reliable_released_rx b' = reliable_released_rx b \<and> reliable_tx b' = reliable_tx b \<and>
     end_to_end_reliable_tx b' = end_to_end_reliable_tx b \<and> idle b' = idle b"

text \<open>The receiver with the acknowledgement queued and the next number expected.\<close>

definition acknowledging :: "env \<Rightarrow> world \<Rightarrow> i32 \<Rightarrow> u32 \<Rightarrow> u32 \<Rightarrow> router \<Rightarrow> router" where
  "acknowledging E w s t sq b =
     set_tx ([link_ack E w s t sq b], byte_cost_tx (link_ack E w s t sq b))
       (b\<lparr>reliable_released_rx := [],
          reliable_rx := mput (reliable_key s t) \<lparr>expected_seq = bump_seq sq, last_ack = sq, buffered = []\<rparr> (reliable_rx b)\<rparr>)"

lemma link_ack_cost: "unat (byte_cost_tx (link_ack E w s t sq b)) \<le> ack_cost E b"
  by (rule ack_item_cost [OF disjI1]) (simp add: link_ack_def)

lemma receiver_acknowledges:
  assumes "receiver_ready E w j t sq g b" "ordered_frame t sq frame"
  shows "process_reliable_ingress E w j frame pkt bs b = (True, acknowledging E w (sint j) t sq b)"
proof -
  note rdy = assms(1) [unfolded receiver_ready_def router_ready_def]
  obtain la where la: "rx_state (sint j) t b = \<lparr>expected_seq = sq, last_ack = la, buffered = []\<rparr>" using rdy by blast
  show ?thesis
    using expected_frame_acknowledged [OF assms(2) la, of g E w pkt bs] rdy link_ack_cost [of E w "sint j" t sq b]
      push_front_fits(1) [of "b\<lparr>reliable_released_rx := [], reliable_rx := rx\<rparr>" "ack_cost E b" "link_ack E w (sint j) t sq b" for rx]
    by (simp add: process_reliable_ingress_def acknowledging_def owner_tx_def)
qed

text \<open>Delivery of a new packet puts end-to-end acknowledgements in front of what is queued.\<close>

lemma sequenced_delivered:
  assumes "ordinary E pkt" "named_endpoints E (endpoints pkt)" "0 < max_handler_retries (tuning E)"
    and "max_recent_rx_ids (memory r) \<noteq> 0" "accepted w pkt (packet_handlers (endpoints pkt) (locals r))"
    and "the (packet_id E pkt) \<notin> set (recent_set r)" "mode r \<noteq> Seds_RM_Relay"
    and "unat (tx_queue_bytes r) + 2 * ack_cost E r \<le> unat (max_queue_budget (memory r))"
  obtains xs ids st ro rr cbs m where "set st \<subseteq> insert (the (packet_id E pkt)) (set (recent_set r))" "list_all (directed s) xs"
    "router_receive_impl E w pkt (Some s) r = Some (set_tx (xs @ tx_queue r, tx_queue_bytes r + sum_list (map byte_cost_tx xs))
       (r\<lparr>recent_ids := ids, recent_set := st, reliable_return_route_order := ro, reliable_return_routes := rr,
          trace := trace r @ packet_calls pkt r @ map (\<lambda>h. ManagedCallback h pkt) cbs, managed_latest := m\<rparr>))"
proof -
  obtain ids st ro rr cbs m where st: "set st \<subseteq> insert (the (packet_id E pkt)) (set (recent_set r))"
    and rcv: "router_receive_impl E w pkt (Some s) r =
      (let r' = r\<lparr>recent_ids := ids, recent_set := st, reliable_return_route_order := ro, reliable_return_routes := rr,
                  trace := trace r @ packet_calls pkt r @ map (\<lambda>g. ManagedCallback g pkt) cbs, managed_latest := m\<rparr>
       in if has_local_handler pkt r \<and> is_reliable_type E (ty pkt) then queue_end_to_end_ack E w pkt (Some s) r' else Some r')"
    by (rule receive_sequenced [OF assms(1-7)])
  define r' where "r' = r\<lparr>recent_ids := ids, recent_set := st, reliable_return_route_order := ro, reliable_return_routes := rr,
                  trace := trace r @ packet_calls pkt r @ map (\<lambda>g. ManagedCallback g pkt) cbs, managed_latest := m\<rparr>"
  have r': "tx_queue r' = tx_queue r" "tx_queue_bytes r' = tx_queue_bytes r" "set_tx (tx_queue r, tx_queue_bytes r) r' = r'"
    "unat (tx_queue_bytes r') + 2 * ack_cost E r' \<le> unat (max_queue_budget (memory r'))"
    using assms(8) by (simp_all add: r'_def set_tx_def ack_cost_def)
  obtain xs where "router_receive_impl E w pkt (Some s) r =
      Some (set_tx (xs @ tx_queue r, tx_queue_bytes r + sum_list (map byte_cost_tx xs)) r')" "list_all (directed s) xs"
  proof (cases "has_local_handler pkt r \<and> is_reliable_type E (ty pkt)")
    case True
    from end_to_end_acks_queued [OF assms(2) r'(4)] obtain xs where
      "queue_end_to_end_ack E w pkt (Some s) r' =
         Some (set_tx (xs @ tx_queue r', tx_queue_bytes r' + sum_list (map byte_cost_tx xs)) r')" "list_all (directed s) xs" .
    then show thesis using that rcv True r'(1,2) by (simp add: r'_def [symmetric])
  next
    case False
    then show thesis using that [of "[]"] rcv r'(3) by (auto simp: r'_def [symmetric])
  qed
  then show thesis using that [where xs = xs and ids = ids and st = st and ro = ro and rr = rr and cbs = cbs and m = m] st
    by (simp add: r'_def)
qed

lemma receiver_takes_frame:
  assumes "sequenced E pkt" "zstd_inverts E" "0 < max_handler_retries (tuning E)" "receiver_ready E w j (ty pkt) sq g b"
    and "novel E w pkt b"
  obtains b1 xs cbs where
    "seds_router_receive_serialized_from_side E w j (reliable_frame E pkt sq) b = Some (SEDS_OK, b1)"
    "trace b1 = trace b @ frame_calls pkt (reliable_frame E pkt sq) b @ packet_calls (wire_image E pkt) b @
       map (\<lambda>h. ManagedCallback h (wire_image E pkt)) cbs"
    "tx_queue b1 = xs @ [link_ack E w (sint j) (ty pkt) sq b]" "tx_queue_bytes b1 = sum_list (map byte_cost_tx (tx_queue b1))"
    "list_all (directed (sint j)) xs" "same_receiver b b1"
    "set (recent_set b1) \<subseteq> insert (the (packet_id E (wire_image E pkt))) (set (recent_set b))"
    "rx_state (sint j) (ty pkt) b1 = \<lparr>expected_seq = bump_seq sq, last_ack = sq, buffered = []\<rparr>"
proof -
  let ?p = "wire_image E pkt" and ?bs = "reliable_frame E pkt sq" and ?ack = "link_ack E w (sint j) (ty pkt) sq b"
  note ty = assms(1) [unfolded sequenced_def] and rdy = assms(4) [unfolded receiver_ready_def router_ready_def]
    and new = assms(5) [unfolded novel_def]
  obtain frame where fr: "peek_frame_info E ?bs True = Some (Some frame)" "ordered_frame (ty pkt) sq frame"
    "\<not> ack_only frame" "env_ty (envelope frame) = ty pkt" "set (env_endpoints (envelope frame)) = set (endpoints pkt)"
    "deserialize_packet E ?bs = Some (Some ?p)"
    using reliable_frame_read [of E pkt sq] ty assms(2) by metis
  define b2 where "b2 = (acknowledging E w (sint j) (ty pkt) sq b)\<lparr>trace := trace b @ frame_calls pkt ?bs b\<rparr>"
  have shown: "show_serialized w frame ?bs (acknowledging E w (sint j) (ty pkt) sq b) = b2"
    using ty shown_ordinary [of E pkt] handlers_cong(2) [OF fr(5)]
    by (simp add: show_serialized_def fr(4) serialized_handlers_calls b2_def acknowledging_def set_tx_def frame_calls_def)
  have img: "ordinary E ?p" "named_endpoints E (endpoints ?p)" using ty wire_image_ordinary by auto
  have acc: "max_recent_rx_ids (memory b2) \<noteq> 0" "accepted w ?p (packet_handlers (endpoints ?p) (locals b2))"
    "the (packet_id E ?p) \<notin> set (recent_set b2)" "mode b2 \<noteq> Seds_RM_Relay"
    "unat (tx_queue_bytes b2) + 2 * ack_cost E b2 \<le> unat (max_queue_budget (memory b2))"
    using rdy new handlers_cong(1) [of "endpoints ?p" "endpoints pkt"] link_ack_cost [of E w "sint j" "ty pkt" sq b]
    by (simp_all add: b2_def acknowledging_def set_tx_def ack_cost_def)
  obtain xs ids st ro rr cbs m where st: "set st \<subseteq> insert (the (packet_id E ?p)) (set (recent_set b2))" "list_all (directed (sint j)) xs"
    and rcv: "router_receive_impl E w ?p (Some (sint j)) b2 = Some (set_tx (xs @ tx_queue b2, tx_queue_bytes b2 + sum_list (map byte_cost_tx xs))
       (b2\<lparr>recent_ids := ids, recent_set := st, reliable_return_route_order := ro, reliable_return_routes := rr,
          trace := trace b2 @ packet_calls ?p b2 @ map (\<lambda>h. ManagedCallback h ?p) cbs, managed_latest := m\<rparr>))"
    by (rule sequenced_delivered [OF img assms(3) acc])
  obtain b3 where b3: "router_receive_impl E w ?p (Some (sint j)) b2 = Some b3" using rcv by blast
  have out: "reliable_released_rx b3 = []" "rx_queue b3 = []" "same_receiver b b3"
    "tx_queue b3 = xs @ [?ack]" "tx_queue_bytes b3 = sum_list (map byte_cost_tx (tx_queue b3))" "recent_set b3 = st"
    "rx_state (sint j) (ty pkt) b3 = \<lparr>expected_seq = bump_seq sq, last_ack = sq, buffered = []\<rparr>"
    "trace b3 = trace b @ frame_calls pkt ?bs b @ packet_calls ?p b @ map (\<lambda>h. ManagedCallback h ?p) cbs"
    using b3 rdy unfolding rcv
    by (auto simp: set_tx_def b2_def acknowledging_def same_receiver_def idle_def rx_state_def mget_def packet_calls_def algebra_simps)
  have "seds_router_receive_serialized_from_side E w j ?bs b = Some (SEDS_OK, b3)"
    using fr(1,3,6) rdy receiver_acknowledges [OF assms(4) fr(2)] shown b3 out(1,2) enqueue_released_nothing [of b3] drain_rx_empty [of b3 E w]
    by (simp add: seds_router_receive_serialized_from_side_def accept_frame_def seds_router_process_rx_queue_def)
  moreover have "recent_set b2 = recent_set b" by (simp add: b2_def acknowledging_def set_tx_def)
  ultimately show thesis using that [of b3 cbs xs] out st by simp
qed

section \<open>The exchange\<close>

lemma link_ack_frame:
  assumes "wire_ok E pkt" "\<not> prefix ''E2EACK:'' (r_sender b)"
  shows "serialize_packet E (tx_pkt (link_ack E w s (ty pkt) sq b)) =
    serialize_reliable_ack E (r_sender b) (ty pkt) (now_ms w b) sq"
  using assms by (simp add: serialize_packet_def link_ack_def make_reliable_control_packet_def append_le_def wire_ok_def)

text \<open>The receiver delivers the frame, answers it and is ready for the next.\<close>

lemma receiver_answers:
  assumes "sequenced E pkt" "zstd_inverts E" "0 < max_handler_retries (tuning E)" "receiver_ready E w j (ty pkt) sq g b"
    and "novel E w pkt b"
  obtains b1 b2 cbs acks where
    "seds_router_receive_serialized_from_side E w j (reliable_frame E pkt sq) b = Some (SEDS_OK, b1)"
    "seds_router_process_tx_queue E w b1 = Some (SEDS_OK, b2)" "receiver_ready E w j (ty pkt) (bump_seq sq) g b2"
    "locals b2 = locals b" "set (recent_set b2) \<subseteq> insert (the (packet_id E (wire_image E pkt))) (set (recent_set b))"
    "trace b2 = trace b @ frame_calls pkt (reliable_frame E pkt sq) b @ packet_calls (wire_image E pkt) b @
       map (\<lambda>h. ManagedCallback h (wire_image E pkt)) cbs @
       map (SerializedTx g) (acks @ [serialize_reliable_ack E (r_sender b) (ty pkt) (now_ms w b) sq])"
proof -
  let ?p = "wire_image E pkt" and ?ack = "serialize_reliable_ack E (r_sender b) (ty pkt) (now_ms w b) sq"
  note rb = assms(4) [unfolded receiver_ready_def]
  obtain b1 xs cbs where b1: "seds_router_receive_serialized_from_side E w j (reliable_frame E pkt sq) b = Some (SEDS_OK, b1)"
    "trace b1 = trace b @ frame_calls pkt (reliable_frame E pkt sq) b @ packet_calls ?p b @ map (\<lambda>h. ManagedCallback h ?p) cbs"
    and q: "tx_queue b1 = xs @ [link_ack E w (sint j) (ty pkt) sq b]" "tx_queue_bytes b1 = sum_list (map byte_cost_tx (tx_queue b1))"
    "list_all (directed (sint j)) xs" and same: "same_receiver b b1"
    and ids: "set (recent_set b1) \<subseteq> insert (the (packet_id E ?p)) (set (recent_set b))"
    and rx: "rx_state (sint j) (ty pkt) b1 = \<lparr>expected_seq = bump_seq sq, last_ack = sq, buffered = []\<rparr>"
    using receiver_takes_frame [OF assms] by metis
  define acks where "acks = map (\<lambda>i. serialize_packet E (tx_pkt i)) xs"
  define b2 where "b2 = (set_tx ([], 0) b1)\<lparr>trace := trace b1 @ map (SerializedTx g) (acks @ [?ack])\<rparr>"
  have st: "idle b1" "return_side (sint j) g b1" "router_timeouts E w b1 = b1"
    using rb same router_timeouts_none [of b1] by (simp_all add: same_receiver_def return_side_def)
  have "list_all (directed (sint j)) (tx_queue b1)"
    using q(3) by (simp add: q(1) directed_def link_ack_def make_reliable_control_packet_def)
  from drain_directed [OF this st(1,2), of w E] have "seds_router_process_tx_queue E w b1 = Some (SEDS_OK, b2)"
    using st(3) q(2) rb assms(1) link_ack_frame [of E pkt b w "sint j" sq]
    by (simp add: seds_router_process_tx_queue_def b2_def acks_def q(1) sequenced_def comp_def)
  moreover have "receiver_ready E w j (ty pkt) (bump_seq sq) g b2"
    using rb same rx
    by (simp add: receiver_ready_def b2_def set_tx_def same_receiver_def router_ready_def ingress_side_def idle_def
        owner_tx_def return_side_def ack_cost_def rx_state_def)
  moreover have "locals b2 = locals b" "recent_set b2 = recent_set b1" using same by (simp_all add: b2_def set_tx_def same_receiver_def)
  ultimately show thesis using that [of b1 b2 cbs acks] b1 ids by (simp add: b2_def)
qed

text \<open>The sender, with nothing outstanding on the side, takes the acknowledgement.\<close>

definition sender_ready :: "env \<Rightarrow> world \<Rightarrow> u32 \<Rightarrow> packet \<Rightarrow> fn \<Rightarrow> router \<Rightarrow> bool" where
  "sender_ready E w i pkt f a \<longleftrightarrow>
     reliable_side E (sint i) pkt f a \<and> ingress_side i a \<and> \<not> side_tx_active a \<and> frames_accepted w \<and>
     sent (tx_state (sint i) (ty pkt) a) = [] \<and> sent_order (tx_state (sint i) (ty pkt) a) = []"

lemma send_not_active:
  assumes "\<not> side_tx_active r" "send_serialized_with_reliable E w s pkt r = (rc, r')"
  shows "side_tx_active r' = side_tx_active r"
  using assms
  by (auto simp: send_serialized_with_reliable_def call_serialized_tx_def call_back_def Let_def split: option.splits if_splits)

lemma sender_sends:
  assumes "sender_ready E w i pkt f a" "0 < reliable_max_pending (tuning E)"
  obtains a' entry where "send_serialized_with_reliable E w (sint i) pkt a = (SEDS_OK, a')"
    "trace a' = trace a @ [SerializedTx f (reliable_frame E pkt (next_seq (tx_state (sint i) (ty pkt) a)))]"
    "tx_state (sint i) (ty pkt) a' = \<lparr>next_seq = bump_seq (next_seq (tx_state (sint i) (ty pkt) a)),
       sent_order = [next_seq (tx_state (sint i) (ty pkt) a)], sent = [(next_seq (tx_state (sint i) (ty pkt) a), entry)]\<rparr>"
    "sides a' = sides a" "\<not> side_tx_active a'"
proof -
  note rdy = assms(1) [unfolded sender_ready_def]
  obtain rc a' where send: "send_serialized_with_reliable E w (sint i) pkt a = (rc, a')" by fastforce
  have len: "length (sent (tx_state (sint i) (ty pkt) a)) < reliable_max_pending (tuning E)" using rdy assms(2) by simp
  note c = send_reliable_cases [OF conjunct1 [OF rdy] _ len send]
  have "rc = SEDS_OK" using c rdy by (simp add: frames_accepted_def)
  moreover have "sides a' = sides a" using send_serialized_untouched [of a E w "sint i" pkt] send by (simp add: untouched_def)
  moreover have "side_tx_active a' = side_tx_active a" by (rule send_not_active [OF _ send]) (use rdy in simp)
  ultimately show thesis
    using that c rdy send by (cases "tx_state (sint i) (ty pkt) a'") auto
qed

lemma ack_empties_window:
  assumes "tx_state (sint i) (ty pkt) a = \<lparr>next_seq = n, sent_order = [sq], sent = [(sq, entry)]\<rparr>" "ingress_side i a"
    and "sequenced E pkt"
  obtains a' where "seds_router_receive_serialized_from_side E w i (serialize_reliable_ack E from (ty pkt) ts sq) a = Some (SEDS_OK, a')"
    "tx_state (sint i) (ty pkt) a' = \<lparr>next_seq = n, sent_order = [], sent = []\<rparr>" "sides a' = sides a"
    "side_tx_active a' = side_tx_active a"
proof -
  let ?bs = "serialize_reliable_ack E from (ty pkt) ts sq"
  note ty = assms(3) [unfolded sequenced_def wire_ok_def]
  have "has_v4_reliable_header E (ty pkt)" using ty by (simp add: has_v4_reliable_header_def ti_reliable_def)
  then obtain frame where fr: "peek_frame_info E ?bs True = Some (Some frame)" "env_ty (envelope frame) = ty pkt"
    "reliable frame = Some \<lparr>rh_flags = kV4ReliableFlagAckOnly, seq = 0, ack = sq\<rparr>"
    using ack_frame_peeked_not_delivered [of E "ty pkt" "from" ts sq True] ty by auto
  have "map_of (reliable_tx a) (reliable_key (sint i) (ty pkt)) \<noteq> None"
    using assms(1) by (auto simp: tx_state_def mget_def default_tx_state_def split: option.splits)
  then have "tx_state (sint i) (ty pkt) (handle_ack_impl E (sint i) (ty pkt) sq a) = ack_tx E (ty pkt) sq (tx_state (sint i) (ty pkt) a)"
    by (auto simp: handle_ack_impl_def tx_state_def mget_def)
  then have "tx_state (sint i) (ty pkt) (handle_ack_impl E (sint i) (ty pkt) sq a) = \<lparr>next_seq = n, sent_order = [], sent = []\<rparr>"
    using assms(1) ty by (simp add: ack_tx_def)
  moreover have "seds_router_receive_serialized_from_side E w i ?bs a = Some (SEDS_OK, handle_ack_impl E (sint i) (ty pkt) sq a)"
    using fr assms(2)
    by (simp add: seds_router_receive_serialized_from_side_def accept_frame_def ack_only_def process_reliable_ingress_def
        process_reliable_ingress_impl_def)
  moreover have "sides (handle_ack_impl E (sint i) (ty pkt) sq a) = sides a"
    "side_tx_active (handle_ack_impl E (sint i) (ty pkt) sq a) = side_tx_active a"
    by (simp_all add: handle_ack_impl_def Let_def split: option.split)
  ultimately show thesis using that by blast
qed

text \<open>
  One exchange: the sender sends, its frame is handed to the receiver, which then works its
  transmit queue off, and the last frame of that is handed back.
\<close>

definition last_frame :: "event list \<Rightarrow> bytes option" where
  "last_frame evs = (if evs = [] then None else case last evs of SerializedTx _ bs \<Rightarrow> Some bs | _ \<Rightarrow> None)"

definition exchange :: "env \<Rightarrow> world \<Rightarrow> world \<Rightarrow> u32 \<Rightarrow> u32 \<Rightarrow> packet \<Rightarrow> router \<times> router \<Rightarrow> (router \<times> router) option" where
  "exchange E wa wb i j pkt ab = do {
     let (_, a1) = send_serialized_with_reliable E wa (sint i) pkt (fst ab);
     bs \<leftarrow> last_frame (trace a1);
     (_, b1) \<leftarrow> seds_router_receive_serialized_from_side E wb j bs (snd ab);
     (_, b2) \<leftarrow> seds_router_process_tx_queue E wb b1;
     ack \<leftarrow> last_frame (trace b2);
     (_, a2) \<leftarrow> seds_router_receive_serialized_from_side E wa i ack a1;
     Some (a2, b2)
   }"

lemma last_frame_snoc [simp]: "last_frame (evs @ [SerializedTx f bs]) = Some bs"
  by (simp add: last_frame_def)

lemma exchange_completes:
  assumes "sequenced E pkt" "zstd_inverts E" "0 < max_handler_retries (tuning E)" "0 < reliable_max_pending (tuning E)"
    and "sender_ready E wa i pkt f a" "receiver_ready E wb j (ty pkt) (next_seq (tx_state (sint i) (ty pkt) a)) g b" "novel E wb pkt b"
  obtains a2 b2 cbs acks where "exchange E wa wb i j pkt (a, b) = Some (a2, b2)" "sender_ready E wa i pkt f a2"
    "receiver_ready E wb j (ty pkt) (next_seq (tx_state (sint i) (ty pkt) a2)) g b2" "locals b2 = locals b"
    "set (recent_set b2) \<subseteq> insert (the (packet_id E (wire_image E pkt))) (set (recent_set b))"
    "trace b2 = trace b @ frame_calls pkt (reliable_frame E pkt (next_seq (tx_state (sint i) (ty pkt) a))) b @
       packet_calls (wire_image E pkt) b @ map (\<lambda>h. ManagedCallback h (wire_image E pkt)) cbs @ map (SerializedTx g) acks"
proof -
  let ?sq = "next_seq (tx_state (sint i) (ty pkt) a)" and ?p = "wire_image E pkt"
  note ra = assms(5) [unfolded sender_ready_def]
  obtain a1 entry where a1: "send_serialized_with_reliable E wa (sint i) pkt a = (SEDS_OK, a1)"
    "trace a1 = trace a @ [SerializedTx f (reliable_frame E pkt ?sq)]"
    "tx_state (sint i) (ty pkt) a1 = \<lparr>next_seq = bump_seq ?sq, sent_order = [?sq], sent = [(?sq, entry)]\<rparr>" "sides a1 = sides a"
    "\<not> side_tx_active a1"
    using sender_sends [OF assms(5,4)] .
  let ?ack = "serialize_reliable_ack E (r_sender b) (ty pkt) (now_ms wb b) ?sq"
  obtain b1 b2 cbs acks where b: "seds_router_receive_serialized_from_side E wb j (reliable_frame E pkt ?sq) b = Some (SEDS_OK, b1)"
    "seds_router_process_tx_queue E wb b1 = Some (SEDS_OK, b2)" "receiver_ready E wb j (ty pkt) (bump_seq ?sq) g b2"
    "locals b2 = locals b" "set (recent_set b2) \<subseteq> insert (the (packet_id E ?p)) (set (recent_set b))"
    and tr: "trace b2 = trace b @ frame_calls pkt (reliable_frame E pkt ?sq) b @ packet_calls ?p b @
       map (\<lambda>h. ManagedCallback h ?p) cbs @ map (SerializedTx g) (acks @ [?ack])"
    using receiver_answers [OF assms(1-3,6,7)] .
  have "ingress_side i a1" using ra a1(4) by (simp add: ingress_side_def)
  from ack_empties_window [OF a1(3) this assms(1)] obtain a2 where
    a2: "seds_router_receive_serialized_from_side E wa i ?ack a1 = Some (SEDS_OK, a2)"
    "tx_state (sint i) (ty pkt) a2 = \<lparr>next_seq = bump_seq ?sq, sent_order = [], sent = []\<rparr>" "sides a2 = sides a1"
    "side_tx_active a2 = side_tx_active a1" .
  have "last_frame (trace b2) = Some ?ack"
    using last_frame_snoc [of "trace b @ frame_calls pkt (reliable_frame E pkt ?sq) b @ packet_calls ?p b @
      map (\<lambda>h. ManagedCallback h ?p) cbs @ map (SerializedTx g) acks" g ?ack] by (simp add: tr)
  then have "exchange E wa wb i j pkt (a, b) = Some (a2, b2)"
    using a1(1,2) b(1,2) a2(1) by (simp add: exchange_def)
  moreover have "sender_ready E wa i pkt f a2"
    using ra a2(2-4) a1(4,5) by (simp add: sender_ready_def reliable_side_def ingress_side_def)
  ultimately show thesis
    using that [of a2 b2 cbs "acks @ [?ack]"] b(3-5) tr a2(2) by simp
qed

section \<open>Conversations\<close>

fun conversation ::
    "env \<Rightarrow> world \<Rightarrow> world \<Rightarrow> u32 \<Rightarrow> u32 \<Rightarrow> packet list \<Rightarrow> router \<times> router \<Rightarrow> (router \<times> router) option" where
  "conversation E wa wb i j [] ab = Some ab"
| "conversation E wa wb i j (pkt # pkts) ab =
     Option.bind (exchange E wa wb i j pkt ab) (conversation E wa wb i j pkts)"

text \<open>The calls of packet handlers among a node's calls.\<close>

definition deliveries :: "event list \<Rightarrow> event list" where
  "deliveries evs = filter (\<lambda>ev. case ev of PacketHandler _ _ \<Rightarrow> True | _ \<Rightarrow> False) evs"

lemma deliveries_simps [simp]:
  "deliveries (xs @ ys) = deliveries xs @ deliveries ys" "deliveries [] = []"
  "deliveries (frame_calls pkt bs r) = []" "deliveries (packet_calls pkt r) = packet_calls pkt r"
  "deliveries (map (\<lambda>h. ManagedCallback h pkt) cbs) = []" "deliveries (map (SerializedTx g) acks) = []"
  by (simp_all add: deliveries_def frame_calls_def packet_calls_def filter_empty_conv filter_id_conv)

lemma sender_ready_type: "ty pkt = ty pkt' \<Longrightarrow> sender_ready E w i pkt f a = sender_ready E w i pkt' f a"
  by (simp add: sender_ready_def reliable_side_def)

text \<open>The packets of a conversation: of one ordered type, pairwise different and new to the receiver.\<close>

definition talk :: "env \<Rightarrow> world \<Rightarrow> u32 \<Rightarrow> packet list \<Rightarrow> router \<Rightarrow> bool" where
  "talk E w t pkts b \<longleftrightarrow>
     list_all (\<lambda>p. sequenced E p \<and> ty p = t \<and> novel E w p b) pkts \<and>
     distinct (map (\<lambda>p. the (packet_id E (wire_image E p))) pkts)"

lemma talk_goes_on:
  assumes "talk E w t (pkt # pkts) b" "locals b' = locals b"
    and "set (recent_set b') \<subseteq> insert (the (packet_id E (wire_image E pkt))) (set (recent_set b))"
  shows "talk E w t pkts b'"
proof -
  have "novel E w p b'" if "p \<in> set pkts" for p
  proof -
    have "the (packet_id E (wire_image E p)) \<in> (\<lambda>p. the (packet_id E (wire_image E p))) ` set pkts" using that by (rule imageI)
    then have "the (packet_id E (wire_image E p)) \<noteq> the (packet_id E (wire_image E pkt))" using assms(1) by (auto simp: talk_def)
    moreover have "novel E w p b" using assms(1) that by (simp add: talk_def list_all_iff)
    ultimately show ?thesis using assms(2,3) by (auto simp: novel_def)
  qed
  then show ?thesis using assms(1) by (auto simp: talk_def list_all_iff)
qed

lemma conversation_completes:
  assumes "zstd_inverts E" "0 < max_handler_retries (tuning E)" "0 < reliable_max_pending (tuning E)"
    and "ty any = t" "sender_ready E wa i any f a" "receiver_ready E wb j t (next_seq (tx_state (sint i) t a)) g b" "talk E wb t pkts b"
  shows "\<exists>a' b' evs. conversation E wa wb i j pkts (a, b) = Some (a', b') \<and> sender_ready E wa i any f a' \<and>
    receiver_ready E wb j t (next_seq (tx_state (sint i) t a')) g b' \<and> trace b' = trace b @ evs \<and>
    deliveries evs = concat (map (\<lambda>p. packet_calls (wire_image E p) b) pkts)"
  using assms(5-7)
proof (induction pkts arbitrary: a b)
  case Nil
  then show ?case by simp
next
  case (Cons pkt pkts)
  have p: "sequenced E pkt" "ty pkt = t" "novel E wb pkt b" using Cons.prems(3) by (simp_all add: talk_def)
  have s: "sender_ready E wa i pkt f x = sender_ready E wa i any f x" for x using sender_ready_type p(2) assms(4) by simp
  have ready: "sender_ready E wa i pkt f a" "receiver_ready E wb j (ty pkt) (next_seq (tx_state (sint i) (ty pkt) a)) g b"
    using Cons.prems(1,2) s p(2) by simp_all
  obtain a1 b1 cbs acks where x: "exchange E wa wb i j pkt (a, b) = Some (a1, b1)" "sender_ready E wa i pkt f a1"
    "receiver_ready E wb j (ty pkt) (next_seq (tx_state (sint i) (ty pkt) a1)) g b1" "locals b1 = locals b"
    "set (recent_set b1) \<subseteq> insert (the (packet_id E (wire_image E pkt))) (set (recent_set b))"
    and tr: "trace b1 = trace b @ frame_calls pkt (reliable_frame E pkt (next_seq (tx_state (sint i) (ty pkt) a))) b @
       packet_calls (wire_image E pkt) b @ map (\<lambda>h. ManagedCallback h (wire_image E pkt)) cbs @ map (SerializedTx g) acks"
    using exchange_completes [OF p(1) assms(1-3) ready p(3)] .
  obtain a' b' evs where "conversation E wa wb i j pkts (a1, b1) = Some (a', b')" "sender_ready E wa i any f a'"
    "receiver_ready E wb j t (next_seq (tx_state (sint i) t a')) g b'" "trace b' = trace b1 @ evs"
    "deliveries evs = concat (map (\<lambda>p. packet_calls (wire_image E p) b1) pkts)"
    using Cons.IH [OF _ _ talk_goes_on [OF Cons.prems(3) x(4,5)], of a1] x(2,3) s p(2) by auto
  moreover have "packet_calls q b1 = packet_calls q b" for q using x(4) by (simp add: packet_calls_def)
  ultimately show ?case using x(1) tr by auto
qed

text \<open>
  (C1) A reliable conversation delivers everything. A router sends packets of an ordered type one after
  the other to a router that expects its number, each followed by the receiver's work on its
  transmit queue and the return of the last frame of that, the acknowledgement. Every step
  succeeds; the receiver's handlers are called with exactly these packets, each once and in order;
  and at the end nothing is outstanding at the sender and its next number is the one the
  receiver expects.
\<close>

theorem conversation_delivers:
  assumes "zstd_inverts E" "0 < max_handler_retries (tuning E)" "0 < reliable_max_pending (tuning E)"
    and "sender_ready E wa i pkt f a" "receiver_ready E wb j (ty pkt) (next_seq (tx_state (sint i) (ty pkt) a)) g b"
    and "talk E wb (ty pkt) pkts b"
  shows "\<exists>a' b' evs. conversation E wa wb i j pkts (a, b) = Some (a', b') \<and> trace b' = trace b @ evs \<and>
    deliveries evs = concat (map (\<lambda>p. packet_calls (wire_image E p) b) pkts) \<and> tx_queue b' = [] \<and>
    sent (tx_state (sint i) (ty pkt) a') = [] \<and>
    next_seq (tx_state (sint i) (ty pkt) a') = expected_seq (rx_state (sint j) (ty pkt) b')"
proof -
  obtain a' b' evs where c: "conversation E wa wb i j pkts (a, b) = Some (a', b')" "sender_ready E wa i pkt f a'"
    "receiver_ready E wb j (ty pkt) (next_seq (tx_state (sint i) (ty pkt) a')) g b'" "trace b' = trace b @ evs"
    "deliveries evs = concat (map (\<lambda>p. packet_calls (wire_image E p) b) pkts)"
    using conversation_completes [OF assms(1-3) refl assms(4-6)] by blast
  from c(2,3) have "sent (tx_state (sint i) (ty pkt) a') = []" "tx_queue b' = []"
    "next_seq (tx_state (sint i) (ty pkt) a') = expected_seq (rx_state (sint j) (ty pkt) b')"
    by (auto simp: sender_ready_def receiver_ready_def owner_tx_def)
  with c(1,4,5) show ?thesis by blast
qed

definition sample_commands :: "packet list" where
  "sample_commands = [command_packet, command_packet\<lparr>payload := [43]\<rparr>]"

lemma sample_sequenced: "\<forall>p \<in> set sample_commands. sequenced sample_env p \<and> ty p = COMMAND"
proof -
  have ord: "ordinary sample_env (command_packet\<lparr>payload := pl\<rparr>)" for pl
    using command_ordinary(1) by (simp add: ordinary_def)
  have ok: "wire_ok sample_env (command_packet\<lparr>payload := [43]\<rparr>)" using wire_ok_samples(2) by (simp add: wire_ok_def)
  have "ty command_packet = COMMAND" by (simp add: command_packet_def)
  moreover have "\<not> is_reliable_type sample_env SEDS_DT_RELIABLE_ACK" "\<not> is_reliable_control_type sample_env COMMAND"
    by (simp_all add: is_reliable_type_def ti_reliable_def type_at_def sample_defs is_reliable_control_type_def)
  ultimately show ?thesis
    using command_ordinary(1,2) wire_ok_samples(2) ok ord by (simp add: sequenced_def sample_commands_def sample_type_at)
qed

lemma sample_talk: "talk sample_env sample_world COMMAND sample_commands sample_station"
proof -
  have "the (packet_id sample_env (wire_image sample_env command_packet)) \<noteq>
      the (packet_id sample_env (wire_image sample_env (command_packet\<lparr>payload := [43]\<rparr>)))"
    by (simp add: packet_id_def packet_id_with_endpoints_def wire_image_def command_packet_def endpoint_text_def sample_env_def
        hash_bytes_u64_def hash_step_one_byte)
  then show ?thesis
    using sample_sequenced command_ordinary(3) station_fresh(2) by (simp add: talk_def novel_def sample_commands_def list_all_iff)
qed

lemma sample_ends:
  "sender_ready sample_env sample_world 0 command_packet 1 sample_router"
  "receiver_ready sample_env sample_world 0 COMMAND (next_seq (tx_state 0 COMMAND sample_router)) 1 sample_station"
proof -
  have t: "ty command_packet = COMMAND" by (simp add: command_packet_def)
  show "sender_ready sample_env sample_world 0 command_packet 1 sample_router"
    by (simp add: sender_ready_def reliable_side_def ingress_side_def frames_accepted_def sample_router_def sample_owner_def owner.defs
        router.defs sample_side_def sample_world_def t is_reliable_type_def ti_reliable_def sample_type_at tx_state_def mget_def
        default_tx_state_def)
  have "ack_cost sample_env sample_station = 47"
    by (simp add: ack_cost_def sample_station_def sample_router_def owner.defs router.defs telemetry_error_endpoint_def type_at_def
        sample_defs upt_rec)
  then show "receiver_ready sample_env sample_world 0 COMMAND (next_seq (tx_state 0 COMMAND sample_router)) 1 sample_station"
    by (simp add: receiver_ready_def router_ready_def ingress_side_def frames_accepted_def return_side_def in_range_def idle_def
        owner_tx_def rx_state_def tx_state_def mget_def default_rx_state_def default_tx_state_def default_runtime_memory_config_def
        sample_station_def sample_router_def sample_owner_def owner.defs router.defs sample_side_def sample_world_def)
qed

theorem conversation_delivers_witness:
  "\<exists>a' b'. conversation sample_env sample_world sample_world 0 0 sample_commands (sample_router, sample_station) = Some (a', b') \<and>
     deliveries (trace b') = concat (map (\<lambda>p. [PacketHandler 7 (wire_image sample_env p), PacketHandler 10 (wire_image sample_env p)])
       sample_commands) \<and>
     sent (tx_state 0 COMMAND a') = []"
proof -
  have t: "ty command_packet = COMMAND" by (simp add: command_packet_def)
  have pending: "0 < reliable_max_pending (tuning sample_env)" by (simp add: sample_env_def default_tuning_def)
  have calls: "map (\<lambda>p. packet_calls (wire_image sample_env p) sample_station) sample_commands =
      map (\<lambda>p. [PacketHandler 7 (wire_image sample_env p), PacketHandler 10 (wire_image sample_env p)]) sample_commands"
    by (simp add: packet_calls_def sample_commands_def wire_image_def command_packet_def sample_locals_def)
  show ?thesis
    using conversation_delivers [OF zstd_inverts_sample sample_retries pending sample_ends(1), of sample_world 0 1 sample_station
        sample_commands] sample_ends(2) sample_talk
    unfolding t calls by auto
qed

end
