(* ===== verification/Acknowledgements.thy ===== *)
theory Acknowledgements
  imports Exchange
begin

text \<open>
  End-to-end acknowledgements and the wire. An acknowledgement that reaches the router as a packet
  retires the pending transmission it answers. One that crossed a serialized side does not: the
  frame carries only the address of its sender, so that the mark in the sender text is lost and the
  router takes the packet for a link acknowledgement.
\<close>

section \<open>Acknowledgements handed over as packets\<close>

abbreviation e2e_ack :: "env \<Rightarrow> u64 \<Rightarrow> u64 \<Rightarrow> string \<Rightarrow> packet" where
  "e2e_ack E pid ts node \<equiv> make_e2e_reliable_ack_packet E pid ts (kEndToEndAckPrefix @ node)"

lemma e2e_ack_simps [simp]:
  "ty (e2e_ack E pid ts node) = SEDS_DT_RELIABLE_ACK" "payload (e2e_ack E pid ts node) = le_bytes 8 pid"
  "endpoints (e2e_ack E pid ts node) = ti_endpoints (type_at E SEDS_DT_RELIABLE_ACK)"
  "is_end_to_end_ack (e2e_ack E pid ts node)" "\<not> is_link_ack (e2e_ack E pid ts node)"
  by (simp_all add: make_e2e_reliable_ack_packet_def append_le_def is_end_to_end_ack_def is_end_to_end_ack_sender_def is_link_ack_def
      kEndToEndAckPrefix_def)

lemma decode_ack_sender: "node \<noteq> [] \<Longrightarrow> decode_end_to_end_ack_sender_hash (kEndToEndAckPrefix @ node) = Some (sender_hash node)"
  by (simp add: decode_end_to_end_ack_sender_hash_def)

lemma receive_internal:
  assumes "named_endpoints E (endpoints pkt)" "max_recent_rx_ids (memory r) \<noteq> 0" "is_internal_control_type (ty pkt)"
    and "the (packet_id E pkt) \<notin> set (recent_set r)"
  obtains ids st where "router_receive_impl E w pkt (Some s) r =
    Some (if is_end_to_end_ack pkt
          then end_to_end_acked (from_le (payload pkt)) (sender pkt) (r\<lparr>recent_ids := ids, recent_set := st\<rparr>)
          else handle_link_control E w pkt (Some s) (r\<lparr>recent_ids := ids, recent_set := st\<rparr>))"
proof -
  obtain pid where pid: "packet_id E pkt = Some pid" using packet_id_named(1) [OF assms(1)] by auto
  have "push_recent (max_recent_rx_ids (memory r)) (recent_ids r, recent_set r) pid \<noteq> None"
    using assms(2) by (simp add: push_recent_def split: list.split)
  then obtain ids st where
    "push_recent (max_recent_rx_ids (memory r)) (recent_ids r, recent_set r) pid = Some (ids, st)" by auto
  then show thesis
    using assms(3,4) pid
    by (intro that [where ids = ids and st = st])
      (simp add: router_receive_impl_def note_return_routes_def wants_end_to_end_def receive_fresh_def)
qed

section \<open>Acknowledgements in frames\<close>

text \<open>The frame of an end-to-end acknowledgement, and how its sender is read.\<close>

lemma ack_frame_read:
  assumes "wire_ok E (e2e_ack E pid ts node)" "zstd_inverts E" "\<not> has_v4_reliable_header E SEDS_DT_RELIABLE_ACK"
  obtains frame where "peek_frame_info E (serialize_packet E (e2e_ack E pid ts node)) True = Some (Some frame)"
    "reliable frame = None" "\<not> ack_only frame" "env_ty (envelope frame) = SEDS_DT_RELIABLE_ACK"
    "deserialize_packet E (serialize_packet E (e2e_ack E pid ts node)) = Some (Some (wire_image E (e2e_ack E pid ts node)))"
proof -
  have h: "data_header \<lparr>rh_flags = 0, seq = 1, ack = 1\<rparr>" by (simp add: data_header_def)
  show thesis
    using that peek_serialize_with_reliable [OF assms(1) h, of True] deserialize_serialize_with_reliable [OF assms(1,2) h] assms(3)
    by (simp add: serialize_packet_data ack_only_def)
qed

lemma address_no_ack_sender: "\<not> is_end_to_end_ack_sender (address_sender a)"
  by (simp add: is_end_to_end_ack_sender_def address_sender_def kEndToEndAckSender_def kEndToEndAckPrefix_def)

lemma ack_image:
  "\<not> is_end_to_end_ack (wire_image E (e2e_ack E pid ts node))"
  "payload (wire_image E (e2e_ack E pid ts node)) = le_bytes 8 pid" "ty (wire_image E (e2e_ack E pid ts node)) = SEDS_DT_RELIABLE_ACK"
proof -
  have "sender (wire_image E p) = address_sender (ucast (sender_address_u32 (sender p)))" for p by (simp add: wire_image_def)
  then show "\<not> is_end_to_end_ack (wire_image E (e2e_ack E pid ts node))"
    using address_no_ack_sender by (simp add: is_end_to_end_ack_def)
qed simp_all

text \<open>
  (C29) An end-to-end acknowledgement is lost on the wire. A router waits for one destination to
  acknowledge a packet. Handed over as a packet, the acknowledgement of that destination retires the
  pending transmission; handed over as the frame that the same acknowledgement is encoded to, it
  leaves it pending, and is taken for an acknowledgement of the link: of the type given by the lower
  half of the packet's identity, up to the number given by its upper half.
\<close>

theorem end_to_end_ack_lost:
  assumes "wire_ok E (e2e_ack E pid ts node)" "zstd_inverts E" "\<not> has_v4_reliable_header E SEDS_DT_RELIABLE_ACK"
    and "named_endpoints E (ti_endpoints (type_at E SEDS_DT_RELIABLE_ACK))" "router_ready j b" "node \<noteq> []"
    and "map_of (end_to_end_reliable_tx b) pid = Some entry" "pending_destinations entry = [(sender_hash node, d)]"
    and "the (packet_id E (e2e_ack E pid ts node)) \<notin> set (recent_set b)"
    and "the (packet_id E (wire_image E (e2e_ack E pid ts node))) \<notin> set (recent_set b)"
  shows "\<exists>b1 b2 ids st. router_receive_impl E w (e2e_ack E pid ts node) (Some (sint j)) b = Some b1 \<and>
    map_of (end_to_end_reliable_tx b1) pid = None \<and>
    seds_router_receive_serialized_from_side E w j (serialize_packet E (e2e_ack E pid ts node)) b = Some (SEDS_OK, b2) \<and>
    map_of (end_to_end_reliable_tx b2) pid = Some entry \<and>
    b2 = handle_ack_impl E (sint j) (local_type_or_wire E (from_le (take 4 (le_bytes 8 pid)))) (from_le (drop 4 (le_bytes 8 pid)))
      (b\<lparr>recent_ids := ids, recent_set := st\<rparr>)"
proof -
  let ?p = "e2e_ack E pid ts node" and ?q = "wire_image E (e2e_ack E pid ts node)"
  note rdy = assms(5) [unfolded router_ready_def]
  have p: "named_endpoints E (endpoints ?p)" "max_recent_rx_ids (memory b) \<noteq> 0" "is_internal_control_type (ty ?p)"
    using assms(4) rdy by (simp_all add: is_internal_control_type_def)
  have q: "named_endpoints E (endpoints ?q)" "is_internal_control_type (ty ?q)" using wire_image_ordinary(2) [OF p(1)] p(3) by simp_all
  obtain ids st where one: "router_receive_impl E w ?p (Some (sint j)) b = Some (end_to_end_acked pid (sender ?p) (b\<lparr>recent_ids := ids, recent_set := st\<rparr>))"
    by (rule receive_internal [OF p assms(9)]) simp
  have "sender ?p = kEndToEndAckPrefix @ node" by (simp add: make_e2e_reliable_ack_packet_def)
  then have retired: "map_of (end_to_end_reliable_tx (end_to_end_acked pid (sender ?p) (b\<lparr>recent_ids := ids, recent_set := st\<rparr>))) pid = None"
    using assms(6-8) by (simp add: end_to_end_acked_def decode_ack_sender)
  obtain ids' st' where two: "router_receive_impl E w ?q (Some (sint j)) b =
      Some (handle_link_control E w ?q (Some (sint j)) (b\<lparr>recent_ids := ids', recent_set := st'\<rparr>))"
    by (rule receive_internal [OF q(1) p(2) q(2) assms(10)]) (simp add: ack_image)
  define b2 where "b2 = handle_ack_impl E (sint j) (local_type_or_wire E (from_le (take 4 (le_bytes 8 pid)))) (from_le (drop 4 (le_bytes 8 pid)))
      (b\<lparr>recent_ids := ids', recent_set := st'\<rparr>)"
  have link: "router_receive_impl E w ?q (Some (sint j)) b = Some b2"
    unfolding two b2_def by (simp add: handle_link_control_def ack_image)
  have keep: "end_to_end_reliable_tx b2 = end_to_end_reliable_tx b" "reliable_released_rx b2 = []" "rx_queue b2 = []"
    using rdy by (simp_all add: b2_def handle_ack_impl_def Let_def split: option.split)
  obtain frame where "peek_frame_info E (serialize_packet E ?p) True = Some (Some frame)" "reliable frame = None" "\<not> ack_only frame"
    "env_ty (envelope frame) = SEDS_DT_RELIABLE_ACK" "deserialize_packet E (serialize_packet E ?p) = Some (Some ?q)"
    using ack_frame_read [OF assms(1-3)] .
  then have "seds_router_receive_serialized_from_side E w j (serialize_packet E ?p) b = Some (SEDS_OK, b2)"
    using rdy link keep(2,3) enqueue_released_nothing [of b2] drain_rx_empty [of b2 E w]
    by (simp add: seds_router_receive_serialized_from_side_def accept_frame_def process_reliable_ingress_def
        process_reliable_ingress_impl_def show_serialized_def shown_serialized_def seds_router_process_rx_queue_def)
  then show ?thesis using one retired keep(1) assms(7) b2_def by auto
qed

definition awaited :: end_to_end_sent where
  "awaited = \<lparr>e2e_pkt = command_packet, pending_destinations = [(sender_hash ''CPP'', 0)], tracked_destinations = True,
     e2e_last_send_ms = 0, e2e_retries = 0, e2e_queued = False\<rparr>"

lemma sample_ack:
  "wire_ok sample_env (e2e_ack sample_env 7 0 ''CPP'')" "\<not> has_v4_reliable_header sample_env SEDS_DT_RELIABLE_ACK"
  "named_endpoints sample_env (ti_endpoints (type_at sample_env SEDS_DT_RELIABLE_ACK))"
  by (simp_all add: wire_ok_def make_e2e_reliable_ack_packet_def valid_type_def sample_defs type_at_def append_le_def
      wire_endpoints_ok_def v4_type_id_def builtin_wire_id_def v4_type_names_def local_type_id_def type_by_name_def v4_endpoint_id_def
      local_endpoint_id_def valid_endpoint_def endpoint_at_def word_le_nat_alt has_v4_reliable_header_def ti_reliable_def
      named_endpoints_def endpoint_text_def)

theorem end_to_end_ack_lost_witness:
  "\<exists>b1 b2. router_receive_impl sample_env sample_world (e2e_ack sample_env 7 0 ''CPP'') (Some 0)
       (sample_station\<lparr>end_to_end_reliable_tx := [(7, awaited)]\<rparr>) = Some b1 \<and> map_of (end_to_end_reliable_tx b1) 7 = None \<and>
     seds_router_receive_serialized_from_side sample_env sample_world 0 (serialize_packet sample_env (e2e_ack sample_env 7 0 ''CPP''))
       (sample_station\<lparr>end_to_end_reliable_tx := [(7, awaited)]\<rparr>) = Some (SEDS_OK, b2) \<and>
     map_of (end_to_end_reliable_tx b2) 7 = Some awaited"
proof -
  let ?b = "sample_station\<lparr>end_to_end_reliable_tx := [(7, awaited)]\<rparr>"
  have b: "router_ready 0 ?b" "map_of (end_to_end_reliable_tx ?b) 7 = Some awaited"
    "pending_destinations awaited = [(sender_hash ''CPP'', 0)]" "pid \<notin> set (recent_set ?b)" for pid
    by (simp_all add: router_ready_def ingress_side_def default_runtime_memory_config_def sample_side_def awaited_def)
  show ?thesis
    using end_to_end_ack_lost [OF sample_ack(1) zstd_inverts_sample sample_ack(2,3) b(1) _ b(2,3) b(4) b(4), of sample_world] by auto
qed

end
