(* ===== verification/Spec2Isabelle.thy ===== *)
theory Spec2Isabelle
  imports Interface_Facts Crypto_Facts Export_Facts Cpp_Facts
    Wrapper_Facts Shortcut_Facts Network_Facts Acknowledgements
begin

text \<open>
  A verification development of SEDSnet (C++), a telemetry network library. A network consists of
  \<^emph>\<open>routers\<close>, which own local endpoints, and \<^emph>\<open>relays\<close>, which only forward. Nodes are connected by
  \<^emph>\<open>sides\<close>: callbacks that transmit a serialized frame or a packet. A packet has a type, a sender, a
  list of endpoints, a time stamp and a payload; a process-wide schema says which types and
  endpoints exist. Applications log, transmit and receive packets through a C interface; every
  call works on the queues of one node under its lock.

  \<^bold>\<open>What is modelled.\<close> Each theory follows the code it names; definitions keep the source's names.

  \<^item> \<open>Prelude\<close>: machine integers, result codes, byte order, association lists for the maps of the
    code (\<open>mput\<close>, \<open>mget\<close>, \<open>merase\<close>), bounds-checked reads.
  \<^item> \<open>Schema\<close>: the type and endpoint tables of \<open>Cpp-Headers/internal.hpp\<close> and \<open>src/core.cpp\<close>, the
    tuning configuration, and the translation between local and wire identifiers
    (\<open>src/serialize.cpp\<close>). The tables are the record \<open>env\<close>, an argument of all operations.
  \<^item> \<open>Packets\<close>: packets, views, checksum, hashes, identities and the packets the library builds.
  \<^item> \<open>Wire\<close>: writers and readers of version 4 and legacy frames (\<open>src/serialize.cpp\<close>). \<open>None\<close> is
    undefined behaviour or an exception of the source, \<open>Some None\<close> a rejected frame. Every access
    through a cursor (\<open>next_byte\<close>, \<open>advance\<close>, \<open>read_ptr\<close>) is a fault behind the end, so that the tests of
    the code are what keeps its readers safe. The ZSTD
    library is a field of \<open>env\<close>; that it inverts is the hypothesis \<open>zstd_inverts\<close>.
  \<^item> \<open>Samples\<close>: a concrete schema and packets on which the theorems are applied.
  \<^item> \<open>Queues\<close>: byte-budgeted queues, the shared budget and the cache of recent identities
    (\<open>src/queue.cpp\<close>, \<open>push_recent\<close>). The locale \<open>bounded_queue\<close> states the contract of a queue and is
    interpreted on the transmit and the receive queue.
  \<^item> \<open>Topology\<close>, \<open>Discovery\<close>: board lists, discovery payloads (\<open>discovery_helpers.hpp\<close>) and learning,
    ageing, leaving and announcing (\<open>src/discovery.cpp\<close>).
  \<^item> \<open>State\<close>: the records of \<open>SedsRouter\<close> and \<open>SedsRelay\<close>. What they share is the record \<open>owner\<close>, so
    that the templates of the source are functions on \<open>owner\<close> schemes. Callbacks are recorded in
    \<open>trace\<close>; the clock and the answers of callbacks are functions of it (\<open>world\<close>).
  \<^item> \<open>Routing\<close>, \<open>Reliable\<close>, \<open>Endtoend\<close>, \<open>Router\<close>: \<open>src/router_core.cpp\<close>: choice of destinations (the
    locale \<open>destination_policy\<close> is what selection needs of a policy), numbered links, end-to-end
    acknowledgements, local delivery, \<open>transmit_item\<close>, \<open>router_receive_impl\<close>, \<open>relay_receive_impl\<close>.
  \<^item> \<open>Timesync\<close>: calendar arithmetic, time packets and the network clock (\<open>src/timesync.cpp\<close>,
    \<open>router_core.cpp\<close>, \<open>router_api.cpp\<close>).
  \<^item> \<open>P2p\<close>, \<open>Managed\<close>: peer-to-peer messages and streams, and managed variables
    (\<open>src/upstream_api_compat.cpp\<close>).
  \<^item> \<open>Sides\<close>, \<open>Interface\<close>, \<open>Relay_Interface\<close>: construction, sides, routes, logging, reception and
    the queue loops of \<open>src/router_api.cpp\<close> and \<open>src/relay_api.cpp\<close>.
  \<^item> \<open>Sha256\<close>, \<open>Crypto\<close>: the hash class, message authentication, sealing and opening of payloads and
    managed credentials (\<open>src/upstream_api_compat.cpp\<close>). A provider that the application registers is
    a function; buffers are given with their capacity.
  \<^item> \<open>Registry\<close>, \<open>Schema_Json\<close>: registration, removal and queries of endpoints and types at run time, and
    the reader of schema texts (\<open>src/upstream_api_compat.cpp\<close>). Environment and file system are
    arguments.
  \<^item> \<open>Packet_Text\<close>, \<open>Packet_Access\<close>: rendering of packets as text, the accessors for packet views
    (\<open>src/packet_api.cpp\<close>, \<open>internal.hpp\<close>), the payload buffer (\<open>small_payload.hpp\<close>) and the class \<open>Packet\<close>
    (\<open>src/packet.cpp\<close>). A pointer is an option, an exception an \<open>Inl\<close>; floating-point elements are
    rendered from their bits.
  \<^item> \<open>Packed\<close>: the packed interface and the transport profiles of sides (\<open>src/upstream_api_compat.cpp\<close>).
  \<^item> \<open>Export\<close>: the topology snapshot and the JSON texts of topology, client statistics, runtime
    statistics and memory layout (\<open>src/router.cpp\<close>, \<open>src/packet_api.cpp\<close>, \<open>src/upstream_api_compat.cpp\<close>).
  \<^item> \<open>Cpp_Nodes\<close>: the classes \<open>Router\<close> and \<open>Relay\<close> (\<open>src/router.cpp\<close>, \<open>src/relay.cpp\<close>).
  \<^item> \<open>Wrapper\<close>, \<open>Shortcuts\<close>: the C wrapper with its two static nodes (\<open>c-wrapper/sedsnet_c_wrapper.c\<close>), the
    C++ wrapper (\<open>c-wrapper/sedsnet_cpp_wrapper.hpp\<close>) and the inline functions of \<open>C-Headers/sedsnet.h\<close>,
    \<open>config.hpp\<close> and \<open>macros.hpp\<close>.

  \<^bold>\<open>What is proved.\<close> \<open>Wire_Facts\<close>: round trips of frames, agreement of the two readers, detection of
  corruption, absence of faults, the size of frames. \<open>Reliable_Facts\<close>: ordered delivery without loss
  (inside the receive window) or repetition, windows and retries. \<open>Discovery_Facts\<close>, \<open>Timesync_Facts\<close>, \<open>P2p_Facts\<close>,
  \<open>Sides_Facts\<close>: the contracts of these components. \<open>Router_Frame\<close> and \<open>Receive_Frame\<close>: what transmission and
  reception leave unchanged, from which the loops terminate. \<open>Delivery\<close>: what reception and local
  delivery do, and a packet crossing a link between two nodes. \<open>Relay_Facts\<close>: forwarding. \<open>Network\<close>,
  \<open>Network_Facts\<close>: nodes joined by links. The locale \<open>forwarder\<close> states what a path asks of a node; it is
  interpreted on relays and on routers in relay mode, \<open>two_forwarders\<close> combines the two, and a path of
  any length and mixture carries a packet to the handlers at its end. \<open>Exchange\<close>: conversations on a
  reliable link, with the acknowledgements on their way back. \<open>Acknowledgements\<close>: end-to-end
  acknowledgements as packets and as frames. \<open>Reachable\<close>: the interface as a step relation,
  and invariants of every reachable router and relay.
  \<open>Interface_Facts\<close>: the queue loops, logging, and managed variables. \<open>Sha256\<close>: the streaming hash
  refines the definition of the standard. \<open>Crypto_Facts\<close>: sealing, opening and credentials.
  \<open>Registry_Facts\<close>, \<open>Schema_Json_Facts\<close>: consistency of the schema under registration, lookups, the
  schema reader, and what an accepted schema text registers. \<open>Packet_Facts\<close>: time texts determine the time, typed reads, buffers for
  texts, and the round trip of packet objects. \<open>Export_Facts\<close>: the grammar of JSON, in which the
  exported texts denote the documents they report, except for the runtime statistics; the locale \<open>json_scanner\<close> states what a left-to-right
  scanner needs to pass over a document, and is interpreted on two scanners. \<open>Cpp_Facts\<close>: the classes
  refine the interface. \<open>Wrapper_Facts\<close>: the nodes of a program that uses the wrapper. \<open>Shortcut_Facts\<close>:
  references by name, logged and read elements, strings. The locales \<open>step_frame\<close> and \<open>step_invariant\<close> of \<open>Prelude\<close> lift what
  one call keeps to sequences of calls; they are interpreted on the step relations of the router,
  the relay, the registry, the objects and the program. Some properties state
  defects: what the code does where a caller would expect something else.

  \<^bold>\<open>Termination and bounds.\<close> Loops over queues are functions whose measure is the number of queued
  items; the relay's loop over both queues counts received items twice, since each may become one
  transmission. The router's loops over both queues may run as long as handlers keep queueing,
  and are partial functions, where \<open>None\<close> also stands for not returning; they are
  shown to return where one round is enough (\<open>router_works_off_one\<close>). No fuel is used. Counters are words of the width of the source;
  \<open>size_t\<close> values that are lengths of containers are natural numbers, and products of \<open>size_t\<close> values
  wrap (\<open>size_mul\<close>).

  \<^bold>\<open>What is not modelled.\<close> Null node pointers, which every function rejects at once; the locks, and
  callbacks that call the interface again: calls are sequential. Hash map iteration order: the
  maps are association lists, iterated in insertion order. The declarations of the headers as such, and the
  macros of \<open>sedsnet.h\<close> for C11, which repeat its inline functions; \<open>sedsprintf.h\<close> is a copy of it. The examples, which only call the
  interface, and the script that generates the initial schema tables, which are the argument \<open>env\<close>.
\<close>

end
